(* ===== verification/Prelude.thy ===== *)
theory Prelude
  imports Main
begin

text \<open>
  Shared vocabulary of the development.

  \<^item> Instants (\<^verbatim>\<open>datetime\<close> in UTC) are integers counting microseconds; a \<^verbatim>\<open>timedelta\<close>
    is a difference of two of them. The calendar bounds of \<^verbatim>\<open>datetime\<close> are not modelled.
  \<^item> Strings are \<open>string\<close>; \<open>strip\<close>, \<open>lower\<close> and \<open>upper\<close> are Python's methods read on
    code points below 256 for white space and on ASCII letters for case.
  \<^item> A UUID is its canonical text, so \<^verbatim>\<open>str(uuid)\<close> is the value itself.
  \<^item> A raised exception is the \<open>Inl\<close> of the result type \<open>'a res\<close>; \<open>bindE\<close> sequences
    fallible steps and stops at the first exception.
  \<^item> JSON payloads (\<^verbatim>\<open>dict[str, Any]\<close>) are association lists in insertion order.
  \<^item> A database table is a list of rows with the counter of its identity column. The locale
    \<open>keyed_table\<close> states what a row type must offer (its key and how the database
    assigns it) and derives what lookups return after inserts and updates.
\<close>

section \<open>Time, identifiers, exceptions\<close>

type_synonym time = int
type_synonym uuid = string

definition seconds :: "int \<Rightarrow> int" where
  "seconds n = n * 1000000"

definition days :: "int \<Rightarrow> int" where
  "days n = n * 86400000000"

datatype error =
    InvalidStateTransition string
  | DomainValidationError string
  | PaymentInvariantViolation string
  | NotFoundError string
  | ConflictError string
  | ValidationError string
  | WebhookAuthenticationError string
  | WebhookPayloadError string
  | NodeAuthError string
  | RuntimeError string
  | ValueError string
  | TypeError string
  | KeyError string
  | IntegrityError string
  | DataError string
  | GatewayError string
  | QueueError string
  | ArithmeticError string
  | HTTPException int string

type_synonym 'a res = "error + 'a"

definition bindE :: "'a res \<Rightarrow> ('a \<Rightarrow> 'b res) \<Rightarrow> 'b res" where
  "bindE m f = (case m of Inl e \<Rightarrow> Inl e | Inr x \<Rightarrow> f x)"

definition ensure :: "bool \<Rightarrow> error \<Rightarrow> unit res" where
  "ensure b e = (if b then Inr () else Inl e)"

definition require :: "error \<Rightarrow> 'a option \<Rightarrow> 'a res" where
  "require e x = (case x of None \<Rightarrow> Inl e | Some v \<Rightarrow> Inr v)"

fun mapE :: "('a \<Rightarrow> 'b res) \<Rightarrow> 'a list \<Rightarrow> 'b list res" where
  "mapE f [] = Inr []"
| "mapE f (x # xs) = bindE (f x) (\<lambda>y. bindE (mapE f xs) (\<lambda>ys. Inr (y # ys)))"

section \<open>Strings\<close>

definition is_space :: "char \<Rightarrow> bool" where
  "is_space c = (let n = (of_char c :: nat) in
     (9 \<le> n \<and> n \<le> 13) \<or> (28 \<le> n \<and> n \<le> 32) \<or> n = 133 \<or> n = 160)"

definition lstrip :: "string \<Rightarrow> string" where
  "lstrip s = dropWhile is_space s"

definition strip :: "string \<Rightarrow> string" where
  "strip s = rev (lstrip (rev (lstrip s)))"

definition lower_char :: "char \<Rightarrow> char" where
  "lower_char c = (let n = (of_char c :: nat) in if 65 \<le> n \<and> n \<le> 90 then char_of (n + 32) else c)"

definition upper_char :: "char \<Rightarrow> char" where
  "upper_char c = (let n = (of_char c :: nat) in if 97 \<le> n \<and> n \<le> 122 then char_of (n - 32) else c)"

definition lower :: "string \<Rightarrow> string" where
  "lower s = map lower_char s"

definition upper :: "string \<Rightarrow> string" where
  "upper s = map upper_char s"

fun starts_with :: "string \<Rightarrow> string \<Rightarrow> bool" where
  "starts_with [] s = True"
| "starts_with (p # ps) [] = False"
| "starts_with (p # ps) (c # cs) = (p = c \<and> starts_with ps cs)"

fun contains_str :: "string \<Rightarrow> string \<Rightarrow> bool" where
  "contains_str p [] = (p = [])"
| "contains_str p (c # cs) = (starts_with p (c # cs) \<or> contains_str p cs)"

fun show_nat :: "nat \<Rightarrow> string" where
  "show_nat n = (if n < 10 then [char_of (48 + n)] else show_nat (n div 10) @ [char_of (48 + n mod 10)])"

declare show_nat.simps [simp del]

definition show_int :: "int \<Rightarrow> string" where
  "show_int i = (if i < 0 then CHR ''-'' # show_nat (nat (- i)) else show_nat (nat i))"

definition or_else :: "string option \<Rightarrow> string \<Rightarrow> string" where
  "or_else s d = (case s of None \<Rightarrow> d | Some v \<Rightarrow> if v = [] then d else v)"

section \<open>JSON values\<close>

datatype json =
    JNull
  | JBool bool
  | JInt int
  | JStr string
  | JList "json list"
  | JObj "(string \<times> json) list"

type_synonym dict = "(string \<times> json) list"

definition dict_get :: "dict \<Rightarrow> string \<Rightarrow> json option" where
  "dict_get d k = map_of d k"

fun dict_set :: "string \<Rightarrow> json \<Rightarrow> dict \<Rightarrow> dict" where
  "dict_set k v [] = [(k, v)]"
| "dict_set k v ((k', v') # d) = (if k = k' then (k, v) # d else (k', v') # dict_set k v d)"

text \<open>\<^verbatim>\<open>d.get(k)\<close> as a value, with Python's \<^verbatim>\<open>None\<close> for \<open>JNull\<close>.\<close>

definition dict_value :: "dict \<Rightarrow> string \<Rightarrow> json" where
  "dict_value d k = (case dict_get d k of None \<Rightarrow> JNull | Some v \<Rightarrow> v)"

fun truthy :: "json \<Rightarrow> bool" where
  "truthy JNull = False"
| "truthy (JBool b) = b"
| "truthy (JInt i) = (i \<noteq> 0)"
| "truthy (JStr s) = (s \<noteq> [])"
| "truthy (JList xs) = (xs \<noteq> [])"
| "truthy (JObj xs) = (xs \<noteq> [])"

text \<open>Python's \<^verbatim>\<open>a or b\<close> on the results of \<^verbatim>\<open>dict.get\<close>.\<close>

definition get_or :: "json option \<Rightarrow> json option \<Rightarrow> json option" where
  "get_or a b = (case a of None \<Rightarrow> b | Some v \<Rightarrow> if truthy v then Some v else b)"

definition opt_str :: "string option \<Rightarrow> json" where
  "opt_str s = (case s of None \<Rightarrow> JNull | Some v \<Rightarrow> JStr v)"

section \<open>Tables\<close>

record 'r table =
  rows :: "'r list"
  next_id :: int

definition empty_table :: "'r table" where
  "empty_table = \<lparr>rows = [], next_id = 1\<rparr>"

definition get_row :: "('r \<Rightarrow> int option) \<Rightarrow> int \<Rightarrow> 'r table \<Rightarrow> 'r option" where
  "get_row key i t = List.find (\<lambda>r. key r = Some i) (rows t)"

definition find_row :: "('r \<Rightarrow> bool) \<Rightarrow> 'r table \<Rightarrow> 'r option" where
  "find_row P t = List.find P (rows t)"

definition select_rows :: "('r \<Rightarrow> bool) \<Rightarrow> 'r table \<Rightarrow> 'r list" where
  "select_rows P t = filter P (rows t)"

definition insert_row :: "(int \<Rightarrow> 'r \<Rightarrow> 'r) \<Rightarrow> 'r \<Rightarrow> 'r table \<Rightarrow> 'r \<times> 'r table" where
  "insert_row with_key r t =
     (let r' = with_key (next_id t) r
      in (r', t\<lparr>rows := rows t @ [r'], next_id := next_id t + 1\<rparr>))"

definition update_where :: "('r \<Rightarrow> bool) \<Rightarrow> ('r \<Rightarrow> 'r) \<Rightarrow> 'r table \<Rightarrow> 'r table" where
  "update_where P f t = t\<lparr>rows := map (\<lambda>r. if P r then f r else r) (rows t)\<rparr>"

definition update_row :: "('r \<Rightarrow> int option) \<Rightarrow> int \<Rightarrow> ('r \<Rightarrow> 'r) \<Rightarrow> 'r table \<Rightarrow> 'r table" where
  "update_row key i f t = update_where (\<lambda>r. key r = Some i) f t"

definition delete_where :: "('r \<Rightarrow> bool) \<Rightarrow> 'r table \<Rightarrow> 'r table" where
  "delete_where P t = t\<lparr>rows := filter (\<lambda>r. \<not> P r) (rows t)\<rparr>"

text \<open>\<^verbatim>\<open>ORDER BY k DESC LIMIT 1\<close>; among equal keys the first row wins.\<close>

fun top_by :: "('r \<Rightarrow> 'k::linorder) \<Rightarrow> 'r list \<Rightarrow> 'r option" where
  "top_by k [] = None"
| "top_by k (r # rs) =
     (case top_by k rs of None \<Rightarrow> Some r | Some m \<Rightarrow> if k m \<le> k r then Some r else Some m)"

definition table_wf :: "('r \<Rightarrow> int option) \<Rightarrow> 'r table \<Rightarrow> bool" where
  "table_wf key t \<longleftrightarrow>
     0 < next_id t \<and> distinct (map key (rows t)) \<and>
     list_all (\<lambda>r. case key r of None \<Rightarrow> False | Some i \<Rightarrow> 0 < i \<and> i < next_id t) (rows t)"

section \<open>Collections of rules\<close>

named_theorems res_simps \<open>evaluation of results\<close>
named_theorems table_simps \<open>lookups after table updates\<close>
named_theorems entity_defs \<open>definitions of entity operations\<close>
named_theorems repo_defs \<open>definitions of repository operations\<close>

section \<open>Results\<close>

lemma bindE_Inr [simp, res_simps]: "bindE (Inr x) f = f x"
  by (simp add: bindE_def)

lemma bindE_Inl [simp, res_simps]: "bindE (Inl e) f = Inl e"
  by (simp add: bindE_def)

lemma bindE_eq_Inr: "bindE m f = Inr y \<longleftrightarrow> (\<exists>x. m = Inr x \<and> f x = Inr y)"
  by (cases m) (auto simp: bindE_def)

lemma bindE_eq_Inl: "bindE m f = Inl e \<longleftrightarrow> m = Inl e \<or> (\<exists>x. m = Inr x \<and> f x = Inl e)"
  by (cases m) (auto simp: bindE_def)

lemma ensure_eq_Inr [simp, res_simps]: "ensure b e = Inr u \<longleftrightarrow> b"
  by (cases u) (simp add: ensure_def)

lemma ensure_True [simp, res_simps]: "ensure True e = Inr ()"
  by (simp add: ensure_def)

lemma ensure_False [simp, res_simps]: "ensure False e = Inl e"
  by (simp add: ensure_def)

lemma require_Some [simp, res_simps]: "require e (Some v) = Inr v"
  by (simp add: require_def)

lemma require_None [simp, res_simps]: "require e None = Inl e"
  by (simp add: require_def)

lemma require_eq_Inr [simp, res_simps]: "require e x = Inr v \<longleftrightarrow> x = Some v"
  by (cases x) (auto simp: require_def)

lemma mapE_eq_map: "(\<And>x. x \<in> set xs \<Longrightarrow> f x = Inr (g x)) \<Longrightarrow> mapE f xs = Inr (map g xs)"
  by (induction xs) simp_all

lemma mapE_length: "mapE f xs = Inr ys \<Longrightarrow> length ys = length xs"
  by (induction xs arbitrary: ys) (auto simp: bindE_eq_Inr)

section \<open>Strings and time\<close>

lemma seconds_pos [simp]: "0 < seconds n \<longleftrightarrow> 0 < n"
  by (simp add: seconds_def)

lemma seconds_nonneg [simp]: "0 \<le> seconds n \<longleftrightarrow> 0 \<le> n"
  by (simp add: seconds_def)

lemma seconds_mono [simp]: "seconds a \<le> seconds b \<longleftrightarrow> a \<le> b"
  by (simp add: seconds_def)

lemma days_pos [simp]: "0 < days n \<longleftrightarrow> 0 < n"
  by (simp add: days_def)

lemma hd_lstrip: "lstrip s \<noteq> [] \<Longrightarrow> \<not> is_space (hd (lstrip s))"
  by (simp add: lstrip_def hd_dropWhile)

lemma lstrip_idem: "s = [] \<or> \<not> is_space (hd s) \<Longrightarrow> lstrip s = s"
  by (cases s) (auto simp: lstrip_def)

lemma last_lstrip: "lstrip s \<noteq> [] \<Longrightarrow> last (lstrip s) = last s"
  unfolding lstrip_def by (metis append_Nil2 last_appendR takeWhile_dropWhile_id)

lemma strip_ends:
  assumes "strip s \<noteq> []"
  shows "\<not> is_space (hd (strip s))" and "\<not> is_space (last (strip s))"
proof -
  let ?u = "lstrip s" and ?v = "lstrip (rev (lstrip s))"
  from assms have v: "?v \<noteq> []" by (simp add: strip_def)
  have u: "?u \<noteq> []"
  proof
    assume "?u = []"
    then have "?v = lstrip (rev [])" by (simp only:)
    with v show False by (simp add: lstrip_def)
  qed
  have "hd (strip s) = last ?v" by (simp add: strip_def v hd_rev)
  also have "\<dots> = hd ?u" using v u by (simp add: last_lstrip last_rev)
  finally show "\<not> is_space (hd (strip s))" using hd_lstrip [OF u] by simp
  have "last (strip s) = hd ?v" by (simp add: strip_def v last_rev)
  then show "\<not> is_space (last (strip s))" using hd_lstrip [OF v] by simp
qed

lemma strip_idem [simp]: "strip (strip s) = strip s"
proof (cases "strip s = []")
  case True
  have "strip [] = []" by (simp add: strip_def lstrip_def)
  with True show ?thesis by simp
next
  case False
  have "lstrip (strip s) = strip s"
    using strip_ends(1) [OF False] by (intro lstrip_idem) simp
  moreover have "lstrip (rev (strip s)) = rev (strip s)"
    using strip_ends(2) [OF False] False by (intro lstrip_idem) (simp add: hd_rev)
  ultimately show ?thesis by (simp add: strip_def [of "strip s"])
qed

section \<open>Tables\<close>

lemma find_Some_iff: "List.find P xs = Some x \<Longrightarrow> P x \<and> x \<in> set xs"
  by (induction xs) (auto split: if_splits)

lemma find_None_iff: "List.find P xs = None \<longleftrightarrow> (\<forall>x \<in> set xs. \<not> P x)"
  by (induction xs) auto

lemma find_append: "List.find P (xs @ ys) = (case List.find P xs of None \<Rightarrow> List.find P ys | Some x \<Rightarrow> Some x)"
  by (induction xs) auto

lemma find_map_if:
  assumes "\<And>r. P (f r) = P r"
  shows "List.find P (map f rs) = map_option f (List.find P rs)"
  using assms by (induction rs) auto

lemma find_update_where:
  "(\<And>r. P (f r) = P r) \<Longrightarrow> find_row P (update_where Q f t) = map_option (\<lambda>r. if Q r then f r else r) (find_row P t)"
  by (simp add: find_row_def update_where_def find_map_if)

lemma find_row_NoneD: "find_row P t = None \<Longrightarrow> r \<in> set (rows t) \<Longrightarrow> \<not> P r"
  by (auto simp: find_row_def find_None_iff)

lemma top_by_None [simp]: "top_by k rs = None \<longleftrightarrow> rs = []"
  by (cases rs) (auto split: option.splits if_splits)

lemma top_by_in: "top_by k rs = Some m \<Longrightarrow> m \<in> set rs"
  by (induction rs arbitrary: m) (auto split: option.splits if_splits)

lemma top_by_max: "top_by k rs = Some m \<Longrightarrow> r \<in> set rs \<Longrightarrow> k r \<le> k m"
  by (induction rs arbitrary: m) (fastforce split: option.splits if_splits)+

lemma rows_update_where [simp]:
  "rows (update_where P f t) = map (\<lambda>r. if P r then f r else r) (rows t)"
  by (simp add: update_where_def)

lemma next_id_update_where [simp]: "next_id (update_where P f t) = next_id t"
  by (simp add: update_where_def)

lemma rows_update_row [simp]:
  "rows (update_row key i f t) = map (\<lambda>r. if key r = Some i then f r else r) (rows t)"
  by (simp add: update_row_def)

lemma get_row_key: "get_row key i t = Some r \<Longrightarrow> key r = Some i \<and> r \<in> set (rows t)"
  by (auto simp: get_row_def dest: find_Some_iff)

lemma get_row_None: "get_row key i t = None \<longleftrightarrow> (\<forall>r \<in> set (rows t). key r \<noteq> Some i)"
  by (simp add: get_row_def find_None_iff)

lemma find_row_SomeD: "find_row P t = Some r \<Longrightarrow> P r \<and> r \<in> set (rows t)"
  by (simp add: find_row_def find_Some_iff)

lemma list_all_update_where:
  "(\<And>r. Q r \<Longrightarrow> Q (f r)) \<Longrightarrow> list_all Q (rows t) \<Longrightarrow> list_all Q (rows (update_where P f t))"
  by (auto simp: list_all_iff)

lemma list_all_update_row:
  "(\<And>r. Q r \<Longrightarrow> Q (f r)) \<Longrightarrow> list_all Q (rows t) \<Longrightarrow> list_all Q (rows (update_row key i f t))"
  unfolding update_row_def by (rule list_all_update_where)

locale keyed_table =
  fixes key :: "'r \<Rightarrow> int option"
    and with_key :: "int \<Rightarrow> 'r \<Rightarrow> 'r"
  assumes key_with_key [simp]: "key (with_key i r) = Some i"
begin

lemma wf_row_range:
  assumes "table_wf key t" and "r \<in> set (rows t)"
  obtains i where "key r = Some i" and "0 < i" and "i < next_id t"
  using assms by (auto simp: table_wf_def list_all_iff split: option.splits)

lemma wf_unique:
  assumes "table_wf key t" and "r \<in> set (rows t)" and "r' \<in> set (rows t)" and "key r = key r'"
  shows "r = r'"
  using assms by (auto simp: table_wf_def distinct_map inj_on_def)

lemma get_row_member:
  assumes "table_wf key t" and "r \<in> set (rows t)" and "key r = Some i"
  shows "get_row key i t = Some r"
proof -
  obtain r' where r': "get_row key i t = Some r'"
    using assms(2,3) by (metis get_row_None not_None_eq)
  then have "key r' = Some i" and "r' \<in> set (rows t)" by (auto dest: get_row_key)
  with assms have "r' = r" by (intro wf_unique) auto
  with r' show ?thesis by simp
qed

lemma get_row_new:
  assumes "table_wf key t"
  shows "get_row key (next_id t) t = None"
proof -
  have "key r \<noteq> Some (next_id t)" if r: "r \<in> set (rows t)" for r
  proof -
    obtain i where "key r = Some i" and "i < next_id t"
      using wf_row_range [OF assms r] by blast
    then show ?thesis by simp
  qed
  then show ?thesis by (simp add: get_row_None)
qed

lemma insert_row_lookup:
  assumes "table_wf key t" and "insert_row with_key r t = (r', t')"
  shows "get_row key j t' = (if j = next_id t then Some r' else get_row key j t)"
    and "r' = with_key (next_id t) r"
    and "rows t' = rows t @ [r']"
proof -
  from assms(2) have t': "rows t' = rows t @ [r']" and r': "r' = with_key (next_id t) r"
    by (auto simp: insert_row_def Let_def)
  show "r' = with_key (next_id t) r" by (fact r')
  show "rows t' = rows t @ [r']" by (fact t')
  show "get_row key j t' = (if j = next_id t then Some r' else get_row key j t)"
  proof (cases "j = next_id t")
    case True
    with get_row_new [OF assms(1)] show ?thesis by (simp add: get_row_def find_append t' r')
  next
    case False
    then show ?thesis by (simp add: get_row_def find_append t' r' split: option.splits)
  qed
qed

lemma insert_row_wf:
  assumes "table_wf key t" and "insert_row with_key r t = (r', t')"
  shows "table_wf key t'"
proof -
  from assms(2) have t': "rows t' = rows t @ [with_key (next_id t) r]"
    and n': "next_id t' = next_id t + 1"
    by (auto simp: insert_row_def Let_def)
  have new: "Some (next_id t) \<notin> key ` set (rows t)"
    using get_row_new [OF assms(1)] by (force simp: get_row_None)
  have "case key x of None \<Rightarrow> False | Some i \<Rightarrow> 0 < i \<and> i < next_id t'"
    if x: "x \<in> set (rows t')" for x
  proof (cases "x \<in> set (rows t)")
    case True
    then obtain i where "key x = Some i" "0 < i" "i < next_id t"
      using wf_row_range [OF assms(1)] by blast
    then show ?thesis by (simp add: n')
  next
    case False
    with x t' have "x = with_key (next_id t) r" by simp
    with assms(1) show ?thesis by (simp add: n' table_wf_def)
  qed
  then have "list_all (\<lambda>r. case key r of None \<Rightarrow> False | Some i \<Rightarrow> 0 < i \<and> i < next_id t') (rows t')"
    by (simp add: list_all_iff)
  moreover have "distinct (map key (rows t'))"
    using assms(1) new by (simp add: t' table_wf_def)
  moreover have "0 < next_id t'"
    using assms(1) by (simp add: n' table_wf_def)
  ultimately show ?thesis by (simp add: table_wf_def)
qed

lemma insert_row_wf_snd: "table_wf key t \<Longrightarrow> table_wf key (snd (insert_row with_key r t))"
  by (metis insert_row_wf prod.collapse)

lemma update_where_lookup:
  assumes "\<And>r. key (f r) = key r"
  shows "get_row key j (update_where P f t) =
           map_option (\<lambda>r. if P r then f r else r) (get_row key j t)"
  using assms by (simp add: get_row_def find_map_if)

lemma update_row_lookup:
  assumes "\<And>r. key (f r) = key r"
  shows "get_row key j (update_row key i f t) =
           (if j = i then map_option f (get_row key j t) else get_row key j t)"
proof (cases "get_row key j t")
  case None
  then have "get_row key j (update_row key i f t) = None"
    using assms by (simp add: update_row_def update_where_lookup)
  with None show ?thesis by auto
next
  case (Some r)
  then have "key r = Some j" by (auto dest: get_row_key)
  then have "get_row key j (update_row key i f t) = Some (if j = i then f r else r)"
    using Some assms by (simp add: update_row_def update_where_lookup)
  with Some show ?thesis by auto
qed

lemma update_where_wf:
  assumes "table_wf key t" and "\<And>r. key (f r) = key r"
  shows "table_wf key (update_where P f t)"
proof -
  have k: "key (if P r then f r else r) = key r" for r
    using assms(2) by simp
  have keys: "map key (rows (update_where P f t)) = map key (rows t)"
    by (simp add: comp_def k)
  have wf: "table_wf key u \<longleftrightarrow> 0 < next_id u \<and> distinct (map key (rows u)) \<and>
      list_all (\<lambda>k. case k of None \<Rightarrow> False | Some i \<Rightarrow> 0 < i \<and> i < next_id u) (map key (rows u))" for u :: "'r table"
    by (simp add: table_wf_def list_all_iff)
  show ?thesis
    using assms(1) unfolding wf keys next_id_update_where .
qed

lemma update_row_wf:
  "table_wf key t \<Longrightarrow> (\<And>r. key (f r) = key r) \<Longrightarrow> table_wf key (update_row key i f t)"
  by (simp add: update_row_def update_where_wf)

lemma empty_table_wf: "table_wf key empty_table"
  by (simp add: table_wf_def empty_table_def)

end

section \<open>Monotone lifecycles\<close>

text \<open>
  What the entities' status fields have in common: every operation moves a rank upwards or leaves it,
  and final states are left unchanged by every operation. The laws carry over to any sequence of
  operations.
\<close>

locale lifecycle =
  fixes step :: "'s \<Rightarrow> 's \<Rightarrow> bool"
    and rank :: "'s \<Rightarrow> nat"
    and final :: "'s \<Rightarrow> bool"
  assumes rank_step: "step s t \<Longrightarrow> rank s \<le> rank t"
    and final_step: "final s \<Longrightarrow> step s t \<Longrightarrow> t = s"
begin

lemma rank_steps: "step\<^sup>*\<^sup>* s t \<Longrightarrow> rank s \<le> rank t"
  by (induction rule: rtranclp_induct) (auto dest: rank_step)

lemma final_steps: "step\<^sup>*\<^sup>* s t \<Longrightarrow> final s \<Longrightarrow> t = s"
  by (induction rule: rtranclp_induct) (auto dest: final_step)

lemma no_return: "step\<^sup>*\<^sup>* s t \<Longrightarrow> step\<^sup>*\<^sup>* t s \<Longrightarrow> rank t = rank s"
  by (auto dest: rank_steps intro: antisym)

end

end
