(* ===== verification/Money.thy ===== *)
theory Money
  imports Prelude
begin

text \<open>
  The value objects of \<^verbatim>\<open>domain/value_objects/money.py\<close> and \<^verbatim>\<open>identifiers.py\<close>.

  A finite \<^verbatim>\<open>Decimal\<close> is \<open>Decimal c e\<close>, the number \<open>c * 10 ^ e\<close>; the argument of \<open>from_major\<close> is
  the decimal that \<^verbatim>\<open>Decimal(str(amount))\<close> denotes. \<^verbatim>\<open>quantize\<close> raises
  \<^verbatim>\<open>InvalidOperation\<close> when the result needs more than the 28 digits of the default context;
  with at most 28 digits the multiplication and the division by 100 are exact.
\<close>

section \<open>Definitions\<close>

datatype decimal = Decimal (coeff: int) (exponent: int)

record Money =
  minor :: int
  currency :: string

definition Money_post_init :: "Money \<Rightarrow> Money res" where
  "Money_post_init m =
     (let normalized_currency = upper (strip (currency m)) in
      bindE (ensure (\<not> minor m < 0) (DomainValidationError ''Money amount cannot be negative'')) (\<lambda>_.
      bindE (ensure (normalized_currency \<noteq> []) (DomainValidationError ''Currency cannot be blank'')) (\<lambda>_.
      Inr (m\<lparr>currency := normalized_currency\<rparr>))))"

definition Money_new :: "int \<Rightarrow> string \<Rightarrow> Money res" where
  "Money_new amount cur = Money_post_init \<lparr>minor = amount, currency = cur\<rparr>"

definition round_half_up :: "int \<Rightarrow> int \<Rightarrow> int" where
  "round_half_up c d = sgn c * ((2 * \<bar>c\<bar> + d) div (2 * d))"

definition decimal_quantize_cents :: "decimal \<Rightarrow> int res" where
  "decimal_quantize_cents x =
     (let q = (if -2 \<le> exponent x then coeff x * 10 ^ nat (exponent x + 2)
               else round_half_up (coeff x) (10 ^ nat (- 2 - exponent x)))
      in bindE (ensure (\<bar>q\<bar> < 10 ^ 28) (ArithmeticError ''InvalidOperation'')) (\<lambda>_. Inr q))"

definition Money_from_major :: "decimal \<Rightarrow> string \<Rightarrow> Money res" where
  "Money_from_major amount cur = bindE (decimal_quantize_cents amount) (\<lambda>q. Money_new q cur)"

definition Money_major :: "Money \<Rightarrow> decimal res" where
  "Money_major m =
     bindE (ensure (\<bar>minor m\<bar> < 10 ^ 28) (ArithmeticError ''InvalidOperation'')) (\<lambda>_.
     Inr (Decimal (minor m) (- 2)))"

definition Money_ensure_same_currency :: "Money \<Rightarrow> Money \<Rightarrow> unit res" where
  "Money_ensure_same_currency self other =
     ensure (currency self = currency other)
       (DomainValidationError ''Money values must use the same currency'')"

definition Money_add :: "Money \<Rightarrow> Money \<Rightarrow> Money res" where
  "Money_add self other =
     bindE (Money_ensure_same_currency self other) (\<lambda>_.
     Money_new (minor self + minor other) (currency self))"

definition Money_sub :: "Money \<Rightarrow> Money \<Rightarrow> Money res" where
  "Money_sub self other =
     bindE (Money_ensure_same_currency self other) (\<lambda>_.
     bindE (ensure (\<not> minor other > minor self)
              (DomainValidationError ''Money result cannot be negative'')) (\<lambda>_.
     Money_new (minor self - minor other) (currency self)))"

definition EntityId_post_init :: "int \<Rightarrow> int res" where
  "EntityId_post_init v =
     bindE (ensure (0 < v) (DomainValidationError ''Entity identifier must be positive'')) (\<lambda>_. Inr v)"

text \<open>The values \<^verbatim>\<open>__post_init__\<close> leaves unchanged: what every constructed \<open>Money\<close> is.\<close>

definition money_wf :: "Money \<Rightarrow> bool" where
  "money_wf m \<longleftrightarrow> Money_post_init m = Inr m"

section \<open>Lemmas\<close>

lemma upper_char_idem: "upper_char (upper_char c) = upper_char c"
proof (cases "97 \<le> (of_char c :: nat) \<and> (of_char c :: nat) \<le> 122")
  case True
  then have "of_char (upper_char c) = (of_char c :: nat) - 32"
    by (auto simp: upper_char_def Let_def intro: mod_less)
  with True have "(of_char (upper_char c) :: nat) < 97" by linarith
  then show ?thesis by (simp add: upper_char_def [of "upper_char c"] Let_def)
next
  case False
  then show ?thesis by (auto simp: upper_char_def Let_def)
qed

lemma upper_idem [simp]: "upper (upper s) = upper s"
  by (simp add: upper_def upper_char_idem)

lemma upper_Nil [simp]: "upper s = [] \<longleftrightarrow> s = []"
  by (simp add: upper_def)

lemma is_space_upper_char [simp]: "is_space (upper_char c) = is_space c"
  by (auto simp: is_space_def upper_char_def Let_def)

lemma lstrip_upper: "lstrip (upper s) = upper (lstrip s)"
  by (induction s) (simp_all add: lstrip_def upper_def)

lemma rev_upper: "rev (upper s) = upper (rev s)"
  by (simp add: upper_def rev_map)

lemma strip_upper [simp]: "strip (upper s) = upper (strip s)"
  by (simp add: strip_def lstrip_upper rev_upper)

lemma Money_post_init_wf: "Money_post_init m = Inr m' \<Longrightarrow> money_wf m'"
  by (cases m) (auto simp: Money_post_init_def money_wf_def Let_def bindE_eq_Inr)

lemma money_wf_iff:
  "money_wf m \<longleftrightarrow> 0 \<le> minor m \<and> currency m \<noteq> [] \<and> upper (strip (currency m)) = currency m"
  by (cases m) (auto simp: money_wf_def Money_post_init_def Let_def bindE_eq_Inr)

lemma Money_new_eq_Inr:
  "Money_new a c = Inr m \<longleftrightarrow> 0 \<le> a \<and> strip c \<noteq> [] \<and> m = \<lparr>minor = a, currency = upper (strip c)\<rparr>"
  by (auto simp: Money_new_def Money_post_init_def Let_def bindE_eq_Inr)

lemma money_wf_new: "money_wf m \<Longrightarrow> 0 \<le> a \<Longrightarrow> Money_new a (currency m) = Inr (m\<lparr>minor := a\<rparr>)"
  by (cases m) (auto simp: money_wf_iff Money_new_eq_Inr)

lemma round_half_up_bounds:
  assumes "0 < d" and "0 \<le> c"
  shows "2 * c - d < 2 * d * round_half_up c d" and "2 * d * round_half_up c d \<le> 2 * c + d"
proof -
  have r: "round_half_up c d = (2 * c + d) div (2 * d)"
    using assms by (cases "c = 0") (simp_all add: round_half_up_def)
  have "2 * d * ((2 * c + d) div (2 * d)) + (2 * c + d) mod (2 * d) = 2 * c + d"
    by simp
  moreover have "0 \<le> (2 * c + d) mod (2 * d)" "(2 * c + d) mod (2 * d) < 2 * d"
    using assms by simp_all
  ultimately show "2 * c - d < 2 * d * round_half_up c d" "2 * d * round_half_up c d \<le> 2 * c + d"
    unfolding r by linarith+
qed

lemma round_half_up_minus: "round_half_up (- c) d = - round_half_up c d"
  by (simp add: round_half_up_def sgn_minus)

section \<open>Properties\<close>

text \<open>\<open>Money.from_major\<close> rounds to the nearest cent, ties away from zero, and never
  loses more than half a cent: for an amount \<open>c / 10 ^ (k + 2)\<close> the stored minor value \<open>m\<close> satisfies
  \<open>2 * c - 10 ^ k < 2 * 10 ^ k * m \<le> 2 * c + 10 ^ k\<close>, and the value is a well-formed \<open>Money\<close>.\<close>

theorem Money_from_major_nearest_cent:
  assumes "Money_from_major (Decimal c (- 2 - int k)) cur = Inr m" and "0 \<le> c"
  shows "money_wf m \<and> 2 * c - 10 ^ k < 2 * 10 ^ k * minor m \<and> 2 * 10 ^ k * minor m \<le> 2 * c + 10 ^ k"
proof -
  obtain q where q: "decimal_quantize_cents (Decimal c (- 2 - int k)) = Inr q"
    and m: "Money_new q cur = Inr m"
    using assms(1) by (auto simp: Money_from_major_def bindE_eq_Inr)
  have "q = round_half_up c (10 ^ k)"
  proof (cases k)
    case 0
    with q assms(2) show ?thesis
      by (cases "c = 0") (auto simp: decimal_quantize_cents_def Let_def bindE_eq_Inr round_half_up_def)
  next
    case (Suc n)
    with q show ?thesis by (auto simp: decimal_quantize_cents_def Let_def bindE_eq_Inr nat_add_distrib)
  qed
  moreover have "minor m = q" using m by (auto simp: Money_new_eq_Inr)
  moreover have "money_wf m" using m by (auto simp: Money_new_def intro: Money_post_init_wf)
  ultimately show ?thesis
    using round_half_up_bounds [of "10 ^ k" c] assms(2) by simp
qed

theorem Money_from_major_nearest_cent_witness:
  "\<exists>m. Money_from_major (Decimal 199995 (- 2 - int 2)) ''rub'' = Inr m \<and> minor m = 2000 \<and>
       money_wf m \<and> 2 * 199995 - 10 ^ 2 < 2 * 10 ^ 2 * minor m \<and> 2 * 10 ^ 2 * minor m \<le> 2 * (199995 :: int) + 10 ^ 2"
proof -
  have e: "Money_from_major (Decimal 199995 (- 2 - int 2)) ''rub'' = Inr \<lparr>minor = 2000, currency = ''RUB''\<rparr>"
    by code_simp
  show ?thesis
    using Money_from_major_nearest_cent [of 199995 2 "''rub''", OF e] e by auto
qed

text \<open>Minor units survive the trip through major units: \<open>from_major\<close> of \<open>major\<close> rebuilds
  the very same well-formed \<open>Money\<close>, for every amount the 28-digit decimal context can hold.\<close>

theorem Money_major_roundtrip:
  assumes "money_wf m" and "minor m < 10 ^ 28"
  shows "bindE (Money_major m) (\<lambda>x. Money_from_major x (currency m)) = Inr m"
proof -
  from assms have "0 \<le> minor m" by (simp add: money_wf_iff)
  with assms show ?thesis
    by (simp add: Money_major_def Money_from_major_def decimal_quantize_cents_def Let_def money_wf_new)
qed

theorem Money_major_roundtrip_witness:
  "bindE (Money_major \<lparr>minor = 19900, currency = ''RUB''\<rparr>) (\<lambda>x. Money_from_major x ''RUB'')
     = Inr \<lparr>minor = 19900, currency = ''RUB''\<rparr>"
proof -
  have "money_wf \<lparr>minor = 19900, currency = ''RUB''\<rparr>" by code_simp
  from Money_major_roundtrip [OF this] show ?thesis by simp
qed

text \<open>Subtraction undoes addition on well-formed amounts of one currency, and it is refused exactly
  when it would go below zero.\<close>

theorem Money_add_sub:
  assumes "money_wf a" and "money_wf b" and "currency a = currency b"
  shows "bindE (Money_add a b) (\<lambda>s. Money_sub s b) = Inr a \<and>
         ((\<exists>m. Money_sub a b = Inr m) \<longleftrightarrow> minor b \<le> minor a)"
proof
  have pos: "0 \<le> minor a" "0 \<le> minor b" using assms by (simp_all add: money_wf_iff)
  then show "bindE (Money_add a b) (\<lambda>s. Money_sub s b) = Inr a"
    using assms money_wf_new [of a "minor a"] money_wf_new [of a "minor a + minor b"]
    by (simp add: Money_add_def Money_sub_def Money_ensure_same_currency_def)
  show "(\<exists>m. Money_sub a b = Inr m) \<longleftrightarrow> minor b \<le> minor a"
    using assms money_wf_new [of a "minor a - minor b"]
    by (auto simp: Money_sub_def Money_ensure_same_currency_def bindE_eq_Inr)
qed

theorem Money_add_sub_witness:
  "bindE (Money_add \<lparr>minor = 500, currency = ''RUB''\<rparr> \<lparr>minor = 700, currency = ''RUB''\<rparr>)
     (\<lambda>s. Money_sub s \<lparr>minor = 700, currency = ''RUB''\<rparr>) = Inr \<lparr>minor = 500, currency = ''RUB''\<rparr>"
proof -
  have "money_wf \<lparr>minor = 500, currency = ''RUB''\<rparr>" and "money_wf \<lparr>minor = 700, currency = ''RUB''\<rparr>"
    by code_simp+
  from Money_add_sub [OF this] show ?thesis by simp
qed

end
