(* ===== verification/Lease.thy ===== *)
theory Lease
  imports Prelude
begin

text \<open>
  The contract the leased task entities share: an attempt is started under a lease token and an
  attempt number, and only the holder of both may finish it before the lease ends. The contract is a
  locale; the node, panel provision and panel revoke tasks interpret it in their own theories. What
  follows from it is fencing: a worker that lost its attempt to a later one never owns the task again,
  not even when lease tokens repeat.
\<close>

text \<open>The delay both kinds of task use: \<open>base * 2 ^ (attempts - 1)\<close> seconds, at most 300.\<close>

definition backoff_seconds :: "int \<Rightarrow> int \<Rightarrow> int" where
  "backoff_seconds base_delay_seconds attempts = min (base_delay_seconds * 2 ^ nat (max (attempts - 1) 0)) 300"

text \<open>Any sequence of new attempts and other operations.\<close>

inductive task_run ::
  "('t \<Rightarrow> time \<Rightarrow> time \<Rightarrow> uuid \<Rightarrow> (int \<times> 't) res) \<Rightarrow> ('t \<Rightarrow> 't \<Rightarrow> bool) \<Rightarrow> 't \<Rightarrow> 't \<Rightarrow> bool"
  for start step where
  run_refl: "task_run start step t t"
| run_step: "task_run start step t u \<Longrightarrow> step u v \<Longrightarrow> task_run start step t v"
| run_start: "task_run start step t u \<Longrightarrow> start u now e tok = Inr (n, v) \<Longrightarrow> task_run start step t v"

locale leased_task =
  fixes start :: "'t \<Rightarrow> time \<Rightarrow> time \<Rightarrow> uuid \<Rightarrow> (int \<times> 't) res"
    and owns :: "'t \<Rightarrow> uuid \<Rightarrow> int \<Rightarrow> time \<Rightarrow> bool"
    and expired :: "'t \<Rightarrow> time \<Rightarrow> bool"
    and attempts :: "'t \<Rightarrow> int"
    and step :: "'t \<Rightarrow> 't \<Rightarrow> bool"
  assumes start_attempts: "start t now e tok = Inr (n, t') \<Longrightarrow> n = attempts t' \<and> attempts t' = attempts t + 1"
    and start_owns: "start t now e tok = Inr (n, t') \<Longrightarrow> owns t' tok' k m \<longleftrightarrow> tok' = tok \<and> k = n \<and> m < e"
    and start_expired: "start t now e tok = Inr (n, t') \<Longrightarrow> expired t' m \<longleftrightarrow> e \<le> m"
    and start_after: "start t now e tok = Inr (n, t') \<Longrightarrow> now < e"
    and start_unowned: "start t now e tok = Inr (n, t') \<Longrightarrow> \<not> owns t tok' k m"
    and owns_attempts: "owns t tok n m \<Longrightarrow> attempts t = n"
    and owns_token: "owns t tok n m \<Longrightarrow> owns t tok' n' m' \<Longrightarrow> tok = tok'"
    and owns_not_expired: "owns t tok n m \<Longrightarrow> \<not> expired t m"
    and step_attempts: "step t t' \<Longrightarrow> attempts t' = attempts t"
    and step_owns: "step t t' \<Longrightarrow> owns t' tok n m \<Longrightarrow> owns t tok n m"
begin

lemma run_attempts: "task_run start step t t' \<Longrightarrow> attempts t \<le> attempts t'"
  by (induction rule: task_run.induct) (auto dest: step_attempts start_attempts)

lemma exclusive: "owns t tok n m \<Longrightarrow> owns t tok' n' m' \<Longrightarrow> tok = tok' \<and> n = n'"
  by (metis owns_token owns_attempts)

lemma fresh_owner:
  assumes "start t now e tok = Inr (n, t')"
  shows "owns t' tok n now" and "owns t' tok n m \<longleftrightarrow> \<not> expired t' m"
  using start_owns [OF assms] start_expired [OF assms] start_after [OF assms] by auto

lemma fenced:
  assumes "start t now e tok = Inr (n, t1)" and "task_run start step t1 t2"
    and "start t2 now' e' tok' = Inr (n', t3)" and "task_run start step t3 t4"
  shows "\<not> owns t4 tok n m"
proof
  assume "owns t4 tok n m"
  then have "attempts t4 = n" by (rule owns_attempts)
  moreover have "n = attempts t1" using start_attempts [OF assms(1)] by simp
  moreover have "attempts t3 = attempts t2 + 1" using start_attempts [OF assms(3)] by simp
  ultimately show False using run_attempts [OF assms(2)] run_attempts [OF assms(4)] by simp
qed

end

lemma backoff_bounds:
  "0 < b \<Longrightarrow> min b 300 \<le> backoff_seconds b a \<and> backoff_seconds b a \<le> 300"
proof
  assume b: "0 < b"
  have "(1::int) \<le> 2 ^ nat (max (a - 1) 0)" by simp
  with b have "b \<le> b * 2 ^ nat (max (a - 1) 0)" by (simp add: mult_le_cancel_left1)
  then show "min b 300 \<le> backoff_seconds b a" unfolding backoff_seconds_def by linarith
qed (simp add: backoff_seconds_def)

lemma backoff_mono: "0 < b \<Longrightarrow> a \<le> a' \<Longrightarrow> backoff_seconds b a \<le> backoff_seconds b a'"
proof -
  assume "0 < b" and "a \<le> a'"
  then have "b * 2 ^ nat (max (a - 1) 0) \<le> b * 2 ^ nat (max (a' - 1) 0)"
    by (intro mult_left_mono power_increasing) auto
  then show ?thesis unfolding backoff_seconds_def by linarith
qed

end
