(* ===== verification/NodeTask.thy ===== *)
theory NodeTask
  imports Lease
begin

text \<open>
  Nodes and node tasks (\<^verbatim>\<open>domain/entities/node.py\<close>). The task's operations other than
  \<open>start_attempt\<close> form the step relation with which it interprets \<open>leased_task\<close>. The invariant
  \<open>node_task_inv\<close> says that attempts are bounded and that a lease exists exactly while the task is in
  progress.
\<close>

section \<open>Nodes\<close>

datatype NodeStatus = NS_UNKNOWN | NS_ONLINE | NS_OFFLINE | NS_DEGRADED

fun NodeStatus_value :: "NodeStatus \<Rightarrow> string" where
  "NodeStatus_value NS_UNKNOWN = ''unknown''"
| "NodeStatus_value NS_ONLINE = ''online''"
| "NodeStatus_value NS_OFFLINE = ''offline''"
| "NodeStatus_value NS_DEGRADED = ''degraded''"

definition NodeStatus_of :: "string \<Rightarrow> NodeStatus res" where
  "NodeStatus_of s = require (ValueError s)
     (List.find (\<lambda>p. NodeStatus_value p = s) [NS_UNKNOWN, NS_ONLINE, NS_OFFLINE, NS_DEGRADED])"

record Node =
  no_id :: "int option"
  no_node_key :: string
  no_display_name :: string
  no_api_base_url :: string
  no_status :: NodeStatus
  no_is_enabled :: bool
  no_selection_weight :: int
  no_last_seen_at :: "time option"
  no_last_error :: "string option"

definition Node_post_init :: "Node \<Rightarrow> Node res" where
  "Node_post_init self =
     bindE (ensure (\<not> no_selection_weight self \<le> 0)
              (DomainValidationError ''Node selection weight must be positive'')) (\<lambda>_.
     Inr self)"

definition Node_is_available :: "Node \<Rightarrow> bool" where
  "Node_is_available self \<longleftrightarrow> no_is_enabled self \<and> no_status self \<in> {NS_ONLINE, NS_DEGRADED}"

definition Node_mark_online :: "Node \<Rightarrow> time \<Rightarrow> Node" where
  "Node_mark_online self now = self\<lparr>no_status := NS_ONLINE, no_last_seen_at := Some now, no_last_error := None\<rparr>"

definition Node_mark_offline :: "Node \<Rightarrow> time \<Rightarrow> string \<Rightarrow> Node" where
  "Node_mark_offline self now error = self\<lparr>no_status := NS_OFFLINE, no_last_error := Some error\<rparr>"

section \<open>Node tasks\<close>

datatype NodeTaskStatus = NTS_PENDING | NTS_IN_PROGRESS | NTS_SUCCEEDED | NTS_FAILED | NTS_CANCELLED

datatype NodeTaskOperation = PROVISION_CLIENT | REVOKE_CLIENT | SYNC_STATUS

definition PROVISION_SUCCESS_STATUSES :: "string list" where
  "PROVISION_SUCCESS_STATUSES = [''provisioned'', ''already_exists'']"

definition REVOKE_SUCCESS_STATUSES :: "string list" where
  "REVOKE_SUCCESS_STATUSES = [''revoked'', ''not_found_treated_as_success'']"

record NodeTask =
  nt_id :: "int option"
  nt_task_uuid :: uuid
  nt_node_id :: int
  nt_operation :: NodeTaskOperation
  nt_status :: NodeTaskStatus
  nt_idempotency_key :: string
  nt_payload :: dict
  nt_vpn_configuration_id :: "int option"
  nt_subscription_id :: "int option"
  nt_vpn_generation :: "int option"
  nt_response_payload :: "dict option"
  nt_remote_client_ref :: json
  nt_attempts :: int
  nt_max_attempts :: int
  nt_next_retry_at :: "time option"
  nt_last_error :: "string option"
  nt_claimed_at :: "time option"
  nt_lease_expires_at :: "time option"
  nt_lease_token :: "uuid option"
  nt_created_at :: "time option"
  nt_updated_at :: "time option"
  nt_completed_at :: "time option"
  nt_journal_retired_at :: "time option"

definition NodeTask_post_init :: "NodeTask \<Rightarrow> NodeTask res" where
  "NodeTask_post_init self =
     bindE (ensure (\<not> (nt_max_attempts self \<le> 0 \<or> nt_attempts self < 0))
              (DomainValidationError ''Invalid node task attempt limits'')) (\<lambda>_.
     bindE (ensure (\<not> (case nt_vpn_generation self of None \<Rightarrow> False | Some g \<Rightarrow> g \<le> 0))
              (DomainValidationError ''Node task VPN generation must be positive'')) (\<lambda>_.
     Inr self))"

definition NodeTask_can_dispatch :: "NodeTask \<Rightarrow> time \<Rightarrow> bool" where
  "NodeTask_can_dispatch self now \<longleftrightarrow>
     nt_status self = NTS_PENDING \<and> (case nt_next_retry_at self of None \<Rightarrow> True | Some r \<Rightarrow> r \<le> now)"

definition NodeTask_start_attempt :: "NodeTask \<Rightarrow> time \<Rightarrow> time \<Rightarrow> uuid \<Rightarrow> (int \<times> NodeTask) res" where
  "NodeTask_start_attempt self now lease_expires_at lease_token =
     bindE (ensure (NodeTask_can_dispatch self now)
              (InvalidStateTransition ''Node task is not ready for dispatch'')) (\<lambda>_.
     bindE (ensure (\<not> lease_expires_at \<le> now)
              (DomainValidationError ''Node task lease must expire after claim time'')) (\<lambda>_.
     Inr (nt_attempts self + 1,
       self\<lparr>nt_status := NTS_IN_PROGRESS, nt_attempts := nt_attempts self + 1, nt_claimed_at := Some now,
            nt_lease_expires_at := Some lease_expires_at, nt_lease_token := Some lease_token,
            nt_last_error := None, nt_updated_at := Some now\<rparr>)))"

definition NodeTask_owns_active_lease :: "NodeTask \<Rightarrow> uuid \<Rightarrow> time \<Rightarrow> int \<Rightarrow> bool" where
  "NodeTask_owns_active_lease self token now attempt_no \<longleftrightarrow>
     nt_status self = NTS_IN_PROGRESS \<and> nt_lease_token self = Some token \<and> nt_attempts self = attempt_no \<and>
     (case nt_lease_expires_at self of None \<Rightarrow> False | Some e \<Rightarrow> now < e)"

definition NodeTask_lease_is_expired :: "NodeTask \<Rightarrow> time \<Rightarrow> bool" where
  "NodeTask_lease_is_expired self now \<longleftrightarrow>
     nt_status self = NTS_IN_PROGRESS \<and>
     (case nt_lease_expires_at self of None \<Rightarrow> False | Some e \<Rightarrow> e \<le> now)"

definition NodeTask_clear_lease :: "NodeTask \<Rightarrow> NodeTask" where
  "NodeTask_clear_lease self =
     self\<lparr>nt_claimed_at := None, nt_lease_expires_at := None, nt_lease_token := None\<rparr>"

definition NodeTask_fail :: "NodeTask \<Rightarrow> string \<Rightarrow> dict option \<Rightarrow> time \<Rightarrow> NodeTask" where
  "NodeTask_fail self error response now =
     NodeTask_clear_lease
       (self\<lparr>nt_status := NTS_FAILED, nt_last_error := Some error, nt_response_payload := response,
             nt_completed_at := Some now, nt_updated_at := Some now\<rparr>)"

definition NodeTask_retry :: "NodeTask \<Rightarrow> string \<Rightarrow> dict option \<Rightarrow> time \<Rightarrow> int \<Rightarrow> NodeTask" where
  "NodeTask_retry self error response now base_delay_seconds =
     (if nt_attempts self \<ge> nt_max_attempts self then NodeTask_fail self error response now
      else
        (let delay_seconds = backoff_seconds base_delay_seconds (nt_attempts self) in
         NodeTask_clear_lease
           (self\<lparr>nt_status := NTS_PENDING, nt_next_retry_at := Some (now + seconds delay_seconds),
                 nt_last_error := Some error, nt_response_payload := response, nt_updated_at := Some now\<rparr>)))"

definition NodeTask_recover_expired_lease :: "NodeTask \<Rightarrow> time \<Rightarrow> string \<Rightarrow> int \<Rightarrow> NodeTask res" where
  "NodeTask_recover_expired_lease self now error base_delay_seconds =
     bindE (ensure (NodeTask_lease_is_expired self now)
              (InvalidStateTransition ''Node task lease is not expired'')) (\<lambda>_.
     Inr (NodeTask_retry self error None now base_delay_seconds))"

definition NodeTask_defer_without_attempt :: "NodeTask \<Rightarrow> time \<Rightarrow> int \<Rightarrow> string \<Rightarrow> NodeTask res" where
  "NodeTask_defer_without_attempt self now delay_seconds error =
     bindE (ensure (nt_status self = NTS_PENDING)
              (InvalidStateTransition ''Only pending node task can be deferred'')) (\<lambda>_.
     bindE (ensure (\<not> delay_seconds \<le> 0)
              (DomainValidationError ''Node task defer delay must be positive'')) (\<lambda>_.
     Inr (NodeTask_clear_lease
       (self\<lparr>nt_next_retry_at := Some (now + seconds delay_seconds), nt_last_error := Some error,
             nt_updated_at := Some now\<rparr>))))"

definition NodeTask_accepts_remote_status :: "NodeTask \<Rightarrow> string \<Rightarrow> bool" where
  "NodeTask_accepts_remote_status self remote_status =
     (case nt_operation self of
        PROVISION_CLIENT \<Rightarrow> remote_status \<in> set PROVISION_SUCCESS_STATUSES
      | REVOKE_CLIENT \<Rightarrow> remote_status \<in> set REVOKE_SUCCESS_STATUSES
      | SYNC_STATUS \<Rightarrow> False)"

definition NodeTask_complete :: "NodeTask \<Rightarrow> dict \<Rightarrow> time \<Rightarrow> NodeTask res" where
  "NodeTask_complete self response now =
     bindE (ensure (nt_status self = NTS_IN_PROGRESS)
              (InvalidStateTransition ''Only in-progress node task can complete'')) (\<lambda>_.
     Inr (NodeTask_clear_lease
       (self\<lparr>nt_status := NTS_SUCCEEDED, nt_response_payload := Some response,
             nt_remote_client_ref := dict_value response ''remote_client_ref'',
             nt_completed_at := Some now, nt_updated_at := Some now, nt_last_error := None\<rparr>)))"

section \<open>Lease contract and invariant\<close>

lemmas node_task_ops = NodeTask_start_attempt_def NodeTask_clear_lease_def NodeTask_fail_def
  NodeTask_retry_def NodeTask_recover_expired_lease_def NodeTask_defer_without_attempt_def
  NodeTask_complete_def

inductive node_task_step :: "NodeTask \<Rightarrow> NodeTask \<Rightarrow> bool" where
  nt_step_fail: "node_task_step t (NodeTask_fail t err r now)"
| nt_step_retry: "node_task_step t (NodeTask_retry t err r now b)"
| nt_step_recover: "NodeTask_recover_expired_lease t now err b = Inr t' \<Longrightarrow> node_task_step t t'"
| nt_step_defer: "NodeTask_defer_without_attempt t now d err = Inr t' \<Longrightarrow> node_task_step t t'"
| nt_step_complete: "NodeTask_complete t r now = Inr t' \<Longrightarrow> node_task_step t t'"

abbreviation node_task_run :: "NodeTask \<Rightarrow> NodeTask \<Rightarrow> bool" where
  "node_task_run \<equiv> task_run NodeTask_start_attempt node_task_step"

definition node_task_inv :: "NodeTask \<Rightarrow> bool" where
  "node_task_inv t \<longleftrightarrow>
     0 \<le> nt_attempts t \<and> nt_attempts t \<le> nt_max_attempts t \<and>
     (nt_status t = NTS_PENDING \<longrightarrow> nt_attempts t < nt_max_attempts t) \<and>
     (nt_status t = NTS_IN_PROGRESS \<longleftrightarrow> nt_lease_token t \<noteq> None) \<and>
     (nt_lease_token t \<noteq> None \<longleftrightarrow> nt_lease_expires_at t \<noteq> None)"

interpretation nt_lease: leased_task NodeTask_start_attempt
  "\<lambda>t tok n now. NodeTask_owns_active_lease t tok now n" NodeTask_lease_is_expired nt_attempts node_task_step
proof
  fix t t' :: NodeTask and tok n m
  assume "node_task_step t t'"
  then show "NodeTask_owns_active_lease t' tok m n \<Longrightarrow> NodeTask_owns_active_lease t tok m n"
    by cases (auto simp: node_task_ops NodeTask_owns_active_lease_def bindE_eq_Inr Let_def split: if_splits)
next
  fix t t' :: NodeTask
  assume "node_task_step t t'"
  then show "nt_attempts t' = nt_attempts t"
    by cases (auto simp: node_task_ops bindE_eq_Inr Let_def)
qed (auto simp: NodeTask_start_attempt_def NodeTask_owns_active_lease_def NodeTask_lease_is_expired_def
       NodeTask_can_dispatch_def bindE_eq_Inr split: option.splits)

lemma NodeTask_fail_inv: "node_task_inv t \<Longrightarrow> node_task_inv (NodeTask_fail t err r now)"
  by (simp add: NodeTask_fail_def NodeTask_clear_lease_def node_task_inv_def)

lemma NodeTask_retry_inv: "node_task_inv t \<Longrightarrow> node_task_inv (NodeTask_retry t err r now b)"
  by (simp add: NodeTask_retry_def NodeTask_fail_inv Let_def)
     (simp add: NodeTask_clear_lease_def node_task_inv_def)

lemma node_task_step_inv: "node_task_step t t' \<Longrightarrow> node_task_inv t \<Longrightarrow> node_task_inv t'"
proof (induction rule: node_task_step.induct)
  case (nt_step_defer t now d err t')
  then show ?case
    by (simp add: NodeTask_defer_without_attempt_def NodeTask_clear_lease_def bindE_eq_Inr)
       (auto simp: node_task_inv_def)
next
  case (nt_step_complete t r now t')
  then show ?case
    by (simp add: NodeTask_complete_def NodeTask_clear_lease_def bindE_eq_Inr)
       (auto simp: node_task_inv_def)
qed (auto simp: NodeTask_recover_expired_lease_def bindE_eq_Inr intro: NodeTask_fail_inv NodeTask_retry_inv)

lemma node_task_start_inv:
  assumes "NodeTask_start_attempt t now e tok = Inr (n, t')" and "node_task_inv t"
  shows "node_task_inv t'"
  using assms
  by (simp add: NodeTask_start_attempt_def NodeTask_can_dispatch_def bindE_eq_Inr) (auto simp: node_task_inv_def)

lemma node_task_run_inv: "node_task_run t t' \<Longrightarrow> node_task_inv t \<Longrightarrow> node_task_inv t'"
  by (induction rule: task_run.induct) (auto intro: node_task_step_inv node_task_start_inv)

lemma node_task_step_max: "node_task_step t t' \<Longrightarrow> nt_max_attempts t' = nt_max_attempts t"
  by (induction rule: node_task_step.induct) (auto simp: node_task_ops bindE_eq_Inr Let_def)

lemma node_task_run_max: "node_task_run t t' \<Longrightarrow> nt_max_attempts t' = nt_max_attempts t"
  by (induction rule: task_run.induct)
     (auto simp: NodeTask_start_attempt_def bindE_eq_Inr node_task_step_max)

definition sample_node_task :: NodeTask where
  "sample_node_task = \<lparr>nt_id = Some 1, nt_task_uuid = ''u'', nt_node_id = 1, nt_operation = PROVISION_CLIENT,
     nt_status = NTS_PENDING, nt_idempotency_key = ''k'', nt_payload = [], nt_vpn_configuration_id = Some 1,
     nt_subscription_id = Some 1, nt_vpn_generation = Some 1, nt_response_payload = None,
     nt_remote_client_ref = JNull, nt_attempts = 0, nt_max_attempts = 5, nt_next_retry_at = None,
     nt_last_error = None, nt_claimed_at = None, nt_lease_expires_at = None, nt_lease_token = None,
     nt_created_at = None, nt_updated_at = None, nt_completed_at = None, nt_journal_retired_at = None\<rparr>"

definition sample_started :: NodeTask where
  "sample_started = sample_node_task\<lparr>nt_status := NTS_IN_PROGRESS, nt_attempts := 1, nt_claimed_at := Some 10,
     nt_lease_expires_at := Some 20, nt_lease_token := Some ''a'', nt_last_error := None, nt_updated_at := Some 10\<rparr>"

lemma sample_start: "NodeTask_start_attempt sample_node_task 10 20 ''a'' = Inr (1, sample_started)"
  by (simp add: NodeTask_start_attempt_def NodeTask_can_dispatch_def sample_node_task_def sample_started_def)

section \<open>Properties\<close>

text \<open>However a node task is started, retried, recovered after a lost lease, deferred, completed or
  failed, its attempts stay within its limit, and a task waiting for dispatch always has an attempt left.\<close>

theorem node_task_attempts_bounded:
  assumes "node_task_run t t'" and "node_task_inv t"
  shows "0 \<le> nt_attempts t' \<and> nt_attempts t' \<le> nt_max_attempts t \<and>
         (nt_status t' = NTS_PENDING \<longrightarrow> nt_attempts t' < nt_max_attempts t) \<and>
         (nt_status t' = NTS_IN_PROGRESS \<longleftrightarrow> nt_lease_token t' \<noteq> None)"
  using node_task_run_inv [OF assms] node_task_run_max [OF assms(1)] unfolding node_task_inv_def by simp

theorem node_task_attempts_bounded_witness:
  "node_task_run sample_node_task sample_started \<and> nt_attempts sample_started = 1 \<and>
     nt_attempts sample_started \<le> nt_max_attempts sample_node_task"
proof -
  have r: "node_task_run sample_node_task sample_started"
    using sample_start by (rule run_start [OF run_refl, where start = NodeTask_start_attempt])
  have "node_task_inv sample_node_task" by (simp add: node_task_inv_def sample_node_task_def)
  from node_task_attempts_bounded [OF r this] r show ?thesis by (simp add: sample_started_def)
qed

text \<open>Fencing: once a later attempt of a node task has started, the worker of the earlier attempt
  never owns the task again, at no time and after no operations, even if lease tokens repeat.\<close>

theorem node_task_stale_attempt_fenced:
  assumes "NodeTask_start_attempt t now e tok = Inr (n, t1)" and "node_task_run t1 t2"
    and "NodeTask_start_attempt t2 now' e' tok' = Inr (n', t3)" and "node_task_run t3 t4"
  shows "\<not> NodeTask_owns_active_lease t4 tok m n"
  by (rule nt_lease.fenced [OF assms])

theorem node_task_stale_attempt_fenced_witness:
  "\<exists>t1 t2 t3. NodeTask_start_attempt sample_node_task 10 20 ''a'' = Inr (1, t1) \<and>
     NodeTask_recover_expired_lease t1 20 ''lost'' 5 = Inr t2 \<and>
     NodeTask_start_attempt t2 (seconds 100) (seconds 130) ''a'' = Inr (2, t3) \<and>
     \<not> NodeTask_owns_active_lease t3 ''a'' (seconds 101) 1"
proof -
  let ?t2 = "NodeTask_retry sample_started ''lost'' None 20 5"
  have r: "NodeTask_recover_expired_lease sample_started 20 ''lost'' 5 = Inr ?t2"
    by (simp add: NodeTask_recover_expired_lease_def NodeTask_lease_is_expired_def sample_started_def)
  have "\<exists>t3. NodeTask_start_attempt ?t2 (seconds 100) (seconds 130) ''a'' = Inr (2, t3)"
    by (simp add: NodeTask_start_attempt_def NodeTask_can_dispatch_def NodeTask_retry_def backoff_seconds_def
        NodeTask_clear_lease_def sample_started_def sample_node_task_def seconds_def)
  then obtain t3 where t3: "NodeTask_start_attempt ?t2 (seconds 100) (seconds 130) ''a'' = Inr (2, t3)" by blast
  have "node_task_run sample_started ?t2"
    using nt_step_recover [OF r] by (rule run_step [OF run_refl, where step = node_task_step])
  from node_task_stale_attempt_fenced [OF sample_start this t3 run_refl] sample_start r t3
  show ?thesis by blast
qed

text \<open>A failed attempt of a node task is rescheduled after at least the base delay (or 300 seconds,
  whichever is less) and at most 300 seconds, cannot be dispatched before, and keeps nothing of the old
  lease; once the attempts are used up it becomes failed and can never be dispatched.\<close>

theorem node_task_retry_backoff:
  assumes "0 < b"
  shows "let t' = NodeTask_retry t err r now b in
     nt_lease_token t' = None \<and> nt_lease_expires_at t' = None \<and> nt_last_error t' = Some err \<and>
     (if nt_attempts t < nt_max_attempts t
      then nt_status t' = NTS_PENDING \<and>
           (\<exists>at. nt_next_retry_at t' = Some at \<and> now + seconds (min b 300) \<le> at \<and> at \<le> now + seconds 300 \<and>
                 (\<forall>m. NodeTask_can_dispatch t' m \<longleftrightarrow> at \<le> m))
      else nt_status t' = NTS_FAILED \<and> nt_completed_at t' = Some now \<and> (\<forall>m. \<not> NodeTask_can_dispatch t' m))"
  using backoff_bounds [OF assms]
  by (auto simp: NodeTask_retry_def NodeTask_fail_def NodeTask_clear_lease_def NodeTask_can_dispatch_def Let_def
      simp del: min_less_iff_conj)

theorem node_task_retry_backoff_witness:
  "nt_next_retry_at (NodeTask_retry (sample_started\<lparr>nt_attempts := 3\<rparr>) ''e'' None 0 5) = Some (seconds 20) \<and>
   nt_status (NodeTask_retry (sample_started\<lparr>nt_attempts := 3\<rparr>) ''e'' None 0 5) = NTS_PENDING"
  using node_task_retry_backoff [of 5 "sample_started\<lparr>nt_attempts := 3\<rparr>" "''e''" None 0]
  by (simp add: NodeTask_retry_def NodeTask_clear_lease_def backoff_seconds_def sample_started_def sample_node_task_def Let_def)

end
