(* ===== verification/NodeSelection.thy ===== *)
theory NodeSelection
  imports NodeTask "HOL-Library.Product_Lexorder"
begin

text \<open>
  The choice of a node for a new client (\<^verbatim>\<open>domain/services/node_selection.py\<close>) and the reading of a
  node's status payload (\<^verbatim>\<open>domain/node_health.py\<close>). The random source \<^verbatim>\<open>randbelow\<close> is a parameter;
  the theorems assume of it only that it returns a number below its argument.
\<close>

section \<open>Definitions\<close>

record NodeSelectionCandidate =
  ns_node_id :: int
  ns_endpoint_id :: int
  ns_node_status :: string
  ns_is_enabled :: bool
  ns_last_checked_at :: "time option"
  ns_active_clients :: "int option"
  ns_max_clients :: "int option"
  ns_selection_weight :: int
  ns_local_reserved_clients :: int

definition effective_clients :: "NodeSelectionCandidate \<Rightarrow> int" where
  "effective_clients c =
     max (max (case ns_active_clients c of None \<Rightarrow> 0 | Some a \<Rightarrow> a) 0) (max (ns_local_reserved_clients c) 0)"

definition allows_operation :: "int \<Rightarrow> string \<Rightarrow> bool \<Rightarrow> time option \<Rightarrow> time \<Rightarrow> bool \<Rightarrow> bool" where
  "allows_operation stale_after_seconds node_status is_enabled last_checked_at now require_enabled =
     (if require_enabled \<and> \<not> is_enabled then False
      else case last_checked_at of
        None \<Rightarrow> False
      | Some l \<Rightarrow>
          if l < now - seconds stale_after_seconds then False
          else (case NodeStatus_of node_status of Inl _ \<Rightarrow> False | Inr s \<Rightarrow> s \<in> {NS_ONLINE, NS_DEGRADED}))"

definition eligible :: "int \<Rightarrow> NodeSelectionCandidate \<Rightarrow> time \<Rightarrow> bool" where
  "eligible stale_after_seconds c now =
     (case ns_max_clients c of
        None \<Rightarrow> False
      | Some m \<Rightarrow>
          if m \<le> 0 then False
          else if \<not> allows_operation stale_after_seconds (ns_node_status c) (ns_is_enabled c)
                     (ns_last_checked_at c) now True then False
          else effective_clients c < m)"

definition node_weight :: "NodeSelectionCandidate \<Rightarrow> int" where
  "node_weight c = max 1 (ns_selection_weight c)"

text \<open>\<^verbatim>\<open>by_node.setdefault\<close> over the sorted pool: the first candidate of every node, in order.\<close>

fun first_per_node :: "int list \<Rightarrow> NodeSelectionCandidate list \<Rightarrow> NodeSelectionCandidate list" where
  "first_per_node seen [] = []"
| "first_per_node seen (c # cs) =
     (if ns_node_id c \<in> set seen then first_per_node seen cs
      else c # first_per_node (ns_node_id c # seen) cs)"

fun pick_ticket :: "int \<Rightarrow> int \<Rightarrow> NodeSelectionCandidate list \<Rightarrow> NodeSelectionCandidate option" where
  "pick_ticket ticket cumulative [] = None"
| "pick_ticket ticket cumulative (c # cs) =
     (if ticket < cumulative + node_weight c then Some c
      else pick_ticket ticket (cumulative + node_weight c) cs)"

definition candidate_pool :: "int \<Rightarrow> NodeSelectionCandidate list \<Rightarrow> time \<Rightarrow> NodeSelectionCandidate list" where
  "candidate_pool stale_after_seconds candidates now =
     (let es = filter (\<lambda>c. eligible stale_after_seconds c now) candidates;
          online = filter (\<lambda>c. NodeStatus_of (ns_node_status c) = Inr NS_ONLINE) es in
      if online \<noteq> [] then online
      else filter (\<lambda>c. NodeStatus_of (ns_node_status c) = Inr NS_DEGRADED) es)"

definition selection_nodes :: "NodeSelectionCandidate list \<Rightarrow> NodeSelectionCandidate list" where
  "selection_nodes pool = first_per_node [] (sort_key (\<lambda>c. (ns_node_id c, ns_endpoint_id c)) pool)"

definition select_node ::
  "(int \<Rightarrow> int) \<Rightarrow> NodeSelectionCandidate list \<Rightarrow> time \<Rightarrow> int \<Rightarrow> NodeSelectionCandidate option" where
  "select_node randbelow candidates now stale_after_seconds =
     (let pool = candidate_pool stale_after_seconds candidates now in
      if pool = [] then None
      else
        (let nodes = selection_nodes pool;
             total = sum_list (map node_weight nodes);
             ticket = randbelow total in
         case pick_ticket ticket 0 nodes of Some c \<Rightarrow> Some c | None \<Rightarrow> Some (last nodes)))"

section \<open>Health snapshots\<close>

record NodeHealthSnapshot =
  nh_health_status :: NodeStatus
  nh_agent_version :: "string option"
  nh_active_clients :: "int option"
  nh_max_clients :: "int option"
  nh_load :: dict
  nh_traffic :: dict
  nh_capabilities :: dict
  nh_status_payload :: dict
  nh_inbounds :: "dict list"

definition object_mapping :: "json \<Rightarrow> string \<Rightarrow> dict res" where
  "object_mapping v field_name =
     (case v of JNull \<Rightarrow> Inr [] | JObj d \<Rightarrow> Inr d | _ \<Rightarrow> Inl (ValueError (field_name @ '' must be an object'')))"

definition optional_int :: "json \<Rightarrow> string \<Rightarrow> int option res" where
  "optional_int v field_name =
     (case v of JNull \<Rightarrow> Inr None | JInt i \<Rightarrow> Inr (Some i)
      | _ \<Rightarrow> Inl (ValueError (field_name @ '' must be an integer or null'')))"

definition value_or :: "json \<Rightarrow> json \<Rightarrow> json" where
  "value_or a b = (if truthy a then a else b)"

definition dict_value_default :: "dict \<Rightarrow> string \<Rightarrow> json \<Rightarrow> json" where
  "dict_value_default d k v = (case dict_get d k of None \<Rightarrow> v | Some w \<Rightarrow> w)"

text \<open>Python's \<^verbatim>\<open>str\<close> on a decoded JSON value; the text of arrays and objects is the parameter \<open>py_repr\<close>.\<close>

fun py_str :: "(json \<Rightarrow> string) \<Rightarrow> json \<Rightarrow> string" where
  "py_str py_repr JNull = ''None''"
| "py_str py_repr (JBool b) = (if b then ''True'' else ''False'')"
| "py_str py_repr (JInt i) = show_int i"
| "py_str py_repr (JStr s) = s"
| "py_str py_repr v = py_repr v"

definition NodeHealthSnapshot_from_payload :: "(json \<Rightarrow> string) \<Rightarrow> dict \<Rightarrow> NodeHealthSnapshot res" where
  "NodeHealthSnapshot_from_payload py_repr payload =
     bindE (object_mapping (dict_value payload ''health'') ''health'') (\<lambda>health.
     bindE (object_mapping (dict_value payload ''capabilities'') ''capabilities'') (\<lambda>capabilities.
     bindE (object_mapping (dict_value payload ''status'') ''status'') (\<lambda>status_payload.
     bindE (object_mapping (dict_value payload ''metrics'') ''metrics'') (\<lambda>metrics.
     let raw_status = value_or (dict_value status_payload ''status'') (JStr ''online'');
         health_status = (case NodeStatus_of (lower (py_str py_repr raw_status)) of Inr s \<Rightarrow> s | Inl _ \<Rightarrow> NS_UNKNOWN);
         raw_agent_version = value_or (dict_value payload ''agent_version'') (dict_value health ''agent_version'');
         agent_version = (if truthy raw_agent_version then Some (py_str py_repr raw_agent_version) else None);
         active_clients = dict_value_default metrics ''active_clients'' (dict_value status_payload ''active_clients'');
         max_clients = dict_value_default metrics ''max_clients'' (dict_value status_payload ''max_clients'') in
     bindE (object_mapping (dict_value_default metrics ''load'' (dict_value status_payload ''load'')) ''metrics.load'') (\<lambda>load.
     bindE (object_mapping (dict_value_default metrics ''traffic'' (dict_value status_payload ''traffic'')) ''metrics.traffic'') (\<lambda>traffic.
     let raw_inbounds = value_or (dict_value payload ''inbounds'')
                          (dict_value_default status_payload ''inbounds'' (JList [])) in
     bindE (case raw_inbounds of JList xs \<Rightarrow> Inr xs | _ \<Rightarrow> Inl (ValueError ''inbounds must be an array'')) (\<lambda>xs.
     bindE (mapE (\<lambda>item. object_mapping item ''inbounds item'') xs) (\<lambda>inbounds.
     bindE (optional_int active_clients ''metrics.active_clients'') (\<lambda>ac.
     bindE (optional_int max_clients ''metrics.max_clients'') (\<lambda>mc.
     Inr \<lparr>nh_health_status = health_status, nh_agent_version = agent_version, nh_active_clients = ac,
          nh_max_clients = mc, nh_load = load, nh_traffic = traffic, nh_capabilities = capabilities,
          nh_status_payload = status_payload, nh_inbounds = inbounds\<rparr>))))))))))"

section \<open>Lemmas\<close>

lemma eligible_iff:
  "eligible st c now \<longleftrightarrow>
     ns_is_enabled c \<and> NodeStatus_of (ns_node_status c) \<in> {Inr NS_ONLINE, Inr NS_DEGRADED} \<and>
     (\<exists>l. ns_last_checked_at c = Some l \<and> now - seconds st \<le> l) \<and>
     (\<exists>m. ns_max_clients c = Some m \<and> effective_clients c < m)"
proof -
  have "0 \<le> effective_clients c" by (simp add: effective_clients_def)
  then show ?thesis
    by (auto simp: eligible_def allows_operation_def split: option.splits sum.splits)
qed

lemma pool_eligible: "c \<in> set (candidate_pool st cs now) \<Longrightarrow> c \<in> set cs \<and> eligible st c now"
  by (auto simp: candidate_pool_def Let_def split: if_splits)

lemma pool_Nil: "candidate_pool st cs now = [] \<longleftrightarrow> (\<forall>c \<in> set cs. \<not> eligible st c now)"
  by (auto simp: candidate_pool_def Let_def filter_empty_conv eligible_iff)

lemma pool_online:
  "c \<in> set (candidate_pool st cs now) \<Longrightarrow> d \<in> set cs \<Longrightarrow> eligible st d now \<Longrightarrow>
     NodeStatus_of (ns_node_status d) = Inr NS_ONLINE \<Longrightarrow> NodeStatus_of (ns_node_status c) = Inr NS_ONLINE"
  by (auto simp: candidate_pool_def Let_def filter_empty_conv split: if_splits)

lemma first_per_node_set: "set (first_per_node seen cs) \<subseteq> set cs"
  by (induction seen cs rule: first_per_node.induct) auto

lemma first_per_node_ids:
  "ns_node_id ` set (first_per_node seen cs) = ns_node_id ` set cs - set seen"
  by (induction seen cs rule: first_per_node.induct) auto

lemma first_per_node_distinct:
  "distinct (map ns_node_id (first_per_node seen cs))"
  by (induction seen cs rule: first_per_node.induct) (auto simp: first_per_node_ids)

lemma selection_nodes_ids: "ns_node_id ` set (selection_nodes pool) = ns_node_id ` set pool"
  by (simp add: selection_nodes_def first_per_node_ids)

lemma selection_nodes_distinct: "distinct (map ns_node_id (selection_nodes pool))"
  by (simp add: selection_nodes_def first_per_node_distinct)

lemma selection_nodes_set: "set (selection_nodes pool) \<subseteq> set pool"
  using first_per_node_set [of "[]" "sort_key (\<lambda>c. (ns_node_id c, ns_endpoint_id c)) pool"]
  by (simp add: selection_nodes_def)

lemma node_weight_pos: "1 \<le> node_weight c"
  by (simp add: node_weight_def)

lemma pick_ticket_in: "pick_ticket t cu cs = Some c \<Longrightarrow> c \<in> set cs"
  by (induction t cu cs rule: pick_ticket.induct) (auto split: if_splits)

lemma pick_ticket_total:
  "t < cu + sum_list (map node_weight cs) \<Longrightarrow> cs \<noteq> [] \<Longrightarrow> \<exists>c. pick_ticket t cu cs = Some c"
proof (induction t cu cs rule: pick_ticket.induct)
  case (2 t cu c cs)
  then show ?case by (cases cs) (auto simp: add.assoc)
qed simp

lemma pick_ticket_count:
  assumes "distinct cs" and "c \<in> set cs"
  shows "card {t. cu \<le> t \<and> t < cu + sum_list (map node_weight cs) \<and> pick_ticket t cu cs = Some c} = nat (node_weight c)"
  using assms
proof (induction cs arbitrary: cu)
  case (Cons d cs)
  have w: "1 \<le> node_weight d" by (rule node_weight_pos)
  have s: "0 \<le> sum_list (map node_weight cs)" by (rule sum_list_nonneg) (auto simp: node_weight_def)
  show ?case
  proof (cases "c = d")
    case True
    with Cons.prems have "c \<notin> set cs" by simp
    then have "pick_ticket t k cs \<noteq> Some c" for t k using pick_ticket_in by blast
    then have "{t. cu \<le> t \<and> t < cu + sum_list (map node_weight (d # cs)) \<and> pick_ticket t cu (d # cs) = Some c} = {cu..<cu + node_weight d}"
      using s True by auto
    then show ?thesis by (simp add: True)
  next
    case False
    then have "{t. cu \<le> t \<and> t < cu + sum_list (map node_weight (d # cs)) \<and> pick_ticket t cu (d # cs) = Some c} =
      {t. cu + node_weight d \<le> t \<and> t < (cu + node_weight d) + sum_list (map node_weight cs) \<and> pick_ticket t (cu + node_weight d) cs = Some c}"
      using w by auto
    with False Cons.IH [of "cu + node_weight d"] Cons.prems show ?thesis by simp
  qed
qed simp

lemma select_node_from_nodes:
  assumes "select_node rnd cs now st = Some c"
  shows "c \<in> set (selection_nodes (candidate_pool st cs now))"
proof -
  let ?pool = "candidate_pool st cs now"
  have ne: "?pool \<noteq> []" using assms by (auto simp: select_node_def)
  then have "selection_nodes ?pool \<noteq> []" using selection_nodes_ids [of ?pool] by auto
  with assms ne show ?thesis
    by (auto simp: select_node_def Let_def dest: pick_ticket_in split: option.splits)
qed

definition sample_candidate :: "int \<Rightarrow> int \<Rightarrow> NodeSelectionCandidate" where
  "sample_candidate n w = \<lparr>ns_node_id = n, ns_endpoint_id = n, ns_node_status = ''online'', ns_is_enabled = True,
     ns_last_checked_at = Some 0, ns_active_clients = Some 3, ns_max_clients = Some 10, ns_selection_weight = w,
     ns_local_reserved_clients = 0\<rparr>"

section \<open>Properties\<close>

text \<open>The selector returns nothing exactly when no candidate is eligible; otherwise it returns one of the
  candidates that is enabled, freshly checked, online or degraded and below its capacity, and a
  degraded one only if no eligible candidate is online. This holds for every random source.\<close>

theorem select_node_correct:
  "(select_node rnd cs now st = None \<longleftrightarrow> (\<forall>c \<in> set cs. \<not> eligible st c now)) \<and>
   (\<forall>c. select_node rnd cs now st = Some c \<longrightarrow>
      c \<in> set cs \<and> ns_is_enabled c \<and> (\<exists>m. ns_max_clients c = Some m \<and> effective_clients c < m) \<and>
      (\<exists>l. ns_last_checked_at c = Some l \<and> now - seconds st \<le> l) \<and>
      (NodeStatus_of (ns_node_status c) = Inr NS_ONLINE \<or>
       NodeStatus_of (ns_node_status c) = Inr NS_DEGRADED \<and>
       (\<forall>d \<in> set cs. eligible st d now \<longrightarrow> NodeStatus_of (ns_node_status d) \<noteq> Inr NS_ONLINE)))"
proof -
  have "select_node rnd cs now st = None \<longleftrightarrow> candidate_pool st cs now = []"
    by (auto simp: select_node_def Let_def split: option.splits)
  moreover have "c \<in> set (candidate_pool st cs now)" if "select_node rnd cs now st = Some c" for c
    using select_node_from_nodes [OF that] selection_nodes_set by blast
  ultimately show ?thesis
    using pool_Nil [of st cs now] pool_eligible [of _ st cs now] pool_online [of _ st cs now]
    by (auto simp: eligible_iff)
qed

theorem select_node_correct_witness:
  "\<exists>c. select_node (\<lambda>_. 0) [sample_candidate 1 100] 5 180 = Some c \<and> effective_clients c = 3"
proof -
  have "\<exists>c. select_node (\<lambda>_. 0) [sample_candidate 1 100] 5 180 = Some c"
  proof -
    have "eligible 180 (sample_candidate 1 100) 5" by code_simp
    then show ?thesis using select_node_correct [of "\<lambda>_. 0" "[sample_candidate 1 100]" 5 180] by auto
  qed
  then show ?thesis
    using select_node_correct [of "\<lambda>_. 0" "[sample_candidate 1 100]" 5 180]
    by (auto simp: sample_candidate_def effective_clients_def)
qed

text \<open>The choice is weighted fairly: of the equally likely tickets below the total weight, exactly
  \<open>max 1 weight\<close> select a given node, every node of the pool is represented exactly once, and no ticket is
  left over, whichever endpoint rows the nodes have.\<close>

theorem select_node_weighted:
  assumes "c \<in> set (selection_nodes (candidate_pool st cs now))"
  shows "card {t. 0 \<le> t \<and> t < sum_list (map node_weight (selection_nodes (candidate_pool st cs now))) \<and>
              select_node (\<lambda>_. t) cs now st = Some c} = nat (max 1 (ns_selection_weight c)) \<and>
         distinct (map ns_node_id (selection_nodes (candidate_pool st cs now))) \<and>
         ns_node_id ` set (selection_nodes (candidate_pool st cs now)) = ns_node_id ` set (candidate_pool st cs now)"
proof -
  let ?pool = "candidate_pool st cs now" and ?ns = "selection_nodes (candidate_pool st cs now)"
  have ne: "?pool \<noteq> []" "?ns \<noteq> []" using assms selection_nodes_set [of ?pool] by auto
  have "select_node (\<lambda>_. t) cs now st = pick_ticket t 0 ?ns" if "t < sum_list (map node_weight ?ns)" for t
    using pick_ticket_total [of t 0 ?ns] that ne by (auto simp: select_node_def Let_def)
  then have "{t. 0 \<le> t \<and> t < sum_list (map node_weight ?ns) \<and> select_node (\<lambda>_. t) cs now st = Some c} =
    {t. 0 \<le> t \<and> t < 0 + sum_list (map node_weight ?ns) \<and> pick_ticket t 0 ?ns = Some c}" by auto
  moreover have "distinct ?ns" using selection_nodes_distinct [of ?pool] by (simp add: distinct_map)
  ultimately show ?thesis
    using pick_ticket_count [OF _ assms, of 0] selection_nodes_distinct [of ?pool] selection_nodes_ids [of ?pool]
    by (simp add: node_weight_def)
qed

theorem select_node_weighted_witness:
  "card {t. 0 \<le> t \<and> t < sum_list (map node_weight
      (selection_nodes (candidate_pool 180 [sample_candidate 1 100, sample_candidate 2 50] 5))) \<and>
     select_node (\<lambda>_. t) [sample_candidate 1 100, sample_candidate 2 50] 5 180 = Some (sample_candidate 2 50)} = 50"
proof -
  have "selection_nodes (candidate_pool 180 [sample_candidate 1 100, sample_candidate 2 50] 5) =
      [sample_candidate 1 100, sample_candidate 2 50]" by code_simp
  then have m: "sample_candidate 2 50 \<in> set (selection_nodes (candidate_pool 180 [sample_candidate 1 100, sample_candidate 2 50] 5))"
    by simp
  from select_node_weighted [OF m] show ?thesis by (simp add: sample_candidate_def)
qed

end
