(* ===== verification/Payment.thy ===== *)
theory Payment
  imports Money
begin

text \<open>
  The payment entities of \<^verbatim>\<open>domain/entities/payment.py\<close> and the settlement rule of
  \<^verbatim>\<open>domain/services/payment_settlement.py\<close>.

  An entity is a record; a method that mutates \<^verbatim>\<open>self\<close> returns the updated record (paired with its
  return value when it has one) and one that may raise returns it in \<open>res\<close>. \<open>X_post_init\<close> is the
  \<^verbatim>\<open>__post_init__\<close> every construction of \<open>X\<close> runs. Status fields already hold enum members, so the
  coercion \<^verbatim>\<open>PaymentStatus(value)\<close> appears only where the source feeds it a raw string
  (\<open>PaymentStatus_of\<close>).
\<close>

section \<open>Enumerations\<close>

datatype PaymentStatus =
  PS_CREATED | PS_PENDING | PS_AUTHORIZED | PS_PAID | PS_FAILED | PS_EXPIRED | PS_CANCELLED

datatype PaymentEventStatus = PES_RECEIVED | PES_PROCESSING | PES_PROCESSED | PES_IGNORED | PES_FAILED

datatype PaymentTransitionResult = PTR_APPLIED | PTR_DUPLICATE | PTR_STALE

fun PaymentStatus_value :: "PaymentStatus \<Rightarrow> string" where
  "PaymentStatus_value PS_CREATED = ''created''"
| "PaymentStatus_value PS_PENDING = ''pending''"
| "PaymentStatus_value PS_AUTHORIZED = ''authorized''"
| "PaymentStatus_value PS_PAID = ''paid''"
| "PaymentStatus_value PS_FAILED = ''failed''"
| "PaymentStatus_value PS_EXPIRED = ''expired''"
| "PaymentStatus_value PS_CANCELLED = ''cancelled''"

definition PaymentStatus_of :: "string \<Rightarrow> PaymentStatus res" where
  "PaymentStatus_of s = require (ValueError s)
     (List.find (\<lambda>p. PaymentStatus_value p = s)
        [PS_CREATED, PS_PENDING, PS_AUTHORIZED, PS_PAID, PS_FAILED, PS_EXPIRED, PS_CANCELLED])"

section \<open>Payment order\<close>

record PaymentOrder =
  po_id :: "int option"
  po_user_id :: int
  po_tariff_id :: int
  po_provider :: string
  po_status :: PaymentStatus
  po_amount :: Money
  po_requested_period_days :: int
  po_idempotency_key :: string
  po_metadata :: dict
  po_created_at :: "time option"
  po_updated_at :: "time option"
  po_paid_at :: "time option"

definition PaymentOrder_post_init :: "PaymentOrder \<Rightarrow> PaymentOrder res" where
  "PaymentOrder_post_init self =
     (let self = self\<lparr>po_provider := strip (po_provider self),
                      po_idempotency_key := strip (po_idempotency_key self)\<rparr> in
      bindE (ensure (\<not> (po_user_id self \<le> 0 \<or> po_tariff_id self \<le> 0))
               (DomainValidationError ''Payment order references must be positive'')) (\<lambda>_.
      bindE (ensure (\<not> (po_provider self = [] \<or> po_idempotency_key self = []))
               (DomainValidationError ''Payment provider and idempotency key cannot be blank'')) (\<lambda>_.
      bindE (ensure (\<not> (minor (po_amount self) \<le> 0 \<or> po_requested_period_days self \<le> 0))
               (DomainValidationError ''Payment amount and period must be positive'')) (\<lambda>_.
      Inr self))))"

definition PaymentOrder_has_same_creation_identity :: "PaymentOrder \<Rightarrow> PaymentOrder \<Rightarrow> bool" where
  "PaymentOrder_has_same_creation_identity self other \<longleftrightarrow>
     po_user_id self = po_user_id other \<and>
     po_tariff_id self = po_tariff_id other \<and>
     po_provider self = po_provider other \<and>
     minor (po_amount self) = minor (po_amount other) \<and>
     currency (po_amount self) = currency (po_amount other) \<and>
     po_requested_period_days self = po_requested_period_days other"

definition PaymentOrder_mark_paid :: "PaymentOrder \<Rightarrow> time \<Rightarrow> (bool \<times> PaymentOrder) res" where
  "PaymentOrder_mark_paid self now =
     (if po_status self = PS_PAID then Inr (False, self)
      else if po_status self = PS_CREATED
      then Inl (InvalidStateTransition ''Created order must become pending before payment'')
      else Inr (True, self\<lparr>po_status := PS_PAID, po_paid_at := Some now, po_updated_at := Some now\<rparr>))"

definition PaymentOrder_finish ::
  "PaymentOrder \<Rightarrow> PaymentStatus \<Rightarrow> time \<Rightarrow> (bool \<times> PaymentOrder) res" where
  "PaymentOrder_finish self target now =
     (if po_status self = target then Inr (False, self)
      else if po_status self = PS_PAID
      then Inl (InvalidStateTransition ''Paid order cannot transition to a failure state'')
      else if po_status self \<noteq> PS_PENDING then Inr (False, self)
      else Inr (True, self\<lparr>po_status := target, po_updated_at := Some now\<rparr>))"

definition PaymentOrder_cancel :: "PaymentOrder \<Rightarrow> time \<Rightarrow> (bool \<times> PaymentOrder) res" where
  "PaymentOrder_cancel self now = PaymentOrder_finish self PS_CANCELLED now"

definition PaymentOrder_fail :: "PaymentOrder \<Rightarrow> time \<Rightarrow> (bool \<times> PaymentOrder) res" where
  "PaymentOrder_fail self now = PaymentOrder_finish self PS_FAILED now"

definition PaymentOrder_expire :: "PaymentOrder \<Rightarrow> time \<Rightarrow> (bool \<times> PaymentOrder) res" where
  "PaymentOrder_expire self now = PaymentOrder_finish self PS_EXPIRED now"

definition PaymentOrder_apply_external_status ::
  "PaymentOrder \<Rightarrow> PaymentStatus \<Rightarrow> time \<Rightarrow> (bool \<times> PaymentOrder) res" where
  "PaymentOrder_apply_external_status self status now =
     (if po_status self = PS_PAID \<and> status \<noteq> PS_PAID then Inr (False, self)
      else if status = PS_PAID then PaymentOrder_mark_paid self now
      else if status = PS_CANCELLED then PaymentOrder_cancel self now
      else if status = PS_FAILED then PaymentOrder_fail self now
      else if status = PS_EXPIRED then PaymentOrder_expire self now
      else Inr (False, self))"

section \<open>Payment attempt\<close>

record PaymentAttempt =
  pa_id :: "int option"
  pa_payment_order_id :: int
  pa_provider :: string
  pa_status :: PaymentStatus
  pa_provider_payment_id :: "string option"
  pa_payment_url :: "string option"
  pa_payload :: dict
  pa_created_at :: "time option"
  pa_updated_at :: "time option"
  pa_creation_claimed_at :: "time option"
  pa_creation_lease_expires_at :: "time option"
  pa_creation_lease_token :: "uuid option"

definition PaymentAttempt_claim_creation ::
  "PaymentAttempt \<Rightarrow> time \<Rightarrow> time \<Rightarrow> uuid \<Rightarrow> PaymentAttempt res" where
  "PaymentAttempt_claim_creation self now lease_expires_at lease_token =
     bindE (ensure (pa_status self = PS_CREATED)
              (InvalidStateTransition ''Only created payment attempt can own invoice creation'')) (\<lambda>_.
     bindE (ensure (\<not> lease_expires_at \<le> now)
              (DomainValidationError ''Payment creation lease must expire after claim time'')) (\<lambda>_.
     Inr (self\<lparr>pa_creation_claimed_at := Some now,
               pa_creation_lease_expires_at := Some lease_expires_at,
               pa_creation_lease_token := Some lease_token,
               pa_updated_at := Some now\<rparr>)))"

definition PaymentAttempt_creation_claim_is_active :: "PaymentAttempt \<Rightarrow> time \<Rightarrow> bool" where
  "PaymentAttempt_creation_claim_is_active self now \<longleftrightarrow>
     pa_status self = PS_CREATED \<and> pa_creation_lease_token self \<noteq> None \<and>
     (case pa_creation_lease_expires_at self of None \<Rightarrow> False | Some e \<Rightarrow> now < e)"

definition PaymentAttempt_creation_claim_is_expired :: "PaymentAttempt \<Rightarrow> time \<Rightarrow> bool" where
  "PaymentAttempt_creation_claim_is_expired self now \<longleftrightarrow>
     pa_status self = PS_CREATED \<and>
     (case pa_creation_lease_expires_at self of None \<Rightarrow> False | Some e \<Rightarrow> e \<le> now)"

definition PaymentAttempt_owns_creation_claim :: "PaymentAttempt \<Rightarrow> uuid \<Rightarrow> bool" where
  "PaymentAttempt_owns_creation_claim self token \<longleftrightarrow>
     pa_status self = PS_CREATED \<and> pa_creation_lease_token self = Some token"

definition PaymentAttempt_clear_creation_claim :: "PaymentAttempt \<Rightarrow> PaymentAttempt" where
  "PaymentAttempt_clear_creation_claim self =
     self\<lparr>pa_creation_claimed_at := None, pa_creation_lease_expires_at := None,
          pa_creation_lease_token := None\<rparr>"

definition PaymentAttempt_finalize_creation ::
  "PaymentAttempt \<Rightarrow> string \<Rightarrow> string \<Rightarrow> string option \<Rightarrow> dict \<Rightarrow> time \<Rightarrow> PaymentAttempt res" where
  "PaymentAttempt_finalize_creation self status provider_payment_id payment_url payload now =
     bindE (ensure (pa_status self = PS_CREATED)
              (InvalidStateTransition ''Only created payment attempt can be finalized'')) (\<lambda>_.
     bindE (PaymentStatus_of status) (\<lambda>final_status.
     bindE (ensure (final_status \<noteq> PS_CREATED)
              (InvalidStateTransition ''Provider result cannot remain in creation-claim state'')) (\<lambda>_.
     Inr (PaymentAttempt_clear_creation_claim
       (self\<lparr>pa_status := final_status, pa_provider_payment_id := Some provider_payment_id,
             pa_payment_url := payment_url, pa_payload := payload, pa_updated_at := Some now\<rparr>)))))"

definition PaymentAttempt_fail_creation :: "PaymentAttempt \<Rightarrow> time \<Rightarrow> string \<Rightarrow> PaymentAttempt" where
  "PaymentAttempt_fail_creation self now diagnostic =
     (if pa_status self \<noteq> PS_CREATED then self
      else PaymentAttempt_clear_creation_claim
        (self\<lparr>pa_status := PS_FAILED,
              pa_payload := dict_set ''creation_error'' (JStr diagnostic) (pa_payload self),
              pa_updated_at := Some now\<rparr>))"

fun PaymentStatus_order :: "PaymentStatus \<Rightarrow> nat" where
  "PaymentStatus_order PS_CREATED = 0"
| "PaymentStatus_order PS_PENDING = 1"
| "PaymentStatus_order PS_AUTHORIZED = 2"
| "PaymentStatus_order PS_PAID = 3"
| "PaymentStatus_order PS_FAILED = 3"
| "PaymentStatus_order PS_EXPIRED = 3"
| "PaymentStatus_order PS_CANCELLED = 3"

definition PaymentAttempt_apply_provider_status ::
  "PaymentAttempt \<Rightarrow> PaymentStatus \<Rightarrow> string option \<Rightarrow> string option \<Rightarrow> dict option
     \<Rightarrow> PaymentTransitionResult \<times> PaymentAttempt" where
  "PaymentAttempt_apply_provider_status self target provider_payment_id payment_url payload =
     (if pa_status self \<in> {PS_PAID, PS_FAILED, PS_EXPIRED, PS_CANCELLED}
      then (if pa_status self = target then PTR_DUPLICATE else PTR_STALE, self)
      else if PaymentStatus_order target < PaymentStatus_order (pa_status self) then (PTR_STALE, self)
      else
        (let self = self\<lparr>pa_status := target\<rparr>;
             self = (case provider_payment_id of None \<Rightarrow> self | Some p \<Rightarrow> self\<lparr>pa_provider_payment_id := Some p\<rparr>);
             self = (case payment_url of None \<Rightarrow> self | Some u \<Rightarrow> self\<lparr>pa_payment_url := Some u\<rparr>);
             self = (case payload of None \<Rightarrow> self | Some p \<Rightarrow> self\<lparr>pa_payload := p\<rparr>)
         in (PTR_APPLIED, self)))"

section \<open>Payment event\<close>

record PaymentEvent =
  pe_id :: "int option"
  pe_payment_order_id :: "int option"
  pe_payment_attempt_id :: "int option"
  pe_provider :: string
  pe_event_type :: string
  pe_event_key :: string
  pe_status :: PaymentEventStatus
  pe_payload :: dict
  pe_occurred_at :: time
  pe_provider_payment_id :: "string option"
  pe_reported_payment_order_id :: "int option"
  pe_payment_status :: "PaymentStatus option"
  pe_amount_minor :: "int option"
  pe_currency :: "string option"
  pe_received_at :: "time option"
  pe_processed_at :: "time option"
  pe_error_message :: "string option"

definition PaymentEvent_post_init :: "PaymentEvent \<Rightarrow> PaymentEvent" where
  "PaymentEvent_post_init self =
     (case pe_currency self of None \<Rightarrow> self
      | Some c \<Rightarrow> (let n = upper (strip c) in self\<lparr>pe_currency := (if n = [] then None else Some n)\<rparr>))"

definition status_aliases :: "(string \<times> PaymentStatus) list" where
  "status_aliases =
     [(''paid'', PS_PAID), (''succeeded'', PS_PAID), (''success'', PS_PAID), (''completed'', PS_PAID),
      (''failed'', PS_FAILED), (''error'', PS_FAILED), (''expired'', PS_EXPIRED),
      (''cancelled'', PS_CANCELLED), (''canceled'', PS_CANCELLED)]"

definition infer_from_event_type :: "string \<Rightarrow> PaymentStatus" where
  "infer_from_event_type event_type =
     (let lowered_type = lower event_type in
      if list_ex (\<lambda>token. contains_str token lowered_type) [''paid'', ''succeeded'', ''completed''] then PS_PAID
      else if contains_str ''cancel'' lowered_type then PS_CANCELLED
      else if contains_str ''expire'' lowered_type then PS_EXPIRED
      else if contains_str ''fail'' lowered_type \<or> contains_str ''error'' lowered_type then PS_FAILED
      else PS_PENDING)"

definition PaymentEvent_infer_payment_status :: "string \<Rightarrow> dict \<Rightarrow> PaymentStatus" where
  "PaymentEvent_infer_payment_status event_type payload =
     (let raw_status = get_or (get_or (dict_get payload ''status'') (dict_get payload ''payment_status''))
                         (dict_get payload ''state'') in
      case raw_status of
        Some (JStr s) \<Rightarrow>
          (case map_of status_aliases (lower s) of
             Some p \<Rightarrow> p
           | None \<Rightarrow> infer_from_event_type event_type)
      | _ \<Rightarrow> infer_from_event_type event_type)"

definition PaymentEvent_normalized_payment_status :: "PaymentEvent \<Rightarrow> PaymentStatus" where
  "PaymentEvent_normalized_payment_status self =
     (case pe_payment_status self of
        Some p \<Rightarrow> p
      | None \<Rightarrow> PaymentEvent_infer_payment_status (pe_event_type self) (pe_payload self))"

definition PaymentEvent_mark_processed :: "PaymentEvent \<Rightarrow> time \<Rightarrow> PaymentEvent" where
  "PaymentEvent_mark_processed self now =
     self\<lparr>pe_status := PES_PROCESSED, pe_processed_at := Some now, pe_error_message := None\<rparr>"

definition PaymentEvent_ignore :: "PaymentEvent \<Rightarrow> time \<Rightarrow> string option \<Rightarrow> PaymentEvent" where
  "PaymentEvent_ignore self now error =
     (let self = self\<lparr>pe_status := PES_IGNORED, pe_processed_at := Some now\<rparr> in
      case error of None \<Rightarrow> self | Some e \<Rightarrow> self\<lparr>pe_error_message := Some e\<rparr>)"

definition PaymentEvent_fail :: "PaymentEvent \<Rightarrow> time \<Rightarrow> string \<Rightarrow> PaymentEvent" where
  "PaymentEvent_fail self now error =
     self\<lparr>pe_status := PES_FAILED, pe_processed_at := Some now, pe_error_message := Some error\<rparr>"

record PaymentTransaction =
  pt_provider :: string
  pt_external_id :: string
  pt_status :: PaymentStatus
  pt_amount :: Money
  pt_transaction_type :: string
  pt_payload :: dict

section \<open>Settlement rule\<close>

definition validate_paid_settlement ::
  "PaymentEvent \<Rightarrow> PaymentAttempt option \<Rightarrow> PaymentOrder \<Rightarrow> unit res" where
  "validate_paid_settlement event attempt order =
     (case attempt of
        None \<Rightarrow> Inl (PaymentInvariantViolation ''exact payment attempt is required'')
      | Some att \<Rightarrow>
     bindE (ensure (po_id order \<noteq> None)
              (PaymentInvariantViolation ''persisted payment order id is required'')) (\<lambda>_.
     bindE (ensure (\<not> (pe_provider event \<noteq> po_provider order \<or> pe_provider event \<noteq> pa_provider att))
              (PaymentInvariantViolation ''payment provider mismatch'')) (\<lambda>_.
     bindE (ensure (\<not> (or_else (pe_provider_payment_id event) [] = [] \<or> or_else (pa_provider_payment_id att) [] = []))
              (PaymentInvariantViolation ''provider payment id is required'')) (\<lambda>_.
     bindE (ensure (pe_provider_payment_id event = pa_provider_payment_id att)
              (PaymentInvariantViolation ''provider payment id mismatch'')) (\<lambda>_.
     bindE (ensure (Some (pa_payment_order_id att) = po_id order)
              (PaymentInvariantViolation ''payment attempt order mismatch'')) (\<lambda>_.
     bindE (ensure (pe_payment_order_id event = Some (pa_payment_order_id att))
              (PaymentInvariantViolation ''payment event order mismatch'')) (\<lambda>_.
     bindE (ensure (\<not> (pe_reported_payment_order_id event \<noteq> None \<and>
                       pe_reported_payment_order_id event \<noteq> Some (pa_payment_order_id att)))
              (PaymentInvariantViolation ''provider-reported order mismatch'')) (\<lambda>_.
     bindE (ensure (pe_amount_minor event \<noteq> None)
              (PaymentInvariantViolation ''verified payment amount is required'')) (\<lambda>_.
     bindE (ensure (pe_amount_minor event = Some (minor (po_amount order)))
              (PaymentInvariantViolation ''payment amount mismatch'')) (\<lambda>_.
     bindE (ensure (\<not> (pe_currency event = None \<or> strip (or_else (pe_currency event) []) = []))
              (PaymentInvariantViolation ''verified payment currency is required'')) (\<lambda>_.
     ensure (upper (strip (or_else (pe_currency event) [])) = upper (strip (currency (po_amount order))))
              (PaymentInvariantViolation ''payment currency mismatch''))))))))))))"

section \<open>Lifecycles\<close>

text \<open>The operations on an order and on an attempt as step relations.\<close>

inductive order_step :: "PaymentOrder \<Rightarrow> PaymentOrder \<Rightarrow> bool" where
  order_mark_paid: "PaymentOrder_mark_paid p now = Inr (b, p') \<Longrightarrow> order_step p p'"
| order_cancel: "PaymentOrder_cancel p now = Inr (b, p') \<Longrightarrow> order_step p p'"
| order_fail: "PaymentOrder_fail p now = Inr (b, p') \<Longrightarrow> order_step p p'"
| order_expire: "PaymentOrder_expire p now = Inr (b, p') \<Longrightarrow> order_step p p'"
| order_external: "PaymentOrder_apply_external_status p st now = Inr (b, p') \<Longrightarrow> order_step p p'"

inductive attempt_step :: "PaymentAttempt \<Rightarrow> PaymentAttempt \<Rightarrow> bool" where
  attempt_claim: "PaymentAttempt_claim_creation a now e tok = Inr a' \<Longrightarrow> attempt_step a a'"
| attempt_finalize: "PaymentAttempt_finalize_creation a st ppid url pl now = Inr a' \<Longrightarrow> attempt_step a a'"
| attempt_fail: "attempt_step a (PaymentAttempt_fail_creation a now d)"
| attempt_provider: "PaymentAttempt_apply_provider_status a st ppid url pl = (r, a') \<Longrightarrow> attempt_step a a'"

definition order_rank :: "PaymentOrder \<Rightarrow> nat" where
  "order_rank p = (case po_status p of PS_PAID \<Rightarrow> 2 | PS_FAILED \<Rightarrow> 1 | PS_EXPIRED \<Rightarrow> 1 | PS_CANCELLED \<Rightarrow> 1 | _ \<Rightarrow> 0)"

definition order_final :: "PaymentOrder \<Rightarrow> bool" where
  "order_final p \<longleftrightarrow> po_status p = PS_PAID"

definition attempt_rank :: "PaymentAttempt \<Rightarrow> nat" where
  "attempt_rank a = PaymentStatus_order (pa_status a)"

definition attempt_final :: "PaymentAttempt \<Rightarrow> bool" where
  "attempt_final a \<longleftrightarrow> PaymentStatus_order (pa_status a) = 3"

lemmas order_ops = PaymentOrder_mark_paid_def PaymentOrder_cancel_def PaymentOrder_fail_def
  PaymentOrder_expire_def PaymentOrder_finish_def PaymentOrder_apply_external_status_def

lemmas attempt_ops = PaymentAttempt_claim_creation_def PaymentAttempt_finalize_creation_def
  PaymentAttempt_fail_creation_def PaymentAttempt_apply_provider_status_def
  PaymentAttempt_clear_creation_claim_def

lemma PaymentStatus_of_value [simp]: "PaymentStatus_of (PaymentStatus_value p) = Inr p"
  by (cases p) (simp_all add: PaymentStatus_of_def)

lemma PaymentStatus_value_inj: "PaymentStatus_value p = PaymentStatus_value q \<longleftrightarrow> p = q"
  by (cases p; cases q) simp_all

lemma PaymentStatus_order_final:
  "PaymentStatus_order p = 3 \<longleftrightarrow> p \<in> {PS_PAID, PS_FAILED, PS_EXPIRED, PS_CANCELLED}"
  by (cases p) auto

lemma PaymentStatus_order_0: "PaymentStatus_order p = 0 \<longleftrightarrow> p = PS_CREATED"
  by (cases p) auto

lemma apply_provider_status_status:
  assumes "PaymentAttempt_apply_provider_status a st ppid url pl = (r, a')"
  shows "pa_status a' = (if r = PTR_APPLIED then st else pa_status a)"
    and "r \<noteq> PTR_APPLIED \<Longrightarrow> a' = a"
    and "r = PTR_APPLIED \<longleftrightarrow> \<not> attempt_final a \<and> attempt_rank a \<le> PaymentStatus_order st"
    and "pa_id a' = pa_id a" and "pa_payment_order_id a' = pa_payment_order_id a"
  using assms
  by (auto simp: PaymentAttempt_apply_provider_status_def Let_def attempt_final_def attempt_rank_def
      PaymentStatus_order_final split: if_splits option.splits)

interpretation order_lc: lifecycle order_step order_rank order_final
proof
  fix s t assume "order_step s t"
  then show "order_rank s \<le> order_rank t"
    by cases (auto simp: order_ops order_rank_def split: if_splits PaymentStatus.splits)
next
  fix s t assume "order_final s" and "order_step s t"
  from this(2,1) show "t = s"
    by cases (auto simp: order_ops order_final_def split: if_splits)
qed

interpretation attempt_lc: lifecycle attempt_step attempt_rank attempt_final
proof
  fix s t assume "attempt_step s t"
  then show "attempt_rank s \<le> attempt_rank t"
  proof cases
    case (attempt_provider st ppid url pl r)
    then show ?thesis
      using apply_provider_status_status [OF attempt_provider] by (cases "r = PTR_APPLIED") (auto simp: attempt_rank_def)
  qed (auto simp: attempt_ops attempt_rank_def bindE_eq_Inr)
next
  fix s t assume "attempt_final s" and "attempt_step s t"
  from this(2,1) show "t = s"
  proof cases
    case (attempt_provider st ppid url pl r)
    then show ?thesis
      using apply_provider_status_status [OF attempt_provider] \<open>attempt_final s\<close> by blast
  qed (auto simp: attempt_ops attempt_final_def bindE_eq_Inr)
qed

lemma or_else_Nil: "or_else x [] \<noteq> [] \<longleftrightarrow> (\<exists>v. x = Some v \<and> v \<noteq> [])"
  by (auto simp: or_else_def split: option.splits)

section \<open>Properties\<close>

text \<open>The settlement rule accepts a paid event exactly when a single attempt of the persisted
  order carries the event's provider and (non-empty) provider payment id, every order id that the event
  names is that order, and amount and normalised currency are the order's own.\<close>

theorem validate_paid_settlement_iff:
  "validate_paid_settlement event attempt order = Inr () \<longleftrightarrow>
     (\<exists>att oid ppid cur.
        attempt = Some att \<and> po_id order = Some oid \<and>
        pe_provider event = po_provider order \<and> pe_provider event = pa_provider att \<and>
        pe_provider_payment_id event = Some ppid \<and> ppid \<noteq> [] \<and> pa_provider_payment_id att = Some ppid \<and>
        pa_payment_order_id att = oid \<and> pe_payment_order_id event = Some oid \<and>
        pe_reported_payment_order_id event \<in> {None, Some oid} \<and>
        pe_amount_minor event = Some (minor (po_amount order)) \<and>
        pe_currency event = Some cur \<and> strip cur \<noteq> [] \<and>
        upper (strip cur) = upper (strip (currency (po_amount order))))"
proof -
  have strip_Nil: "strip [] = []" by (simp add: strip_def lstrip_def)
  show ?thesis
    unfolding validate_paid_settlement_def
    by (cases attempt; cases "pe_currency event"; cases "pe_provider_payment_id event")
       (auto simp: bindE_eq_Inr or_else_def strip_Nil split: if_splits option.splits)
qed

text \<open>A paid order is final: no sequence of order operations changes any field of it, and an order
  that reached a failure state can only stay in a failure state or become paid.\<close>

theorem order_paid_is_final:
  assumes "order_step\<^sup>*\<^sup>* p q"
  shows "(po_status p = PS_PAID \<longrightarrow> q = p) \<and>
         (po_status p \<in> {PS_FAILED, PS_EXPIRED, PS_CANCELLED} \<longrightarrow>
            po_status q \<in> {PS_FAILED, PS_EXPIRED, PS_CANCELLED, PS_PAID})"
  using order_lc.final_steps [OF assms] order_lc.rank_steps [OF assms]
  by (auto simp: order_final_def order_rank_def split: PaymentStatus.splits)

definition sample_order :: PaymentOrder where
  "sample_order = \<lparr>po_id = Some 1, po_user_id = 1, po_tariff_id = 1, po_provider = ''dummy'',
     po_status = PS_PENDING, po_amount = \<lparr>minor = 19900, currency = ''RUB''\<rparr>,
     po_requested_period_days = 30, po_idempotency_key = ''k'', po_metadata = [],
     po_created_at = None, po_updated_at = None, po_paid_at = None\<rparr>"

definition sample_attempt :: PaymentAttempt where
  "sample_attempt = \<lparr>pa_id = Some 1, pa_payment_order_id = 1, pa_provider = ''dummy'',
     pa_status = PS_CREATED, pa_provider_payment_id = None, pa_payment_url = None, pa_payload = [],
     pa_created_at = None, pa_updated_at = None, pa_creation_claimed_at = None,
     pa_creation_lease_expires_at = None, pa_creation_lease_token = None\<rparr>"

theorem order_paid_is_final_witness:
  "\<exists>p q. order_step\<^sup>*\<^sup>* p q \<and> po_status p = PS_FAILED \<and> po_status q = PS_PAID \<and>
     po_status q \<in> {PS_FAILED, PS_EXPIRED, PS_CANCELLED, PS_PAID}"
proof -
  let ?p = "sample_order\<lparr>po_status := PS_FAILED\<rparr>"
  let ?q = "?p\<lparr>po_status := PS_PAID, po_paid_at := Some 7, po_updated_at := Some 7\<rparr>"
  have "PaymentOrder_mark_paid ?p 7 = Inr (True, ?q)" by (simp add: PaymentOrder_mark_paid_def)
  then have st: "order_step\<^sup>*\<^sup>* ?p ?q" by (blast intro: order_mark_paid)
  from order_paid_is_final [OF st] st show ?thesis by (intro exI [of _ ?p] exI [of _ ?q]) simp
qed

text \<open>An attempt never moves backwards in the provider lifecycle, and a finished attempt (paid, failed,
  expired or cancelled) keeps every field whatever operations follow.\<close>

theorem attempt_status_monotone:
  assumes "attempt_step\<^sup>*\<^sup>* a b"
  shows "PaymentStatus_order (pa_status a) \<le> PaymentStatus_order (pa_status b) \<and>
         (pa_status a \<in> {PS_PAID, PS_FAILED, PS_EXPIRED, PS_CANCELLED} \<longrightarrow> b = a)"
  using attempt_lc.rank_steps [OF assms] attempt_lc.final_steps [OF assms]
  by (simp add: attempt_rank_def attempt_final_def PaymentStatus_order_final)

theorem attempt_status_monotone_witness:
  "\<exists>a b. attempt_step\<^sup>*\<^sup>* a b \<and> pa_status a = PS_CREATED \<and> pa_status b = PS_FAILED \<and>
     PaymentStatus_order (pa_status a) \<le> PaymentStatus_order (pa_status b)"
proof -
  let ?b = "PaymentAttempt_fail_creation sample_attempt 5 ''timeout''"
  have st: "attempt_step\<^sup>*\<^sup>* sample_attempt ?b" by (blast intro: attempt_fail)
  from attempt_status_monotone [OF st] st show ?thesis
    by (intro exI [of _ sample_attempt] exI [of _ ?b])
       (simp add: attempt_ops sample_attempt_def)
qed

text \<open>A creation claim is owned by its token alone, is active strictly before its expiry and
  expired from then on, and no claim survives the end of the creation.\<close>

theorem creation_claim_lifetime:
  assumes "PaymentAttempt_claim_creation a now e tok = Inr c"
  shows "(PaymentAttempt_owns_creation_claim c tok' \<longleftrightarrow> tok' = tok) \<and>
         (PaymentAttempt_creation_claim_is_active c t \<longleftrightarrow> t < e) \<and>
         (PaymentAttempt_creation_claim_is_expired c t \<longleftrightarrow> e \<le> t) \<and>
         PaymentAttempt_creation_claim_is_active c now \<and>
         \<not> PaymentAttempt_creation_claim_is_active (PaymentAttempt_fail_creation c t d) t' \<and>
         (\<forall>f. PaymentAttempt_finalize_creation c st ppid url pl t = Inr f \<longrightarrow>
               \<not> PaymentAttempt_owns_creation_claim f tok' \<and> \<not> PaymentAttempt_creation_claim_is_expired f t')"
  using assms
  by (auto simp: attempt_ops bindE_eq_Inr PaymentAttempt_owns_creation_claim_def
      PaymentAttempt_creation_claim_is_active_def PaymentAttempt_creation_claim_is_expired_def)

theorem creation_claim_lifetime_witness:
  "\<exists>c. PaymentAttempt_claim_creation sample_attempt 10 20 ''tok'' = Inr c \<and>
     PaymentAttempt_creation_claim_is_active c 19 \<and> PaymentAttempt_creation_claim_is_expired c 20"
proof -
  have "\<exists>c. PaymentAttempt_claim_creation sample_attempt 10 20 ''tok'' = Inr c"
    by (simp add: PaymentAttempt_claim_creation_def sample_attempt_def)
  then show ?thesis
    using creation_claim_lifetime [where t = 19] creation_claim_lifetime [where t = 20] by auto
qed

end
