(* ===== verification/Subscription.thy ===== *)
theory Subscription
  imports Money
begin

text \<open>
  Subscriptions, their periods, tariffs and users (\<^verbatim>\<open>domain/entities/subscription.py\<close>, \<^verbatim>\<open>tariff.py\<close>,
  \<^verbatim>\<open>user.py\<close>) and the policy that applies a paid period (\<^verbatim>\<open>domain/services/subscription_policy.py\<close>).
  The lemmas show that extensions chain without gap or overlap and that the policy starts a new
  subscription exactly when there is none with the paid tariff.
\<close>

section \<open>Subscriptions\<close>

datatype SubscriptionStatus = SS_ACTIVE | SS_ENDED | SS_CANCELLED | SS_PAUSED

record SubscriptionPeriod =
  sp_id :: "int option"
  sp_subscription_id :: "int option"
  sp_starts_at :: time
  sp_expires_at :: time
  sp_is_paid :: bool
  sp_created_at :: time
  sp_payment_order_id :: "int option"

definition SubscriptionPeriod_post_init :: "SubscriptionPeriod \<Rightarrow> SubscriptionPeriod res" where
  "SubscriptionPeriod_post_init self =
     bindE (ensure (\<not> sp_starts_at self \<ge> sp_expires_at self)
              (DomainValidationError ''Subscription period must have a positive duration'')) (\<lambda>_.
     Inr self)"

definition SubscriptionPeriod_contains :: "SubscriptionPeriod \<Rightarrow> time \<Rightarrow> bool" where
  "SubscriptionPeriod_contains self moment \<longleftrightarrow>
     sp_is_paid self \<and> sp_starts_at self \<le> moment \<and> moment < sp_expires_at self"

record Subscription =
  su_id :: "int option"
  su_user_id :: int
  su_tariff_id :: int
  su_status :: SubscriptionStatus
  su_created_at :: time
  su_ended_at :: "time option"

definition Subscription_post_init :: "Subscription \<Rightarrow> Subscription res" where
  "Subscription_post_init self =
     bindE (ensure (\<not> (su_user_id self \<le> 0 \<or> su_tariff_id self \<le> 0))
              (DomainValidationError ''Subscription references must be positive'')) (\<lambda>_.
     bindE (ensure (\<not> (su_status self = SS_ACTIVE \<and> su_ended_at self \<noteq> None))
              (DomainValidationError ''Active subscription cannot have ended_at'')) (\<lambda>_.
     Inr self))"

definition Subscription_start :: "int \<Rightarrow> int \<Rightarrow> time \<Rightarrow> Subscription res" where
  "Subscription_start user_id tariff_id now =
     Subscription_post_init \<lparr>su_id = None, su_user_id = user_id, su_tariff_id = tariff_id,
       su_status = SS_ACTIVE, su_created_at = now, su_ended_at = None\<rparr>"

definition Subscription_activate :: "Subscription \<Rightarrow> Subscription res" where
  "Subscription_activate self =
     bindE (ensure (su_status self \<noteq> SS_CANCELLED)
              (InvalidStateTransition ''Cancelled subscription cannot be activated'')) (\<lambda>_.
     Inr (self\<lparr>su_status := SS_ACTIVE, su_ended_at := None\<rparr>))"

definition Subscription_expire :: "Subscription \<Rightarrow> time \<Rightarrow> Subscription" where
  "Subscription_expire self now =
     (if su_status self = SS_ENDED then self
      else self\<lparr>su_status := SS_ENDED, su_ended_at := Some now\<rparr>)"

definition Subscription_cancel :: "Subscription \<Rightarrow> time \<Rightarrow> Subscription res" where
  "Subscription_cancel self now =
     bindE (ensure (su_status self \<noteq> SS_ENDED)
              (InvalidStateTransition ''Ended subscription cannot be cancelled'')) (\<lambda>_.
     Inr (self\<lparr>su_status := SS_CANCELLED, su_ended_at := Some now\<rparr>))"

definition Subscription_pause :: "Subscription \<Rightarrow> Subscription res" where
  "Subscription_pause self =
     bindE (ensure (su_status self = SS_ACTIVE)
              (InvalidStateTransition ''Only active subscription can be paused'')) (\<lambda>_.
     Inr (self\<lparr>su_status := SS_PAUSED\<rparr>))"

definition Subscription_is_active :: "Subscription \<Rightarrow> time \<Rightarrow> SubscriptionPeriod option \<Rightarrow> bool" where
  "Subscription_is_active self now period \<longleftrightarrow>
     su_status self = SS_ACTIVE \<and>
     (case period of None \<Rightarrow> False | Some p \<Rightarrow> SubscriptionPeriod_contains p now)"

definition Subscription_extend ::
  "Subscription \<Rightarrow> int \<Rightarrow> time \<Rightarrow> SubscriptionPeriod option \<Rightarrow> bool \<Rightarrow> int option
     \<Rightarrow> (Subscription \<times> SubscriptionPeriod) res" where
  "Subscription_extend self period_days now last_period is_paid payment_order_id =
     bindE (ensure (\<not> period_days \<le> 0)
              (DomainValidationError ''Extension duration must be positive'')) (\<lambda>_.
     bindE (if su_status self \<noteq> SS_ACTIVE then Subscription_activate self else Inr self) (\<lambda>self.
     let starts_at = (case last_period of None \<Rightarrow> now | Some p \<Rightarrow> max now (sp_expires_at p)) in
     bindE (SubscriptionPeriod_post_init
       \<lparr>sp_id = None, sp_subscription_id = su_id self, sp_starts_at = starts_at,
        sp_expires_at = starts_at + days period_days, sp_is_paid = is_paid, sp_created_at = now,
        sp_payment_order_id = payment_order_id\<rparr>) (\<lambda>period.
     Inr (self, period))))"

section \<open>Tariffs and users\<close>

record Tariff =
  ta_id :: "int option"
  ta_name :: string
  ta_price :: Money
  ta_period_days :: int
  ta_description :: "string option"
  ta_is_enabled :: bool

definition Tariff_post_init :: "Tariff \<Rightarrow> Tariff res" where
  "Tariff_post_init self =
     (let self = self\<lparr>ta_name := strip (ta_name self)\<rparr> in
      bindE (ensure (ta_name self \<noteq> []) (DomainValidationError ''Tariff name cannot be blank'')) (\<lambda>_.
      bindE (ensure (\<not> minor (ta_price self) \<le> 0) (DomainValidationError ''Tariff price must be positive'')) (\<lambda>_.
      bindE (ensure (\<not> ta_period_days self \<le> 0) (DomainValidationError ''Tariff duration must be positive'')) (\<lambda>_.
      Inr self))))"

definition Tariff_calculate_expiration :: "Tariff \<Rightarrow> time \<Rightarrow> time" where
  "Tariff_calculate_expiration self starts_at = starts_at + days (ta_period_days self)"

definition Tariff_enable :: "Tariff \<Rightarrow> Tariff" where
  "Tariff_enable self = self\<lparr>ta_is_enabled := True\<rparr>"

definition Tariff_disable :: "Tariff \<Rightarrow> Tariff" where
  "Tariff_disable self = self\<lparr>ta_is_enabled := False\<rparr>"

record UserContact =
  uc_contact_type :: string
  uc_value :: string
  uc_is_primary :: bool

definition UserContact_post_init :: "UserContact \<Rightarrow> UserContact res" where
  "UserContact_post_init self =
     bindE (ensure (\<not> (strip (uc_contact_type self) = [] \<or> strip (uc_value self) = []))
              (DomainValidationError ''User contact type and value cannot be blank'')) (\<lambda>_.
     Inr self)"

record User =
  us_id :: "int option"
  us_name_or_nick :: string
  us_created_at :: "time option"
  us_contacts :: "UserContact list"
  us_enabled :: bool

definition User_rename :: "User \<Rightarrow> string \<Rightarrow> User res" where
  "User_rename self v =
     (let normalized = strip v in
      bindE (ensure (normalized \<noteq> []) (DomainValidationError ''User name cannot be blank'')) (\<lambda>_.
      Inr (self\<lparr>us_name_or_nick := normalized\<rparr>)))"

definition User_post_init :: "User \<Rightarrow> User res" where
  "User_post_init self = User_rename self (us_name_or_nick self)"

definition User_activate :: "User \<Rightarrow> User" where
  "User_activate self = self\<lparr>us_enabled := True\<rparr>"

definition User_block :: "User \<Rightarrow> User" where
  "User_block self = self\<lparr>us_enabled := False\<rparr>"

fun replace_contact :: "UserContact \<Rightarrow> UserContact list \<Rightarrow> UserContact list" where
  "replace_contact contact [] = [contact]"
| "replace_contact contact (current # rest) =
     (if uc_contact_type current = uc_contact_type contact \<and> uc_value current = uc_value contact
      then contact # rest else current # replace_contact contact rest)"

definition User_update_contact :: "User \<Rightarrow> UserContact \<Rightarrow> User res" where
  "User_update_contact self contact =
     bindE (if uc_is_primary contact
            then mapE (\<lambda>item. if uc_contact_type item = uc_contact_type contact
                              then UserContact_post_init (item\<lparr>uc_is_primary := False\<rparr>) else Inr item)
                   (us_contacts self)
            else Inr (us_contacts self)) (\<lambda>contacts.
     Inr (self\<lparr>us_contacts := replace_contact contact contacts\<rparr>))"

section \<open>Subscription policy\<close>

record SubscriptionActivation =
  sa_subscription :: Subscription
  sa_period :: SubscriptionPeriod
  sa_created_new_subscription :: bool
  sa_replaced_subscription :: "Subscription option"

definition apply_paid_period ::
  "Subscription option \<Rightarrow> SubscriptionPeriod option \<Rightarrow> int \<Rightarrow> int \<Rightarrow> int \<Rightarrow> time \<Rightarrow> SubscriptionActivation res" where
  "apply_paid_period active_subscription last_period user_id tariff_id period_days now =
     bindE (case active_subscription of
              None \<Rightarrow> bindE (Subscription_start user_id tariff_id now) (\<lambda>s. Inr (s, last_period, True, None))
            | Some a \<Rightarrow>
                (if su_tariff_id a \<noteq> tariff_id
                 then bindE (Subscription_start user_id tariff_id now) (\<lambda>s.
                      Inr (s, None, True, Some (Subscription_expire a now)))
                 else Inr (a, last_period, False, None)))
       (\<lambda>(sub, last, created_new, replaced).
     bindE (Subscription_extend sub period_days now last True None) (\<lambda>(sub, period).
     Inr \<lparr>sa_subscription = sub, sa_period = period, sa_created_new_subscription = created_new,
          sa_replaced_subscription = replaced\<rparr>))"

section \<open>Lemmas\<close>

definition subscription_wf :: "Subscription \<Rightarrow> bool" where
  "subscription_wf s \<longleftrightarrow> Subscription_post_init s = Inr s"

lemma subscription_wf_iff:
  "subscription_wf s \<longleftrightarrow> 0 < su_user_id s \<and> 0 < su_tariff_id s \<and> (su_status s = SS_ACTIVE \<longrightarrow> su_ended_at s = None)"
  by (auto simp: subscription_wf_def Subscription_post_init_def bindE_eq_Inr)

lemma Subscription_start_eq_Inr:
  "Subscription_start u tr now = Inr s \<longleftrightarrow> 0 < u \<and> 0 < tr \<and>
     s = \<lparr>su_id = None, su_user_id = u, su_tariff_id = tr, su_status = SS_ACTIVE, su_created_at = now, su_ended_at = None\<rparr>"
  by (auto simp: Subscription_start_def Subscription_post_init_def bindE_eq_Inr)

lemma Subscription_activate_eq_Inr:
  "Subscription_activate s = Inr s' \<longleftrightarrow>
     su_status s \<noteq> SS_CANCELLED \<and> s' = s\<lparr>su_status := SS_ACTIVE, su_ended_at := None\<rparr>"
  by (auto simp: Subscription_activate_def bindE_eq_Inr)

lemma Subscription_extend_eq_Inr:
  "Subscription_extend s d now lp paid oid = Inr (s', p) \<longleftrightarrow>
     0 < d \<and> su_status s \<noteq> SS_CANCELLED \<and>
     s' = (if su_status s = SS_ACTIVE then s else s\<lparr>su_status := SS_ACTIVE, su_ended_at := None\<rparr>) \<and>
     p = (let st = (case lp of None \<Rightarrow> now | Some q \<Rightarrow> max now (sp_expires_at q)) in
          \<lparr>sp_id = None, sp_subscription_id = su_id s, sp_starts_at = st, sp_expires_at = st + days d,
           sp_is_paid = paid, sp_created_at = now, sp_payment_order_id = oid\<rparr>)"
  by (auto simp: Subscription_extend_def bindE_eq_Inr Let_def SubscriptionPeriod_post_init_def
      Subscription_activate_eq_Inr not_le split: option.splits)

lemma Subscription_extend_wf:
  "Subscription_extend s d now lp paid oid = Inr (s', p) \<Longrightarrow> subscription_wf s \<Longrightarrow>
     subscription_wf s' \<and> su_status s' = SS_ACTIVE"
  by (auto simp: Subscription_extend_eq_Inr subscription_wf_iff split: if_splits)

lemma Subscription_expire_wf: "subscription_wf s \<Longrightarrow> subscription_wf (Subscription_expire s now)"
  by (simp add: Subscription_expire_def subscription_wf_iff)

text \<open>Extensions bought one after another, each with the previous period as the last one.\<close>

fun extend_all ::
  "Subscription \<Rightarrow> SubscriptionPeriod option \<Rightarrow> (int \<times> time) list \<Rightarrow> SubscriptionPeriod list res" where
  "extend_all s lp [] = Inr []"
| "extend_all s lp ((d, now) # xs) =
     bindE (Subscription_extend s d now lp True None) (\<lambda>(s', p).
     bindE (extend_all s' (Some p) xs) (\<lambda>ps. Inr (p # ps)))"

fun chained :: "SubscriptionPeriod list \<Rightarrow> bool" where
  "chained (p # q # ps) = (sp_expires_at p \<le> sp_starts_at q \<and> chained (q # ps))"
| "chained ps = True"

definition period_length :: "SubscriptionPeriod \<Rightarrow> int" where
  "period_length p = sp_expires_at p - sp_starts_at p"

lemma extend_all_chained:
  "extend_all s lp xs = Inr ps \<Longrightarrow>
     chained ((case lp of None \<Rightarrow> [] | Some p \<Rightarrow> [p]) @ ps) \<and>
     map period_length ps = map (days \<circ> fst) xs"
proof (induction xs arbitrary: s lp ps)
  case (Cons x xs)
  obtain d now where x: "x = (d, now)" by (cases x)
  obtain s' p qs where e: "Subscription_extend s d now lp True None = Inr (s', p)"
    and r: "extend_all s' (Some p) xs = Inr qs" and ps: "ps = p # qs"
    using Cons.prems by (auto simp: x bindE_eq_Inr)
  have "chained (p # qs)" and "map period_length qs = map (days \<circ> fst) xs"
    using Cons.IH [OF r] by simp_all
  moreover have "period_length p = days d" and "\<And>q. lp = Some q \<Longrightarrow> sp_expires_at q \<le> sp_starts_at p"
    using e by (auto simp: Subscription_extend_eq_Inr Let_def period_length_def)
  ultimately show ?case by (auto simp: ps x split: option.splits)
qed (auto split: option.splits)

lemma chained_tl: "chained (p # ps) \<Longrightarrow> chained ps"
  by (cases ps) simp_all

lemma chained_disjoint:
  assumes "chained (p # ps)" and "q \<in> set ps" and "\<forall>r \<in> set ps. 0 < period_length r"
  shows "sp_expires_at p \<le> sp_starts_at q"
  using assms
proof (induction ps arbitrary: p)
  case (Cons r ps)
  show ?case
  proof (cases "q = r")
    case False
    with Cons have "sp_expires_at r \<le> sp_starts_at q" by simp
    then show ?thesis using Cons.prems by (auto simp: period_length_def)
  qed (use Cons.prems in simp)
qed simp

lemma chained_at_most_one:
  assumes "chained ps" and "\<forall>r \<in> set ps. 0 < period_length r"
  shows "length (filter (\<lambda>p. SubscriptionPeriod_contains p t) ps) \<le> 1"
  using assms
proof (induction ps)
  case (Cons p ps)
  show ?case
  proof (cases "SubscriptionPeriod_contains p t")
    case True
    have "\<not> SubscriptionPeriod_contains q t" if "q \<in> set ps" for q
      using chained_disjoint [OF Cons.prems(1) that] Cons.prems(2) True
      by (auto simp: SubscriptionPeriod_contains_def)
    then show ?thesis by (simp add: filter_empty_conv [THEN iffD2])
  qed (use Cons chained_tl in auto)
qed simp

text \<open>Contacts: one entry per type and value, and at most one primary per type.\<close>

definition contacts_wf :: "UserContact list \<Rightarrow> bool" where
  "contacts_wf cs \<longleftrightarrow>
     distinct (map (\<lambda>c. (uc_contact_type c, uc_value c)) cs) \<and>
     distinct (map uc_contact_type (filter uc_is_primary cs)) \<and>
     list_all (\<lambda>c. UserContact_post_init c = Inr c) cs"

lemma replace_contact_keys:
  "set (map (\<lambda>c. (uc_contact_type c, uc_value c)) (replace_contact c cs)) =
     insert (uc_contact_type c, uc_value c) (set (map (\<lambda>c. (uc_contact_type c, uc_value c)) cs))"
  by (induction cs) auto

lemma replace_contact_distinct:
  "distinct (map (\<lambda>c. (uc_contact_type c, uc_value c)) cs) \<Longrightarrow>
     distinct (map (\<lambda>c. (uc_contact_type c, uc_value c)) (replace_contact c cs))"
proof (induction cs)
  case (Cons a cs)
  then show ?case using replace_contact_keys [of c cs] by (auto simp: image_iff)
qed simp

lemma replace_contact_set: "set (replace_contact c cs) \<subseteq> insert c (set cs)"
  by (induction cs) auto

lemma replace_contact_in: "c \<in> set (replace_contact c cs)"
  by (induction cs) auto

lemma replace_contact_primary:
  assumes "distinct (map uc_contact_type (filter uc_is_primary cs))"
    and "uc_is_primary c \<longrightarrow> uc_contact_type c \<notin> uc_contact_type ` set (filter uc_is_primary cs)"
  shows "distinct (map uc_contact_type (filter uc_is_primary (replace_contact c cs)))"
  using assms
proof (induction cs)
  case (Cons a cs)
  then show ?case using replace_contact_set [of c cs] by (cases "uc_is_primary a") (auto split: if_splits)
qed simp

definition demote :: "UserContact \<Rightarrow> UserContact \<Rightarrow> UserContact" where
  "demote c i = (if uc_is_primary c \<and> uc_contact_type i = uc_contact_type c then i\<lparr>uc_is_primary := False\<rparr> else i)"

lemma demote_fields [simp]:
  "uc_contact_type (demote c i) = uc_contact_type i" "uc_value (demote c i) = uc_value i"
  "uc_is_primary (demote c i) \<longleftrightarrow> uc_is_primary i \<and> \<not> (uc_is_primary c \<and> uc_contact_type i = uc_contact_type c)"
  by (simp_all add: demote_def)

lemma UserContact_post_init_eq_Inr:
  "UserContact_post_init c = Inr d \<longleftrightarrow> strip (uc_contact_type c) \<noteq> [] \<and> strip (uc_value c) \<noteq> [] \<and> d = c"
  by (auto simp: UserContact_post_init_def bindE_eq_Inr)

lemma User_update_contact_run:
  assumes "contacts_wf (us_contacts u)"
  shows "User_update_contact u c = Inr (u\<lparr>us_contacts := replace_contact c (map (demote c) (us_contacts u))\<rparr>)"
proof (cases "uc_is_primary c")
  case True
  have "mapE (\<lambda>item. if uc_contact_type item = uc_contact_type c
      then UserContact_post_init (item\<lparr>uc_is_primary := False\<rparr>) else Inr item) (us_contacts u)
      = Inr (map (demote c) (us_contacts u))"
    using assms True
    by (intro mapE_eq_map) (auto simp: contacts_wf_def list_all_iff demote_def UserContact_post_init_eq_Inr)
  with True show ?thesis by (simp add: User_update_contact_def)
next
  case False
  then have "map (demote c) (us_contacts u) = us_contacts u" by (simp add: demote_def map_idI)
  with False show ?thesis by (simp add: User_update_contact_def)
qed

lemma demote_primary_distinct:
  "distinct (map uc_contact_type (filter uc_is_primary cs)) \<Longrightarrow>
     distinct (map uc_contact_type (filter uc_is_primary (map (demote c) cs)))"
  by (induction cs) (auto split: if_splits)

section \<open>Properties\<close>

text \<open>Extending a subscription any number of times yields paid periods of exactly the bought
  lengths that never overlap: each starts no earlier than the previous one ends, so no instant is
  covered twice and no paid day is lost, whatever the purchase times.\<close>

theorem extensions_never_overlap:
  assumes "extend_all s lp xs = Inr ps"
  shows "map period_length ps = map (days \<circ> fst) xs \<and> chained ps \<and>
         length (filter (\<lambda>p. SubscriptionPeriod_contains p t) ps) \<le> 1"
proof -
  have c: "chained ps" and l: "map period_length ps = map (days \<circ> fst) xs"
    using extend_all_chained [OF assms] chained_tl by (auto split: option.splits)
  have "list_all (\<lambda>x. 0 < fst x) xs"
    using assms by (induction xs arbitrary: s lp ps) (auto simp: bindE_eq_Inr Subscription_extend_eq_Inr)
  then have "\<forall>d \<in> set (map (days \<circ> fst) xs). 0 < d" by (auto simp: list_all_iff)
  then have "\<forall>r \<in> set ps. 0 < period_length r" unfolding l [symmetric] by simp
  with c l show ?thesis using chained_at_most_one by blast
qed

theorem extensions_never_overlap_witness:
  "\<exists>s p q. extend_all s None [(30, 0), (10, days 3)] = Inr [p, q] \<and>
     sp_expires_at p = days 30 \<and> sp_starts_at q = days 30 \<and>
     length (filter (\<lambda>p. SubscriptionPeriod_contains p (days 30)) [p, q]) \<le> 1"
proof -
  let ?s = "\<lparr>su_id = Some 1, su_user_id = 1, su_tariff_id = 1, su_status = SS_ACTIVE, su_created_at = 0, su_ended_at = None\<rparr>"
  have e: "\<exists>p q. extend_all ?s None [(30, 0), (10, days 3)] = Inr [p, q] \<and> sp_expires_at p = days 30 \<and> sp_starts_at q = days 30"
    by (simp add: Subscription_extend_def SubscriptionPeriod_post_init_def days_def)
  then obtain p q where "extend_all ?s None [(30, 0), (10, days 3)] = Inr [p, q]"
    "sp_expires_at p = days 30" "sp_starts_at q = days 30" by blast
  with extensions_never_overlap [OF this(1), of "days 30"] show ?thesis by blast
qed

text \<open>Applying a paid period to a user's active subscription: with the same tariff the
  subscription is kept and the period is appended after the last one; with another tariff (or none) a
  new active subscription of the paid tariff starts now, and the old one is ended now. In every case
  the result is active, has the paid tariff, and the new period is paid and lasts the paid days.\<close>

theorem apply_paid_period_correct:
  assumes "apply_paid_period active lp uid tid d now = Inr r"
    and "\<And>a. active = Some a \<Longrightarrow> su_status a = SS_ACTIVE"
  shows "su_status (sa_subscription r) = SS_ACTIVE \<and> su_tariff_id (sa_subscription r) = tid \<and>
         sp_is_paid (sa_period r) \<and> period_length (sa_period r) = days d \<and> now \<le> sp_starts_at (sa_period r) \<and>
         (case active of
            None \<Rightarrow> sa_created_new_subscription r \<and> sa_replaced_subscription r = None \<and> su_id (sa_subscription r) = None
          | Some a \<Rightarrow>
              (if su_tariff_id a = tid
               then \<not> sa_created_new_subscription r \<and> sa_replaced_subscription r = None \<and> sa_subscription r = a \<and>
                    (\<forall>p. lp = Some p \<longrightarrow> sp_starts_at (sa_period r) = max now (sp_expires_at p))
               else sa_created_new_subscription r \<and> sp_starts_at (sa_period r) = now \<and>
                    su_user_id (sa_subscription r) = uid \<and>
                    sa_replaced_subscription r = Some (a\<lparr>su_status := SS_ENDED, su_ended_at := Some now\<rparr>)))"
  using assms
  by (cases active)
     (auto simp: apply_paid_period_def bindE_eq_Inr Subscription_start_eq_Inr Subscription_extend_eq_Inr
       Let_def period_length_def Subscription_expire_def split: if_splits option.splits)

theorem apply_paid_period_correct_witness:
  "\<exists>r. apply_paid_period (Some \<lparr>su_id = Some 4, su_user_id = 1, su_tariff_id = 2, su_status = SS_ACTIVE,
          su_created_at = 0, su_ended_at = None\<rparr>) None 1 3 30 9 = Inr r \<and>
       sa_created_new_subscription r \<and> sp_starts_at (sa_period r) = 9"
proof -
  let ?a = "\<lparr>su_id = Some 4, su_user_id = 1, su_tariff_id = 2, su_status = SS_ACTIVE, su_created_at = 0, su_ended_at = None\<rparr>"
  have "\<exists>r. apply_paid_period (Some ?a) None 1 3 30 9 = Inr r"
    by (simp add: apply_paid_period_def Subscription_start_def Subscription_post_init_def
        Subscription_extend_def SubscriptionPeriod_post_init_def days_def)
  then obtain r where r: "apply_paid_period (Some ?a) None 1 3 30 9 = Inr r" by blast
  with apply_paid_period_correct [OF r] show ?thesis by auto
qed

text \<open>Updating a user's contact keeps one entry per type and value and at most one primary
  contact per type; the updated contact is among the contacts afterwards, and the call cannot fail.\<close>

theorem update_contact_keeps_primary_unique:
  assumes "contacts_wf (us_contacts u)" and "UserContact_post_init c = Inr c"
  shows "\<exists>u'. User_update_contact u c = Inr u' \<and> contacts_wf (us_contacts u') \<and> c \<in> set (us_contacts u') \<and>
     (uc_is_primary c \<longrightarrow> (\<forall>d \<in> set (us_contacts u'). uc_is_primary d \<and> uc_contact_type d = uc_contact_type c \<longrightarrow> d = c))"
proof -
  let ?cs = "map (demote c) (us_contacts u)"
  let ?rs = "replace_contact c ?cs"
  have "distinct (map (\<lambda>c. (uc_contact_type c, uc_value c)) ?rs)"
    using assms(1) by (intro replace_contact_distinct) (simp add: contacts_wf_def comp_def)
  moreover have "distinct (map uc_contact_type (filter uc_is_primary ?rs))"
    using assms(1) by (intro replace_contact_primary demote_primary_distinct) (auto simp: contacts_wf_def)
  moreover have "list_all (\<lambda>c. UserContact_post_init c = Inr c) ?rs"
    using assms replace_contact_set [of c ?cs]
    by (fastforce simp: contacts_wf_def list_all_iff UserContact_post_init_eq_Inr)
  ultimately have wf: "contacts_wf ?rs" by (simp add: contacts_wf_def)
  have "uc_is_primary d \<and> uc_contact_type d = uc_contact_type c \<longrightarrow> d = c"
    if "uc_is_primary c" and "d \<in> set ?rs" for d
    using that replace_contact_set [of c ?cs] by auto
  with User_update_contact_run [OF assms(1)] wf replace_contact_in [of c ?cs] show ?thesis by simp
qed

theorem update_contact_keeps_primary_unique_witness:
  "\<exists>u u' c. contacts_wf (us_contacts u) \<and> us_contacts u \<noteq> [] \<and> User_update_contact u c = Inr u' \<and> contacts_wf (us_contacts u')"
proof -
  let ?a = "\<lparr>uc_contact_type = ''tg'', uc_value = ''1'', uc_is_primary = True\<rparr>"
  let ?b = "\<lparr>uc_contact_type = ''tg'', uc_value = ''2'', uc_is_primary = True\<rparr>"
  let ?u = "\<lparr>us_id = None, us_name_or_nick = ''n'', us_created_at = None, us_contacts = [?a], us_enabled = True\<rparr>"
  have "contacts_wf (us_contacts ?u)" and "UserContact_post_init ?b = Inr ?b" by code_simp+
  with update_contact_keeps_primary_unique [OF this] show ?thesis by fastforce
qed

end
