(* ===== verification/PanelTask.thy ===== *)
theory PanelTask
  imports Lease
begin

text \<open>
  The panel provision and panel revoke tasks (\<^verbatim>\<open>domain/entities/panel_task.py\<close>). Both interpret
  \<open>leased_task\<close>. Unlike a node task, a panel task that lost its lease, or that needs compensation, is
  put back to pending whatever its attempts are; the theorems state both sides of this.
\<close>

section \<open>Panel provision task\<close>

datatype PanelTaskStatus = PTS_PENDING | PTS_IN_PROGRESS | PTS_SUCCEEDED | PTS_FAILED | PTS_CANCELLED

record PanelProvisionTask =
  pp_id :: "int option"
  pp_vpn_configuration_id :: int
  pp_subscription_id :: int
  pp_status :: PanelTaskStatus
  pp_idempotency_key :: string
  pp_payload :: dict
  pp_vpn_generation :: int
  pp_attempts :: int
  pp_max_attempts :: int
  pp_next_retry_at :: "time option"
  pp_last_error :: "string option"
  pp_claimed_at :: "time option"
  pp_lease_expires_at :: "time option"
  pp_lease_token :: "uuid option"
  pp_compensation_required :: bool
  pp_created_at :: "time option"
  pp_updated_at :: "time option"
  pp_completed_at :: "time option"

definition PanelProvisionTask_post_init :: "PanelProvisionTask \<Rightarrow> PanelProvisionTask res" where
  "PanelProvisionTask_post_init self =
     bindE (ensure (\<not> (pp_attempts self < 0 \<or> pp_max_attempts self \<le> 0))
              (DomainValidationError ''Invalid panel task attempt limits'')) (\<lambda>_.
     bindE (ensure (\<not> pp_vpn_generation self \<le> 0)
              (DomainValidationError ''Panel task VPN generation must be positive'')) (\<lambda>_.
     bindE (ensure (strip (pp_idempotency_key self) \<noteq> [])
              (DomainValidationError ''Panel task idempotency key cannot be blank'')) (\<lambda>_.
     Inr self)))"

definition PanelProvisionTask_can_dispatch :: "PanelProvisionTask \<Rightarrow> time \<Rightarrow> bool" where
  "PanelProvisionTask_can_dispatch self now \<longleftrightarrow>
     pp_status self = PTS_PENDING \<and> (case pp_next_retry_at self of None \<Rightarrow> True | Some r \<Rightarrow> r \<le> now)"

definition PanelProvisionTask_start_attempt ::
  "PanelProvisionTask \<Rightarrow> time \<Rightarrow> time \<Rightarrow> uuid \<Rightarrow> (int \<times> PanelProvisionTask) res" where
  "PanelProvisionTask_start_attempt self now lease_expires_at lease_token =
     bindE (ensure (PanelProvisionTask_can_dispatch self now)
              (InvalidStateTransition ''Panel task is not ready for dispatch'')) (\<lambda>_.
     bindE (ensure (\<not> lease_expires_at \<le> now)
              (DomainValidationError ''Panel task lease must expire after claim time'')) (\<lambda>_.
     Inr (pp_attempts self + 1,
       self\<lparr>pp_status := PTS_IN_PROGRESS, pp_attempts := pp_attempts self + 1, pp_claimed_at := Some now,
            pp_lease_expires_at := Some lease_expires_at, pp_lease_token := Some lease_token,
            pp_last_error := None, pp_updated_at := Some now\<rparr>)))"

definition PanelProvisionTask_owns_active_lease :: "PanelProvisionTask \<Rightarrow> uuid \<Rightarrow> int \<Rightarrow> time \<Rightarrow> bool" where
  "PanelProvisionTask_owns_active_lease self token attempt_no now \<longleftrightarrow>
     pp_status self = PTS_IN_PROGRESS \<and> pp_lease_token self = Some token \<and> pp_attempts self = attempt_no \<and>
     (case pp_lease_expires_at self of None \<Rightarrow> False | Some e \<Rightarrow> now < e)"

definition PanelProvisionTask_owns_lease :: "PanelProvisionTask \<Rightarrow> uuid \<Rightarrow> int \<Rightarrow> bool" where
  "PanelProvisionTask_owns_lease self token attempt_no \<longleftrightarrow>
     pp_status self = PTS_IN_PROGRESS \<and> pp_lease_token self = Some token \<and> pp_attempts self = attempt_no"

definition PanelProvisionTask_lease_is_expired :: "PanelProvisionTask \<Rightarrow> time \<Rightarrow> bool" where
  "PanelProvisionTask_lease_is_expired self now \<longleftrightarrow>
     pp_status self = PTS_IN_PROGRESS \<and>
     (case pp_lease_expires_at self of None \<Rightarrow> False | Some e \<Rightarrow> e \<le> now)"

definition PanelProvisionTask_clear_lease :: "PanelProvisionTask \<Rightarrow> PanelProvisionTask" where
  "PanelProvisionTask_clear_lease self =
     self\<lparr>pp_claimed_at := None, pp_lease_expires_at := None, pp_lease_token := None\<rparr>"

definition PanelProvisionTask_complete :: "PanelProvisionTask \<Rightarrow> time \<Rightarrow> PanelProvisionTask res" where
  "PanelProvisionTask_complete self now =
     bindE (ensure (pp_status self = PTS_IN_PROGRESS)
              (InvalidStateTransition ''Only in-progress panel task can complete'')) (\<lambda>_.
     Inr (PanelProvisionTask_clear_lease
       (self\<lparr>pp_status := PTS_SUCCEEDED, pp_completed_at := Some now, pp_updated_at := Some now,
             pp_last_error := None, pp_compensation_required := False\<rparr>)))"

definition PanelProvisionTask_cancel :: "PanelProvisionTask \<Rightarrow> time \<Rightarrow> PanelProvisionTask" where
  "PanelProvisionTask_cancel self now =
     PanelProvisionTask_clear_lease
       (self\<lparr>pp_status := PTS_CANCELLED, pp_completed_at := Some now, pp_updated_at := Some now,
             pp_last_error := None, pp_compensation_required := False\<rparr>)"

definition PanelProvisionTask_fail :: "PanelProvisionTask \<Rightarrow> time \<Rightarrow> string \<Rightarrow> PanelProvisionTask" where
  "PanelProvisionTask_fail self now error =
     PanelProvisionTask_clear_lease
       (self\<lparr>pp_status := PTS_FAILED, pp_last_error := Some error, pp_completed_at := Some now,
             pp_updated_at := Some now\<rparr>)"

definition PanelProvisionTask_retry :: "PanelProvisionTask \<Rightarrow> time \<Rightarrow> string \<Rightarrow> int \<Rightarrow> PanelProvisionTask" where
  "PanelProvisionTask_retry self now error base_delay_seconds =
     (if pp_attempts self \<ge> pp_max_attempts self then PanelProvisionTask_fail self now error
      else PanelProvisionTask_clear_lease
        (self\<lparr>pp_status := PTS_PENDING,
              pp_next_retry_at := Some (now + seconds (backoff_seconds base_delay_seconds (pp_attempts self))),
              pp_last_error := Some error, pp_updated_at := Some now\<rparr>))"

definition PanelProvisionTask_recover_expired_lease ::
  "PanelProvisionTask \<Rightarrow> time \<Rightarrow> string \<Rightarrow> PanelProvisionTask res" where
  "PanelProvisionTask_recover_expired_lease self now error =
     bindE (ensure (PanelProvisionTask_lease_is_expired self now)
              (InvalidStateTransition ''Panel task lease is not expired'')) (\<lambda>_.
     Inr (PanelProvisionTask_clear_lease
       (self\<lparr>pp_status := PTS_PENDING, pp_next_retry_at := Some now, pp_last_error := Some error,
             pp_compensation_required := True, pp_updated_at := Some now\<rparr>)))"

definition PanelProvisionTask_mark_compensation_required ::
  "PanelProvisionTask \<Rightarrow> time \<Rightarrow> string \<Rightarrow> PanelProvisionTask res" where
  "PanelProvisionTask_mark_compensation_required self now error =
     bindE (ensure (pp_status self = PTS_IN_PROGRESS)
              (InvalidStateTransition ''Only in-progress panel task can require owned compensation'')) (\<lambda>_.
     Inr (self\<lparr>pp_compensation_required := True, pp_last_error := Some error, pp_updated_at := Some now\<rparr>))"

definition PanelProvisionTask_require_compensation ::
  "PanelProvisionTask \<Rightarrow> time \<Rightarrow> string \<Rightarrow> PanelProvisionTask" where
  "PanelProvisionTask_require_compensation self now error =
     PanelProvisionTask_clear_lease
       (self\<lparr>pp_status := PTS_PENDING, pp_next_retry_at := Some now, pp_last_error := Some error,
             pp_compensation_required := True, pp_updated_at := Some now\<rparr>)"

definition PanelProvisionTask_compensation_succeeded ::
  "PanelProvisionTask \<Rightarrow> time \<Rightarrow> bool \<Rightarrow> PanelProvisionTask" where
  "PanelProvisionTask_compensation_succeeded self now terminal_local_state =
     (let self = PanelProvisionTask_clear_lease
        (self\<lparr>pp_compensation_required := False, pp_last_error := None, pp_updated_at := Some now\<rparr>) in
      if terminal_local_state then self\<lparr>pp_status := PTS_CANCELLED, pp_completed_at := Some now\<rparr>
      else if pp_attempts self \<ge> pp_max_attempts self
      then self\<lparr>pp_status := PTS_FAILED, pp_completed_at := Some now\<rparr>
      else self\<lparr>pp_status := PTS_PENDING, pp_next_retry_at := Some now, pp_completed_at := None\<rparr>)"

section \<open>Panel revoke task\<close>

record PanelRevokeTask =
  pr_id :: "int option"
  pr_task_uuid :: uuid
  pr_vpn_configuration_id :: int
  pr_subscription_id :: int
  pr_vpn_generation :: int
  pr_status :: PanelTaskStatus
  pr_idempotency_key :: string
  pr_payload :: dict
  pr_attempts :: int
  pr_max_attempts :: int
  pr_next_retry_at :: "time option"
  pr_last_error :: "string option"
  pr_claimed_at :: "time option"
  pr_lease_expires_at :: "time option"
  pr_lease_token :: "uuid option"
  pr_created_at :: "time option"
  pr_updated_at :: "time option"
  pr_completed_at :: "time option"

definition PanelRevokeTask_post_init :: "PanelRevokeTask \<Rightarrow> PanelRevokeTask res" where
  "PanelRevokeTask_post_init self =
     bindE (ensure (\<not> pr_vpn_generation self \<le> 0)
              (DomainValidationError ''Panel revoke task VPN generation must be positive'')) (\<lambda>_.
     bindE (ensure (\<not> (pr_attempts self < 0 \<or> pr_max_attempts self \<le> 0))
              (DomainValidationError ''Invalid panel revoke task attempt limits'')) (\<lambda>_.
     bindE (ensure (strip (pr_idempotency_key self) \<noteq> [])
              (DomainValidationError ''Panel revoke task idempotency key cannot be blank'')) (\<lambda>_.
     Inr self)))"

definition PanelRevokeTask_can_dispatch :: "PanelRevokeTask \<Rightarrow> time \<Rightarrow> bool" where
  "PanelRevokeTask_can_dispatch self now \<longleftrightarrow>
     pr_status self = PTS_PENDING \<and> (case pr_next_retry_at self of None \<Rightarrow> True | Some r \<Rightarrow> r \<le> now)"

definition PanelRevokeTask_start_attempt ::
  "PanelRevokeTask \<Rightarrow> time \<Rightarrow> time \<Rightarrow> uuid \<Rightarrow> (int \<times> PanelRevokeTask) res" where
  "PanelRevokeTask_start_attempt self now lease_expires_at lease_token =
     bindE (ensure (PanelRevokeTask_can_dispatch self now)
              (InvalidStateTransition ''Panel revoke task is not ready for dispatch'')) (\<lambda>_.
     bindE (ensure (\<not> lease_expires_at \<le> now)
              (DomainValidationError ''Panel revoke task lease must expire after claim time'')) (\<lambda>_.
     Inr (pr_attempts self + 1,
       self\<lparr>pr_status := PTS_IN_PROGRESS, pr_attempts := pr_attempts self + 1, pr_claimed_at := Some now,
            pr_lease_expires_at := Some lease_expires_at, pr_lease_token := Some lease_token,
            pr_last_error := None, pr_updated_at := Some now\<rparr>)))"

definition PanelRevokeTask_owns_active_lease :: "PanelRevokeTask \<Rightarrow> uuid \<Rightarrow> int \<Rightarrow> time \<Rightarrow> bool" where
  "PanelRevokeTask_owns_active_lease self token attempt_no now \<longleftrightarrow>
     pr_status self = PTS_IN_PROGRESS \<and> pr_lease_token self = Some token \<and> pr_attempts self = attempt_no \<and>
     (case pr_lease_expires_at self of None \<Rightarrow> False | Some e \<Rightarrow> now < e)"

definition PanelRevokeTask_owns_lease :: "PanelRevokeTask \<Rightarrow> uuid \<Rightarrow> int \<Rightarrow> bool" where
  "PanelRevokeTask_owns_lease self token attempt_no \<longleftrightarrow>
     pr_status self = PTS_IN_PROGRESS \<and> pr_lease_token self = Some token \<and> pr_attempts self = attempt_no"

definition PanelRevokeTask_lease_is_expired :: "PanelRevokeTask \<Rightarrow> time \<Rightarrow> bool" where
  "PanelRevokeTask_lease_is_expired self now \<longleftrightarrow>
     pr_status self = PTS_IN_PROGRESS \<and>
     (case pr_lease_expires_at self of None \<Rightarrow> False | Some e \<Rightarrow> e \<le> now)"

definition PanelRevokeTask_clear_lease :: "PanelRevokeTask \<Rightarrow> PanelRevokeTask" where
  "PanelRevokeTask_clear_lease self =
     self\<lparr>pr_claimed_at := None, pr_lease_expires_at := None, pr_lease_token := None\<rparr>"

definition PanelRevokeTask_complete :: "PanelRevokeTask \<Rightarrow> time \<Rightarrow> PanelRevokeTask res" where
  "PanelRevokeTask_complete self now =
     bindE (ensure (pr_status self = PTS_IN_PROGRESS)
              (InvalidStateTransition ''Only in-progress panel revoke task can complete'')) (\<lambda>_.
     Inr (PanelRevokeTask_clear_lease
       (self\<lparr>pr_status := PTS_SUCCEEDED, pr_completed_at := Some now, pr_updated_at := Some now,
             pr_last_error := None\<rparr>)))"

definition PanelRevokeTask_fail :: "PanelRevokeTask \<Rightarrow> time \<Rightarrow> string \<Rightarrow> PanelRevokeTask" where
  "PanelRevokeTask_fail self now error =
     PanelRevokeTask_clear_lease
       (self\<lparr>pr_status := PTS_FAILED, pr_last_error := Some error, pr_completed_at := Some now,
             pr_updated_at := Some now\<rparr>)"

definition PanelRevokeTask_retry :: "PanelRevokeTask \<Rightarrow> time \<Rightarrow> string \<Rightarrow> int \<Rightarrow> PanelRevokeTask" where
  "PanelRevokeTask_retry self now error base_delay_seconds =
     (if pr_attempts self \<ge> pr_max_attempts self then PanelRevokeTask_fail self now error
      else PanelRevokeTask_clear_lease
        (self\<lparr>pr_status := PTS_PENDING,
              pr_next_retry_at := Some (now + seconds (backoff_seconds base_delay_seconds (pr_attempts self))),
              pr_last_error := Some error, pr_updated_at := Some now\<rparr>))"

definition PanelRevokeTask_recover_expired_lease ::
  "PanelRevokeTask \<Rightarrow> time \<Rightarrow> string \<Rightarrow> PanelRevokeTask res" where
  "PanelRevokeTask_recover_expired_lease self now error =
     bindE (ensure (PanelRevokeTask_lease_is_expired self now)
              (InvalidStateTransition ''Panel revoke task lease is not expired'')) (\<lambda>_.
     Inr (PanelRevokeTask_clear_lease
       (self\<lparr>pr_status := PTS_PENDING, pr_next_retry_at := Some now, pr_last_error := Some error,
             pr_updated_at := Some now\<rparr>)))"

section \<open>Lease contract\<close>

inductive panel_provision_step :: "PanelProvisionTask \<Rightarrow> PanelProvisionTask \<Rightarrow> bool" where
  pp_step_complete: "PanelProvisionTask_complete t now = Inr t' \<Longrightarrow> panel_provision_step t t'"
| pp_step_cancel: "panel_provision_step t (PanelProvisionTask_cancel t now)"
| pp_step_fail: "panel_provision_step t (PanelProvisionTask_fail t now err)"
| pp_step_retry: "panel_provision_step t (PanelProvisionTask_retry t now err b)"
| pp_step_recover: "PanelProvisionTask_recover_expired_lease t now err = Inr t' \<Longrightarrow> panel_provision_step t t'"
| pp_step_mark: "PanelProvisionTask_mark_compensation_required t now err = Inr t' \<Longrightarrow> panel_provision_step t t'"
| pp_step_require: "panel_provision_step t (PanelProvisionTask_require_compensation t now err)"
| pp_step_compensated: "panel_provision_step t (PanelProvisionTask_compensation_succeeded t now term)"

inductive panel_revoke_step :: "PanelRevokeTask \<Rightarrow> PanelRevokeTask \<Rightarrow> bool" where
  pr_step_complete: "PanelRevokeTask_complete t now = Inr t' \<Longrightarrow> panel_revoke_step t t'"
| pr_step_fail: "panel_revoke_step t (PanelRevokeTask_fail t now err)"
| pr_step_retry: "panel_revoke_step t (PanelRevokeTask_retry t now err b)"
| pr_step_recover: "PanelRevokeTask_recover_expired_lease t now err = Inr t' \<Longrightarrow> panel_revoke_step t t'"

abbreviation panel_provision_run :: "PanelProvisionTask \<Rightarrow> PanelProvisionTask \<Rightarrow> bool" where
  "panel_provision_run \<equiv> task_run PanelProvisionTask_start_attempt panel_provision_step"

abbreviation panel_revoke_run :: "PanelRevokeTask \<Rightarrow> PanelRevokeTask \<Rightarrow> bool" where
  "panel_revoke_run \<equiv> task_run PanelRevokeTask_start_attempt panel_revoke_step"

lemmas panel_provision_ops = PanelProvisionTask_complete_def PanelProvisionTask_cancel_def
  PanelProvisionTask_fail_def PanelProvisionTask_retry_def PanelProvisionTask_recover_expired_lease_def
  PanelProvisionTask_mark_compensation_required_def PanelProvisionTask_require_compensation_def
  PanelProvisionTask_compensation_succeeded_def PanelProvisionTask_clear_lease_def

lemmas panel_revoke_ops = PanelRevokeTask_complete_def PanelRevokeTask_fail_def PanelRevokeTask_retry_def
  PanelRevokeTask_recover_expired_lease_def PanelRevokeTask_clear_lease_def

interpretation pp_lease: leased_task PanelProvisionTask_start_attempt PanelProvisionTask_owns_active_lease
  PanelProvisionTask_lease_is_expired pp_attempts panel_provision_step
proof
  fix t t' :: PanelProvisionTask and tok n m
  assume "panel_provision_step t t'"
  then show "PanelProvisionTask_owns_active_lease t' tok n m \<Longrightarrow> PanelProvisionTask_owns_active_lease t tok n m"
    by cases (auto simp: panel_provision_ops PanelProvisionTask_owns_active_lease_def bindE_eq_Inr Let_def
        split: if_splits)
next
  fix t t' :: PanelProvisionTask
  assume "panel_provision_step t t'"
  then show "pp_attempts t' = pp_attempts t"
    by cases (auto simp: panel_provision_ops bindE_eq_Inr Let_def)
qed (auto simp: PanelProvisionTask_start_attempt_def PanelProvisionTask_owns_active_lease_def
       PanelProvisionTask_lease_is_expired_def PanelProvisionTask_can_dispatch_def bindE_eq_Inr split: option.splits)

interpretation pr_lease: leased_task PanelRevokeTask_start_attempt PanelRevokeTask_owns_active_lease
  PanelRevokeTask_lease_is_expired pr_attempts panel_revoke_step
proof
  fix t t' :: PanelRevokeTask and tok n m
  assume "panel_revoke_step t t'"
  then show "PanelRevokeTask_owns_active_lease t' tok n m \<Longrightarrow> PanelRevokeTask_owns_active_lease t tok n m"
    by cases (auto simp: panel_revoke_ops PanelRevokeTask_owns_active_lease_def bindE_eq_Inr split: if_splits)
next
  fix t t' :: PanelRevokeTask
  assume "panel_revoke_step t t'"
  then show "pr_attempts t' = pr_attempts t"
    by cases (auto simp: panel_revoke_ops bindE_eq_Inr)
qed (auto simp: PanelRevokeTask_start_attempt_def PanelRevokeTask_owns_active_lease_def
       PanelRevokeTask_lease_is_expired_def PanelRevokeTask_can_dispatch_def bindE_eq_Inr split: option.splits)

definition sample_panel_revoke :: PanelRevokeTask where
  "sample_panel_revoke = \<lparr>pr_id = Some 1, pr_task_uuid = ''u'', pr_vpn_configuration_id = 1, pr_subscription_id = 1,
     pr_vpn_generation = 2, pr_status = PTS_PENDING, pr_idempotency_key = ''k'', pr_payload = [], pr_attempts = 0,
     pr_max_attempts = 5, pr_next_retry_at = None, pr_last_error = None, pr_claimed_at = None,
     pr_lease_expires_at = None, pr_lease_token = None, pr_created_at = None, pr_updated_at = None,
     pr_completed_at = None\<rparr>"

definition sample_panel_provision :: PanelProvisionTask where
  "sample_panel_provision = \<lparr>pp_id = Some 1, pp_vpn_configuration_id = 1, pp_subscription_id = 1,
     pp_status = PTS_PENDING, pp_idempotency_key = ''k'', pp_payload = [], pp_vpn_generation = 1, pp_attempts = 0,
     pp_max_attempts = 5, pp_next_retry_at = None, pp_last_error = None, pp_claimed_at = None,
     pp_lease_expires_at = None, pp_lease_token = None, pp_compensation_required = False, pp_created_at = None,
     pp_updated_at = None, pp_completed_at = None\<rparr>"

text \<open>One lost lease: start an attempt at \<open>now\<close>, recover it when the lease ends.\<close>

lemma panel_revoke_lost_attempt:
  assumes "PanelRevokeTask_can_dispatch t now"
  shows "\<exists>t1 t2 n. PanelRevokeTask_start_attempt t now (now + 1) tok = Inr (n, t1) \<and>
     PanelRevokeTask_recover_expired_lease t1 (now + 1) err = Inr t2 \<and>
     PanelRevokeTask_can_dispatch t2 (now + 1) \<and> pr_attempts t2 = pr_attempts t + 1 \<and>
     pr_max_attempts t2 = pr_max_attempts t"
  using assms
  by (simp add: PanelRevokeTask_start_attempt_def panel_revoke_ops PanelRevokeTask_lease_is_expired_def
      PanelRevokeTask_can_dispatch_def)

text \<open>A panel revoke task is not bounded by its limit: repeated lease losses take the attempts past any number.\<close>

theorem panel_revoke_attempts_exceed_limit:
  "\<exists>t. panel_revoke_run sample_panel_revoke t \<and> pr_attempts t = int k \<and> pr_max_attempts t = 5 \<and>
       PanelRevokeTask_can_dispatch t (int k)"
proof (induction k)
  case 0
  have "pr_attempts sample_panel_revoke = int 0" "pr_max_attempts sample_panel_revoke = 5"
    "PanelRevokeTask_can_dispatch sample_panel_revoke (int 0)"
    by (simp_all add: sample_panel_revoke_def PanelRevokeTask_can_dispatch_def)
  then show ?case by (intro exI [of _ sample_panel_revoke] conjI run_refl)
next
  case (Suc k)
  then obtain t where t: "panel_revoke_run sample_panel_revoke t" "pr_attempts t = int k" "pr_max_attempts t = 5"
    "PanelRevokeTask_can_dispatch t (int k)" by blast
  obtain t1 t2 n
    where s: "PanelRevokeTask_start_attempt t (int k) (int k + 1) [] = Inr (n, t1)"
      and r: "PanelRevokeTask_recover_expired_lease t1 (int k + 1) [] = Inr t2"
      and d: "PanelRevokeTask_can_dispatch t2 (int k + 1)" "pr_attempts t2 = int k + 1" "pr_max_attempts t2 = 5"
    using panel_revoke_lost_attempt [OF t(4), of "[]" "[]"] unfolding t(2,3) by blast
  have "panel_revoke_run sample_panel_revoke t2"
    using run_start [OF t(1) s] pr_step_recover [OF r] by (rule run_step)
  with d show ?case by (intro exI [of _ t2]) (simp add: add.commute)
qed

section \<open>Properties\<close>

text \<open>Fencing for panel tasks: once a later attempt of a panel provision or panel revoke task has
  started, the worker of the earlier attempt never owns the task again, even if lease tokens repeat.\<close>

theorem panel_task_stale_attempt_fenced:
  "(PanelProvisionTask_start_attempt t now e tok = Inr (n, t1) \<and> panel_provision_run t1 t2 \<and>
    PanelProvisionTask_start_attempt t2 now' e' tok' = Inr (n', t3) \<and> panel_provision_run t3 t4 \<longrightarrow>
      \<not> PanelProvisionTask_owns_active_lease t4 tok n m) \<and>
   (PanelRevokeTask_start_attempt r now e tok = Inr (n, r1) \<and> panel_revoke_run r1 r2 \<and>
    PanelRevokeTask_start_attempt r2 now' e' tok' = Inr (n', r3) \<and> panel_revoke_run r3 r4 \<longrightarrow>
      \<not> PanelRevokeTask_owns_active_lease r4 tok n m)"
  by (meson pp_lease.fenced pr_lease.fenced)

theorem panel_task_stale_attempt_fenced_witness:
  "\<exists>r1 r2 r3. PanelRevokeTask_start_attempt sample_panel_revoke 0 1 ''a'' = Inr (1, r1) \<and>
     PanelRevokeTask_recover_expired_lease r1 1 ''lost'' = Inr r2 \<and>
     PanelRevokeTask_start_attempt r2 1 9 ''a'' = Inr (2, r3) \<and> \<not> PanelRevokeTask_owns_active_lease r3 ''a'' 1 2"
proof -
  have "\<exists>r1 r2 r3. PanelRevokeTask_start_attempt sample_panel_revoke 0 1 ''a'' = Inr (1, r1) \<and>
     PanelRevokeTask_recover_expired_lease r1 1 ''lost'' = Inr r2 \<and>
     PanelRevokeTask_start_attempt r2 1 9 ''a'' = Inr (2, r3)"
    by (simp add: PanelRevokeTask_start_attempt_def panel_revoke_ops PanelRevokeTask_lease_is_expired_def
        PanelRevokeTask_can_dispatch_def sample_panel_revoke_def)
  then obtain r1 r2 r3 where s: "PanelRevokeTask_start_attempt sample_panel_revoke 0 1 ''a'' = Inr (1, r1)"
     and r: "PanelRevokeTask_recover_expired_lease r1 1 ''lost'' = Inr r2"
     and s': "PanelRevokeTask_start_attempt r2 1 9 ''a'' = Inr (2, r3)" by blast
  have "panel_revoke_run r1 r2"
    using pr_step_recover [OF r] by (rule run_step [OF run_refl, where step = panel_revoke_step])
  then have "\<not> PanelRevokeTask_owns_active_lease r3 ''a'' 1 2"
    using panel_task_stale_attempt_fenced [THEN conjunct2, rule_format, OF conjI [OF s conjI [OF _ conjI [OF s' run_refl]]]]
    by simp
  with s r s' show ?thesis by blast
qed

text \<open>A panel provision task that owes the panel a compensation keeps owing it: of all operations only
  a completed provisioning, a cancellation or a successful compensation lift the obligation, and a task
  recovered from a lost lease always owes one.\<close>

theorem panel_compensation_not_dropped:
  assumes "panel_provision_step t t'"
  shows "(pp_compensation_required t \<longrightarrow>
            pp_compensation_required t' \<or>
            (\<exists>now. PanelProvisionTask_complete t now = Inr t' \<or> t' = PanelProvisionTask_cancel t now \<or>
                   (\<exists>term. t' = PanelProvisionTask_compensation_succeeded t now term))) \<and>
         (PanelProvisionTask_recover_expired_lease t now err = Inr r \<longrightarrow> pp_compensation_required r)"
proof
  show "pp_compensation_required t \<longrightarrow> pp_compensation_required t' \<or>
            (\<exists>now. PanelProvisionTask_complete t now = Inr t' \<or> t' = PanelProvisionTask_cancel t now \<or>
                   (\<exists>term. t' = PanelProvisionTask_compensation_succeeded t now term))"
    using assms
  proof cases
    case pp_step_complete then show ?thesis by blast
  next
    case pp_step_cancel then show ?thesis by blast
  next
    case pp_step_compensated then show ?thesis by blast
  qed (auto simp: panel_provision_ops bindE_eq_Inr)
qed (auto simp: panel_provision_ops bindE_eq_Inr)

theorem panel_compensation_not_dropped_witness:
  "\<exists>t t'. panel_provision_step t t' \<and> pp_compensation_required t \<and> pp_compensation_required t' \<and> pp_status t' = PTS_FAILED"
proof -
  let ?t = "sample_panel_provision\<lparr>pp_compensation_required := True\<rparr>"
  let ?f = "PanelProvisionTask_fail ?t 5 ''panel down''"
  have st: "panel_provision_step ?t ?f" by (rule pp_step_fail)
  have "pp_compensation_required ?t" and "pp_status ?f = PTS_FAILED" by (simp_all add: panel_provision_ops)
  moreover have "pp_compensation_required ?f"
    using panel_compensation_not_dropped [OF st] by (auto simp: panel_provision_ops bindE_eq_Inr Let_def)
  ultimately show ?thesis using st by blast
qed

end
