(* ===== verification/VpnConfig.thy ===== *)
theory VpnConfig
  imports Prelude
begin

text \<open>
  VPN configurations (\<^verbatim>\<open>domain/entities/vpn.py\<close>), the endpoint rules and the VLESS URI
  (\<^verbatim>\<open>domain/vpn/\<close>), and the service that prepares an access (\<^verbatim>\<open>domain/services/vpn_provisioning.py\<close>).

  Of the standard library, \<^verbatim>\<open>urllib.parse.quote\<close>, \<^verbatim>\<open>urlencode\<close> and the IPv6 syntax check of
  \<^verbatim>\<open>ipaddress.ip_address\<close> are written out; characters are read as the bytes that \<^verbatim>\<open>quote\<close> escapes.
\<close>

section \<open>Configurations\<close>

datatype VpnConfigurationStatus =
  VS_PROVISIONING | VS_ACTIVE | VS_FAILED | VS_REVOKING | VS_REVOKE_FAILED | VS_REVOKED | VS_EXPIRED | VS_DISABLED

datatype VpnDesiredState = VD_ACTIVE | VD_REVOKED

record VpnConfiguration =
  vc_id :: "int option"
  vc_subscription_id :: int
  vc_server_endpoint_id :: int
  vc_client_uuid :: uuid
  vc_display_name :: string
  vc_status :: VpnConfigurationStatus
  vc_remote_client_ref :: "string option"
  vc_created_at :: "time option"
  vc_revoked_at :: "time option"
  vc_desired_state :: VpnDesiredState
  vc_generation :: int

definition VpnConfiguration_post_init :: "VpnConfiguration \<Rightarrow> VpnConfiguration res" where
  "VpnConfiguration_post_init self =
     bindE (ensure (\<not> vc_generation self \<le> 0)
              (DomainValidationError ''VPN configuration generation must be positive'')) (\<lambda>_.
     Inr self)"

definition ref_or :: "string option \<Rightarrow> string option \<Rightarrow> string option" where
  "ref_or a b = (case a of None \<Rightarrow> b | Some v \<Rightarrow> if v = [] then b else Some v)"

definition VpnConfiguration_activate :: "VpnConfiguration \<Rightarrow> string option \<Rightarrow> VpnConfiguration res" where
  "VpnConfiguration_activate self remote_client_ref =
     bindE (ensure (vc_status self = VS_PROVISIONING)
              (InvalidStateTransition ''Only provisioning VPN configuration can be activated'')) (\<lambda>_.
     bindE (ensure (vc_desired_state self = VD_ACTIVE)
              (InvalidStateTransition ''VPN configuration is no longer desired to be active'')) (\<lambda>_.
     Inr (self\<lparr>vc_status := VS_ACTIVE,
               vc_remote_client_ref := ref_or remote_client_ref (vc_remote_client_ref self),
               vc_revoked_at := None\<rparr>)))"

definition VpnConfiguration_begin_revoke :: "VpnConfiguration \<Rightarrow> VpnConfiguration res" where
  "VpnConfiguration_begin_revoke self =
     bindE (ensure (vc_status self = VS_ACTIVE)
              (InvalidStateTransition ''Only active VPN configuration can begin revoke'')) (\<lambda>_.
     Inr (self\<lparr>vc_desired_state := VD_REVOKED, vc_generation := vc_generation self + 1,
               vc_status := VS_REVOKING\<rparr>))"

definition VpnConfiguration_retry_revoke :: "VpnConfiguration \<Rightarrow> VpnConfiguration res" where
  "VpnConfiguration_retry_revoke self =
     bindE (ensure (vc_status self = VS_REVOKE_FAILED)
              (InvalidStateTransition ''Only failed revoke can be retried'')) (\<lambda>_.
     Inr (self\<lparr>vc_desired_state := VD_REVOKED, vc_generation := vc_generation self + 1,
               vc_status := VS_REVOKING, vc_revoked_at := None\<rparr>))"

definition VpnConfiguration_cancel_provisioning_for_revoke :: "VpnConfiguration \<Rightarrow> VpnConfiguration res" where
  "VpnConfiguration_cancel_provisioning_for_revoke self =
     bindE (ensure (vc_status self = VS_PROVISIONING)
              (InvalidStateTransition ''Only provisioning VPN can be cancelled for revoke'')) (\<lambda>_.
     Inr (self\<lparr>vc_desired_state := VD_REVOKED, vc_generation := vc_generation self + 1,
               vc_status := VS_REVOKING, vc_revoked_at := None\<rparr>))"

definition VpnConfiguration_request_cleanup_from_failed :: "VpnConfiguration \<Rightarrow> VpnConfiguration res" where
  "VpnConfiguration_request_cleanup_from_failed self =
     bindE (ensure (vc_status self = VS_FAILED)
              (InvalidStateTransition ''Only failed VPN can request cleanup'')) (\<lambda>_.
     Inr (self\<lparr>vc_desired_state := VD_REVOKED, vc_generation := vc_generation self + 1,
               vc_status := VS_REVOKING, vc_revoked_at := None\<rparr>))"

definition VpnConfiguration_revoke :: "VpnConfiguration \<Rightarrow> time \<Rightarrow> VpnConfiguration res" where
  "VpnConfiguration_revoke self now =
     bindE (ensure (vc_status self = VS_REVOKING)
              (InvalidStateTransition ''Only revoking VPN configuration can be revoked'')) (\<lambda>_.
     bindE (ensure (vc_desired_state self = VD_REVOKED)
              (InvalidStateTransition ''VPN configuration is not desired to be revoked'')) (\<lambda>_.
     Inr (self\<lparr>vc_status := VS_REVOKED, vc_revoked_at := Some now\<rparr>)))"

definition VpnConfiguration_expire :: "VpnConfiguration \<Rightarrow> string option \<Rightarrow> VpnConfiguration" where
  "VpnConfiguration_expire self remote_client_ref =
     self\<lparr>vc_status := VS_EXPIRED, vc_desired_state := VD_REVOKED,
          vc_remote_client_ref := ref_or remote_client_ref (vc_remote_client_ref self)\<rparr>"

definition VpnConfiguration_fail_provisioning :: "VpnConfiguration \<Rightarrow> VpnConfiguration res" where
  "VpnConfiguration_fail_provisioning self =
     bindE (ensure (vc_status self = VS_PROVISIONING)
              (InvalidStateTransition ''Only provisioning VPN configuration can fail provisioning'')) (\<lambda>_.
     Inr (self\<lparr>vc_status := VS_FAILED\<rparr>))"

definition VpnConfiguration_fail_revoke :: "VpnConfiguration \<Rightarrow> VpnConfiguration res" where
  "VpnConfiguration_fail_revoke self =
     bindE (ensure (vc_status self = VS_REVOKING)
              (InvalidStateTransition ''Only revoking VPN configuration can fail revoke'')) (\<lambda>_.
     Inr (self\<lparr>vc_status := VS_REVOKE_FAILED\<rparr>))"

definition VpnConfiguration_is_terminal :: "VpnConfiguration \<Rightarrow> bool" where
  "VpnConfiguration_is_terminal self \<longleftrightarrow> vc_status self \<in> {VS_REVOKED, VS_EXPIRED, VS_DISABLED}"

section \<open>Endpoint rules\<close>

fun join_str :: "string \<Rightarrow> string list \<Rightarrow> string" where
  "join_str sep [] = []"
| "join_str sep [x] = x"
| "join_str sep (x # xs) = x @ sep @ join_str sep xs"

definition blank_opt :: "string option \<Rightarrow> bool" where
  "blank_opt v \<longleftrightarrow> strip (or_else v []) = []"

definition validate_vless_endpoint ::
  "string \<Rightarrow> string option \<Rightarrow> string option \<Rightarrow> string option \<Rightarrow> string option \<Rightarrow> string option \<Rightarrow> string option
     \<Rightarrow> unit res" where
  "validate_vless_endpoint protocol security sni fingerprint public_key short_id flow =
     (let protocol_value = lower (strip protocol);
          security_value = lower (strip (or_else security ''none''));
          flow_value = lower (strip (or_else flow []));
          missing = map fst (filter (\<lambda>(name, v). blank_opt v)
            [(''sni'', sni), (''fingerprint'', fingerprint), (''public_key'', public_key), (''short_id'', short_id)])
      in
      bindE (ensure (protocol_value = ''vless'') (DomainValidationError ''Only VLESS endpoints are supported'')) (\<lambda>_.
      bindE (ensure (\<not> (security_value = ''reality'' \<and> missing \<noteq> []))
               (DomainValidationError (''REALITY endpoint requires: '' @ join_str '', '' missing))) (\<lambda>_.
      ensure (\<not> (flow_value = ''xtls-rprx-vision'' \<and> security_value \<notin> {''tls'', ''reality''}))
               (DomainValidationError ''xtls-rprx-vision requires tls or reality security''))))"

section \<open>The VLESS URI\<close>

definition unreserved :: "char \<Rightarrow> bool" where
  "unreserved c = (let n = (of_char c :: nat) in
     (65 \<le> n \<and> n \<le> 90) \<or> (97 \<le> n \<and> n \<le> 122) \<or> (48 \<le> n \<and> n \<le> 57) \<or> c \<in> {CHR ''_'', CHR ''.'', CHR ''-'', CHR ''~''})"

definition hex_digit :: "nat \<Rightarrow> char" where
  "hex_digit n = (if n < 10 then char_of (48 + n) else char_of (55 + n))"

definition quote_char :: "char \<Rightarrow> string" where
  "quote_char c = (if unreserved c then [c]
     else [CHR ''%'', hex_digit (of_char c div 16), hex_digit (of_char c mod 16)])"

definition quote :: "string \<Rightarrow> string" where
  "quote s = concat (map quote_char s)"

definition quote_plus :: "string \<Rightarrow> string" where
  "quote_plus s = concat (map (\<lambda>c. if c = CHR '' '' then ''+'' else quote_char c) s)"

definition urlencode :: "(string \<times> string) list \<Rightarrow> string" where
  "urlencode q = join_str ''&'' (map (\<lambda>(k, v). quote_plus k @ ''='' @ quote_plus v) q)"

fun split_on :: "char \<Rightarrow> string \<Rightarrow> string list" where
  "split_on s [] = [[]]"
| "split_on s (c # cs) =
     (if c = s then [] # split_on s cs
      else (case split_on s cs of [] \<Rightarrow> [[c]] | x # xs \<Rightarrow> (c # x) # xs))"

definition is_digit :: "char \<Rightarrow> bool" where
  "is_digit c = (let n = (of_char c :: nat) in 48 \<le> n \<and> n \<le> 57)"

definition is_hex :: "char \<Rightarrow> bool" where
  "is_hex c = (let n = (of_char c :: nat) in (48 \<le> n \<and> n \<le> 57) \<or> (65 \<le> n \<and> n \<le> 70) \<or> (97 \<le> n \<and> n \<le> 102))"

definition decimal_value :: "string \<Rightarrow> nat" where
  "decimal_value s = foldl (\<lambda>n c. n * 10 + (of_char c - 48)) 0 s"

definition valid_octet :: "string \<Rightarrow> bool" where
  "valid_octet s \<longleftrightarrow> s \<noteq> [] \<and> list_all is_digit s \<and> length s \<le> 3 \<and>
     \<not> (s \<noteq> ''0'' \<and> hd s = CHR ''0'') \<and> decimal_value s \<le> 255"

definition valid_ipv4 :: "string \<Rightarrow> bool" where
  "valid_ipv4 s \<longleftrightarrow> (let os = split_on (CHR ''.'') s in length os = 4 \<and> list_all valid_octet os)"

definition valid_hextet :: "string \<Rightarrow> bool" where
  "valid_hextet s \<longleftrightarrow> s \<noteq> [] \<and> list_all is_hex s \<and> length s \<le> 4"

text \<open>The colon separated parts; an IPv4 tail counts as two parts.\<close>

definition valid_ipv6_parts :: "string list \<Rightarrow> bool" where
  "valid_ipv6_parts parts \<longleftrightarrow>
     (let n = length parts;
          skips = filter (\<lambda>i. parts ! i = []) [1..<n - 1] in
      n \<le> 9 \<and>
      (case skips of
         [] \<Rightarrow> n = 8 \<and> list_all valid_hextet parts
       | [i] \<Rightarrow>
           (let hi = (if hd parts = [] then i - 1 else i);
                lo = (if last parts = [] then n - i - 2 else n - i - 1) in
            (hd parts = [] \<longrightarrow> hi = 0) \<and> (last parts = [] \<longrightarrow> lo = 0) \<and> hi + lo < 8 \<and>
            list_all valid_hextet (take hi parts) \<and> list_all valid_hextet (drop (n - lo) parts))
       | _ \<Rightarrow> False))"

definition is_ipv6_address :: "string \<Rightarrow> bool" where
  "is_ipv6_address host \<longleftrightarrow>
     CHR ''/'' \<notin> set host \<and>
     (let pieces = split_on (CHR ''%'') host; parts = split_on (CHR '':'') (hd pieces) in
      (length pieces = 1 \<or> (length pieces = 2 \<and> pieces ! 1 \<noteq> [])) \<and>
      3 \<le> length parts \<and>
      (if CHR ''.'' \<in> set (last parts)
       then valid_ipv4 (last parts) \<and> valid_ipv6_parts (butlast parts @ [''0'', ''0''])
       else valid_ipv6_parts parts))"

record VlessBuildInput =
  vb_client_uuid :: string
  vb_host :: string
  vb_port :: int
  vb_display_name :: string
  vb_security :: "string option"
  vb_sni :: "string option"
  vb_fingerprint :: "string option"
  vb_public_key :: "string option"
  vb_short_id :: "string option"
  vb_transport_type :: "string option"
  vb_flow :: "string option"
  vb_encryption :: "string option"

definition vless_query :: "VlessBuildInput \<Rightarrow> (string \<times> string) list" where
  "vless_query p =
     filter (\<lambda>(k, v). v \<noteq> [])
       [(''type'', or_else (vb_transport_type p) ''tcp''), (''security'', or_else (vb_security p) ''none''),
        (''sni'', or_else (vb_sni p) []), (''fp'', or_else (vb_fingerprint p) []),
        (''pbk'', or_else (vb_public_key p) []), (''sid'', or_else (vb_short_id p) []),
        (''flow'', or_else (vb_flow p) []), (''encryption'', or_else (vb_encryption p) ''none'')]"

definition VlessUriBuilder_build :: "VlessBuildInput \<Rightarrow> string" where
  "VlessUriBuilder_build p =
     (let host = (if is_ipv6_address (vb_host p) then ''['' @ vb_host p @ '']'' else vb_host p) in
      ''vless://'' @ vb_client_uuid p @ ''@'' @ host @ '':'' @ show_int (vb_port p) @
      ''?'' @ urlencode (vless_query p) @ ''#'' @ quote (vb_display_name p))"

section \<open>Preparing an access\<close>

record VpnEndpoint =
  ve_id :: int
  ve_protocol :: string
  ve_host :: string
  ve_port :: int
  ve_node_id :: "int option"
  ve_local_inbound_id :: "string option"
  ve_security :: "string option"
  ve_sni :: "string option"
  ve_fingerprint :: "string option"
  ve_public_key :: "string option"
  ve_short_id :: "string option"
  ve_transport_type :: "string option"
  ve_flow :: "string option"
  ve_encryption :: "string option"

record PreparedVpnAccess =
  pv_configuration :: VpnConfiguration
  pv_connection :: string

definition VpnProvisioningService_prepare ::
  "uuid \<Rightarrow> int \<Rightarrow> VpnEndpoint \<Rightarrow> string \<Rightarrow> PreparedVpnAccess res" where
  "VpnProvisioningService_prepare client_uuid subscription_id endpoint display_name =
     bindE (validate_vless_endpoint (ve_protocol endpoint) (ve_security endpoint) (ve_sni endpoint)
              (ve_fingerprint endpoint) (ve_public_key endpoint) (ve_short_id endpoint) (ve_flow endpoint)) (\<lambda>_.
     let connection = VlessUriBuilder_build
           \<lparr>vb_client_uuid = client_uuid, vb_host = ve_host endpoint, vb_port = ve_port endpoint,
            vb_display_name = display_name, vb_security = ve_security endpoint, vb_sni = ve_sni endpoint,
            vb_fingerprint = ve_fingerprint endpoint, vb_public_key = ve_public_key endpoint,
            vb_short_id = ve_short_id endpoint, vb_transport_type = ve_transport_type endpoint,
            vb_flow = ve_flow endpoint, vb_encryption = ve_encryption endpoint\<rparr> in
     bindE (VpnConfiguration_post_init
       \<lparr>vc_id = None, vc_subscription_id = subscription_id, vc_server_endpoint_id = ve_id endpoint,
        vc_client_uuid = client_uuid, vc_display_name = display_name,
        vc_status = (if ve_node_id endpoint \<noteq> None then VS_PROVISIONING else VS_DISABLED),
        vc_remote_client_ref = None, vc_created_at = None, vc_revoked_at = None,
        vc_desired_state = VD_ACTIVE, vc_generation = 1\<rparr>) (\<lambda>configuration.
     Inr \<lparr>pv_configuration = configuration, pv_connection = connection\<rparr>))"

section \<open>Lifecycle\<close>

inductive vpn_step :: "VpnConfiguration \<Rightarrow> VpnConfiguration \<Rightarrow> bool" where
  vpn_activate: "VpnConfiguration_activate v r = Inr v' \<Longrightarrow> vpn_step v v'"
| vpn_begin_revoke: "VpnConfiguration_begin_revoke v = Inr v' \<Longrightarrow> vpn_step v v'"
| vpn_retry_revoke: "VpnConfiguration_retry_revoke v = Inr v' \<Longrightarrow> vpn_step v v'"
| vpn_cancel: "VpnConfiguration_cancel_provisioning_for_revoke v = Inr v' \<Longrightarrow> vpn_step v v'"
| vpn_cleanup: "VpnConfiguration_request_cleanup_from_failed v = Inr v' \<Longrightarrow> vpn_step v v'"
| vpn_revoke: "VpnConfiguration_revoke v now = Inr v' \<Longrightarrow> vpn_step v v'"
| vpn_expire: "vpn_step v (VpnConfiguration_expire v r)"
| vpn_fail_provisioning: "VpnConfiguration_fail_provisioning v = Inr v' \<Longrightarrow> vpn_step v v'"
| vpn_fail_revoke: "VpnConfiguration_fail_revoke v = Inr v' \<Longrightarrow> vpn_step v v'"

lemmas vpn_ops = VpnConfiguration_activate_def VpnConfiguration_begin_revoke_def
  VpnConfiguration_retry_revoke_def VpnConfiguration_cancel_provisioning_for_revoke_def
  VpnConfiguration_request_cleanup_from_failed_def VpnConfiguration_revoke_def VpnConfiguration_expire_def
  VpnConfiguration_fail_provisioning_def VpnConfiguration_fail_revoke_def

text \<open>Access is wanted exactly in the states from which it may still be granted or is granted.\<close>

definition vpn_inv :: "VpnConfiguration \<Rightarrow> bool" where
  "vpn_inv v \<longleftrightarrow> 0 < vc_generation v \<and>
     (vc_desired_state v = VD_ACTIVE \<longleftrightarrow> vc_status v \<in> {VS_PROVISIONING, VS_ACTIVE, VS_FAILED, VS_DISABLED}) \<and>
     (vc_desired_state v = VD_REVOKED \<longrightarrow> vc_status v = VS_EXPIRED \<or> 1 < vc_generation v)"

lemma vpn_step_inv: "vpn_step v v' \<Longrightarrow> vpn_inv v \<Longrightarrow> vpn_inv v'"
  by (induction rule: vpn_step.induct) (auto simp: vpn_ops vpn_inv_def bindE_eq_Inr)

lemma vpn_step_generation: "vpn_step v v' \<Longrightarrow> vc_generation v \<le> vc_generation v'"
  by (induction rule: vpn_step.induct) (auto simp: vpn_ops bindE_eq_Inr)

lemma vpn_step_desired: "vpn_step v v' \<Longrightarrow> vc_desired_state v = VD_REVOKED \<Longrightarrow> vc_desired_state v' = VD_REVOKED"
  by (induction rule: vpn_step.induct) (auto simp: vpn_ops bindE_eq_Inr)

lemma vpn_steps_revoked:
  assumes "vpn_step\<^sup>*\<^sup>* v w" and "vpn_inv v" and "vc_desired_state v = VD_REVOKED"
  shows "vpn_inv w \<and> vc_desired_state w = VD_REVOKED \<and> vc_generation v \<le> vc_generation w"
  using assms
  by (induction rule: rtranclp_induct) (auto intro: vpn_step_inv vpn_step_desired dest: vpn_step_generation)

section \<open>Decoding\<close>

definition hex_value :: "char \<Rightarrow> nat" where
  "hex_value c = (let n = of_char c in if n \<le> 57 then n - 48 else n - 55)"

fun unquote :: "string \<Rightarrow> string" where
  "unquote [] = []"
| "unquote [c] = [c]"
| "unquote [c, d] = [c, d]"
| "unquote (c # a # b # cs) =
     (if c = CHR ''%'' then char_of (16 * hex_value a + hex_value b) # unquote cs else c # unquote (a # b # cs))"

lemma unquote_other: "c \<noteq> CHR ''%'' \<Longrightarrow> unquote (c # cs) = c # unquote cs"
  by (cases "c # cs" rule: unquote.cases) auto

lemma hex_value_digit: "n < 16 \<Longrightarrow> hex_value (hex_digit n) = n"
  by (auto simp: hex_value_def hex_digit_def Let_def)

lemma of_char_div_16: "(of_char c :: nat) div 16 < 16"
proof -
  have "(of_char c :: nat) < 256" by simp
  then show ?thesis by linarith
qed

lemma unquote_char: "unquote (quote_char c @ s) = c # unquote s"
proof (cases "unreserved c")
  case True
  then have "c \<noteq> CHR ''%''" by (auto simp: unreserved_def Let_def)
  with True show ?thesis by (simp add: quote_char_def unquote_other)
next
  case False
  then show ?thesis using of_char_div_16 [of c] by (simp add: quote_char_def hex_value_digit)
qed

lemma unquote_quote: "unquote (quote s) = s"
proof (induction s)
  case (Cons c s)
  have "quote (c # s) = quote_char c @ quote s" by (simp add: quote_def)
  with Cons show ?case by (simp add: unquote_char)
qed (simp add: quote_def)

lemma hex_digit_not_hash: "n < 16 \<Longrightarrow> CHR ''#'' \<noteq> hex_digit n"
proof
  assume "n < 16" and "CHR ''#'' = hex_digit n"
  moreover have "(of_char (CHR ''#'') :: nat) = 35" by simp
  ultimately have "(of_char (hex_digit n) :: nat) = 35" by (simp only:)
  with \<open>n < 16\<close> show False by (simp add: hex_digit_def split: if_splits)
qed

lemma hash_not_quoted: "CHR ''#'' \<notin> set (quote s)"
proof -
  have "CHR ''#'' \<notin> set (quote_char c)" for c
    using hex_digit_not_hash [OF of_char_div_16 [of c]] hex_digit_not_hash [of "of_char c mod 16"]
    by (auto simp: quote_char_def unreserved_def Let_def)
  then show ?thesis by (auto simp: quote_def)
qed

lemma split_on_no_sep: "s \<notin> set xs \<Longrightarrow> split_on s xs = [xs]"
  by (induction xs) auto

lemma split_on_ne: "split_on s xs \<noteq> []"
  by (induction xs) (auto split: list.splits)

lemma split_on_append: "split_on s (xs @ s # ys) = split_on s xs @ split_on s ys"
  by (induction xs) (auto simp: split_on_ne split: list.splits)

lemma last_split_on: "s \<notin> set ys \<Longrightarrow> last (split_on s (xs @ s # ys)) = ys"
  by (simp add: split_on_append split_on_no_sep)

section \<open>Properties\<close>

text \<open>Once access to a configuration is to be revoked, no sequence of operations makes it active
  again: it is never active, every activation is refused, and its generation never falls back.\<close>

theorem vpn_revoke_is_permanent:
  assumes "vpn_step\<^sup>*\<^sup>* v w" and "vpn_inv v" and "vc_desired_state v = VD_REVOKED"
  shows "vc_status w \<noteq> VS_ACTIVE \<and> vc_desired_state w = VD_REVOKED \<and> vc_generation v \<le> vc_generation w \<and>
         (\<forall>r. \<exists>e. VpnConfiguration_activate w r = Inl (InvalidStateTransition e))"
proof -
  have "vpn_inv w" "vc_desired_state w = VD_REVOKED" "vc_generation v \<le> vc_generation w"
    using vpn_steps_revoked [OF assms] by simp_all
  then show ?thesis by (auto simp: vpn_inv_def VpnConfiguration_activate_def)
qed

definition sample_vpn :: VpnConfiguration where
  "sample_vpn = \<lparr>vc_id = Some 1, vc_subscription_id = 1, vc_server_endpoint_id = 1, vc_client_uuid = ''c'',
     vc_display_name = ''d'', vc_status = VS_PROVISIONING, vc_remote_client_ref = None, vc_created_at = None,
     vc_revoked_at = None, vc_desired_state = VD_ACTIVE, vc_generation = 1\<rparr>"

theorem vpn_revoke_is_permanent_witness:
  "\<exists>v w. vpn_step\<^sup>*\<^sup>* v w \<and> vpn_inv v \<and> vc_desired_state v = VD_REVOKED \<and> vc_status w = VS_REVOKED \<and>
     (\<exists>e. VpnConfiguration_activate w None = Inl (InvalidStateTransition e))"
proof -
  let ?v = "sample_vpn\<lparr>vc_desired_state := VD_REVOKED, vc_generation := 2, vc_status := VS_REVOKING, vc_revoked_at := None\<rparr>"
  let ?w = "?v\<lparr>vc_status := VS_REVOKED, vc_revoked_at := Some 9\<rparr>"
  have "VpnConfiguration_revoke ?v 9 = Inr ?w" by (simp add: VpnConfiguration_revoke_def)
  then have st: "vpn_step\<^sup>*\<^sup>* ?v ?w" by (blast intro: vpn_revoke)
  have inv: "vpn_inv ?v" and d: "vc_desired_state ?v = VD_REVOKED" by (simp_all add: vpn_inv_def)
  have "\<exists>e. VpnConfiguration_activate ?w None = Inl (InvalidStateTransition e)"
    using vpn_revoke_is_permanent [OF st inv d] by blast
  with st inv d show ?thesis by (intro exI [of _ ?v] exI [of _ ?w]) simp
qed

text \<open>Every way to request a revocation raises the configuration's generation by exactly one and asks
  for revocation, so a task of an older generation can be told apart; from each status at most one
  of them is allowed.\<close>

theorem vpn_revoke_request_new_generation:
  assumes "VpnConfiguration_begin_revoke v = Inr w \<or> VpnConfiguration_retry_revoke v = Inr w \<or>
     VpnConfiguration_cancel_provisioning_for_revoke v = Inr w \<or>
     VpnConfiguration_request_cleanup_from_failed v = Inr w"
  shows "vc_generation w = vc_generation v + 1 \<and> vc_desired_state w = VD_REVOKED \<and> vc_status w = VS_REVOKING \<and>
     (VpnConfiguration_begin_revoke v = Inr w \<longrightarrow> vc_status v = VS_ACTIVE) \<and>
     (VpnConfiguration_retry_revoke v = Inr w \<longrightarrow> vc_status v = VS_REVOKE_FAILED) \<and>
     (VpnConfiguration_cancel_provisioning_for_revoke v = Inr w \<longrightarrow> vc_status v = VS_PROVISIONING) \<and>
     (VpnConfiguration_request_cleanup_from_failed v = Inr w \<longrightarrow> vc_status v = VS_FAILED)"
proof -
  note revoke_requests = VpnConfiguration_begin_revoke_def VpnConfiguration_retry_revoke_def
    VpnConfiguration_cancel_provisioning_for_revoke_def VpnConfiguration_request_cleanup_from_failed_def
  have "vc_generation w = vc_generation v + 1" "vc_desired_state w = VD_REVOKED" "vc_status w = VS_REVOKING"
    using assms unfolding revoke_requests by (elim disjE; clarsimp simp: bindE_eq_Inr)+
  then show ?thesis by (simp add: revoke_requests bindE_eq_Inr)
qed

theorem vpn_revoke_request_new_generation_witness:
  "\<exists>w. VpnConfiguration_cancel_provisioning_for_revoke sample_vpn = Inr w \<and> vc_generation w = 2"
proof -
  have "\<exists>w. VpnConfiguration_cancel_provisioning_for_revoke sample_vpn = Inr w"
    by (simp add: vpn_ops sample_vpn_def)
  then show ?thesis using vpn_revoke_request_new_generation [of sample_vpn] by (auto simp: sample_vpn_def)
qed

text \<open>The display name survives in the connection URI whatever characters it and the other fields
  contain: percent-decoding what follows the last \<^verbatim>\<open>#\<close> gives back exactly the display name.\<close>

theorem vless_uri_display_name_roundtrip:
  "unquote (last (split_on (CHR ''#'') (VlessUriBuilder_build p))) = vb_display_name p"
proof -
  obtain pre where "VlessUriBuilder_build p = pre @ CHR ''#'' # quote (vb_display_name p)"
    unfolding VlessUriBuilder_build_def Let_def by (metis append.assoc append_Cons append_Nil)
  then show ?thesis using last_split_on [OF hash_not_quoted] unquote_quote by simp
qed

text \<open>An access is prepared exactly for VLESS endpoints whose REALITY parameters are all present and
  that use the vision flow only under TLS or REALITY; the configuration is then generation one, wanted
  active, and provisioning exactly when the endpoint has a node (otherwise disabled).\<close>

theorem prepare_access_iff:
  "(\<exists>a. VpnProvisioningService_prepare cid sid ep name = Inr a \<and>
        vc_generation (pv_configuration a) = 1 \<and> vc_desired_state (pv_configuration a) = VD_ACTIVE \<and>
        vc_client_uuid (pv_configuration a) = cid \<and>
        vc_status (pv_configuration a) = (if ve_node_id ep = None then VS_DISABLED else VS_PROVISIONING)) \<longleftrightarrow>
     lower (strip (ve_protocol ep)) = ''vless'' \<and>
     \<not> (lower (strip (or_else (ve_security ep) ''none'')) = ''reality'' \<and>
        (blank_opt (ve_sni ep) \<or> blank_opt (ve_fingerprint ep) \<or> blank_opt (ve_public_key ep) \<or> blank_opt (ve_short_id ep))) \<and>
     \<not> (lower (strip (or_else (ve_flow ep) [])) = ''xtls-rprx-vision'' \<and>
        lower (strip (or_else (ve_security ep) ''none'')) \<notin> {''tls'', ''reality''})"
proof -
  have v: "validate_vless_endpoint (ve_protocol ep) (ve_security ep) (ve_sni ep) (ve_fingerprint ep)
      (ve_public_key ep) (ve_short_id ep) (ve_flow ep) = Inr () \<longleftrightarrow>
     lower (strip (ve_protocol ep)) = ''vless'' \<and>
     \<not> (lower (strip (or_else (ve_security ep) ''none'')) = ''reality'' \<and>
        (blank_opt (ve_sni ep) \<or> blank_opt (ve_fingerprint ep) \<or> blank_opt (ve_public_key ep) \<or> blank_opt (ve_short_id ep))) \<and>
     \<not> (lower (strip (or_else (ve_flow ep) [])) = ''xtls-rprx-vision'' \<and>
        lower (strip (or_else (ve_security ep) ''none'')) \<notin> {''tls'', ''reality''})"
    unfolding validate_vless_endpoint_def Let_def bindE_eq_Inr ensure_eq_Inr by simp
  show ?thesis
    unfolding v [symmetric]
    by (simp add: VpnProvisioningService_prepare_def bindE_eq_Inr Let_def VpnConfiguration_post_init_def)
qed

end
