(* ===== verification/Store.thy ===== *)
theory Store
  imports Payment Subscription NodeTask PanelTask VpnConfig
begin

text \<open>
  The database of the shop (\<^verbatim>\<open>infrastructure/persistence/sqlalchemy/tables.py\<close>) and its unit of work
  (\<^verbatim>\<open>uow.py\<close>).

  A table holds rows of the entity records; \<open>db\<close> collects the tables the modelled repositories use.
  Writing a table checks its unique indexes and CHECK constraints and raises \<open>IntegrityError\<close> when one
  is violated. Column types restrict statuses to the enum members, so the CHECK constraints on status
  texts are the types, except for payment orders, whose constraint is narrower than the enum. Foreign keys
  are not modelled: every referenced id is read in the same transaction.

  A repository call is a function of type \<open>'a tx\<close>; \<open>bindT\<close> sequences calls. \<open>run_uow\<close> is the
  transaction boundary: an exception leaves the database as it was. Row locks serialise the transactions
  that touch the same rows; a transaction is one atomic step. \<open>d_clock\<close> is the time that
  \<^verbatim>\<open>current_timestamp\<close> and \<^verbatim>\<open>datetime.now\<close> return.
\<close>

section \<open>Rows without an entity\<close>

record ProviderTransaction =
  tx_id :: "int option"
  tx_payment_order_id :: int
  tx_payment_attempt_id :: "int option"
  tx_provider :: string
  tx_transaction_type :: string
  tx_provider_transaction_key :: string
  tx_transaction_status :: string
  tx_amount_minor :: int
  tx_currency :: string
  tx_payload :: dict
  tx_created_at :: time

record WebhookInbox =
  wi_id :: "int option"
  wi_provider :: string
  wi_event_key :: string
  wi_headers :: dict
  wi_payload :: dict
  wi_status :: PaymentEventStatus
  wi_received_at :: time
  wi_processed_at :: "time option"
  wi_error_message :: "string option"

record ContactRow =
  cr_id :: "int option"
  cr_user_id :: int
  cr_contact_type :: string
  cr_contact_value :: string
  cr_is_primary :: bool

datatype AuditEventName =
    SUBSCRIPTION_ACTIVATED | SUBSCRIPTION_ENDED | PAYMENT_MANUALLY_SETTLED | PAYMENT_FAILED | PAYMENT_EXPIRED
  | PAYMENT_CANCELLED | REFUND_ENTITLEMENT_RECONCILIATION_REQUIRED | VPN_CONFIGURATION_CREATED
  | VPN_CONFIGURATION_ACTIVATED | VPN_CONFIGURATION_REVOKED

datatype AuditAggregateType = AGG_SUBSCRIPTION | AGG_PAYMENT_ORDER | AGG_VPN_CONFIGURATION

record AuditEvent =
  ae_id :: "int option"
  ae_event_name :: AuditEventName
  ae_aggregate_type :: AuditAggregateType
  ae_aggregate_id :: int
  ae_payload :: dict
  ae_created_at :: time

record NodeTaskAttempt =
  na_id :: "int option"
  na_node_task_id :: int
  na_attempt_no :: int
  na_status :: string
  na_request_payload :: dict
  na_response_payload :: "dict option"
  na_error_message :: "string option"
  na_started_at :: time
  na_finished_at :: "time option"

record NodeStatusRow =
  st_node_id :: int
  st_health_status :: NodeStatus
  st_agent_version :: "string option"
  st_capabilities :: dict
  st_metrics :: dict
  st_status_payload :: dict
  st_inbounds :: "dict list"
  st_last_seen_at :: "time option"
  st_last_checked_at :: "time option"
  st_last_failed_at :: "time option"
  st_active_clients :: "int option"
  st_max_clients :: "int option"
  st_probe_lease_token :: "uuid option"
  st_probe_lease_expires_at :: "time option"
  st_updated_at :: time

record NodeCredential =
  nc_id :: "int option"
  nc_node_id :: int
  nc_key_id :: string
  nc_shared_secret :: string
  nc_is_active :: bool
  nc_created_at :: time
  nc_expires_at :: "time option"

record ServerRow =
  sv_id :: "int option"
  sv_server_name :: string
  sv_host :: string
  sv_is_enabled :: bool

record EndpointRow =
  en_id :: "int option"
  en_server_id :: int
  en_protocol :: string
  en_port :: int
  en_security :: "string option"
  en_node_id :: "int option"
  en_local_inbound_id :: "string option"
  en_sni :: "string option"
  en_fingerprint :: "string option"
  en_public_key :: "string option"
  en_short_id :: "string option"
  en_transport_type :: "string option"
  en_flow :: "string option"
  en_encryption :: "string option"
  en_is_enabled :: bool

record MaintenanceLease =
  ml_lease_name :: string
  ml_owner_token :: uuid
  ml_lease_expires_at :: time
  ml_updated_at :: time

record db =
  d_clock :: time
  d_users :: "User table"
  d_contacts :: "ContactRow table"
  d_tariffs :: "Tariff table"
  d_orders :: "PaymentOrder table"
  d_attempts :: "PaymentAttempt table"
  d_events :: "PaymentEvent table"
  d_txns :: "ProviderTransaction table"
  d_inbox :: "WebhookInbox table"
  d_subs :: "Subscription table"
  d_periods :: "SubscriptionPeriod table"
  d_audit :: "AuditEvent table"
  d_vpns :: "VpnConfiguration table"
  d_pprov :: "PanelProvisionTask table"
  d_prev :: "PanelRevokeTask table"
  d_ntasks :: "NodeTask table"
  d_nattempts :: "NodeTaskAttempt table"
  d_nodes :: "Node table"
  d_nstatus :: "NodeStatusRow list"
  d_creds :: "NodeCredential table"
  d_servers :: "ServerRow table"
  d_endpoints :: "EndpointRow table"
  d_leases :: "MaintenanceLease list"

definition empty_db :: "time \<Rightarrow> db" where
  "empty_db clock = \<lparr>d_clock = clock, d_users = empty_table, d_contacts = empty_table, d_tariffs = empty_table,
     d_orders = empty_table, d_attempts = empty_table, d_events = empty_table, d_txns = empty_table,
     d_inbox = empty_table, d_subs = empty_table, d_periods = empty_table, d_audit = empty_table,
     d_vpns = empty_table, d_pprov = empty_table, d_prev = empty_table, d_ntasks = empty_table,
     d_nattempts = empty_table, d_nodes = empty_table, d_nstatus = [], d_creds = empty_table,
     d_servers = empty_table, d_endpoints = empty_table, d_leases = []\<rparr>"

section \<open>Constraints\<close>

definition btrim :: "string \<Rightarrow> string" where
  "btrim s = rev (dropWhile (\<lambda>c. c = CHR '' '') (rev (dropWhile (\<lambda>c. c = CHR '' '') s)))"

definition order_check :: "PaymentOrder \<Rightarrow> bool" where
  "order_check r \<longleftrightarrow> po_status r \<in> {PS_PENDING, PS_PAID, PS_CANCELLED, PS_EXPIRED, PS_FAILED} \<and>
     0 < minor (po_amount r) \<and> 0 < po_requested_period_days r \<and>
     btrim (po_provider r) \<noteq> [] \<and> btrim (currency (po_amount r)) \<noteq> []"

definition orders_constraints :: "PaymentOrder table \<Rightarrow> bool" where
  "orders_constraints t \<longleftrightarrow> list_all order_check (rows t) \<and> distinct (map po_idempotency_key (rows t))"

definition attempts_constraints :: "PaymentAttempt table \<Rightarrow> bool" where
  "attempts_constraints t \<longleftrightarrow>
     distinct (map (\<lambda>a. (pa_provider a, pa_provider_payment_id a))
                (filter (\<lambda>a. pa_provider_payment_id a \<noteq> None) (rows t))) \<and>
     distinct (map pa_payment_order_id (filter (\<lambda>a. pa_status a = PS_CREATED) (rows t))) \<and>
     list_all (\<lambda>a. btrim (pa_provider a) \<noteq> []) (rows t)"

definition events_constraints :: "PaymentEvent table \<Rightarrow> bool" where
  "events_constraints t \<longleftrightarrow> distinct (map (\<lambda>e. (pe_provider e, pe_event_key e)) (rows t))"

definition txns_constraints :: "ProviderTransaction table \<Rightarrow> bool" where
  "txns_constraints t \<longleftrightarrow> distinct (map (\<lambda>x. (tx_provider x, tx_provider_transaction_key x)) (rows t)) \<and>
     list_all (\<lambda>x. 0 \<le> tx_amount_minor x) (rows t)"

definition inbox_constraints :: "WebhookInbox table \<Rightarrow> bool" where
  "inbox_constraints t \<longleftrightarrow> distinct (map (\<lambda>x. (wi_provider x, wi_event_key x)) (rows t))"

definition sub_check :: "Subscription \<Rightarrow> bool" where
  "sub_check r \<longleftrightarrow> (case su_ended_at r of None \<Rightarrow> True | Some e \<Rightarrow> su_created_at r \<le> e) \<and>
     \<not> (su_status r = SS_ACTIVE \<and> su_ended_at r \<noteq> None)"

definition subs_constraints :: "Subscription table \<Rightarrow> bool" where
  "subs_constraints t \<longleftrightarrow> list_all sub_check (rows t) \<and>
     distinct (map su_user_id (filter (\<lambda>r. su_status r = SS_ACTIVE) (rows t)))"

definition period_check :: "SubscriptionPeriod \<Rightarrow> bool" where
  "period_check r \<longleftrightarrow> sp_starts_at r < sp_expires_at r \<and> sp_created_at r \<le> sp_expires_at r"

definition periods_constraints :: "SubscriptionPeriod table \<Rightarrow> bool" where
  "periods_constraints t \<longleftrightarrow> list_all period_check (rows t) \<and>
     distinct (map sp_payment_order_id (filter (\<lambda>r. sp_payment_order_id r \<noteq> None) (rows t)))"

definition users_constraints :: "User table \<Rightarrow> bool" where
  "users_constraints t \<longleftrightarrow> list_all (\<lambda>u. btrim (us_name_or_nick u) \<noteq> []) (rows t)"

definition contacts_constraints :: "ContactRow table \<Rightarrow> bool" where
  "contacts_constraints t \<longleftrightarrow> distinct (map (\<lambda>c. (cr_contact_type c, cr_contact_value c)) (rows t)) \<and>
     list_all (\<lambda>c. btrim (cr_contact_type c) \<noteq> [] \<and> btrim (cr_contact_value c) \<noteq> []) (rows t)"

definition tariffs_constraints :: "Tariff table \<Rightarrow> bool" where
  "tariffs_constraints t \<longleftrightarrow> distinct (map ta_name (rows t)) \<and>
     list_all (\<lambda>x. btrim (ta_name x) \<noteq> [] \<and> 0 < minor (ta_price x) \<and> 0 < ta_period_days x \<and>
        btrim (currency (ta_price x)) \<noteq> []) (rows t)"

definition vpn_check :: "VpnConfiguration \<Rightarrow> bool" where
  "vpn_check r \<longleftrightarrow> btrim (vc_display_name r) \<noteq> [] \<and> 0 < vc_generation r \<and>
     (case (vc_revoked_at r, vc_created_at r) of (Some x, Some c) \<Rightarrow> c \<le> x | _ \<Rightarrow> True) \<and>
     \<not> (vc_status r = VS_ACTIVE \<and> vc_revoked_at r \<noteq> None)"

definition vpns_constraints :: "VpnConfiguration table \<Rightarrow> bool" where
  "vpns_constraints t \<longleftrightarrow> list_all vpn_check (rows t) \<and> distinct (map vc_client_uuid (rows t)) \<and>
     distinct (map vc_subscription_id (filter (\<lambda>r. vc_status r = VS_ACTIVE) (rows t)))"

definition pprov_constraints :: "PanelProvisionTask table \<Rightarrow> bool" where
  "pprov_constraints t \<longleftrightarrow> distinct (map pp_vpn_configuration_id (rows t)) \<and> distinct (map pp_idempotency_key (rows t)) \<and>
     list_all (\<lambda>r. 0 \<le> pp_attempts r \<and> 0 < pp_max_attempts r \<and> 0 < pp_vpn_generation r \<and> pp_next_retry_at r \<noteq> None) (rows t)"

definition prev_constraints :: "PanelRevokeTask table \<Rightarrow> bool" where
  "prev_constraints t \<longleftrightarrow> distinct (map pr_task_uuid (rows t)) \<and> distinct (map pr_idempotency_key (rows t)) \<and>
     distinct (map (\<lambda>r. (pr_vpn_configuration_id r, pr_vpn_generation r)) (rows t)) \<and>
     list_all (\<lambda>r. 0 \<le> pr_attempts r \<and> 0 < pr_max_attempts r \<and> 0 < pr_vpn_generation r \<and> pr_next_retry_at r \<noteq> None) (rows t)"

definition ntask_check :: "NodeTask \<Rightarrow> bool" where
  "ntask_check r \<longleftrightarrow> 0 \<le> nt_attempts r \<and> 0 < nt_max_attempts r \<and> nt_next_retry_at r \<noteq> None \<and>
     (case nt_vpn_generation r of None \<Rightarrow> True | Some g \<Rightarrow> 0 < g)"

text \<open>SQL never treats NULL generations as equal, hence the second filter condition.\<close>

definition ntask_vpn_key :: "NodeTask \<Rightarrow> int option \<times> NodeTaskOperation \<times> int option" where
  "ntask_vpn_key r = (nt_vpn_configuration_id r, nt_operation r, nt_vpn_generation r)"

definition ntasks_constraints :: "NodeTask table \<Rightarrow> bool" where
  "ntasks_constraints t \<longleftrightarrow> list_all ntask_check (rows t) \<and>
     distinct (map nt_task_uuid (rows t)) \<and> distinct (map nt_idempotency_key (rows t)) \<and>
     distinct (map ntask_vpn_key (filter (\<lambda>r. nt_vpn_configuration_id r \<noteq> None \<and> nt_vpn_generation r \<noteq> None) (rows t)))"

definition nattempts_constraints :: "NodeTaskAttempt table \<Rightarrow> bool" where
  "nattempts_constraints t \<longleftrightarrow> distinct (map (\<lambda>r. (na_node_task_id r, na_attempt_no r)) (rows t)) \<and>
     list_all (\<lambda>r. 0 < na_attempt_no r \<and> na_status r \<in> {''started'', ''succeeded'', ''failed''}) (rows t)"

definition nodes_constraints :: "Node table \<Rightarrow> bool" where
  "nodes_constraints t \<longleftrightarrow> distinct (map no_node_key (rows t)) \<and>
     list_all (\<lambda>r. btrim (no_node_key r) \<noteq> [] \<and> btrim (no_display_name r) \<noteq> [] \<and> btrim (no_api_base_url r) \<noteq> [] \<and>
        0 < no_selection_weight r) (rows t)"

definition nstatus_constraints :: "NodeStatusRow list \<Rightarrow> bool" where
  "nstatus_constraints rs \<longleftrightarrow> distinct (map st_node_id rs) \<and>
     list_all (\<lambda>r. (case st_active_clients r of None \<Rightarrow> True | Some a \<Rightarrow> 0 \<le> a) \<and>
        (case st_max_clients r of None \<Rightarrow> True | Some m \<Rightarrow> 0 < m) \<and>
        (st_probe_lease_token r = None) = (st_probe_lease_expires_at r = None)) rs"

definition creds_constraints :: "NodeCredential table \<Rightarrow> bool" where
  "creds_constraints t \<longleftrightarrow> distinct (map (\<lambda>r. (nc_node_id r, nc_key_id r)) (rows t)) \<and>
     distinct (map nc_node_id (filter nc_is_active (rows t))) \<and>
     list_all (\<lambda>r. btrim (nc_key_id r) \<noteq> [] \<and> btrim (nc_shared_secret r) \<noteq> []) (rows t)"

definition servers_constraints :: "ServerRow table \<Rightarrow> bool" where
  "servers_constraints t \<longleftrightarrow> distinct (map sv_server_name (rows t)) \<and> distinct (map sv_host (rows t)) \<and>
     list_all (\<lambda>r. btrim (sv_server_name r) \<noteq> [] \<and> btrim (sv_host r) \<noteq> []) (rows t)"

text \<open>The full tuple of an endpoint is unique, with NULLs counted as equal.\<close>

definition endpoint_tuple :: "EndpointRow \<Rightarrow> (int \<times> string \<times> int) \<times> string option list" where
  "endpoint_tuple r = ((en_server_id r, en_protocol r, en_port r),
     [en_security r, en_sni r, en_public_key r, en_short_id r, en_transport_type r, en_flow r, en_encryption r])"

definition endpoints_constraints :: "EndpointRow table \<Rightarrow> bool" where
  "endpoints_constraints t \<longleftrightarrow> distinct (map endpoint_tuple (rows t)) \<and>
     list_all (\<lambda>r. btrim (en_protocol r) \<noteq> [] \<and> 1 \<le> en_port r \<and> en_port r \<le> 65535) (rows t)"

section \<open>Transactions\<close>

type_synonym 'a tx = "db \<Rightarrow> ('a \<times> db) res"

definition retT :: "'a \<Rightarrow> 'a tx" where
  "retT x s = Inr (x, s)"

definition raiseT :: "error \<Rightarrow> 'a tx" where
  "raiseT e s = Inl e"

definition bindT :: "'a tx \<Rightarrow> ('a \<Rightarrow> 'b tx) \<Rightarrow> 'b tx" where
  "bindT m f s = (case m s of Inl e \<Rightarrow> Inl e | Inr (x, s') \<Rightarrow> f x s')"

definition liftT :: "'a res \<Rightarrow> 'a tx" where
  "liftT r s = (case r of Inl e \<Rightarrow> Inl e | Inr x \<Rightarrow> Inr (x, s))"

definition readT :: "(db \<Rightarrow> 'a) \<Rightarrow> 'a tx" where
  "readT f s = Inr (f s, s)"

definition writeT :: "('t \<Rightarrow> bool) \<Rightarrow> string \<Rightarrow> 't \<Rightarrow> ('t \<Rightarrow> db \<Rightarrow> db) \<Rightarrow> unit tx" where
  "writeT constraint name t put s =
     (if constraint t then Inr ((), put t s) else Inl (IntegrityError name))"

definition entityT :: "('r \<Rightarrow> 'a res) \<Rightarrow> 'r option \<Rightarrow> 'a option tx" where
  "entityT from_row r = (case r of None \<Rightarrow> retT None | Some x \<Rightarrow> bindT (liftT (from_row x)) (\<lambda>y. retT (Some y)))"

fun foldT :: "('a \<Rightarrow> 'b \<Rightarrow> 'b tx) \<Rightarrow> 'a list \<Rightarrow> 'b \<Rightarrow> 'b tx" where
  "foldT f [] b = retT b"
| "foldT f (x # xs) b = bindT (f x b) (foldT f xs)"

definition run_uow :: "'a tx \<Rightarrow> db \<Rightarrow> 'a res \<times> db" where
  "run_uow m s = (case m s of Inl e \<Rightarrow> (Inl e, s) | Inr (x, s') \<Rightarrow> (Inr x, s'))"

definition preserves :: "(db \<Rightarrow> bool) \<Rightarrow> 'a tx \<Rightarrow> bool" where
  "preserves P m \<longleftrightarrow> (\<forall>s x s'. P s \<longrightarrow> m s = Inr (x, s') \<longrightarrow> P s')"

named_theorems tx_simps \<open>evaluation of transactions\<close>
named_theorems preserves_intros \<open>invariants through the transaction combinators\<close>

lemma retT_simp [simp, tx_simps]: "retT x s = Inr (x, s)"
  by (simp add: retT_def)

lemma raiseT_simp [simp, tx_simps]: "raiseT e s = Inl e"
  by (simp add: raiseT_def)

lemma readT_simp [simp, tx_simps]: "readT f s = Inr (f s, s)"
  by (simp add: readT_def)

lemma bindT_retT [simp, tx_simps]: "bindT (retT x) f = f x"
  by (rule ext) (simp add: bindT_def)

lemma bindT_raiseT [simp, tx_simps]: "bindT (raiseT e) f = raiseT e"
  by (rule ext) (simp add: bindT_def)

lemma bindT_readT [simp, tx_simps]: "bindT (readT g) f s = f (g s) s"
  by (simp add: bindT_def)

lemma liftT_Inr [simp, tx_simps]: "liftT (Inr x) = retT x"
  by (rule ext) (simp add: liftT_def)

lemma liftT_Inl [simp, tx_simps]: "liftT (Inl e) = raiseT e"
  by (rule ext) (simp add: liftT_def)

lemma entityT_None [simp, tx_simps]: "entityT f None = retT None"
  by (simp add: entityT_def)

lemma bindT_Inr: "bindT m f s = Inr (y, u) \<longleftrightarrow> (\<exists>x t. m s = Inr (x, t) \<and> f x t = Inr (y, u))"
  by (auto simp: bindT_def split: sum.splits)

lemma bindT_eval: "m s = Inr (x, t) \<Longrightarrow> bindT m f s = f x t"
  by (simp add: bindT_def)

lemma liftT_Inr_iff: "liftT r s = Inr (x, t) \<longleftrightarrow> r = Inr x \<and> t = s"
  by (cases r) (auto simp: liftT_def)

lemma writeT_Inr_iff: "writeT c n t put s = Inr (x, u) \<longleftrightarrow> c t \<and> u = put t s"
  by (auto simp: writeT_def)

lemma writeT_ok [simp]: "c t \<Longrightarrow> writeT c n t put s = Inr ((), put t s)"
  by (simp add: writeT_def)

lemma entityT_Inr_iff:
  "entityT f r s = Inr (x, t) \<longleftrightarrow> t = s \<and> (case r of None \<Rightarrow> x = None | Some v \<Rightarrow> \<exists>y. f v = Inr y \<and> x = Some y)"
  by (auto simp: entityT_def bindT_Inr liftT_Inr_iff split: option.splits)

lemma entityT_SomeD: "entityT f r s = Inr (Some y, t) \<Longrightarrow> t = s \<and> (\<exists>v. r = Some v \<and> f v = Inr y)"
  by (cases r) (simp_all add: entityT_Inr_iff)

lemma entityT_state: "entityT f r s = Inr (x, t) \<Longrightarrow> t = s"
  by (simp add: entityT_Inr_iff)

lemma run_uow_Inr: "run_uow m s = (Inr x, t) \<longleftrightarrow> m s = Inr (x, t)"
  by (auto simp: run_uow_def split: sum.splits)

lemma run_uow_rollback: "run_uow m s = (Inl e, t) \<Longrightarrow> t = s"
  by (auto simp: run_uow_def split: sum.splits)

lemma preservesI [intro?]: "(\<And>s x s'. P s \<Longrightarrow> m s = Inr (x, s') \<Longrightarrow> P s') \<Longrightarrow> preserves P m"
  by (auto simp: preserves_def)

lemma preservesD: "preserves P m \<Longrightarrow> P s \<Longrightarrow> m s = Inr (x, s') \<Longrightarrow> P s'"
  by (auto simp: preserves_def)

lemma preserves_bindT [preserves_intros]:
  "preserves P m \<Longrightarrow> (\<And>x. preserves P (f x)) \<Longrightarrow> preserves P (bindT m f)"
  unfolding preserves_def bindT_Inr by blast

lemma preserves_pure [preserves_intros]:
  "preserves P (retT x)" "preserves P (raiseT e)" "preserves P (liftT r)" "preserves P (readT g)" "preserves P (entityT f v)"
  by (auto simp: preserves_def liftT_Inr_iff entityT_Inr_iff)

lemma preserves_if [preserves_intros]:
  "preserves P m \<Longrightarrow> preserves P n \<Longrightarrow> preserves P (if b then m else n)"
  by simp

lemma preserves_option [preserves_intros]:
  "preserves P m \<Longrightarrow> (\<And>v. preserves P (f v)) \<Longrightarrow> preserves P (case x of None \<Rightarrow> m | Some v \<Rightarrow> f v)"
  by (cases x) auto

lemma preserves_prod [preserves_intros]:
  "(\<And>a b. preserves P (f a b)) \<Longrightarrow> preserves P (case x of (a, b) \<Rightarrow> f a b)"
  by (cases x) auto

lemma preserves_sum [preserves_intros]:
  "(\<And>a. preserves P (f a)) \<Longrightarrow> (\<And>b. preserves P (g b)) \<Longrightarrow> preserves P (case x of Inl a \<Rightarrow> f a | Inr b \<Rightarrow> g b)"
  by (cases x) auto

lemma preserves_writeT: "(\<And>s. P s \<Longrightarrow> c t \<Longrightarrow> P (put t s)) \<Longrightarrow> preserves P (writeT c n t put)"
  by (auto simp: preserves_def writeT_Inr_iff)

lemma preserves_foldT [preserves_intros]: "(\<And>x b. preserves P (f x b)) \<Longrightarrow> preserves P (foldT f xs b)"
  by (induction xs arbitrary: b) (auto intro: preserves_bindT preserves_pure)

lemma preserves_run_uow: "preserves P m \<Longrightarrow> P s \<Longrightarrow> P (snd (run_uow m s))"
  by (auto simp: run_uow_def preserves_def split: sum.splits)

text \<open>Triples: what holds after a transaction that was started in \<open>P\<close> and did not raise.\<close>

definition hoare :: "(db \<Rightarrow> bool) \<Rightarrow> 'a tx \<Rightarrow> ('a \<Rightarrow> db \<Rightarrow> bool) \<Rightarrow> bool" where
  "hoare P m Q \<longleftrightarrow> (\<forall>s x s'. P s \<longrightarrow> m s = Inr (x, s') \<longrightarrow> Q x s')"

lemma hoareI: "(\<And>s x s'. P s \<Longrightarrow> m s = Inr (x, s') \<Longrightarrow> Q x s') \<Longrightarrow> hoare P m Q"
  unfolding hoare_def by blast

lemma hoareD: "hoare P m Q \<Longrightarrow> P s \<Longrightarrow> m s = Inr (x, s') \<Longrightarrow> Q x s'"
  unfolding hoare_def by blast

lemma hoare_preserves: "hoare P m (\<lambda>_. P) \<longleftrightarrow> preserves P m"
  unfolding hoare_def preserves_def ..

lemma hoare_bindT: "hoare P m R \<Longrightarrow> (\<And>x. hoare (R x) (f x) Q) \<Longrightarrow> hoare P (bindT m f) Q"
  unfolding hoare_def bindT_Inr by blast

lemma hoare_seq: "preserves P m \<Longrightarrow> (\<And>x. hoare P (f x) Q) \<Longrightarrow> hoare P (bindT m f) Q"
  unfolding hoare_def preserves_def bindT_Inr by blast

lemma hoare_weaken: "hoare P m Q \<Longrightarrow> (\<And>s. P' s \<Longrightarrow> P s) \<Longrightarrow> (\<And>x s. Q x s \<Longrightarrow> Q' x s) \<Longrightarrow> hoare P' m Q'"
  unfolding hoare_def by blast

lemma hoare_pre: "(\<And>s. P s \<Longrightarrow> b) \<Longrightarrow> (b \<Longrightarrow> hoare P m Q) \<Longrightarrow> hoare P m Q"
  unfolding hoare_def by blast

lemma hoare_retT: "(\<And>s. P s \<Longrightarrow> Q x s) \<Longrightarrow> hoare P (retT x) Q"
  unfolding hoare_def by auto

lemma hoare_raiseT: "hoare P (raiseT e) Q"
  unfolding hoare_def by auto

lemma hoare_liftT: "(\<And>s x. P s \<Longrightarrow> r = Inr x \<Longrightarrow> Q x s) \<Longrightarrow> hoare P (liftT r) Q"
  unfolding hoare_def liftT_Inr_iff by blast

section \<open>Keyed tables\<close>

interpretation orders_tab: keyed_table po_id "\<lambda>i r. r\<lparr>po_id := Some i\<rparr>" by unfold_locales simp
interpretation attempts_tab: keyed_table pa_id "\<lambda>i r. r\<lparr>pa_id := Some i\<rparr>" by unfold_locales simp
interpretation events_tab: keyed_table pe_id "\<lambda>i r. r\<lparr>pe_id := Some i\<rparr>" by unfold_locales simp
interpretation subs_tab: keyed_table su_id "\<lambda>i r. r\<lparr>su_id := Some i\<rparr>" by unfold_locales simp
interpretation periods_tab: keyed_table sp_id "\<lambda>i r. r\<lparr>sp_id := Some i\<rparr>" by unfold_locales simp
interpretation vpns_tab: keyed_table vc_id "\<lambda>i r. r\<lparr>vc_id := Some i\<rparr>" by unfold_locales simp
interpretation ntasks_tab: keyed_table nt_id "\<lambda>i r. r\<lparr>nt_id := Some i\<rparr>" by unfold_locales simp
interpretation prev_tab: keyed_table pr_id "\<lambda>i r. r\<lparr>pr_id := Some i\<rparr>" by unfold_locales simp
interpretation pprov_tab: keyed_table pp_id "\<lambda>i r. r\<lparr>pp_id := Some i\<rparr>" by unfold_locales simp

end
