(* ===== verification/PayRepo.thy ===== *)
theory PayRepo
  imports Store "HOL-Library.Product_Lexorder"
begin

text \<open>
  The repositories of users, tariffs, payments, subscriptions and audit events
  (\<^verbatim>\<open>infrastructure/persistence/repositories/\<close>) with the row mappers they use
  (\<^verbatim>\<open>sqlalchemy/mappers.py\<close>). \<open>FOR UPDATE\<close> only takes locks and is left out. The paginated listings
  of the admin pages are not modelled.
\<close>

section \<open>Mappers\<close>

definition user_from_row :: "User \<Rightarrow> User res" where
  "user_from_row row = User_post_init
     \<lparr>us_id = us_id row, us_name_or_nick = us_name_or_nick row, us_created_at = us_created_at row,
      us_contacts = [], us_enabled = True\<rparr>"

definition tariff_from_row :: "Tariff \<Rightarrow> Tariff res" where
  "tariff_from_row row =
     bindE (Money_new (minor (ta_price row)) (currency (ta_price row))) (\<lambda>price.
     Tariff_post_init (row\<lparr>ta_price := price\<rparr>))"

definition subscription_from_row :: "Subscription \<Rightarrow> Subscription res" where
  "subscription_from_row row = Subscription_post_init row"

definition subscription_period_from_row :: "SubscriptionPeriod \<Rightarrow> SubscriptionPeriod res" where
  "subscription_period_from_row row = SubscriptionPeriod_post_init row"

definition payment_order_from_row :: "PaymentOrder \<Rightarrow> PaymentOrder res" where
  "payment_order_from_row row =
     bindE (Money_new (minor (po_amount row)) (currency (po_amount row))) (\<lambda>amount.
     PaymentOrder_post_init (row\<lparr>po_amount := amount\<rparr>))"

definition payment_attempt_from_row :: "PaymentAttempt \<Rightarrow> PaymentAttempt res" where
  "payment_attempt_from_row row = Inr row"

definition payment_event_from_row :: "PaymentEvent \<Rightarrow> PaymentEvent res" where
  "payment_event_from_row row = Inr (PaymentEvent_post_init row)"

section \<open>Writing tables\<close>

definition put_users :: "User table \<Rightarrow> unit tx" where
  "put_users t = writeT users_constraints ''users'' t (\<lambda>t s. s\<lparr>d_users := t\<rparr>)"

definition put_contacts :: "ContactRow table \<Rightarrow> unit tx" where
  "put_contacts t = writeT contacts_constraints ''user_contacts'' t (\<lambda>t s. s\<lparr>d_contacts := t\<rparr>)"

definition put_tariffs :: "Tariff table \<Rightarrow> unit tx" where
  "put_tariffs t = writeT tariffs_constraints ''tariffs'' t (\<lambda>t s. s\<lparr>d_tariffs := t\<rparr>)"

definition put_orders :: "PaymentOrder table \<Rightarrow> unit tx" where
  "put_orders t = writeT orders_constraints ''payment_orders'' t (\<lambda>t s. s\<lparr>d_orders := t\<rparr>)"

definition put_attempts :: "PaymentAttempt table \<Rightarrow> unit tx" where
  "put_attempts t = writeT attempts_constraints ''payment_attempts'' t (\<lambda>t s. s\<lparr>d_attempts := t\<rparr>)"

definition put_events :: "PaymentEvent table \<Rightarrow> unit tx" where
  "put_events t = writeT events_constraints ''payment_events'' t (\<lambda>t s. s\<lparr>d_events := t\<rparr>)"

definition put_txns :: "ProviderTransaction table \<Rightarrow> unit tx" where
  "put_txns t = writeT txns_constraints ''provider_transactions'' t (\<lambda>t s. s\<lparr>d_txns := t\<rparr>)"

definition put_inbox :: "WebhookInbox table \<Rightarrow> unit tx" where
  "put_inbox t = writeT inbox_constraints ''webhook_inbox'' t (\<lambda>t s. s\<lparr>d_inbox := t\<rparr>)"

definition put_subs :: "Subscription table \<Rightarrow> unit tx" where
  "put_subs t = writeT subs_constraints ''subscriptions'' t (\<lambda>t s. s\<lparr>d_subs := t\<rparr>)"

definition put_periods :: "SubscriptionPeriod table \<Rightarrow> unit tx" where
  "put_periods t = writeT periods_constraints ''subscription_periods'' t (\<lambda>t s. s\<lparr>d_periods := t\<rparr>)"

definition put_audit :: "AuditEvent table \<Rightarrow> unit tx" where
  "put_audit t = writeT (\<lambda>_. True) ''audit_events'' t (\<lambda>t s. s\<lparr>d_audit := t\<rparr>)"

section \<open>Users and tariffs\<close>

definition users_get_user_by_contact :: "string \<Rightarrow> string \<Rightarrow> User option tx" where
  "users_get_user_by_contact contact_type contact_value = readT (\<lambda>s.
     find_row (\<lambda>u. list_ex (\<lambda>c. Some (cr_user_id c) = us_id u \<and> cr_contact_type c = contact_type \<and>
                               cr_contact_value c = contact_value) (rows (d_contacts s))) (d_users s))"

definition users_create_user :: "string \<Rightarrow> int tx" where
  "users_create_user name_or_nick =
     bindT (readT (\<lambda>s. s)) (\<lambda>s.
     let (row, t) = insert_row (\<lambda>i r. r\<lparr>us_id := Some i\<rparr>)
           \<lparr>us_id = None, us_name_or_nick = name_or_nick, us_created_at = Some (d_clock s), us_contacts = [],
            us_enabled = True\<rparr> (d_users s) in
     bindT (put_users t) (\<lambda>_. retT (next_id (d_users s))))"

definition users_upsert_contact :: "int \<Rightarrow> string \<Rightarrow> string \<Rightarrow> bool \<Rightarrow> unit tx" where
  "users_upsert_contact user_id contact_type contact_value is_primary =
     bindT (readT d_contacts) (\<lambda>cs.
     if list_ex (\<lambda>c. cr_contact_type c = contact_type \<and> cr_contact_value c = contact_value) (rows cs)
     then put_contacts (update_where (\<lambda>c. cr_contact_type c = contact_type \<and> cr_contact_value c = contact_value)
            (\<lambda>c. c\<lparr>cr_user_id := user_id, cr_is_primary := is_primary\<rparr>) cs)
     else put_contacts (snd (insert_row (\<lambda>i r. r\<lparr>cr_id := Some i\<rparr>)
            \<lparr>cr_id = None, cr_user_id = user_id, cr_contact_type = contact_type,
             cr_contact_value = contact_value, cr_is_primary = is_primary\<rparr> cs)))"

definition users_claim_telegram_id_contact :: "int \<Rightarrow> int \<Rightarrow> bool tx" where
  "users_claim_telegram_id_contact user_id telegram_id =
     bindT (readT d_contacts) (\<lambda>cs.
     if list_ex (\<lambda>c. cr_contact_type c = ''telegram_id'' \<and> cr_contact_value c = show_int telegram_id) (rows cs)
     then retT False
     else bindT (put_contacts (snd (insert_row (\<lambda>i r. r\<lparr>cr_id := Some i\<rparr>)
            \<lparr>cr_id = None, cr_user_id = user_id, cr_contact_type = ''telegram_id'',
             cr_contact_value = show_int telegram_id, cr_is_primary = True\<rparr> cs))) (\<lambda>_. retT True))"

definition users_note_username :: "int option \<Rightarrow> string option \<Rightarrow> unit tx" where
  "users_note_username user_id username =
     (if or_else username [] = [] then retT ()
      else case user_id of None \<Rightarrow> raiseT (TypeError ''user_id'')
           | Some i \<Rightarrow> users_upsert_contact i ''telegram_username'' (or_else username []) False)"

definition users_register_telegram_user :: "int \<Rightarrow> string option \<Rightarrow> string \<Rightarrow> User tx" where
  "users_register_telegram_user telegram_id username name_or_nick =
     bindT (users_get_user_by_contact ''telegram_id'' (show_int telegram_id)) (\<lambda>existing.
     case existing of
       Some u \<Rightarrow> bindT (users_note_username (us_id u) username) (\<lambda>_. retT u)
     | None \<Rightarrow>
         bindT (users_create_user name_or_nick) (\<lambda>user_id.
         bindT (users_claim_telegram_id_contact user_id telegram_id) (\<lambda>claimed.
         if claimed
         then bindT (users_note_username (Some user_id) username) (\<lambda>_.
              retT \<lparr>us_id = Some user_id, us_name_or_nick = name_or_nick, us_created_at = None,
                    us_contacts = [], us_enabled = True\<rparr>)
         else
           bindT (readT d_users) (\<lambda>us.
           bindT (put_users (delete_where (\<lambda>u. us_id u = Some user_id) us)) (\<lambda>_.
           bindT (users_get_user_by_contact ''telegram_id'' (show_int telegram_id)) (\<lambda>canonical.
           case canonical of
             None \<Rightarrow> raiseT (RuntimeError ''Telegram contact claim was lost but canonical owner is missing'')
           | Some u \<Rightarrow> bindT (users_note_username (us_id u) username) (\<lambda>_. retT u)))))))"

definition users_get_entity_by_contact :: "string \<Rightarrow> string \<Rightarrow> User option tx" where
  "users_get_entity_by_contact contact_type contact_value =
     bindT (users_get_user_by_contact contact_type contact_value) (entityT user_from_row)"

definition users_register_telegram_entity :: "int \<Rightarrow> string option \<Rightarrow> string \<Rightarrow> User tx" where
  "users_register_telegram_entity telegram_id username name_or_nick =
     bindT (users_register_telegram_user telegram_id username name_or_nick) (\<lambda>row. liftT (user_from_row row))"

definition RegisterBotUser_execute :: "int \<Rightarrow> string option \<Rightarrow> string \<Rightarrow> db \<Rightarrow> User res \<times> db" where
  "RegisterBotUser_execute telegram_id username name_or_nick =
     run_uow (users_register_telegram_entity telegram_id username name_or_nick)"

definition admin_get_tariff_entity :: "int \<Rightarrow> Tariff option tx" where
  "admin_get_tariff_entity tariff_id =
     bindT (readT (\<lambda>s. get_row ta_id tariff_id (d_tariffs s))) (entityT tariff_from_row)"

definition admin_create_tariff :: "string \<Rightarrow> int \<Rightarrow> string \<Rightarrow> int \<Rightarrow> string option \<Rightarrow> bool \<Rightarrow> Tariff tx" where
  "admin_create_tariff tariff_name price_minor cur period_days description is_enabled =
     bindT (readT d_tariffs) (\<lambda>t.
     if list_ex (\<lambda>r. ta_name r = tariff_name) (rows t)
     then raiseT (ConflictError ''Tariff with the same name already exists'')
     else
       (let (row, t') = insert_row (\<lambda>i r. r\<lparr>ta_id := Some i\<rparr>)
          \<lparr>ta_id = None, ta_name = tariff_name, ta_price = \<lparr>minor = price_minor, currency = cur\<rparr>,
           ta_period_days = period_days, ta_description = description, ta_is_enabled = is_enabled\<rparr> t in
        bindT (put_tariffs t') (\<lambda>_. retT row)))"

section \<open>Payments\<close>

definition payments_get_order_by_idempotency :: "string \<Rightarrow> PaymentOrder option tx" where
  "payments_get_order_by_idempotency key = readT (\<lambda>s. find_row (\<lambda>r. po_idempotency_key r = key) (d_orders s))"

definition payments_get_order :: "int \<Rightarrow> PaymentOrder option tx" where
  "payments_get_order order_id = readT (\<lambda>s. get_row po_id order_id (d_orders s))"

definition payments_create_order :: "PaymentOrder \<Rightarrow> PaymentOrder tx" where
  "payments_create_order order =
     bindT (payments_get_order_by_idempotency (po_idempotency_key order)) (\<lambda>existing.
     case existing of
       Some row \<Rightarrow> retT row
     | None \<Rightarrow>
         bindT (readT (\<lambda>s. s)) (\<lambda>s.
         let (row, t) = insert_row (\<lambda>i r. r\<lparr>po_id := Some i\<rparr>)
               (order\<lparr>po_created_at := Some (d_clock s), po_updated_at := Some (d_clock s), po_paid_at := None\<rparr>)
               (d_orders s) in
         bindT (put_orders t) (\<lambda>_. retT row)))"

definition payments_get_order_entity :: "int \<Rightarrow> PaymentOrder option tx" where
  "payments_get_order_entity order_id =
     bindT (payments_get_order order_id) (entityT payment_order_from_row)"

definition payments_add_order_entity :: "PaymentOrder \<Rightarrow> PaymentOrder tx" where
  "payments_add_order_entity order =
     bindT (payments_create_order order) (\<lambda>row. liftT (payment_order_from_row row))"

definition payments_save_order_entity :: "PaymentOrder \<Rightarrow> unit tx" where
  "payments_save_order_entity order =
     (case po_id order of
        None \<Rightarrow> raiseT (ValueError ''Cannot save payment order without id'')
      | Some i \<Rightarrow>
          bindT (readT (\<lambda>s. s)) (\<lambda>s.
          put_orders (update_row po_id i
            (\<lambda>r. r\<lparr>po_status := po_status order,
                   po_updated_at := (case po_updated_at order of None \<Rightarrow> Some (d_clock s) | Some u \<Rightarrow> Some u),
                   po_paid_at := po_paid_at order, po_metadata := po_metadata order\<rparr>)
            (d_orders s))))"

definition payments_create_attempt :: "PaymentAttempt \<Rightarrow> PaymentAttempt tx" where
  "payments_create_attempt attempt =
     bindT (readT (\<lambda>s. s)) (\<lambda>s.
     let (row, t) = insert_row (\<lambda>i r. r\<lparr>pa_id := Some i\<rparr>)
           (attempt\<lparr>pa_created_at := Some (d_clock s), pa_updated_at := Some (d_clock s)\<rparr>) (d_attempts s) in
     bindT (put_attempts t) (\<lambda>_. retT row))"

definition payments_add_attempt_entity :: "PaymentAttempt \<Rightarrow> PaymentAttempt tx" where
  "payments_add_attempt_entity attempt =
     bindT (payments_create_attempt attempt) (\<lambda>row. liftT (payment_attempt_from_row row))"

definition payments_get_latest_attempt_entity :: "int \<Rightarrow> PaymentAttempt option tx" where
  "payments_get_latest_attempt_entity payment_order_id =
     bindT (readT (\<lambda>s. top_by (\<lambda>a. (case pa_created_at a of None \<Rightarrow> 0 | Some c \<Rightarrow> c, case pa_id a of None \<Rightarrow> 0 | Some i \<Rightarrow> i))
              (select_rows (\<lambda>a. pa_payment_order_id a = payment_order_id) (d_attempts s))))
       (entityT payment_attempt_from_row)"

definition payments_get_attempt_entity :: "int \<Rightarrow> PaymentAttempt option tx" where
  "payments_get_attempt_entity payment_attempt_id =
     bindT (readT (\<lambda>s. get_row pa_id payment_attempt_id (d_attempts s))) (entityT payment_attempt_from_row)"

definition payments_get_attempt_entity_by_provider_payment_id :: "string \<Rightarrow> string \<Rightarrow> PaymentAttempt option tx" where
  "payments_get_attempt_entity_by_provider_payment_id provider provider_payment_id =
     bindT (readT (\<lambda>s. find_row (\<lambda>a. pa_provider a = provider \<and> pa_provider_payment_id a = Some provider_payment_id) (d_attempts s)))
       (entityT payment_attempt_from_row)"

definition payments_save_attempt_entity :: "PaymentAttempt \<Rightarrow> unit tx" where
  "payments_save_attempt_entity attempt =
     (case pa_id attempt of
        None \<Rightarrow> raiseT (ValueError ''Cannot save payment attempt without id'')
      | Some i \<Rightarrow>
          bindT (readT (\<lambda>s. s)) (\<lambda>s.
          put_attempts (update_row pa_id i
            (\<lambda>r. let r = r\<lparr>pa_status := pa_status attempt,
                          pa_updated_at := (case pa_updated_at attempt of None \<Rightarrow> Some (d_clock s) | Some u \<Rightarrow> Some u),
                          pa_payload := pa_payload attempt\<rparr>;
                     r = (case pa_provider_payment_id attempt of None \<Rightarrow> r | Some p \<Rightarrow> r\<lparr>pa_provider_payment_id := Some p\<rparr>);
                     r = (case pa_payment_url attempt of None \<Rightarrow> r | Some u \<Rightarrow> r\<lparr>pa_payment_url := Some u\<rparr>)
                 in if pa_creation_lease_token attempt = None
                    then r\<lparr>pa_creation_claimed_at := None, pa_creation_lease_expires_at := None, pa_creation_lease_token := None\<rparr>
                    else r\<lparr>pa_creation_claimed_at := pa_creation_claimed_at attempt,
                           pa_creation_lease_expires_at := pa_creation_lease_expires_at attempt,
                           pa_creation_lease_token := pa_creation_lease_token attempt\<rparr>)
            (d_attempts s))))"

definition payments_save_webhook_inbox :: "string \<Rightarrow> string \<Rightarrow> dict \<Rightarrow> dict \<Rightarrow> (bool \<times> WebhookInbox) tx" where
  "payments_save_webhook_inbox provider event_key headers payload =
     bindT (readT (\<lambda>s. s)) (\<lambda>s.
     case find_row (\<lambda>w. wi_provider w = provider \<and> wi_event_key w = event_key) (d_inbox s) of
       Some existing \<Rightarrow> retT (False, existing)
     | None \<Rightarrow>
         (let (row, t) = insert_row (\<lambda>i r. r\<lparr>wi_id := Some i\<rparr>)
            \<lparr>wi_id = None, wi_provider = provider, wi_event_key = event_key, wi_headers = headers,
             wi_payload = payload, wi_status = PES_RECEIVED, wi_received_at = d_clock s,
             wi_processed_at = None, wi_error_message = None\<rparr> (d_inbox s) in
          bindT (put_inbox t) (\<lambda>_. retT (True, row))))"

definition payments_mark_webhook_inbox_status ::
  "int option \<Rightarrow> PaymentEventStatus \<Rightarrow> time option \<Rightarrow> string option \<Rightarrow> unit tx" where
  "payments_mark_webhook_inbox_status inbox_id status processed_at error_message =
     bindT (readT d_inbox) (\<lambda>t.
     put_inbox (update_where (\<lambda>w. wi_id w = inbox_id)
       (\<lambda>w. w\<lparr>wi_status := status, wi_error_message := error_message,
              wi_processed_at := (case processed_at of None \<Rightarrow> wi_processed_at w | Some p \<Rightarrow> Some p)\<rparr>) t))"

definition payments_create_payment_event :: "PaymentEvent \<Rightarrow> PaymentEvent tx" where
  "payments_create_payment_event event =
     bindT (readT (\<lambda>s. s)) (\<lambda>s.
     case find_row (\<lambda>e. pe_provider e = pe_provider event \<and> pe_event_key e = pe_event_key event) (d_events s) of
       Some existing \<Rightarrow> retT existing
     | None \<Rightarrow>
         (let (row, t) = insert_row (\<lambda>i r. r\<lparr>pe_id := Some i\<rparr>)
            (event\<lparr>pe_received_at := Some (d_clock s), pe_processed_at := None, pe_error_message := None\<rparr>)
            (d_events s) in
          bindT (put_events t) (\<lambda>_. retT row)))"

definition payments_get_event_entity :: "int \<Rightarrow> PaymentEvent option tx" where
  "payments_get_event_entity payment_event_id =
     bindT (readT (\<lambda>s. get_row pe_id payment_event_id (d_events s))) (entityT payment_event_from_row)"

definition payments_save_event_entity :: "PaymentEvent \<Rightarrow> unit tx" where
  "payments_save_event_entity event =
     (case pe_id event of
        None \<Rightarrow> raiseT (ValueError ''Cannot save payment event without id'')
      | Some i \<Rightarrow>
          bindT (readT d_events) (\<lambda>t.
          put_events (update_row pe_id i
            (\<lambda>r. r\<lparr>pe_status := pe_status event, pe_error_message := pe_error_message event,
                   pe_processed_at := (case pe_processed_at event of None \<Rightarrow> pe_processed_at r | Some p \<Rightarrow> Some p)\<rparr>) t)))"

definition payments_list_received_payment_event_ids :: "nat \<Rightarrow> int list tx" where
  "payments_list_received_payment_event_ids limit = readT (\<lambda>s.
     map (\<lambda>e. case pe_id e of None \<Rightarrow> 0 | Some i \<Rightarrow> i) (take limit
       (sort_key (\<lambda>e. (case pe_received_at e of None \<Rightarrow> 0 | Some r \<Rightarrow> r, case pe_id e of None \<Rightarrow> 0 | Some i \<Rightarrow> i))
         (select_rows (\<lambda>e. pe_status e = PES_RECEIVED) (d_events s)))))"

definition payments_create_provider_transaction ::
  "int \<Rightarrow> int option \<Rightarrow> string \<Rightarrow> string \<Rightarrow> string \<Rightarrow> string \<Rightarrow> int \<Rightarrow> string \<Rightarrow> dict \<Rightarrow> unit tx" where
  "payments_create_provider_transaction order_id attempt_id provider transaction_type transaction_key
       transaction_status amount_minor cur payload =
     bindT (readT (\<lambda>s. s)) (\<lambda>s.
     if list_ex (\<lambda>x. tx_provider x = provider \<and> tx_provider_transaction_key x = transaction_key) (rows (d_txns s))
     then retT ()
     else put_txns (snd (insert_row (\<lambda>i r. r\<lparr>tx_id := Some i\<rparr>)
            \<lparr>tx_id = None, tx_payment_order_id = order_id, tx_payment_attempt_id = attempt_id,
             tx_provider = provider, tx_transaction_type = transaction_type,
             tx_provider_transaction_key = transaction_key, tx_transaction_status = transaction_status,
             tx_amount_minor = amount_minor, tx_currency = cur, tx_payload = payload,
             tx_created_at = d_clock s\<rparr> (d_txns s))))"

definition payments_sum_provider_transactions :: "int \<Rightarrow> string \<Rightarrow> string \<Rightarrow> string \<Rightarrow> int tx" where
  "payments_sum_provider_transactions order_id provider transaction_type transaction_status = readT (\<lambda>s.
     sum_list (map tx_amount_minor (select_rows (\<lambda>x. tx_payment_order_id x = order_id \<and> tx_provider x = provider \<and>
       tx_transaction_type x = transaction_type \<and> tx_transaction_status x = transaction_status) (d_txns s))))"

section \<open>Subscriptions\<close>

definition subscriptions_get_entity :: "int \<Rightarrow> Subscription option tx" where
  "subscriptions_get_entity subscription_id =
     bindT (readT (\<lambda>s. get_row su_id subscription_id (d_subs s))) (entityT subscription_from_row)"

definition subscriptions_get_active_entity_for_user :: "int \<Rightarrow> Subscription option tx" where
  "subscriptions_get_active_entity_for_user user_id =
     bindT (readT (\<lambda>s. find_row (\<lambda>r. su_user_id r = user_id \<and> su_status r = SS_ACTIVE) (d_subs s)))
       (entityT subscription_from_row)"

definition subscriptions_get_last_period_entity :: "int \<Rightarrow> SubscriptionPeriod option tx" where
  "subscriptions_get_last_period_entity subscription_id =
     bindT (readT (\<lambda>s. top_by sp_expires_at (select_rows (\<lambda>p. sp_subscription_id p = Some subscription_id) (d_periods s))))
       (entityT subscription_period_from_row)"

definition current_periods :: "int \<Rightarrow> time \<Rightarrow> db \<Rightarrow> SubscriptionPeriod list" where
  "current_periods subscription_id now s =
     select_rows (\<lambda>p. sp_subscription_id p = Some subscription_id \<and> sp_is_paid p \<and>
                      sp_starts_at p \<le> now \<and> sp_expires_at p > now) (d_periods s)"

definition subscriptions_get_current_period_entity :: "int \<Rightarrow> time \<Rightarrow> SubscriptionPeriod option tx" where
  "subscriptions_get_current_period_entity subscription_id now =
     bindT (readT (\<lambda>s. top_by sp_expires_at (current_periods subscription_id now s)))
       (entityT subscription_period_from_row)"

definition subscriptions_get_period_by_payment_order_id :: "int \<Rightarrow> SubscriptionPeriod option tx" where
  "subscriptions_get_period_by_payment_order_id payment_order_id =
     bindT (readT (\<lambda>s. find_row (\<lambda>p. sp_payment_order_id p = Some payment_order_id) (d_periods s)))
       (entityT subscription_period_from_row)"

definition subscriptions_save_period_entity :: "SubscriptionPeriod \<Rightarrow> unit tx" where
  "subscriptions_save_period_entity period =
     (case sp_id period of
        None \<Rightarrow> raiseT (ValueError ''Cannot save subscription period without id'')
      | Some i \<Rightarrow>
          bindT (readT d_periods) (\<lambda>t.
          put_periods (update_row sp_id i
            (\<lambda>r. r\<lparr>sp_is_paid := sp_is_paid period, sp_payment_order_id := sp_payment_order_id period\<rparr>) t)))"

definition subscriptions_has_funded_period_after :: "int \<Rightarrow> time \<Rightarrow> bool tx" where
  "subscriptions_has_funded_period_after subscription_id now = readT (\<lambda>s.
     list_ex (\<lambda>p. sp_subscription_id p = Some subscription_id \<and> sp_is_paid p \<and> sp_expires_at p > now)
       (rows (d_periods s)))"

definition subscriptions_add_entity :: "Subscription \<Rightarrow> Subscription tx" where
  "subscriptions_add_entity sub =
     bindT (readT d_subs) (\<lambda>t.
     let (row, t') = insert_row (\<lambda>i r. r\<lparr>su_id := Some i\<rparr>) (sub\<lparr>su_ended_at := None\<rparr>) t in
     bindT (put_subs t') (\<lambda>_. retT (sub\<lparr>su_id := Some (next_id t)\<rparr>)))"

definition subscriptions_save_entity :: "Subscription \<Rightarrow> unit tx" where
  "subscriptions_save_entity sub =
     (case su_id sub of
        None \<Rightarrow> raiseT (ValueError ''Cannot save subscription without id'')
      | Some i \<Rightarrow>
          bindT (readT d_subs) (\<lambda>t.
          put_subs (update_row su_id i
            (\<lambda>r. r\<lparr>su_tariff_id := su_tariff_id sub, su_status := su_status sub, su_ended_at := su_ended_at sub\<rparr>) t)))"

definition subscriptions_add_period_entity :: "SubscriptionPeriod \<Rightarrow> SubscriptionPeriod tx" where
  "subscriptions_add_period_entity period =
     (case sp_subscription_id period of
        None \<Rightarrow> raiseT (ValueError ''Subscription period requires subscription_id'')
      | Some _ \<Rightarrow>
          bindT (readT d_periods) (\<lambda>t.
          let (row, t') = insert_row (\<lambda>i r. r\<lparr>sp_id := Some i\<rparr>) period t in
          bindT (put_periods t') (\<lambda>_. retT row)))"

section \<open>Audit\<close>

definition audit_append :: "AuditEventName \<Rightarrow> AuditAggregateType \<Rightarrow> int \<Rightarrow> dict \<Rightarrow> unit tx" where
  "audit_append event_name aggregate_type aggregate_id payload =
     bindT (readT (\<lambda>s. s)) (\<lambda>s.
     put_audit (snd (insert_row (\<lambda>i r. r\<lparr>ae_id := Some i\<rparr>)
       \<lparr>ae_id = None, ae_event_name = event_name, ae_aggregate_type = aggregate_type,
        ae_aggregate_id = aggregate_id, ae_payload = payload, ae_created_at = d_clock s\<rparr> (d_audit s))))"

end
