(* ===== verification/VpnRepo.thy ===== *)
theory VpnRepo
  imports Store "HOL-Library.Product_Lexorder"
begin

text \<open>
  The repository of VPN configurations and panel tasks (\<^verbatim>\<open>repositories/vpn.py\<close>).

  \<open>panel_provision_task_from_row\<close> is the mapper as it is written: it passes an argument the entity does not
  have and therefore raises on every row. The operations that load panel provision tasks take the mapper as
  a parameter, so that what they do with a loaded task can be stated separately from this defect.
\<close>

definition opt_time :: "time option \<Rightarrow> time" where
  "opt_time t = (case t of None \<Rightarrow> 0 | Some x \<Rightarrow> x)"

definition opt_id :: "int option \<Rightarrow> int" where
  "opt_id i = (case i of None \<Rightarrow> 0 | Some x \<Rightarrow> x)"

section \<open>Mappers\<close>

definition vpn_configuration_from_row :: "VpnConfiguration \<Rightarrow> VpnConfiguration res" where
  "vpn_configuration_from_row row = VpnConfiguration_post_init row"

definition panel_provision_task_from_row :: "PanelProvisionTask \<Rightarrow> PanelProvisionTask res" where
  "panel_provision_task_from_row row =
     Inl (TypeError ''PanelProvisionTask.__init__() got an unexpected keyword argument journal_retired_at'')"

definition panel_revoke_task_from_row :: "PanelRevokeTask \<Rightarrow> PanelRevokeTask res" where
  "panel_revoke_task_from_row row = PanelRevokeTask_post_init row"

section \<open>Configurations\<close>

definition put_vpns :: "VpnConfiguration table \<Rightarrow> unit tx" where
  "put_vpns t = writeT vpns_constraints ''vpn_configurations'' t (\<lambda>t s. s\<lparr>d_vpns := t\<rparr>)"

definition vpn_get_entity :: "int \<Rightarrow> VpnConfiguration option tx" where
  "vpn_get_entity vpn_configuration_id =
     bindT (readT (\<lambda>s. get_row vc_id vpn_configuration_id (d_vpns s))) (entityT vpn_configuration_from_row)"

definition vpn_get_active_entity_for_subscription :: "int \<Rightarrow> VpnConfiguration option tx" where
  "vpn_get_active_entity_for_subscription subscription_id =
     bindT (readT (\<lambda>s. find_row (\<lambda>v. vc_subscription_id v = subscription_id \<and> vc_status v = VS_ACTIVE) (d_vpns s)))
       (entityT vpn_configuration_from_row)"

definition vpn_get_latest_entity_for_subscription :: "int \<Rightarrow> VpnConfiguration option tx" where
  "vpn_get_latest_entity_for_subscription subscription_id =
     bindT (readT (\<lambda>s. top_by (\<lambda>v. opt_time (vc_created_at v))
              (select_rows (\<lambda>v. vc_subscription_id v = subscription_id) (d_vpns s))))
       (entityT vpn_configuration_from_row)"

definition vpn_add_entity :: "VpnConfiguration \<Rightarrow> VpnConfiguration tx" where
  "vpn_add_entity configuration =
     bindT (readT (\<lambda>s. s)) (\<lambda>s.
     let (row, t) = insert_row (\<lambda>i r. r\<lparr>vc_id := Some i\<rparr>)
           (configuration\<lparr>vc_created_at := Some (d_clock s), vc_revoked_at := None\<rparr>) (d_vpns s) in
     bindT (put_vpns t) (\<lambda>_. retT (configuration\<lparr>vc_id := Some (next_id (d_vpns s))\<rparr>)))"

definition vpn_save_entity :: "VpnConfiguration \<Rightarrow> unit tx" where
  "vpn_save_entity configuration =
     (case vc_id configuration of
        None \<Rightarrow> raiseT (ValueError ''Cannot save VPN configuration without id'')
      | Some i \<Rightarrow>
          bindT (readT d_vpns) (\<lambda>t.
          put_vpns (update_row vc_id i
            (\<lambda>r. r\<lparr>vc_status := vc_status configuration, vc_desired_state := vc_desired_state configuration,
                   vc_generation := vc_generation configuration,
                   vc_remote_client_ref := vc_remote_client_ref configuration,
                   vc_revoked_at := vc_revoked_at configuration\<rparr>) t)))"

section \<open>Panel provision tasks\<close>

definition put_pprov :: "PanelProvisionTask table \<Rightarrow> unit tx" where
  "put_pprov t = writeT pprov_constraints ''panel_provision_tasks'' t (\<lambda>t s. s\<lparr>d_pprov := t\<rparr>)"

definition vpn_get_panel_task_entity ::
  "(PanelProvisionTask \<Rightarrow> PanelProvisionTask res) \<Rightarrow> int \<Rightarrow> PanelProvisionTask option tx" where
  "vpn_get_panel_task_entity from_row panel_task_id =
     bindT (readT (\<lambda>s. get_row pp_id panel_task_id (d_pprov s))) (entityT from_row)"

definition vpn_get_panel_task_for_configuration ::
  "(PanelProvisionTask \<Rightarrow> PanelProvisionTask res) \<Rightarrow> int \<Rightarrow> PanelProvisionTask option tx" where
  "vpn_get_panel_task_for_configuration from_row vpn_configuration_id =
     bindT (readT (\<lambda>s. find_row (\<lambda>t. pp_vpn_configuration_id t = vpn_configuration_id) (d_pprov s))) (entityT from_row)"

definition vpn_add_panel_task_entity ::
  "(PanelProvisionTask \<Rightarrow> PanelProvisionTask res) \<Rightarrow> PanelProvisionTask \<Rightarrow> PanelProvisionTask tx" where
  "vpn_add_panel_task_entity from_row task =
     bindT (readT (\<lambda>s. s)) (\<lambda>s.
     if list_ex (\<lambda>r. pp_vpn_configuration_id r = pp_vpn_configuration_id task) (rows (d_pprov s))
     then bindT (vpn_get_panel_task_for_configuration from_row (pp_vpn_configuration_id task)) (\<lambda>existing.
          case existing of
            None \<Rightarrow> raiseT (RuntimeError ''Failed to persist panel provision task'')
          | Some e \<Rightarrow> retT e)
     else
       (let (row, t) = insert_row (\<lambda>i r. r\<lparr>pp_id := Some i\<rparr>)
          (task\<lparr>pp_created_at := Some (d_clock s), pp_updated_at := Some (d_clock s)\<rparr>) (d_pprov s) in
        bindT (put_pprov t) (\<lambda>_. liftT (from_row row))))"

definition vpn_save_panel_task_entity :: "PanelProvisionTask \<Rightarrow> unit tx" where
  "vpn_save_panel_task_entity task =
     (case pp_id task of
        None \<Rightarrow> raiseT (ValueError ''Cannot save panel provision task without id'')
      | Some i \<Rightarrow>
          bindT (readT d_pprov) (\<lambda>t.
          put_pprov (update_row pp_id i
            (\<lambda>r. r\<lparr>pp_status := pp_status task, pp_payload := pp_payload task,
                   pp_vpn_generation := pp_vpn_generation task, pp_attempts := pp_attempts task,
                   pp_max_attempts := pp_max_attempts task, pp_next_retry_at := pp_next_retry_at task,
                   pp_last_error := pp_last_error task, pp_claimed_at := pp_claimed_at task,
                   pp_lease_expires_at := pp_lease_expires_at task, pp_lease_token := pp_lease_token task,
                   pp_compensation_required := pp_compensation_required task,
                   pp_updated_at := pp_updated_at task, pp_completed_at := pp_completed_at task\<rparr>) t)))"

definition vpn_list_due_panel_task_ids :: "time \<Rightarrow> nat \<Rightarrow> int list tx" where
  "vpn_list_due_panel_task_ids now limit = readT (\<lambda>s.
     map (\<lambda>t. opt_id (pp_id t)) (take limit (sort_key (\<lambda>t. opt_time (pp_next_retry_at t))
       (select_rows (\<lambda>t. pp_status t = PTS_PENDING \<and>
          (case pp_next_retry_at t of None \<Rightarrow> False | Some r \<Rightarrow> r \<le> now)) (d_pprov s)))))"

definition vpn_list_stale_panel_task_entities ::
  "(PanelProvisionTask \<Rightarrow> PanelProvisionTask res) \<Rightarrow> time \<Rightarrow> nat \<Rightarrow> PanelProvisionTask list tx" where
  "vpn_list_stale_panel_task_entities from_row now limit =
     bindT (readT (\<lambda>s. take limit (sort_key (\<lambda>t. opt_time (pp_lease_expires_at t))
       (select_rows (\<lambda>t. pp_status t = PTS_IN_PROGRESS \<and>
          (case pp_lease_expires_at t of None \<Rightarrow> False | Some e \<Rightarrow> e \<le> now)) (d_pprov s)))))
       (\<lambda>ts. liftT (mapE from_row ts))"

section \<open>Panel revoke tasks\<close>

definition put_prev :: "PanelRevokeTask table \<Rightarrow> unit tx" where
  "put_prev t = writeT prev_constraints ''panel_revoke_tasks'' t (\<lambda>t s. s\<lparr>d_prev := t\<rparr>)"

definition vpn_get_panel_revoke_task_entity :: "int \<Rightarrow> PanelRevokeTask option tx" where
  "vpn_get_panel_revoke_task_entity panel_revoke_task_id =
     bindT (readT (\<lambda>s. get_row pr_id panel_revoke_task_id (d_prev s))) (entityT panel_revoke_task_from_row)"

definition vpn_get_panel_revoke_task_for_generation :: "int \<Rightarrow> int \<Rightarrow> PanelRevokeTask option tx" where
  "vpn_get_panel_revoke_task_for_generation vpn_configuration_id vpn_generation =
     bindT (readT (\<lambda>s. top_by (\<lambda>t. opt_id (pr_id t))
              (select_rows (\<lambda>t. pr_vpn_configuration_id t = vpn_configuration_id \<and>
                 pr_vpn_generation t = vpn_generation) (d_prev s))))
       (entityT panel_revoke_task_from_row)"

definition vpn_add_panel_revoke_task_entity :: "PanelRevokeTask \<Rightarrow> PanelRevokeTask tx" where
  "vpn_add_panel_revoke_task_entity task =
     bindT (readT (\<lambda>s. s)) (\<lambda>s.
     if list_ex (\<lambda>r. pr_vpn_configuration_id r = pr_vpn_configuration_id task \<and>
                     pr_vpn_generation r = pr_vpn_generation task) (rows (d_prev s))
     then bindT (vpn_get_panel_revoke_task_for_generation (pr_vpn_configuration_id task) (pr_vpn_generation task)) (\<lambda>existing.
          case existing of
            None \<Rightarrow> raiseT (RuntimeError ''Failed to persist panel revoke task'')
          | Some e \<Rightarrow> retT e)
     else
       (let (row, t) = insert_row (\<lambda>i r. r\<lparr>pr_id := Some i\<rparr>)
          (task\<lparr>pr_created_at := Some (d_clock s), pr_updated_at := Some (d_clock s)\<rparr>) (d_prev s) in
        bindT (put_prev t) (\<lambda>_. liftT (panel_revoke_task_from_row row))))"

definition vpn_save_panel_revoke_task_entity :: "PanelRevokeTask \<Rightarrow> unit tx" where
  "vpn_save_panel_revoke_task_entity task =
     (case pr_id task of
        None \<Rightarrow> raiseT (ValueError ''Cannot save panel revoke task without id'')
      | Some i \<Rightarrow>
          bindT (readT (\<lambda>s. s)) (\<lambda>s.
          put_prev (update_row pr_id i
            (\<lambda>r. r\<lparr>pr_status := pr_status task, pr_payload := pr_payload task, pr_attempts := pr_attempts task,
                   pr_max_attempts := pr_max_attempts task, pr_next_retry_at := pr_next_retry_at task,
                   pr_last_error := pr_last_error task, pr_claimed_at := pr_claimed_at task,
                   pr_lease_expires_at := pr_lease_expires_at task, pr_lease_token := pr_lease_token task,
                   pr_updated_at := (case pr_updated_at task of None \<Rightarrow> Some (d_clock s) | Some u \<Rightarrow> Some u),
                   pr_completed_at := pr_completed_at task\<rparr>) (d_prev s))))"

definition vpn_list_due_panel_revoke_task_ids :: "time \<Rightarrow> nat \<Rightarrow> int list tx" where
  "vpn_list_due_panel_revoke_task_ids now limit = readT (\<lambda>s.
     map (\<lambda>t. opt_id (pr_id t)) (take limit (sort_key (\<lambda>t. opt_time (pr_next_retry_at t))
       (select_rows (\<lambda>t. pr_status t = PTS_PENDING \<and>
          (case pr_next_retry_at t of None \<Rightarrow> False | Some r \<Rightarrow> r \<le> now)) (d_prev s)))))"

definition vpn_list_stale_panel_revoke_task_entities :: "time \<Rightarrow> nat \<Rightarrow> PanelRevokeTask list tx" where
  "vpn_list_stale_panel_revoke_task_entities now limit =
     bindT (readT (\<lambda>s. take limit (sort_key (\<lambda>t. opt_time (pr_lease_expires_at t))
       (select_rows (\<lambda>t. pr_status t = PTS_IN_PROGRESS \<and>
          (case pr_lease_expires_at t of None \<Rightarrow> False | Some e \<Rightarrow> e \<le> now)) (d_prev s)))))
       (\<lambda>ts. liftT (mapE panel_revoke_task_from_row ts))"

section \<open>Lemmas\<close>

text \<open>Loading any stored panel provision task with the mapper as it is written fails.\<close>

theorem panel_provision_task_never_loads:
  assumes "get_row pp_id i (d_pprov s) = Some t"
  shows "\<exists>e. vpn_get_panel_task_entity panel_provision_task_from_row i s = Inl (TypeError e)"
  using assms by (simp add: vpn_get_panel_task_entity_def entityT_def panel_provision_task_from_row_def)

end
