(* ===== verification/ProcessPay.thy ===== *)
theory ProcessPay
  imports PayRepo VpnRepo
begin

text \<open>
  Settling payments: \<^verbatim>\<open>use_cases/activate_subscription.py\<close>, \<^verbatim>\<open>use_cases/process_payment.py\<close> and the manual
  settlement of \<^verbatim>\<open>use_cases/admin_operations.py\<close>. Each handler is one transaction; the jobs it enqueues
  after the commit are part of its result. An instant written with \<^verbatim>\<open>isoformat\<close> into a JSON payload
  is the number it denotes.
\<close>

section \<open>Jobs\<close>

datatype VpnRevokeReason = EXPIRATION | FORCE | REPLACEMENT_CLEANUP

datatype job =
    PROCESS_PAYMENT_EVENT int
  | PROVISION_SUBSCRIPTION int
  | REVOKE_VPN_CONFIGURATION int VpnRevokeReason
  | DISPATCH_NODE_TASK int
  | DISPATCH_PANEL_PROVISION_TASK int
  | DISPATCH_PANEL_REVOKE_TASK int

section \<open>Activating a subscription\<close>

text \<open>\<open>persist_activation\<close> is the part of \<^verbatim>\<open>execute\<close> that writes what the policy decided.\<close>

definition persist_activation :: "SubscriptionActivation \<Rightarrow> int option \<Rightarrow> SubscriptionActivation tx" where
  "persist_activation activation payment_order_id =
     bindT (case sa_replaced_subscription activation of
              None \<Rightarrow> retT () | Some r \<Rightarrow> subscriptions_save_entity r) (\<lambda>_.
     bindT (if sa_created_new_subscription activation then subscriptions_add_entity (sa_subscription activation)
            else bindT (subscriptions_save_entity (sa_subscription activation)) (\<lambda>_. retT (sa_subscription activation))) (\<lambda>sub.
     bindT (subscriptions_add_period_entity
              ((sa_period activation)\<lparr>sp_subscription_id := su_id sub, sp_payment_order_id := payment_order_id\<rparr>)) (\<lambda>period.
     retT (activation\<lparr>sa_subscription := sub, sa_period := period\<rparr>))))"

definition last_period_of_active :: "Subscription option \<Rightarrow> int \<Rightarrow> SubscriptionPeriod option tx" where
  "last_period_of_active active tariff_id =
     (case active of
        None \<Rightarrow> retT None
      | Some a \<Rightarrow>
          (case su_id a of
             None \<Rightarrow> retT None
           | Some i \<Rightarrow> if su_tariff_id a = tariff_id then subscriptions_get_last_period_entity i else retT None))"

definition ActivateSubscription_execute ::
  "int \<Rightarrow> int \<Rightarrow> int \<Rightarrow> time \<Rightarrow> int option \<Rightarrow> SubscriptionActivation tx" where
  "ActivateSubscription_execute user_id tariff_id period_days now payment_order_id =
     bindT (subscriptions_get_active_entity_for_user user_id) (\<lambda>active.
     bindT (last_period_of_active active tariff_id) (\<lambda>last_period.
     bindT (liftT (apply_paid_period active last_period user_id tariff_id period_days now)) (\<lambda>activation.
     persist_activation activation payment_order_id)))"

section \<open>Processing a payment event\<close>

datatype payment_result = Missing | AlreadyDone PaymentEventStatus | Rejected | Ignored | Processed "int option"

type_synonym handler_result = "payment_result \<times> job list"

definition ignore_event :: "PaymentEvent \<Rightarrow> time \<Rightarrow> payment_result tx" where
  "ignore_event event now =
     bindT (payments_save_event_entity (PaymentEvent_ignore event now None)) (\<lambda>_. retT Ignored)"

definition reject_paid_event :: "PaymentEvent \<Rightarrow> time \<Rightarrow> string \<Rightarrow> payment_result tx" where
  "reject_paid_event event now reason =
     bindT (payments_save_event_entity (PaymentEvent_fail event now reason)) (\<lambda>_. retT Rejected)"

definition emit_subscription_activated :: "SubscriptionActivation \<Rightarrow> int \<Rightarrow> int \<Rightarrow> unit tx" where
  "emit_subscription_activated activation subscription_id period_id =
     audit_append SUBSCRIPTION_ACTIVATED AGG_SUBSCRIPTION subscription_id
       [(''subscription_id'', JInt subscription_id), (''subscription_period_id'', JInt period_id),
        (''starts_at'', JInt (sp_starts_at (sa_period activation))),
        (''expires_at'', JInt (sp_expires_at (sa_period activation)))]"

definition error_text :: "error \<Rightarrow> string" where
  "error_text e = (case e of PaymentInvariantViolation m \<Rightarrow> m | _ \<Rightarrow> [])"

text \<open>\<open>settle_order\<close> is what \<^verbatim>\<open>_process_paid\<close> does once the order has become paid.\<close>

definition settle_order :: "PaymentOrder \<Rightarrow> int \<Rightarrow> time \<Rightarrow> int tx" where
  "settle_order order order_id now =
     bindT (payments_save_order_entity order) (\<lambda>_.
     bindT (ActivateSubscription_execute (po_user_id order) (po_tariff_id order)
              (po_requested_period_days order) now (Some order_id)) (\<lambda>activation.
     case (su_id (sa_subscription activation), sp_id (sa_period activation)) of
       (Some sid, Some pid) \<Rightarrow>
         bindT (emit_subscription_activated activation sid pid) (\<lambda>_. retT sid)
     | _ \<Rightarrow> raiseT (RuntimeError ''Subscription activation was not persisted'')))"

text \<open>\<open>book_paid\<close> is what \<^verbatim>\<open>_process_paid\<close> does once the attempt has accepted the paid status.\<close>

definition book_paid ::
  "PaymentEvent \<Rightarrow> PaymentOrder \<Rightarrow> int \<Rightarrow> PaymentAttempt \<Rightarrow> int \<Rightarrow> string \<Rightarrow> time \<Rightarrow> payment_result tx" where
  "book_paid event order order_id att amount cur now =
     bindT (payments_save_attempt_entity att) (\<lambda>_.
     bindT (liftT (PaymentOrder_mark_paid order now)) (\<lambda>(changed, order').
     bindT (if changed then bindT (settle_order order' order_id now) (\<lambda>sid. retT (Some sid)) else retT None) (\<lambda>subscription_id.
     bindT (payments_create_provider_transaction order_id (pa_id att) (pe_provider event) ''payment_paid''
              (pe_event_key event) ''paid'' amount (upper (strip cur)) (pe_payload event)) (\<lambda>_.
     bindT (payments_save_event_entity (PaymentEvent_mark_processed event now)) (\<lambda>_.
     retT (Processed subscription_id))))))"

definition process_paid ::
  "PaymentEvent \<Rightarrow> PaymentOrder \<Rightarrow> PaymentAttempt option \<Rightarrow> time \<Rightarrow> payment_result tx" where
  "process_paid event order attempt now =
     (case validate_paid_settlement event attempt order of
        Inl e \<Rightarrow> reject_paid_event event now (''payment settlement rejected: '' @ error_text e)
      | Inr _ \<Rightarrow>
     (case (attempt, po_id order, pe_amount_minor event, pe_currency event) of
        (Some att, Some order_id, Some amount, Some cur) \<Rightarrow>
          (let (transition, att') = PaymentAttempt_apply_provider_status att PS_PAID None None (Some (pe_payload event)) in
           if transition = PTR_STALE
           then bindT (payments_save_event_entity (PaymentEvent_ignore event now
                  (Some (''stale paid event for attempt already '' @ PaymentStatus_value (pa_status att'))))) (\<lambda>_.
                retT Ignored)
           else book_paid event order order_id att' amount cur now)
      | _ \<Rightarrow> raiseT (RuntimeError ''AssertionError'')))"

definition audit_name_of_status :: "PaymentStatus \<Rightarrow> AuditEventName res" where
  "audit_name_of_status status =
     (case status of PS_FAILED \<Rightarrow> Inr PAYMENT_FAILED | PS_EXPIRED \<Rightarrow> Inr PAYMENT_EXPIRED
      | PS_CANCELLED \<Rightarrow> Inr PAYMENT_CANCELLED | _ \<Rightarrow> Inl (ValueError (''payment_'' @ PaymentStatus_value status)))"

definition finish_unsuccessful :: "PaymentEvent \<Rightarrow> PaymentOrder \<Rightarrow> PaymentStatus \<Rightarrow> time \<Rightarrow> unit tx" where
  "finish_unsuccessful event order status now =
     bindT (liftT (PaymentOrder_apply_external_status order status now)) (\<lambda>(changed, order').
     bindT (if changed then payments_save_order_entity order' else retT ()) (\<lambda>_.
     bindT (liftT (audit_name_of_status status)) (\<lambda>name.
     bindT (liftT (require (TypeError ''order.id'') (po_id order'))) (\<lambda>order_id.
     bindT (audit_append name AGG_PAYMENT_ORDER order_id
              [(''payment_order_id'', JInt order_id), (''status'', JStr (PaymentStatus_value status))]) (\<lambda>_.
     payments_save_event_entity (PaymentEvent_mark_processed event now))))))"

definition process_unsuccessful ::
  "PaymentEvent \<Rightarrow> PaymentOrder \<Rightarrow> PaymentAttempt option \<Rightarrow> PaymentStatus \<Rightarrow> time \<Rightarrow> unit tx" where
  "process_unsuccessful event order attempt status now =
     (case attempt of
        None \<Rightarrow> finish_unsuccessful event order status now
      | Some att \<Rightarrow>
          (let (transition, att') = PaymentAttempt_apply_provider_status att status None None (Some (pe_payload event)) in
           if transition = PTR_STALE
           then payments_save_event_entity (PaymentEvent_ignore event now
                  (Some (''stale provider status '' @ PaymentStatus_value status @ '' for attempt already '' @
                         PaymentStatus_value (pa_status att'))))
           else bindT (payments_save_attempt_entity att') (\<lambda>_. finish_unsuccessful event order status now)))"

text \<open>
  Withdrawing the entitlement of a fully refunded order: \<open>withdraw_period\<close> marks its period unpaid, finds the
  configuration to revoke and ends the subscription when no funded period is left.
\<close>

definition vpn_to_revoke :: "int \<Rightarrow> time \<Rightarrow> int option tx" where
  "vpn_to_revoke sid now =
     bindT (subscriptions_get_current_period_entity sid now) (\<lambda>current.
     if current = None
     then bindT (vpn_get_active_entity_for_subscription sid) (\<lambda>v. retT (case v of None \<Rightarrow> None | Some c \<Rightarrow> vc_id c))
     else retT None)"

definition expire_if_unfunded :: "Subscription option \<Rightarrow> int \<Rightarrow> time \<Rightarrow> unit tx" where
  "expire_if_unfunded sub sid now =
     (case sub of
        None \<Rightarrow> retT ()
      | Some sb \<Rightarrow>
          bindT (subscriptions_has_funded_period_after sid now) (\<lambda>funded.
          if funded then retT () else subscriptions_save_entity (Subscription_expire sb now)))"

definition withdraw_period :: "SubscriptionPeriod \<Rightarrow> time \<Rightarrow> int option tx" where
  "withdraw_period p now =
     bindT (subscriptions_save_period_entity (p\<lparr>sp_is_paid := False\<rparr>)) (\<lambda>_.
     bindT (liftT (require (TypeError ''period.subscription_id'') (sp_subscription_id p))) (\<lambda>sid.
     bindT (subscriptions_get_entity sid) (\<lambda>sub.
     bindT (vpn_to_revoke sid now) (\<lambda>revoke_id.
     bindT (expire_if_unfunded sub sid now) (\<lambda>_.
     retT revoke_id)))))"

definition refund_entitlement :: "PaymentEvent \<Rightarrow> int \<Rightarrow> time \<Rightarrow> int option tx" where
  "refund_entitlement event order_id now =
     bindT (subscriptions_get_period_by_payment_order_id order_id) (\<lambda>period.
     case period of
       None \<Rightarrow>
         bindT (audit_append REFUND_ENTITLEMENT_RECONCILIATION_REQUIRED AGG_PAYMENT_ORDER order_id
                  [(''payment_order_id'', JInt order_id), (''refund_event_key'', JStr (pe_event_key event))]) (\<lambda>_.
         retT None)
     | Some p \<Rightarrow> withdraw_period p now)"

text \<open>\<open>book_refund\<close> is what \<^verbatim>\<open>_process_refund\<close> does once the event is known to match the order.\<close>

definition book_refund ::
  "PaymentEvent \<Rightarrow> PaymentOrder \<Rightarrow> PaymentAttempt \<Rightarrow> int \<Rightarrow> string \<Rightarrow> time \<Rightarrow> (payment_result \<times> int option) tx" where
  "book_refund event ord att amount cur now =
     bindT (liftT (require (TypeError ''order.id'') (po_id ord))) (\<lambda>order_id.
     bindT (payments_create_provider_transaction order_id (pa_id att) (pe_provider event) ''refund_succeeded''
              (pe_event_key event) ''succeeded'' amount (upper (strip cur)) (pe_payload event)) (\<lambda>_.
     bindT (payments_sum_provider_transactions order_id (pe_provider event) ''refund_succeeded'' ''succeeded'') (\<lambda>cumulative.
     bindT (if cumulative \<ge> minor (po_amount ord) then refund_entitlement event order_id now else retT None) (\<lambda>revoke_id.
     bindT (payments_save_event_entity (PaymentEvent_mark_processed event now)) (\<lambda>_.
     retT (Processed None, revoke_id))))))"

definition process_refund :: "PaymentEvent \<Rightarrow> time \<Rightarrow> (payment_result \<times> int option) tx" where
  "process_refund event now =
     (let reject = (\<lambda>reason. bindT (reject_paid_event event now reason) (\<lambda>r. retT (r, None))) in
      case pe_payment_attempt_id event of
        None \<Rightarrow> reject ''refund has no original payment attempt''
      | Some attempt_id \<Rightarrow>
      bindT (payments_get_attempt_entity attempt_id) (\<lambda>attempt.
      case attempt of
        None \<Rightarrow> reject ''refund original payment attempt is missing''
      | Some att0 \<Rightarrow>
      bindT (payments_get_order_entity (pa_payment_order_id att0)) (\<lambda>order.
      case order of
        None \<Rightarrow> reject ''refund payment order is missing''
      | Some ord \<Rightarrow>
      bindT (payments_get_attempt_entity attempt_id) (\<lambda>attempt'.
      case attempt' of
        None \<Rightarrow> reject ''refund original payment attempt is missing''
      | Some att \<Rightarrow>
      (case (pe_amount_minor event, pe_currency event) of
         (Some amount, Some cur) \<Rightarrow>
           if amount \<le> 0 then reject ''refund amount/currency is missing''
           else if upper (strip cur) \<noteq> currency (po_amount ord) \<or> amount > minor (po_amount ord)
           then reject ''refund amount/currency does not match order''
           else book_refund event ord att amount cur now
       | _ \<Rightarrow> reject ''refund amount/currency is missing'')))))"

datatype resolution = Done payment_result | Context PaymentEvent PaymentOrder "PaymentAttempt option"

definition resolve_paid_context :: "PaymentEvent \<Rightarrow> time \<Rightarrow> resolution tx" where
  "resolve_paid_context event now =
     (let reject = (\<lambda>reason. bindT (reject_paid_event event now reason) (\<lambda>r. retT (Done r))) in
      case pe_payment_attempt_id event of
        None \<Rightarrow> reject ''paid event has no exact payment attempt''
      | Some attempt_id \<Rightarrow>
      bindT (payments_get_attempt_entity attempt_id) (\<lambda>attempt.
      case attempt of
        None \<Rightarrow> reject ''exact payment attempt is missing''
      | Some att \<Rightarrow>
      bindT (payments_get_order_entity (pa_payment_order_id att)) (\<lambda>order.
      case order of
        None \<Rightarrow> reject ''payment order is missing''
      | Some ord \<Rightarrow>
      bindT (payments_get_attempt_entity attempt_id) (\<lambda>attempt'.
      case attempt' of
        None \<Rightarrow> reject ''exact payment attempt is missing''
      | Some att' \<Rightarrow> retT (Context event ord (Some att'))))))"

definition resolve_order_reference :: "PaymentEvent \<Rightarrow> (int option \<times> PaymentAttempt option) tx" where
  "resolve_order_reference event =
     (case pe_payment_attempt_id event of
        None \<Rightarrow> retT (pe_payment_order_id event, None)
      | Some attempt_id \<Rightarrow>
          bindT (payments_get_attempt_entity attempt_id) (\<lambda>attempt.
          retT (case (pe_payment_order_id event, attempt) of
                  (None, Some att) \<Rightarrow> Some (pa_payment_order_id att)
                | (order_id, _) \<Rightarrow> order_id, attempt)))"

definition resolve_unpaid_context :: "PaymentEvent \<Rightarrow> time \<Rightarrow> resolution tx" where
  "resolve_unpaid_context event now =
     bindT (resolve_order_reference event) (\<lambda>(order_id, attempt).
     case order_id of
       None \<Rightarrow> bindT (ignore_event event now) (\<lambda>r. retT (Done r))
     | Some oid \<Rightarrow>
     bindT (payments_get_order_entity oid) (\<lambda>order.
     case order of
       None \<Rightarrow> bindT (ignore_event event now) (\<lambda>r. retT (Done r))
     | Some ord \<Rightarrow>
     bindT (case pe_payment_attempt_id event of None \<Rightarrow> retT attempt | Some i \<Rightarrow> payments_get_attempt_entity i) (\<lambda>attempt.
     bindT (if attempt = None then payments_get_latest_attempt_entity oid else retT attempt) (\<lambda>attempt.
     retT (Context event ord attempt)))))"

definition resolve_context :: "int \<Rightarrow> time \<Rightarrow> resolution tx" where
  "resolve_context payment_event_id now =
     bindT (payments_get_event_entity payment_event_id) (\<lambda>event.
     case event of
       None \<Rightarrow> retT (Done Missing)
     | Some ev \<Rightarrow>
     if pe_status ev \<in> {PES_PROCESSED, PES_IGNORED} then retT (Done (AlreadyDone (pe_status ev)))
     else if PaymentEvent_normalized_payment_status ev = PS_PAID then resolve_paid_context ev now
     else resolve_unpaid_context ev now)"

definition process_resolved :: "resolution \<Rightarrow> time \<Rightarrow> handler_result tx" where
  "process_resolved resolved now =
     (case resolved of
        Done r \<Rightarrow> retT (r, [])
      | Context e order attempt \<Rightarrow>
          (let status = PaymentEvent_normalized_payment_status e in
           if status = PS_PAID
           then bindT (process_paid e order attempt now) (\<lambda>r.
                retT (r, case r of Processed (Some sid) \<Rightarrow> [PROVISION_SUBSCRIPTION sid] | _ \<Rightarrow> []))
           else if status \<in> {PS_FAILED, PS_EXPIRED, PS_CANCELLED}
           then bindT (process_unsuccessful e order attempt status now) (\<lambda>_. retT (Processed None, []))
           else bindT (payments_save_event_entity (PaymentEvent_ignore e now None)) (\<lambda>_. retT (Processed None, []))))"

definition process_payment_tx :: "int \<Rightarrow> time \<Rightarrow> handler_result tx" where
  "process_payment_tx payment_event_id now =
     bindT (payments_get_event_entity payment_event_id) (\<lambda>event.
     case event of
       None \<Rightarrow> retT (Missing, [])
     | Some ev \<Rightarrow>
     if pe_status ev \<in> {PES_PROCESSED, PES_IGNORED} then retT (AlreadyDone (pe_status ev), [])
     else if pe_event_type ev = ''refund.succeeded''
     then bindT (process_refund ev now) (\<lambda>(result, revoke_id).
          retT (result, case revoke_id of None \<Rightarrow> [] | Some i \<Rightarrow> [REVOKE_VPN_CONFIGURATION i EXPIRATION]))
     else bindT (resolve_context payment_event_id now) (\<lambda>resolved. process_resolved resolved now))"

definition ProcessPayment_execute :: "int \<Rightarrow> time \<Rightarrow> db \<Rightarrow> handler_result res \<times> db" where
  "ProcessPayment_execute payment_event_id now = run_uow (process_payment_tx payment_event_id now)"

section \<open>Manual settlement\<close>

datatype admin_result = AlreadyPaid int | ManuallyPaid int int

definition settle_manually :: "int \<Rightarrow> PaymentOrder \<Rightarrow> time \<Rightarrow> (admin_result \<times> job list) tx" where
  "settle_manually payment_order_id order now =
     (let settled = order\<lparr>po_metadata := dict_set ''manual_settlement''
            (JObj [(''settled_at'', JInt now), (''source'', JStr ''admin'')]) (po_metadata order)\<rparr> in
      bindT (liftT (require (TypeError ''order.id'') (po_id settled))) (\<lambda>order_id.
      bindT (settle_order settled order_id now) (\<lambda>sid.
      bindT (audit_append PAYMENT_MANUALLY_SETTLED AGG_PAYMENT_ORDER order_id
               [(''payment_order_id'', JInt order_id), (''subscription_id'', JInt sid)]) (\<lambda>_.
      retT (ManuallyPaid payment_order_id sid, [PROVISION_SUBSCRIPTION sid])))))"

definition mark_payment_order_paid_tx :: "int \<Rightarrow> time \<Rightarrow> (admin_result \<times> job list) tx" where
  "mark_payment_order_paid_tx payment_order_id now =
     bindT (payments_get_order_entity payment_order_id) (\<lambda>order.
     case order of
       None \<Rightarrow> raiseT (NotFoundError ''Order not found'')
     | Some ord \<Rightarrow>
     bindT (liftT (PaymentOrder_mark_paid ord now)) (\<lambda>(changed, ord').
     if \<not> changed then retT (AlreadyPaid payment_order_id, [])
     else settle_manually payment_order_id ord' now))"

definition AdminOperations_mark_payment_order_paid ::
  "int \<Rightarrow> time \<Rightarrow> db \<Rightarrow> (admin_result \<times> job list) res \<times> db" where
  "AdminOperations_mark_payment_order_paid payment_order_id now =
     run_uow (mark_payment_order_paid_tx payment_order_id now)"

end
