(* ===== verification/PayInv.thy ===== *)
theory PayInv
  imports ProcessPay
begin

text \<open>
  The entitlement invariant of the payment side: an order is paid exactly when one subscription period was
  created for it, and every period was created for an order. \<open>pay_inv_except A\<close> is the invariant with the orders in \<open>A\<close> still waiting for their
  period, which is the state between marking an order paid and creating its period.
\<close>

section \<open>The invariant\<close>

definition order_row_ok :: "PaymentOrder \<Rightarrow> bool" where
  "order_row_ok r \<longleftrightarrow> payment_order_from_row r = Inr r"

definition orders_inv :: "PaymentOrder table \<Rightarrow> bool" where
  "orders_inv t \<longleftrightarrow> table_wf po_id t \<and> orders_constraints t \<and> list_all order_row_ok (rows t)"

definition subs_inv :: "Subscription table \<Rightarrow> bool" where
  "subs_inv t \<longleftrightarrow> table_wf su_id t \<and> subs_constraints t \<and> list_all subscription_wf (rows t)"

definition periods_inv :: "SubscriptionPeriod table \<Rightarrow> bool" where
  "periods_inv t \<longleftrightarrow> table_wf sp_id t \<and> periods_constraints t"

definition has_period :: "SubscriptionPeriod table \<Rightarrow> int option \<Rightarrow> bool" where
  "has_period t i \<longleftrightarrow> list_ex (\<lambda>p. sp_payment_order_id p = i) (rows t)"

definition paid_order :: "PaymentOrder table \<Rightarrow> int \<Rightarrow> bool" where
  "paid_order t i \<longleftrightarrow> (case get_row po_id i t of None \<Rightarrow> False | Some r \<Rightarrow> po_status r = PS_PAID)"

definition linked_except :: "int set \<Rightarrow> PaymentOrder table \<Rightarrow> SubscriptionPeriod table \<Rightarrow> bool" where
  "linked_except A orders periods \<longleftrightarrow>
     (\<forall>p \<in> set (rows periods). \<forall>i. sp_payment_order_id p = Some i \<longrightarrow> paid_order orders i \<and> i \<notin> A) \<and>
     (\<forall>i. paid_order orders i \<and> i \<notin> A \<longrightarrow> has_period periods (Some i)) \<and>
     (\<forall>p \<in> set (rows periods). sp_payment_order_id p \<noteq> None)"

definition pay_inv_except :: "int set \<Rightarrow> db \<Rightarrow> bool" where
  "pay_inv_except A s \<longleftrightarrow>
     orders_inv (d_orders s) \<and> table_wf pa_id (d_attempts s) \<and> attempts_constraints (d_attempts s) \<and>
     table_wf pe_id (d_events s) \<and> events_constraints (d_events s) \<and>
     txns_constraints (d_txns s) \<and> subs_inv (d_subs s) \<and> periods_inv (d_periods s) \<and> linked_except A (d_orders s) (d_periods s)"

definition pay_inv :: "db \<Rightarrow> bool" where
  "pay_inv s \<longleftrightarrow> pay_inv_except {} s"

text \<open>Operations that leave the orders alone keep the invariant and any fact about the orders.\<close>

definition keeps :: "int set \<Rightarrow> (PaymentOrder table \<Rightarrow> bool) \<Rightarrow> db \<Rightarrow> bool" where
  "keeps A P s \<longleftrightarrow> pay_inv_except A s \<and> P (d_orders s)"

section \<open>Rows\<close>

lemma order_row_ok_iff:
  "order_row_ok r \<longleftrightarrow> money_wf (po_amount r) \<and> strip (po_provider r) = po_provider r \<and>
     strip (po_idempotency_key r) = po_idempotency_key r \<and> 0 < po_user_id r \<and> 0 < po_tariff_id r \<and>
     po_provider r \<noteq> [] \<and> po_idempotency_key r \<noteq> [] \<and> 0 < minor (po_amount r) \<and> 0 < po_requested_period_days r"
  by (cases r; cases "po_amount r")
     (auto simp: order_row_ok_def payment_order_from_row_def PaymentOrder_post_init_def money_wf_iff
       Money_new_eq_Inr bindE_eq_Inr Let_def)

lemma order_row_ok_status:
  "order_row_ok r \<Longrightarrow> order_row_ok (r\<lparr>po_status := st, po_updated_at := u, po_paid_at := p, po_metadata := m\<rparr>)"
  by (simp add: order_row_ok_iff)

lemma orders_inv_row: "orders_inv t \<Longrightarrow> r \<in> set (rows t) \<Longrightarrow> payment_order_from_row r = Inr r"
  by (simp add: orders_inv_def list_all_iff order_row_ok_def)

lemma get_order_entity:
  assumes "payments_get_order_entity i s = Inr (r, s')" and "orders_inv (d_orders s)"
  shows "s' = s" and "r = get_row po_id i (d_orders s)"
proof -
  show "s' = s" using assms(1)
    by (simp add: payments_get_order_entity_def payments_get_order_def entityT_Inr_iff)
  show "r = get_row po_id i (d_orders s)"
  proof (cases "get_row po_id i (d_orders s)")
    case None
    then show ?thesis using assms(1)
      by (simp add: payments_get_order_entity_def payments_get_order_def entityT_Inr_iff)
  next
    case (Some o1)
    then have "payment_order_from_row o1 = Inr o1"
      using orders_inv_row [OF assms(2)] by (auto dest: get_row_key)
    then show ?thesis using assms(1) Some
      by (simp add: payments_get_order_entity_def payments_get_order_def entityT_Inr_iff)
  qed
qed

lemma order_loads:
  assumes "orders_inv (d_orders s)" and "get_row po_id i (d_orders s) = Some o1"
  shows "payments_get_order_entity i s = Inr (Some o1, s)"
  using orders_inv_row [OF assms(1)] assms(2)
  by (auto simp: payments_get_order_entity_def payments_get_order_def entityT_def dest: get_row_key)

lemma hoare_get_order:
  "hoare (keeps A P) (payments_get_order_entity i)
     (\<lambda>r s. keeps A (\<lambda>t. P t \<and> get_row po_id i t = r) s)"
  by (rule hoareI) (auto simp: keeps_def pay_inv_except_def dest: get_order_entity)

section \<open>Operations that leave the orders alone\<close>

lemma keeps_put_events:
  "table_wf pe_id t \<Longrightarrow> preserves (keeps A P) (put_events t)"
  unfolding put_events_def by (rule preserves_writeT) (simp add: keeps_def pay_inv_except_def)

lemma keeps_put_attempts:
  "table_wf pa_id t \<Longrightarrow> preserves (keeps A P) (put_attempts t)"
  unfolding put_attempts_def by (rule preserves_writeT) (simp add: keeps_def pay_inv_except_def)

lemma keeps_put_subs:
  "table_wf su_id t \<Longrightarrow> list_all subscription_wf (rows t) \<Longrightarrow> preserves (keeps A P) (put_subs t)"
  unfolding put_subs_def by (rule preserves_writeT) (simp add: keeps_def pay_inv_except_def subs_inv_def)

lemma keeps_put_txns: "preserves (keeps A P) (put_txns t)"
  unfolding put_txns_def by (rule preserves_writeT) (simp add: keeps_def pay_inv_except_def)

lemma keeps_put_audit: "preserves (keeps A P) (put_audit t)"
  unfolding put_audit_def by (rule preserves_writeT) (simp add: keeps_def pay_inv_except_def)

lemma keeps_read:
  assumes "\<And>s. keeps A P s \<Longrightarrow> preserves (keeps A P) (f (g s))"
  shows "preserves (keeps A P) (bindT (readT g) f)"
  by (rule preservesI) (metis assms bindT_readT preservesD)

lemma keeps_events_wf: "keeps A P s \<Longrightarrow> table_wf pe_id (d_events s)"
  and keeps_attempts_wf: "keeps A P s \<Longrightarrow> table_wf pa_id (d_attempts s)"
  and keeps_subs: "keeps A P s \<Longrightarrow> subs_inv (d_subs s)"
  and keeps_periods: "keeps A P s \<Longrightarrow> periods_inv (d_periods s)"
  by (simp_all add: keeps_def pay_inv_except_def)

lemma keeps_save_event [preserves_intros]: "preserves (keeps A P) (payments_save_event_entity e)"
proof (cases "pe_id e")
  case (Some i)
  show ?thesis
    unfolding payments_save_event_entity_def Some
    by (simp, rule keeps_read, rule keeps_put_events, rule events_tab.update_row_wf, erule keeps_events_wf) simp
qed (simp add: payments_save_event_entity_def preserves_pure)

lemma keeps_save_attempt [preserves_intros]: "preserves (keeps A P) (payments_save_attempt_entity a)"
proof (cases "pa_id a")
  case (Some i)
  show ?thesis
    unfolding payments_save_attempt_entity_def Some
    by (simp, rule keeps_read, rule keeps_put_attempts, rule attempts_tab.update_row_wf, erule keeps_attempts_wf)
       (auto simp: Let_def split: option.splits)
qed (simp add: payments_save_attempt_entity_def preserves_pure)

lemma keeps_create_transaction [preserves_intros]:
  "preserves (keeps A P) (payments_create_provider_transaction o1 a1 pr ty k st am cu pl)"
  unfolding payments_create_provider_transaction_def
  by (rule keeps_read) (simp add: keeps_put_txns preserves_pure)

lemma keeps_audit [preserves_intros]: "preserves (keeps A P) (audit_append n ty i pl)"
  unfolding audit_append_def by (rule keeps_read) (rule keeps_put_audit)

lemma keeps_reads [preserves_intros]:
  "preserves (keeps A P) (payments_get_event_entity i)"
  "preserves (keeps A P) (payments_get_attempt_entity i)"
  "preserves (keeps A P) (payments_get_latest_attempt_entity i)"
  "preserves (keeps A P) (payments_sum_provider_transactions i a b c)"
  "preserves (keeps A P) (subscriptions_get_entity i)"
  "preserves (keeps A P) (subscriptions_get_active_entity_for_user i)"
  "preserves (keeps A P) (subscriptions_get_last_period_entity i)"
  "preserves (keeps A P) (subscriptions_get_current_period_entity i now)"
  "preserves (keeps A P) (subscriptions_get_period_by_payment_order_id i)"
  "preserves (keeps A P) (subscriptions_has_funded_period_after i now)"
  "preserves (keeps A P) (vpn_get_active_entity_for_subscription i)"
  by (auto simp: preserves_def payments_get_event_entity_def payments_get_attempt_entity_def
      payments_get_latest_attempt_entity_def payments_sum_provider_transactions_def subscriptions_get_entity_def
      subscriptions_get_active_entity_for_user_def subscriptions_get_last_period_entity_def
      subscriptions_get_current_period_entity_def subscriptions_get_period_by_payment_order_id_def
      subscriptions_has_funded_period_after_def vpn_get_active_entity_for_subscription_def entityT_Inr_iff)

section \<open>Subscriptions and periods\<close>

lemma keeps_save_sub:
  assumes "subscription_wf sub"
  shows "preserves (keeps A P) (subscriptions_save_entity sub)"
proof (cases "su_id sub")
  case (Some i)
  let ?f = "\<lambda>r. r\<lparr>su_tariff_id := su_tariff_id sub, su_status := su_status sub, su_ended_at := su_ended_at sub\<rparr>"
  have "preserves (keeps A P) (put_subs (update_row su_id i ?f (d_subs s)))" if "keeps A P s" for s
  proof (rule keeps_put_subs)
    have inv: "subs_inv (d_subs s)" by (rule keeps_subs [OF that])
    then show "table_wf su_id (update_row su_id i ?f (d_subs s))"
      by (intro subs_tab.update_row_wf) (simp_all add: subs_inv_def)
    show "list_all subscription_wf (rows (update_row su_id i ?f (d_subs s)))"
      using inv assms by (intro list_all_update_row) (simp_all add: subscription_wf_iff subs_inv_def)
  qed
  then show ?thesis unfolding subscriptions_save_entity_def Some by (simp add: keeps_read)
qed (simp add: subscriptions_save_entity_def preserves_pure)

lemma keeps_add_sub:
  assumes "subscription_wf sub"
  shows "preserves (keeps A P) (subscriptions_add_entity sub)"
proof -
  let ?w = "\<lambda>i r. r\<lparr>su_id := Some i\<rparr>"
  have "preserves (keeps A P) (put_subs (snd (insert_row ?w (sub\<lparr>su_ended_at := None\<rparr>) (d_subs s))))"
    if "keeps A P s" for s
  proof (rule keeps_put_subs)
    have inv: "subs_inv (d_subs s)" by (rule keeps_subs [OF that])
    then show "table_wf su_id (snd (insert_row ?w (sub\<lparr>su_ended_at := None\<rparr>) (d_subs s)))"
      by (intro subs_tab.insert_row_wf_snd) (simp add: subs_inv_def)
    show "list_all subscription_wf (rows (snd (insert_row ?w (sub\<lparr>su_ended_at := None\<rparr>) (d_subs s))))"
      using inv assms by (simp add: insert_row_def Let_def subs_inv_def subscription_wf_iff)
  qed
  then have "preserves (keeps A P) (bindT (put_subs (snd (insert_row ?w (sub\<lparr>su_ended_at := None\<rparr>) (d_subs s)))) (\<lambda>_. retT y))"
    if "keeps A P s" for s y
    using that by (intro preserves_bindT preserves_pure) auto
  then show ?thesis
    unfolding subscriptions_add_entity_def by (intro keeps_read) (simp add: case_prod_beta Let_def)
qed

lemma has_period_append:
  "rows t' = rows t @ [p] \<Longrightarrow> has_period t' i \<longleftrightarrow> has_period t i \<or> sp_payment_order_id p = i"
  by (auto simp: has_period_def)

lemma hoare_add_period:
  assumes "sp_payment_order_id p = Some i"
  shows "hoare (\<lambda>s. keeps A P s \<and> i \<in> A \<and> paid_order (d_orders s) i) (subscriptions_add_period_entity p)
           (\<lambda>_. keeps (A - {i}) P)"
proof (rule hoareI)
  fix s x s'
  assume pre: "keeps A P s \<and> i \<in> A \<and> paid_order (d_orders s) i"
    and run: "subscriptions_add_period_entity p s = Inr (x, s')"
  define r t where "r = fst (insert_row (\<lambda>i r. r\<lparr>sp_id := Some i\<rparr>) p (d_periods s))"
    and "t = snd (insert_row (\<lambda>i r. r\<lparr>sp_id := Some i\<rparr>) p (d_periods s))"
  have ins: "insert_row (\<lambda>i r. r\<lparr>sp_id := Some i\<rparr>) p (d_periods s) = (r, t)" by (simp add: r_def t_def)
  from run have c: "periods_constraints t" and s': "s' = s\<lparr>d_periods := t\<rparr>"
    by (auto simp: subscriptions_add_period_entity_def ins put_periods_def bindT_Inr writeT_Inr_iff split: option.splits)
  have wf: "table_wf sp_id (d_periods s)" using keeps_periods pre by (auto simp: periods_inv_def)
  have t: "table_wf sp_id t" "rows t = rows (d_periods s) @ [r]" "r = p\<lparr>sp_id := Some (next_id (d_periods s))\<rparr>"
    using periods_tab.insert_row_wf [OF wf ins] periods_tab.insert_row_lookup [OF wf ins] by auto
  have linked: "linked_except A (d_orders s) (d_periods s)" using pre by (simp add: keeps_def pay_inv_except_def)
  have "linked_except (A - {i}) (d_orders s) t"
    using linked pre assms t(2,3) unfolding linked_except_def has_period_append [OF t(2)] by auto
  then show "keeps (A - {i}) P s'"
    using pre c t(1) by (simp add: s' keeps_def pay_inv_except_def periods_inv_def)
qed

lemma subscription_from_row_iff: "subscription_from_row r = Inr y \<longleftrightarrow> subscription_wf r \<and> y = r"
  by (auto simp: subscription_from_row_def subscription_wf_def Subscription_post_init_def bindE_eq_Inr)

lemma hoare_get_active:
  "hoare (keeps A P) (subscriptions_get_active_entity_for_user u)
     (\<lambda>r s. keeps A P s \<and> pred_option subscription_wf r)"
proof (rule hoareI)
  fix s r s'
  assume k: "keeps A P s" and run: "subscriptions_get_active_entity_for_user u s = Inr (r, s')"
  let ?v = "find_row (\<lambda>r. su_user_id r = u \<and> su_status r = SS_ACTIVE) (d_subs s)"
  have e: "entityT subscription_from_row ?v s = Inr (r, s')"
    using run by (simp add: subscriptions_get_active_entity_for_user_def)
  have "pred_option subscription_wf r"
  proof (cases r)
    case (Some a)
    then show ?thesis using entityT_SomeD [of _ ?v s a s'] e subscription_from_row_iff by (metis option.pred_inject(2))
  qed simp
  then show "keeps A P s' \<and> pred_option subscription_wf r" using k entityT_state [OF e] by simp
qed

lemma apply_paid_period_wf:
  assumes r: "apply_paid_period active lp u tid d now = Inr r" and wf: "pred_option subscription_wf active"
  shows "subscription_wf (sa_subscription r) \<and> pred_option subscription_wf (sa_replaced_subscription r)"
proof -
  have ext: "subscription_wf s'" if "Subscription_extend s d now l True None = Inr (s', p)" "subscription_wf s" for s s' l p
    using Subscription_extend_wf [OF that] ..
  have new: "subscription_wf s" if "Subscription_start u tid now = Inr s" for s
    using that by (simp add: Subscription_start_eq_Inr subscription_wf_iff)
  show ?thesis
  proof (cases active)
    case None
    with r show ?thesis using ext new by (auto simp: apply_paid_period_def bindE_eq_Inr)
  next
    case (Some a)
    with r wf show ?thesis
      using ext new Subscription_expire_wf [of a now]
      by (cases "su_tariff_id a = tid") (auto simp: apply_paid_period_def bindE_eq_Inr)
  qed
qed

lemma hoare_persist_activation:
  assumes "subscription_wf (sa_subscription r)" and "pred_option subscription_wf (sa_replaced_subscription r)"
  shows "hoare (\<lambda>s. keeps A P s \<and> i \<in> A \<and> paid_order (d_orders s) i) (persist_activation r (Some i))
           (\<lambda>_. keeps (A - {i}) P)"
proof -
  let ?Q = "\<lambda>t. P t \<and> i \<in> A \<and> paid_order t i"
  have kp: "(\<lambda>s. keeps A P s \<and> i \<in> A \<and> paid_order (d_orders s) i) = keeps A ?Q" by (auto simp: keeps_def)
  show ?thesis
    unfolding persist_activation_def kp
  proof (rule hoare_seq, goal_cases)
    case 1
    show ?case using assms(2) by (cases "sa_replaced_subscription r") (simp_all add: preserves_pure keeps_save_sub)
  next
    case (2 x)
    show ?case
    proof (rule hoare_seq, goal_cases)
      case 1
      show ?case using assms(1) by (auto intro!: preserves_bindT preserves_pure keeps_save_sub keeps_add_sub)
    next
      case (2 sub)
      show ?case
        unfolding kp [symmetric]
        by (rule hoare_bindT [OF hoare_add_period hoare_retT]) simp_all
    qed
  qed
qed

lemma hoare_activate:
  "hoare (\<lambda>s. keeps A P s \<and> i \<in> A \<and> paid_order (d_orders s) i)
     (ActivateSubscription_execute u tid d now (Some i)) (\<lambda>_. keeps (A - {i}) P)"
proof -
  let ?Q = "\<lambda>t. P t \<and> i \<in> A \<and> paid_order t i"
  have kp: "(\<lambda>s. keeps A P s \<and> i \<in> A \<and> paid_order (d_orders s) i) = keeps A ?Q" by (auto simp: keeps_def)
  have pure: "preserves (\<lambda>s. keeps A ?Q s \<and> b) (last_period_of_active active tid)" for active b
    by (auto simp: preserves_def last_period_of_active_def subscriptions_get_last_period_entity_def entityT_Inr_iff
        split: option.splits if_splits)
  show ?thesis
    unfolding ActivateSubscription_execute_def kp
  proof (rule hoare_bindT [OF hoare_get_active], rule hoare_seq [OF pure], rule hoare_pre)
    fix active lp s
    assume "keeps A ?Q s \<and> pred_option subscription_wf active"
    then show "pred_option subscription_wf active" by simp
  next
    fix active lp assume wf: "pred_option subscription_wf active"
    show "hoare (\<lambda>s. keeps A ?Q s \<and> pred_option subscription_wf active)
      (bindT (liftT (apply_paid_period active lp u tid d now)) (\<lambda>activation. persist_activation activation (Some i)))
      (\<lambda>_. keeps (A - {i}) P)"
    proof (rule hoare_bindT [where R = "\<lambda>r s. keeps A ?Q s \<and> apply_paid_period active lp u tid d now = Inr r"])
      show "hoare (\<lambda>s. keeps A ?Q s \<and> pred_option subscription_wf active)
        (liftT (apply_paid_period active lp u tid d now))
        (\<lambda>r s. keeps A ?Q s \<and> apply_paid_period active lp u tid d now = Inr r)"
        by (rule hoare_liftT) blast
      fix r
      have "hoare (keeps A ?Q) (persist_activation r (Some i)) (\<lambda>_. keeps (A - {i}) P)"
        if r: "apply_paid_period active lp u tid d now = Inr r"
        using hoare_persist_activation [of r A P i] apply_paid_period_wf [OF r wf] unfolding kp by blast
      then show "hoare (\<lambda>s. keeps A ?Q s \<and> apply_paid_period active lp u tid d now = Inr r)
        (persist_activation r (Some i)) (\<lambda>_. keeps (A - {i}) P)"
        unfolding hoare_def by blast
    qed
  qed
qed

section \<open>Saving orders\<close>

definition saved_order :: "PaymentOrder \<Rightarrow> time \<Rightarrow> PaymentOrder \<Rightarrow> PaymentOrder" where
  "saved_order ord clock r = r\<lparr>po_status := po_status ord,
     po_updated_at := (case po_updated_at ord of None \<Rightarrow> Some clock | Some u \<Rightarrow> Some u),
     po_paid_at := po_paid_at ord, po_metadata := po_metadata ord\<rparr>"

lemma saved_order_simps [simp]:
  "po_id (saved_order ord c r) = po_id r" "po_status (saved_order ord c r) = po_status ord"
  by (simp_all add: saved_order_def)

lemma paid_order_update:
  "paid_order (update_row po_id i (saved_order ord c) t) j =
     (if j = i then get_row po_id i t \<noteq> None \<and> po_status ord = PS_PAID else paid_order t j)"
  using orders_tab.update_row_lookup [of "saved_order ord c" j i t]
  by (simp add: paid_order_def split: option.splits)

lemma save_order_run:
  assumes "po_id ord = Some i" and "payments_save_order_entity ord s = Inr (x, s')"
  shows "s' = s\<lparr>d_orders := update_row po_id i (saved_order ord (d_clock s)) (d_orders s)\<rparr>"
    and "orders_constraints (update_row po_id i (saved_order ord (d_clock s)) (d_orders s))"
proof -
  have "payments_save_order_entity ord s = put_orders (update_row po_id i (saved_order ord (d_clock s)) (d_orders s)) s"
    by (simp add: payments_save_order_entity_def assms(1) saved_order_def [abs_def])
  then have "put_orders (update_row po_id i (saved_order ord (d_clock s)) (d_orders s)) s = Inr (x, s')"
    using assms(2) by (simp only:)
  then show "s' = s\<lparr>d_orders := update_row po_id i (saved_order ord (d_clock s)) (d_orders s)\<rparr>"
    and "orders_constraints (update_row po_id i (saved_order ord (d_clock s)) (d_orders s))"
    unfolding put_orders_def writeT_Inr_iff by simp_all
qed

lemma save_order_orders_inv:
  assumes "orders_inv t" and "orders_constraints (update_row po_id i (saved_order ord c) t)"
  shows "orders_inv (update_row po_id i (saved_order ord c) t)"
proof -
  have "order_row_ok (saved_order ord c r)" if "order_row_ok r" for r
    using order_row_ok_status [OF that] by (simp add: saved_order_def)
  then have "list_all order_row_ok (rows (update_row po_id i (saved_order ord c) t))"
    using assms(1) by (intro list_all_update_row) (simp_all add: orders_inv_def)
  moreover have "table_wf po_id (update_row po_id i (saved_order ord c) t)"
    using assms(1) by (intro orders_tab.update_row_wf) (simp_all add: orders_inv_def)
  ultimately show ?thesis using assms(2) by (simp add: orders_inv_def)
qed

lemma keeps_save_order:
  assumes "po_id ord = Some i" and "payments_save_order_entity ord s = Inr (x, s')" and "pay_inv s"
    and "linked_except A (update_row po_id i (saved_order ord (d_clock s)) (d_orders s)) (d_periods s)"
  shows "pay_inv_except A s'"
  using save_order_run [OF assms(1,2)] save_order_orders_inv assms(3,4)
  by (simp add: pay_inv_def pay_inv_except_def)

lemma pay_inv_linked:
  assumes "pay_inv s"
  shows "p \<in> set (rows (d_periods s)) \<Longrightarrow> sp_payment_order_id p = Some j \<Longrightarrow> paid_order (d_orders s) j"
    and "paid_order (d_orders s) j \<Longrightarrow> has_period (d_periods s) (Some j)"
    and "p \<in> set (rows (d_periods s)) \<Longrightarrow> sp_payment_order_id p \<noteq> None"
  using assms by (simp_all add: pay_inv_def pay_inv_except_def linked_except_def)

lemma linked_after:
  assumes "pay_inv s" and "\<not> paid_order (d_orders s) i" and "\<And>j. j \<noteq> i \<Longrightarrow> paid_order t j = paid_order (d_orders s) j"
    and "paid_order t i \<Longrightarrow> A = {i}" and "\<not> paid_order t i \<Longrightarrow> A = {}"
  shows "linked_except A t (d_periods s)"
  unfolding linked_except_def
proof (intro conjI ballI allI impI)
  fix p j assume "p \<in> set (rows (d_periods s))" and "sp_payment_order_id p = Some j"
  then have "paid_order (d_orders s) j" by (rule pay_inv_linked(1) [OF assms(1)])
  moreover from this assms(2) have "j \<noteq> i" by metis
  ultimately show "paid_order t j" and "j \<notin> A" using assms(3,4,5) by (metis, metis empty_iff singleton_iff)
next
  fix j assume "paid_order t j \<and> j \<notin> A"
  then have "paid_order (d_orders s) j" using assms(3,4) by (metis singletonI)
  then show "has_period (d_periods s) (Some j)" by (rule pay_inv_linked(2) [OF assms(1)])
qed (rule pay_inv_linked(3) [OF assms(1)])

lemma save_order_paid:
  assumes "po_id ord = Some i" and "po_status ord = PS_PAID" and "payments_save_order_entity ord s = Inr (x, s')"
    and "pay_inv s" and "get_row po_id i (d_orders s) = Some r" and "po_status r \<noteq> PS_PAID"
  shows "pay_inv_except {i} s'" and "paid_order (d_orders s') i"
proof -
  have np: "\<not> paid_order (d_orders s) i" using assms(5,6) by (simp add: paid_order_def)
  have "linked_except {i} (update_row po_id i (saved_order ord (d_clock s)) (d_orders s)) (d_periods s)"
    by (rule linked_after [OF assms(4) np]) (simp_all add: paid_order_update assms(2,5))
  then show "pay_inv_except {i} s'" by (rule keeps_save_order [OF assms(1,3,4)])
  show "paid_order (d_orders s') i"
    using save_order_run(1) [OF assms(1,3)] assms(2,5) by (simp add: paid_order_update)
qed

lemma save_order_unpaid:
  assumes "po_id ord = Some i" and "po_status ord \<noteq> PS_PAID" and "payments_save_order_entity ord s = Inr (x, s')"
    and "pay_inv s" and "get_row po_id i (d_orders s) = Some r" and "po_status r \<noteq> PS_PAID"
  shows "pay_inv s'"
proof -
  have np: "\<not> paid_order (d_orders s) i" using assms(5,6) by (simp add: paid_order_def)
  have "linked_except {} (update_row po_id i (saved_order ord (d_clock s)) (d_orders s)) (d_periods s)"
    by (rule linked_after [OF assms(4) np]) (simp_all add: paid_order_update assms(2))
  then show ?thesis unfolding pay_inv_def by (rule keeps_save_order [OF assms(1,3,4)])
qed

section \<open>Settling\<close>

lemma pay_inv_keeps: "pay_inv s \<longleftrightarrow> keeps {} (\<lambda>_. True) s"
  by (simp add: pay_inv_def keeps_def)

lemma hoare_settle_order:
  assumes "po_id ord = Some i" and "po_status ord = PS_PAID"
  shows "hoare (\<lambda>s. pay_inv s \<and> (\<exists>r. get_row po_id i (d_orders s) = Some r \<and> po_status r \<noteq> PS_PAID))
           (settle_order ord i now) (\<lambda>_. pay_inv)"
  unfolding settle_order_def
proof (rule hoare_bindT [where R = "\<lambda>_ s. keeps {i} (\<lambda>_. True) s \<and> i \<in> {i} \<and> paid_order (d_orders s) i"])
  show "hoare (\<lambda>s. pay_inv s \<and> (\<exists>r. get_row po_id i (d_orders s) = Some r \<and> po_status r \<noteq> PS_PAID))
     (payments_save_order_entity ord) (\<lambda>_ s. keeps {i} (\<lambda>_. True) s \<and> i \<in> {i} \<and> paid_order (d_orders s) i)"
    using save_order_paid [OF assms] unfolding hoare_def keeps_def by blast
  fix x
  show "hoare (\<lambda>s. keeps {i} (\<lambda>_. True) s \<and> i \<in> {i} \<and> paid_order (d_orders s) i)
     (bindT (ActivateSubscription_execute (po_user_id ord) (po_tariff_id ord) (po_requested_period_days ord) now (Some i))
        (\<lambda>activation. case (su_id (sa_subscription activation), sp_id (sa_period activation)) of
           (Some sid, Some pid) \<Rightarrow> bindT (emit_subscription_activated activation sid pid) (\<lambda>_. retT sid)
         | _ \<Rightarrow> raiseT (RuntimeError ''Subscription activation was not persisted'')))
     (\<lambda>_. pay_inv)"
  proof (rule hoare_bindT [OF hoare_activate])
    fix a
    have "preserves (keeps {} (\<lambda>_. True)) (bindT (emit_subscription_activated a sid pid) (\<lambda>_. retT sid))" for sid pid
      unfolding emit_subscription_activated_def by (intro preserves_intros)
    then show "hoare (keeps ({i} - {i}) (\<lambda>_. True))
       (case (su_id (sa_subscription a), sp_id (sa_period a)) of
           (Some sid, Some pid) \<Rightarrow> bindT (emit_subscription_activated a sid pid) (\<lambda>_. retT sid)
         | _ \<Rightarrow> raiseT (RuntimeError ''Subscription activation was not persisted'')) (\<lambda>_. pay_inv)"
      by (cases "su_id (sa_subscription a)"; cases "sp_id (sa_period a)")
         (simp_all add: hoare_raiseT hoare_preserves preserves_pure pay_inv_keeps [abs_def])
  qed
qed

section \<open>Refunds\<close>

lemma linked_except_ids:
  "linked_except A t ps \<longleftrightarrow>
     (\<forall>k \<in> set (map sp_payment_order_id (rows ps)). \<forall>i. k = Some i \<longrightarrow> paid_order t i \<and> i \<notin> A) \<and>
     (\<forall>i. paid_order t i \<and> i \<notin> A \<longrightarrow> Some i \<in> set (map sp_payment_order_id (rows ps))) \<and>
     None \<notin> set (map sp_payment_order_id (rows ps))"
  by (simp add: linked_except_def has_period_def list_ex_iff image_iff eq_commute)

lemma period_ids_unpaid:
  assumes "table_wf sp_id t" and "p \<in> set (rows t)" and "sp_id p = Some i"
  shows "map sp_payment_order_id (rows (update_row sp_id i
           (\<lambda>r. r\<lparr>sp_is_paid := b, sp_payment_order_id := sp_payment_order_id p\<rparr>) t)) = map sp_payment_order_id (rows t)"
proof -
  have "sp_payment_order_id p = sp_payment_order_id r" if "r \<in> set (rows t)" "sp_id r = Some i" for r
    using periods_tab.wf_unique [OF assms(1,2) that(1)] that(2) assms(3) by simp
  then show ?thesis by simp
qed

lemma keeps_save_period:
  assumes "keeps A P s" and "p \<in> set (rows (d_periods s))"
    and run: "subscriptions_save_period_entity (p\<lparr>sp_is_paid := b\<rparr>) s = Inr (x, s')"
  shows "keeps A P s'"
proof -
  have wf: "table_wf sp_id (d_periods s)" using keeps_periods [OF assms(1)] by (simp add: periods_inv_def)
  obtain i where i: "sp_id p = Some i" using periods_tab.wf_row_range [OF wf assms(2)] by blast
  define t where "t = update_row sp_id i (\<lambda>r. r\<lparr>sp_is_paid := b, sp_payment_order_id := sp_payment_order_id p\<rparr>) (d_periods s)"
  have "put_periods t s = Inr (x, s')"
    using run by (simp add: subscriptions_save_period_entity_def i t_def)
  then have c: "periods_constraints t" and s': "s' = s\<lparr>d_periods := t\<rparr>"
    unfolding put_periods_def writeT_Inr_iff by simp_all
  have ids: "map sp_payment_order_id (rows t) = map sp_payment_order_id (rows (d_periods s))"
    unfolding t_def by (rule period_ids_unpaid [OF wf assms(2) i])
  have "table_wf sp_id t" unfolding t_def by (rule periods_tab.update_row_wf [OF wf]) simp
  moreover have "linked_except A (d_orders s) t"
    using assms(1) unfolding keeps_def pay_inv_except_def linked_except_ids ids by simp
  ultimately show ?thesis using assms(1) c by (simp add: s' keeps_def pay_inv_except_def periods_inv_def)
qed

lemma period_loaded:
  assumes "subscriptions_get_period_by_payment_order_id i s = Inr (Some p, s')"
  shows "p \<in> set (rows (d_periods s))" and "s' = s" and "sp_payment_order_id p = Some i"
proof -
  obtain v where v: "find_row (\<lambda>p. sp_payment_order_id p = Some i) (d_periods s) = Some v"
    and p: "subscription_period_from_row v = Inr p" and "s' = s"
    using entityT_SomeD assms unfolding subscriptions_get_period_by_payment_order_id_def bindT_readT by metis
  then show "s' = s" by simp
  have "p = v" using p by (simp add: subscription_period_from_row_def SubscriptionPeriod_post_init_def bindE_eq_Inr)
  then show "p \<in> set (rows (d_periods s))" "sp_payment_order_id p = Some i"
    using find_row_SomeD [OF v] by simp_all
qed

lemma hoare_get_sub:
  "hoare (keeps A P) (subscriptions_get_entity i) (\<lambda>r s. keeps A P s \<and> pred_option subscription_wf r)"
proof (rule hoareI)
  fix s r s' assume k: "keeps A P s" and run: "subscriptions_get_entity i s = Inr (r, s')"
  then have e: "entityT subscription_from_row (get_row su_id i (d_subs s)) s = Inr (r, s')"
    by (simp add: subscriptions_get_entity_def)
  have "pred_option subscription_wf r"
  proof (cases r)
    case (Some a)
    then show ?thesis using entityT_SomeD e subscription_from_row_iff by (metis option.pred_inject(2))
  qed simp
  then show "keeps A P s' \<and> pred_option subscription_wf r" using k entityT_state [OF e] by simp
qed

lemma keeps_expire_if_unfunded:
  "pred_option subscription_wf sub \<Longrightarrow> preserves (keeps A P) (expire_if_unfunded sub sid now)"
  unfolding expire_if_unfunded_def
  by (cases sub) (simp_all add: preserves_pure, intro preserves_intros keeps_save_sub Subscription_expire_wf)

lemma keeps_vpn_to_revoke [preserves_intros]: "preserves (keeps A P) (vpn_to_revoke sid now)"
  unfolding vpn_to_revoke_def by (intro preserves_intros)

lemma keeps_withdraw_tail:
  "preserves (keeps A P) (bindT (subscriptions_get_entity sid) (\<lambda>sub.
     bindT (vpn_to_revoke sid now) (\<lambda>revoke_id. bindT (expire_if_unfunded sub sid now) (\<lambda>_. retT revoke_id))))"
  unfolding hoare_preserves [symmetric]
proof (rule hoare_bindT [OF hoare_get_sub])
  fix sub
  have "preserves (keeps A P) (bindT (vpn_to_revoke sid now) (\<lambda>revoke_id.
      bindT (expire_if_unfunded sub sid now) (\<lambda>_. retT revoke_id)))" if "pred_option subscription_wf sub"
    using that by (intro preserves_intros keeps_expire_if_unfunded)
  then show "hoare (\<lambda>s. keeps A P s \<and> pred_option subscription_wf sub)
      (bindT (vpn_to_revoke sid now) (\<lambda>revoke_id. bindT (expire_if_unfunded sub sid now) (\<lambda>_. retT revoke_id))) (\<lambda>_. keeps A P)"
    unfolding hoare_def preserves_def by blast
qed

lemma hoare_withdraw_period:
  "hoare (\<lambda>s. keeps A P s \<and> p \<in> set (rows (d_periods s))) (withdraw_period p now) (\<lambda>_. keeps A P)"
  unfolding withdraw_period_def
proof (rule hoare_bindT [where R = "\<lambda>_. keeps A P"])
  show "hoare (\<lambda>s. keeps A P s \<and> p \<in> set (rows (d_periods s)))
     (subscriptions_save_period_entity (p\<lparr>sp_is_paid := False\<rparr>)) (\<lambda>_. keeps A P)"
    using keeps_save_period unfolding hoare_def by blast
qed (unfold hoare_preserves, intro preserves_bindT keeps_withdraw_tail preserves_pure)

lemma keeps_refund_entitlement [preserves_intros]: "preserves (keeps A P) (refund_entitlement e i now)"
  unfolding refund_entitlement_def hoare_preserves [symmetric]
proof (rule hoare_bindT [where R = "\<lambda>r s. keeps A P s \<and> (\<forall>p. r = Some p \<longrightarrow> p \<in> set (rows (d_periods s)))"])
  show "hoare (keeps A P) (subscriptions_get_period_by_payment_order_id i)
     (\<lambda>r s. keeps A P s \<and> (\<forall>p. r = Some p \<longrightarrow> p \<in> set (rows (d_periods s))))"
    using period_loaded preservesD [OF keeps_reads(9)] unfolding hoare_def by metis
  fix r :: "SubscriptionPeriod option"
  show "hoare (\<lambda>s. keeps A P s \<and> (\<forall>p. r = Some p \<longrightarrow> p \<in> set (rows (d_periods s))))
     (case r of None \<Rightarrow> bindT (audit_append REFUND_ENTITLEMENT_RECONCILIATION_REQUIRED AGG_PAYMENT_ORDER i
          [(''payment_order_id'', JInt i), (''refund_event_key'', JStr (pe_event_key e))]) (\<lambda>_. retT None)
      | Some p \<Rightarrow> withdraw_period p now) (\<lambda>_. keeps A P)"
  proof (cases r)
    case None
    have "preserves (keeps A P) (bindT (audit_append REFUND_ENTITLEMENT_RECONCILIATION_REQUIRED AGG_PAYMENT_ORDER i
          [(''payment_order_id'', JInt i), (''refund_event_key'', JStr (pe_event_key e))]) (\<lambda>_. retT None))"
      by (intro preserves_intros)
    then show ?thesis by (simp add: None hoare_preserves)
  next
    case (Some p)
    show ?thesis unfolding Some using hoare_withdraw_period by simp
  qed
qed

end
