(* ===== verification/Settlement.thy ===== *)
theory Settlement
  imports PayInv
begin

text \<open>
  The payment handlers keep the entitlement invariant, and what they do on each kind of event.
\<close>

section \<open>The order a handler holds is the stored one\<close>

definition order_current :: "PaymentOrder table \<Rightarrow> PaymentOrder \<Rightarrow> bool" where
  "order_current t ord \<longleftrightarrow> (case po_id ord of None \<Rightarrow> False | Some i \<Rightarrow> get_row po_id i t = Some ord)"

definition resolution_ok :: "resolution \<Rightarrow> PaymentOrder table \<Rightarrow> bool" where
  "resolution_ok r t \<longleftrightarrow> (case r of Done _ \<Rightarrow> True | Context e ord att \<Rightarrow> order_current t ord)"

lemma resolution_ok_simps [simp]: "resolution_ok (Done x) t" "resolution_ok (Context e ord att) t = order_current t ord"
  by (simp_all add: resolution_ok_def)

lemma order_currentI: "get_row po_id i t = Some ord \<Longrightarrow> order_current t ord"
  using get_row_key [of po_id i t ord] by (simp add: order_current_def)

lemma order_current_id: "order_current t ord \<Longrightarrow> \<exists>i. po_id ord = Some i \<and> get_row po_id i t = Some ord"
  by (auto simp: order_current_def split: option.splits)

lemma keeps_get_order [preserves_intros]: "preserves (keeps A P) (payments_get_order_entity i)"
  using hoare_get_order [of A P i] unfolding hoare_preserves [symmetric]
  by (rule hoare_weaken) (simp_all add: keeps_def)

lemma hoare_load_order:
  assumes "\<And>ord. f (Some ord) = g ord" and "hoare (keeps A (\<lambda>t. True)) (f None) Q"
    and "\<And>ord. hoare (keeps A (\<lambda>t. order_current t ord)) (g ord) Q"
  shows "hoare (keeps A (\<lambda>_. True)) (bindT (payments_get_order_entity i) f) Q"
proof (rule hoare_bindT [OF hoare_get_order])
  fix r
  show "hoare (keeps A (\<lambda>t. True \<and> get_row po_id i t = r)) (f r) Q"
  proof (cases r)
    case None
    show ?thesis using assms(2) unfolding None by (rule hoare_weaken) (simp_all add: keeps_def)
  next
    case (Some ord)
    show ?thesis using assms(3) [of ord] unfolding Some assms(1)
      by (rule hoare_weaken) (auto simp: keeps_def intro: order_currentI)
  qed
qed

lemma hoare_keeps_ret: "(\<And>s. keeps A P s \<Longrightarrow> Q x (d_orders s)) \<Longrightarrow> hoare (keeps A P) (retT x) (\<lambda>r. keeps A (Q r))"
  by (rule hoare_retT) (simp add: keeps_def)

lemma hoare_keeps_done:
  assumes "preserves (keeps A P) m"
  shows "hoare (keeps A P) (bindT m (\<lambda>r. retT (Done (f r)))) (\<lambda>r. keeps A (resolution_ok r))"
  by (rule hoare_seq [OF assms], rule hoare_keeps_ret) simp

lemma keeps_reject [preserves_intros]: "preserves (keeps A P) (reject_paid_event ev now reason)"
  unfolding reject_paid_event_def by (intro preserves_intros)

lemma keeps_ignore [preserves_intros]: "preserves (keeps A P) (ignore_event ev now)"
  unfolding ignore_event_def by (intro preserves_intros)

lemma keeps_resolve_reference [preserves_intros]: "preserves (keeps A P) (resolve_order_reference ev)"
  unfolding resolve_order_reference_def by (intro preserves_intros)

lemma hoare_keeps_option:
  assumes "hoare P m Q" and "\<And>v. hoare P (f v) Q"
  shows "hoare P (case x of None \<Rightarrow> m | Some v \<Rightarrow> f v) Q"
  using assms by (cases x) simp_all

lemma hoare_resolve_paid:
  "hoare (keeps A (\<lambda>_. True)) (resolve_paid_context ev now) (\<lambda>r. keeps A (resolution_ok r))"
proof -
  have rej: "hoare (keeps A P) (bindT (reject_paid_event ev now reason) (\<lambda>r. retT (Done r))) (\<lambda>r. keeps A (resolution_ok r))"
    for P reason by (rule hoare_keeps_done) (rule keeps_reject)
  show ?thesis
    unfolding resolve_paid_context_def Let_def
  proof (rule hoare_keeps_option [OF rej], rule hoare_seq [OF keeps_reads(2)], rule hoare_keeps_option [OF rej],
      rule hoare_load_order)
    fix aid att ord
    show "hoare (keeps A (\<lambda>t. order_current t ord))
        (bindT (payments_get_attempt_entity aid) (\<lambda>attempt'. case attempt' of
           None \<Rightarrow> bindT (reject_paid_event ev now ''exact payment attempt is missing'') (\<lambda>r. retT (Done r))
         | Some att' \<Rightarrow> retT (Context ev ord (Some att')))) (\<lambda>r. keeps A (resolution_ok r))"
      by (rule hoare_seq [OF keeps_reads(2)], rule hoare_keeps_option [OF rej], rule hoare_keeps_ret) (simp add: keeps_def)
  qed (simp_all add: rej)
qed

lemma hoare_resolve_context:
  "hoare (keeps A (\<lambda>_. True)) (resolve_context i now) (\<lambda>r. keeps A (resolution_ok r))"
proof -
  have ign: "hoare (keeps A P) (bindT (ignore_event ev now) (\<lambda>r. retT (Done r))) (\<lambda>r. keeps A (resolution_ok r))"
    for P ev by (rule hoare_keeps_done) (rule keeps_ignore)
  have dn: "hoare (keeps A P) (retT (Done x)) (\<lambda>r. keeps A (resolution_ok r))" for P x
    by (rule hoare_keeps_ret) simp
  have load: "hoare (keeps A (\<lambda>t. order_current t ord))
     (bindT (case pe_payment_attempt_id ev of None \<Rightarrow> retT attempt | Some i \<Rightarrow> payments_get_attempt_entity i) (\<lambda>attempt.
       bindT (if attempt = None then payments_get_latest_attempt_entity oid else retT attempt) (\<lambda>attempt.
       retT (Context ev ord attempt)))) (\<lambda>r. keeps A (resolution_ok r))" for ord ev attempt oid
  proof (rule hoare_seq, goal_cases)
    case 1
    show ?case by (intro preserves_intros)
  next
    case (2 att)
    show ?case
    proof (rule hoare_seq, goal_cases)
      case 1
      show ?case by (intro preserves_intros)
    qed (rule hoare_keeps_ret, simp add: keeps_def)
  qed
  have other: "hoare (keeps A (\<lambda>_. True)) (resolve_unpaid_context ev now) (\<lambda>r. keeps A (resolution_ok r))" for ev
    unfolding resolve_unpaid_context_def
    by (rule hoare_seq [OF keeps_resolve_reference], simp only: case_prod_beta, rule hoare_keeps_option [OF ign], rule hoare_load_order)
       (simp, simp add: ign, rule load)
  show ?thesis
    unfolding resolve_context_def
    by (rule hoare_seq [OF keeps_reads(1)], rule hoare_keeps_option [OF dn])
       (simp add: dn hoare_resolve_paid other del: insert_iff)
qed

section \<open>The handlers keep the invariant\<close>

lemma mark_paid_changed:
  "PaymentOrder_mark_paid ord now = Inr (True, ord') \<Longrightarrow>
     po_status ord \<noteq> PS_PAID \<and> po_id ord' = po_id ord \<and> po_status ord' = PS_PAID"
  by (auto simp: PaymentOrder_mark_paid_def split: if_splits)

lemma external_status_changed:
  "PaymentOrder_apply_external_status ord st now = Inr (True, ord') \<Longrightarrow> st \<noteq> PS_PAID \<Longrightarrow>
     po_status ord \<noteq> PS_PAID \<and> po_id ord' = po_id ord \<and> po_status ord' \<noteq> PS_PAID"
  by (auto simp: PaymentOrder_apply_external_status_def PaymentOrder_finish_def PaymentOrder_cancel_def
      PaymentOrder_fail_def PaymentOrder_expire_def split: if_splits)

lemma external_status_id:
  "PaymentOrder_apply_external_status ord st now = Inr (b, ord') \<Longrightarrow> po_id ord' = po_id ord"
  by (auto simp: PaymentOrder_apply_external_status_def PaymentOrder_finish_def PaymentOrder_cancel_def
      PaymentOrder_fail_def PaymentOrder_expire_def PaymentOrder_mark_paid_def split: if_splits)

lemma keeps_pay_inv: "keeps {} P s \<Longrightarrow> pay_inv s"
  by (simp add: keeps_def pay_inv_def)

lemma preserves_pay_inv: "preserves (keeps {} (\<lambda>_. True)) m \<Longrightarrow> hoare (keeps {} P) m (\<lambda>_. pay_inv)"
  unfolding hoare_def preserves_def using keeps_pay_inv pay_inv_keeps by metis

lemma hoare_settle_current:
  assumes "po_id ord = Some i" and "PaymentOrder_mark_paid ord now = Inr (True, ord')" and "po_status ord2 = PS_PAID"
    and "po_id ord2 = Some i"
  shows "hoare (keeps {} (\<lambda>t. order_current t ord)) (settle_order ord2 i now') (\<lambda>_. pay_inv)"
proof (rule hoare_weaken [OF hoare_settle_order [OF assms(4,3)]])
  fix s assume "keeps {} (\<lambda>t. order_current t ord) s"
  then have "pay_inv s" and "get_row po_id i (d_orders s) = Some ord"
    using assms(1) by (simp_all add: keeps_def pay_inv_def order_current_def)
  then show "pay_inv s \<and> (\<exists>r. get_row po_id i (d_orders s) = Some r \<and> po_status r \<noteq> PS_PAID)"
    using mark_paid_changed [OF assms(2)] by simp
qed

lemma hoare_settle_if_changed:
  assumes "po_id ord = Some i" and "PaymentOrder_mark_paid ord now = Inr (changed, ord')"
  shows "hoare (keeps {} (\<lambda>t. order_current t ord))
     (if changed then bindT (settle_order ord' i now) (\<lambda>sid. retT (Some sid)) else retT None) (\<lambda>_. pay_inv)"
proof (cases changed)
  case True
  have m: "PaymentOrder_mark_paid ord now = Inr (True, ord')" using assms(2) True by simp
  have "hoare (keeps {} (\<lambda>t. order_current t ord)) (settle_order ord' i now) (\<lambda>_. pay_inv)"
    using mark_paid_changed [OF m] assms(1) by (intro hoare_settle_current [OF assms(1) m]) simp_all
  then have "hoare (keeps {} (\<lambda>t. order_current t ord)) (bindT (settle_order ord' i now) (\<lambda>sid. retT (Some sid))) (\<lambda>_. pay_inv)"
    by (rule hoare_bindT) (simp add: hoare_retT)
  then show ?thesis using True by simp
qed (simp add: hoare_retT keeps_pay_inv)

lemma hoare_book_paid:
  assumes "po_id ord = Some i"
  shows "hoare (keeps {} (\<lambda>t. order_current t ord)) (book_paid ev ord i att amount cur now) (\<lambda>_. pay_inv)"
  unfolding book_paid_def
proof (rule hoare_seq [OF keeps_save_attempt],
    rule hoare_bindT [where R = "\<lambda>x s. keeps {} (\<lambda>t. order_current t ord) s \<and> PaymentOrder_mark_paid ord now = Inr x"])
  show "hoare (keeps {} (\<lambda>t. order_current t ord)) (liftT (PaymentOrder_mark_paid ord now))
     (\<lambda>x s. keeps {} (\<lambda>t. order_current t ord) s \<and> PaymentOrder_mark_paid ord now = Inr x)"
    by (rule hoare_liftT) simp
next
  fix x :: "bool \<times> PaymentOrder"
  obtain c o2 where x: "x = (c, o2)" by (cases x)
  have fin: "hoare pay_inv (bindT (payments_create_provider_transaction i (pa_id att) (pe_provider ev) ''payment_paid''
      (pe_event_key ev) ''paid'' amount (upper (strip cur)) (pe_payload ev)) (\<lambda>_.
      bindT (payments_save_event_entity (PaymentEvent_mark_processed ev now)) (\<lambda>_. retT (Processed sid)))) (\<lambda>_. pay_inv)" for sid
    unfolding pay_inv_keeps [abs_def] hoare_preserves by (intro preserves_intros)
  show "hoare (\<lambda>s. keeps {} (\<lambda>t. order_current t ord) s \<and> PaymentOrder_mark_paid ord now = Inr x)
     (case x of (changed, order') \<Rightarrow>
      bindT (if changed then bindT (settle_order order' i now) (\<lambda>sid. retT (Some sid)) else retT None) (\<lambda>subscription_id.
      bindT (payments_create_provider_transaction i (pa_id att) (pe_provider ev) ''payment_paid''
                    (pe_event_key ev) ''paid'' amount (upper (strip cur)) (pe_payload ev)) (\<lambda>_.
      bindT (payments_save_event_entity (PaymentEvent_mark_processed ev now)) (\<lambda>_.
      retT (Processed subscription_id))))) (\<lambda>_. pay_inv)"
    unfolding x prod.case
  proof (rule hoare_bindT [OF _ fin])
    show "hoare (\<lambda>s. keeps {} (\<lambda>t. order_current t ord) s \<and> PaymentOrder_mark_paid ord now = Inr (c, o2))
       (if c then bindT (settle_order o2 i now) (\<lambda>sid. retT (Some sid)) else retT None) (\<lambda>_. pay_inv)"
      using hoare_settle_if_changed [OF assms] unfolding hoare_def by blast
  qed
qed

lemma hoare_process_paid:
  "hoare (keeps {} (\<lambda>t. order_current t ord)) (process_paid ev ord att now) (\<lambda>_. pay_inv)"
proof -
  have rej: "hoare (keeps {} P) (reject_paid_event ev now reason) (\<lambda>_. pay_inv)" for P reason
    by (rule preserves_pay_inv) (rule keeps_reject)
  have stale: "hoare (keeps {} P) (bindT (payments_save_event_entity e) (\<lambda>_. retT Ignored)) (\<lambda>_. pay_inv)" for P e
    by (rule preserves_pay_inv) (intro preserves_intros)
  show ?thesis
  proof (cases "validate_paid_settlement ev att ord")
    case (Inl e)
    show ?thesis unfolding process_paid_def Inl sum.case by (rule rej)
  next
    case (Inr u)
    show ?thesis
      unfolding process_paid_def Inr sum.case
      by (cases att; cases "po_id ord"; cases "pe_amount_minor ev"; cases "pe_currency ev")
         (simp_all add: hoare_raiseT case_prod_beta Let_def stale hoare_book_paid)
  qed
qed

lemma hoare_save_unpaid:
  assumes "PaymentOrder_apply_external_status ord st now = Inr (changed, ord')" and "st \<noteq> PS_PAID"
  shows "hoare (keeps {} (\<lambda>t. order_current t ord)) (if changed then payments_save_order_entity ord' else retT ())
           (\<lambda>_. pay_inv)"
proof (cases changed)
  case True
  then have m: "PaymentOrder_apply_external_status ord st now = Inr (True, ord')" using assms(1) by simp
  have "hoare (keeps {} (\<lambda>t. order_current t ord)) (payments_save_order_entity ord') (\<lambda>_. pay_inv)"
  proof (rule hoareI)
    fix s x s' assume k: "keeps {} (\<lambda>t. order_current t ord) s" and run: "payments_save_order_entity ord' s = Inr (x, s')"
    then obtain i where i: "po_id ord = Some i" "get_row po_id i (d_orders s) = Some ord"
      using order_current_id unfolding keeps_def by blast
    show "pay_inv s'"
      using external_status_changed [OF m assms(2)] i(1)
      by (intro save_order_unpaid [OF _ _ run keeps_pay_inv [OF k] i(2)]) simp_all
  qed
  then show ?thesis using True by simp
qed (simp add: hoare_retT keeps_pay_inv)

lemma hoare_finish_unsuccessful:
  assumes "st \<noteq> PS_PAID"
  shows "hoare (keeps {} (\<lambda>t. order_current t ord)) (finish_unsuccessful ev ord st now) (\<lambda>_. pay_inv)"
  unfolding finish_unsuccessful_def
proof (rule hoare_bindT [where R = "\<lambda>x s. keeps {} (\<lambda>t. order_current t ord) s \<and>
    PaymentOrder_apply_external_status ord st now = Inr x"])
  show "hoare (keeps {} (\<lambda>t. order_current t ord)) (liftT (PaymentOrder_apply_external_status ord st now))
     (\<lambda>x s. keeps {} (\<lambda>t. order_current t ord) s \<and> PaymentOrder_apply_external_status ord st now = Inr x)"
    by (rule hoare_liftT) simp
next
  fix x :: "bool \<times> PaymentOrder"
  obtain c o2 where x: "x = (c, o2)" by (cases x)
  have fin: "hoare pay_inv (bindT (liftT (audit_name_of_status st)) (\<lambda>name.
     bindT (liftT (require (TypeError ''order.id'') (po_id o2))) (\<lambda>order_id.
     bindT (audit_append name AGG_PAYMENT_ORDER order_id
              [(''payment_order_id'', JInt order_id), (''status'', JStr (PaymentStatus_value st))]) (\<lambda>_.
     payments_save_event_entity (PaymentEvent_mark_processed ev now))))) (\<lambda>_. pay_inv)"
    unfolding pay_inv_keeps [abs_def] hoare_preserves by (intro preserves_intros)
  have "hoare (\<lambda>s. keeps {} (\<lambda>t. order_current t ord) s \<and> PaymentOrder_apply_external_status ord st now = Inr (c, o2))
       (if c then payments_save_order_entity o2 else retT ()) (\<lambda>_. pay_inv)"
    using hoare_save_unpaid [OF _ assms] unfolding hoare_def by blast
  from hoare_bindT [OF this fin]
  show "hoare (\<lambda>s. keeps {} (\<lambda>t. order_current t ord) s \<and> PaymentOrder_apply_external_status ord st now = Inr x)
     (case x of (changed, order') \<Rightarrow>
      bindT (if changed then payments_save_order_entity order' else retT ()) (\<lambda>_.
      bindT (liftT (audit_name_of_status st)) (\<lambda>name.
      bindT (liftT (require (TypeError ''order.id'') (po_id order'))) (\<lambda>order_id.
      bindT (audit_append name AGG_PAYMENT_ORDER order_id
               [(''payment_order_id'', JInt order_id), (''status'', JStr (PaymentStatus_value st))]) (\<lambda>_.
      payments_save_event_entity (PaymentEvent_mark_processed ev now)))))) (\<lambda>_. pay_inv)"
    by (simp only: x prod.case)
qed

lemma hoare_process_unsuccessful:
  assumes "st \<noteq> PS_PAID"
  shows "hoare (keeps {} (\<lambda>t. order_current t ord)) (process_unsuccessful ev ord att st now) (\<lambda>_. pay_inv)"
proof -
  have stale: "hoare (keeps {} P) (payments_save_event_entity e) (\<lambda>_. pay_inv)" for P e
    by (rule preserves_pay_inv) (rule keeps_save_event)
  have fin: "hoare (keeps {} (\<lambda>t. order_current t ord))
      (bindT (payments_save_attempt_entity a) (\<lambda>_. finish_unsuccessful ev ord st now)) (\<lambda>_. pay_inv)" for a
    by (rule hoare_seq [OF keeps_save_attempt hoare_finish_unsuccessful [OF assms]])
  show ?thesis
    by (cases att) (simp_all add: process_unsuccessful_def case_prod_beta Let_def stale fin hoare_finish_unsuccessful assms)
qed

lemma keeps_process_refund [preserves_intros]: "preserves (keeps A P) (process_refund ev now)"
  unfolding process_refund_def book_refund_def Let_def by (intro preserves_intros)

lemma hoare_process_resolved: "hoare (keeps {} (resolution_ok r)) (process_resolved r now) (\<lambda>_. pay_inv)"
proof (cases r)
  case (Done x)
  then show ?thesis by (simp add: process_resolved_def hoare_retT keeps_pay_inv)
next
  case (Context e order attempt)
  let ?K = "keeps {} (\<lambda>t. order_current t order)"
  have rk: "resolution_ok (Context e order attempt) = (\<lambda>t. order_current t order)" by (rule ext) simp
  have paid: "hoare ?K (bindT (process_paid e order attempt now) (\<lambda>r. retT (f r))) (\<lambda>_. pay_inv)" for f :: "payment_result \<Rightarrow> handler_result"
    by (rule hoare_bindT [OF hoare_process_paid]) (simp add: hoare_retT)
  have unp: "hoare ?K (bindT (process_unsuccessful e order attempt st now) (\<lambda>_. retT x)) (\<lambda>_. pay_inv)"
    if "st \<noteq> PS_PAID" for st and x :: handler_result
    by (rule hoare_bindT [OF hoare_process_unsuccessful [OF that]]) (simp add: hoare_retT)
  have ign: "hoare ?K (bindT (payments_save_event_entity e') (\<lambda>_. retT x)) (\<lambda>_. pay_inv)" for e' and x :: handler_result
    by (rule preserves_pay_inv) (intro preserves_intros)
  show ?thesis
    by (cases "PaymentEvent_normalized_payment_status e")
       (simp_all add: Context process_resolved_def rk paid unp ign)
qed

lemma pay_inv_process_payment: "preserves pay_inv (process_payment_tx i now)"
proof -
  have refund: "preserves pay_inv (bindT (process_refund ev now) (\<lambda>(result, revoke_id).
          retT (result, case revoke_id of None \<Rightarrow> [] | Some i \<Rightarrow> [REVOKE_VPN_CONFIGURATION i EXPIRATION])))" for ev
    unfolding pay_inv_keeps [abs_def] by (intro preserves_intros)
  have "hoare (keeps {} (\<lambda>_. True)) (bindT (resolve_context i now) (\<lambda>r. process_resolved r now)) (\<lambda>_. pay_inv)"
    by (rule hoare_bindT [OF hoare_resolve_context hoare_process_resolved])
  then have other: "preserves pay_inv (bindT (resolve_context i now) (\<lambda>r. process_resolved r now))"
    unfolding hoare_preserves [symmetric] pay_inv_keeps [abs_def] .
  have ev: "preserves pay_inv (payments_get_event_entity i)"
    using keeps_reads(1) unfolding pay_inv_keeps [abs_def] .
  show ?thesis
    unfolding process_payment_tx_def by (intro preserves_bindT ev preserves_option preserves_if refund other preserves_pure)
qed

lemma hoare_settle_manually:
  assumes m: "PaymentOrder_mark_paid ord now = Inr (True, ord')"
  shows "hoare (keeps {} (\<lambda>t. order_current t ord)) (settle_manually i ord' now') (\<lambda>_. pay_inv)"
proof (cases "po_id ord")
  case None
  then show ?thesis using mark_paid_changed [OF m] by (simp add: settle_manually_def hoare_raiseT)
next
  case (Some oid)
  have fin: "hoare pay_inv (bindT (audit_append PAYMENT_MANUALLY_SETTLED AGG_PAYMENT_ORDER oid
      [(''payment_order_id'', JInt oid), (''subscription_id'', JInt sid)]) (\<lambda>_.
      retT (ManuallyPaid i sid, [PROVISION_SUBSCRIPTION sid]))) (\<lambda>_. pay_inv)" for sid
    unfolding pay_inv_keeps [abs_def] hoare_preserves by (intro preserves_intros)
  show ?thesis
    using mark_paid_changed [OF m] Some
    by (simp add: settle_manually_def Let_def, intro hoare_bindT [OF hoare_settle_current [OF Some m] fin]) simp_all
qed

lemma pay_inv_mark_paid: "preserves pay_inv (mark_payment_order_paid_tx i now)"
proof -
  have step: "hoare (keeps {} (\<lambda>t. order_current t ord)) (bindT (liftT (PaymentOrder_mark_paid ord now)) (\<lambda>(changed, ord').
     if \<not> changed then retT (AlreadyPaid i, []) else settle_manually i ord' now)) (\<lambda>_. pay_inv)" for ord
    by (cases "PaymentOrder_mark_paid ord now")
       (auto simp: hoare_raiseT hoare_retT keeps_pay_inv hoare_settle_manually)
  show ?thesis
    unfolding mark_payment_order_paid_tx_def hoare_preserves [symmetric]
    by (subst pay_inv_keeps [abs_def], rule hoare_load_order) (simp, simp add: hoare_raiseT, rule step)
qed

end
