(* ===== verification/SettleLive.thy ===== *)
theory SettleLive
  imports Settlement
begin

text \<open>
  Progress of settlement: in a database that satisfies the invariant, a valid paid event is not only handled
  safely when the handler returns, the handler does return, because no constraint of the schema can be violated
  on the way.
\<close>

section \<open>Constraints after updates\<close>

lemma distinct_filter_map:
  assumes "\<And>x. x \<in> set xs \<Longrightarrow> f (g x) = f x" and "\<And>x. x \<in> set xs \<Longrightarrow> P (g x) \<Longrightarrow> P x"
    and "distinct (map f (filter P xs))"
  shows "distinct (map f (filter P (map g xs)))"
  using assms
proof (induction xs)
  case (Cons x xs)
  have sub: "f ` set (filter P (map g xs)) \<subseteq> f ` set (filter P xs)"
  proof
    fix y assume "y \<in> f ` set (filter P (map g xs))"
    then obtain z where "z \<in> set xs" "P (g z)" "y = f (g z)" by auto
    then show "y \<in> f ` set (filter P xs)" using Cons.prems(1,2) [of z] by auto
  qed
  have IH: "distinct (map f (filter P (map g xs)))"
    using Cons.prems by (intro Cons.IH) (auto split: if_splits)
  show ?case
  proof (cases "P (g x)")
    case True
    then have "P x" and "f (g x) = f x" using Cons.prems(1,2) [of x] by simp_all
    then have "f (g x) \<notin> f ` set (filter P (map g xs))" using Cons.prems(3) sub by auto
    then show ?thesis using True IH by simp
  qed (use IH in simp)
qed simp

lemma save_order_ok:
  assumes inv: "orders_inv (d_orders s)" and id: "po_id ord = Some i" and st: "po_status ord = PS_PAID"
  shows "payments_save_order_entity ord s =
    Inr ((), s\<lparr>d_orders := update_row po_id i (saved_order ord (d_clock s)) (d_orders s)\<rparr>)"
proof -
  let ?g = "saved_order ord (d_clock s)" and ?t = "d_orders s"
  have c: "list_all order_check (rows ?t)" and d: "distinct (map po_idempotency_key (rows ?t))"
    using inv by (simp_all add: orders_inv_def orders_constraints_def)
  have "list_all order_check (rows (update_row po_id i ?g ?t))"
    using c st by (intro list_all_update_row) (simp_all add: order_check_def saved_order_def)
  moreover have "map po_idempotency_key (rows (update_row po_id i ?g ?t)) = map po_idempotency_key (rows ?t)"
    by (simp add: saved_order_def)
  ultimately have "orders_constraints (update_row po_id i ?g ?t)" using d by (simp only: orders_constraints_def)
  then show ?thesis
    by (simp add: payments_save_order_entity_def id put_orders_def saved_order_def [abs_def])
qed

lemma save_event_ok:
  assumes "events_constraints (d_events s)" and "pe_id e = Some i"
  shows "payments_save_event_entity e s = Inr ((), s\<lparr>d_events := update_row pe_id i
    (\<lambda>r. r\<lparr>pe_status := pe_status e, pe_error_message := pe_error_message e,
           pe_processed_at := (case pe_processed_at e of None \<Rightarrow> pe_processed_at r | Some p \<Rightarrow> Some p)\<rparr>) (d_events s)\<rparr>)"
proof -
  let ?g = "\<lambda>r. r\<lparr>pe_status := pe_status e, pe_error_message := pe_error_message e,
           pe_processed_at := (case pe_processed_at e of None \<Rightarrow> pe_processed_at r | Some p \<Rightarrow> Some p)\<rparr>"
  have "map (\<lambda>e. (pe_provider e, pe_event_key e)) (rows (update_row pe_id i ?g (d_events s))) =
      map (\<lambda>e. (pe_provider e, pe_event_key e)) (rows (d_events s))" by simp
  then have "events_constraints (update_row pe_id i ?g (d_events s))"
    using assms(1) by (simp only: events_constraints_def)
  then show ?thesis by (simp add: payments_save_event_entity_def assms(2) put_events_def)
qed

lemma create_transaction_ok:
  assumes "txns_constraints (d_txns s)" and "0 \<le> amount"
  shows "\<exists>t. payments_create_provider_transaction oid aid prov ty key st amount cur pl s = Inr ((), s\<lparr>d_txns := t\<rparr>)
     \<and> txns_constraints t"
proof (cases "list_ex (\<lambda>x. tx_provider x = prov \<and> tx_provider_transaction_key x = key) (rows (d_txns s))")
  case True
  then show ?thesis using assms(1)
    by (intro exI [of _ "d_txns s"]) (simp add: payments_create_provider_transaction_def)
next
  case False
  define t where "t = snd (insert_row (\<lambda>i r. r\<lparr>tx_id := Some i\<rparr>)
            \<lparr>tx_id = None, tx_payment_order_id = oid, tx_payment_attempt_id = aid,
             tx_provider = prov, tx_transaction_type = ty,
             tx_provider_transaction_key = key, tx_transaction_status = st,
             tx_amount_minor = amount, tx_currency = cur, tx_payload = pl,
             tx_created_at = d_clock s\<rparr> (d_txns s))"
  have "(prov, key) \<notin> (\<lambda>x. (tx_provider x, tx_provider_transaction_key x)) ` set (rows (d_txns s))"
    using False by (auto simp: list_ex_iff)
  then have "txns_constraints t"
    using assms by (simp add: t_def txns_constraints_def insert_row_def Let_def)
  then show ?thesis using False
    by (intro exI [of _ t]) (simp add: payments_create_provider_transaction_def put_txns_def t_def)
qed

definition accepted_attempt :: "PaymentAttempt \<Rightarrow> PaymentAttempt \<Rightarrow> bool" where
  "accepted_attempt att a \<longleftrightarrow> pa_id a = pa_id att \<and> pa_provider a = pa_provider att \<and>
     pa_provider_payment_id a = pa_provider_payment_id att \<and> pa_status a = PS_PAID"

lemma save_attempt_ok:
  assumes wf: "table_wf pa_id (d_attempts s)" and c: "attempts_constraints (d_attempts s)"
    and row: "get_row pa_id i (d_attempts s) = Some att" and acc: "accepted_attempt att a"
  shows "\<exists>t. payments_save_attempt_entity a s = Inr ((), s\<lparr>d_attempts := t\<rparr>)"
proof -
  have att: "pa_id att = Some i" "att \<in> set (rows (d_attempts s))" using get_row_key [OF row] by simp_all
  define g where "g = (\<lambda>r :: PaymentAttempt. let r = r\<lparr>pa_status := pa_status a,
                          pa_updated_at := (case pa_updated_at a of None \<Rightarrow> Some (d_clock s) | Some u \<Rightarrow> Some u),
                          pa_payload := pa_payload a\<rparr>;
                     r = (case pa_provider_payment_id a of None \<Rightarrow> r | Some p \<Rightarrow> r\<lparr>pa_provider_payment_id := Some p\<rparr>);
                     r = (case pa_payment_url a of None \<Rightarrow> r | Some u \<Rightarrow> r\<lparr>pa_payment_url := Some u\<rparr>)
                 in if pa_creation_lease_token a = None
                    then r\<lparr>pa_creation_claimed_at := None, pa_creation_lease_expires_at := None, pa_creation_lease_token := None\<rparr>
                    else r\<lparr>pa_creation_claimed_at := pa_creation_claimed_at a,
                           pa_creation_lease_expires_at := pa_creation_lease_expires_at a,
                           pa_creation_lease_token := pa_creation_lease_token a\<rparr>)"
  define h where "h = (\<lambda>r :: PaymentAttempt. if pa_id r = Some i then g r else r)"
  have g: "pa_provider (g r) = pa_provider r" "pa_status (g r) = PS_PAID" "pa_payment_order_id (g r) = pa_payment_order_id r"
    "pa_provider_payment_id (g r) = (case pa_provider_payment_id a of None \<Rightarrow> pa_provider_payment_id r | Some p \<Rightarrow> Some p)" for r
    using acc by (simp_all add: g_def Let_def accepted_attempt_def split: option.splits)
  have h: "pa_provider (h r) = pa_provider r" "pa_provider_payment_id (h r) = pa_provider_payment_id r"
    "pa_payment_order_id (h r) = pa_payment_order_id r" "pa_status (h r) = PS_CREATED \<Longrightarrow> pa_status r = PS_CREATED"
    if "r \<in> set (rows (d_attempts s))" for r
  proof -
    have "r = att" if "pa_id r = Some i"
      using attempts_tab.wf_unique [OF wf \<open>r \<in> set (rows (d_attempts s))\<close> att(2)] that att(1) by simp
    then show "pa_provider (h r) = pa_provider r" "pa_provider_payment_id (h r) = pa_provider_payment_id r"
      "pa_payment_order_id (h r) = pa_payment_order_id r" "pa_status (h r) = PS_CREATED \<Longrightarrow> pa_status r = PS_CREATED"
      using acc by (auto simp: h_def g accepted_attempt_def split: option.splits if_splits)
  qed
  let ?t = "update_row pa_id i g (d_attempts s)"
  have rows: "rows ?t = map h (rows (d_attempts s))" by (simp add: h_def)
  have "distinct (map (\<lambda>a. (pa_provider a, pa_provider_payment_id a)) (filter (\<lambda>a. pa_provider_payment_id a \<noteq> None) (map h (rows (d_attempts s)))))"
    using c h(1,2) by (intro distinct_filter_map) (simp_all add: attempts_constraints_def)
  moreover have "distinct (map pa_payment_order_id (filter (\<lambda>a. pa_status a = PS_CREATED) (map h (rows (d_attempts s)))))"
    using c h(3,4) by (intro distinct_filter_map) (simp_all add: attempts_constraints_def)
  moreover have "list_all (\<lambda>a. btrim (pa_provider a) \<noteq> []) (map h (rows (d_attempts s)))"
    using c h(1) by (simp add: attempts_constraints_def list_all_iff)
  ultimately have "attempts_constraints ?t" by (simp only: attempts_constraints_def rows)
  then have "payments_save_attempt_entity a s = Inr ((), s\<lparr>d_attempts := ?t\<rparr>)"
    using acc att(1) by (simp add: payments_save_attempt_entity_def put_attempts_def g_def accepted_attempt_def)
  then show ?thesis by blast
qed

section \<open>Activation\<close>

lemma subs_loaded:
  assumes inv: "subs_inv (d_subs s)"
  shows "subscriptions_get_active_entity_for_user u s =
     Inr (find_row (\<lambda>r. su_user_id r = u \<and> su_status r = SS_ACTIVE) (d_subs s), s)"
proof (cases "find_row (\<lambda>r. su_user_id r = u \<and> su_status r = SS_ACTIVE) (d_subs s)")
  case (Some a)
  then have "a \<in> set (rows (d_subs s))" using find_row_SomeD by metis
  then have "subscription_from_row a = Inr a"
    using inv by (simp add: subs_inv_def list_all_iff subscription_from_row_iff)
  then show ?thesis using Some by (simp add: subscriptions_get_active_entity_for_user_def entityT_def)
qed (simp add: subscriptions_get_active_entity_for_user_def)

lemma last_period_loaded:
  assumes inv: "periods_inv (d_periods s)"
  shows "\<exists>lp. last_period_of_active active tid s = Inr (lp, s)"
proof -
  have row: "subscription_period_from_row p = Inr p" if "p \<in> set (rows (d_periods s))" for p
  proof -
    have "period_check p" using inv that by (simp add: periods_inv_def periods_constraints_def list_all_iff)
    then show ?thesis
      by (simp add: subscription_period_from_row_def SubscriptionPeriod_post_init_def period_check_def)
  qed
  have "\<exists>lp. subscriptions_get_last_period_entity i s = Inr (lp, s)" for i
  proof (cases "top_by sp_expires_at (select_rows (\<lambda>p. sp_subscription_id p = Some i) (d_periods s))")
    case (Some p)
    then have "p \<in> set (rows (d_periods s))" using top_by_in [OF Some] by (simp add: select_rows_def)
    then show ?thesis using Some row by (simp add: subscriptions_get_last_period_entity_def entityT_def)
  qed (simp add: subscriptions_get_last_period_entity_def)
  then show ?thesis by (simp add: last_period_of_active_def split: option.splits)
qed

definition no_active :: "int \<Rightarrow> Subscription table \<Rightarrow> bool" where
  "no_active u t \<longleftrightarrow> list_all (\<lambda>r. \<not> (su_user_id r = u \<and> su_status r = SS_ACTIVE)) (rows t)"

definition active_sub :: "Subscription table \<Rightarrow> int \<Rightarrow> int \<Rightarrow> int \<Rightarrow> bool" where
  "active_sub t sid u tid \<longleftrightarrow>
     list_ex (\<lambda>r. su_id r = Some sid \<and> su_user_id r = u \<and> su_tariff_id r = tid \<and> su_status r = SS_ACTIVE) (rows t)"

lemma active_unique:
  assumes c: "subs_constraints t" and "a \<in> set (rows t)" "r \<in> set (rows t)"
    and "su_status a = SS_ACTIVE" "su_status r = SS_ACTIVE" "su_user_id a = su_user_id r"
  shows "r = a"
proof -
  have "inj_on su_user_id (set (filter (\<lambda>r. su_status r = SS_ACTIVE) (rows t)))"
    using c by (simp add: subs_constraints_def distinct_map)
  then show ?thesis using assms(2-) by (auto dest: inj_onD)
qed

lemma save_ended_ok:
  assumes inv: "subs_inv (d_subs s)" and a: "a \<in> set (rows (d_subs s))" "su_status a = SS_ACTIVE" "su_user_id a = u"
    and now: "su_created_at a \<le> now"
  shows "\<exists>t. subscriptions_save_entity (Subscription_expire a now) s = Inr ((), s\<lparr>d_subs := t\<rparr>) \<and>
     no_active u t \<and> subs_constraints t"
proof -
  have wf: "table_wf su_id (d_subs s)" and c: "subs_constraints (d_subs s)" using inv by (simp_all add: subs_inv_def)
  obtain i where i: "su_id a = Some i" using subs_tab.wf_row_range [OF wf a(1)] by blast
  define h where "h = (\<lambda>r :: Subscription. if su_id r = Some i
     then r\<lparr>su_tariff_id := su_tariff_id a, su_status := SS_ENDED, su_ended_at := Some now\<rparr> else r)"
  have eq: "r = a" if "r \<in> set (rows (d_subs s))" "su_id r = Some i" for r
    using subs_tab.wf_unique [OF wf that(1) a(1)] that(2) i by simp
  let ?t = "update_row su_id i (\<lambda>r. r\<lparr>su_tariff_id := su_tariff_id a, su_status := SS_ENDED, su_ended_at := Some now\<rparr>) (d_subs s)"
  have rows: "rows ?t = map h (rows (d_subs s))" by (simp add: h_def)
  have "list_all sub_check (map h (rows (d_subs s)))"
    using c eq now by (auto simp: h_def subs_constraints_def list_all_iff sub_check_def)
  moreover have "distinct (map su_user_id (filter (\<lambda>r. su_status r = SS_ACTIVE) (map h (rows (d_subs s)))))"
    using c by (intro distinct_filter_map) (simp_all add: subs_constraints_def h_def split: if_splits)
  ultimately have ct: "subs_constraints ?t" by (simp only: subs_constraints_def rows)
  have "\<not> (su_user_id (h r) = u \<and> su_status (h r) = SS_ACTIVE)" if r: "r \<in> set (rows (d_subs s))" for r
  proof (cases "su_id r = Some i")
    case False
    then have "r \<noteq> a" using i by auto
    then have "\<not> (su_user_id r = u \<and> su_status r = SS_ACTIVE)" using active_unique [OF c a(1) r a(2)] a(3) by auto
    then show ?thesis using False by (simp add: h_def)
  qed (simp add: h_def)
  then have "no_active u ?t" unfolding no_active_def rows by (simp add: list_all_iff)
  moreover have "subscriptions_save_entity (Subscription_expire a now) s = Inr ((), s\<lparr>d_subs := ?t\<rparr>)"
    using ct a(2) i by (simp add: subscriptions_save_entity_def Subscription_expire_def put_subs_def)
  ultimately show ?thesis using ct by blast
qed

lemma add_sub_ok:
  assumes "subs_constraints (d_subs s)" and "no_active u (d_subs s)" and "su_user_id sub = u" and "su_status sub = SS_ACTIVE"
  shows "\<exists>t. subscriptions_add_entity sub s = Inr (sub\<lparr>su_id := Some (next_id (d_subs s))\<rparr>, s\<lparr>d_subs := t\<rparr>) \<and>
     active_sub t (next_id (d_subs s)) u (su_tariff_id sub)"
proof -
  define r where "r = sub\<lparr>su_ended_at := None, su_id := Some (next_id (d_subs s))\<rparr>"
  define t where "t = (d_subs s)\<lparr>rows := rows (d_subs s) @ [r], next_id := next_id (d_subs s) + 1\<rparr>"
  have "u \<notin> su_user_id ` {x \<in> set (rows (d_subs s)). su_status x = SS_ACTIVE}"
    using assms(2) by (auto simp: no_active_def list_all_iff)
  then have "subs_constraints t"
    using assms by (simp add: t_def r_def subs_constraints_def sub_check_def)
  moreover have "active_sub t (next_id (d_subs s)) u (su_tariff_id sub)"
    using assms(3,4) by (simp add: active_sub_def t_def r_def)
  ultimately show ?thesis
    by (intro exI [of _ t]) (simp add: subscriptions_add_entity_def insert_row_def Let_def put_subs_def t_def r_def bindT_def)
qed

lemma save_same_ok:
  assumes inv: "subs_inv (d_subs s)" and a: "a \<in> set (rows (d_subs s))"
  shows "subscriptions_save_entity a s = Inr ((), s)"
proof -
  have wf: "table_wf su_id (d_subs s)" and c: "subs_constraints (d_subs s)" using inv by (simp_all add: subs_inv_def)
  obtain i where i: "su_id a = Some i" using subs_tab.wf_row_range [OF wf a] by blast
  let ?t = "update_row su_id i (\<lambda>r. r\<lparr>su_tariff_id := su_tariff_id a, su_status := su_status a, su_ended_at := su_ended_at a\<rparr>) (d_subs s)"
  have "r = a" if "r \<in> set (rows (d_subs s))" "su_id r = Some i" for r
    using subs_tab.wf_unique [OF wf that(1) a] that(2) i by simp
  then have "rows ?t = rows (d_subs s)" by (simp add: map_idI)
  then have "?t = d_subs s" by (simp add: update_row_def update_where_def)
  then show ?thesis using c i by (simp add: subscriptions_save_entity_def put_subs_def)
qed

lemma add_period_ok:
  assumes inv: "periods_inv (d_periods s)" and np: "\<not> has_period (d_periods s) (Some i)"
    and p: "sp_subscription_id p = Some k" "sp_payment_order_id p = Some i" "period_check p"
  shows "\<exists>q. subscriptions_add_period_entity p s = Inr (q, s\<lparr>d_periods := (d_periods s)\<lparr>rows := rows (d_periods s) @ [q],
     next_id := next_id (d_periods s) + 1\<rparr>\<rparr>) \<and> q = p\<lparr>sp_id := Some (next_id (d_periods s))\<rparr>"
proof -
  define q where "q = p\<lparr>sp_id := Some (next_id (d_periods s))\<rparr>"
  define t where "t = (d_periods s)\<lparr>rows := rows (d_periods s) @ [q], next_id := next_id (d_periods s) + 1\<rparr>"
  have "Some i \<notin> sp_payment_order_id ` set (rows (d_periods s))"
    using np by (auto simp: has_period_def list_ex_iff)
  then have "Some i \<notin> sp_payment_order_id ` {x \<in> set (rows (d_periods s)). sp_payment_order_id x \<noteq> None}" by blast
  then have "periods_constraints t"
    using inv p by (simp add: t_def q_def periods_inv_def periods_constraints_def period_check_def)
  then show ?thesis
    by (intro exI [of _ q]) (simp add: subscriptions_add_period_entity_def p(1) insert_row_def Let_def put_periods_def t_def q_def bindT_def)
qed

text \<open>What activation leaves behind: an active subscription of the tariff and one more, paid, period for the order.\<close>

definition activated :: "db \<Rightarrow> SubscriptionActivation \<Rightarrow> int \<Rightarrow> int \<Rightarrow> int \<Rightarrow> time \<Rightarrow> int \<Rightarrow> db \<Rightarrow> bool" where
  "activated s r u tid d now i s' \<longleftrightarrow>
     (\<exists>t q sid. s' = s\<lparr>d_subs := t, d_periods := (d_periods s)\<lparr>rows := rows (d_periods s) @ [q],
            next_id := next_id (d_periods s) + 1\<rparr>\<rparr> \<and>
        su_id (sa_subscription r) = Some sid \<and> sa_period r = q \<and> active_sub t sid u tid \<and>
        sp_id q = Some (next_id (d_periods s)) \<and> sp_subscription_id q = Some sid \<and> sp_payment_order_id q = Some i \<and>
        sp_is_paid q \<and> now \<le> sp_starts_at q \<and> period_length q = days d)"

definition bought_period :: "SubscriptionPeriod \<Rightarrow> time \<Rightarrow> int \<Rightarrow> bool" where
  "bought_period p now d \<longleftrightarrow> sp_is_paid p \<and> now \<le> sp_starts_at p \<and> period_length p = days d \<and> period_check p"

lemma add_bought_period:
  assumes inv: "periods_inv (d_periods s)" and np: "\<not> has_period (d_periods s) (Some i)"
    and p: "bought_period (sa_period r) now d" and sub: "su_id sub = Some sid" "active_sub (d_subs s1) sid u tid"
    and s1: "s1 = s\<lparr>d_subs := t\<rparr>"
  shows "\<exists>r' s'. bindT (subscriptions_add_period_entity
              ((sa_period r)\<lparr>sp_subscription_id := su_id sub, sp_payment_order_id := Some i\<rparr>)) (\<lambda>period.
     retT (r\<lparr>sa_subscription := sub, sa_period := period\<rparr>)) s1 = Inr (r', s') \<and> activated s r' u tid d now i s'"
proof -
  let ?p = "(sa_period r)\<lparr>sp_subscription_id := su_id sub, sp_payment_order_id := Some i\<rparr>"
  have "periods_inv (d_periods s1)" "\<not> has_period (d_periods s1) (Some i)" using inv np by (simp_all add: s1)
  then obtain q where run: "subscriptions_add_period_entity ?p s1 = Inr (q, s1\<lparr>d_periods := (d_periods s1)\<lparr>rows := rows (d_periods s1) @ [q],
     next_id := next_id (d_periods s1) + 1\<rparr>\<rparr>)" and q: "q = ?p\<lparr>sp_id := Some (next_id (d_periods s1))\<rparr>"
    using add_period_ok [of s1 i ?p sid] p sub(1) by (auto simp: bought_period_def period_check_def)
  let ?s' = "s1\<lparr>d_periods := (d_periods s1)\<lparr>rows := rows (d_periods s1) @ [q], next_id := next_id (d_periods s1) + 1\<rparr>\<rparr>"
  have "activated s (r\<lparr>sa_subscription := sub, sa_period := q\<rparr>) u tid d now i ?s'"
    unfolding activated_def
    by (rule exI [of _ t], rule exI [of _ q], rule exI [of _ sid])
       (use p sub in \<open>simp add: s1 q bought_period_def period_length_def\<close>)
  then show ?thesis by (simp add: bindT_def run)
qed

lemma persist_new_ok:
  assumes c: "subs_constraints (d_subs s0)" and na: "no_active u (d_subs s0)" and s0: "s0 = s\<lparr>d_subs := t0\<rparr>"
    and inv: "periods_inv (d_periods s)" and np: "\<not> has_period (d_periods s) (Some i)"
    and r: "bought_period (sa_period r) now d" "su_user_id (sa_subscription r) = u" "su_status (sa_subscription r) = SS_ACTIVE"
      "su_tariff_id (sa_subscription r) = tid" "sa_created_new_subscription r"
    and repl: "(case sa_replaced_subscription r of None \<Rightarrow> retT () | Some x \<Rightarrow> subscriptions_save_entity x) s = Inr ((), s0)"
  shows "\<exists>r' s'. persist_activation r (Some i) s = Inr (r', s') \<and> activated s r' u tid d now i s'"
proof -
  let ?sub = "(sa_subscription r)\<lparr>su_id := Some (next_id (d_subs s0))\<rparr>"
  obtain t where add: "subscriptions_add_entity (sa_subscription r) s0 = Inr (?sub, s0\<lparr>d_subs := t\<rparr>)"
    and act: "active_sub t (next_id (d_subs s0)) u tid"
    using add_sub_ok [OF c na r(2,3)] r(4) by blast
  have s1: "s0\<lparr>d_subs := t\<rparr> = s\<lparr>d_subs := t\<rparr>" by (simp add: s0)
  show ?thesis
    using add_bought_period [OF inv np r(1), of ?sub "next_id (d_subs s0)" "s0\<lparr>d_subs := t\<rparr>" u tid t] act s1
    by (simp add: persist_activation_def bindT_def repl r(5) add)
qed

lemma persist_same_ok:
  assumes subs: "subs_inv (d_subs s)" and a: "a \<in> set (rows (d_subs s))" "active_sub (d_subs s) sid u tid" "su_id a = Some sid"
    and inv: "periods_inv (d_periods s)" and np: "\<not> has_period (d_periods s) (Some i)"
    and r: "bought_period (sa_period r) now d" "sa_subscription r = a" "\<not> sa_created_new_subscription r"
      "sa_replaced_subscription r = None"
  shows "\<exists>r' s'. persist_activation r (Some i) s = Inr (r', s') \<and> activated s r' u tid d now i s'"
  using add_bought_period [OF inv np r(1), of a sid s u tid "d_subs s"] a
  by (simp add: persist_activation_def r(2,3,4) bindT_def save_same_ok [OF subs a(1)])

lemma apply_paid_period_runs:
  assumes "0 < u" "0 < tid" "0 < d" and "pred_option (\<lambda>a. su_status a = SS_ACTIVE) active"
  shows "\<exists>r. apply_paid_period active lp u tid d now = Inr r \<and> bought_period (sa_period r) now d \<and>
     su_status (sa_subscription r) = SS_ACTIVE \<and> su_tariff_id (sa_subscription r) = tid \<and>
     (case active of
        None \<Rightarrow> sa_created_new_subscription r \<and> sa_replaced_subscription r = None \<and> su_user_id (sa_subscription r) = u
      | Some a \<Rightarrow> if su_tariff_id a = tid
                 then \<not> sa_created_new_subscription r \<and> sa_replaced_subscription r = None \<and> sa_subscription r = a
                 else sa_created_new_subscription r \<and> su_user_id (sa_subscription r) = u \<and>
                      sa_replaced_subscription r = Some (Subscription_expire a now))"
  using assms
  by (cases active)
     (auto simp: apply_paid_period_def Subscription_start_def Subscription_post_init_def Subscription_extend_def
       SubscriptionPeriod_post_init_def bought_period_def period_check_def period_length_def days_def Let_def
       split: option.splits)

definition activation_time_ok :: "db \<Rightarrow> int \<Rightarrow> time \<Rightarrow> bool" where
  "activation_time_ok s u now \<longleftrightarrow>
     list_all (\<lambda>r. su_user_id r = u \<and> su_status r = SS_ACTIVE \<longrightarrow> su_created_at r \<le> now) (rows (d_subs s))"

lemma activate_ok:
  assumes subs: "subs_inv (d_subs s)" and inv: "periods_inv (d_periods s)" and np: "\<not> has_period (d_periods s) (Some i)"
    and pos: "0 < u" "0 < tid" "0 < d" and time: "activation_time_ok s u now"
  shows "\<exists>r s'. ActivateSubscription_execute u tid d now (Some i) s = Inr (r, s') \<and> activated s r u tid d now i s'"
proof -
  let ?active = "find_row (\<lambda>r. su_user_id r = u \<and> su_status r = SS_ACTIVE) (d_subs s)"
  obtain lp where lp: "last_period_of_active ?active tid s = Inr (lp, s)" using last_period_loaded [OF inv] by blast
  have pred: "pred_option (\<lambda>a. su_status a = SS_ACTIVE) ?active"
    using find_row_SomeD [of "\<lambda>r. su_user_id r = u \<and> su_status r = SS_ACTIVE" "d_subs s"] by (cases ?active) simp_all
  obtain r where r: "apply_paid_period ?active lp u tid d now = Inr r" "bought_period (sa_period r) now d"
    "su_status (sa_subscription r) = SS_ACTIVE" "su_tariff_id (sa_subscription r) = tid"
    and shape: "case ?active of
        None \<Rightarrow> sa_created_new_subscription r \<and> sa_replaced_subscription r = None \<and> su_user_id (sa_subscription r) = u
      | Some a \<Rightarrow> if su_tariff_id a = tid
                 then \<not> sa_created_new_subscription r \<and> sa_replaced_subscription r = None \<and> sa_subscription r = a
                 else sa_created_new_subscription r \<and> su_user_id (sa_subscription r) = u \<and>
                      sa_replaced_subscription r = Some (Subscription_expire a now)"
    using apply_paid_period_runs [OF pos pred] by blast
  have run: "ActivateSubscription_execute u tid d now (Some i) s = persist_activation r (Some i) s"
    by (simp add: ActivateSubscription_execute_def bindT_def subs_loaded [OF subs] lp r(1))
  have wf: "table_wf su_id (d_subs s)" and c: "subs_constraints (d_subs s)" using subs by (simp_all add: subs_inv_def)
  show ?thesis
  proof (cases ?active)
    case None
    then have "no_active u (d_subs s)" using find_row_NoneD [OF None] by (simp add: no_active_def list_all_iff)
    moreover have "sa_created_new_subscription r" "sa_replaced_subscription r = None" "su_user_id (sa_subscription r) = u"
      using shape None by simp_all
    ultimately show ?thesis
      unfolding run by (intro persist_new_ok [where ?s0.0 = s and ?t0.0 = "d_subs s", OF c _ _ inv np r(2) _ r(3,4)]) simp_all
  next
    case (Some a)
    have a: "a \<in> set (rows (d_subs s))" "su_user_id a = u" "su_status a = SS_ACTIVE"
      using find_row_SomeD [OF Some] by simp_all
    obtain sid where sid: "su_id a = Some sid" using subs_tab.wf_row_range [OF wf a(1)] by blast
    show ?thesis
    proof (cases "su_tariff_id a = tid")
      case True
      then have "active_sub (d_subs s) sid u tid" using a sid by (auto simp: active_sub_def list_ex_iff)
      moreover have "sa_subscription r = a" "\<not> sa_created_new_subscription r" "sa_replaced_subscription r = None"
        using shape Some True by simp_all
      ultimately show ?thesis unfolding run by (intro persist_same_ok [OF subs a(1) _ sid inv np r(2)])
    next
      case False
      have "su_created_at a \<le> now" using time a by (simp add: activation_time_ok_def list_all_iff)
      then obtain t where t: "subscriptions_save_entity (Subscription_expire a now) s = Inr ((), s\<lparr>d_subs := t\<rparr>)"
        "no_active u t" "subs_constraints t"
        using save_ended_ok [OF subs a(1,3,2)] by blast
      moreover have "sa_created_new_subscription r" "su_user_id (sa_subscription r) = u"
        "sa_replaced_subscription r = Some (Subscription_expire a now)"
        using shape Some False by simp_all
      ultimately show ?thesis
        unfolding run by (intro persist_new_ok [where ?s0.0 = "s\<lparr>d_subs := t\<rparr>" and ?t0.0 = t, OF _ _ _ inv np r(2) _ r(3,4)]) simp_all
    qed
  qed
qed

lemma audit_append_ok: "\<exists>a. audit_append n ty i pl s = Inr ((), s\<lparr>d_audit := a\<rparr>)"
  by (auto simp: audit_append_def put_audit_def)

lemma settle_order_ok:
  assumes inv: "pay_inv s" and row: "get_row po_id i (d_orders s) = Some ord" and np: "po_status ord \<noteq> PS_PAID"
    and ord': "po_id ord' = Some i" "po_status ord' = PS_PAID" "po_user_id ord' = po_user_id ord"
      "po_tariff_id ord' = po_tariff_id ord" "po_requested_period_days ord' = po_requested_period_days ord"
    and time: "activation_time_ok s (po_user_id ord) now"
  shows "\<exists>sid r s' a. settle_order ord' i now s = Inr (sid, s'\<lparr>d_audit := a\<rparr>) \<and> su_id (sa_subscription r) = Some sid \<and>
     activated (s\<lparr>d_orders := update_row po_id i (saved_order ord' (d_clock s)) (d_orders s)\<rparr>) r (po_user_id ord)
        (po_tariff_id ord) (po_requested_period_days ord) now i s'"
proof -
  let ?s1 = "s\<lparr>d_orders := update_row po_id i (saved_order ord' (d_clock s)) (d_orders s)\<rparr>"
  have oi: "orders_inv (d_orders s)" and si: "subs_inv (d_subs s)" and pi: "periods_inv (d_periods s)"
    using inv by (simp_all add: pay_inv_def pay_inv_except_def)
  have "order_row_ok ord" using get_row_key [OF row] oi by (simp add: orders_inv_def list_all_iff)
  then have pos: "0 < po_user_id ord" "0 < po_tariff_id ord" "0 < po_requested_period_days ord"
    by (simp_all add: order_row_ok_iff)
  have "\<not> paid_order (d_orders s) i" using row np by (simp add: paid_order_def)
  then have "sp_payment_order_id p \<noteq> Some i" if "p \<in> set (rows (d_periods s))" for p
    using pay_inv_linked(1) [OF inv that] by blast
  then have nh: "\<not> has_period (d_periods s) (Some i)" by (auto simp: has_period_def list_ex_iff)
  obtain r s' where run: "ActivateSubscription_execute (po_user_id ord) (po_tariff_id ord) (po_requested_period_days ord)
      now (Some i) ?s1 = Inr (r, s')"
    and act: "activated ?s1 r (po_user_id ord) (po_tariff_id ord) (po_requested_period_days ord) now i s'"
    using activate_ok [of ?s1 i, OF _ _ _ pos, of now] si pi nh time by (auto simp: activation_time_ok_def)
  obtain sid where sid: "su_id (sa_subscription r) = Some sid" and pid: "sp_id (sa_period r) = Some (next_id (d_periods s))"
    using act by (auto simp: activated_def)
  obtain a where "emit_subscription_activated r sid (next_id (d_periods s)) s' = Inr ((), s'\<lparr>d_audit := a\<rparr>)"
    unfolding emit_subscription_activated_def using audit_append_ok by blast
  then have "settle_order ord' i now s = Inr (sid, s'\<lparr>d_audit := a\<rparr>)"
    by (simp add: settle_order_def bindT_def save_order_ok [OF oi ord'(1,2)] ord'(3-5) run sid pid)
  then show ?thesis using sid act by blast
qed

section \<open>A valid paid event\<close>

lemma PaymentEvent_post_init_fields [simp]:
  "pe_id (PaymentEvent_post_init e) = pe_id e" "pe_status (PaymentEvent_post_init e) = pe_status e"
  "pe_event_type (PaymentEvent_post_init e) = pe_event_type e"
  "pe_payment_attempt_id (PaymentEvent_post_init e) = pe_payment_attempt_id e"
  "pe_payment_order_id (PaymentEvent_post_init e) = pe_payment_order_id e"
  "pe_provider (PaymentEvent_post_init e) = pe_provider e" "pe_event_key (PaymentEvent_post_init e) = pe_event_key e"
  by (simp_all add: PaymentEvent_post_init_def Let_def split: option.splits)

lemma event_loads:
  "get_row pe_id i (d_events s) = Some e \<Longrightarrow> payments_get_event_entity i s = Inr (Some (PaymentEvent_post_init e), s)"
  by (simp add: payments_get_event_entity_def entityT_def payment_event_from_row_def)

lemma attempt_loads:
  "get_row pa_id i (d_attempts s) = Some a \<Longrightarrow> payments_get_attempt_entity i s = Inr (Some a, s)"
  by (simp add: payments_get_attempt_entity_def entityT_def payment_attempt_from_row_def)

text \<open>The open paid event \<open>e\<close> is about the stored attempt \<open>att\<close> of the stored order \<open>ord\<close>.\<close>

definition open_paid_event :: "db \<Rightarrow> int \<Rightarrow> PaymentEvent \<Rightarrow> PaymentAttempt \<Rightarrow> PaymentOrder \<Rightarrow> bool" where
  "open_paid_event s i e att ord \<longleftrightarrow>
     get_row pe_id i (d_events s) = Some e \<and> pe_status e \<notin> {PES_PROCESSED, PES_IGNORED} \<and>
     pe_event_type e \<noteq> ''refund.succeeded'' \<and>
     PaymentEvent_normalized_payment_status (PaymentEvent_post_init e) = PS_PAID \<and>
     (case pe_payment_attempt_id e of None \<Rightarrow> False | Some a \<Rightarrow> get_row pa_id a (d_attempts s) = Some att) \<and>
     get_row po_id (pa_payment_order_id att) (d_orders s) = Some ord"

lemma open_paid_event_run:
  assumes inv: "orders_inv (d_orders s)" and op: "open_paid_event s i e att ord"
  shows "process_payment_tx i now s =
     bindT (process_paid (PaymentEvent_post_init e) ord (Some att) now) (\<lambda>r.
       retT (r, case r of Processed (Some sid) \<Rightarrow> [PROVISION_SUBSCRIPTION sid] | _ \<Rightarrow> [])) s"
proof -
  obtain a where a: "pe_payment_attempt_id e = Some a" and att: "get_row pa_id a (d_attempts s) = Some att"
    using op by (auto simp: open_paid_event_def split: option.splits)
  have ev: "payments_get_event_entity i s = Inr (Some (PaymentEvent_post_init e), s)"
    and ord: "payments_get_order_entity (pa_payment_order_id att) s = Inr (Some ord, s)"
    using op event_loads order_loads [OF inv] by (simp_all add: open_paid_event_def)
  have st: "pe_status e \<noteq> PES_PROCESSED" "pe_status e \<noteq> PES_IGNORED" "pe_event_type e \<noteq> ''refund.succeeded''"
    "PaymentEvent_normalized_payment_status (PaymentEvent_post_init e) = PS_PAID"
    using op by (simp_all add: open_paid_event_def)
  have "resolve_context i now s = Inr (Context (PaymentEvent_post_init e) ord (Some att), s)"
    by (simp add: resolve_context_def resolve_paid_context_def bindT_def ev st a attempt_loads [OF att] ord)
  then show ?thesis
    by (simp add: process_payment_tx_def bindT_def ev st process_resolved_def)
qed

lemma paid_status_accepted:
  assumes "pa_status att \<notin> {PS_FAILED, PS_EXPIRED, PS_CANCELLED}"
  shows "\<exists>tr att'. PaymentAttempt_apply_provider_status att PS_PAID None None pl = (tr, att') \<and> tr \<noteq> PTR_STALE \<and>
     accepted_attempt att att'"
  using assms
  by (cases "pa_status att")
     (simp_all add: PaymentAttempt_apply_provider_status_def accepted_attempt_def Let_def split: option.splits)

lemma book_paid_ok:
  assumes inv: "pay_inv s" and att: "get_row pa_id a (d_attempts s) = Some att" and acc: "accepted_attempt att att'"
    and row: "get_row po_id i (d_orders s) = Some ord" and np: "po_status ord \<noteq> PS_PAID"
    and ev: "pe_id e = Some k" and amount: "0 \<le> amount" and time: "activation_time_ok s (po_user_id ord) now"
  shows "\<exists>sid r s2 s' ord'. book_paid e ord i att' amount cur now s = Inr (Processed (Some sid), s') \<and>
     su_id (sa_subscription r) = Some sid \<and> po_status ord' = PS_PAID \<and>
     activated (s\<lparr>d_orders := update_row po_id i (saved_order ord' (d_clock s)) (d_orders s)\<rparr>) r (po_user_id ord)
        (po_tariff_id ord) (po_requested_period_days ord) now i s2 \<and>
     d_orders s' = d_orders s2 \<and> d_subs s' = d_subs s2 \<and> d_periods s' = d_periods s2 \<and>
     d_events s' = update_row pe_id k (\<lambda>r. r\<lparr>pe_status := PES_PROCESSED, pe_error_message := None,
       pe_processed_at := Some now\<rparr>) (d_events s)"
proof -
  have c: "table_wf pa_id (d_attempts s)" "attempts_constraints (d_attempts s)" "orders_inv (d_orders s)"
    "txns_constraints (d_txns s)" "events_constraints (d_events s)"
    using inv by (simp_all add: pay_inv_def pay_inv_except_def)
  obtain ta where ta: "payments_save_attempt_entity att' s = Inr ((), s\<lparr>d_attempts := ta\<rparr>)"
    using save_attempt_ok [OF c(1,2) att acc] by blast
  let ?s1 = "s\<lparr>d_attempts := ta\<rparr>" and ?ord' = "ord\<lparr>po_status := PS_PAID, po_paid_at := Some now, po_updated_at := Some now\<rparr>"
  have "order_check ord" using get_row_key [OF row] c(3) by (simp add: orders_inv_def orders_constraints_def list_all_iff)
  then have mp: "PaymentOrder_mark_paid ord now = Inr (True, ?ord')"
    using np by (auto simp: PaymentOrder_mark_paid_def order_check_def)
  have id: "po_id ord = Some i" using get_row_key [OF row] by simp
  have "preserves pay_inv (payments_save_attempt_entity att')" using keeps_save_attempt unfolding pay_inv_keeps [abs_def] .
  then have inv1: "pay_inv ?s1" using preservesD inv ta by metis
  obtain sid r s2 au where set: "settle_order ?ord' i now ?s1 = Inr (sid, s2\<lparr>d_audit := au\<rparr>)"
    and sid: "su_id (sa_subscription r) = Some sid"
    and act: "activated (?s1\<lparr>d_orders := update_row po_id i (saved_order ?ord' (d_clock ?s1)) (d_orders ?s1)\<rparr>) r (po_user_id ord)
        (po_tariff_id ord) (po_requested_period_days ord) now i s2"
    using settle_order_ok [OF inv1, of i ord ?ord' now] row np id time by (auto simp: activation_time_ok_def)
  have s2: "d_txns s2 = d_txns s" "d_events s2 = d_events s" using act by (auto simp: activated_def)
  let ?s3 = "s2\<lparr>d_audit := au\<rparr>"
  obtain tt where tt: "payments_create_provider_transaction i (pa_id att') (pe_provider e) ''payment_paid''
      (pe_event_key e) ''paid'' amount (upper (strip cur)) (pe_payload e) ?s3 = Inr ((), ?s3\<lparr>d_txns := tt\<rparr>)"
    using create_transaction_ok [of ?s3] c(4) s2(1) amount by force
  define s' where "s' = ?s3\<lparr>d_txns := tt, d_events := update_row pe_id k (\<lambda>r. r\<lparr>pe_status := PES_PROCESSED, pe_error_message := None,
       pe_processed_at := Some now\<rparr>) (d_events s)\<rparr>"
  have ok: "payments_save_event_entity (PaymentEvent_mark_processed e now) (?s3\<lparr>d_txns := tt\<rparr>) = Inr ((), s')"
    using save_event_ok [of "?s3\<lparr>d_txns := tt\<rparr>" "PaymentEvent_mark_processed e now" k] c(5) s2(2) ev
    by (simp add: PaymentEvent_mark_processed_def s'_def)
  have run: "book_paid e ord i att' amount cur now s = Inr (Processed (Some sid), s')"
    by (simp add: book_paid_def bindT_def ta mp set tt ok)
  have same: "activated (s\<lparr>d_orders := update_row po_id i (saved_order ?ord' (d_clock s)) (d_orders s)\<rparr>) r (po_user_id ord)
        (po_tariff_id ord) (po_requested_period_days ord) now i (s2\<lparr>d_attempts := d_attempts s\<rparr>)"
    using act unfolding activated_def by auto
  show ?thesis
    by (rule exI [of _ sid], rule exI [of _ r], rule exI [of _ "s2\<lparr>d_attempts := d_attempts s\<rparr>"], rule exI [of _ s'], rule exI [of _ ?ord'])
       (use run sid same in \<open>simp add: s'_def\<close>)
qed

text \<open>A database with one pending order, its attempt and an event that reports it paid.\<close>

definition sample_event :: PaymentEvent where
  "sample_event = \<lparr>pe_id = Some 1, pe_payment_order_id = Some 1, pe_payment_attempt_id = Some 1,
     pe_provider = ''dummy'', pe_event_type = ''payment.succeeded'', pe_event_key = ''e1'', pe_status = PES_RECEIVED,
     pe_payload = [], pe_occurred_at = 5, pe_provider_payment_id = Some ''p1'', pe_reported_payment_order_id = None,
     pe_payment_status = Some PS_PAID, pe_amount_minor = Some 19900, pe_currency = Some ''RUB'',
     pe_received_at = Some 6, pe_processed_at = None, pe_error_message = None\<rparr>"

definition pending_attempt :: PaymentAttempt where
  "pending_attempt = sample_attempt\<lparr>pa_status := PS_PENDING, pa_provider_payment_id := Some ''p1''\<rparr>"

definition sample_shop :: "PaymentEvent list \<Rightarrow> db" where
  "sample_shop evs = (empty_db 10)\<lparr>d_orders := \<lparr>rows = [sample_order], next_id = 2\<rparr>,
     d_attempts := \<lparr>rows = [pending_attempt], next_id = 2\<rparr>, d_events := \<lparr>rows = evs, next_id = 4\<rparr>\<rparr>"

lemma strip_samples: "strip ''dummy'' = ''dummy''" "strip ''k'' = ''k''" "strip ''RUB'' = ''RUB''" "upper ''RUB'' = ''RUB''"
  "btrim ''dummy'' = ''dummy''" "btrim ''RUB'' = ''RUB''"
  by (simp_all add: strip_def lstrip_def is_space_def upper_def upper_char_def btrim_def Let_def)

lemma sample_orders_inv: "orders_inv \<lparr>rows = [sample_order], next_id = 2\<rparr>"
  by (simp add: orders_inv_def table_wf_def orders_constraints_def order_check_def order_row_ok_iff sample_order_def
      strip_samples money_wf_iff)

lemma sample_shop_inv:
  assumes "table_wf pe_id \<lparr>rows = evs, next_id = 4\<rparr>" "events_constraints \<lparr>rows = evs, next_id = 4\<rparr>"
  shows "pay_inv (sample_shop evs)"
  using assms sample_orders_inv
  by (simp add: pay_inv_def pay_inv_except_def sample_shop_def empty_db_def empty_table_def table_wf_def
      attempts_constraints_def pending_attempt_def sample_attempt_def strip_samples txns_constraints_def subs_inv_def
      subs_constraints_def periods_inv_def periods_constraints_def linked_except_def paid_order_def get_row_def sample_order_def)

section \<open>Properties\<close>

text \<open>C5. Progress and effect of a payment: for an open paid event that passes the settlement rule, whose attempt
  has not failed and whose order is not yet paid, the handler returns. It asks for the provisioning of one
  subscription; the order is then paid, the user has an active subscription of the ordered tariff, exactly one
  period was added, it is paid, belongs to that order and that subscription, starts no earlier than now and lasts the
  ordered days, and the event is marked processed.\<close>

theorem paid_event_settles:
  assumes "pay_inv s" and "open_paid_event s i e att ord"
    and "validate_paid_settlement (PaymentEvent_post_init e) (Some att) ord = Inr ()"
    and "pa_status att \<notin> {PS_FAILED, PS_EXPIRED, PS_CANCELLED}" and "po_status ord \<noteq> PS_PAID"
    and "activation_time_ok s (po_user_id ord) now"
  shows "\<exists>sid q s'. ProcessPayment_execute i now s = (Inr (Processed (Some sid), [PROVISION_SUBSCRIPTION sid]), s') \<and>
     paid_order (d_orders s') (pa_payment_order_id att) \<and>
     active_sub (d_subs s') sid (po_user_id ord) (po_tariff_id ord) \<and>
     rows (d_periods s') = rows (d_periods s) @ [q] \<and> sp_is_paid q \<and> sp_subscription_id q = Some sid \<and>
     sp_payment_order_id q = Some (pa_payment_order_id att) \<and> now \<le> sp_starts_at q \<and>
     period_length q = days (po_requested_period_days ord) \<and>
     map_option pe_status (get_row pe_id i (d_events s')) = Some PES_PROCESSED"
proof -
  let ?e = "PaymentEvent_post_init e" and ?oid = "pa_payment_order_id att"
  have oi: "orders_inv (d_orders s)" using assms(1) by (simp add: pay_inv_def pay_inv_except_def)
  have row: "get_row po_id ?oid (d_orders s) = Some ord" and ev: "get_row pe_id i (d_events s) = Some e"
    using assms(2) by (simp_all add: open_paid_event_def)
  obtain a where att: "get_row pa_id a (d_attempts s) = Some att"
    using assms(2) by (auto simp: open_paid_event_def split: option.splits)
  have ids: "po_id ord = Some ?oid" "pe_id ?e = Some i" using get_row_key [OF row] get_row_key [OF ev] by simp_all
  have "order_row_ok ord" using get_row_key [OF row] oi by (simp add: orders_inv_def list_all_iff)
  then have pos: "0 < minor (po_amount ord)" by (simp add: order_row_ok_iff)
  obtain cur where money: "pe_amount_minor ?e = Some (minor (po_amount ord))" "pe_currency ?e = Some cur"
    using assms(3) unfolding validate_paid_settlement_def
    by (cases "pe_currency ?e") (auto simp: bindE_eq_Inr)
  obtain tr att' where acc: "PaymentAttempt_apply_provider_status att PS_PAID None None (Some (pe_payload ?e)) = (tr, att')"
    "tr \<noteq> PTR_STALE" "accepted_attempt att att'" using paid_status_accepted [OF assms(4)] by blast
  obtain sid r s2 s' ord' where run: "book_paid ?e ord ?oid att' (minor (po_amount ord)) cur now s = Inr (Processed (Some sid), s')"
    and sid: "su_id (sa_subscription r) = Some sid" and paid: "po_status ord' = PS_PAID"
    and act: "activated (s\<lparr>d_orders := update_row po_id ?oid (saved_order ord' (d_clock s)) (d_orders s)\<rparr>) r (po_user_id ord)
        (po_tariff_id ord) (po_requested_period_days ord) now ?oid s2"
    and s': "d_orders s' = d_orders s2" "d_subs s' = d_subs s2" "d_periods s' = d_periods s2"
     "d_events s' = update_row pe_id i (\<lambda>r. r\<lparr>pe_status := PES_PROCESSED, pe_error_message := None,
       pe_processed_at := Some now\<rparr>) (d_events s)"
    using book_paid_ok [OF assms(1) att acc(3) row assms(5) ids(2) less_imp_le [OF pos] assms(6)] by blast
  have "process_paid ?e ord (Some att) now s = Inr (Processed (Some sid), s')"
    by (simp add: process_paid_def assms(3) ids(1) money acc(1,2) run)
  then have exec: "ProcessPayment_execute i now s = (Inr (Processed (Some sid), [PROVISION_SUBSCRIPTION sid]), s')"
    by (simp add: ProcessPayment_execute_def run_uow_def open_paid_event_run [OF oi assms(2)] bindT_def)
  have "map_option pe_status (get_row pe_id i (d_events s')) = Some PES_PROCESSED"
    using ev by (simp add: s'(4) events_tab.update_row_lookup)
  moreover have "paid_order (d_orders s') ?oid"
    using act row paid by (auto simp: s'(1) activated_def paid_order_update)
  moreover obtain q where "rows (d_periods s') = rows (d_periods s) @ [q] \<and> sp_is_paid q \<and> sp_subscription_id q = Some sid \<and>
     sp_payment_order_id q = Some ?oid \<and> now \<le> sp_starts_at q \<and> period_length q = days (po_requested_period_days ord)"
    and "active_sub (d_subs s') sid (po_user_id ord) (po_tariff_id ord)"
    using act sid by (auto simp: s'(2,3) activated_def)
  ultimately show ?thesis using exec by blast
qed

lemma sample_paid_event:
  "open_paid_event (sample_shop [sample_event]) 1 sample_event pending_attempt sample_order"
  "validate_paid_settlement (PaymentEvent_post_init sample_event) (Some pending_attempt) sample_order = Inr ()"
  by (simp_all add: open_paid_event_def sample_shop_def sample_event_def pending_attempt_def sample_attempt_def sample_order_def
      get_row_def PaymentEvent_normalized_payment_status_def PaymentEvent_post_init_def validate_paid_settlement_def
      strip_samples or_else_def Let_def)

theorem paid_event_settles_witness:
  "\<exists>sid s'. ProcessPayment_execute 1 10 (sample_shop [sample_event]) = (Inr (Processed (Some sid), [PROVISION_SUBSCRIPTION sid]), s') \<and>
     paid_order (d_orders s') 1 \<and> length (rows (d_periods s')) = 1"
proof -
  have inv: "pay_inv (sample_shop [sample_event])"
    by (rule sample_shop_inv) (simp_all add: table_wf_def events_constraints_def sample_event_def)
  have st: "pa_status pending_attempt \<notin> {PS_FAILED, PS_EXPIRED, PS_CANCELLED}" "po_status sample_order \<noteq> PS_PAID"
    "activation_time_ok (sample_shop [sample_event]) (po_user_id sample_order) 10"
    by (simp_all add: pending_attempt_def sample_order_def activation_time_ok_def sample_shop_def empty_db_def empty_table_def)
  have "rows (d_periods (sample_shop [sample_event])) = []" "pa_payment_order_id pending_attempt = 1"
    by (simp_all add: sample_shop_def empty_db_def empty_table_def pending_attempt_def sample_attempt_def)
  with paid_event_settles [OF inv sample_paid_event st] show ?thesis by auto
qed

end
