(* ===== verification/SettleProps.thy ===== *)
theory SettleProps
  imports SettleLive
begin

text \<open>
  What the payment handlers leave alone: rejected events, redelivered events, second payments of a paid order and
  partial refunds. The frame lemmas state which tables an operation can write.
\<close>

section \<open>Frames\<close>

text \<open>Operations on other tables keep every fact about the payment events.\<close>

lemma frame_reads [preserves_intros]:
  "preserves P (payments_get_event_entity i)" "preserves P (payments_get_attempt_entity i)"
  "preserves P (payments_get_latest_attempt_entity i)" "preserves P (payments_get_order_entity i)"
  "preserves P (payments_sum_provider_transactions i a b c)"
  "preserves P (subscriptions_get_entity i)" "preserves P (subscriptions_get_active_entity_for_user i)"
  "preserves P (subscriptions_get_last_period_entity i)" "preserves P (subscriptions_get_current_period_entity i now)"
  "preserves P (subscriptions_get_period_by_payment_order_id i)" "preserves P (subscriptions_has_funded_period_after i now)"
  "preserves P (vpn_get_active_entity_for_subscription i)"
  by (auto simp: preserves_def payments_get_event_entity_def payments_get_attempt_entity_def
      payments_get_latest_attempt_entity_def payments_get_order_entity_def payments_get_order_def
      payments_sum_provider_transactions_def subscriptions_get_entity_def
      subscriptions_get_active_entity_for_user_def subscriptions_get_last_period_entity_def
      subscriptions_get_current_period_entity_def subscriptions_get_period_by_payment_order_id_def
      subscriptions_has_funded_period_after_def vpn_get_active_entity_for_subscription_def entityT_Inr_iff)

lemma frame_puts:
  "preserves (\<lambda>s. Q (d_events s)) (put_orders t1)" "preserves (\<lambda>s. Q (d_events s)) (put_attempts t2)"
  "preserves (\<lambda>s. Q (d_events s)) (put_txns t3)" "preserves (\<lambda>s. Q (d_events s)) (put_subs t4)"
  "preserves (\<lambda>s. Q (d_events s)) (put_periods t5)" "preserves (\<lambda>s. Q (d_events s)) (put_audit t6)"
  unfolding put_orders_def put_attempts_def put_txns_def put_subs_def put_periods_def put_audit_def
  by (intro preserves_writeT, simp)+

lemma frame_writes [preserves_intros]:
  "preserves (\<lambda>s. Q (d_events s)) (payments_save_order_entity ord)"
  "preserves (\<lambda>s. Q (d_events s)) (payments_save_attempt_entity att)"
  "preserves (\<lambda>s. Q (d_events s)) (payments_create_provider_transaction o1 a1 pr ty k st am cu pl)"
  "preserves (\<lambda>s. Q (d_events s)) (subscriptions_save_entity sub)"
  "preserves (\<lambda>s. Q (d_events s)) (subscriptions_add_entity sub)"
  "preserves (\<lambda>s. Q (d_events s)) (subscriptions_save_period_entity p)"
  "preserves (\<lambda>s. Q (d_events s)) (subscriptions_add_period_entity p)"
  "preserves (\<lambda>s. Q (d_events s)) (audit_append n agg i pl)"
  unfolding payments_save_order_entity_def payments_save_attempt_entity_def payments_create_provider_transaction_def
    subscriptions_save_entity_def subscriptions_add_entity_def subscriptions_save_period_entity_def
    subscriptions_add_period_entity_def audit_append_def Let_def
  by (intro preserves_intros frame_puts)+

lemma frame_activation [preserves_intros]:
  "preserves (\<lambda>s. Q (d_events s)) (ActivateSubscription_execute u tid d now oid)"
  unfolding ActivateSubscription_execute_def persist_activation_def last_period_of_active_def
  by (intro preserves_intros)

lemma frame_settle [preserves_intros]: "preserves (\<lambda>s. Q (d_events s)) (settle_order ord i now)"
  unfolding settle_order_def emit_subscription_activated_def by (intro preserves_intros)

lemma frame_refund_entitlement [preserves_intros]: "preserves (\<lambda>s. Q (d_events s)) (refund_entitlement ev i now)"
  unfolding refund_entitlement_def withdraw_period_def vpn_to_revoke_def expire_if_unfunded_def
  by (intro preserves_intros)

section \<open>Closed events\<close>

definition closed_event :: "int \<Rightarrow> PaymentEvent table \<Rightarrow> bool" where
  "closed_event i t \<longleftrightarrow> map_option pe_status (get_row pe_id i t) \<in> {Some PES_PROCESSED, Some PES_IGNORED}"

definition stored_event :: "int \<Rightarrow> PaymentEvent table \<Rightarrow> bool" where
  "stored_event i t \<longleftrightarrow> get_row pe_id i t \<noteq> None"

lemma hoare_close:
  assumes "pe_id e = Some i" and "pe_status e \<in> {PES_PROCESSED, PES_IGNORED}"
  shows "hoare (\<lambda>s. stored_event i (d_events s)) (payments_save_event_entity e) (\<lambda>_ s. closed_event i (d_events s))"
proof (rule hoareI)
  fix s x s' assume st: "stored_event i (d_events s)" and run: "payments_save_event_entity e s = Inr (x, s')"
  obtain r where r: "get_row pe_id i (d_events s) = Some r" using st by (auto simp: stored_event_def)
  have "d_events s' = update_row pe_id i (\<lambda>r. r\<lparr>pe_status := pe_status e, pe_error_message := pe_error_message e,
                   pe_processed_at := (case pe_processed_at e of None \<Rightarrow> pe_processed_at r | Some p \<Rightarrow> Some p)\<rparr>) (d_events s)"
    using run by (auto simp: payments_save_event_entity_def assms(1) put_events_def writeT_Inr_iff)
  then show "closed_event i (d_events s')"
    using r assms(2) by (auto simp: closed_event_def events_tab.update_row_lookup)
qed

lemma event_ops_fields [simp]:
  "pe_id (PaymentEvent_mark_processed e now) = pe_id e" "pe_status (PaymentEvent_mark_processed e now) = PES_PROCESSED"
  "pe_id (PaymentEvent_ignore e now m) = pe_id e" "pe_status (PaymentEvent_ignore e now m) = PES_IGNORED"
  "pe_id (PaymentEvent_fail e now r) = pe_id e" "pe_status (PaymentEvent_fail e now r) = PES_FAILED"
  by (simp_all add: PaymentEvent_mark_processed_def PaymentEvent_ignore_def PaymentEvent_fail_def Let_def split: option.splits)

definition closes :: "payment_result \<Rightarrow> bool" where
  "closes r \<longleftrightarrow> r \<noteq> Rejected \<and> r \<noteq> Missing"

abbreviation "stored i \<equiv> \<lambda>s. stored_event i (d_events s)"
abbreviation "closed_if i \<equiv> \<lambda>r s. closes r \<longrightarrow> closed_event i (d_events s)"

lemma hoare_close_ret:
  assumes "pe_id e = Some i" and "pe_status e \<in> {PES_PROCESSED, PES_IGNORED}"
  shows "hoare (stored i) (bindT (payments_save_event_entity e) (\<lambda>_. retT x)) (\<lambda>_ s. closed_event i (d_events s))"
  by (rule hoare_bindT [OF hoare_close [OF assms]]) (rule hoare_retT)

lemma hoare_reject: "hoare P (reject_paid_event e now reason) (\<lambda>r s. r = Rejected)"
  unfolding reject_paid_event_def hoare_def bindT_Inr by auto

lemma hoare_book_closes:
  assumes "pe_id e = Some i"
  shows "hoare (stored i) (book_paid e ord oid att am cur now) (\<lambda>_ s. closed_event i (d_events s))"
  unfolding book_paid_def
proof (rule hoare_seq [OF frame_writes(2)], rule hoare_seq [OF preserves_pure(3)], unfold case_prod_beta, rule hoare_seq)
  show "preserves (stored i) (if fst x then bindT (settle_order (snd x) oid now) (\<lambda>sid. retT (Some sid)) else retT None)" for x
    by (intro preserves_intros)
qed (rule hoare_seq [OF frame_writes(3)], rule hoare_close_ret, simp_all add: assms)

lemma hoare_closed_if: "hoare P m (\<lambda>_ s. closed_event i (d_events s)) \<Longrightarrow> hoare P m (closed_if i)"
  by (simp add: hoare_def)

lemma hoare_rejected_if: "hoare P (reject_paid_event e now reason) (closed_if i)"
  by (rule hoare_weaken [OF hoare_reject]) (auto simp: closes_def)

lemma hoare_process_paid_rule:
  assumes "\<And>reason. hoare P (reject_paid_event ev now reason) Q"
    and "\<And>e. hoare P (bindT (payments_save_event_entity e) (\<lambda>_. retT Ignored)) Q"
    and "\<And>oid a am cur. hoare P (book_paid ev ord oid a am cur now) Q"
  shows "hoare P (process_paid ev ord att now) Q"
proof (cases "validate_paid_settlement ev att ord")
  case (Inr u)
  show ?thesis using assms unfolding process_paid_def Inr sum.case
    by (cases att; cases "po_id ord"; cases "pe_amount_minor ev"; cases "pe_currency ev")
       (simp_all add: hoare_raiseT case_prod_beta Let_def)
qed (simp add: process_paid_def assms(1))

lemma hoare_paid_closes:
  assumes "pe_id e = Some i"
  shows "hoare (stored i) (process_paid e ord att now) (closed_if i)"
proof (cases "validate_paid_settlement e att ord")
  case (Inl x)
  then show ?thesis by (simp add: process_paid_def hoare_rejected_if)
next
  case (Inr x)
  have stale: "hoare (stored i) (bindT (payments_save_event_entity (PaymentEvent_ignore e now m)) (\<lambda>_. retT Ignored)) (closed_if i)" for m
    using assms by (intro hoare_closed_if hoare_close_ret) simp_all
  show ?thesis
    using hoare_closed_if [OF hoare_book_closes [OF assms]] stale unfolding process_paid_def Inr sum.case
    by (cases att; cases "po_id ord"; cases "pe_amount_minor e"; cases "pe_currency e")
       (simp_all add: hoare_raiseT case_prod_beta Let_def)
qed

lemma hoare_finish_closes:
  assumes "pe_id e = Some i"
  shows "hoare (stored i) (finish_unsuccessful e ord st now) (\<lambda>_ s. closed_event i (d_events s))"
  unfolding finish_unsuccessful_def
proof (rule hoare_seq [OF preserves_pure(3)], unfold case_prod_beta, rule hoare_seq)
  show "preserves (stored i) (if fst x then payments_save_order_entity (snd x) else retT ())" for x
    by (intro preserves_intros)
qed (rule hoare_seq [OF preserves_pure(3)], rule hoare_seq [OF preserves_pure(3)], rule hoare_seq [OF frame_writes(8)],
     rule hoare_close, simp_all add: assms)

lemma hoare_unsuccessful_closes:
  assumes "pe_id e = Some i"
  shows "hoare (stored i) (process_unsuccessful e ord att st now) (\<lambda>_ s. closed_event i (d_events s))"
proof -
  have fin: "hoare (stored i) (bindT (payments_save_attempt_entity a) (\<lambda>_. finish_unsuccessful e ord st now))
      (\<lambda>_ s. closed_event i (d_events s))" for a
    by (rule hoare_seq [OF frame_writes(2) hoare_finish_closes [OF assms]])
  show ?thesis
    by (cases att)
       (simp_all add: process_unsuccessful_def case_prod_beta Let_def fin hoare_finish_closes assms hoare_close)
qed

lemma hoare_if: "(b \<Longrightarrow> hoare P m Q) \<Longrightarrow> (\<not> b \<Longrightarrow> hoare P n Q) \<Longrightarrow> hoare P (if b then m else n) Q"
  by simp

lemma hoare_book_refund_closes:
  assumes "pe_id e = Some i"
  shows "hoare (stored i) (book_refund e ord att amount cur now) (\<lambda>_ s. closed_event i (d_events s))"
  unfolding book_refund_def
proof (rule hoare_seq [OF preserves_pure(3)], rule hoare_seq [OF frame_writes(3)], rule hoare_seq [OF frame_reads(5)], rule hoare_seq)
  show "preserves (stored i) (if c \<ge> minor (po_amount ord) then refund_entitlement e oid now else retT None)" for c oid
    by (intro preserves_intros)
qed (rule hoare_close_ret, use assms in simp_all)

lemma hoare_refund_closes:
  assumes "pe_id e = Some i"
  shows "hoare (stored i) (process_refund e now) (\<lambda>r. closed_if i (fst r))"
proof -
  let ?Q = "\<lambda>r :: payment_result \<times> int option. closed_if i (fst r)"
  have rej: "hoare P (bindT (reject_paid_event e now reason) (\<lambda>r. retT (r, None :: int option))) ?Q" for P reason
    by (rule hoare_bindT [OF hoare_rejected_if [where i = i]]) (simp add: hoare_retT)
  have book: "hoare (stored i) (book_refund e ord att amount cur now) ?Q" for ord att amount cur
    using hoare_book_refund_closes [OF assms] by (simp add: hoare_def)
  show ?thesis
    unfolding process_refund_def Let_def
    by (intro hoare_keeps_option rej hoare_seq [OF frame_reads(2)] hoare_seq [OF frame_reads(4)])
       (cases "pe_amount_minor e"; cases "pe_currency e"; simp add: rej book)
qed

definition loaded_event :: "int \<Rightarrow> PaymentEvent \<Rightarrow> db \<Rightarrow> bool" where
  "loaded_event i e s \<longleftrightarrow> pe_id e = Some i \<and> stored i s \<and>
     (pe_status e \<in> {PES_PROCESSED, PES_IGNORED} \<longrightarrow> closed_event i (d_events s))"

lemma hoare_load_event:
  "hoare P (payments_get_event_entity i) (\<lambda>r s. case r of None \<Rightarrow> True | Some e \<Rightarrow> loaded_event i e s)"
proof (rule hoareI)
  fix s r s' assume run: "payments_get_event_entity i s = Inr (r, s')"
  show "case r of None \<Rightarrow> True | Some e \<Rightarrow> loaded_event i e s'"
  proof (cases "get_row pe_id i (d_events s)")
    case None
    then show ?thesis using run by (simp add: payments_get_event_entity_def)
  next
    case (Some e)
    then have "r = Some (PaymentEvent_post_init e)" "s' = s" using run event_loads [OF Some] by simp_all
    then show ?thesis using Some get_row_key [OF Some] by (auto simp: loaded_event_def stored_event_def closed_event_def)
  qed
qed

lemma hoare_with_event:
  assumes "hoare (\<lambda>_. True) (f None) Q"
    and "\<And>e. pe_id e = Some i \<Longrightarrow> hoare (loaded_event i e) (f (Some e)) Q"
  shows "hoare P (bindT (payments_get_event_entity i) f) Q"
proof (rule hoare_bindT [OF hoare_load_event])
  fix r :: "PaymentEvent option"
  show "hoare (\<lambda>s. case r of None \<Rightarrow> True | Some e \<Rightarrow> loaded_event i e s) (f r) Q"
  proof (cases r)
    case (Some e)
    have "hoare (loaded_event i e) (f (Some e)) Q"
      by (rule hoare_pre [where b = "pe_id e = Some i"]) (simp add: loaded_event_def, rule assms(2))
    then show ?thesis by (simp add: Some)
  qed (use assms(1) in simp)
qed

lemma hoare_loaded_stored: "hoare (stored i) m Q \<Longrightarrow> hoare (loaded_event i e) m Q"
  unfolding hoare_def loaded_event_def by blast

definition resolved_event :: "int \<Rightarrow> resolution \<Rightarrow> db \<Rightarrow> bool" where
  "resolved_event i r s \<longleftrightarrow> (case r of Done x \<Rightarrow> closed_if i x s | Context e ord att \<Rightarrow> pe_id e = Some i \<and> stored i s)"

lemma hoare_resolve_paid_event:
  assumes "pe_id e = Some i"
  shows "hoare (stored i) (resolve_paid_context e now) (resolved_event i)"
proof -
  have rej: "hoare P (bindT (reject_paid_event e now reason) (\<lambda>r. retT (Done r))) (resolved_event i)" for P reason
    by (rule hoare_bindT [OF hoare_rejected_if [where i = i]]) (simp add: hoare_retT resolved_event_def)
  have ctx: "hoare (stored i) (retT (Context e ord att)) (resolved_event i)" for ord att
    using assms by (simp add: hoare_retT resolved_event_def)
  show ?thesis
    unfolding resolve_paid_context_def Let_def
    by (intro hoare_keeps_option rej ctx hoare_seq [OF frame_reads(2)] hoare_seq [OF frame_reads(4)])
qed

lemma hoare_resolve_unpaid_event:
  assumes "pe_id e = Some i"
  shows "hoare (stored i) (resolve_unpaid_context e now) (resolved_event i)"
proof -
  have ign: "hoare (stored i) (bindT (ignore_event e now) (\<lambda>r. retT (Done r))) (resolved_event i)"
    unfolding ignore_event_def
    by (rule hoare_bindT [OF hoare_close_ret [where i = i]]) (use assms in \<open>simp_all add: hoare_retT resolved_event_def\<close>)
  have ctx: "hoare (stored i) (retT (Context e ord att)) (resolved_event i)" for ord att
    using assms by (simp add: hoare_retT resolved_event_def)
  have att: "preserves (stored i) (case pe_payment_attempt_id e of None \<Rightarrow> retT a | Some i \<Rightarrow> payments_get_attempt_entity i)"
    "preserves (stored i) (if a = None then payments_get_latest_attempt_entity oid else retT a)"
    "preserves (stored i) (resolve_order_reference e)" for a oid
    unfolding resolve_order_reference_def by (intro preserves_intros)+
  show ?thesis
    unfolding resolve_unpaid_context_def case_prod_beta
    by (intro hoare_seq [OF att(3)] hoare_keeps_option ign hoare_seq [OF frame_reads(4)] hoare_seq [OF att(1)]
        hoare_seq [OF att(2)] ctx)
qed

lemma hoare_resolve_event: "hoare P (resolve_context i now) (resolved_event i)"
  unfolding resolve_context_def
proof (rule hoare_with_event, goal_cases)
  case 1
  show ?case by (simp add: hoare_retT resolved_event_def closes_def)
next
  case (2 e)
  note ids = hoare_loaded_stored [OF hoare_resolve_paid_event [OF 2]] hoare_loaded_stored [OF hoare_resolve_unpaid_event [OF 2]]
  have "hoare (loaded_event i e) (retT (Done (AlreadyDone (pe_status e)))) (resolved_event i)"
    if "pe_status e \<in> {PES_PROCESSED, PES_IGNORED}"
    using that by (intro hoare_retT) (simp add: resolved_event_def loaded_event_def)
  with ids show ?case unfolding option.case by (intro hoare_if)
qed

lemma hoare_resolved_closes: "hoare (resolved_event i r) (process_resolved r now) (\<lambda>x. closed_if i (fst x))"
proof (cases r)
  case (Done x)
  then show ?thesis by (simp add: process_resolved_def hoare_def resolved_event_def)
next
  case (Context e ord att)
  have "hoare (stored i) (process_resolved r now) (\<lambda>x. closed_if i (fst x))" if id: "pe_id e = Some i"
  proof -
    have paid: "hoare (stored i) (bindT (process_paid e ord att now) (\<lambda>r. retT (r, f r))) (\<lambda>x. closed_if i (fst x))" for f :: "payment_result \<Rightarrow> job list"
      by (rule hoare_bindT [OF hoare_paid_closes [OF id]]) (simp add: hoare_def)
    have unp: "hoare (stored i) (bindT (process_unsuccessful e ord att st now) (\<lambda>_. retT x)) (\<lambda>x. closed_if i (fst x))" for st and x :: handler_result
      by (rule hoare_bindT [OF hoare_unsuccessful_closes [OF id]]) (simp add: hoare_def)
    have ign: "hoare (stored i) (bindT (payments_save_event_entity (PaymentEvent_ignore e now None)) (\<lambda>_. retT x)) (\<lambda>x. closed_if i (fst x))"
      for x :: handler_result
      using hoare_close_ret [of "PaymentEvent_ignore e now None" i x] id by (simp add: hoare_def)
    show ?thesis using paid unp ign by (simp add: process_resolved_def Context Let_def)
  qed
  then show ?thesis by (auto simp: hoare_def resolved_event_def Context)
qed

lemma hoare_process_payment_closes: "hoare P (process_payment_tx i now) (\<lambda>x. closed_if i (fst x))"
  unfolding process_payment_tx_def
proof (rule hoare_with_event, goal_cases)
  case 1
  show ?case by (simp add: hoare_def closes_def)
next
  case (2 e)
  have closed: "hoare (loaded_event i e) (retT (AlreadyDone (pe_status e), [])) (\<lambda>x. closed_if i (fst x))"
    if "pe_status e \<in> {PES_PROCESSED, PES_IGNORED}" using that by (simp add: hoare_def loaded_event_def)
  have refund: "hoare (loaded_event i e) (bindT (process_refund e now) (\<lambda>(result, revoke_id).
          retT (result, case revoke_id of None \<Rightarrow> [] | Some i \<Rightarrow> [REVOKE_VPN_CONFIGURATION i EXPIRATION]))) (\<lambda>x. closed_if i (fst x))"
    by (rule hoare_loaded_stored, rule hoare_bindT [OF hoare_refund_closes [OF 2]]) (simp add: hoare_def split: prod.splits)
  have other: "hoare (loaded_event i e) (bindT (resolve_context i now) (\<lambda>r. process_resolved r now)) (\<lambda>x. closed_if i (fst x))"
    by (rule hoare_bindT [OF hoare_resolve_event hoare_resolved_closes])
  show ?case unfolding option.case by (intro hoare_if closed refund other)
qed

section \<open>Properties\<close>

text \<open>C12. Redelivery: once a payment event was handled (processed or ignored), handling the same event again, at any
  time and any number of times, changes nothing in the database and enqueues nothing.\<close>

theorem handled_event_is_never_replayed:
  assumes "ProcessPayment_execute i now s = (Inr (r, jobs), s')" and "r \<noteq> Rejected" and "r \<noteq> Missing"
  shows "\<exists>st. ProcessPayment_execute i later s' = (Inr (AlreadyDone st, []), s')"
proof -
  have run: "process_payment_tx i now s = Inr ((r, jobs), s')"
    using assms(1) unfolding ProcessPayment_execute_def run_uow_Inr .
  have "closed_event i (d_events s')"
    using hoareD [OF hoare_process_payment_closes [of "\<lambda>_. True"] _ run] assms(2,3) by (simp add: closes_def)
  then obtain e where e: "get_row pe_id i (d_events s') = Some e" "pe_status e \<in> {PES_PROCESSED, PES_IGNORED}"
    by (cases "get_row pe_id i (d_events s')") (auto simp: closed_event_def)
  then have "process_payment_tx i later s' = Inr ((AlreadyDone (pe_status e), []), s')"
    by (simp add: process_payment_tx_def bindT_def event_loads [OF e(1)])
  then show ?thesis by (auto simp: ProcessPayment_execute_def run_uow_def)
qed

lemma sample_event_run:
  "\<exists>sid s'. ProcessPayment_execute 1 10 (sample_shop [sample_event]) = (Inr (Processed (Some sid), [PROVISION_SUBSCRIPTION sid]), s')"
proof -
  have inv: "pay_inv (sample_shop [sample_event])"
    by (rule sample_shop_inv) (simp_all add: table_wf_def events_constraints_def sample_event_def)
  then have oi: "orders_inv (d_orders (sample_shop [sample_event]))" by (simp add: pay_inv_def pay_inv_except_def)
  let ?s = "sample_shop [sample_event]" and ?e = "PaymentEvent_post_init sample_event"
  let ?a = "pending_attempt\<lparr>pa_status := PS_PAID, pa_payload := []\<rparr>"
  have "get_row pa_id 1 (d_attempts ?s) = Some pending_attempt" "get_row po_id 1 (d_orders ?s) = Some sample_order"
    "accepted_attempt pending_attempt ?a" "activation_time_ok ?s (po_user_id sample_order) 10" "pe_id ?e = Some 1"
    "po_status sample_order \<noteq> PS_PAID"
    by (simp_all add: sample_shop_def get_row_def pending_attempt_def sample_attempt_def sample_order_def accepted_attempt_def
        activation_time_ok_def empty_db_def empty_table_def sample_event_def)
  then obtain sid s' where book: "book_paid ?e sample_order 1 ?a 19900 ''RUB'' 10 ?s = Inr (Processed (Some sid), s')"
    using book_paid_ok [OF inv, of 1 pending_attempt ?a 1 sample_order ?e 1 19900 10 "''RUB''"] by auto
  have "PaymentAttempt_apply_provider_status pending_attempt PS_PAID None None (Some (pe_payload ?e)) = (PTR_APPLIED, ?a)"
    by (simp add: PaymentAttempt_apply_provider_status_def pending_attempt_def Let_def PaymentEvent_post_init_def
        sample_event_def strip_samples)
  then have "process_paid ?e sample_order (Some pending_attempt) 10 ?s = Inr (Processed (Some sid), s')"
    using book by (simp add: process_paid_def sample_paid_event(2))
      (simp add: sample_order_def PaymentEvent_post_init_def sample_event_def strip_samples)
  then show ?thesis
    by (simp add: ProcessPayment_execute_def run_uow_def open_paid_event_run [OF oi sample_paid_event(1)] bindT_def)
qed

theorem handled_event_is_never_replayed_witness:
  "\<exists>sid s' st. ProcessPayment_execute 1 10 (sample_shop [sample_event]) = (Inr (Processed (Some sid), [PROVISION_SUBSCRIPTION sid]), s') \<and>
     ProcessPayment_execute 1 99 s' = (Inr (AlreadyDone st, []), s')"
proof -
  obtain sid s' where run: "ProcessPayment_execute 1 10 (sample_shop [sample_event]) =
      (Inr (Processed (Some sid), [PROVISION_SUBSCRIPTION sid]), s')" using sample_event_run by blast
  with handled_event_is_never_replayed [OF run, of 99] show ?thesis by auto
qed

text \<open>C13. A paid event that fails the settlement rule (wrong provider, order, payment id, amount or currency) is
  rejected: nothing is enqueued and of the whole database only that event's status, error text and processing time
  change.\<close>

theorem mismatched_payment_rejected:
  assumes "pay_inv s" and "open_paid_event s i e att ord"
    and "validate_paid_settlement (PaymentEvent_post_init e) (Some att) ord = Inl err"
  shows "ProcessPayment_execute i now s = (Inr (Rejected, []), s\<lparr>d_events := update_row pe_id i
     (\<lambda>r. r\<lparr>pe_status := PES_FAILED, pe_error_message := Some (''payment settlement rejected: '' @ error_text err),
            pe_processed_at := Some now\<rparr>) (d_events s)\<rparr>)"
proof -
  have c: "orders_inv (d_orders s)" "events_constraints (d_events s)"
    using assms(1) by (simp_all add: pay_inv_def pay_inv_except_def)
  have "get_row pe_id i (d_events s) = Some e" using assms(2) by (simp add: open_paid_event_def)
  then have id: "pe_id (PaymentEvent_fail (PaymentEvent_post_init e) now m) = Some i" for m using get_row_key [of pe_id i "d_events s" e] by simp
  show ?thesis
    by (simp add: ProcessPayment_execute_def run_uow_def open_paid_event_run [OF c(1) assms(2)] bindT_def process_paid_def
        assms(3) reject_paid_event_def save_event_ok [OF c(2) id])
       (simp add: PaymentEvent_fail_def)
qed

definition cheap_event :: PaymentEvent where
  "cheap_event = sample_event\<lparr>pe_amount_minor := Some 1\<rparr>"

theorem mismatched_payment_rejected_witness:
  "\<exists>s'. ProcessPayment_execute 1 10 (sample_shop [cheap_event]) = (Inr (Rejected, []), s') \<and>
     d_periods s' = d_periods (sample_shop [cheap_event]) \<and> d_orders s' = d_orders (sample_shop [cheap_event])"
proof -
  have inv: "pay_inv (sample_shop [cheap_event])"
    by (rule sample_shop_inv) (simp_all add: table_wf_def events_constraints_def cheap_event_def sample_event_def)
  have op: "open_paid_event (sample_shop [cheap_event]) 1 cheap_event pending_attempt sample_order"
    and v: "validate_paid_settlement (PaymentEvent_post_init cheap_event) (Some pending_attempt) sample_order =
       Inl (PaymentInvariantViolation ''payment amount mismatch'')"
    by (simp_all add: open_paid_event_def sample_shop_def cheap_event_def sample_event_def pending_attempt_def sample_attempt_def
        sample_order_def get_row_def PaymentEvent_normalized_payment_status_def PaymentEvent_post_init_def
        validate_paid_settlement_def strip_samples or_else_def Let_def)
  from mismatched_payment_rejected [OF inv op v, of 10] show ?thesis by simp
qed

section \<open>Second payments and refunds\<close>

lemma entitlement_frame [preserves_intros]:
  "preserves (\<lambda>s. Q (d_orders s) (d_subs s) (d_periods s)) (payments_save_attempt_entity att)"
  "preserves (\<lambda>s. Q (d_orders s) (d_subs s) (d_periods s)) (payments_create_provider_transaction o1 a1 pr ty k st am cu pl)"
  "preserves (\<lambda>s. Q (d_orders s) (d_subs s) (d_periods s)) (payments_save_event_entity e)"
  "preserves (\<lambda>s. Q (d_orders s) (d_subs s) (d_periods s)) (audit_append n agg i pl)"
  unfolding payments_save_attempt_entity_def payments_create_provider_transaction_def payments_save_event_entity_def
    audit_append_def put_attempts_def put_txns_def put_events_def put_audit_def
  by (intro preserves_intros preserves_writeT, simp)+

text \<open>A paid order is settled once: a further paid event for it, even with a new event key, never changes orders,
  subscriptions or periods and never enqueues a provisioning, whether the handler returns or raises.\<close>

theorem paid_order_not_settled_twice:
  assumes "pay_inv s" and "open_paid_event s i e att ord" and "po_status ord = PS_PAID"
  shows "d_orders (snd (ProcessPayment_execute i now s)) = d_orders s \<and>
         d_subs (snd (ProcessPayment_execute i now s)) = d_subs s \<and>
         d_periods (snd (ProcessPayment_execute i now s)) = d_periods s \<and>
         (case fst (ProcessPayment_execute i now s) of Inl _ \<Rightarrow> True | Inr (_, jobs) \<Rightarrow> jobs = [])"
proof (cases "process_payment_tx i now s")
  case (Inl err)
  then show ?thesis by (simp add: ProcessPayment_execute_def run_uow_def)
next
  case (Inr v)
  obtain r jobs s' where v: "v = ((r, jobs), s')" by (metis prod.collapse)
  have oi: "orders_inv (d_orders s)" using assms(1) by (simp add: pay_inv_def pay_inv_except_def)
  let ?e = "PaymentEvent_post_init e"
  let ?m = "process_paid ?e ord (Some att) now"
  have "\<exists>x. ?m s = Inr (x, s') \<and> jobs = (case x of Processed (Some sid) \<Rightarrow> [PROVISION_SUBSCRIPTION sid] | _ \<Rightarrow> [])"
    using Inr unfolding v open_paid_event_run [OF oi assms(2)] bindT_Inr by auto
  then obtain x where x: "?m s = Inr (x, s')" and jobs: "jobs = (case x of Processed (Some sid) \<Rightarrow> [PROVISION_SUBSCRIPTION sid] | _ \<Rightarrow> [])"
    by blast
  have mp: "PaymentOrder_mark_paid ord now = Inr (False, ord)" using assms(3) by (simp add: PaymentOrder_mark_paid_def)
  let ?P = "\<lambda>t. (d_orders t, d_subs t, d_periods t) = (d_orders s, d_subs s, d_periods s)"
  have book: "hoare ?P (book_paid ?e ord oid a am cur now) (\<lambda>r t. ?P t \<and> (\<forall>sid. r \<noteq> Processed (Some sid)))" for oid a am cur
    unfolding book_paid_def mp liftT_Inr bindT_retT prod.case if_False
    by (rule hoare_seq [OF entitlement_frame(1)], rule hoare_seq [OF entitlement_frame(2)], rule hoare_seq [OF entitlement_frame(3)],
        rule hoare_retT) simp
  have rej: "hoare ?P (reject_paid_event ?e now reason) (\<lambda>r t. ?P t \<and> (\<forall>sid. r \<noteq> Processed (Some sid)))" for reason
    unfolding reject_paid_event_def by (rule hoare_seq [OF entitlement_frame(3)], rule hoare_retT) simp
  have ign: "hoare ?P (bindT (payments_save_event_entity e') (\<lambda>_. retT Ignored)) (\<lambda>r t. ?P t \<and> (\<forall>sid. r \<noteq> Processed (Some sid)))" for e'
    by (rule hoare_seq [OF entitlement_frame(3)], rule hoare_retT) simp
  have "hoare ?P ?m (\<lambda>r t. ?P t \<and> (\<forall>sid. r \<noteq> Processed (Some sid)))"
    by (rule hoare_process_paid_rule [OF rej ign book])
  from hoareD [OF this refl x] have "?P s' \<and> (\<forall>sid. x \<noteq> Processed (Some sid))" .
  then show ?thesis
    using Inr jobs by (auto simp: ProcessPayment_execute_def run_uow_def v split: payment_result.splits option.splits)
qed

text \<open>A database in which the sample order is paid and has its period.\<close>

definition settled_shop :: "PaymentEvent list \<Rightarrow> db" where
  "settled_shop evs = (empty_db 10)\<lparr>d_orders := \<lparr>rows = [sample_order\<lparr>po_status := PS_PAID\<rparr>], next_id = 2\<rparr>,
     d_attempts := \<lparr>rows = [pending_attempt\<lparr>pa_status := PS_PAID\<rparr>], next_id = 2\<rparr>, d_events := \<lparr>rows = evs, next_id = 4\<rparr>,
     d_subs := \<lparr>rows = [\<lparr>su_id = Some 1, su_user_id = 1, su_tariff_id = 1, su_status = SS_ACTIVE, su_created_at = 10, su_ended_at = None\<rparr>],
       next_id = 2\<rparr>,
     d_periods := \<lparr>rows = [\<lparr>sp_id = Some 1, sp_subscription_id = Some 1, sp_starts_at = 10, sp_expires_at = 10 + days 30,
       sp_is_paid = True, sp_created_at = 10, sp_payment_order_id = Some 1\<rparr>], next_id = 2\<rparr>\<rparr>"

lemma settled_shop_inv:
  assumes "table_wf pe_id \<lparr>rows = evs, next_id = 4\<rparr>" "events_constraints \<lparr>rows = evs, next_id = 4\<rparr>"
  shows "pay_inv (settled_shop evs)"
proof -
  have "orders_inv \<lparr>rows = [sample_order\<lparr>po_status := PS_PAID\<rparr>], next_id = 2\<rparr>"
    by (simp add: orders_inv_def table_wf_def orders_constraints_def order_check_def order_row_ok_iff sample_order_def
        strip_samples money_wf_iff)
  then show ?thesis
    using assms
    by (simp add: pay_inv_def pay_inv_except_def settled_shop_def empty_db_def empty_table_def table_wf_def
        attempts_constraints_def pending_attempt_def sample_attempt_def strip_samples txns_constraints_def subs_inv_def
        subs_constraints_def sub_check_def subscription_wf_iff periods_inv_def periods_constraints_def period_check_def days_def
        linked_except_def paid_order_def has_period_def get_row_def sample_order_def)
qed

theorem paid_order_not_settled_twice_witness:
  "d_periods (snd (ProcessPayment_execute 1 20 (settled_shop [sample_event]))) = d_periods (settled_shop [sample_event]) \<and>
   po_status (sample_order\<lparr>po_status := PS_PAID\<rparr>) = PS_PAID"
proof -
  have inv: "pay_inv (settled_shop [sample_event])"
    by (rule settled_shop_inv) (simp_all add: table_wf_def events_constraints_def sample_event_def)
  have op: "open_paid_event (settled_shop [sample_event]) 1 sample_event (pending_attempt\<lparr>pa_status := PS_PAID\<rparr>) (sample_order\<lparr>po_status := PS_PAID\<rparr>)"
    by (simp add: open_paid_event_def settled_shop_def sample_event_def pending_attempt_def sample_attempt_def sample_order_def
      get_row_def PaymentEvent_normalized_payment_status_def PaymentEvent_post_init_def strip_samples Let_def)
  from paid_order_not_settled_twice [OF inv op, of 20] show ?thesis by simp
qed

text \<open>Refunds.\<close>

definition refunded :: "db \<Rightarrow> int \<Rightarrow> string \<Rightarrow> int" where
  "refunded s oid provider = sum_list (map tx_amount_minor (select_rows (\<lambda>x. tx_payment_order_id x = oid \<and>
     tx_provider x = provider \<and> tx_transaction_type x = ''refund_succeeded'' \<and> tx_transaction_status x = ''succeeded'') (d_txns s)))"

definition withdrawn :: "int \<Rightarrow> int option \<Rightarrow> SubscriptionPeriod table \<Rightarrow> bool" where
  "withdrawn oid sid t \<longleftrightarrow>
     list_all (\<lambda>p. sp_payment_order_id p = Some oid \<longrightarrow> \<not> sp_is_paid p \<and> sp_subscription_id p = sid) (rows t)"

text \<open>A subscription without a paid period that ends in the future is over.\<close>

definition ended_if_unfunded :: "int option \<Rightarrow> time \<Rightarrow> db \<Rightarrow> bool" where
  "ended_if_unfunded sid now s \<longleftrightarrow>
     list_ex (\<lambda>p. sp_subscription_id p = sid \<and> sp_is_paid p \<and> sp_expires_at p > now) (rows (d_periods s)) \<or>
     list_all (\<lambda>r. su_id r = sid \<longrightarrow> su_status r = SS_ENDED) (rows (d_subs s))"

text \<open>What else holds then: the other periods stay, and so does every subscription but the ended one, which ends only when it is not
  funded; the configuration to revoke is the active one of the subscription, if no current period is left.\<close>

definition spared :: "int \<Rightarrow> int option \<Rightarrow> time \<Rightarrow> db \<Rightarrow> db \<Rightarrow> bool" where
  "spared oid sid now s s' \<longleftrightarrow>
     (\<forall>q\<in>set (rows (d_periods s)). sp_payment_order_id q \<noteq> Some oid \<longrightarrow> q \<in> set (rows (d_periods s'))) \<and>
     (\<forall>u\<in>set (rows (d_subs s)).
        su_id u \<noteq> sid \<or> list_ex (\<lambda>p. sp_subscription_id p = sid \<and> sp_is_paid p \<and> sp_expires_at p > now) (rows (d_periods s')) \<longrightarrow>
        u \<in> set (rows (d_subs s')))"

definition access_to_revoke :: "int option \<Rightarrow> time \<Rightarrow> db \<Rightarrow> int option" where
  "access_to_revoke sid now s =
     (case sid of
        None \<Rightarrow> None
      | Some k \<Rightarrow>
          if current_periods k now s \<noteq> [] then None
          else case find_row (\<lambda>v. vc_subscription_id v = k \<and> vc_status v = VS_ACTIVE) (d_vpns s) of
                 None \<Rightarrow> None
               | Some c \<Rightarrow> vc_id c)"

lemma access_to_revoke_cong:
  "d_periods s' = d_periods s \<Longrightarrow> d_vpns s' = d_vpns s \<Longrightarrow> access_to_revoke sid now s' = access_to_revoke sid now s"
  by (cases sid) (simp_all add: access_to_revoke_def current_periods_def)

lemma vpn_to_revoke_result:
  assumes "vpn_to_revoke k now s = Inr (rid, s')"
  shows "s' = s \<and> rid = access_to_revoke (Some k) now s"
proof -
  have row: "vpn_configuration_from_row r = Inr c \<Longrightarrow> c = r" for r c
    by (auto simp: vpn_configuration_from_row_def VpnConfiguration_post_init_def bindE_eq_Inr)
  show ?thesis
  proof (cases "top_by sp_expires_at (current_periods k now s)")
    case None
    then have "current_periods k now s = []" by simp
    then show ?thesis
      using assms None
      by (auto simp: vpn_to_revoke_def access_to_revoke_def subscriptions_get_current_period_entity_def vpn_get_active_entity_for_subscription_def
          bindT_Inr entityT_Inr_iff dest!: row split: option.splits)
  next
    case (Some p)
    then have "current_periods k now s \<noteq> []" by auto
    then show ?thesis
      using assms Some
      by (auto simp: vpn_to_revoke_def access_to_revoke_def subscriptions_get_current_period_entity_def bindT_Inr entityT_Inr_iff)
  qed
qed

lemma process_refund_booked:
  assumes oi: "orders_inv (d_orders s)" and run: "process_refund e now s = Inr ((Processed x, rid), s')"
  obtains a att ord amount cur where "pe_payment_attempt_id e = Some a" and "get_row pa_id a (d_attempts s) = Some att"
    and "get_row po_id (pa_payment_order_id att) (d_orders s) = Some ord" and "pe_amount_minor e = Some amount" and "0 < amount"
    and "book_refund e ord att amount cur now s = Inr ((Processed x, rid), s')"
proof -
  have rej: "\<not> bindT (reject_paid_event e now reason) (\<lambda>r. retT (r, None)) s = Inr ((Processed x, rid), s')" for reason s
    by (auto simp: bindT_Inr reject_paid_event_def)
  show ?thesis
  proof (cases "pe_payment_attempt_id e")
    case (Some a)
    show ?thesis
    proof (cases "get_row pa_id a (d_attempts s)")
      case None
      have "payments_get_attempt_entity a s = Inr (None, s)" using None by (simp add: payments_get_attempt_entity_def)
      then show ?thesis using run Some rej by (simp add: process_refund_def bindT_def)
    next
      case att: (Some att)
      show ?thesis
      proof (cases "get_row po_id (pa_payment_order_id att) (d_orders s)")
        case None
        have "payments_get_order_entity (pa_payment_order_id att) s = Inr (None, s)"
          using None by (simp add: payments_get_order_entity_def payments_get_order_def)
        then have "bindT (reject_paid_event e now ''refund payment order is missing'') (\<lambda>r. retT (r, None)) s = Inr ((Processed x, rid), s')"
          using run by (simp add: process_refund_def Some Let_def bindT_def [where s = s] attempt_loads [OF att])
        then show ?thesis using rej by blast
      next
        case ord: (Some ord)
        note load = attempt_loads [OF att] order_loads [OF oi ord]
        show ?thesis
        proof (cases "pe_amount_minor e"; cases "pe_currency e")
          fix amount cur assume money: "pe_amount_minor e = Some amount" "pe_currency e = Some cur"
          have "(if amount \<le> 0 then bindT (reject_paid_event e now ''refund amount/currency is missing'') (\<lambda>r. retT (r, None))
             else if upper (strip cur) \<noteq> currency (po_amount ord) \<or> amount > minor (po_amount ord)
             then bindT (reject_paid_event e now ''refund amount/currency does not match order'') (\<lambda>r. retT (r, None))
             else book_refund e ord att amount cur now) s = Inr ((Processed x, rid), s')"
            using run unfolding process_refund_def Some Let_def by (simp add: bindT_def [where s = s] load money)
          then have "0 < amount" "book_refund e ord att amount cur now s = Inr ((Processed x, rid), s')"
            using rej by (auto split: if_splits)
          then show ?thesis using that Some att ord money by blast
        qed (use run rej [of "''refund amount/currency is missing''" s] in
             \<open>simp_all add: process_refund_def Some Let_def bindT_def [where s = s] load\<close>)
      qed
    qed
  qed (use run rej in \<open>simp add: process_refund_def\<close>)
qed

lemma periods_frame [preserves_intros]:
  "preserves (\<lambda>s. Q (d_periods s)) (subscriptions_save_entity sub)"
  unfolding subscriptions_save_entity_def put_subs_def by (intro preserves_intros preserves_writeT) simp

lemma save_period_unfunded:
  assumes inv: "periods_inv (d_periods s)" and p: "p \<in> set (rows (d_periods s))" "sp_payment_order_id p = Some oid"
    and run: "subscriptions_save_period_entity (p\<lparr>sp_is_paid := False\<rparr>) s = Inr (x, s')"
  shows "withdrawn oid (sp_subscription_id p) (d_periods s') \<and> d_subs s' = d_subs s \<and> d_vpns s' = d_vpns s \<and>
    (\<forall>q\<in>set (rows (d_periods s)). sp_payment_order_id q \<noteq> Some oid \<longrightarrow> q \<in> set (rows (d_periods s')))"
proof -
  have wf: "table_wf sp_id (d_periods s)" using inv by (simp add: periods_inv_def)
  obtain i where i: "sp_id p = Some i" using periods_tab.wf_row_range [OF wf p(1)] by blast
  let ?t = "update_row sp_id i (\<lambda>r. r\<lparr>sp_is_paid := False, sp_payment_order_id := sp_payment_order_id p\<rparr>) (d_periods s)"
  have s': "s' = s\<lparr>d_periods := ?t\<rparr>"
    using run by (auto simp: subscriptions_save_period_entity_def i put_periods_def writeT_Inr_iff)
  have inj: "inj_on sp_payment_order_id (set (filter (\<lambda>r. sp_payment_order_id r \<noteq> None) (rows (d_periods s))))"
    using inv by (simp add: periods_inv_def periods_constraints_def distinct_map)
  have by_order: "r = p" if "r \<in> set (rows (d_periods s))" "sp_payment_order_id r = Some oid" for r
    using inj_onD [OF inj, of r p] that p by simp
  have by_id: "r = p" if "r \<in> set (rows (d_periods s))" "sp_id r = Some i" for r
    using periods_tab.wf_unique [OF wf that(1) p(1)] that(2) i by simp
  have "\<not> sp_is_paid q \<and> sp_subscription_id q = sp_subscription_id p"
    if q: "q \<in> set (rows ?t)" "sp_payment_order_id q = Some oid" for q
  proof -
    obtain r where r: "r \<in> set (rows (d_periods s))" "q = (if sp_id r = Some i
        then r\<lparr>sp_is_paid := False, sp_payment_order_id := sp_payment_order_id p\<rparr> else r)" using q(1) by auto
    show ?thesis
    proof (cases "sp_id r = Some i")
      case True
      then show ?thesis using by_id [OF r(1)] r(2) by simp
    next
      case False
      then show ?thesis using by_order [OF r(1)] r(2) q(2) i by simp
    qed
  qed
  then have "withdrawn oid (sp_subscription_id p) ?t" by (simp add: withdrawn_def list_all_iff del: rows_update_row)
  moreover have "q \<in> set (rows ?t)" if q: "q \<in> set (rows (d_periods s))" "sp_payment_order_id q \<noteq> Some oid" for q
  proof -
    have "sp_id q \<noteq> Some i" using by_id [OF q(1)] q(2) p(2) by auto
    then show ?thesis using q(1) by force
  qed
  ultimately show ?thesis by (simp add: s' del: rows_update_row)
qed

lemma expire_if_unfunded_ends:
  assumes sub: "sub = get_row su_id sid (d_subs s)"
    and run: "expire_if_unfunded sub sid now s = Inr (x, s')"
  shows "ended_if_unfunded (Some sid) now s' \<and> d_periods s' = d_periods s \<and> spared oid (Some sid) now s s'"
proof (cases "get_row su_id sid (d_subs s)")
  case None
  then have "s' = s" using run sub by (simp add: expire_if_unfunded_def)
  then show ?thesis using None by (simp add: ended_if_unfunded_def spared_def get_row_None list_all_iff)
next
  case (Some sb)
  then have id: "su_id sb = Some sid" using get_row_key by metis
  show ?thesis
  proof (cases "list_ex (\<lambda>p. sp_subscription_id p = Some sid \<and> sp_is_paid p \<and> sp_expires_at p > now) (rows (d_periods s))")
    case True
    then show ?thesis using run sub Some
      by (simp add: expire_if_unfunded_def subscriptions_has_funded_period_after_def ended_if_unfunded_def spared_def)
  next
    case False
    let ?n = "Subscription_expire sb now"
    have n: "su_id ?n = Some sid" "su_status ?n = SS_ENDED" using id by (simp_all add: Subscription_expire_def)
    have "subscriptions_save_entity ?n s = Inr (x, s')"
      using run sub Some False by (simp add: expire_if_unfunded_def subscriptions_has_funded_period_after_def)
    then have "s' = s\<lparr>d_subs := update_row su_id sid (\<lambda>r. r\<lparr>su_tariff_id := su_tariff_id ?n, su_status := SS_ENDED,
        su_ended_at := su_ended_at ?n\<rparr>) (d_subs s)\<rparr>"
      by (simp add: subscriptions_save_entity_def n put_subs_def writeT_Inr_iff)
    then show ?thesis using False by (auto simp: ended_if_unfunded_def spared_def list_all_iff intro!: image_eqI)
  qed
qed

lemma sub_loads:
  assumes "subs_inv (d_subs s)"
  shows "subscriptions_get_entity i s = Inr (get_row su_id i (d_subs s), s)"
proof (cases "get_row su_id i (d_subs s)")
  case (Some a)
  then have "subscription_wf a" using assms get_row_key [OF Some] by (simp add: subs_inv_def list_all_iff)
  then have "subscription_from_row a = Inr a" by (simp add: subscription_from_row_iff)
  then show ?thesis using Some by (simp add: subscriptions_get_entity_def entityT_def)
qed (simp add: subscriptions_get_entity_def)

lemma withdraw_period_effect:
  assumes inv: "pay_inv s" and p: "p \<in> set (rows (d_periods s))" "sp_payment_order_id p = Some oid"
    and run: "withdraw_period p now s = Inr (rid, s')"
  shows "withdrawn oid (sp_subscription_id p) (d_periods s') \<and> ended_if_unfunded (sp_subscription_id p) now s' \<and>
     spared oid (sp_subscription_id p) now s s' \<and> rid = access_to_revoke (sp_subscription_id p) now s'"
proof -
  have pi: "periods_inv (d_periods s)" and si: "subs_inv (d_subs s)" using inv by (simp_all add: pay_inv_def pay_inv_except_def)
  obtain x s1 where s1: "subscriptions_save_period_entity (p\<lparr>sp_is_paid := False\<rparr>) s = Inr (x, s1)"
    and rest: "bindT (liftT (require (TypeError ''period.subscription_id'') (sp_subscription_id p))) (\<lambda>sid.
     bindT (subscriptions_get_entity sid) (\<lambda>sub.
     bindT (vpn_to_revoke sid now) (\<lambda>revoke_id.
     bindT (expire_if_unfunded sub sid now) (\<lambda>_.
     retT revoke_id)))) s1 = Inr (rid, s')"
    using run unfolding withdraw_period_def bindT_Inr by blast
  note w = save_period_unfunded [OF pi p s1]
  have si1: "subs_inv (d_subs s1)" using w si by simp
  obtain sid where sid: "sp_subscription_id p = Some sid" using rest by (cases "sp_subscription_id p") simp_all
  have "bindT (vpn_to_revoke sid now) (\<lambda>revoke_id. bindT (expire_if_unfunded (get_row su_id sid (d_subs s1)) sid now) (\<lambda>_.
     retT revoke_id)) s1 = Inr (rid, s')"
    using rest by (simp add: sid bindT_def [where s = s1] sub_loads [OF si1])
  then obtain s2 z where v: "vpn_to_revoke sid now s1 = Inr (rid, s2)"
    and ex: "expire_if_unfunded (get_row su_id sid (d_subs s1)) sid now s2 = Inr (z, s')"
    unfolding bindT_Inr by auto
  note found = vpn_to_revoke_result [OF v]
  have ends: "ended_if_unfunded (Some sid) now s' \<and> d_periods s' = d_periods s1 \<and> spared oid (Some sid) now s1 s'"
    using expire_if_unfunded_ends [OF refl] ex found by blast
  have "preserves (\<lambda>t. d_vpns t = d_vpns s1) (expire_if_unfunded (get_row su_id sid (d_subs s1)) sid now)"
    unfolding expire_if_unfunded_def subscriptions_save_entity_def put_subs_def by (intro preserves_intros preserves_writeT) simp
  from preservesD [OF this _ ex] have "d_vpns s' = d_vpns s1" using found by simp
  then have "rid = access_to_revoke (Some sid) now s'"
    using found ends by (simp add: access_to_revoke_def current_periods_def)
  then show ?thesis using w sid ends by (simp add: spared_def)
qed

lemma refund_entitlement_effect:
  assumes inv: "pay_inv s" and run: "refund_entitlement e oid now s = Inr (rid, s')"
  shows "\<exists>sid. withdrawn oid sid (d_periods s') \<and> ended_if_unfunded sid now s' \<and> spared oid sid now s s' \<and> rid = access_to_revoke sid now s'"
proof -
  obtain r s1 where ld: "subscriptions_get_period_by_payment_order_id oid s = Inr (r, s1)"
    and rest: "(case r of None \<Rightarrow> bindT (audit_append REFUND_ENTITLEMENT_RECONCILIATION_REQUIRED AGG_PAYMENT_ORDER oid
                  [(''payment_order_id'', JInt oid), (''refund_event_key'', JStr (pe_event_key e))]) (\<lambda>_. retT None)
     | Some p \<Rightarrow> withdraw_period p now) s1 = Inr (rid, s')"
    using run unfolding refund_entitlement_def bindT_Inr by blast
  show ?thesis
  proof (cases r)
    case None
    have s1: "s1 = s" and fr: "find_row (\<lambda>p. sp_payment_order_id p = Some oid) (d_periods s) = None"
      using ld None by (simp_all add: subscriptions_get_period_by_payment_order_id_def entityT_Inr_iff split: option.splits)
    have same: "d_periods s' = d_periods s" "d_subs s' = d_subs s"
      using rest None by (auto simp: s1 bindT_Inr audit_append_def put_audit_def)
    have wf: "table_wf su_id (d_subs s)" using inv by (simp add: pay_inv_def pay_inv_except_def subs_inv_def)
    have "su_id r \<noteq> None" if "r \<in> set (rows (d_subs s))" for r
      by (rule subs_tab.wf_row_range [OF wf that]) simp
    then have "ended_if_unfunded None now s'" unfolding ended_if_unfunded_def list_all_iff same by metis
    moreover have "withdrawn oid None (d_periods s')"
      using find_row_NoneD [OF fr] by (simp add: withdrawn_def list_all_iff same)
    moreover have "spared oid None now s s'" by (simp add: spared_def same)
    moreover have "rid = access_to_revoke None now s'" using rest None by (auto simp: access_to_revoke_def bindT_Inr)
    ultimately show ?thesis by blast
  next
    case (Some p)
    note pl = period_loaded [OF ld [unfolded Some]]
    have "withdraw_period p now s = Inr (rid, s')" using rest pl(2) by (simp add: Some)
    then show ?thesis using withdraw_period_effect [OF inv pl(1,3)] by blast
  qed
qed

lemma txns_frame [preserves_intros]:
  "preserves (\<lambda>s. Q (d_txns s)) (subscriptions_save_entity sub)"
  "preserves (\<lambda>s. Q (d_txns s)) (subscriptions_save_period_entity p)"
  "preserves (\<lambda>s. Q (d_txns s)) (audit_append n agg i pl)"
  "preserves (\<lambda>s. Q (d_txns s)) (payments_save_event_entity e)"
  unfolding subscriptions_save_entity_def subscriptions_save_period_entity_def audit_append_def payments_save_event_entity_def
    put_subs_def put_periods_def put_audit_def put_events_def
  by (intro preserves_intros preserves_writeT, simp)+

lemma refund_entitlement_txns:
  assumes "refund_entitlement e oid now s = Inr (rid, s')"
  shows "d_txns s' = d_txns s"
proof -
  have "preserves (\<lambda>t. d_txns t = d_txns s) (refund_entitlement e oid now)"
    unfolding refund_entitlement_def withdraw_period_def vpn_to_revoke_def expire_if_unfunded_def
    by (intro preserves_intros)
  from preservesD [OF this refl assms] show ?thesis .
qed

lemma save_event_txns: "payments_save_event_entity e s = Inr (x, s') \<Longrightarrow> d_txns s' = d_txns s"
  by (rule preservesD [OF txns_frame(4) refl])

lemma book_refund_effect:
  assumes inv: "pay_inv s" and oid: "po_id ord = Some oid"
    and run: "book_refund e ord att amount cur now s = Inr ((Processed x, rid), s')"
  shows "if refunded s' oid (pe_provider e) < minor (po_amount ord)
     then d_periods s' = d_periods s \<and> d_subs s' = d_subs s \<and> rid = None
     else \<exists>sid. withdrawn oid sid (d_periods s') \<and> ended_if_unfunded sid now s' \<and> spared oid sid now s s' \<and>
       rid = access_to_revoke sid now s'"
proof -
  let ?tx = "payments_create_provider_transaction oid (pa_id att) (pe_provider e) ''refund_succeeded''
              (pe_event_key e) ''succeeded'' amount (upper (strip cur)) (pe_payload e)"
  let ?total = "\<lambda>t. refunded t oid (pe_provider e)"
  obtain u s1 where tx: "?tx s = Inr (u, s1)"
    and rest: "bindT (if ?total s1 \<ge> minor (po_amount ord) then refund_entitlement e oid now else retT None) (\<lambda>revoke_id.
     bindT (payments_save_event_entity (PaymentEvent_mark_processed e now)) (\<lambda>_. retT (Processed None, revoke_id))) s1
     = Inr ((Processed x, rid), s')"
    using run unfolding book_refund_def by (auto simp: oid bindT_Inr payments_sum_provider_transactions_def refunded_def)
  then obtain s2 v where en: "(if ?total s1 \<ge> minor (po_amount ord) then refund_entitlement e oid now else retT None) s1 = Inr (rid, s2)"
    and ev: "payments_save_event_entity (PaymentEvent_mark_processed e now) s2 = Inr (v, s')"
    unfolding bindT_Inr by auto
  have inv1: "pay_inv s1" using preservesD [OF keeps_create_transaction _ tx] inv unfolding pay_inv_keeps by blast
  have f1: "(d_orders s1, d_subs s1, d_periods s1) = (d_orders s, d_subs s, d_periods s)"
    using preservesD [OF entitlement_frame(2) [where Q = "\<lambda>a b c. (a, b, c) = (d_orders s, d_subs s, d_periods s)"] refl tx] .
  have f2: "(d_orders s', d_subs s', d_periods s') = (d_orders s2, d_subs s2, d_periods s2)"
    using preservesD [OF entitlement_frame(3) [where Q = "\<lambda>a b c. (a, b, c) = (d_orders s2, d_subs s2, d_periods s2)"] refl ev] .
  have t1: "?total s2 = ?total s1" using en
    by (cases "?total s1 \<ge> minor (po_amount ord)") (simp_all add: refund_entitlement_txns [of e oid now s1 rid s2] refunded_def)
  have t2: "?total s' = ?total s2" using save_event_txns [OF ev] by (simp add: refunded_def)
  show ?thesis
  proof (cases "?total s1 \<ge> minor (po_amount ord)")
    case True
    then obtain sid where eff: "withdrawn oid sid (d_periods s2)" "ended_if_unfunded sid now s2" "spared oid sid now s1 s2"
        "rid = access_to_revoke sid now s2"
      using refund_entitlement_effect [OF inv1] en by fastforce
    have "d_vpns s' = d_vpns s2"
    proof -
      have "preserves (\<lambda>t. d_vpns t = d_vpns s2) (payments_save_event_entity (PaymentEvent_mark_processed e now))"
        unfolding payments_save_event_entity_def put_events_def by (intro preserves_intros preserves_writeT) simp
      from preservesD [OF this refl ev] show ?thesis .
    qed
    then have "withdrawn oid sid (d_periods s') \<and> ended_if_unfunded sid now s' \<and> spared oid sid now s s' \<and> rid = access_to_revoke sid now s'"
      using eff f1 f2 access_to_revoke_cong [of s' s2] by (simp add: ended_if_unfunded_def spared_def)
    then show ?thesis using True t1 t2 by auto
  next
    case False
    then show ?thesis using en t1 t2 f1 f2 by simp
  qed
qed

text \<open>C14. Refunds: when a refund event is processed, it belongs to the order of the refunded attempt. While the refunds
  of the order add up to less than its price, subscriptions and periods stay as they were and nothing is revoked.
  Once they reach the price, the period bought with the order no longer counts as paid, and its subscription has
  ended if and only if no other paid period of it ends in the future. All other periods and subscriptions stay, and the active
  configuration of the subscription is queued for revocation exactly when no current period is left.\<close>

theorem refund_withdraws_entitlement:
  assumes "pay_inv s" and "get_row pe_id i (d_events s) = Some e" and "pe_event_type e = ''refund.succeeded''"
    and "ProcessPayment_execute i now s = (Inr (Processed x, jobs), s')"
  shows "\<exists>a att ord. pe_payment_attempt_id e = Some a \<and> get_row pa_id a (d_attempts s) = Some att \<and>
     get_row po_id (pa_payment_order_id att) (d_orders s) = Some ord \<and>
     (if refunded s' (pa_payment_order_id att) (pe_provider e) < minor (po_amount ord)
      then d_periods s' = d_periods s \<and> d_subs s' = d_subs s \<and> jobs = []
      else \<exists>sid. withdrawn (pa_payment_order_id att) sid (d_periods s') \<and> ended_if_unfunded sid now s' \<and>
        spared (pa_payment_order_id att) sid now s s' \<and>
        jobs = (case access_to_revoke sid now s' of None \<Rightarrow> [] | Some c \<Rightarrow> [REVOKE_VPN_CONFIGURATION c EXPIRATION]))"
proof -
  let ?e = "PaymentEvent_post_init e"
  have oi: "orders_inv (d_orders s)" using assms(1) by (simp add: pay_inv_def pay_inv_except_def)
  have "process_payment_tx i now s = Inr ((Processed x, jobs), s')"
    using assms(4) unfolding ProcessPayment_execute_def run_uow_Inr .
  then have "bindT (process_refund ?e now) (\<lambda>(result, revoke_id).
      retT (result, case revoke_id of None \<Rightarrow> [] | Some i \<Rightarrow> [REVOKE_VPN_CONFIGURATION i EXPIRATION])) s = Inr ((Processed x, jobs), s')"
    using assms(3) by (simp add: process_payment_tx_def bindT_def [where s = s] event_loads [OF assms(2)] split: if_splits)
  then obtain rid where run: "process_refund ?e now s = Inr ((Processed x, rid), s')"
    and jobs: "jobs = (case rid of None \<Rightarrow> [] | Some i \<Rightarrow> [REVOKE_VPN_CONFIGURATION i EXPIRATION])"
    unfolding bindT_Inr by auto
  obtain a att ord amount cur where ids: "pe_payment_attempt_id e = Some a" "get_row pa_id a (d_attempts s) = Some att"
    "get_row po_id (pa_payment_order_id att) (d_orders s) = Some ord"
    and book: "book_refund ?e ord att amount cur now s = Inr ((Processed x, rid), s')"
    using process_refund_booked [OF oi run] by (metis PaymentEvent_post_init_fields(4))
  have "po_id ord = Some (pa_payment_order_id att)" using get_row_key [OF ids(3)] by simp
  from book_refund_effect [OF assms(1) this book] ids jobs show ?thesis by (auto split: if_splits)
qed

definition refund_event :: PaymentEvent where
  "refund_event = sample_event\<lparr>pe_event_type := ''refund.succeeded''\<rparr>"

lemma refund_run: "fst (ProcessPayment_execute 1 20 (settled_shop [refund_event])) = Inr (Processed None, [])"
  by code_simp

theorem refund_withdraws_entitlement_witness:
  "\<exists>s' sid. ProcessPayment_execute 1 20 (settled_shop [refund_event]) = (Inr (Processed None, []), s') \<and>
     withdrawn 1 sid (d_periods s') \<and> ended_if_unfunded sid 20 s'"
proof -
  obtain s' where run: "ProcessPayment_execute 1 20 (settled_shop [refund_event]) = (Inr (Processed None, []), s')"
    using refund_run by (metis prod.collapse)
  have total: "refunded (snd (ProcessPayment_execute 1 20 (settled_shop [refund_event]))) 1 ''dummy'' = 19900"
    by code_simp
  have inv: "pay_inv (settled_shop [refund_event])"
    by (rule settled_shop_inv) (simp_all add: table_wf_def events_constraints_def refund_event_def sample_event_def)
  have ev: "get_row pe_id 1 (d_events (settled_shop [refund_event])) = Some refund_event"
    "pe_event_type refund_event = ''refund.succeeded''" "pe_payment_attempt_id refund_event = Some 1" "pe_provider refund_event = ''dummy''"
    by (simp_all add: settled_shop_def get_row_def refund_event_def sample_event_def)
  have rows: "get_row pa_id 1 (d_attempts (settled_shop [refund_event])) = Some (pending_attempt\<lparr>pa_status := PS_PAID\<rparr>)"
    "get_row po_id 1 (d_orders (settled_shop [refund_event])) = Some (sample_order\<lparr>po_status := PS_PAID\<rparr>)"
    "pa_payment_order_id pending_attempt = 1" "minor (po_amount sample_order) = 19900"
    by (simp_all add: settled_shop_def get_row_def pending_attempt_def sample_attempt_def sample_order_def)
  from refund_withdraws_entitlement [OF inv ev(1,2) run] ev(3,4) rows total run show ?thesis by auto
qed

end
