(* ===== verification/CreatePay.thy ===== *)
theory CreatePay
  imports Settlement
begin

text \<open>
  Creating payments (\<^verbatim>\<open>use_cases/create_payment.py\<close>) and taking in provider webhooks
  (\<^verbatim>\<open>use_cases/ingest_webhook.py\<close>).

  Creating a payment is two transactions around a call of the payment provider. The provider is a parameter:
  \<open>registry\<close> finds the gateway of a provider or raises, and the gateway answers with an intent or raises.
  \<open>meanwhile\<close> is what other transactions do to the database during that call. Fresh UUIDs and the
  readings of the clock are arguments.

  A webhook is verified and normalised by its provider's adapter (\<open>verify\<close>), and its body is parsed with
  \<^verbatim>\<open>json.loads\<close> (\<open>loads\<close>, where \<open>None\<close> is a decoding error).
\<close>

section \<open>Payment creation\<close>

record PaymentIntent =
  pi_provider :: string
  pi_provider_payment_id :: string
  pi_status :: string
  pi_payment_url :: "string option"
  pi_payload :: dict

record PreparedPaymentOrder =
  pp_order :: PaymentOrder
  pp_tariff_name :: string
  pp_attempt :: PaymentAttempt
  pp_owns_creation_claim :: bool
  pp_creation_lease_token :: "uuid option"

record payment_request =
  rq_telegram_id :: int
  rq_tariff_id :: int
  rq_provider :: string
  rq_idempotency_key :: string
  rq_username :: "string option"
  rq_name_or_nick :: "string option"

definition user_display_name :: "payment_request \<Rightarrow> string" where
  "user_display_name rq =
     or_else (rq_name_or_nick rq) (or_else (rq_username rq) (''telegram-'' @ show_int (rq_telegram_id rq)))"

definition requesting_user :: "payment_request \<Rightarrow> User tx" where
  "requesting_user rq =
     bindT (users_get_entity_by_contact ''telegram_id'' (show_int (rq_telegram_id rq))) (\<lambda>user.
     case user of
       Some u \<Rightarrow> retT u
     | None \<Rightarrow> users_register_telegram_entity (rq_telegram_id rq) (rq_username rq) (user_display_name rq))"

definition requested_tariff :: "payment_request \<Rightarrow> Tariff tx" where
  "requested_tariff rq =
     bindT (admin_get_tariff_entity (rq_tariff_id rq)) (\<lambda>tariff.
     case tariff of
       None \<Rightarrow> raiseT (NotFoundError ''Tariff was not found'')
     | Some t \<Rightarrow> if ta_is_enabled t then retT t else raiseT (ValidationError ''Tariff is disabled''))"

definition candidate_order :: "payment_request \<Rightarrow> int \<Rightarrow> int \<Rightarrow> Tariff \<Rightarrow> PaymentOrder res" where
  "candidate_order rq user_id tariff_id tariff =
     PaymentOrder_post_init
       \<lparr>po_id = None, po_user_id = user_id, po_tariff_id = tariff_id, po_provider = rq_provider rq,
        po_status = PS_PENDING, po_amount = ta_price tariff, po_requested_period_days = ta_period_days tariff,
        po_idempotency_key = rq_idempotency_key rq, po_metadata = [(''telegram_id'', JInt (rq_telegram_id rq))],
        po_created_at = None, po_updated_at = None, po_paid_at = None\<rparr>"

text \<open>\<open>resolve_order\<close> stores the order of the request, or finds the one stored under its idempotency key.\<close>

definition resolve_order :: "PaymentOrder \<Rightarrow> (int \<times> PaymentOrder) tx" where
  "resolve_order candidate =
     bindT (payments_add_order_entity candidate) (\<lambda>resolved.
     case po_id resolved of
       None \<Rightarrow> raiseT (RuntimeError ''Payment order was not persisted'')
     | Some order_id \<Rightarrow>
     bindT (payments_get_order_entity order_id) (\<lambda>order.
     case order of
       None \<Rightarrow> raiseT (RuntimeError ''Payment order disappeared during creation'')
     | Some ord \<Rightarrow>
         if PaymentOrder_has_same_creation_identity ord candidate then retT (order_id, ord)
         else raiseT (ConflictError ''Idempotency key is already used by another payment request'')))"

text \<open>\<open>reusable_attempt\<close> decides whether the latest attempt answers the request; an abandoned claim is failed first.\<close>

definition reusable_attempt :: "PaymentAttempt option \<Rightarrow> time \<Rightarrow> PaymentAttempt option tx" where
  "reusable_attempt attempt now =
     (case attempt of
        None \<Rightarrow> retT None
      | Some att \<Rightarrow>
          if pa_status att = PS_CREATED
          then (if PaymentAttempt_creation_claim_is_active att now then retT (Some att)
                else bindT (payments_save_attempt_entity (PaymentAttempt_fail_creation att now ''creation_claim_abandoned'')) (\<lambda>_.
                     retT None))
          else if \<not> (pa_status att = PS_FAILED \<and> pa_provider_payment_id att = None) then retT (Some att)
          else retT None)"

definition claim_attempt :: "int \<Rightarrow> PaymentOrder \<Rightarrow> time \<Rightarrow> int \<Rightarrow> uuid \<Rightarrow> PaymentAttempt tx" where
  "claim_attempt order_id order now lease_seconds token =
     bindT (liftT (PaymentAttempt_claim_creation
       \<lparr>pa_id = None, pa_payment_order_id = order_id, pa_provider = po_provider order, pa_status = PS_CREATED,
        pa_provider_payment_id = None, pa_payment_url = None, pa_payload = [(''creation_state'', JStr ''claimed'')],
        pa_created_at = None, pa_updated_at = None, pa_creation_claimed_at = None,
        pa_creation_lease_expires_at = None, pa_creation_lease_token = None\<rparr>
       now (now + seconds lease_seconds) token)) (\<lambda>claim.
     payments_add_attempt_entity claim)"

definition attempt_for_order ::
  "int \<Rightarrow> string \<Rightarrow> uuid \<Rightarrow> time \<Rightarrow> int \<times> PaymentOrder \<Rightarrow> PreparedPaymentOrder tx" where
  "attempt_for_order lease_seconds tariff_name token now = (\<lambda>(order_id, order).
     bindT (payments_get_latest_attempt_entity order_id) (\<lambda>latest.
     bindT (reusable_attempt latest now) (\<lambda>reusable.
     case reusable of
       Some att \<Rightarrow>
         retT \<lparr>pp_order = order, pp_tariff_name = tariff_name, pp_attempt = att,
               pp_owns_creation_claim = False, pp_creation_lease_token = None\<rparr>
     | None \<Rightarrow>
         bindT (claim_attempt order_id order now lease_seconds token) (\<lambda>claim.
         retT \<lparr>pp_order = order, pp_tariff_name = tariff_name, pp_attempt = claim,
               pp_owns_creation_claim = True, pp_creation_lease_token = Some token\<rparr>))))"

definition prepare_order :: "int \<Rightarrow> payment_request \<Rightarrow> uuid \<Rightarrow> time \<Rightarrow> PreparedPaymentOrder tx" where
  "prepare_order lease_seconds rq token now =
     bindT (requesting_user rq) (\<lambda>user.
     bindT (requested_tariff rq) (\<lambda>tariff.
     case (us_id user, ta_id tariff) of
       (Some user_id, Some tariff_id) \<Rightarrow>
         bindT (liftT (candidate_order rq user_id tariff_id tariff)) (\<lambda>candidate.
         bindT (resolve_order candidate) (attempt_for_order lease_seconds (ta_name tariff) token now))
     | _ \<Rightarrow> raiseT (RuntimeError ''Persisted user and tariff must have identifiers'')))"

definition finalize_owned_claim ::
  "PaymentOrder \<Rightarrow> int option \<Rightarrow> uuid \<Rightarrow> PaymentIntent \<Rightarrow> time \<Rightarrow> PaymentAttempt tx" where
  "finalize_owned_claim order payment_attempt_id lease_token intent now =
     (case (payment_attempt_id, po_id order) of
        (Some attempt_id, Some order_id) \<Rightarrow>
          bindT (payments_get_attempt_entity attempt_id) (\<lambda>attempt.
          case attempt of
            None \<Rightarrow> raiseT (RuntimeError ''Payment creation claim disappeared before finalization'')
          | Some att \<Rightarrow>
          if \<not> PaymentAttempt_owns_creation_claim att lease_token
          then bindT (payments_get_latest_attempt_entity order_id) (\<lambda>current.
               case current of
                 None \<Rightarrow> raiseT (ConflictError ''Payment creation ownership was lost'')
               | Some c \<Rightarrow> retT c)
          else
            bindT (liftT (PaymentStatus_of (pi_status intent))) (\<lambda>_.
            bindT (liftT (PaymentAttempt_finalize_creation att (pi_status intent) (pi_provider_payment_id intent)
                     (pi_payment_url intent) (pi_payload intent) now)) (\<lambda>att'.
            bindT (payments_save_attempt_entity att') (\<lambda>_.
            bindT (payments_create_provider_transaction order_id (pa_id att') (po_provider order) ''invoice_created''
                     (pi_provider_payment_id intent) (pi_status intent) (minor (po_amount order))
                     (currency (po_amount order)) (pi_payload intent)) (\<lambda>_.
            retT att')))))
      | _ \<Rightarrow> raiseT (RuntimeError ''Payment creation claim must be persisted before finalization''))"

definition fail_owned_claim :: "int option \<Rightarrow> uuid \<Rightarrow> time \<Rightarrow> unit tx" where
  "fail_owned_claim payment_attempt_id lease_token now =
     (case payment_attempt_id of
        None \<Rightarrow> retT ()
      | Some attempt_id \<Rightarrow>
          bindT (payments_get_attempt_entity attempt_id) (\<lambda>attempt.
          case attempt of
            None \<Rightarrow> retT ()
          | Some att \<Rightarrow>
              if \<not> PaymentAttempt_owns_creation_claim att lease_token then retT ()
              else payments_save_attempt_entity (PaymentAttempt_fail_creation att now ''provider_create_failed'')))"

definition gateway_order :: "PaymentOrder \<Rightarrow> dict" where
  "gateway_order order =
     [(''payment_order_id'', case po_id order of None \<Rightarrow> JNull | Some i \<Rightarrow> JInt i),
      (''user_id'', JInt (po_user_id order)), (''tariff_id'', JInt (po_tariff_id order)),
      (''provider'', JStr (po_provider order)), (''status'', JStr (PaymentStatus_value (po_status order))),
      (''amount_minor'', JInt (minor (po_amount order))), (''currency'', JStr (currency (po_amount order))),
      (''requested_period_days'', JInt (po_requested_period_days order)),
      (''idempotency_key'', JStr (po_idempotency_key order)), (''metadata'', JObj (po_metadata order))]"

record payment_response =
  re_payment_order_id :: "int option"
  re_provider :: string
  re_status :: string
  re_amount_minor :: int
  re_currency :: string
  re_payment_url :: "string option"
  re_provider_payment_id :: "string option"
  re_tariff_name :: string

definition creation_response :: "PaymentOrder \<Rightarrow> string \<Rightarrow> PaymentAttempt \<Rightarrow> payment_response" where
  "creation_response order tariff_name attempt =
     \<lparr>re_payment_order_id = po_id order, re_provider = po_provider order,
      re_status = PaymentStatus_value (po_status order), re_amount_minor = minor (po_amount order),
      re_currency = currency (po_amount order), re_payment_url = pa_payment_url attempt,
      re_provider_payment_id = pa_provider_payment_id attempt, re_tariff_name = tariff_name\<rparr>"

type_synonym gateway = "dict \<Rightarrow> PaymentIntent res"

text \<open>\<open>create_invoice\<close> is what follows once the caller owns the creation claim.\<close>

definition create_invoice ::
  "(string \<Rightarrow> gateway res) \<Rightarrow> (db \<Rightarrow> db) \<Rightarrow> PreparedPaymentOrder \<Rightarrow> uuid \<Rightarrow> time \<Rightarrow> db \<Rightarrow> payment_response res \<times> db" where
  "create_invoice registry meanwhile prepared token now s =
     (case registry (po_provider (pp_order prepared)) of
        Inl e \<Rightarrow> (Inl e, s)
      | Inr gateway \<Rightarrow>
          (case gateway (gateway_order (pp_order prepared)) of
             Inl e \<Rightarrow> (Inl e, snd (run_uow (fail_owned_claim (pa_id (pp_attempt prepared)) token now) (meanwhile s)))
           | Inr intent \<Rightarrow>
               (case run_uow (finalize_owned_claim (pp_order prepared) (pa_id (pp_attempt prepared)) token intent now) (meanwhile s) of
                  (Inl e, s') \<Rightarrow> (Inl e, s')
                | (Inr att, s') \<Rightarrow> (Inr (creation_response (pp_order prepared) (pp_tariff_name prepared) att), s'))))"

definition CreatePayment_execute ::
  "(string \<Rightarrow> gateway res) \<Rightarrow> (db \<Rightarrow> db) \<Rightarrow> int \<Rightarrow> payment_request \<Rightarrow> uuid \<Rightarrow> time \<Rightarrow> time \<Rightarrow> db
     \<Rightarrow> payment_response res \<times> db" where
  "CreatePayment_execute registry meanwhile lease_seconds rq token now later s =
     (case run_uow (prepare_order lease_seconds rq token now) s of
        (Inl e, s') \<Rightarrow> (Inl e, s')
      | (Inr prepared, s') \<Rightarrow>
          if \<not> pp_owns_creation_claim prepared
          then (Inr (creation_response (pp_order prepared) (pp_tariff_name prepared) (pp_attempt prepared)), s')
          else
            (case pp_creation_lease_token prepared of
               None \<Rightarrow> (Inl (RuntimeError ''Owned payment creation claim has no lease token''), s')
             | Some tok \<Rightarrow> create_invoice registry meanwhile prepared tok later s'))"

text \<open>The defaults a caller may leave out: the provider of the settings and a fresh idempotency key.\<close>

definition payment_request_of ::
  "string \<Rightarrow> string \<Rightarrow> int \<Rightarrow> int \<Rightarrow> string option \<Rightarrow> string option \<Rightarrow> string option \<Rightarrow> string option \<Rightarrow> payment_request" where
  "payment_request_of default_provider fresh_key telegram_id tariff_id provider idempotency_key username name_or_nick =
     \<lparr>rq_telegram_id = telegram_id, rq_tariff_id = tariff_id, rq_provider = or_else provider default_provider,
      rq_idempotency_key = or_else idempotency_key fresh_key, rq_username = username, rq_name_or_nick = name_or_nick\<rparr>"

section \<open>Webhooks\<close>

record NormalizedWebhookEvent =
  ne_provider :: string
  ne_event_key :: string
  ne_event_type :: string
  ne_status :: "PaymentStatus option"
  ne_occurred_at :: time
  ne_provider_payment_id :: "string option"
  ne_payment_order_id :: "int option"
  ne_amount_minor :: "int option"
  ne_currency :: "string option"
  ne_payload :: dict

record ingest_result =
  ir_duplicate :: bool
  ir_event_key :: string
  ir_payment_event_id :: int

definition parse_raw_payload :: "(string \<Rightarrow> json option) \<Rightarrow> string \<Rightarrow> dict res" where
  "parse_raw_payload loads raw_body =
     (case loads raw_body of
        None \<Rightarrow> Inl (WebhookPayloadError ''Webhook payload is invalid JSON'')
      | Some (JObj d) \<Rightarrow> Inr d
      | Some _ \<Rightarrow> Inl (WebhookPayloadError ''Webhook payload must be a JSON object''))"

definition canonical_currency :: "string option \<Rightarrow> string option" where
  "canonical_currency cur =
     (case cur of None \<Rightarrow> None | Some c \<Rightarrow> (let n = upper (strip c) in if n = [] then None else Some n))"

definition attempt_of_webhook :: "string \<Rightarrow> NormalizedWebhookEvent \<Rightarrow> PaymentAttempt option tx" where
  "attempt_of_webhook provider normalized =
     (if or_else (ne_provider_payment_id normalized) [] = [] then retT None
      else payments_get_attempt_entity_by_provider_payment_id provider (or_else (ne_provider_payment_id normalized) []))"

definition received_event :: "string \<Rightarrow> NormalizedWebhookEvent \<Rightarrow> PaymentAttempt option \<Rightarrow> PaymentEvent" where
  "received_event provider normalized attempt =
     \<lparr>pe_id = None, pe_payment_order_id = map_option pa_payment_order_id attempt,
      pe_payment_attempt_id = (case attempt of None \<Rightarrow> None | Some a \<Rightarrow> pa_id a), pe_provider = provider,
      pe_event_type = ne_event_type normalized, pe_event_key = ne_event_key normalized, pe_status = PES_RECEIVED,
      pe_payload = ne_payload normalized, pe_occurred_at = ne_occurred_at normalized,
      pe_provider_payment_id = ne_provider_payment_id normalized,
      pe_reported_payment_order_id = ne_payment_order_id normalized, pe_payment_status = ne_status normalized,
      pe_amount_minor = ne_amount_minor normalized, pe_currency = canonical_currency (ne_currency normalized),
      pe_received_at = None, pe_processed_at = None, pe_error_message = None\<rparr>"

definition ingest_tx :: "string \<Rightarrow> dict \<Rightarrow> NormalizedWebhookEvent \<Rightarrow> dict \<Rightarrow> time \<Rightarrow> (bool \<times> PaymentEvent) tx" where
  "ingest_tx provider headers normalized raw_payload now =
     bindT (payments_save_webhook_inbox provider (ne_event_key normalized) headers raw_payload) (\<lambda>(inserted, inbox).
     bindT (attempt_of_webhook provider normalized) (\<lambda>attempt.
     bindT (payments_create_payment_event (received_event provider normalized attempt)) (\<lambda>event.
     bindT (payments_mark_webhook_inbox_status (wi_id inbox) PES_PROCESSED (Some now) None) (\<lambda>_.
     retT (inserted, event)))))"

definition IngestWebhook_execute ::
  "(string \<Rightarrow> string \<Rightarrow> dict \<Rightarrow> NormalizedWebhookEvent res) \<Rightarrow> (string \<Rightarrow> json option) \<Rightarrow> string \<Rightarrow> string \<Rightarrow> dict \<Rightarrow> time
     \<Rightarrow> db \<Rightarrow> (ingest_result \<times> job list) res \<times> db" where
  "IngestWebhook_execute verify loads provider raw_body headers now s =
     (case bindE (verify provider raw_body headers) (\<lambda>n. bindE (parse_raw_payload loads raw_body) (\<lambda>d. Inr (n, d))) of
        Inl e \<Rightarrow> (Inl e, s)
      | Inr (normalized, raw_payload) \<Rightarrow>
          run_uow (bindT (ingest_tx provider headers normalized raw_payload now) (\<lambda>(inserted, event).
                   bindT (liftT (require (TypeError ''payment_event_id'') (pe_id event))) (\<lambda>event_id.
                   retT (\<lparr>ir_duplicate = \<not> inserted, ir_event_key = ne_event_key normalized,
                          ir_payment_event_id = event_id\<rparr>, [PROCESS_PAYMENT_EVENT event_id])))) s)"

end
