(* ===== verification/CreateInv.thy ===== *)
theory CreateInv
  imports CreatePay SettleProps
begin

text \<open>
  Payment creation and webhooks keep the entitlement invariant; hence every state the shop's payment side can reach
  satisfies it.
\<close>

section \<open>New orders\<close>

lemma candidate_order_ok:
  assumes "candidate_order rq u t tariff = Inr c" and "money_wf (ta_price tariff)"
  shows "order_row_ok c" and "po_status c = PS_PENDING"
proof -
  have c: "c = \<lparr>po_id = None, po_user_id = u, po_tariff_id = t, po_provider = strip (rq_provider rq), po_status = PS_PENDING,
      po_amount = ta_price tariff, po_requested_period_days = ta_period_days tariff,
      po_idempotency_key = strip (rq_idempotency_key rq), po_metadata = [(''telegram_id'', JInt (rq_telegram_id rq))],
      po_created_at = None, po_updated_at = None, po_paid_at = None\<rparr>"
    and pos: "0 < u" "0 < t" "strip (rq_provider rq) \<noteq> []" "strip (rq_idempotency_key rq) \<noteq> []"
      "0 < minor (ta_price tariff)" "0 < ta_period_days tariff"
    using assms(1) by (auto simp: candidate_order_def PaymentOrder_post_init_def Let_def bindE_eq_Inr)
  show "po_status c = PS_PENDING" by (simp add: c)
  show "order_row_ok c" using pos assms(2) by (simp add: c order_row_ok_iff)
qed

lemma tariff_price_wf:
  assumes "requested_tariff rq s = Inr (tariff, s')"
  shows "money_wf (ta_price tariff) \<and> s' = s"
proof -
  obtain r where r: "admin_get_tariff_entity (rq_tariff_id rq) s = Inr (Some tariff, r)" and s': "s' = r"
    using assms unfolding requested_tariff_def bindT_Inr by (auto split: option.splits if_splits)
  then obtain v where "tariff_from_row v = Inr tariff" and st: "r = s"
    using entityT_SomeD unfolding admin_get_tariff_entity_def bindT_readT by metis
  then obtain m n where "Money_new (minor (ta_price v)) (currency (ta_price v)) = Inr m" "ta_price tariff = m"
    by (auto simp: tariff_from_row_def Tariff_post_init_def bindE_eq_Inr Let_def)
  then show ?thesis using st s' by (metis Money_new_def Money_post_init_wf)
qed

lemma keeps_put_other [preserves_intros]:
  "preserves (keeps A P) (put_users u)" "preserves (keeps A P) (put_contacts c)" "preserves (keeps A P) (put_inbox w)"
  unfolding put_users_def put_contacts_def put_inbox_def
  by (rule preserves_writeT, simp add: keeps_def pay_inv_except_def)+

lemma keeps_requesting_user [preserves_intros]: "preserves (keeps A P) (requesting_user rq)"
  unfolding requesting_user_def users_register_telegram_entity_def users_register_telegram_user_def
    users_get_entity_by_contact_def users_get_user_by_contact_def users_create_user_def users_claim_telegram_id_contact_def
    users_note_username_def users_upsert_contact_def Let_def
  by (intro preserves_intros)

lemma create_order_inv:
  assumes inv: "pay_inv s" and ok: "order_row_ok c" "po_status c = PS_PENDING"
    and run: "payments_create_order c s = Inr (row, s')"
  shows "pay_inv s'"
proof (cases "find_row (\<lambda>r. po_idempotency_key r = po_idempotency_key c) (d_orders s)")
  case (Some r)
  then have "s' = s" using run by (simp add: payments_create_order_def payments_get_order_by_idempotency_def)
  then show ?thesis using inv by simp
next
  case None
  let ?c = "c\<lparr>po_created_at := Some (d_clock s), po_updated_at := Some (d_clock s), po_paid_at := None\<rparr>"
  obtain r t where ins: "insert_row (\<lambda>i r. r\<lparr>po_id := Some i\<rparr>) ?c (d_orders s) = (r, t)" by fastforce
  have s': "s' = s\<lparr>d_orders := t\<rparr>" and con: "orders_constraints t"
    using run None ins by (auto simp: payments_create_order_def payments_get_order_by_idempotency_def bindT_Inr put_orders_def writeT_Inr_iff)
  have oi: "orders_inv (d_orders s)" and link: "linked_except {} (d_orders s) (d_periods s)"
    using inv by (simp_all add: pay_inv_def pay_inv_except_def)
  have wf: "table_wf po_id (d_orders s)" using oi by (simp add: orders_inv_def)
  note new = orders_tab.insert_row_wf [OF wf ins] orders_tab.insert_row_lookup [OF wf ins]
  have "order_row_ok r" using ok(1) by (simp add: new(3) order_row_ok_iff)
  then have "orders_inv t" using oi con new(1,4) by (simp add: orders_inv_def)
  moreover have "paid_order t = paid_order (d_orders s)"
    using orders_tab.get_row_new [OF wf] ok(2) by (auto simp: fun_eq_iff paid_order_def new(2,3))
  then have "linked_except {} t (d_periods s)" using link by (simp add: linked_except_def)
  ultimately show ?thesis using inv by (simp add: s' pay_inv_def pay_inv_except_def)
qed

lemma resolve_order_inv:
  assumes "order_row_ok c" and "po_status c = PS_PENDING"
  shows "hoare pay_inv (resolve_order c) (\<lambda>_. pay_inv)"
proof -
  have add: "hoare pay_inv (payments_add_order_entity c) (\<lambda>_. pay_inv)"
    unfolding payments_add_order_entity_def
    by (rule hoare_bindT [where R = "\<lambda>_. pay_inv"])
       (use create_order_inv assms in \<open>auto simp: hoare_def liftT_Inr_iff\<close>)
  show ?thesis
    unfolding resolve_order_def
  proof (rule hoare_bindT [OF add], rule hoare_keeps_option [OF hoare_raiseT])
    fix r :: PaymentOrder and i
    show "hoare pay_inv (bindT (payments_get_order_entity i) (\<lambda>order. case order of
         None \<Rightarrow> raiseT (RuntimeError ''Payment order disappeared during creation'')
       | Some ord \<Rightarrow> if PaymentOrder_has_same_creation_identity ord c then retT (i, ord)
           else raiseT (ConflictError ''Idempotency key is already used by another payment request''))) (\<lambda>_. pay_inv)"
      unfolding hoare_preserves by (intro preserves_intros)
  qed
qed

lemma keeps_add_attempt [preserves_intros]: "preserves (keeps A P) (payments_add_attempt_entity a)"
proof -
  have "preserves (keeps A P) (bindT (put_attempts (snd (insert_row (\<lambda>i r. r\<lparr>pa_id := Some i\<rparr>) b (d_attempts s)))) (\<lambda>_. retT y))"
    if "keeps A P s" for s b and y :: PaymentAttempt
    using attempts_tab.insert_row_wf_snd [OF keeps_attempts_wf [OF that]] by (intro preserves_bindT keeps_put_attempts preserves_pure)
  then have "preserves (keeps A P) (payments_create_attempt a)"
    unfolding payments_create_attempt_def by (intro keeps_read) (simp add: case_prod_beta Let_def)
  then show ?thesis unfolding payments_add_attempt_entity_def by (intro preserves_bindT preserves_pure)
qed

lemma keeps_reusable [preserves_intros]: "preserves (keeps A P) (reusable_attempt att now)"
  unfolding reusable_attempt_def by (intro preserves_intros)

lemma keeps_claim [preserves_intros]: "preserves (keeps A P) (claim_attempt i ord now l tok)"
  unfolding claim_attempt_def by (intro preserves_intros)

lemma pay_inv_preserves: "preserves (keeps {} (\<lambda>_. True)) m \<Longrightarrow> preserves pay_inv m"
  unfolding pay_inv_keeps [abs_def] .

lemma keeps_attempt_for_order [preserves_intros]: "preserves (keeps A P) (attempt_for_order l nm tok now x)"
  unfolding attempt_for_order_def case_prod_beta by (intro preserves_intros)

lemma pay_inv_prepare_order: "preserves pay_inv (prepare_order l rq tok now)"
  unfolding prepare_order_def hoare_preserves [symmetric]
proof (rule hoare_seq [OF pay_inv_preserves [OF keeps_requesting_user]],
    rule hoare_bindT [where R = "\<lambda>tariff s. pay_inv s \<and> money_wf (ta_price tariff)"])
  show "hoare pay_inv (requested_tariff rq) (\<lambda>tariff s. pay_inv s \<and> money_wf (ta_price tariff))"
    using tariff_price_wf by (auto simp: hoare_def)
  fix user :: User and tariff :: Tariff
  have order: "hoare pay_inv (bindT (liftT (candidate_order rq u t tariff)) (\<lambda>candidate.
      bindT (resolve_order candidate) (attempt_for_order l (ta_name tariff) tok now))) (\<lambda>_. pay_inv)"
    if "money_wf (ta_price tariff)" for u t
  proof (cases "candidate_order rq u t tariff")
    case (Inr c)
    have "hoare pay_inv (bindT (resolve_order c) (attempt_for_order l (ta_name tariff) tok now)) (\<lambda>_. pay_inv)"
      by (rule hoare_bindT [OF resolve_order_inv [OF candidate_order_ok [OF Inr that]]])
         (unfold hoare_preserves, rule pay_inv_preserves, rule keeps_attempt_for_order)
    then show ?thesis by (simp add: Inr)
  qed (simp add: hoare_raiseT)
  show "hoare (\<lambda>s. pay_inv s \<and> money_wf (ta_price tariff)) (case (us_id user, ta_id tariff) of
       (Some user_id, Some tariff_id) \<Rightarrow>
         bindT (liftT (candidate_order rq user_id tariff_id tariff)) (\<lambda>candidate.
         bindT (resolve_order candidate) (attempt_for_order l (ta_name tariff) tok now))
     | _ \<Rightarrow> raiseT (RuntimeError ''Persisted user and tariff must have identifiers'')) (\<lambda>_. pay_inv)"
  proof (rule hoare_pre [where b = "money_wf (ta_price tariff)"])
    assume "money_wf (ta_price tariff)"
    then show ?thesis using order
      by (cases "us_id user"; cases "ta_id tariff") (simp_all add: hoare_raiseT)
  qed simp
qed

lemma pay_inv_finalize: "preserves pay_inv (finalize_owned_claim ord aid tok intent now)"
  unfolding finalize_owned_claim_def by (intro pay_inv_preserves preserves_intros)

lemma pay_inv_fail_claim: "preserves pay_inv (fail_owned_claim aid tok now)"
  unfolding fail_owned_claim_def by (intro pay_inv_preserves preserves_intros)

section \<open>Webhooks\<close>

lemma keeps_create_event [preserves_intros]: "preserves (keeps A P) (payments_create_payment_event e)"
proof -
  have "preserves (keeps A P) (bindT (put_events (snd (insert_row (\<lambda>i r. r\<lparr>pe_id := Some i\<rparr>) b (d_events s)))) (\<lambda>_. retT y))"
    if "keeps A P s" for s b and y :: PaymentEvent
    using events_tab.insert_row_wf_snd [OF keeps_events_wf [OF that]] by (intro preserves_bindT keeps_put_events preserves_pure)
  then show ?thesis
    unfolding payments_create_payment_event_def
    by (intro keeps_read) (auto simp: case_prod_beta Let_def preserves_pure split: option.split)
qed

lemma pay_inv_ingest: "preserves pay_inv (ingest_tx provider headers n d now)"
  unfolding ingest_tx_def attempt_of_webhook_def payments_save_webhook_inbox_def payments_mark_webhook_inbox_status_def
    payments_get_attempt_entity_by_provider_payment_id_def Let_def
  by (intro pay_inv_preserves preserves_intros)

end
