(* ===== verification/CreateProps.thy ===== *)
theory CreateProps
  imports CreateInv
begin

text \<open>
  What payment creation and webhooks promise: repeating a request answers with the same order and attempt, a key cannot
  be reused for another purchase, a worker that lost its claim changes nothing, and a webhook is stored once.
\<close>

section \<open>Repeating a request\<close>

lemma order_loads_again:
  assumes oi: "orders_inv (d_orders s)" and row: "find_row (\<lambda>r. po_idempotency_key r = po_idempotency_key c) (d_orders s) = Some ord"
    and id: "po_id ord = Some oid" and same: "PaymentOrder_has_same_creation_identity ord c"
  shows "resolve_order c s = Inr ((oid, ord), s)"
proof -
  have mem: "ord \<in> set (rows (d_orders s))" using find_row_SomeD [OF row] by simp
  have ok: "payment_order_from_row ord = Inr ord" by (rule orders_inv_row [OF oi mem])
  have "get_row po_id oid (d_orders s) = Some ord"
    using oi by (intro orders_tab.get_row_member [OF _ mem id]) (simp add: orders_inv_def)
  then show ?thesis
    using order_loads [OF oi] row id ok same
    by (simp add: resolve_order_def payments_add_order_entity_def payments_create_order_def
        payments_get_order_by_idempotency_def bindT_def [where s = s])
qed

lemma resolve_order_stored:
  assumes inv: "pay_inv s" and ok: "order_row_ok c" and run: "resolve_order c s = Inr ((oid, ord), s1)"
  shows "find_row (\<lambda>r. po_idempotency_key r = po_idempotency_key c) (d_orders s1) = Some ord \<and> po_id ord = Some oid \<and>
     PaymentOrder_has_same_creation_identity ord c"
proof -
  have oi: "orders_inv (d_orders s)" using inv by (simp add: pay_inv_def pay_inv_except_def)
  obtain x sx i where add: "payments_add_order_entity c s = Inr (x, sx)" and i: "po_id x = Some i"
    and get: "payments_get_order_entity i sx = Inr (Some ord, s1)" and oid: "oid = i"
    and same: "PaymentOrder_has_same_creation_identity ord c"
    using run unfolding resolve_order_def bindT_Inr by (auto split: option.splits if_splits simp: bindT_Inr)
  obtain row where cr: "payments_create_order c s = Inr (row, sx)" and x: "payment_order_from_row row = Inr x"
    using add by (auto simp: payments_add_order_entity_def bindT_Inr liftT_Inr_iff)
  have stored: "find_row (\<lambda>r. po_idempotency_key r = po_idempotency_key c) (d_orders sx) = Some row \<and> orders_inv (d_orders sx)"
  proof (cases "find_row (\<lambda>r. po_idempotency_key r = po_idempotency_key c) (d_orders s)")
    case (Some r)
    then show ?thesis using cr oi by (simp add: payments_create_order_def payments_get_order_by_idempotency_def)
  next
    case None
    let ?c = "c\<lparr>po_created_at := Some (d_clock s), po_updated_at := Some (d_clock s), po_paid_at := None\<rparr>"
    obtain r t where ins: "insert_row (\<lambda>i r. r\<lparr>po_id := Some i\<rparr>) ?c (d_orders s) = (r, t)" by fastforce
    have sx: "sx = s\<lparr>d_orders := t\<rparr>" "row = r" and con: "orders_constraints t"
      using cr None ins
      by (auto simp: payments_create_order_def payments_get_order_by_idempotency_def bindT_Inr put_orders_def writeT_Inr_iff)
    have wf: "table_wf po_id (d_orders s)" using oi by (simp add: orders_inv_def)
    note new = orders_tab.insert_row_wf [OF wf ins] orders_tab.insert_row_lookup [OF wf ins]
    have "order_row_ok r" using ok by (simp add: new(3) order_row_ok_iff)
    then have "orders_inv t" using oi con new(1,4) by (simp add: orders_inv_def)
    moreover have "find_row (\<lambda>r. po_idempotency_key r = po_idempotency_key c) t = Some r"
      using None by (simp add: find_row_def new(4) find_append new(3))
    ultimately show ?thesis by (simp add: sx)
  qed
  have mem: "row \<in> set (rows (d_orders sx))" and wfx: "table_wf po_id (d_orders sx)"
    using find_row_SomeD [OF conjunct1 [OF stored]] stored by (simp_all add: orders_inv_def)
  have "x = row" using x orders_inv_row [OF _ mem] stored by simp
  then have "get_row po_id i (d_orders sx) = Some row" using orders_tab.get_row_member [OF wfx mem] i by simp
  then have "Some ord = Some row" "s1 = sx" using order_loads [of sx i row] stored get by simp_all
  then show ?thesis using stored same i oid \<open>x = row\<close> by simp
qed

lemma accounts_frame [preserves_intros]:
  "preserves (\<lambda>s. Q (d_users s) (d_contacts s) (d_tariffs s)) (resolve_order c)"
  "preserves (\<lambda>s. Q (d_users s) (d_contacts s) (d_tariffs s)) (payments_save_attempt_entity a)"
  "preserves (\<lambda>s. Q (d_users s) (d_contacts s) (d_tariffs s)) (payments_add_attempt_entity a)"
  unfolding resolve_order_def payments_add_order_entity_def payments_create_order_def payments_get_order_by_idempotency_def
    payments_save_attempt_entity_def payments_add_attempt_entity_def payments_create_attempt_def put_orders_def put_attempts_def Let_def
  by (intro preserves_intros preserves_writeT, simp)+

lemma orders_frame [preserves_intros]:
  "preserves (\<lambda>s. Q (d_orders s)) (payments_save_attempt_entity a)"
  "preserves (\<lambda>s. Q (d_orders s)) (payments_add_attempt_entity a)"
  unfolding payments_save_attempt_entity_def payments_add_attempt_entity_def payments_create_attempt_def put_attempts_def Let_def
  by (intro preserves_intros preserves_writeT, simp)+

lemma attempt_for_order_frame:
  "preserves (\<lambda>s. Q (d_users s) (d_contacts s) (d_tariffs s)) (attempt_for_order l nm tok now x)"
  "preserves (\<lambda>s. R (d_orders s)) (attempt_for_order l nm tok now x)"
  unfolding attempt_for_order_def reusable_attempt_def claim_attempt_def case_prod_beta
  by (intro preserves_intros)+

text \<open>The latest attempt of an order, and when it answers a repeated request.\<close>

definition latest_attempt :: "int \<Rightarrow> db \<Rightarrow> PaymentAttempt option" where
  "latest_attempt oid s = top_by (\<lambda>a. (case pa_created_at a of None \<Rightarrow> 0 | Some c \<Rightarrow> c, case pa_id a of None \<Rightarrow> 0 | Some i \<Rightarrow> i))
     (select_rows (\<lambda>a. pa_payment_order_id a = oid) (d_attempts s))"

definition answers :: "PaymentAttempt \<Rightarrow> time \<Rightarrow> bool" where
  "answers att now \<longleftrightarrow>
     (if pa_status att = PS_CREATED then PaymentAttempt_creation_claim_is_active att now
      else \<not> (pa_status att = PS_FAILED \<and> pa_provider_payment_id att = None))"

definition dated_by :: "time \<Rightarrow> PaymentAttempt \<Rightarrow> bool" where
  "dated_by now a \<longleftrightarrow> (case pa_created_at a of None \<Rightarrow> 0 \<le> now | Some c \<Rightarrow> c \<le> now)"

definition attempts_dated :: "db \<Rightarrow> bool" where
  "attempts_dated s \<longleftrightarrow> list_all (dated_by (d_clock s)) (rows (d_attempts s))"

lemma latest_loads: "payments_get_latest_attempt_entity oid s = Inr (latest_attempt oid s, s)"
  by (cases "latest_attempt oid s")
     (simp_all add: payments_get_latest_attempt_entity_def latest_attempt_def entityT_def payment_attempt_from_row_def)

lemma attempt_answers_again:
  assumes "latest_attempt oid s = Some att" and "answers att now"
  shows "attempt_for_order l nm tok now (oid, ord) s =
     Inr (\<lparr>pp_order = ord, pp_tariff_name = nm, pp_attempt = att, pp_owns_creation_claim = False, pp_creation_lease_token = None\<rparr>, s)"
  using assms
  by (auto simp: attempt_for_order_def bindT_def [where s = s] latest_loads reusable_attempt_def answers_def split: if_splits)

lemma top_by_last: "(\<And>r. r \<in> set rs \<Longrightarrow> k r < k x) \<Longrightarrow> top_by k (rs @ [x]) = Some x"
proof (induction rs)
  case (Cons a rs)
  have "k a < k x" "top_by k (rs @ [x]) = Some x" using Cons by simp_all
  then show ?case by (simp add: not_le [symmetric])
qed simp

lemma save_attempt_dated: "preserves (\<lambda>s. attempts_dated s \<and> table_wf pa_id (d_attempts s)) (payments_save_attempt_entity a)"
proof (cases "pa_id a")
  case (Some i)
  show ?thesis
  proof (rule preservesI)
    fix s x s' assume pre: "attempts_dated s \<and> table_wf pa_id (d_attempts s)" and run: "payments_save_attempt_entity a s = Inr (x, s')"
    from run obtain f where s': "s' = s\<lparr>d_attempts := update_row pa_id i f (d_attempts s)\<rparr>"
      and f: "\<And>r. pa_created_at (f r) = pa_created_at r" "\<And>r. pa_id (f r) = pa_id r"
      unfolding payments_save_attempt_entity_def Some option.case bindT_readT put_attempts_def writeT_Inr_iff
      by (elim conjE) (rule that, assumption, simp_all add: Let_def split: option.split)
    have "list_all (dated_by (d_clock s)) (rows (update_row pa_id i f (d_attempts s)))"
      using pre by (intro list_all_update_row) (simp_all add: f attempts_dated_def dated_by_def)
    moreover have "table_wf pa_id (update_row pa_id i f (d_attempts s))"
      using pre f(2) by (intro attempts_tab.update_row_wf) simp_all
    ultimately show "attempts_dated s' \<and> table_wf pa_id (d_attempts s')"
      by (simp add: s' attempts_dated_def)
  qed
qed (simp add: payments_save_attempt_entity_def preserves_pure)

lemma claim_is_latest:
  assumes pre: "attempts_dated s" "table_wf pa_id (d_attempts s)" and run: "claim_attempt oid ord now l tok s = Inr (att, s')"
  shows "latest_attempt oid s' = Some att"
proof -
  obtain c where claimed: "PaymentAttempt_claim_creation \<lparr>pa_id = None, pa_payment_order_id = oid, pa_provider = po_provider ord,
        pa_status = PS_CREATED, pa_provider_payment_id = None, pa_payment_url = None,
        pa_payload = [(''creation_state'', JStr ''claimed'')], pa_created_at = None, pa_updated_at = None,
        pa_creation_claimed_at = None, pa_creation_lease_expires_at = None, pa_creation_lease_token = None\<rparr>
       now (now + seconds l) tok = Inr c" and add: "payments_add_attempt_entity c s = Inr (att, s')"
    using run unfolding claim_attempt_def bindT_Inr liftT_Inr_iff by blast
  have c: "pa_payment_order_id c = oid" using claimed by (auto simp: PaymentAttempt_claim_creation_def bindE_eq_Inr)
  let ?c = "c\<lparr>pa_created_at := Some (d_clock s), pa_updated_at := Some (d_clock s)\<rparr>"
  obtain r t where ins: "insert_row (\<lambda>i r. r\<lparr>pa_id := Some i\<rparr>) ?c (d_attempts s) = (r, t)" by fastforce
  have s': "s' = s\<lparr>d_attempts := t\<rparr>" "att = r"
    using add ins by (auto simp: payments_add_attempt_entity_def payments_create_attempt_def bindT_Inr liftT_Inr_iff
        payment_attempt_from_row_def put_attempts_def writeT_Inr_iff)
  note new = orders_tab.insert_row_wf attempts_tab.insert_row_lookup [OF pre(2) ins]
  let ?k = "\<lambda>a. (case pa_created_at a of None \<Rightarrow> 0 | Some c \<Rightarrow> c, case pa_id a of None \<Rightarrow> 0 | Some i \<Rightarrow> i)"
  have "?k a < ?k r" if a: "a \<in> set (rows (d_attempts s))" for a
  proof -
    obtain i where "pa_id a = Some i" "i < next_id (d_attempts s)" using attempts_tab.wf_row_range [OF pre(2) a] by blast
    moreover have "(case pa_created_at a of None \<Rightarrow> 0 | Some c \<Rightarrow> c) \<le> d_clock s"
      using pre(1) a by (auto simp: attempts_dated_def dated_by_def list_all_iff split: option.splits)
    ultimately show ?thesis by (simp add: new(3) less_prod_def' le_less)
  qed
  then have "top_by ?k (select_rows (\<lambda>a. pa_payment_order_id a = oid) (d_attempts s) @ [r]) = Some r"
    by (intro top_by_last) (simp add: select_rows_def)
  moreover have "select_rows (\<lambda>a. pa_payment_order_id a = oid) t = select_rows (\<lambda>a. pa_payment_order_id a = oid) (d_attempts s) @ [r]"
    using c by (simp add: select_rows_def new(3,4))
  ultimately show ?thesis by (simp add: latest_attempt_def s')
qed

lemma attempt_for_order_latest:
  assumes pre: "attempts_dated s" "table_wf pa_id (d_attempts s)" and run: "attempt_for_order l nm tok now (oid, ord) s = Inr (p, s')"
  shows "latest_attempt oid s' = Some (pp_attempt p) \<and> pp_order p = ord \<and> pp_tariff_name p = nm"
proof -
  obtain r s1 where re: "reusable_attempt (latest_attempt oid s) now s = Inr (r, s1)"
    and rest: "(case r of Some att \<Rightarrow> retT \<lparr>pp_order = ord, pp_tariff_name = nm, pp_attempt = att,
               pp_owns_creation_claim = False, pp_creation_lease_token = None\<rparr>
     | None \<Rightarrow> bindT (claim_attempt oid ord now l tok) (\<lambda>claim.
         retT \<lparr>pp_order = ord, pp_tariff_name = nm, pp_attempt = claim,
               pp_owns_creation_claim = True, pp_creation_lease_token = Some tok\<rparr>)) s1 = Inr (p, s')"
    using run unfolding attempt_for_order_def prod.case bindT_Inr [of "payments_get_latest_attempt_entity oid"] latest_loads
    by (auto simp: bindT_Inr)
  show ?thesis
  proof (cases r)
    case (Some att)
    have "latest_attempt oid s = Some att \<and> s1 = s"
      using re Some by (cases "latest_attempt oid s") (auto simp: reusable_attempt_def bindT_Inr split: if_splits)
    then show ?thesis using rest Some by auto
  next
    case None
    have "preserves (\<lambda>s. attempts_dated s \<and> table_wf pa_id (d_attempts s)) (reusable_attempt (latest_attempt oid s) now)"
      unfolding reusable_attempt_def by (intro preserves_intros save_attempt_dated)
    from preservesD [OF this _ re] pre have "attempts_dated s1" "table_wf pa_id (d_attempts s1)" by simp_all
    moreover obtain claim where "claim_attempt oid ord now l tok s1 = Inr (claim, s')"
      "p = \<lparr>pp_order = ord, pp_tariff_name = nm, pp_attempt = claim, pp_owns_creation_claim = True, pp_creation_lease_token = Some tok\<rparr>"
      using rest None by (auto simp: bindT_Inr)
    ultimately show ?thesis using claim_is_latest by simp
  qed
qed

lemma resolve_order_dated: "preserves (\<lambda>s. attempts_dated s \<and> table_wf pa_id (d_attempts s)) (resolve_order c)"
  unfolding resolve_order_def payments_add_order_entity_def payments_create_order_def payments_get_order_by_idempotency_def put_orders_def Let_def
  by (intro preserves_intros preserves_writeT) (simp add: attempts_dated_def)

lemma known_user: "users_get_entity_by_contact ''telegram_id'' (show_int (rq_telegram_id rq)) s = Inr (Some u, s) \<Longrightarrow>
  requesting_user rq s = Inr (u, s)"
  by (simp add: requesting_user_def bindT_def)

lemma prepare_order_parts:
  assumes u: "requesting_user rq s = Inr (u, s)" and run: "prepare_order l rq tok now s = Inr (p, s1)"
  obtains tariff uid tid c oid ord s0 where "requested_tariff rq s = Inr (tariff, s)" and "us_id u = Some uid" and "ta_id tariff = Some tid"
    and "candidate_order rq uid tid tariff = Inr c" and "resolve_order c s = Inr ((oid, ord), s0)"
    and "attempt_for_order l (ta_name tariff) tok now (oid, ord) s0 = Inr (p, s1)"
proof -
  obtain tariff where t: "requested_tariff rq s = Inr (tariff, s)"
    and rest: "(case (us_id u, ta_id tariff) of
       (Some user_id, Some tariff_id) \<Rightarrow>
         bindT (liftT (candidate_order rq user_id tariff_id tariff)) (\<lambda>candidate.
         bindT (resolve_order candidate) (attempt_for_order l (ta_name tariff) tok now))
     | _ \<Rightarrow> raiseT (RuntimeError ''Persisted user and tariff must have identifiers'')) s = Inr (p, s1)"
    using run tariff_price_wf unfolding prepare_order_def bindT_Inr [of "requesting_user rq"] bindT_Inr [of "requested_tariff rq"] u
    by (elim exE conjE) (simp, blast)
  obtain uid tid where ids: "us_id u = Some uid" "ta_id tariff = Some tid"
    using rest by (cases "us_id u"; cases "ta_id tariff") simp_all
  from rest obtain c x s0 where "candidate_order rq uid tid tariff = Inr c" "resolve_order c s = Inr (x, s0)"
    "attempt_for_order l (ta_name tariff) tok now x s0 = Inr (p, s1)"
    unfolding ids by (simp add: bindT_Inr liftT_Inr_iff) blast
  with t ids that show ?thesis by (cases x) simp
qed

lemma prepare_order_eval:
  assumes "requesting_user rq s = Inr (u, s)" and "requested_tariff rq s = Inr (tariff, s)" and "us_id u = Some uid" and "ta_id tariff = Some tid"
    and "candidate_order rq uid tid tariff = Inr c" and "resolve_order c s = Inr ((oid, ord), s)"
  shows "prepare_order l rq tok now s = attempt_for_order l (ta_name tariff) tok now (oid, ord) s"
  using assms by (simp add: prepare_order_def bindT_def [where s = s])

lemma accounts_congs:
  assumes "d_users s' = d_users s" "d_contacts s' = d_contacts s" "d_tariffs s' = d_tariffs s"
  shows "users_get_entity_by_contact a b s = Inr (Some u, s) \<Longrightarrow> users_get_entity_by_contact a b s' = Inr (Some u, s')"
    and "requested_tariff rq s = Inr (t, s) \<Longrightarrow> requested_tariff rq s' = Inr (t, s')"
  using assms
  by (auto simp: users_get_entity_by_contact_def users_get_user_by_contact_def requested_tariff_def admin_get_tariff_entity_def
      bindT_Inr entityT_Inr_iff split: option.splits if_splits)

lemma prepare_order_accounts:
  assumes u: "requesting_user rq s = Inr (u, s)" and run: "prepare_order l rq tok now s = Inr (p, s1)"
  shows "d_users s1 = d_users s \<and> d_contacts s1 = d_contacts s \<and> d_tariffs s1 = d_tariffs s"
proof -
  let ?Q = "\<lambda>a b c. a = d_users s \<and> b = d_contacts s \<and> c = d_tariffs s"
  obtain tariff :: Tariff and c x y s0 where ro: "resolve_order c s = Inr ((x, y), s0)" and att: "attempt_for_order l (ta_name tariff) tok now (x, y) s0 = Inr (p, s1)"
    by (rule prepare_order_parts [OF u run], rule that)
  have "?Q (d_users s0) (d_contacts s0) (d_tariffs s0)" by (rule preservesD [OF accounts_frame(1) _ ro]) simp
  then show ?thesis by (rule preservesD [OF attempt_for_order_frame(1) _ att])
qed

text \<open>C15. Repeating a payment request while its attempt is open or invoiced (even from another worker, with another lease token and
  later) answers with the same order and the same attempt, takes no new claim and leaves the database as it is.\<close>

theorem repeated_request_is_answered:
  assumes inv: "pay_inv s" and dated: "attempts_dated s"
    and user: "users_get_entity_by_contact ''telegram_id'' (show_int (rq_telegram_id rq)) s = Inr (Some u, s)"
    and run: "prepare_order l rq tok now s = Inr (p, s1)" and open_attempt: "answers (pp_attempt p) later"
  shows "prepare_order l' rq tok' later s1 = Inr (p\<lparr>pp_owns_creation_claim := False, pp_creation_lease_token := None\<rparr>, s1)"
proof -
  obtain tariff uid tid c oid ord s0 where t: "requested_tariff rq s = Inr (tariff, s)" and ids: "us_id u = Some uid" "ta_id tariff = Some tid"
    and c: "candidate_order rq uid tid tariff = Inr c" and ro: "resolve_order c s = Inr ((oid, ord), s0)"
    and att: "attempt_for_order l (ta_name tariff) tok now (oid, ord) s0 = Inr (p, s1)"
    by (rule prepare_order_parts [OF known_user [OF user] run])
  have cok: "order_row_ok c" using candidate_order_ok [OF c] tariff_price_wf [OF t] by simp
  note stored = resolve_order_stored [OF inv cok ro]
  have "attempts_dated s0" "table_wf pa_id (d_attempts s0)"
    using preservesD [OF resolve_order_dated _ ro] dated inv by (simp_all add: pay_inv_def pay_inv_except_def)
  note latest = attempt_for_order_latest [OF this att]
  note acc = prepare_order_accounts [OF known_user [OF user] run]
  have ords: "d_orders s1 = d_orders s0" by (rule preservesD [OF attempt_for_order_frame(2) refl att])
  have "orders_inv (d_orders s1)"
    using preservesD [OF pay_inv_prepare_order inv run] by (simp add: pay_inv_def pay_inv_except_def)
  then have again: "resolve_order c s1 = Inr ((oid, ord), s1)"
    using order_loads_again stored ords by simp
  have "prepare_order l' rq tok' later s1 = attempt_for_order l' (ta_name tariff) tok' later (oid, ord) s1"
    using acc by (intro prepare_order_eval [OF known_user _ ids c again] accounts_congs [of s1 s] user t) simp_all
  also have "\<dots> = Inr (p\<lparr>pp_owns_creation_claim := False, pp_creation_lease_token := None\<rparr>, s1)"
    using attempt_answers_again [OF conjunct1 [OF latest] open_attempt] latest by simp
  finally show ?thesis .
qed

text \<open>An idempotency key buys one thing: a request whose key is stored with another user, tariff, provider, price or period
  is refused with a conflict and nothing is stored.\<close>

theorem reused_key_is_refused:
  assumes inv: "pay_inv s" and user: "users_get_entity_by_contact ''telegram_id'' (show_int (rq_telegram_id rq)) s = Inr (Some u, s)"
    and tariff: "requested_tariff rq s = Inr (tariff, s)" and ids: "us_id u = Some uid" "ta_id tariff = Some tid"
    and c: "candidate_order rq uid tid tariff = Inr c"
    and row: "find_row (\<lambda>r. po_idempotency_key r = po_idempotency_key c) (d_orders s) = Some ord"
    and other: "\<not> PaymentOrder_has_same_creation_identity ord c"
  shows "CreatePayment_execute registry meanwhile l rq tok now later s =
     (Inl (ConflictError ''Idempotency key is already used by another payment request''), s)"
proof -
  have oi: "orders_inv (d_orders s)" using inv by (simp add: pay_inv_def pay_inv_except_def)
  have mem: "ord \<in> set (rows (d_orders s))" and wf: "table_wf po_id (d_orders s)"
    using find_row_SomeD [OF row] oi by (simp_all add: orders_inv_def)
  obtain i where i: "po_id ord = Some i" using orders_tab.wf_row_range [OF wf mem] by blast
  have "resolve_order c s = Inl (ConflictError ''Idempotency key is already used by another payment request'')"
    using order_loads [OF oi orders_tab.get_row_member [OF wf mem i]] orders_inv_row [OF oi mem] row i other
    by (simp add: resolve_order_def payments_add_order_entity_def payments_create_order_def
        payments_get_order_by_idempotency_def bindT_def [where s = s])
  then have "prepare_order l rq tok now s = Inl (ConflictError ''Idempotency key is already used by another payment request'')"
    using known_user [OF user] tariff ids c by (simp add: prepare_order_def bindT_def [where s = s])
  then show ?thesis by (simp add: CreatePayment_execute_def run_uow_def)
qed

text \<open>A worker that lost its creation claim while the provider was called changes nothing: finalising answers with the order's
  latest attempt, failing is a no-op, and the database stays as it is.\<close>

theorem lost_claim_changes_nothing:
  assumes "get_row pa_id aid (d_attempts s) = Some att" and "\<not> PaymentAttempt_owns_creation_claim att tok"
    and "po_id ord = Some (pa_payment_order_id att)"
  shows "run_uow (fail_owned_claim (Some aid) tok now) s = (Inr (), s) \<and>
     (\<exists>c. latest_attempt (pa_payment_order_id att) s = Some c \<and>
        run_uow (finalize_owned_claim ord (Some aid) tok intent now) s = (Inr c, s))"
proof -
  have "att \<in> set (select_rows (\<lambda>a. pa_payment_order_id a = pa_payment_order_id att) (d_attempts s))"
    using get_row_key [OF assms(1)] by (simp add: select_rows_def)
  then obtain c where c: "latest_attempt (pa_payment_order_id att) s = Some c"
    by (cases "latest_attempt (pa_payment_order_id att) s") (auto simp: latest_attempt_def)
  have "run_uow (fail_owned_claim (Some aid) tok now) s = (Inr (), s)"
    using assms(2) by (simp add: fail_owned_claim_def run_uow_def bindT_def [where s = s] attempt_loads [OF assms(1)])
  moreover have "run_uow (finalize_owned_claim ord (Some aid) tok intent now) s = (Inr c, s)"
    using assms(2,3) c
    by (simp add: finalize_owned_claim_def run_uow_def bindT_def [where s = s] attempt_loads [OF assms(1)] latest_loads)
  ultimately show ?thesis using c by blast
qed

text \<open>A shop with one registered user and one tariff.\<close>

definition open_shop :: db where
  "open_shop = (empty_db 10)\<lparr>
     d_users := \<lparr>rows = [\<lparr>us_id = Some 1, us_name_or_nick = ''ann'', us_created_at = Some 1, us_contacts = [], us_enabled = True\<rparr>],
                 next_id = 2\<rparr>,
     d_contacts := \<lparr>rows = [\<lparr>cr_id = Some 1, cr_user_id = 1, cr_contact_type = ''telegram_id'', cr_contact_value = ''7'',
                             cr_is_primary = True\<rparr>], next_id = 2\<rparr>,
     d_tariffs := \<lparr>rows = [\<lparr>ta_id = Some 1, ta_name = ''month'', ta_price = \<lparr>minor = 19900, currency = ''RUB''\<rparr>,
                             ta_period_days = 30, ta_description = None, ta_is_enabled = True\<rparr>,
                           \<lparr>ta_id = Some 2, ta_name = ''year'', ta_price = \<lparr>minor = 199000, currency = ''RUB''\<rparr>,
                             ta_period_days = 365, ta_description = None, ta_is_enabled = True\<rparr>], next_id = 3\<rparr>\<rparr>"

definition sample_request :: "int \<Rightarrow> payment_request" where
  "sample_request tariff_id = \<lparr>rq_telegram_id = 7, rq_tariff_id = tariff_id, rq_provider = ''dummy'', rq_idempotency_key = ''k'',
     rq_username = None, rq_name_or_nick = Some ''ann''\<rparr>"

lemma open_shop_inv: "pay_inv open_shop" "attempts_dated open_shop"
  by (simp_all add: pay_inv_def pay_inv_except_def open_shop_def empty_db_def empty_table_def table_wf_def orders_inv_def orders_constraints_def
      attempts_constraints_def events_constraints_def txns_constraints_def subs_inv_def subs_constraints_def periods_inv_def
      periods_constraints_def linked_except_def paid_order_def get_row_def attempts_dated_def)

lemma sample_prepared:
  obtains p s1 where "prepare_order 60 (sample_request 1) ''tok'' 10 open_shop = Inr (p, s1)" and "pp_owns_creation_claim p"
    and "answers (pp_attempt p) 20" and "latest_attempt (pa_payment_order_id (pp_attempt p)) s1 = Some (pp_attempt p)" and "pa_id (pp_attempt p) = Some 1"
    and "get_row pa_id 1 (d_attempts s1) = Some (pp_attempt p)" and "\<not> PaymentAttempt_owns_creation_claim (pp_attempt p) ''other''"
    and "po_id (pp_order p) = Some (pa_payment_order_id (pp_attempt p))"
    and "find_row (\<lambda>r. po_idempotency_key r = ''k'') (d_orders s1) = Some (pp_order p)" and "po_tariff_id (pp_order p) = 1"
proof -
  have "case prepare_order 60 (sample_request 1) ''tok'' 10 open_shop of Inl _ \<Rightarrow> False
    | Inr (p, s1) \<Rightarrow> pp_owns_creation_claim p \<and> answers (pp_attempt p) 20 \<and> latest_attempt (pa_payment_order_id (pp_attempt p)) s1 = Some (pp_attempt p) \<and>
        pa_id (pp_attempt p) = Some 1 \<and> get_row pa_id 1 (d_attempts s1) = Some (pp_attempt p) \<and>
        \<not> PaymentAttempt_owns_creation_claim (pp_attempt p) ''other'' \<and>
        po_id (pp_order p) = Some (pa_payment_order_id (pp_attempt p)) \<and>
        find_row (\<lambda>r. po_idempotency_key r = ''k'') (d_orders s1) = Some (pp_order p) \<and> po_tariff_id (pp_order p) = 1"
    by code_simp
  then show ?thesis using that by (auto split: sum.splits)
qed

lemma sample_user: "\<exists>u. users_get_entity_by_contact ''telegram_id'' (show_int (rq_telegram_id (sample_request n))) open_shop = Inr (Some u, open_shop) \<and>
  us_id u = Some 1"
proof -
  have "rq_telegram_id (sample_request n) = 7" by (simp add: sample_request_def)
  moreover have "case users_get_entity_by_contact ''telegram_id'' (show_int 7) open_shop of Inr (Some u, _) \<Rightarrow> us_id u = Some 1 | _ \<Rightarrow> False"
    by code_simp
  ultimately show ?thesis
    by (auto simp: users_get_entity_by_contact_def users_get_user_by_contact_def entityT_Inr_iff split: sum.splits option.splits dest: entityT_state)
qed

theorem repeated_request_is_answered_witness:
  "\<exists>p s1. prepare_order 60 (sample_request 1) ''tok'' 10 open_shop = Inr (p, s1) \<and> pp_owns_creation_claim p \<and>
     prepare_order 60 (sample_request 1) ''other'' 20 s1 = Inr (p\<lparr>pp_owns_creation_claim := False, pp_creation_lease_token := None\<rparr>, s1)"
proof -
  obtain u where u: "users_get_entity_by_contact ''telegram_id'' (show_int (rq_telegram_id (sample_request 1))) open_shop = Inr (Some u, open_shop)"
    using sample_user by blast
  obtain p s1 where p: "prepare_order 60 (sample_request 1) ''tok'' 10 open_shop = Inr (p, s1)" "pp_owns_creation_claim p" "answers (pp_attempt p) 20"
    by (rule sample_prepared)
  show ?thesis using p repeated_request_is_answered [OF open_shop_inv u p(1,3)] by blast
qed

lemma sample_year: "\<exists>t c. requested_tariff (sample_request 2) open_shop = Inr (t, open_shop) \<and> ta_id t = Some 2 \<and>
  candidate_order (sample_request 2) 1 2 t = Inr c \<and> po_idempotency_key c = ''k'' \<and> po_tariff_id c = 2"
proof -
  have "case requested_tariff (sample_request 2) open_shop of Inl _ \<Rightarrow> False | Inr (t, _) \<Rightarrow> ta_id t = Some 2 \<and>
     (case candidate_order (sample_request 2) 1 2 t of Inl _ \<Rightarrow> False | Inr c \<Rightarrow> po_idempotency_key c = ''k'' \<and> po_tariff_id c = 2)"
    by code_simp
  then show ?thesis using tariff_price_wf [of "sample_request 2" open_shop] by (auto split: sum.splits)
qed

theorem reused_key_is_refused_witness:
  "\<exists>p s1. prepare_order 60 (sample_request 1) ''tok'' 10 open_shop = Inr (p, s1) \<and>
     CreatePayment_execute (\<lambda>_. Inl (NotFoundError ''provider'')) id 60 (sample_request 2) ''tok'' 20 30 s1 =
       (Inl (ConflictError ''Idempotency key is already used by another payment request''), s1)"
proof -
  obtain u where u: "users_get_entity_by_contact ''telegram_id'' (show_int (rq_telegram_id (sample_request 1))) open_shop = Inr (Some u, open_shop)"
    and uid: "us_id u = Some 1"
    using sample_user by blast
  obtain t c where t: "requested_tariff (sample_request 2) open_shop = Inr (t, open_shop)" "ta_id t = Some 2"
    "candidate_order (sample_request 2) 1 2 t = Inr c" and c: "po_idempotency_key c = ''k''" "po_tariff_id c = 2"
    using sample_year by blast
  obtain p s1 where run: "prepare_order 60 (sample_request 1) ''tok'' 10 open_shop = Inr (p, s1)"
    and row: "find_row (\<lambda>r. po_idempotency_key r = ''k'') (d_orders s1) = Some (pp_order p)" "po_tariff_id (pp_order p) = 1"
    by (rule sample_prepared)
  have acc: "d_users s1 = d_users open_shop \<and> d_contacts s1 = d_contacts open_shop \<and> d_tariffs s1 = d_tariffs open_shop"
    by (rule prepare_order_accounts [OF known_user [OF u] run])
  have "users_get_entity_by_contact ''telegram_id'' (show_int (rq_telegram_id (sample_request 2))) s1 = Inr (Some u, s1)"
    using accounts_congs(1) [of s1 open_shop] acc u by (simp add: sample_request_def)
  moreover have "requested_tariff (sample_request 2) s1 = Inr (t, s1)" using accounts_congs(2) [of s1 open_shop] acc t(1) by simp
  moreover have "\<not> PaymentOrder_has_same_creation_identity (pp_order p) c"
    using row(2) c(2) by (simp add: PaymentOrder_has_same_creation_identity_def)
  ultimately show ?thesis
    using reused_key_is_refused [OF preservesD [OF pay_inv_prepare_order open_shop_inv(1) run] _ _ uid t(2,3)] run row(1) c(1) by simp
qed

theorem lost_claim_changes_nothing_witness:
  "\<exists>p s1. prepare_order 60 (sample_request 1) ''tok'' 10 open_shop = Inr (p, s1) \<and>
     run_uow (fail_owned_claim (Some 1) ''other'' 20) s1 = (Inr (), s1) \<and>
     run_uow (finalize_owned_claim (pp_order p) (Some 1) ''other'' \<lparr>pi_provider = ''dummy'', pi_provider_payment_id = ''p1'',
        pi_status = ''pending'', pi_payment_url = None, pi_payload = []\<rparr> 20) s1 = (Inr (pp_attempt p), s1)"
proof -
  obtain p s1 where run: "prepare_order 60 (sample_request 1) ''tok'' 10 open_shop = Inr (p, s1)"
    and att: "get_row pa_id 1 (d_attempts s1) = Some (pp_attempt p)" "\<not> PaymentAttempt_owns_creation_claim (pp_attempt p) ''other''"
      "po_id (pp_order p) = Some (pa_payment_order_id (pp_attempt p))"
    and lat: "latest_attempt (pa_payment_order_id (pp_attempt p)) s1 = Some (pp_attempt p)"
    by (rule sample_prepared)
  show ?thesis using run lat lost_claim_changes_nothing [OF att] by simp
qed

end
