(* ===== verification/WebhookProps.thy ===== *)
theory WebhookProps
  imports CreateInv
begin

text \<open>
  What taking in a webhook promises: an unverified or malformed body changes nothing, a verified one is stored once
  and every redelivery answers with the same event.
\<close>

section \<open>Redelivery\<close>

definition inbox_entry :: "string \<Rightarrow> string \<Rightarrow> db \<Rightarrow> WebhookInbox option" where
  "inbox_entry provider key s = find_row (\<lambda>w. wi_provider w = provider \<and> wi_event_key w = key) (d_inbox s)"

definition event_entry :: "string \<Rightarrow> string \<Rightarrow> db \<Rightarrow> PaymentEvent option" where
  "event_entry provider key s = find_row (\<lambda>e. pe_provider e = provider \<and> pe_event_key e = key) (d_events s)"

definition marked_inbox :: "int option \<Rightarrow> PaymentEventStatus \<Rightarrow> time option \<Rightarrow> string option \<Rightarrow> db \<Rightarrow> WebhookInbox table" where
  "marked_inbox i st p e s = update_where (\<lambda>w. wi_id w = i)
     (\<lambda>w. w\<lparr>wi_status := st, wi_error_message := e, wi_processed_at := (case p of None \<Rightarrow> wi_processed_at w | Some x \<Rightarrow> Some x)\<rparr>) (d_inbox s)"

lemma mark_inbox_eval:
  "payments_mark_webhook_inbox_status i st p e s =
     (if inbox_constraints (marked_inbox i st p e s) then Inr ((), s\<lparr>d_inbox := marked_inbox i st p e s\<rparr>)
      else Inl (IntegrityError ''webhook_inbox''))"
  by (simp add: payments_mark_webhook_inbox_status_def put_inbox_def writeT_def marked_inbox_def)

lemma marked_inbox_ok [simp]: "inbox_constraints (marked_inbox i st p e s) = inbox_constraints (d_inbox s)"
  by (simp add: inbox_constraints_def marked_inbox_def comp_def if_distrib [of wi_provider] if_distrib [of wi_event_key] cong: if_cong)

lemma marked_inbox_entry [simp]: "inbox_entry provider key (s\<lparr>d_inbox := marked_inbox i st p e s\<rparr>) = None \<longleftrightarrow> inbox_entry provider key s = None"
  by (simp add: inbox_entry_def marked_inbox_def find_update_where)

lemma inbox_entry_cong: "d_inbox s' = d_inbox s \<Longrightarrow> inbox_entry provider key s' = inbox_entry provider key s"
  by (simp add: inbox_entry_def)

lemma attempt_of_webhook_reads: "\<exists>a. attempt_of_webhook provider n s = Inr (a, s)"
  by (auto simp: attempt_of_webhook_def payments_get_attempt_entity_by_provider_payment_id_def entityT_def payment_attempt_from_row_def split: option.split)

text \<open>Once the inbox and the events know a key, a delivery with it is a duplicate and finds the stored event.\<close>

lemma known_delivery:
  assumes con: "inbox_constraints (d_inbox s)" and w: "inbox_entry provider (ne_event_key n) s = Some w"
    and e: "event_entry provider (ne_event_key n) s = Some ev"
  shows "ingest_tx provider h n d now s = Inr ((False, ev), s\<lparr>d_inbox := marked_inbox (wi_id w) PES_PROCESSED (Some now) None s\<rparr>)"
proof -
  obtain a where a: "attempt_of_webhook provider n s = Inr (a, s)" using attempt_of_webhook_reads by blast
  have "payments_save_webhook_inbox provider (ne_event_key n) h d s = Inr ((False, w), s)"
    using w by (simp add: payments_save_webhook_inbox_def inbox_entry_def)
  moreover have "payments_create_payment_event (received_event provider n a) s = Inr (ev, s)"
    using e by (simp add: payments_create_payment_event_def received_event_def event_entry_def)
  ultimately show ?thesis
    using a con by (simp add: ingest_tx_def bindT_def mark_inbox_eval)
qed

lemma marked_inbox_rows:
  "map (\<lambda>w. (wi_id w, wi_provider w, wi_event_key w, wi_payload w)) (rows (marked_inbox i st p e s)) =
     map (\<lambda>w. (wi_id w, wi_provider w, wi_event_key w, wi_payload w)) (rows (d_inbox s))"
  by (simp add: marked_inbox_def)

lemma save_inbox_stores: "hoare (\<lambda>_. True) (payments_save_webhook_inbox provider key h d) (\<lambda>_ s. inbox_entry provider key s \<noteq> None)"
proof (rule hoareI)
  fix s x s' assume run: "payments_save_webhook_inbox provider key h d s = Inr (x, s')"
  show "inbox_entry provider key s' \<noteq> None"
  proof (cases "inbox_entry provider key s")
    case (Some w)
    then show ?thesis using run by (simp add: payments_save_webhook_inbox_def inbox_entry_def)
  next
    case None
    then show ?thesis
      using run by (auto simp: payments_save_webhook_inbox_def inbox_entry_def bindT_Inr put_inbox_def writeT_Inr_iff find_row_def
          insert_row_def Let_def find_append)
  qed
qed

lemma create_event_stores:
  "hoare (\<lambda>s. inbox_entry provider key s \<noteq> None) (payments_create_payment_event e)
     (\<lambda>ev s. inbox_entry provider key s \<noteq> None \<and> event_entry (pe_provider e) (pe_event_key e) s = Some ev)"
proof (rule hoareI)
  fix s x s' assume pre: "inbox_entry provider key s \<noteq> None" and run: "payments_create_payment_event e s = Inr (x, s')"
  show "inbox_entry provider key s' \<noteq> None \<and> event_entry (pe_provider e) (pe_event_key e) s' = Some x"
  proof (cases "event_entry (pe_provider e) (pe_event_key e) s")
    case (Some w)
    then show ?thesis using run pre by (auto simp: payments_create_payment_event_def event_entry_def)
  next
    case None
    then show ?thesis
      using run pre by (auto simp: payments_create_payment_event_def event_entry_def bindT_Inr put_events_def writeT_Inr_iff find_row_def
          insert_row_def Let_def find_append inbox_entry_def)
  qed
qed

lemma delivered:
  "hoare (\<lambda>_. True) (ingest_tx provider h n d now)
     (\<lambda>r s. inbox_constraints (d_inbox s) \<and> inbox_entry provider (ne_event_key n) s \<noteq> None \<and>
       event_entry provider (ne_event_key n) s = Some (snd r))"
  unfolding ingest_tx_def case_prod_beta
proof (rule hoare_bindT [OF save_inbox_stores], rule hoare_seq)
  show "preserves (\<lambda>s. inbox_entry provider (ne_event_key n) s \<noteq> None) (attempt_of_webhook provider n)"
    unfolding attempt_of_webhook_def payments_get_attempt_entity_by_provider_payment_id_def by (intro preserves_intros)
  fix x :: "bool \<times> WebhookInbox" and a
  show "hoare (\<lambda>s. inbox_entry provider (ne_event_key n) s \<noteq> None)
     (bindT (payments_create_payment_event (received_event provider n a)) (\<lambda>event.
      bindT (payments_mark_webhook_inbox_status (wi_id (snd x)) PES_PROCESSED (Some now) None) (\<lambda>_. retT (fst x, event))))
     (\<lambda>r s. inbox_constraints (d_inbox s) \<and> inbox_entry provider (ne_event_key n) s \<noteq> None \<and>
       event_entry provider (ne_event_key n) s = Some (snd r))"
    by (rule hoare_bindT [OF create_event_stores])
       (auto simp: hoare_def bindT_Inr mark_inbox_eval received_event_def event_entry_def
          simp del: not_None_eq split: if_splits)
qed

section \<open>Properties\<close>

text \<open>A webhook that its provider's adapter rejects, or whose body is not a JSON object, is refused with that error and
  leaves no trace.\<close>

theorem unverified_webhook_changes_nothing:
  assumes "verify provider body headers = Inl e \<or> (\<exists>n. verify provider body headers = Inr n \<and> parse_raw_payload loads body = Inl e)"
  shows "IngestWebhook_execute verify loads provider body headers now s = (Inl e, s)"
  using assms by (auto simp: IngestWebhook_execute_def)

theorem unverified_webhook_changes_nothing_witness:
  "IngestWebhook_execute (\<lambda>_ _ _. Inl (WebhookAuthenticationError ''signature'')) (\<lambda>_. None) ''dummy'' ''{}'' [] 10 (empty_db 10) =
     (Inl (WebhookAuthenticationError ''signature''), empty_db 10)"
  by (rule unverified_webhook_changes_nothing) simp

text \<open>C16. A webhook delivered again, also after other transactions that keep its inbox entry and its event, is reported as a
  duplicate of the same event and queues that same event again. It stores nothing more: the events and every other table stay as
  they were, and the inbox keeps its rows, of which only the webhook's own is marked processed again.\<close>

theorem redelivered_webhook_is_duplicate:
  assumes v: "verify provider body headers = Inr n" and p: "parse_raw_payload loads body = Inr d"
    and run: "IngestWebhook_execute verify loads provider body headers now s = (Inr (r, jobs), s1)"
    and inbox: "inbox_constraints (d_inbox s2)" "inbox_entry provider (ne_event_key n) s1 \<noteq> None \<longrightarrow> inbox_entry provider (ne_event_key n) s2 = Some w"
    and event: "map_option pe_id (event_entry provider (ne_event_key n) s2) = map_option pe_id (event_entry provider (ne_event_key n) s1)"
  shows "IngestWebhook_execute verify loads provider body headers later s2 =
       (Inr (r\<lparr>ir_duplicate := True\<rparr>, [PROCESS_PAYMENT_EVENT (ir_payment_event_id r)]),
        s2\<lparr>d_inbox := marked_inbox (wi_id w) PES_PROCESSED (Some later) None s2\<rparr>) \<and>
     map (\<lambda>x. (wi_id x, wi_provider x, wi_event_key x, wi_payload x)) (rows (marked_inbox (wi_id w) PES_PROCESSED (Some later) None s2)) =
       map (\<lambda>x. (wi_id x, wi_provider x, wi_event_key x, wi_payload x)) (rows (d_inbox s2)) \<and>
     (\<forall>x\<in>set (rows (d_inbox s2)). wi_id x \<noteq> wi_id w \<longrightarrow> x \<in> set (rows (marked_inbox (wi_id w) PES_PROCESSED (Some later) None s2)))"
proof -
  obtain b ev i where first: "ingest_tx provider headers n d now s = Inr ((b, ev), s1)" and i: "pe_id ev = Some i"
    and r: "r = \<lparr>ir_duplicate = \<not> b, ir_event_key = ne_event_key n, ir_payment_event_id = i\<rparr>"
    using run v p by (auto simp: IngestWebhook_execute_def run_uow_Inr bindT_Inr liftT_Inr_iff require_def split: option.splits)
  note d = hoareD [OF delivered TrueI first]
  obtain ev2 where ev2: "event_entry provider (ne_event_key n) s2 = Some ev2" and i2: "pe_id ev2 = Some i"
    using event d i by auto
  have w: "inbox_entry provider (ne_event_key n) s2 = Some w" using inbox(2) d by blast
  have "ingest_tx provider headers n d later s2 =
      Inr ((False, ev2), s2\<lparr>d_inbox := marked_inbox (wi_id w) PES_PROCESSED (Some later) None s2\<rparr>)"
    by (rule known_delivery [OF inbox(1) w ev2])
  then have "IngestWebhook_execute verify loads provider body headers later s2 =
       (Inr (r\<lparr>ir_duplicate := True\<rparr>, [PROCESS_PAYMENT_EVENT (ir_payment_event_id r)]),
        s2\<lparr>d_inbox := marked_inbox (wi_id w) PES_PROCESSED (Some later) None s2\<rparr>)"
    using v p i2 by (simp add: IngestWebhook_execute_def run_uow_def bindT_def liftT_def require_def r)
  then show ?thesis using marked_inbox_rows by (auto simp: marked_inbox_def)
qed

definition sample_webhook :: NormalizedWebhookEvent where
  "sample_webhook = \<lparr>ne_provider = ''dummy'', ne_event_key = ''e1'', ne_event_type = ''payment.succeeded'', ne_status = Some PS_PAID,
     ne_occurred_at = 5, ne_provider_payment_id = Some ''p1'', ne_payment_order_id = Some 1, ne_amount_minor = Some 19900,
     ne_currency = Some ''RUB'', ne_payload = []\<rparr>"

theorem redelivered_webhook_is_duplicate_witness:
  "\<exists>s1 w. IngestWebhook_execute (\<lambda>_ _ _. Inr sample_webhook) (\<lambda>_. Some (JObj [])) ''dummy'' ''{}'' [] 10 (sample_shop []) =
       (Inr (\<lparr>ir_duplicate = False, ir_event_key = ''e1'', ir_payment_event_id = 4\<rparr>, [PROCESS_PAYMENT_EVENT 4]), s1) \<and>
     inbox_entry ''dummy'' ''e1'' s1 = Some w \<and>
     IngestWebhook_execute (\<lambda>_ _ _. Inr sample_webhook) (\<lambda>_. Some (JObj [])) ''dummy'' ''{}'' [] 20 s1 =
       (Inr (\<lparr>ir_duplicate = True, ir_event_key = ''e1'', ir_payment_event_id = 4\<rparr>, [PROCESS_PAYMENT_EVENT 4]),
        s1\<lparr>d_inbox := marked_inbox (wi_id w) PES_PROCESSED (Some 20) None s1\<rparr>)"
proof -
  let ?x = "IngestWebhook_execute (\<lambda>_ _ _. Inr sample_webhook) (\<lambda>_. Some (JObj [])) ''dummy'' ''{}'' [] 10 (sample_shop [])"
  have "fst ?x = Inr (\<lparr>ir_duplicate = False, ir_event_key = ''e1'', ir_payment_event_id = 4\<rparr>, [PROCESS_PAYMENT_EVENT 4]) \<and>
      inbox_constraints (d_inbox (snd ?x)) \<and> \<not> Option.is_none (inbox_entry ''dummy'' ''e1'' (snd ?x))"
    by code_simp
  then obtain s1 w where x: "?x = (Inr (\<lparr>ir_duplicate = False, ir_event_key = ''e1'', ir_payment_event_id = 4\<rparr>, [PROCESS_PAYMENT_EVENT 4]), s1)"
    and c: "inbox_constraints (d_inbox s1)" and w: "inbox_entry ''dummy'' ''e1'' s1 = Some w"
    by (cases ?x) (auto simp: Option.is_none_def)
  have k: "ne_event_key sample_webhook = ''e1''" by (simp add: sample_webhook_def)
  have "IngestWebhook_execute (\<lambda>_ _ _. Inr sample_webhook) (\<lambda>_. Some (JObj [])) ''dummy'' ''{}'' [] 20 s1 =
       (Inr (\<lparr>ir_duplicate = False, ir_event_key = ''e1'', ir_payment_event_id = 4\<rparr>\<lparr>ir_duplicate := True\<rparr>, [PROCESS_PAYMENT_EVENT 4]),
        s1\<lparr>d_inbox := marked_inbox (wi_id w) PES_PROCESSED (Some 20) None s1\<rparr>)"
    using redelivered_webhook_is_duplicate [OF _ _ x c, of sample_webhook "[]" w 20] w by (simp add: parse_raw_payload_def k)
  with x w show ?thesis by auto
qed

end
