(* ===== verification/NodeRepo.thy ===== *)
theory NodeRepo
  imports VpnRepo NodeSelection
begin

text \<open>
  The repositories of nodes, their tasks and credentials (\<^verbatim>\<open>repositories/nodes.py\<close>) and of servers and
  endpoints (\<^verbatim>\<open>repositories/servers.py\<close>), with the joined row of \<^verbatim>\<open>VpnRepository\<close>.

  A SQL join is a list comprehension over the tables; a LEFT JOIN gives an option. \<open>node_task_from_row\<close> does not
  read the column \<^verbatim>\<open>journal_retired_at\<close>, so a loaded task has none. \<^verbatim>\<open>remote_client_ref\<close> is a text column:
  the driver refuses a value that is no text, which \<open>text_column\<close> writes out.
\<close>

section \<open>Mappers and columns\<close>

definition node_from_row :: "Node \<Rightarrow> Node res" where
  "node_from_row row = Node_post_init row"

definition node_task_from_row :: "NodeTask \<Rightarrow> NodeTask res" where
  "node_task_from_row row = NodeTask_post_init (row\<lparr>nt_journal_retired_at := None\<rparr>)"

fun text_column :: "json \<Rightarrow> string option res" where
  "text_column JNull = Inr None"
| "text_column (JStr s) = Inr (Some s)"
| "text_column _ = Inl (DataError ''expected str'')"

fun int_column :: "json \<Rightarrow> int option res" where
  "int_column JNull = Inr None"
| "int_column (JInt i) = Inr (Some i)"
| "int_column _ = Inl (DataError ''expected int'')"

definition put_nodes :: "Node table \<Rightarrow> unit tx" where
  "put_nodes t = writeT nodes_constraints ''nodes'' t (\<lambda>t s. s\<lparr>d_nodes := t\<rparr>)"

definition put_nstatus :: "NodeStatusRow list \<Rightarrow> unit tx" where
  "put_nstatus t = writeT nstatus_constraints ''node_status'' t (\<lambda>t s. s\<lparr>d_nstatus := t\<rparr>)"

definition put_creds :: "NodeCredential table \<Rightarrow> unit tx" where
  "put_creds t = writeT creds_constraints ''node_credentials'' t (\<lambda>t s. s\<lparr>d_creds := t\<rparr>)"

definition put_ntasks :: "NodeTask table \<Rightarrow> unit tx" where
  "put_ntasks t = writeT ntasks_constraints ''node_tasks'' t (\<lambda>t s. s\<lparr>d_ntasks := t\<rparr>)"

definition put_nattempts :: "NodeTaskAttempt table \<Rightarrow> unit tx" where
  "put_nattempts t = writeT nattempts_constraints ''node_task_attempts'' t (\<lambda>t s. s\<lparr>d_nattempts := t\<rparr>)"

definition put_servers :: "ServerRow table \<Rightarrow> unit tx" where
  "put_servers t = writeT servers_constraints ''servers'' t (\<lambda>t s. s\<lparr>d_servers := t\<rparr>)"

definition put_endpoints :: "EndpointRow table \<Rightarrow> unit tx" where
  "put_endpoints t = writeT endpoints_constraints ''server_endpoints'' t (\<lambda>t s. s\<lparr>d_endpoints := t\<rparr>)"

section \<open>Nodes\<close>

definition nodes_create_node :: "string \<Rightarrow> string \<Rightarrow> string \<Rightarrow> bool \<Rightarrow> int \<Rightarrow> Node tx" where
  "nodes_create_node node_key display_name api_base_url is_enabled selection_weight =
     bindT (readT d_nodes) (\<lambda>t.
     if list_ex (\<lambda>n. no_node_key n = node_key) (rows t)
     then raiseT (ConflictError ''Node with the same key already exists'')
     else
       (let (row, t') = insert_row (\<lambda>i r. r\<lparr>no_id := Some i\<rparr>)
          \<lparr>no_id = None, no_node_key = node_key, no_display_name = display_name, no_api_base_url = api_base_url,
           no_status = NS_UNKNOWN, no_is_enabled = is_enabled, no_selection_weight = selection_weight,
           no_last_seen_at = None, no_last_error = None\<rparr> t in
        bindT (put_nodes t') (\<lambda>_. retT row)))"

definition nodes_get_node :: "int \<Rightarrow> Node option tx" where
  "nodes_get_node node_id = readT (\<lambda>s. get_row no_id node_id (d_nodes s))"

definition status_of_node :: "int \<Rightarrow> db \<Rightarrow> NodeStatusRow option" where
  "status_of_node node_id s = List.find (\<lambda>r. st_node_id r = node_id) (d_nstatus s)"

definition nodes_get_node_operation_state :: "int \<Rightarrow> (Node \<times> NodeStatusRow option) option tx" where
  "nodes_get_node_operation_state node_id = readT (\<lambda>s.
     map_option (\<lambda>n. (n, status_of_node node_id s)) (get_row no_id node_id (d_nodes s)))"

definition nodes_list_enabled_nodes :: "Node list tx" where
  "nodes_list_enabled_nodes = readT (\<lambda>s.
     sort_key (\<lambda>n. (- no_selection_weight n, opt_id (no_id n))) (select_rows no_is_enabled (d_nodes s)))"

definition nodes_create_credential :: "int \<Rightarrow> string \<Rightarrow> string \<Rightarrow> bool \<Rightarrow> time option \<Rightarrow> NodeCredential tx" where
  "nodes_create_credential node_id key_id shared_secret is_active expires_at =
     bindT (readT (\<lambda>s. s)) (\<lambda>s.
     let t = (if is_active
              then update_where (\<lambda>r. nc_node_id r = node_id \<and> nc_is_active r) (\<lambda>r. r\<lparr>nc_is_active := False\<rparr>) (d_creds s)
              else d_creds s);
         (row, t') = insert_row (\<lambda>i r. r\<lparr>nc_id := Some i\<rparr>)
           \<lparr>nc_id = None, nc_node_id = node_id, nc_key_id = key_id, nc_shared_secret = shared_secret,
            nc_is_active = is_active, nc_created_at = d_clock s, nc_expires_at = expires_at\<rparr> t in
     bindT (put_creds t') (\<lambda>_. retT row))"

definition nodes_get_active_credential :: "int \<Rightarrow> NodeCredential option tx" where
  "nodes_get_active_credential node_id = readT (\<lambda>s.
     top_by nc_created_at (select_rows (\<lambda>r. nc_node_id r = node_id \<and> nc_is_active r) (d_creds s)))"

section \<open>Health\<close>

text \<open>What one probe of a node reports.\<close>

record probe_report =
  pb_health_status :: NodeStatus
  pb_agent_version :: "string option"
  pb_capabilities :: dict
  pb_metrics :: dict
  pb_status_payload :: dict
  pb_inbounds :: "dict list"
  pb_last_seen_at :: "time option"
  pb_last_error :: "string option"

definition new_status_row :: "int \<Rightarrow> NodeStatus \<Rightarrow> time \<Rightarrow> NodeStatusRow" where
  "new_status_row node_id st now =
     \<lparr>st_node_id = node_id, st_health_status = st, st_agent_version = None, st_capabilities = [], st_metrics = [],
      st_status_payload = [], st_inbounds = [], st_last_seen_at = None, st_last_checked_at = Some now,
      st_last_failed_at = None, st_active_clients = None, st_max_clients = None, st_probe_lease_token = None,
      st_probe_lease_expires_at = None, st_updated_at = now\<rparr>"

definition reported_status :: "probe_report \<Rightarrow> time \<Rightarrow> time option \<Rightarrow> NodeStatusRow \<Rightarrow> NodeStatusRow" where
  "reported_status p checked_at failed_at r =
     r\<lparr>st_health_status := pb_health_status p, st_agent_version := pb_agent_version p,
       st_capabilities := pb_capabilities p, st_metrics := pb_metrics p, st_status_payload := pb_status_payload p,
       st_inbounds := pb_inbounds p, st_last_seen_at := pb_last_seen_at p, st_last_checked_at := Some checked_at,
       st_last_failed_at := failed_at, st_updated_at := checked_at\<rparr>"

definition update_nodes_row :: "int \<Rightarrow> (Node \<Rightarrow> Node) \<Rightarrow> unit tx" where
  "update_nodes_row node_id f = bindT (readT d_nodes) (\<lambda>t. put_nodes (update_row no_id node_id f t))"

text \<open>\<open>upsert_node_status\<close> copies the client counts only when the status row exists already.\<close>

definition nodes_upsert_node_status :: "int \<Rightarrow> probe_report \<Rightarrow> time \<Rightarrow> time option \<Rightarrow> unit tx" where
  "nodes_upsert_node_status node_id p checked_at last_failed_at =
     bindT (liftT (int_column (dict_value (pb_metrics p) ''active_clients''))) (\<lambda>active.
     bindT (liftT (int_column (dict_value (pb_metrics p) ''max_clients''))) (\<lambda>maxc.
     bindT (readT d_nstatus) (\<lambda>rs.
     bindT (if list_ex (\<lambda>r. st_node_id r = node_id) rs
            then put_nstatus (map (\<lambda>r. if st_node_id r = node_id
                   then (reported_status p checked_at last_failed_at r)\<lparr>st_active_clients := active, st_max_clients := maxc\<rparr> else r) rs)
            else put_nstatus (rs @ [reported_status p checked_at last_failed_at (new_status_row node_id (pb_health_status p) checked_at)])) (\<lambda>_.
     update_nodes_row node_id (\<lambda>n. n\<lparr>no_status := pb_health_status p, no_last_seen_at := pb_last_seen_at p,
       no_last_error := pb_last_error p\<rparr>)))))"

definition nodes_mark_node_unreachable :: "int \<Rightarrow> string \<Rightarrow> time \<Rightarrow> unit tx" where
  "nodes_mark_node_unreachable node_id error_message seen_at =
     bindT (update_nodes_row node_id (\<lambda>n. n\<lparr>no_status := NS_OFFLINE, no_last_error := Some error_message\<rparr>)) (\<lambda>_.
     bindT (readT d_nstatus) (\<lambda>rs.
     if list_ex (\<lambda>r. st_node_id r = node_id) rs
     then put_nstatus (map (\<lambda>r. if st_node_id r = node_id
            then r\<lparr>st_health_status := NS_OFFLINE, st_last_checked_at := Some seen_at, st_last_failed_at := Some seen_at,
                   st_updated_at := seen_at\<rparr> else r) rs)
     else put_nstatus (rs @ [(new_status_row node_id NS_OFFLINE seen_at)\<lparr>st_last_failed_at := Some seen_at\<rparr>])))"

record NodeProbeClaim =
  cl_node_id :: int
  cl_lease_token :: uuid
  cl_node :: Node

definition probe_due :: "time \<Rightarrow> time \<Rightarrow> NodeStatusRow \<Rightarrow> bool" where
  "probe_due now due_before r \<longleftrightarrow>
     (case st_last_checked_at r of None \<Rightarrow> True | Some c \<Rightarrow> c \<le> due_before) \<and>
     (case st_probe_lease_expires_at r of None \<Rightarrow> True | Some e \<Rightarrow> e \<le> now)"

definition probe_targets :: "time \<Rightarrow> time \<Rightarrow> nat \<Rightarrow> db \<Rightarrow> (NodeStatusRow \<times> Node) list" where
  "probe_targets now due_before limit s =
     take limit (sort_key (\<lambda>(r, n). (st_last_checked_at r \<noteq> None, opt_time (st_last_checked_at r), st_node_id r))
       [(r, n). r \<leftarrow> d_nstatus s, n \<leftarrow> rows (d_nodes s),
          no_id n = Some (st_node_id r) \<and> no_is_enabled n \<and> probe_due now due_before r])"

text \<open>\<open>fresh n\<close> is the UUID drawn for the n-th claim.\<close>

fun claim_probes :: "time \<Rightarrow> (uuid \<times> NodeStatusRow \<times> Node) list \<Rightarrow> NodeProbeClaim list tx" where
  "claim_probes expires_at [] = retT []"
| "claim_probes expires_at ((token, r, n) # targets) =
     bindT (readT d_nstatus) (\<lambda>rs.
     bindT (put_nstatus (map (\<lambda>x. if st_node_id x = st_node_id r
              then x\<lparr>st_probe_lease_token := Some token, st_probe_lease_expires_at := Some expires_at\<rparr> else x) rs)) (\<lambda>_.
     bindT (claim_probes expires_at targets) (\<lambda>claims.
     retT (\<lparr>cl_node_id = st_node_id r, cl_lease_token = token, cl_node = n\<rparr> # claims))))"

definition nodes_claim_due_probe_targets :: "(nat \<Rightarrow> uuid) \<Rightarrow> time \<Rightarrow> time \<Rightarrow> nat \<Rightarrow> int \<Rightarrow> NodeProbeClaim list tx" where
  "nodes_claim_due_probe_targets fresh now due_before limit lease_seconds =
     bindT (readT (probe_targets now due_before limit)) (\<lambda>targets.
     claim_probes (now + seconds lease_seconds) (zip (map fresh [0..<length targets]) targets))"

definition nodes_finalize_probe :: "int \<Rightarrow> uuid \<Rightarrow> probe_report \<Rightarrow> time \<Rightarrow> bool tx" where
  "nodes_finalize_probe node_id lease_token p completed_at =
     bindT (liftT (int_column (dict_value (pb_metrics p) ''active_clients''))) (\<lambda>active.
     bindT (liftT (int_column (dict_value (pb_metrics p) ''max_clients''))) (\<lambda>maxc.
     bindT (readT d_nstatus) (\<lambda>rs.
     let mine = (\<lambda>r. st_node_id r = node_id \<and> st_probe_lease_token r = Some lease_token);
         failed_at = (if or_else (pb_last_error p) [] = [] then None else Some completed_at) in
     bindT (put_nstatus (map (\<lambda>r. if mine r
              then (reported_status p completed_at failed_at r)\<lparr>st_active_clients := active, st_max_clients := maxc,
                     st_probe_lease_token := None, st_probe_lease_expires_at := None\<rparr> else r) rs)) (\<lambda>_.
     if length (filter mine rs) \<noteq> 1 then retT False
     else bindT (update_nodes_row node_id (\<lambda>n. n\<lparr>no_status := pb_health_status p, no_last_seen_at := pb_last_seen_at p,
            no_last_error := pb_last_error p\<rparr>)) (\<lambda>_. retT True)))))"

section \<open>Node tasks\<close>

definition vpn_task_row :: "int \<Rightarrow> NodeTaskOperation \<Rightarrow> int \<Rightarrow> db \<Rightarrow> NodeTask option" where
  "vpn_task_row vpn_configuration_id operation vpn_generation s =
     top_by (\<lambda>t. opt_id (nt_id t)) (select_rows (\<lambda>t. nt_vpn_configuration_id t = Some vpn_configuration_id \<and>
       nt_operation t = operation \<and> nt_vpn_generation t = Some vpn_generation) (d_ntasks s))"

text \<open>The unique indexes an insert can collide with: the UUID, the idempotency key and the VPN operation of a generation.\<close>

definition task_collides :: "NodeTask \<Rightarrow> NodeTask \<Rightarrow> bool" where
  "task_collides t r \<longleftrightarrow> nt_task_uuid r = nt_task_uuid t \<or> nt_idempotency_key r = nt_idempotency_key t \<or>
     (nt_vpn_configuration_id r \<noteq> None \<and> nt_vpn_generation r \<noteq> None \<and> ntask_vpn_key r = ntask_vpn_key t)"

definition new_task_row :: "NodeTask \<Rightarrow> time \<Rightarrow> NodeTask" where
  "new_task_row task now =
     task\<lparr>nt_status := NTS_PENDING, nt_response_payload := None, nt_remote_client_ref := JNull, nt_attempts := 0,
          nt_next_retry_at := Some (case nt_next_retry_at task of None \<Rightarrow> now | Some r \<Rightarrow> r), nt_last_error := None,
          nt_claimed_at := None, nt_lease_expires_at := None, nt_lease_token := None, nt_created_at := Some now,
          nt_updated_at := Some now, nt_completed_at := None, nt_journal_retired_at := None\<rparr>"

definition existing_task :: "NodeTask \<Rightarrow> db \<Rightarrow> NodeTask option" where
  "existing_task task s =
     (case find_row (\<lambda>r. nt_idempotency_key r = nt_idempotency_key task) (d_ntasks s) of
        Some r \<Rightarrow> Some r
      | None \<Rightarrow>
          (case (nt_vpn_configuration_id task, nt_vpn_generation task) of
             (Some v, Some g) \<Rightarrow> vpn_task_row v (nt_operation task) g s
           | _ \<Rightarrow> None))"

definition nodes_create_task :: "NodeTask \<Rightarrow> NodeTask tx" where
  "nodes_create_task task =
     bindT (readT (\<lambda>s. s)) (\<lambda>s.
     if list_ex (task_collides task) (rows (d_ntasks s))
     then (case existing_task task s of
             None \<Rightarrow> raiseT (RuntimeError ''Failed to create node task'')
           | Some r \<Rightarrow> retT r)
     else
       (let (row, t) = insert_row (\<lambda>i r. r\<lparr>nt_id := Some i\<rparr>) (new_task_row task (d_clock s)) (d_ntasks s) in
        bindT (put_ntasks t) (\<lambda>_. retT row)))"

definition nodes_add_task_entity :: "NodeTask \<Rightarrow> NodeTask tx" where
  "nodes_add_task_entity task = bindT (nodes_create_task task) (\<lambda>row. liftT (node_task_from_row row))"

definition nodes_get_task_entity :: "int \<Rightarrow> NodeTask option tx" where
  "nodes_get_task_entity node_task_id =
     bindT (readT (\<lambda>s. get_row nt_id node_task_id (d_ntasks s))) (entityT node_task_from_row)"

definition nodes_get_vpn_task_for_generation :: "int \<Rightarrow> NodeTaskOperation \<Rightarrow> int \<Rightarrow> NodeTask option tx" where
  "nodes_get_vpn_task_for_generation vpn_configuration_id operation vpn_generation =
     bindT (readT (vpn_task_row vpn_configuration_id operation vpn_generation)) (entityT node_task_from_row)"

definition saved_task :: "NodeTask \<Rightarrow> time \<Rightarrow> NodeTask \<Rightarrow> NodeTask" where
  "saved_task task now r =
     r\<lparr>nt_status := nt_status task, nt_vpn_generation := nt_vpn_generation task,
       nt_response_payload := nt_response_payload task, nt_remote_client_ref := nt_remote_client_ref task,
       nt_attempts := nt_attempts task, nt_next_retry_at := nt_next_retry_at task, nt_last_error := nt_last_error task,
       nt_claimed_at := nt_claimed_at task, nt_lease_expires_at := nt_lease_expires_at task,
       nt_lease_token := nt_lease_token task,
       nt_updated_at := Some (case nt_updated_at task of None \<Rightarrow> now | Some u \<Rightarrow> u),
       nt_completed_at := nt_completed_at task, nt_journal_retired_at := nt_journal_retired_at task\<rparr>"

definition nodes_save_task_entity :: "NodeTask \<Rightarrow> unit tx" where
  "nodes_save_task_entity task =
     (case nt_id task of
        None \<Rightarrow> raiseT (ValueError ''Cannot save node task without id'')
      | Some i \<Rightarrow>
          bindT (liftT (text_column (nt_remote_client_ref task))) (\<lambda>_.
          bindT (readT (\<lambda>s. s)) (\<lambda>s.
          put_ntasks (update_row nt_id i (saved_task task (d_clock s)) (d_ntasks s)))))"

definition nodes_list_due_tasks :: "time \<Rightarrow> nat \<Rightarrow> int list tx" where
  "nodes_list_due_tasks now limit = readT (\<lambda>s.
     map (\<lambda>t. opt_id (nt_id t)) (take limit (sort_key (\<lambda>t. (opt_time (nt_next_retry_at t), opt_id (nt_id t)))
       (select_rows (\<lambda>t. nt_status t = NTS_PENDING \<and>
          (case nt_next_retry_at t of None \<Rightarrow> False | Some r \<Rightarrow> r \<le> now)) (d_ntasks s)))))"

definition nodes_list_stale_task_entities :: "time \<Rightarrow> nat \<Rightarrow> NodeTask list tx" where
  "nodes_list_stale_task_entities now limit =
     bindT (readT (\<lambda>s. take limit (sort_key (\<lambda>t. (opt_time (nt_lease_expires_at t), opt_id (nt_id t)))
       (select_rows (\<lambda>t. nt_status t = NTS_IN_PROGRESS \<and>
          (case nt_lease_expires_at t of None \<Rightarrow> False | Some e \<Rightarrow> e \<le> now)) (d_ntasks s)))))
       (\<lambda>ts. liftT (mapE node_task_from_row ts))"

definition task_is_terminal :: "NodeTask \<Rightarrow> bool" where
  "task_is_terminal t \<longleftrightarrow> nt_status t \<in> {NTS_SUCCEEDED, NTS_FAILED, NTS_CANCELLED}"

definition nodes_list_terminal_unretired_tasks :: "nat \<Rightarrow> NodeTask list tx" where
  "nodes_list_terminal_unretired_tasks limit =
     bindT (readT (\<lambda>s. take limit (sort_key (\<lambda>t. opt_id (nt_id t))
       (select_rows (\<lambda>t. task_is_terminal t \<and> nt_journal_retired_at t = None) (d_ntasks s)))))
       (\<lambda>ts. liftT (mapE node_task_from_row ts))"

definition nodes_mark_task_journal_retired :: "int \<Rightarrow> string \<Rightarrow> time \<Rightarrow> bool tx" where
  "nodes_mark_task_journal_retired node_task_id idempotency_key retired_at =
     bindT (readT d_ntasks) (\<lambda>t.
     let hit = (\<lambda>r. nt_id r = Some node_task_id \<and> nt_idempotency_key r = idempotency_key \<and> task_is_terminal r \<and>
                    nt_journal_retired_at r = None) in
     bindT (put_ntasks (update_where hit (\<lambda>r. r\<lparr>nt_journal_retired_at := Some retired_at, nt_updated_at := Some retired_at\<rparr>) t)) (\<lambda>_.
     retT (list_ex hit (rows t))))"

definition nodes_create_task_attempt :: "int \<Rightarrow> int \<Rightarrow> dict \<Rightarrow> time \<Rightarrow> int tx" where
  "nodes_create_task_attempt node_task_id attempt_no request_payload started_at =
     bindT (readT d_nattempts) (\<lambda>t.
     bindT (put_nattempts (snd (insert_row (\<lambda>i r. r\<lparr>na_id := Some i\<rparr>)
       \<lparr>na_id = None, na_node_task_id = node_task_id, na_attempt_no = attempt_no, na_status = ''started'',
        na_request_payload = request_payload, na_response_payload = None, na_error_message = None,
        na_started_at = started_at, na_finished_at = None\<rparr> t))) (\<lambda>_.
     retT (next_id t)))"

definition nodes_finish_task_attempt :: "int \<Rightarrow> string \<Rightarrow> time \<Rightarrow> dict option \<Rightarrow> string option \<Rightarrow> unit tx" where
  "nodes_finish_task_attempt attempt_id status finished_at response_payload error_message =
     bindT (readT d_nattempts) (\<lambda>t.
     put_nattempts (update_row na_id attempt_id
       (\<lambda>r. r\<lparr>na_status := status, na_finished_at := Some finished_at, na_error_message := error_message,
              na_response_payload := (case response_payload of None \<Rightarrow> na_response_payload r | Some p \<Rightarrow> Some p)\<rparr>) t))"

definition nodes_fail_started_task_attempt :: "int \<Rightarrow> int \<Rightarrow> time \<Rightarrow> string \<Rightarrow> bool tx" where
  "nodes_fail_started_task_attempt node_task_id attempt_no finished_at error_message =
     bindT (readT d_nattempts) (\<lambda>t.
     let hit = (\<lambda>r. na_node_task_id r = node_task_id \<and> na_attempt_no r = attempt_no \<and> na_status r = ''started'' \<and>
                    na_finished_at r = None) in
     bindT (put_nattempts (update_where hit
       (\<lambda>r. r\<lparr>na_status := ''failed'', na_finished_at := Some finished_at, na_error_message := Some error_message\<rparr>) t)) (\<lambda>_.
     retT (list_ex hit (rows t))))"

end
