(* ===== verification/ServerRepo.thy ===== *)
theory ServerRepo
  imports NodeRepo
begin

text \<open>
  The repository of servers and endpoints (\<^verbatim>\<open>repositories/servers.py\<close>), the row of a configuration joined with
  its endpoint (\<^verbatim>\<open>repositories/vpn.py\<close>), and the database leases of the maintenance jobs
  (\<^verbatim>\<open>repositories/maintenance.py\<close>).
\<close>

section \<open>Servers and endpoints\<close>

definition servers_create_server :: "string \<Rightarrow> string \<Rightarrow> bool \<Rightarrow> ServerRow tx" where
  "servers_create_server server_name host is_enabled =
     bindT (readT d_servers) (\<lambda>t.
     if list_ex (\<lambda>r. sv_server_name r = server_name \<or> sv_host r = host) (rows t)
     then raiseT (ConflictError ''Server with the same name or host already exists'')
     else
       (let (row, t') = insert_row (\<lambda>i r. r\<lparr>sv_id := Some i\<rparr>)
          \<lparr>sv_id = None, sv_server_name = server_name, sv_host = host, sv_is_enabled = is_enabled\<rparr> t in
        bindT (put_servers t') (\<lambda>_. retT row)))"

definition endpoint_server :: "EndpointRow \<Rightarrow> db \<Rightarrow> ServerRow option" where
  "endpoint_server e s = get_row sv_id (en_server_id e) (d_servers s)"

definition servers_get_endpoint_with_server :: "int \<Rightarrow> (EndpointRow \<times> ServerRow) option tx" where
  "servers_get_endpoint_with_server server_endpoint_id = readT (\<lambda>s.
     (case get_row en_id server_endpoint_id (d_endpoints s) of
        None \<Rightarrow> None
      | Some e \<Rightarrow> map_option (\<lambda>v. (e, v)) (endpoint_server e s)))"

text \<open>The endpoint's foreign keys are checked: a missing server or node is an integrity error.\<close>

definition endpoint_references :: "EndpointRow \<Rightarrow> db \<Rightarrow> bool" where
  "endpoint_references e s \<longleftrightarrow> endpoint_server e s \<noteq> None \<and>
     (case en_node_id e of None \<Rightarrow> True | Some n \<Rightarrow> get_row no_id n (d_nodes s) \<noteq> None)"

definition servers_create_server_endpoint :: "EndpointRow \<Rightarrow> (EndpointRow \<times> ServerRow) tx" where
  "servers_create_server_endpoint payload =
     bindT (readT (\<lambda>s. s)) (\<lambda>s.
     if list_ex (\<lambda>r. endpoint_tuple r = endpoint_tuple payload) (rows (d_endpoints s))
     then raiseT (ConflictError ''Server endpoint already exists'')
     else if \<not> endpoint_references payload s then raiseT (IntegrityError ''server_endpoints'')
     else
       (let (row, t) = insert_row (\<lambda>i r. r\<lparr>en_id := Some i\<rparr>) payload (d_endpoints s) in
        bindT (put_endpoints t) (\<lambda>_.
        bindT (servers_get_endpoint_with_server (opt_id (en_id row))) (\<lambda>created.
        case created of
          None \<Rightarrow> raiseT (RuntimeError ''Failed to fetch created endpoint'')
        | Some c \<Rightarrow> retT c))))"

definition servers_list_servers :: "ServerRow list tx" where
  "servers_list_servers = readT (\<lambda>s. sort_key (\<lambda>r. opt_id (sv_id r)) (rows (d_servers s)))"

definition endpoints_with_server :: "db \<Rightarrow> (EndpointRow \<times> ServerRow) list" where
  "endpoints_with_server s = [(e, v). e \<leftarrow> rows (d_endpoints s), v \<leftarrow> rows (d_servers s), sv_id v = Some (en_server_id e)]"

definition servers_get_first_enabled_endpoint :: "(EndpointRow \<times> ServerRow) option tx" where
  "servers_get_first_enabled_endpoint = readT (\<lambda>s.
     (case sort_key (\<lambda>(e, v). (opt_id (sv_id v), opt_id (en_id e)))
             (filter (\<lambda>(e, v). sv_is_enabled v \<and> en_is_enabled e \<and> en_node_id e = None) (endpoints_with_server s)) of
        [] \<Rightarrow> None
      | r # _ \<Rightarrow> Some r))"

text \<open>Configurations in these states count against the capacity of their node.\<close>

definition CAPACITY_RESERVING_STATUSES :: "VpnConfigurationStatus list" where
  "CAPACITY_RESERVING_STATUSES = [VS_PROVISIONING, VS_ACTIVE, VS_FAILED, VS_REVOKING, VS_REVOKE_FAILED]"

definition endpoint_node :: "int \<Rightarrow> db \<Rightarrow> int option" where
  "endpoint_node endpoint_id s =
     (case get_row en_id endpoint_id (d_endpoints s) of None \<Rightarrow> None | Some e \<Rightarrow> en_node_id e)"

definition local_reserved_clients :: "int \<Rightarrow> db \<Rightarrow> int" where
  "local_reserved_clients node_id s =
     int (length (select_rows (\<lambda>v. vc_status v \<in> set CAPACITY_RESERVING_STATUSES \<and>
       endpoint_node (vc_server_endpoint_id v) s = Some node_id) (d_vpns s)))"

record candidate_row =
  ca_endpoint :: EndpointRow
  ca_server :: ServerRow
  ca_node :: Node
  ca_status :: "NodeStatusRow option"
  ca_reserved :: int

definition node_candidates :: "db \<Rightarrow> candidate_row list" where
  "node_candidates s =
     [\<lparr>ca_endpoint = e, ca_server = v, ca_node = n, ca_status = status_of_node (opt_id (no_id n)) s,
       ca_reserved = local_reserved_clients (opt_id (no_id n)) s\<rparr>.
        (e, v) \<leftarrow> endpoints_with_server s, n \<leftarrow> rows (d_nodes s),
        no_id n = en_node_id e \<and> no_id n \<noteq> None \<and> sv_is_enabled v \<and> en_is_enabled e]"

definition servers_list_node_selection_candidates :: "candidate_row list tx" where
  "servers_list_node_selection_candidates = readT (\<lambda>s.
     sort_key (\<lambda>c. (opt_id (no_id (ca_node c)), opt_id (en_id (ca_endpoint c)))) (node_candidates s))"

definition servers_lock_and_revalidate_candidate :: "int \<Rightarrow> int \<Rightarrow> candidate_row option tx" where
  "servers_lock_and_revalidate_candidate node_id endpoint_id = readT (\<lambda>s.
     if get_row no_id node_id (d_nodes s) = None then None
     else List.find (\<lambda>c. no_id (ca_node c) = Some node_id \<and> en_id (ca_endpoint c) = Some endpoint_id) (node_candidates s))"

section \<open>Configurations with their endpoint\<close>

record config_row =
  cf_configuration :: VpnConfiguration
  cf_endpoint :: EndpointRow
  cf_server :: ServerRow

definition vpn_get_configuration_with_endpoint :: "int \<Rightarrow> config_row option tx" where
  "vpn_get_configuration_with_endpoint vpn_configuration_id = readT (\<lambda>s.
     (case get_row vc_id vpn_configuration_id (d_vpns s) of
        None \<Rightarrow> None
      | Some v \<Rightarrow>
          (case get_row en_id (vc_server_endpoint_id v) (d_endpoints s) of
             None \<Rightarrow> None
           | Some e \<Rightarrow> map_option (\<lambda>sv. \<lparr>cf_configuration = v, cf_endpoint = e, cf_server = sv\<rparr>) (endpoint_server e s))))"

section \<open>Maintenance leases\<close>

definition put_leases :: "MaintenanceLease list \<Rightarrow> unit tx" where
  "put_leases t = writeT (\<lambda>rs. distinct (map ml_lease_name rs)) ''maintenance_leases'' t (\<lambda>t s. s\<lparr>d_leases := t\<rparr>)"

definition maintenance_acquire_lease :: "string \<Rightarrow> uuid \<Rightarrow> time \<Rightarrow> int \<Rightarrow> bool tx" where
  "maintenance_acquire_lease lease_name owner_token now lease_seconds =
     bindT (readT d_leases) (\<lambda>rs.
     let lease = \<lparr>ml_lease_name = lease_name, ml_owner_token = owner_token,
                  ml_lease_expires_at = now + seconds lease_seconds, ml_updated_at = now\<rparr> in
     case List.find (\<lambda>r. ml_lease_name r = lease_name) rs of
       None \<Rightarrow> bindT (put_leases (rs @ [lease])) (\<lambda>_. retT True)
     | Some r \<Rightarrow>
         if ml_lease_expires_at r \<le> now
         then bindT (put_leases (map (\<lambda>r. if ml_lease_name r = lease_name then lease else r) rs)) (\<lambda>_. retT True)
         else retT False)"

definition maintenance_renew_lease :: "string \<Rightarrow> uuid \<Rightarrow> time \<Rightarrow> int \<Rightarrow> bool tx" where
  "maintenance_renew_lease lease_name owner_token now lease_seconds =
     bindT (readT d_leases) (\<lambda>rs.
     let mine = (\<lambda>r. ml_lease_name r = lease_name \<and> ml_owner_token r = owner_token) in
     bindT (put_leases (map (\<lambda>r. if mine r then r\<lparr>ml_lease_expires_at := now + seconds lease_seconds, ml_updated_at := now\<rparr> else r) rs)) (\<lambda>_.
     retT (list_ex mine rs)))"

definition maintenance_release_lease :: "string \<Rightarrow> uuid \<Rightarrow> bool tx" where
  "maintenance_release_lease lease_name owner_token =
     bindT (readT d_leases) (\<lambda>rs.
     let mine = (\<lambda>r. ml_lease_name r = lease_name \<and> ml_owner_token r = owner_token) in
     bindT (put_leases (filter (\<lambda>r. \<not> mine r) rs)) (\<lambda>_. retT (list_ex mine rs)))"

end
