(* ===== verification/Provision.thy ===== *)
theory Provision
  imports ServerRepo ProcessPay
begin

text \<open>
  Provisioning a subscription's VPN access (\<^verbatim>\<open>use_cases/provision_vpn.py\<close>).

  The handler is one transaction that decides what has to be done and one job enqueued after its commit. The
  settings of the use case are the record \<open>provision_settings\<close>; the random source of the node selection, the fresh UUIDs
  of the client and of the task, the clock reading and the mapper of panel provision tasks are arguments.
\<close>

section \<open>Settings and plans\<close>

record provision_settings =
  ps_display_name_prefix :: string
  ps_node_inbound_id :: string
  ps_node_task_max_attempts :: int
  ps_panel_task_max_attempts :: int
  ps_xui_inbound_id :: int
  ps_node_health_stale_after_seconds :: int

datatype provision_plan =
    ProvisionPlan (plan_subscription: int) (plan_configuration: int) (plan_node_task: "int option")
      (plan_panel_task: "int option") (should_enqueue: bool)
  | ProvisionCleanupPlan int int
  | ProvisionRecoveryPlan int int
  | SubscriptionMissing
  | SubscriptionNotActive SubscriptionStatus int
  | NoCurrentAccess int
  | ConfigurationIs VpnConfigurationStatus int
  | WaitingForNodeCapacity

section \<open>Rows\<close>

definition endpoint_from_row :: "EndpointRow \<Rightarrow> ServerRow \<Rightarrow> VpnEndpoint" where
  "endpoint_from_row e v =
     \<lparr>ve_id = opt_id (en_id e), ve_protocol = (if en_protocol e = [] then ''vless'' else en_protocol e), ve_host = sv_host v,
      ve_port = en_port e, ve_node_id = en_node_id e, ve_local_inbound_id = en_local_inbound_id e,
      ve_security = en_security e, ve_sni = en_sni e, ve_fingerprint = en_fingerprint e, ve_public_key = en_public_key e,
      ve_short_id = en_short_id e, ve_transport_type = en_transport_type e, ve_flow = en_flow e,
      ve_encryption = en_encryption e\<rparr>"

definition candidate_from_row :: "candidate_row \<Rightarrow> NodeSelectionCandidate" where
  "candidate_from_row c =
     \<lparr>ns_node_id = opt_id (no_id (ca_node c)), ns_endpoint_id = opt_id (en_id (ca_endpoint c)),
      ns_node_status = (case ca_status c of None \<Rightarrow> ''unknown'' | Some r \<Rightarrow> NodeStatus_value (st_health_status r)),
      ns_is_enabled = no_is_enabled (ca_node c),
      ns_last_checked_at = (case ca_status c of None \<Rightarrow> None | Some r \<Rightarrow> st_last_checked_at r),
      ns_active_clients = (case ca_status c of None \<Rightarrow> None | Some r \<Rightarrow> st_active_clients r),
      ns_max_clients = (case ca_status c of None \<Rightarrow> None | Some r \<Rightarrow> st_max_clients r),
      ns_selection_weight = (if no_selection_weight (ca_node c) = 0 then 1 else no_selection_weight (ca_node c)),
      ns_local_reserved_clients = ca_reserved c\<rparr>"

section \<open>Selecting an endpoint\<close>

definition select_endpoint :: "(int \<Rightarrow> int) \<Rightarrow> int \<Rightarrow> time \<Rightarrow> (EndpointRow \<times> ServerRow) option tx" where
  "select_endpoint randbelow stale_after now =
     bindT servers_list_node_selection_candidates (\<lambda>candidate_rows.
     let candidates = map candidate_from_row candidate_rows in
     case select_node randbelow candidates now stale_after of
       Some selected \<Rightarrow>
         bindT (servers_lock_and_revalidate_candidate (ns_node_id selected) (ns_endpoint_id selected)) (\<lambda>locked.
         case locked of
           None \<Rightarrow> retT None
         | Some row \<Rightarrow>
             if ns_node_id (candidate_from_row row) \<noteq> ns_node_id selected \<or>
                ns_endpoint_id (candidate_from_row row) \<noteq> ns_endpoint_id selected \<or>
                \<not> eligible stale_after (candidate_from_row row) now
             then retT None
             else retT (Some (ca_endpoint row, ca_server row)))
     | None \<Rightarrow>
         if candidates = [] then servers_get_first_enabled_endpoint else retT None)"

section \<open>Tasks\<close>

definition provision_key :: "int \<Rightarrow> int \<Rightarrow> uuid \<Rightarrow> string" where
  "provision_key configuration_id generation task_uuid =
     ''provision:vpn_configuration:'' @ show_int configuration_id @ '':generation:'' @ show_int generation @ '':task:'' @ task_uuid"

definition provision_node_task ::
  "provision_settings \<Rightarrow> uuid \<Rightarrow> VpnConfiguration \<Rightarrow> VpnEndpoint \<Rightarrow> config_row \<Rightarrow> time \<Rightarrow> time \<Rightarrow> NodeTask tx" where
  "provision_node_task cfg task_uuid configuration endpoint row expires_at now =
     (case (vc_id configuration, ve_node_id endpoint) of
        (Some configuration_id, Some node_id) \<Rightarrow>
          (let key = provision_key configuration_id (vc_generation configuration) task_uuid in
           bindT (liftT (NodeTask_post_init
             \<lparr>nt_id = None, nt_task_uuid = task_uuid, nt_node_id = node_id, nt_operation = PROVISION_CLIENT,
              nt_status = NTS_PENDING, nt_idempotency_key = key,
              nt_payload =
                [(''task_id'', JStr task_uuid), (''idempotency_key'', JStr key),
                 (''client_uuid'', JStr (vc_client_uuid (cf_configuration row))),
                 (''display_name'', JStr (vc_display_name (cf_configuration row))),
                 (''inbound_id'', JStr (or_else (ve_local_inbound_id endpoint) (ps_node_inbound_id cfg))),
                 (''flow'', opt_str (en_flow (cf_endpoint row))), (''expires_at'', JInt expires_at),
                 (''metadata'', JObj [(''vpn_configuration_id'', JInt configuration_id),
                                      (''vpn_generation'', JInt (vc_generation configuration))])],
              nt_vpn_configuration_id = Some configuration_id,
              nt_subscription_id = Some (vc_subscription_id configuration),
              nt_vpn_generation = Some (vc_generation configuration), nt_response_payload = None,
              nt_remote_client_ref = JNull, nt_attempts = 0, nt_max_attempts = ps_node_task_max_attempts cfg,
              nt_next_retry_at = Some now, nt_last_error = None, nt_claimed_at = None, nt_lease_expires_at = None,
              nt_lease_token = None, nt_created_at = None, nt_updated_at = None, nt_completed_at = None,
              nt_journal_retired_at = None\<rparr>)) (\<lambda>task.
           nodes_add_task_entity task))
      | _ \<Rightarrow> raiseT (RuntimeError ''Node provisioning requires persisted configuration and node''))"

definition panel_inbound :: "config_row \<Rightarrow> int \<Rightarrow> json" where
  "panel_inbound row xui_inbound_id =
     (case en_local_inbound_id (cf_endpoint row) of
        None \<Rightarrow> JInt xui_inbound_id
      | Some i \<Rightarrow> if i = [] then JInt xui_inbound_id else JStr i)"

definition panel_payload :: "provision_settings \<Rightarrow> config_row \<Rightarrow> time \<Rightarrow> dict" where
  "panel_payload cfg row expires_at =
     [(''xui_inbound_id'', panel_inbound row (ps_xui_inbound_id cfg)),
      (''client_uuid'', JStr (vc_client_uuid (cf_configuration row))),
      (''display_name'', JStr (vc_display_name (cf_configuration row))),
      (''flow'', opt_str (en_flow (cf_endpoint row))), (''expires_at'', JInt expires_at)]"

definition provision_panel_task ::
  "(PanelProvisionTask \<Rightarrow> PanelProvisionTask res) \<Rightarrow> provision_settings \<Rightarrow> VpnConfiguration \<Rightarrow> config_row \<Rightarrow> time \<Rightarrow> time
     \<Rightarrow> PanelProvisionTask tx" where
  "provision_panel_task from_row cfg configuration row expires_at now =
     (case vc_id configuration of
        None \<Rightarrow> raiseT (RuntimeError ''Panel provisioning requires persisted configuration'')
      | Some configuration_id \<Rightarrow>
          bindT (liftT (PanelProvisionTask_post_init
            \<lparr>pp_id = None, pp_vpn_configuration_id = configuration_id,
             pp_subscription_id = vc_subscription_id configuration, pp_status = PTS_PENDING,
             pp_idempotency_key = ''panel-provision:vpn_configuration:'' @ show_int configuration_id,
             pp_payload = panel_payload cfg row expires_at, pp_vpn_generation = vc_generation configuration,
             pp_attempts = 0, pp_max_attempts = ps_panel_task_max_attempts cfg, pp_next_retry_at = Some now,
             pp_last_error = None, pp_claimed_at = None, pp_lease_expires_at = None, pp_lease_token = None,
             pp_compensation_required = False, pp_created_at = None, pp_updated_at = None, pp_completed_at = None\<rparr>)) (\<lambda>task.
          vpn_add_panel_task_entity from_row task))"

section \<open>Decisions\<close>

definition recover_succeeded_provision :: "VpnConfiguration \<Rightarrow> string option \<Rightarrow> provision_plan tx" where
  "recover_succeeded_provision configuration remote_client_ref =
     (case vc_id configuration of
        None \<Rightarrow> raiseT (RuntimeError ''Persisted VPN configuration has no id'')
      | Some i \<Rightarrow>
          bindT (liftT (VpnConfiguration_activate configuration remote_client_ref)) (\<lambda>c.
          bindT (vpn_save_entity c) (\<lambda>_.
          bindT (audit_append VPN_CONFIGURATION_ACTIVATED AGG_VPN_CONFIGURATION i
                   [(''vpn_configuration_id'', JInt i), (''subscription_id'', JInt (vc_subscription_id configuration))]) (\<lambda>_.
          retT (ProvisionRecoveryPlan (vc_subscription_id configuration) i)))))"

definition node_plan :: "int \<Rightarrow> int \<Rightarrow> string \<Rightarrow> NodeTask \<Rightarrow> provision_plan tx" where
  "node_plan subscription_id configuration_id missing task =
     (case nt_id task of
        None \<Rightarrow> raiseT (RuntimeError missing)
      | Some t \<Rightarrow> retT (ProvisionPlan subscription_id configuration_id (Some t) None (nt_status task = NTS_PENDING)))"

definition panel_plan :: "int \<Rightarrow> int \<Rightarrow> string \<Rightarrow> PanelProvisionTask \<Rightarrow> provision_plan tx" where
  "panel_plan subscription_id configuration_id missing task =
     (case pp_id task of
        None \<Rightarrow> raiseT (RuntimeError missing)
      | Some t \<Rightarrow> retT (ProvisionPlan subscription_id configuration_id None (Some t) (pp_status task = PTS_PENDING)))"

definition reuse_existing_provisioning ::
  "(PanelProvisionTask \<Rightarrow> PanelProvisionTask res) \<Rightarrow> provision_settings \<Rightarrow> uuid \<Rightarrow> VpnConfiguration \<Rightarrow> time \<Rightarrow> time
     \<Rightarrow> provision_plan tx" where
  "reuse_existing_provisioning from_row cfg task_uuid latest expires_at now =
     (case vc_id latest of
        None \<Rightarrow> raiseT (RuntimeError ''Persisted VPN configuration has no id'')
      | Some i \<Rightarrow>
          if vc_desired_state latest \<noteq> VD_ACTIVE then retT (ProvisionCleanupPlan (vc_subscription_id latest) i)
          else bindT (vpn_get_configuration_with_endpoint i) (\<lambda>found.
          case found of
            None \<Rightarrow> raiseT (RuntimeError ''Failed to load existing provisioning configuration'')
          | Some row \<Rightarrow>
          if en_node_id (cf_endpoint row) \<noteq> None
          then bindT (nodes_get_vpn_task_for_generation i PROVISION_CLIENT (vc_generation latest)) (\<lambda>existing.
               case existing of
                 None \<Rightarrow>
                   bindT (provision_node_task cfg task_uuid latest (endpoint_from_row (cf_endpoint row) (cf_server row)) row expires_at now)
                     (node_plan (vc_subscription_id latest) i ''Existing node task has no id'')
               | Some task \<Rightarrow>
                   if nt_status task = NTS_SUCCEEDED
                   then bindT (liftT (text_column (nt_remote_client_ref task))) (recover_succeeded_provision latest)
                   else if nt_status task \<in> {NTS_FAILED, NTS_CANCELLED}
                   then retT (ProvisionCleanupPlan (vc_subscription_id latest) i)
                   else node_plan (vc_subscription_id latest) i ''Existing node task has no id'' task)
          else bindT (vpn_get_panel_task_for_configuration from_row i) (\<lambda>existing.
               case existing of
                 None \<Rightarrow>
                   bindT (provision_panel_task from_row cfg latest row expires_at now)
                     (panel_plan (vc_subscription_id latest) i ''Existing panel provision task has no id'')
               | Some task \<Rightarrow>
                   if pp_status task = PTS_SUCCEEDED then recover_succeeded_provision latest None
                   else if pp_status task \<in> {PTS_FAILED, PTS_CANCELLED}
                   then retT (ProvisionCleanupPlan (vc_subscription_id latest) i)
                   else panel_plan (vc_subscription_id latest) i ''Existing panel provision task has no id'' task)))"

definition create_configuration :: "provision_settings \<Rightarrow> uuid \<Rightarrow> int \<Rightarrow> VpnEndpoint \<Rightarrow> VpnConfiguration tx" where
  "create_configuration cfg client_uuid subscription_id endpoint =
     bindT (liftT (VpnProvisioningService_prepare client_uuid subscription_id endpoint
              (ps_display_name_prefix cfg @ ''-'' @ show_int subscription_id))) (\<lambda>prepared.
     bindT (vpn_add_entity ((pv_configuration prepared)\<lparr>vc_status := VS_PROVISIONING\<rparr>)) (\<lambda>configuration.
     case vc_id configuration of
       None \<Rightarrow> raiseT (RuntimeError ''VPN configuration was not persisted'')
     | Some i \<Rightarrow>
         bindT (audit_append VPN_CONFIGURATION_CREATED AGG_VPN_CONFIGURATION i
                  [(''vpn_configuration_id'', JInt i), (''subscription_id'', JInt subscription_id)]) (\<lambda>_.
         retT configuration)))"

definition load_or_create_configuration ::
  "provision_settings \<Rightarrow> uuid \<Rightarrow> int \<Rightarrow> VpnEndpoint \<Rightarrow> VpnConfiguration option \<Rightarrow> VpnConfiguration tx" where
  "load_or_create_configuration cfg client_uuid subscription_id endpoint latest =
     (case latest of
        Some l \<Rightarrow>
          if vc_status l \<notin> {VS_REVOKED, VS_EXPIRED, VS_DISABLED}
          then (if vc_id l = None then raiseT (RuntimeError ''Persisted VPN configuration has no id'') else retT l)
          else create_configuration cfg client_uuid subscription_id endpoint
      | None \<Rightarrow> create_configuration cfg client_uuid subscription_id endpoint)"

definition provision_new ::
  "(PanelProvisionTask \<Rightarrow> PanelProvisionTask res) \<Rightarrow> provision_settings \<Rightarrow> (int \<Rightarrow> int) \<Rightarrow> uuid \<Rightarrow> uuid \<Rightarrow> int
     \<Rightarrow> VpnConfiguration option \<Rightarrow> time \<Rightarrow> time \<Rightarrow> provision_plan tx" where
  "provision_new from_row cfg randbelow client_uuid task_uuid subscription_id latest expires_at now =
     bindT (select_endpoint randbelow (ps_node_health_stale_after_seconds cfg) now) (\<lambda>endpoint_row.
     case endpoint_row of
       None \<Rightarrow> retT WaitingForNodeCapacity
     | Some (e, v) \<Rightarrow>
         let endpoint = endpoint_from_row e v in
         bindT (load_or_create_configuration cfg client_uuid subscription_id endpoint latest) (\<lambda>configuration.
         case vc_id configuration of
           None \<Rightarrow> raiseT (RuntimeError ''VPN configuration was not persisted'')
         | Some i \<Rightarrow>
             bindT (vpn_get_configuration_with_endpoint i) (\<lambda>found.
             case found of
               None \<Rightarrow> raiseT (RuntimeError ''Failed to load VPN configuration row'')
             | Some row \<Rightarrow>
                 if ve_node_id endpoint = None
                 then bindT (provision_panel_task from_row cfg configuration row expires_at now)
                        (panel_plan subscription_id i ''Panel provision task was not persisted'')
                 else bindT (provision_node_task cfg task_uuid configuration endpoint row expires_at now)
                        (node_plan subscription_id i ''Node task was not persisted''))))"

definition provision_latest ::
  "(PanelProvisionTask \<Rightarrow> PanelProvisionTask res) \<Rightarrow> provision_settings \<Rightarrow> (int \<Rightarrow> int) \<Rightarrow> uuid \<Rightarrow> uuid \<Rightarrow> int
     \<Rightarrow> VpnConfiguration option \<Rightarrow> time \<Rightarrow> time \<Rightarrow> provision_plan tx" where
  "provision_latest from_row cfg randbelow client_uuid task_uuid subscription_id latest expires_at now =
     (case latest of
        Some l \<Rightarrow>
          if vc_status l \<in> {VS_REVOKING, VS_REVOKE_FAILED} then retT (ConfigurationIs (vc_status l) (opt_id (vc_id l)))
          else if vc_status l = VS_FAILED
          then (case vc_id l of
                  None \<Rightarrow> raiseT (RuntimeError ''Persisted VPN configuration has no id'')
                | Some i \<Rightarrow> retT (ProvisionCleanupPlan subscription_id i))
          else if vc_status l = VS_PROVISIONING
          then reuse_existing_provisioning from_row cfg task_uuid l expires_at now
          else provision_new from_row cfg randbelow client_uuid task_uuid subscription_id latest expires_at now
      | None \<Rightarrow> provision_new from_row cfg randbelow client_uuid task_uuid subscription_id latest expires_at now)"

definition provision_prepare_plan ::
  "(PanelProvisionTask \<Rightarrow> PanelProvisionTask res) \<Rightarrow> provision_settings \<Rightarrow> (int \<Rightarrow> int) \<Rightarrow> uuid \<Rightarrow> uuid \<Rightarrow> int \<Rightarrow> time
     \<Rightarrow> provision_plan tx" where
  "provision_prepare_plan from_row cfg randbelow client_uuid task_uuid subscription_id now =
     bindT (subscriptions_get_entity subscription_id) (\<lambda>subscription.
     case subscription of
       None \<Rightarrow> retT SubscriptionMissing
     | Some sub \<Rightarrow>
         if su_status sub \<noteq> SS_ACTIVE then retT (SubscriptionNotActive (su_status sub) subscription_id)
         else bindT (subscriptions_get_current_period_entity subscription_id now) (\<lambda>period.
         case period of
           None \<Rightarrow> retT (NoCurrentAccess subscription_id)
         | Some p \<Rightarrow>
             bindT (vpn_get_active_entity_for_subscription subscription_id) (\<lambda>active.
             case active of
               Some a \<Rightarrow> retT (ConfigurationIs VS_ACTIVE (opt_id (vc_id a)))
             | None \<Rightarrow>
                 bindT (vpn_get_latest_entity_for_subscription subscription_id) (\<lambda>latest.
                 provision_latest from_row cfg randbelow client_uuid task_uuid subscription_id latest (sp_expires_at p) now))))"

fun provision_jobs :: "provision_plan \<Rightarrow> job list" where
  "provision_jobs (ProvisionCleanupPlan _ c) = [REVOKE_VPN_CONFIGURATION c REPLACEMENT_CLEANUP]"
| "provision_jobs (ProvisionPlan _ _ (Some t) _ e) = (if e then [DISPATCH_NODE_TASK t] else [])"
| "provision_jobs (ProvisionPlan _ _ None (Some t) e) = (if e then [DISPATCH_PANEL_PROVISION_TASK t] else [])"
| "provision_jobs _ = []"

definition ProvisionVpn_execute ::
  "(PanelProvisionTask \<Rightarrow> PanelProvisionTask res) \<Rightarrow> provision_settings \<Rightarrow> (int \<Rightarrow> int) \<Rightarrow> uuid \<Rightarrow> uuid \<Rightarrow> int \<Rightarrow> time
     \<Rightarrow> db \<Rightarrow> (provision_plan \<times> job list) res \<times> db" where
  "ProvisionVpn_execute from_row cfg randbelow client_uuid task_uuid subscription_id now s =
     (case run_uow (provision_prepare_plan from_row cfg randbelow client_uuid task_uuid subscription_id now) s of
        (Inl e, s') \<Rightarrow> (Inl e, s')
      | (Inr (ProvisionPlan _ _ None None _), s') \<Rightarrow> (Inl (RuntimeError ''Provisioning path was not selected''), s')
      | (Inr plan, s') \<Rightarrow> (Inr (plan, provision_jobs plan), s'))"

end
