(* ===== verification/Revoke.thy ===== *)
theory Revoke
  imports Provision
begin

text \<open>
  Withdrawing a VPN access (\<^verbatim>\<open>use_cases/revoke_vpn.py\<close>): one transaction that plans the revoke and the job
  enqueued after its commit. \<open>task_uuid\<close> is the fresh UUID of the task.
\<close>

section \<open>Plans\<close>

record revoke_settings =
  rs_node_inbound_id :: string
  rs_node_task_max_attempts :: int
  rs_panel_task_max_attempts :: int
  rs_xui_inbound_id :: int

datatype revoke_plan =
    RevokePlan int "int option" "int option" bool
  | RevokeRecoveryPlan int
  | RevokeMissing
  | RevokeMissingSubscription int
  | SkippedCurrentAccess int
  | NodeTaskIs NodeTaskStatus int int
  | PanelTaskIs PanelTaskStatus int int
  | RevokeConfigurationIs VpnConfigurationStatus int

definition recover_succeeded_revoke :: "VpnConfiguration \<Rightarrow> time \<Rightarrow> revoke_plan tx" where
  "recover_succeeded_revoke configuration now =
     (case vc_id configuration of
        None \<Rightarrow> raiseT (RuntimeError ''Persisted VPN configuration has no id'')
      | Some i \<Rightarrow>
          bindT (liftT (VpnConfiguration_revoke configuration now)) (\<lambda>c.
          bindT (vpn_save_entity c) (\<lambda>_.
          bindT (audit_append VPN_CONFIGURATION_REVOKED AGG_VPN_CONFIGURATION i [(''vpn_configuration_id'', JInt i)]) (\<lambda>_.
          retT (RevokeRecoveryPlan i)))))"

definition existing_current_revoke_task :: "VpnConfiguration \<Rightarrow> config_row \<Rightarrow> time \<Rightarrow> revoke_plan option tx" where
  "existing_current_revoke_task configuration row now =
     (case vc_id configuration of
        None \<Rightarrow> retT None
      | Some i \<Rightarrow>
          if en_node_id (cf_endpoint row) = None
          then bindT (vpn_get_panel_revoke_task_for_generation i (vc_generation configuration)) (\<lambda>found.
               case found of
                 None \<Rightarrow> retT None
               | Some task \<Rightarrow>
                   (case pr_id task of
                      None \<Rightarrow> retT None
                    | Some t \<Rightarrow>
                        if pr_status task = PTS_SUCCEEDED \<and> vc_status configuration = VS_REVOKING \<and>
                           vc_desired_state configuration = VD_REVOKED
                        then bindT (recover_succeeded_revoke configuration now) (\<lambda>p. retT (Some p))
                        else if pr_status task = PTS_FAILED then retT None
                        else retT (Some (PanelTaskIs (pr_status task) i t))))
          else bindT (nodes_get_vpn_task_for_generation i REVOKE_CLIENT (vc_generation configuration)) (\<lambda>found.
               case found of
                 None \<Rightarrow> retT None
               | Some task \<Rightarrow>
                   (case nt_id task of
                      None \<Rightarrow> retT None
                    | Some t \<Rightarrow>
                        if nt_status task = NTS_SUCCEEDED \<and> vc_status configuration = VS_REVOKING \<and>
                           vc_desired_state configuration = VD_REVOKED
                        then bindT (recover_succeeded_revoke configuration now) (\<lambda>p. retT (Some p))
                        else retT (Some (NodeTaskIs (nt_status task) i t)))))"

definition revoke_key :: "int \<Rightarrow> int \<Rightarrow> uuid \<Rightarrow> string" where
  "revoke_key configuration_id generation task_uuid =
     ''revoke:vpn_configuration:'' @ show_int configuration_id @ '':generation:'' @ show_int generation @ '':task:'' @ task_uuid"

definition revoke_node_task ::
  "revoke_settings \<Rightarrow> uuid \<Rightarrow> config_row \<Rightarrow> int \<Rightarrow> int \<Rightarrow> int \<Rightarrow> time \<Rightarrow> NodeTask tx" where
  "revoke_node_task cfg task_uuid row vpn_configuration_id subscription_id generation now =
     (case en_node_id (cf_endpoint row) of
        None \<Rightarrow> raiseT (RuntimeError ''Node revoke task requires node endpoint'')
      | Some node_id \<Rightarrow>
          (let key = revoke_key vpn_configuration_id generation task_uuid in
           bindT (liftT (NodeTask_post_init
             \<lparr>nt_id = None, nt_task_uuid = task_uuid, nt_node_id = node_id, nt_operation = REVOKE_CLIENT,
              nt_status = NTS_PENDING, nt_idempotency_key = key,
              nt_payload =
                [(''task_id'', JStr task_uuid), (''idempotency_key'', JStr key),
                 (''client_uuid'', JStr (vc_client_uuid (cf_configuration row))),
                 (''inbound_id'', JStr (or_else (en_local_inbound_id (cf_endpoint row)) (rs_node_inbound_id cfg))),
                 (''metadata'', JObj [(''vpn_configuration_id'', JInt vpn_configuration_id),
                                      (''vpn_generation'', JInt generation)])],
              nt_vpn_configuration_id = Some vpn_configuration_id, nt_subscription_id = Some subscription_id,
              nt_vpn_generation = Some generation, nt_response_payload = None, nt_remote_client_ref = JNull,
              nt_attempts = 0, nt_max_attempts = rs_node_task_max_attempts cfg, nt_next_retry_at = Some now,
              nt_last_error = None, nt_claimed_at = None, nt_lease_expires_at = None, nt_lease_token = None,
              nt_created_at = None, nt_updated_at = None, nt_completed_at = None, nt_journal_retired_at = None\<rparr>)) (\<lambda>task.
           nodes_add_task_entity task)))"

definition revoke_panel_task ::
  "revoke_settings \<Rightarrow> uuid \<Rightarrow> config_row \<Rightarrow> int \<Rightarrow> int \<Rightarrow> int \<Rightarrow> time \<Rightarrow> PanelRevokeTask tx" where
  "revoke_panel_task cfg task_uuid row configuration_id subscription_id generation now =
     bindT (liftT (PanelRevokeTask_post_init
       \<lparr>pr_id = None, pr_task_uuid = task_uuid, pr_vpn_configuration_id = configuration_id,
        pr_subscription_id = subscription_id, pr_vpn_generation = generation, pr_status = PTS_PENDING,
        pr_idempotency_key = ''panel-'' @ revoke_key configuration_id generation task_uuid,
        pr_payload = [(''xui_inbound_id'', panel_inbound row (rs_xui_inbound_id cfg)),
                      (''client_uuid'', JStr (vc_client_uuid (cf_configuration row)))],
        pr_attempts = 0, pr_max_attempts = rs_panel_task_max_attempts cfg, pr_next_retry_at = Some now,
        pr_last_error = None, pr_claimed_at = None, pr_lease_expires_at = None, pr_lease_token = None,
        pr_created_at = None, pr_updated_at = None, pr_completed_at = None\<rparr>)) (\<lambda>task.
     vpn_add_panel_revoke_task_entity task)"

section \<open>The handler\<close>

text \<open>\<open>None\<close> means that the configuration is in a state that cannot be revoked.\<close>

definition withdraw_configuration :: "VpnConfiguration \<Rightarrow> VpnConfiguration option res" where
  "withdraw_configuration c =
     (case vc_status c of
        VS_ACTIVE \<Rightarrow> bindE (VpnConfiguration_begin_revoke c) (\<lambda>c'. Inr (Some c'))
      | VS_REVOKE_FAILED \<Rightarrow> bindE (VpnConfiguration_retry_revoke c) (\<lambda>c'. Inr (Some c'))
      | VS_PROVISIONING \<Rightarrow> bindE (VpnConfiguration_cancel_provisioning_for_revoke c) (\<lambda>c'. Inr (Some c'))
      | VS_FAILED \<Rightarrow> bindE (VpnConfiguration_request_cleanup_from_failed c) (\<lambda>c'. Inr (Some c'))
      | VS_REVOKING \<Rightarrow> Inr (Some c)
      | _ \<Rightarrow> Inr None)"

definition plan_revoke_task ::
  "revoke_settings \<Rightarrow> uuid \<Rightarrow> int \<Rightarrow> int \<Rightarrow> VpnConfiguration \<Rightarrow> time \<Rightarrow> revoke_plan tx" where
  "plan_revoke_task cfg task_uuid vpn_configuration_id subscription_id configuration now =
     bindT (vpn_get_configuration_with_endpoint vpn_configuration_id) (\<lambda>found.
     case found of
       None \<Rightarrow> raiseT (RuntimeError ''VPN configuration disappeared while preparing revoke'')
     | Some row \<Rightarrow>
         if en_node_id (cf_endpoint row) = None
         then bindT (revoke_panel_task cfg task_uuid row vpn_configuration_id subscription_id (vc_generation configuration) now) (\<lambda>task.
              case pr_id task of
                None \<Rightarrow> raiseT (RuntimeError ''Panel revoke task was not persisted'')
              | Some t \<Rightarrow> retT (RevokePlan vpn_configuration_id None (Some t) (pr_status task = PTS_PENDING)))
         else bindT (revoke_node_task cfg task_uuid row vpn_configuration_id subscription_id (vc_generation configuration) now) (\<lambda>task.
              case nt_id task of
                None \<Rightarrow> raiseT (RuntimeError ''Node revoke task was not persisted'')
              | Some t \<Rightarrow> retT (RevokePlan vpn_configuration_id (Some t) None (nt_status task = NTS_PENDING))))"

definition withdraw_and_plan ::
  "revoke_settings \<Rightarrow> uuid \<Rightarrow> int \<Rightarrow> int \<Rightarrow> VpnConfiguration \<Rightarrow> time \<Rightarrow> revoke_plan tx" where
  "withdraw_and_plan cfg task_uuid vpn_configuration_id subscription_id configuration now =
     (if VpnConfiguration_is_terminal configuration
      then retT (RevokeConfigurationIs (vc_status configuration) vpn_configuration_id)
      else bindT (liftT (withdraw_configuration configuration)) (\<lambda>withdrawn.
           case withdrawn of
             None \<Rightarrow> retT (RevokeConfigurationIs (vc_status configuration) vpn_configuration_id)
           | Some c \<Rightarrow>
               bindT (vpn_save_entity c) (\<lambda>_.
               plan_revoke_task cfg task_uuid vpn_configuration_id subscription_id c now)))"

fun is_recovery :: "revoke_plan \<Rightarrow> bool" where
  "is_recovery (RevokeRecoveryPlan _) = True"
| "is_recovery _ = False"

definition revoke_is_owned :: "VpnConfiguration \<Rightarrow> bool" where
  "revoke_is_owned c \<longleftrightarrow> vc_status c = VS_REVOKING \<or> (vc_status c = VS_FAILED \<and> vc_desired_state c = VD_REVOKED)"

definition revoke_locked ::
  "revoke_settings \<Rightarrow> uuid \<Rightarrow> int \<Rightarrow> int \<Rightarrow> config_row \<Rightarrow> VpnConfiguration \<Rightarrow> time \<Rightarrow> revoke_plan tx" where
  "revoke_locked cfg task_uuid vpn_configuration_id subscription_id row configuration now =
     bindT (existing_current_revoke_task configuration row now) (\<lambda>existing.
     case existing of
       Some plan \<Rightarrow>
         if is_recovery plan \<or> revoke_is_owned configuration then retT plan
         else withdraw_and_plan cfg task_uuid vpn_configuration_id subscription_id configuration now
     | None \<Rightarrow> withdraw_and_plan cfg task_uuid vpn_configuration_id subscription_id configuration now)"

text \<open>An expiration is skipped while the subscription is active and has a current period.\<close>

definition access_is_current :: "VpnRevokeReason \<Rightarrow> int \<Rightarrow> int \<Rightarrow> time \<Rightarrow> revoke_plan option tx" where
  "access_is_current reason vpn_configuration_id subscription_id now =
     (if reason \<noteq> EXPIRATION then retT None
      else bindT (subscriptions_get_entity subscription_id) (\<lambda>subscription.
      case subscription of
        None \<Rightarrow> retT (Some (RevokeMissingSubscription vpn_configuration_id))
      | Some sub \<Rightarrow>
          bindT (subscriptions_get_current_period_entity subscription_id now) (\<lambda>period.
          if su_status sub = SS_ACTIVE \<and> period \<noteq> None then retT (Some (SkippedCurrentAccess vpn_configuration_id))
          else retT None)))"

definition revoke_prepare_plan :: "revoke_settings \<Rightarrow> uuid \<Rightarrow> int \<Rightarrow> VpnRevokeReason \<Rightarrow> time \<Rightarrow> revoke_plan tx" where
  "revoke_prepare_plan cfg task_uuid vpn_configuration_id reason now =
     bindT (vpn_get_configuration_with_endpoint vpn_configuration_id) (\<lambda>found.
     case found of
       None \<Rightarrow> retT RevokeMissing
     | Some row \<Rightarrow>
         let subscription_id = vc_subscription_id (cf_configuration row) in
         bindT (access_is_current reason vpn_configuration_id subscription_id now) (\<lambda>early.
         case early of
           Some plan \<Rightarrow> retT plan
         | None \<Rightarrow>
             bindT (vpn_get_entity vpn_configuration_id) (\<lambda>locked.
             case locked of
               None \<Rightarrow> retT RevokeMissing
             | Some configuration \<Rightarrow>
                 revoke_locked cfg task_uuid vpn_configuration_id subscription_id row configuration now)))"

fun revoke_jobs :: "revoke_plan \<Rightarrow> job list" where
  "revoke_jobs (RevokePlan _ (Some t) _ e) = (if e then [DISPATCH_NODE_TASK t] else [])"
| "revoke_jobs (RevokePlan _ None (Some t) e) = (if e then [DISPATCH_PANEL_REVOKE_TASK t] else [])"
| "revoke_jobs _ = []"

definition RevokeVpn_execute ::
  "revoke_settings \<Rightarrow> uuid \<Rightarrow> int \<Rightarrow> VpnRevokeReason \<Rightarrow> time \<Rightarrow> db \<Rightarrow> (revoke_plan \<times> job list) res \<times> db" where
  "RevokeVpn_execute cfg task_uuid vpn_configuration_id reason now s =
     (case run_uow (revoke_prepare_plan cfg task_uuid vpn_configuration_id reason now) s of
        (Inl e, s') \<Rightarrow> (Inl e, s')
      | (Inr (RevokePlan _ None None _), s') \<Rightarrow> (Inl (RuntimeError ''Revoke path was not selected''), s')
      | (Inr plan, s') \<Rightarrow> (Inr (plan, revoke_jobs plan), s'))"

end
