(* ===== verification/DispatchNode.thy ===== *)
theory DispatchNode
  imports Revoke
begin

text \<open>
  Dispatching node tasks (\<^verbatim>\<open>use_cases/dispatch_node_task.py\<close>): a transaction that claims the task with a lease, the
  request to the node, and a transaction that records the outcome if the lease is still owned; and the recovery of expired leases.

  The node is the parameter \<open>gateway\<close>: it answers a request with a JSON object, with nothing, or fails with a message.
  \<open>meanwhile\<close> is what other transactions do to the database during the request. \<open>py_repr\<close> is the text Python's
  \<^verbatim>\<open>str\<close> gives for arrays and objects.
\<close>

section \<open>Configuration outcomes\<close>

definition mark_configuration_failure :: "NodeTask \<Rightarrow> unit tx" where
  "mark_configuration_failure task =
     (case nt_vpn_configuration_id task of
        None \<Rightarrow> retT ()
      | Some v \<Rightarrow>
          bindT (vpn_get_entity v) (\<lambda>found.
          case found of
            None \<Rightarrow> retT ()
          | Some c \<Rightarrow>
              if nt_vpn_generation task \<noteq> Some (vc_generation c) then retT ()
              else if nt_operation task = PROVISION_CLIENT \<and> vc_desired_state c = VD_ACTIVE \<and> vc_status c = VS_PROVISIONING
              then bindT (liftT (VpnConfiguration_fail_provisioning c)) vpn_save_entity
              else if nt_operation task = REVOKE_CLIENT \<and> vc_desired_state c = VD_REVOKED \<and> vc_status c = VS_REVOKING
              then bindT (liftT (VpnConfiguration_fail_revoke c)) vpn_save_entity
              else retT ()))"

definition fail_or_retry :: "int \<Rightarrow> NodeTask \<Rightarrow> string \<Rightarrow> dict option \<Rightarrow> time \<Rightarrow> string tx" where
  "fail_or_retry retry_base_seconds task last_error response_payload completed_at =
     (let task' = NodeTask_retry task last_error response_payload completed_at retry_base_seconds in
      bindT (nodes_save_task_entity task') (\<lambda>_.
      if nt_status task' \<noteq> NTS_FAILED then retT ''retry_scheduled''
      else bindT (mark_configuration_failure task') (\<lambda>_. retT ''failed'')))"

section \<open>Claiming a task\<close>

record dispatch_settings =
  ds_retry_base_seconds :: int
  ds_lease_seconds :: int
  ds_node_health_stale_after_seconds :: int
  ds_node_unavailable_retry_seconds :: int

record PreparedDispatch =
  pd_task :: NodeTask
  pd_node :: Node
  pd_credential :: NodeCredential
  pd_attempt_id :: int
  pd_attempt_no :: int
  pd_lease_token :: uuid

definition dispatch_early_result :: "NodeTask option \<Rightarrow> time \<Rightarrow> string option" where
  "dispatch_early_result task now =
     (case task of
        None \<Rightarrow> Some ''missing''
      | Some t \<Rightarrow>
          if nt_status t = NTS_SUCCEEDED then Some ''succeeded''
          else if nt_status t = NTS_FAILED then Some ''failed''
          else if \<not> NodeTask_can_dispatch t now then Some ''scheduled''
          else None)"

definition defer_unavailable_node :: "dispatch_settings \<Rightarrow> NodeTask \<Rightarrow> time \<Rightarrow> string \<Rightarrow> (string + PreparedDispatch) tx" where
  "defer_unavailable_node cfg task started_at reason =
     bindT (liftT (NodeTask_defer_without_attempt task started_at (ds_node_unavailable_retry_seconds cfg) reason)) (\<lambda>task'.
     bindT (nodes_save_task_entity task') (\<lambda>_. retT (Inl reason)))"

definition record_preflight_failure :: "dispatch_settings \<Rightarrow> NodeTask \<Rightarrow> int \<Rightarrow> string \<Rightarrow> time \<Rightarrow> unit tx" where
  "record_preflight_failure cfg task attempt_id error at =
     bindT (nodes_finish_task_attempt attempt_id ''failed'' at None (Some error)) (\<lambda>_.
     bindT (fail_or_retry (ds_retry_base_seconds cfg) task error None at) (\<lambda>_. retT ()))"

definition node_allows :: "dispatch_settings \<Rightarrow> NodeTask \<Rightarrow> Node \<Rightarrow> NodeStatusRow option \<Rightarrow> time \<Rightarrow> bool" where
  "node_allows cfg task node st now =
     allows_operation (ds_node_health_stale_after_seconds cfg)
       (case st of None \<Rightarrow> ''unknown'' | Some r \<Rightarrow> NodeStatus_value (st_health_status r)) (no_is_enabled node)
       (case st of None \<Rightarrow> None | Some r \<Rightarrow> st_last_checked_at r) now (nt_operation task = PROVISION_CLIENT)"

definition claim_node_task :: "dispatch_settings \<Rightarrow> uuid \<Rightarrow> int \<Rightarrow> NodeTask \<Rightarrow> Node \<Rightarrow> time \<Rightarrow> (string + PreparedDispatch) tx" where
  "claim_node_task cfg lease_token node_task_id task node started_at =
     bindT (liftT (NodeTask_start_attempt task started_at (started_at + seconds (ds_lease_seconds cfg)) lease_token)) (\<lambda>(attempt_no, task').
     bindT (nodes_save_task_entity task') (\<lambda>_.
     bindT (nodes_create_task_attempt node_task_id attempt_no (nt_payload task') started_at) (\<lambda>attempt_id.
     bindT (nodes_get_active_credential (nt_node_id task')) (\<lambda>credential.
     case credential of
       None \<Rightarrow>
         bindT (record_preflight_failure cfg task' attempt_id ''Active node credential not found'' started_at) (\<lambda>_.
         retT (Inl ''credential_missing''))
     | Some c \<Rightarrow>
         retT (Inr \<lparr>pd_task = task', pd_node = node, pd_credential = c, pd_attempt_id = attempt_id,
                     pd_attempt_no = attempt_no, pd_lease_token = lease_token\<rparr>)))))"

definition dispatch_prepare :: "dispatch_settings \<Rightarrow> uuid \<Rightarrow> int \<Rightarrow> time \<Rightarrow> (string + PreparedDispatch) tx" where
  "dispatch_prepare cfg lease_token node_task_id started_at =
     bindT (nodes_get_task_entity node_task_id) (\<lambda>found.
     case dispatch_early_result found started_at of
       Some status \<Rightarrow> retT (Inl status)
     | None \<Rightarrow>
     (case found of
        None \<Rightarrow> raiseT (RuntimeError ''assert task is not None'')
      | Some task \<Rightarrow>
          bindT (nodes_get_node_operation_state (nt_node_id task)) (\<lambda>state.
          case state of
            None \<Rightarrow> defer_unavailable_node cfg task started_at ''node_missing''
          | Some (node, st) \<Rightarrow>
              if \<not> node_allows cfg task node st started_at
              then defer_unavailable_node cfg task started_at ''node_unavailable''
              else claim_node_task cfg lease_token node_task_id task node started_at)))"

section \<open>The request\<close>

type_synonym node_gateway = "NodeTaskOperation \<Rightarrow> Node \<Rightarrow> NodeCredential \<Rightarrow> dict \<Rightarrow> string \<Rightarrow> string + dict option"

fun operation_value :: "NodeTaskOperation \<Rightarrow> string" where
  "operation_value PROVISION_CLIENT = ''provision_client''"
| "operation_value REVOKE_CLIENT = ''revoke_client''"
| "operation_value SYNC_STATUS = ''sync_status''"

definition dispatch_send :: "node_gateway \<Rightarrow> PreparedDispatch \<Rightarrow> string + dict option" where
  "dispatch_send gateway prepared =
     (let task = pd_task prepared in
      if nt_operation task \<in> {PROVISION_CLIENT, REVOKE_CLIENT}
      then gateway (nt_operation task) (pd_node prepared) (pd_credential prepared) (nt_payload task) (nt_idempotency_key task)
      else Inl (''Unsupported node task operation: '' @ operation_value (nt_operation task)))"

section \<open>Recording the outcome\<close>

record DispatchFinalization =
  df_status :: string
  df_follow_up_task_id :: "int option"

definition finalized :: "string \<Rightarrow> DispatchFinalization" where
  "finalized status = \<lparr>df_status = status, df_follow_up_task_id = None\<rparr>"

definition error_from_response :: "(json \<Rightarrow> string) \<Rightarrow> dict option \<Rightarrow> string" where
  "error_from_response py_repr response =
     (case response of
        None \<Rightarrow> ''Node response was empty''
      | Some r \<Rightarrow>
          if truthy (dict_value r ''message'') then py_str py_repr (dict_value r ''message'')
          else if truthy (dict_value r ''error_code'') then py_str py_repr (dict_value r ''error_code'')
          else if truthy (dict_value r ''status'') then ''Node returned status='' @ py_str py_repr (dict_value r ''status'')
          else ''Node request failed'')"

definition required_text :: "(json \<Rightarrow> string) \<Rightarrow> dict \<Rightarrow> string \<Rightarrow> string res" where
  "required_text py_repr payload k = bindE (require (KeyError k) (dict_get payload k)) (\<lambda>v. Inr (py_str py_repr v))"

text \<open>The payload's metadata is an object in every task the shop creates; anything else is a type error here.\<close>

definition payload_metadata :: "dict \<Rightarrow> dict res" where
  "payload_metadata payload =
     (case dict_value payload ''metadata'' of
        JObj d \<Rightarrow> Inr d
      | v \<Rightarrow> if truthy v then Inl (TypeError ''metadata'') else Inr [])"

definition build_revoke_payload :: "(json \<Rightarrow> string) \<Rightarrow> dict \<Rightarrow> uuid \<Rightarrow> string \<Rightarrow> int \<Rightarrow> dict res" where
  "build_revoke_payload py_repr payload task_uuid idempotency_key vpn_generation =
     bindE (payload_metadata payload) (\<lambda>metadata.
     bindE (required_text py_repr payload ''client_uuid'') (\<lambda>client_uuid.
     bindE (required_text py_repr payload ''inbound_id'') (\<lambda>inbound_id.
     Inr [(''task_id'', JStr task_uuid), (''idempotency_key'', JStr idempotency_key), (''client_uuid'', JStr client_uuid),
          (''inbound_id'', JStr inbound_id),
          (''metadata'', JObj (dict_set ''compensation_for_task_id''
             (JStr (py_str py_repr (dict_value_default payload ''task_id'' (JStr []))))
             (dict_set ''vpn_generation'' (JInt vpn_generation) metadata)))])))"

definition revoke_follow_up :: "(json \<Rightarrow> string) \<Rightarrow> uuid \<Rightarrow> NodeTask \<Rightarrow> time \<Rightarrow> int \<Rightarrow> NodeTask res" where
  "revoke_follow_up py_repr task_uuid task now vpn_generation =
     (let key = revoke_key (opt_id (nt_vpn_configuration_id task)) vpn_generation task_uuid in
      bindE (build_revoke_payload py_repr (nt_payload task) task_uuid key vpn_generation) (\<lambda>payload.
      NodeTask_post_init
        \<lparr>nt_id = None, nt_task_uuid = task_uuid, nt_node_id = nt_node_id task, nt_operation = REVOKE_CLIENT,
         nt_status = NTS_PENDING, nt_idempotency_key = key, nt_payload = payload,
         nt_vpn_configuration_id = nt_vpn_configuration_id task, nt_subscription_id = nt_subscription_id task,
         nt_vpn_generation = Some vpn_generation, nt_response_payload = None, nt_remote_client_ref = JNull,
         nt_attempts = 0, nt_max_attempts = nt_max_attempts task, nt_next_retry_at = Some now, nt_last_error = None,
         nt_claimed_at = None, nt_lease_expires_at = None, nt_lease_token = None, nt_created_at = None,
         nt_updated_at = None, nt_completed_at = None, nt_journal_retired_at = None\<rparr>))"

definition provision_is_current :: "NodeTask \<Rightarrow> VpnConfiguration \<Rightarrow> bool" where
  "provision_is_current task c \<longleftrightarrow> nt_vpn_generation task = Some (vc_generation c) \<and> vc_desired_state c = VD_ACTIVE \<and>
     vc_status c = VS_PROVISIONING"

definition cleanup_after_provision ::
  "(json \<Rightarrow> string) \<Rightarrow> uuid \<Rightarrow> NodeTask \<Rightarrow> string \<Rightarrow> time \<Rightarrow> int \<Rightarrow> DispatchFinalization tx" where
  "cleanup_after_provision py_repr task_uuid task remote_status completed_at generation =
     bindT (liftT (revoke_follow_up py_repr task_uuid task completed_at generation)) (\<lambda>follow_up.
     bindT (nodes_add_task_entity follow_up) (\<lambda>stored.
     case nt_id stored of
       None \<Rightarrow> raiseT (RuntimeError ''Follow-up node task was not persisted'')
     | Some t \<Rightarrow> retT \<lparr>df_status = remote_status, df_follow_up_task_id = Some t\<rparr>))"

definition current_period_of :: "int option \<Rightarrow> time \<Rightarrow> SubscriptionPeriod option tx" where
  "current_period_of subscription_id now =
     (case subscription_id of
        None \<Rightarrow> retT None
      | Some sid \<Rightarrow> bindT (subscriptions_get_entity sid) (\<lambda>_. subscriptions_get_current_period_entity sid now))"

definition complete_provision ::
  "(json \<Rightarrow> string) \<Rightarrow> uuid \<Rightarrow> NodeTask \<Rightarrow> int \<Rightarrow> string \<Rightarrow> time \<Rightarrow> DispatchFinalization tx" where
  "complete_provision py_repr task_uuid task vpn_configuration_id remote_status completed_at =
     bindT (current_period_of (nt_subscription_id task) completed_at) (\<lambda>current_period.
     bindT (vpn_get_entity vpn_configuration_id) (\<lambda>found.
     case found of
       None \<Rightarrow> raiseT (RuntimeError ''VPN configuration for node task was not found'')
     | Some c \<Rightarrow>
         bindT (liftT (text_column (nt_remote_client_ref task))) (\<lambda>remote_client_ref.
         if provision_is_current task c \<and> current_period \<noteq> None
         then bindT (liftT (VpnConfiguration_activate c remote_client_ref)) (\<lambda>c'.
              bindT (vpn_save_entity c') (\<lambda>_.
              bindT (audit_append VPN_CONFIGURATION_ACTIVATED AGG_VPN_CONFIGURATION vpn_configuration_id
                       [(''vpn_configuration_id'', JInt vpn_configuration_id),
                        (''subscription_id'', case nt_subscription_id task of None \<Rightarrow> JNull | Some i \<Rightarrow> JInt i)]) (\<lambda>_.
              retT (finalized remote_status))))
         else if provision_is_current task c
         then bindT (liftT (VpnConfiguration_cancel_provisioning_for_revoke c)) (\<lambda>c'.
              bindT (vpn_save_entity (c'\<lparr>vc_remote_client_ref := ref_or remote_client_ref (vc_remote_client_ref c')\<rparr>)) (\<lambda>_.
              cleanup_after_provision py_repr task_uuid task remote_status completed_at (vc_generation c')))
         else cleanup_after_provision py_repr task_uuid task remote_status completed_at (vc_generation c))))"

definition complete_revoke :: "NodeTask \<Rightarrow> int \<Rightarrow> string \<Rightarrow> time \<Rightarrow> DispatchFinalization tx" where
  "complete_revoke task vpn_configuration_id remote_status completed_at =
     bindT (vpn_get_entity vpn_configuration_id) (\<lambda>found.
     case found of
       None \<Rightarrow> retT (finalized remote_status)
     | Some c \<Rightarrow>
         if nt_vpn_generation task = Some (vc_generation c) \<and> vc_desired_state c = VD_REVOKED \<and> vc_status c = VS_REVOKING
         then bindT (liftT (VpnConfiguration_revoke c completed_at)) (\<lambda>c'.
              bindT (vpn_save_entity c') (\<lambda>_.
              bindT (audit_append VPN_CONFIGURATION_REVOKED AGG_VPN_CONFIGURATION vpn_configuration_id
                       [(''vpn_configuration_id'', JInt vpn_configuration_id)]) (\<lambda>_.
              retT (finalized remote_status))))
         else retT (finalized remote_status))"

definition finalize_success :: "(json \<Rightarrow> string) \<Rightarrow> uuid \<Rightarrow> NodeTask \<Rightarrow> dict \<Rightarrow> time \<Rightarrow> DispatchFinalization tx" where
  "finalize_success py_repr task_uuid task response completed_at =
     (let remote_status = py_str py_repr (dict_value_default response ''status'' (JStr ''succeeded'')) in
      bindT (liftT (NodeTask_complete task response completed_at)) (\<lambda>task'.
      bindT (nodes_save_task_entity task') (\<lambda>_.
      case nt_vpn_configuration_id task' of
        None \<Rightarrow> retT (finalized remote_status)
      | Some v \<Rightarrow>
          if nt_operation task' = PROVISION_CLIENT then complete_provision py_repr task_uuid task' v remote_status completed_at
          else if nt_operation task' = REVOKE_CLIENT then complete_revoke task' v remote_status completed_at
          else retT (finalized remote_status))))"

definition finalize_transport_failure :: "int \<Rightarrow> NodeTask \<Rightarrow> int \<Rightarrow> string \<Rightarrow> time \<Rightarrow> DispatchFinalization tx" where
  "finalize_transport_failure retry_base_seconds task attempt_id error completed_at =
     bindT (nodes_finish_task_attempt attempt_id ''failed'' completed_at None (Some error)) (\<lambda>_.
     bindT (fail_or_retry retry_base_seconds task error None completed_at) (\<lambda>status. retT (finalized status)))"

definition remote_status_of :: "(json \<Rightarrow> string) \<Rightarrow> dict option \<Rightarrow> string" where
  "remote_status_of py_repr response =
     (case response of None \<Rightarrow> ''failed'' | Some r \<Rightarrow> py_str py_repr (dict_value_default r ''status'' (JStr ''failed'')))"

definition finalize_response ::
  "(json \<Rightarrow> string) \<Rightarrow> int \<Rightarrow> uuid \<Rightarrow> PreparedDispatch \<Rightarrow> NodeTask \<Rightarrow> dict option \<Rightarrow> time \<Rightarrow> DispatchFinalization tx" where
  "finalize_response py_repr retry_base_seconds task_uuid prepared task response completed_at =
     (let succeeded = NodeTask_accepts_remote_status task (remote_status_of py_repr response);
          error = (if succeeded then None else Some (error_from_response py_repr response)) in
      bindT (nodes_finish_task_attempt (pd_attempt_id prepared) (if succeeded then ''succeeded'' else ''failed'')
               completed_at response error) (\<lambda>_.
      if succeeded then finalize_success py_repr task_uuid task (case response of None \<Rightarrow> [] | Some r \<Rightarrow> r) completed_at
      else bindT (fail_or_retry retry_base_seconds task (or_else error ''Node request failed'') response completed_at) (\<lambda>status.
           retT (finalized status))))"

definition dispatch_finalize ::
  "(json \<Rightarrow> string) \<Rightarrow> int \<Rightarrow> uuid \<Rightarrow> PreparedDispatch \<Rightarrow> string + dict option \<Rightarrow> time \<Rightarrow> DispatchFinalization tx" where
  "dispatch_finalize py_repr retry_base_seconds task_uuid prepared outcome completed_at =
     (case nt_id (pd_task prepared) of
        None \<Rightarrow> retT (finalized ''missing'')
      | Some task_id \<Rightarrow>
          bindT (nodes_get_task_entity task_id) (\<lambda>found.
          case found of
            None \<Rightarrow> retT (finalized ''missing'')
          | Some task \<Rightarrow>
              if \<not> NodeTask_owns_active_lease task (pd_lease_token prepared) completed_at (pd_attempt_no prepared)
              then retT (finalized ''stale_attempt'')
              else (case outcome of
                      Inl error \<Rightarrow> finalize_transport_failure retry_base_seconds task (pd_attempt_id prepared) error completed_at
                    | Inr response \<Rightarrow> finalize_response py_repr retry_base_seconds task_uuid prepared task response completed_at)))"

section \<open>The handlers\<close>

definition follow_up_jobs :: "DispatchFinalization \<Rightarrow> job list" where
  "follow_up_jobs f = (case df_follow_up_task_id f of None \<Rightarrow> [] | Some t \<Rightarrow> [DISPATCH_NODE_TASK t])"

definition DispatchNodeTask_execute ::
  "(json \<Rightarrow> string) \<Rightarrow> dispatch_settings \<Rightarrow> node_gateway \<Rightarrow> (db \<Rightarrow> db) \<Rightarrow> uuid \<Rightarrow> uuid \<Rightarrow> int \<Rightarrow> time \<Rightarrow> time \<Rightarrow> db
     \<Rightarrow> (string \<times> job list) res \<times> db" where
  "DispatchNodeTask_execute py_repr cfg gateway meanwhile lease_token task_uuid node_task_id started_at completed_at s =
     (case run_uow (dispatch_prepare cfg lease_token node_task_id started_at) s of
        (Inl e, s') \<Rightarrow> (Inl e, s')
      | (Inr (Inl status), s') \<Rightarrow> (Inr (status, []), s')
      | (Inr (Inr prepared), s') \<Rightarrow>
          (case run_uow (dispatch_finalize py_repr (ds_retry_base_seconds cfg) task_uuid prepared
                           (dispatch_send gateway prepared) completed_at) (meanwhile s') of
             (Inl e, s'') \<Rightarrow> (Inl e, s'')
           | (Inr f, s'') \<Rightarrow> (Inr (df_status f, follow_up_jobs f), s'')))"

definition dispatch_due :: "time \<Rightarrow> nat \<Rightarrow> db \<Rightarrow> (nat \<times> job list) res \<times> db" where
  "dispatch_due now limit = run_uow (bindT (nodes_list_due_tasks now limit) (\<lambda>ids. retT (length ids, map DISPATCH_NODE_TASK ids)))"

record recovery_result =
  rr_recovered :: nat
  rr_failed :: nat
  rr_requeue_ids :: "int list"

definition recover_stale_task :: "int \<Rightarrow> time \<Rightarrow> NodeTask \<Rightarrow> recovery_result \<Rightarrow> recovery_result tx" where
  "recover_stale_task retry_base_seconds now task r =
     (case nt_id task of
        None \<Rightarrow> retT r
      | Some i \<Rightarrow>
          if \<not> NodeTask_lease_is_expired task now then retT r
          else
            bindT (nodes_fail_started_task_attempt i (nt_attempts task) now ''node task lease expired'') (\<lambda>_.
            bindT (liftT (NodeTask_recover_expired_lease task now ''node task lease expired'' retry_base_seconds)) (\<lambda>task'.
            bindT (nodes_save_task_entity task') (\<lambda>_.
            let r' = r\<lparr>rr_recovered := rr_recovered r + 1\<rparr> in
            if nt_status task' = NTS_FAILED
            then bindT (mark_configuration_failure task') (\<lambda>_. retT (r'\<lparr>rr_failed := rr_failed r + 1\<rparr>))
            else if nt_status task' = NTS_PENDING then retT (r'\<lparr>rr_requeue_ids := rr_requeue_ids r @ [i]\<rparr>)
            else retT r'))))"

definition recover_stale_tx :: "int \<Rightarrow> time \<Rightarrow> nat \<Rightarrow> recovery_result tx" where
  "recover_stale_tx retry_base_seconds now limit =
     bindT (nodes_list_stale_task_entities now limit) (\<lambda>tasks.
     foldT (recover_stale_task retry_base_seconds now) tasks \<lparr>rr_recovered = 0, rr_failed = 0, rr_requeue_ids = []\<rparr>)"

text \<open>The jobs are enqueued after the commit; an enqueue that fails (\<open>enqueue\<close> is \<open>False\<close>) is only counted.\<close>

definition recover_stale ::
  "(job \<Rightarrow> bool) \<Rightarrow> int \<Rightarrow> time \<Rightarrow> nat \<Rightarrow> db \<Rightarrow> (recovery_result \<times> nat \<times> job list) res \<times> db" where
  "recover_stale enqueue retry_base_seconds now limit s =
     (case run_uow (recover_stale_tx retry_base_seconds now limit) s of
        (Inl e, s') \<Rightarrow> (Inl e, s')
      | (Inr r, s') \<Rightarrow>
          (let jobs = map DISPATCH_NODE_TASK (rr_requeue_ids r) in
           (Inr (r, length (filter (\<lambda>j. \<not> enqueue j) jobs), filter enqueue jobs), s')))"

end
