(* ===== verification/DispatchPanel.thy ===== *)
theory DispatchPanel
  imports Revoke
begin

text \<open>
  Dispatching panel tasks (\<^verbatim>\<open>use_cases/dispatch_panel_provision_task.py\<close> and \<^verbatim>\<open>dispatch_panel_revoke_task.py\<close>).

  The panel is a pair of parameters: a request gives \<open>None\<close> when it succeeds and the name of the exception's type
  otherwise. \<open>meanwhile\<close> is what other transactions do to the database during a request. As in \<open>VpnRepo\<close>, the mapper of panel
  provision tasks is an argument.
\<close>

fun PanelTaskStatus_value :: "PanelTaskStatus \<Rightarrow> string" where
  "PanelTaskStatus_value PTS_PENDING = ''pending''"
| "PanelTaskStatus_value PTS_IN_PROGRESS = ''in_progress''"
| "PanelTaskStatus_value PTS_SUCCEEDED = ''succeeded''"
| "PanelTaskStatus_value PTS_FAILED = ''failed''"
| "PanelTaskStatus_value PTS_CANCELLED = ''cancelled''"

type_synonym panel_request = "dict \<Rightarrow> string option"
type_synonym panel_mapper = "PanelProvisionTask \<Rightarrow> PanelProvisionTask res"

section \<open>Provision tasks\<close>

record PreparedPanelDispatch =
  pq_task_id :: int
  pq_lease_token :: uuid
  pq_attempt_no :: int
  pq_compensate :: bool
  pq_payload :: dict

definition panel_prepare :: "panel_mapper \<Rightarrow> int \<Rightarrow> uuid \<Rightarrow> int \<Rightarrow> time \<Rightarrow> (string + PreparedPanelDispatch) tx" where
  "panel_prepare from_row lease_seconds token panel_task_id now =
     bindT (vpn_get_panel_task_entity from_row panel_task_id) (\<lambda>found.
     case found of
       None \<Rightarrow> retT (Inl ''missing'')
     | Some task \<Rightarrow>
         if pp_status task \<in> {PTS_SUCCEEDED, PTS_FAILED, PTS_CANCELLED} \<or> \<not> PanelProvisionTask_can_dispatch task now
         then retT (Inl (PanelTaskStatus_value (pp_status task)))
         else
           bindT (liftT (PanelProvisionTask_start_attempt task now (now + seconds lease_seconds) token)) (\<lambda>(attempt_no, task').
           bindT (vpn_save_panel_task_entity task') (\<lambda>_.
           retT (Inr \<lparr>pq_task_id = panel_task_id, pq_lease_token = token, pq_attempt_no = attempt_no,
                       pq_compensate = pp_compensation_required task', pq_payload = pp_payload task'\<rparr>))))"

definition panel_provision_is_current :: "PanelProvisionTask \<Rightarrow> VpnConfiguration \<Rightarrow> bool" where
  "panel_provision_is_current task c \<longleftrightarrow>
     pp_vpn_generation task = vc_generation c \<and> vc_desired_state c = VD_ACTIVE \<and> vc_status c = VS_PROVISIONING"

datatype panel_outcome = Activated | LeaseLost | Compensate

definition panel_activate :: "PanelProvisionTask \<Rightarrow> VpnConfiguration \<Rightarrow> time \<Rightarrow> panel_outcome tx" where
  "panel_activate task c now =
     bindT (liftT (VpnConfiguration_activate c None)) (\<lambda>c'.
     bindT (vpn_save_entity c') (\<lambda>_.
     bindT (liftT (PanelProvisionTask_complete task now)) (\<lambda>task'.
     bindT (vpn_save_panel_task_entity task') (\<lambda>_.
     bindT (audit_append VPN_CONFIGURATION_ACTIVATED AGG_VPN_CONFIGURATION (pp_vpn_configuration_id task)
              [(''vpn_configuration_id'', JInt (pp_vpn_configuration_id task)),
               (''subscription_id'', JInt (pp_subscription_id task))]) (\<lambda>_.
     retT Activated)))))"

definition mark_panel_compensation :: "PanelProvisionTask \<Rightarrow> time \<Rightarrow> string \<Rightarrow> panel_outcome tx" where
  "mark_panel_compensation task now error =
     bindT (liftT (PanelProvisionTask_mark_compensation_required task now error)) (\<lambda>task'.
     bindT (vpn_save_panel_task_entity task') (\<lambda>_. retT Compensate))"

definition panel_finalize_success :: "panel_mapper \<Rightarrow> PreparedPanelDispatch \<Rightarrow> time \<Rightarrow> panel_outcome tx" where
  "panel_finalize_success from_row prepared now =
     bindT (vpn_get_panel_task_entity from_row (pq_task_id prepared)) (\<lambda>found.
     case found of
       None \<Rightarrow> raiseT (RuntimeError ''Panel provision task disappeared during finalization'')
     | Some task \<Rightarrow>
         if \<not> PanelProvisionTask_owns_active_lease task (pq_lease_token prepared) (pq_attempt_no prepared) now
         then (if PanelProvisionTask_owns_lease task (pq_lease_token prepared) (pq_attempt_no prepared)
               then mark_panel_compensation task now ''panel lease expired after remote success''
               else retT LeaseLost)
         else
           bindT (subscriptions_get_entity (pp_subscription_id task)) (\<lambda>_.
           bindT (subscriptions_get_current_period_entity (pp_subscription_id task) now) (\<lambda>period.
           bindT (vpn_get_entity (pp_vpn_configuration_id task)) (\<lambda>configuration.
           case configuration of
             None \<Rightarrow> raiseT (RuntimeError ''VPN configuration for panel task was not found'')
           | Some c \<Rightarrow>
               if panel_provision_is_current task c \<and> period \<noteq> None then panel_activate task c now
               else if panel_provision_is_current task c
               then bindT (liftT (VpnConfiguration_cancel_provisioning_for_revoke c)) (\<lambda>c'.
                    bindT (vpn_save_entity c') (\<lambda>_.
                    mark_panel_compensation task now ''subscription access expired during panel provisioning''))
               else mark_panel_compensation task now ''stale panel provision success requires compensation''))))"

definition fail_current_provision :: "PanelProvisionTask \<Rightarrow> VpnConfiguration option \<Rightarrow> unit tx" where
  "fail_current_provision task configuration =
     (case configuration of
        None \<Rightarrow> retT ()
      | Some c \<Rightarrow>
          if panel_provision_is_current task c then bindT (liftT (VpnConfiguration_fail_provisioning c)) vpn_save_entity
          else retT ())"

definition panel_finalize_failure :: "panel_mapper \<Rightarrow> int \<Rightarrow> PreparedPanelDispatch \<Rightarrow> string \<Rightarrow> time \<Rightarrow> string tx" where
  "panel_finalize_failure from_row retry_base_seconds prepared error now =
     bindT (vpn_get_panel_task_entity from_row (pq_task_id prepared)) (\<lambda>found.
     case found of
       None \<Rightarrow> retT ''lease_lost''
     | Some task \<Rightarrow>
         if \<not> PanelProvisionTask_owns_lease task (pq_lease_token prepared) (pq_attempt_no prepared) then retT ''lease_lost''
         else
           (let task' = PanelProvisionTask_retry task now (''panel provision failed: '' @ error) retry_base_seconds in
            bindT (vpn_save_panel_task_entity task') (\<lambda>_.
            if pp_status task' = PTS_FAILED
            then bindT (vpn_get_entity (pp_vpn_configuration_id task')) (\<lambda>configuration.
                 bindT (fail_current_provision task' configuration) (\<lambda>_. retT ''failed''))
            else retT ''retry_scheduled'')))"

section \<open>Compensation\<close>

definition completes_cancelled_provision :: "PanelProvisionTask \<Rightarrow> VpnConfiguration \<Rightarrow> bool" where
  "completes_cancelled_provision task c \<longleftrightarrow>
     vc_status c = VS_REVOKING \<and> vc_desired_state c = VD_REVOKED \<and> vc_generation c = pp_vpn_generation task + 1"

definition terminal_local_state :: "PanelProvisionTask \<Rightarrow> VpnConfiguration option \<Rightarrow> bool" where
  "terminal_local_state task configuration =
     (case configuration of
        None \<Rightarrow> True
      | Some c \<Rightarrow> pp_vpn_generation task \<noteq> vc_generation c \<or> vc_desired_state c = VD_REVOKED \<or>
          vc_status c \<in> {VS_EXPIRED, VS_REVOKED, VS_DISABLED})"

definition revoke_cancelled_provision :: "PanelProvisionTask \<Rightarrow> VpnConfiguration option \<Rightarrow> time \<Rightarrow> unit tx" where
  "revoke_cancelled_provision task configuration now =
     (case configuration of
        None \<Rightarrow> retT ()
      | Some c \<Rightarrow>
          if completes_cancelled_provision task c
          then bindT (liftT (VpnConfiguration_revoke c now)) (\<lambda>c'.
               bindT (vpn_save_entity c') (\<lambda>_.
               audit_append VPN_CONFIGURATION_REVOKED AGG_VPN_CONFIGURATION (pp_vpn_configuration_id task)
                 [(''vpn_configuration_id'', JInt (pp_vpn_configuration_id task))]))
          else retT ())"

definition record_compensation_success :: "panel_mapper \<Rightarrow> PreparedPanelDispatch \<Rightarrow> time \<Rightarrow> string tx" where
  "record_compensation_success from_row prepared now =
     bindT (vpn_get_panel_task_entity from_row (pq_task_id prepared)) (\<lambda>found.
     case found of
       None \<Rightarrow> retT ''lease_lost''
     | Some task \<Rightarrow>
         if \<not> PanelProvisionTask_owns_lease task (pq_lease_token prepared) (pq_attempt_no prepared) then retT ''lease_lost''
         else
           bindT (vpn_get_entity (pp_vpn_configuration_id task)) (\<lambda>configuration.
           let task' = PanelProvisionTask_compensation_succeeded task now (terminal_local_state task configuration) in
           bindT (vpn_save_panel_task_entity task') (\<lambda>_.
           bindT (revoke_cancelled_provision task' configuration now) (\<lambda>_.
           bindT (if pp_status task' = PTS_FAILED then fail_current_provision task' configuration else retT ()) (\<lambda>_.
           retT (PanelTaskStatus_value (pp_status task')))))))"

definition record_compensation_failure :: "panel_mapper \<Rightarrow> PreparedPanelDispatch \<Rightarrow> string \<Rightarrow> time \<Rightarrow> unit tx" where
  "record_compensation_failure from_row prepared error now =
     bindT (vpn_get_panel_task_entity from_row (pq_task_id prepared)) (\<lambda>found.
     case found of
       None \<Rightarrow> retT ()
     | Some task \<Rightarrow>
         if \<not> PanelProvisionTask_owns_lease task (pq_lease_token prepared) (pq_attempt_no prepared) then retT ()
         else vpn_save_panel_task_entity
                (PanelProvisionTask_require_compensation task now (''panel compensation failed: '' @ error)))"

text \<open>The panel's answer to the compensating revoke decides which of the two records is written.\<close>

definition dispatch_compensation ::
  "panel_mapper \<Rightarrow> panel_request \<Rightarrow> (db \<Rightarrow> db) \<Rightarrow> PreparedPanelDispatch \<Rightarrow> time \<Rightarrow> db \<Rightarrow> string res \<times> db" where
  "dispatch_compensation from_row revoke meanwhile prepared now s =
     (case revoke (pq_payload prepared) of
        Some error \<Rightarrow>
          (case run_uow (record_compensation_failure from_row prepared error now) (meanwhile s) of
             (Inl e, s') \<Rightarrow> (Inl e, s')
           | (Inr _, s') \<Rightarrow> (Inr ''compensation_required'', s'))
      | None \<Rightarrow> run_uow (record_compensation_success from_row prepared now) (meanwhile s))"

definition compensate_after_local_failure ::
  "panel_mapper \<Rightarrow> panel_request \<Rightarrow> (db \<Rightarrow> db) \<Rightarrow> PreparedPanelDispatch \<Rightarrow> time \<Rightarrow> db \<Rightarrow> db" where
  "compensate_after_local_failure from_row revoke meanwhile prepared now s =
     (case revoke (pq_payload prepared) of
        Some error \<Rightarrow> snd (run_uow (record_compensation_failure from_row prepared error now) (meanwhile s))
      | None \<Rightarrow> snd (run_uow (record_compensation_success from_row prepared now) (meanwhile s)))"

definition finish_panel_provision ::
  "panel_mapper \<Rightarrow> panel_request \<Rightarrow> (db \<Rightarrow> db) \<Rightarrow> PreparedPanelDispatch \<Rightarrow> time \<Rightarrow> time \<Rightarrow> db \<Rightarrow> string res \<times> db" where
  "finish_panel_provision from_row revoke meanwhile prepared completed_at later s =
     (case run_uow (panel_finalize_success from_row prepared completed_at) s of
        (Inl e, s') \<Rightarrow> (Inl e, compensate_after_local_failure from_row revoke meanwhile prepared later s')
      | (Inr Activated, s') \<Rightarrow> (Inr ''succeeded'', s')
      | (Inr LeaseLost, s') \<Rightarrow> (Inr ''lease_lost'', s')
      | (Inr Compensate, s') \<Rightarrow> dispatch_compensation from_row revoke meanwhile prepared later s')"

definition DispatchPanelProvisionTask_execute ::
  "panel_mapper \<Rightarrow> panel_request \<Rightarrow> panel_request \<Rightarrow> (db \<Rightarrow> db) \<Rightarrow> (db \<Rightarrow> db) \<Rightarrow> int \<Rightarrow> int \<Rightarrow> uuid \<Rightarrow> int
     \<Rightarrow> time \<Rightarrow> time \<Rightarrow> time \<Rightarrow> db \<Rightarrow> string res \<times> db" where
  "DispatchPanelProvisionTask_execute from_row provision revoke meanwhile meanwhile' retry_base_seconds lease_seconds token
     panel_task_id started_at completed_at later s =
     (case run_uow (panel_prepare from_row lease_seconds token panel_task_id started_at) s of
        (Inl e, s') \<Rightarrow> (Inl e, s')
      | (Inr (Inl status), s') \<Rightarrow> (Inr status, s')
      | (Inr (Inr prepared), s') \<Rightarrow>
          if pq_compensate prepared then dispatch_compensation from_row revoke meanwhile prepared completed_at s'
          else
            (case provision (pq_payload prepared) of
               Some error \<Rightarrow> run_uow (panel_finalize_failure from_row retry_base_seconds prepared error completed_at) (meanwhile s')
             | None \<Rightarrow> finish_panel_provision from_row revoke meanwhile' prepared completed_at later (meanwhile s')))"

text \<open>Jobs that the queue refuses (\<open>enqueue\<close> is \<open>False\<close>) are left to the next run.\<close>

definition panel_dispatch_due :: "(job \<Rightarrow> bool) \<Rightarrow> time \<Rightarrow> nat \<Rightarrow> db \<Rightarrow> job list res \<times> db" where
  "panel_dispatch_due enqueue now limit =
     run_uow (bindT (vpn_list_due_panel_task_ids now limit) (\<lambda>ids. retT (filter enqueue (map DISPATCH_PANEL_PROVISION_TASK ids))))"

definition recover_panel_provision :: "time \<Rightarrow> PanelProvisionTask \<Rightarrow> int list \<Rightarrow> int list tx" where
  "recover_panel_provision now task ids =
     bindT (liftT (PanelProvisionTask_recover_expired_lease task now
              ''panel provision lease expired; compensation required before retry'')) (\<lambda>task'.
     bindT (vpn_save_panel_task_entity task') (\<lambda>_.
     retT (case pp_id task' of None \<Rightarrow> ids | Some i \<Rightarrow> ids @ [i])))"

definition panel_recover_stale :: "panel_mapper \<Rightarrow> (job \<Rightarrow> bool) \<Rightarrow> time \<Rightarrow> nat \<Rightarrow> db \<Rightarrow> (nat \<times> job list) res \<times> db" where
  "panel_recover_stale from_row enqueue now limit =
     run_uow (bindT (vpn_list_stale_panel_task_entities from_row now limit) (\<lambda>tasks.
       bindT (foldT (recover_panel_provision now) tasks []) (\<lambda>ids.
       retT (length ids, filter enqueue (map DISPATCH_PANEL_PROVISION_TASK ids)))))"

section \<open>Revoke tasks\<close>

record PreparedPanelRevoke =
  pk_task_id :: int
  pk_lease_token :: uuid
  pk_attempt_no :: int
  pk_payload :: dict

definition panel_revoke_prepare :: "int \<Rightarrow> uuid \<Rightarrow> int \<Rightarrow> time \<Rightarrow> (string + PreparedPanelRevoke) tx" where
  "panel_revoke_prepare lease_seconds token task_id now =
     bindT (vpn_get_panel_revoke_task_entity task_id) (\<lambda>found.
     case found of
       None \<Rightarrow> retT (Inl ''missing'')
     | Some task \<Rightarrow>
         if pr_status task \<in> {PTS_SUCCEEDED, PTS_FAILED, PTS_CANCELLED} \<or> \<not> PanelRevokeTask_can_dispatch task now
         then retT (Inl (PanelTaskStatus_value (pr_status task)))
         else
           bindT (liftT (PanelRevokeTask_start_attempt task now (now + seconds lease_seconds) token)) (\<lambda>(attempt_no, task').
           bindT (vpn_save_panel_revoke_task_entity task') (\<lambda>_.
           retT (Inr \<lparr>pk_task_id = task_id, pk_lease_token = token, pk_attempt_no = attempt_no, pk_payload = pr_payload task'\<rparr>))))"

definition panel_revoke_is_current :: "PanelRevokeTask \<Rightarrow> VpnConfiguration \<Rightarrow> bool" where
  "panel_revoke_is_current task c \<longleftrightarrow>
     pr_vpn_generation task = vc_generation c \<and> vc_desired_state c = VD_REVOKED \<and> vc_status c = VS_REVOKING"

definition panel_revoke_success :: "PreparedPanelRevoke \<Rightarrow> time \<Rightarrow> string tx" where
  "panel_revoke_success prepared now =
     bindT (vpn_get_panel_revoke_task_entity (pk_task_id prepared)) (\<lambda>found.
     case found of
       None \<Rightarrow> retT ''missing''
     | Some task \<Rightarrow>
         if \<not> PanelRevokeTask_owns_active_lease task (pk_lease_token prepared) (pk_attempt_no prepared) now
         then retT ''stale_attempt''
         else
           bindT (vpn_get_entity (pr_vpn_configuration_id task)) (\<lambda>configuration.
           bindT (liftT (PanelRevokeTask_complete task now)) (\<lambda>task'.
           bindT (vpn_save_panel_revoke_task_entity task') (\<lambda>_.
           case configuration of
             None \<Rightarrow> retT ''succeeded''
           | Some c \<Rightarrow>
               if panel_revoke_is_current task' c
               then bindT (liftT (VpnConfiguration_revoke c now)) (\<lambda>c'.
                    bindT (vpn_save_entity c') (\<lambda>_.
                    bindT (audit_append VPN_CONFIGURATION_REVOKED AGG_VPN_CONFIGURATION (pr_vpn_configuration_id task')
                             [(''vpn_configuration_id'', JInt (pr_vpn_configuration_id task'))]) (\<lambda>_.
                    retT ''succeeded'')))
               else retT ''succeeded''))))"

definition panel_revoke_failure :: "int \<Rightarrow> PreparedPanelRevoke \<Rightarrow> string \<Rightarrow> time \<Rightarrow> string tx" where
  "panel_revoke_failure retry_base_seconds prepared error now =
     bindT (vpn_get_panel_revoke_task_entity (pk_task_id prepared)) (\<lambda>found.
     case found of
       None \<Rightarrow> retT ''stale_attempt''
     | Some task \<Rightarrow>
         if \<not> PanelRevokeTask_owns_lease task (pk_lease_token prepared) (pk_attempt_no prepared) then retT ''stale_attempt''
         else
           (let task' = PanelRevokeTask_retry task now (''panel revoke failed: '' @ error) retry_base_seconds in
            bindT (vpn_save_panel_revoke_task_entity task') (\<lambda>_.
            if pr_status task' = PTS_FAILED
            then bindT (vpn_get_entity (pr_vpn_configuration_id task')) (\<lambda>configuration.
                 bindT (case configuration of
                          None \<Rightarrow> retT ()
                        | Some c \<Rightarrow>
                            if panel_revoke_is_current task' c
                            then bindT (liftT (VpnConfiguration_fail_revoke c)) vpn_save_entity
                            else retT ()) (\<lambda>_.
                 retT ''failed''))
            else retT ''retry_scheduled'')))"

definition DispatchPanelRevokeTask_execute ::
  "panel_request \<Rightarrow> (db \<Rightarrow> db) \<Rightarrow> int \<Rightarrow> int \<Rightarrow> uuid \<Rightarrow> int \<Rightarrow> time \<Rightarrow> time \<Rightarrow> db \<Rightarrow> string res \<times> db" where
  "DispatchPanelRevokeTask_execute revoke meanwhile retry_base_seconds lease_seconds token task_id started_at completed_at s =
     (case run_uow (panel_revoke_prepare lease_seconds token task_id started_at) s of
        (Inl e, s') \<Rightarrow> (Inl e, s')
      | (Inr (Inl status), s') \<Rightarrow> (Inr status, s')
      | (Inr (Inr prepared), s') \<Rightarrow>
          (case revoke (pk_payload prepared) of
             Some error \<Rightarrow> run_uow (panel_revoke_failure retry_base_seconds prepared error completed_at) (meanwhile s')
           | None \<Rightarrow> run_uow (panel_revoke_success prepared completed_at) (meanwhile s')))"

definition panel_revoke_dispatch_due :: "(job \<Rightarrow> bool) \<Rightarrow> time \<Rightarrow> nat \<Rightarrow> db \<Rightarrow> job list res \<times> db" where
  "panel_revoke_dispatch_due enqueue now limit =
     run_uow (bindT (vpn_list_due_panel_revoke_task_ids now limit) (\<lambda>ids. retT (filter enqueue (map DISPATCH_PANEL_REVOKE_TASK ids))))"

definition recover_panel_revoke :: "time \<Rightarrow> PanelRevokeTask \<Rightarrow> int list \<Rightarrow> int list tx" where
  "recover_panel_revoke now task ids =
     bindT (liftT (PanelRevokeTask_recover_expired_lease task now ''panel revoke lease expired'')) (\<lambda>task'.
     bindT (vpn_save_panel_revoke_task_entity task') (\<lambda>_.
     retT (case pr_id task' of None \<Rightarrow> ids | Some i \<Rightarrow> ids @ [i])))"

definition panel_revoke_recover_stale :: "(job \<Rightarrow> bool) \<Rightarrow> time \<Rightarrow> nat \<Rightarrow> db \<Rightarrow> (nat \<times> job list) res \<times> db" where
  "panel_revoke_recover_stale enqueue now limit =
     run_uow (bindT (vpn_list_stale_panel_revoke_task_entities now limit) (\<lambda>tasks.
       bindT (foldT (recover_panel_revoke now) tasks []) (\<lambda>ids.
       retT (length ids, filter enqueue (map DISPATCH_PANEL_REVOKE_TASK ids)))))"

end
