(* ===== verification/Reconcile.thy ===== *)
theory Reconcile
  imports DispatchNode DispatchPanel
begin

text \<open>
  Reconciliation (\<^verbatim>\<open>use_cases/sync_subscriptions.py\<close>, \<^verbatim>\<open>domain/reconciliation.py\<close> and the anomaly query of
  \<^verbatim>\<open>repositories/maintenance.py\<close>): under a database lease, at most \<open>max_batches\<close> batches of anomalies are read in the order
  of their kind and entity, expired subscriptions are ended and the other anomalies become jobs.

  \<open>enqueue\<close> tells whether the queue takes a job; \<open>clock n\<close> is the reading of the clock for batch \<open>n\<close>. A run is written
  without interruption; its transactions are also steps of their own in the model of the whole shop.
\<close>

section \<open>Anomalies\<close>

datatype ReconciliationAnomalyKind =
  EXPIRE_SUBSCRIPTION | REVOKE_VPN | CLEANUP_VPN | PROVISION_SUBSCRIPTION_K | REPAIR_PROVISION | REPAIR_REVOKE

record ReconciliationAnomaly =
  an_kind_order :: int
  an_kind :: ReconciliationAnomalyKind
  an_entity_id :: int

definition BLOCKING_VPN_STATUSES :: "VpnConfigurationStatus list" where
  "BLOCKING_VPN_STATUSES = [VS_PROVISIONING, VS_ACTIVE, VS_FAILED, VS_REVOKING, VS_REVOKE_FAILED]"

definition REMOTE_LIVE_VPN_STATUSES :: "VpnConfigurationStatus list" where
  "REMOTE_LIVE_VPN_STATUSES = [VS_PROVISIONING, VS_ACTIVE, VS_FAILED, VS_REVOKE_FAILED]"

definition has_current_period :: "time \<Rightarrow> int \<Rightarrow> db \<Rightarrow> bool" where
  "has_current_period now subscription_id s \<longleftrightarrow> current_periods subscription_id now s \<noteq> []"

definition anomaly :: "int \<Rightarrow> ReconciliationAnomalyKind \<Rightarrow> int \<Rightarrow> ReconciliationAnomaly" where
  "anomaly kind_order kind entity_id = \<lparr>an_kind_order = kind_order, an_kind = kind, an_entity_id = entity_id\<rparr>"

definition subscription_ids :: "(Subscription \<Rightarrow> bool) \<Rightarrow> db \<Rightarrow> int list" where
  "subscription_ids P s = map (\<lambda>r. opt_id (su_id r)) (select_rows P (d_subs s))"

text \<open>Configurations joined with their subscription.\<close>

definition vpns_with_subscription :: "db \<Rightarrow> (VpnConfiguration \<times> Subscription) list" where
  "vpns_with_subscription s = [(v, u). v \<leftarrow> rows (d_vpns s), u \<leftarrow> rows (d_subs s), su_id u = Some (vc_subscription_id v)]"

definition is_current :: "time \<Rightarrow> db \<Rightarrow> Subscription \<Rightarrow> bool" where
  "is_current now s u \<longleftrightarrow> su_status u = SS_ACTIVE \<and> has_current_period now (opt_id (su_id u)) s"

definition expire_anomalies :: "time \<Rightarrow> db \<Rightarrow> ReconciliationAnomaly list" where
  "expire_anomalies now s = map (anomaly 1 EXPIRE_SUBSCRIPTION)
     (subscription_ids (\<lambda>u. su_status u = SS_ACTIVE \<and> \<not> has_current_period now (opt_id (su_id u)) s) s)"

definition revoke_anomalies :: "time \<Rightarrow> db \<Rightarrow> ReconciliationAnomaly list" where
  "revoke_anomalies now s = map (\<lambda>(v, u). anomaly 2 REVOKE_VPN (opt_id (vc_id v)))
     (filter (\<lambda>(v, u). vc_status v \<in> set REMOTE_LIVE_VPN_STATUSES \<and>
        (su_status u \<noteq> SS_ACTIVE \<or> \<not> has_current_period now (opt_id (su_id u)) s)) (vpns_with_subscription s))"

definition cleanup_anomalies :: "time \<Rightarrow> db \<Rightarrow> ReconciliationAnomaly list" where
  "cleanup_anomalies now s = map (\<lambda>(v, u). anomaly 3 CLEANUP_VPN (opt_id (vc_id v)))
     (filter (\<lambda>(v, u). vc_status v = VS_FAILED \<and> is_current now s u) (vpns_with_subscription s))"

definition live_or_inflight :: "int \<Rightarrow> db \<Rightarrow> bool" where
  "live_or_inflight subscription_id s \<longleftrightarrow>
     list_ex (\<lambda>v. vc_subscription_id v = subscription_id \<and> vc_status v \<in> set BLOCKING_VPN_STATUSES) (rows (d_vpns s))"

definition provision_anomalies :: "time \<Rightarrow> db \<Rightarrow> ReconciliationAnomaly list" where
  "provision_anomalies now s = map (anomaly 4 PROVISION_SUBSCRIPTION_K)
     (subscription_ids (\<lambda>u. is_current now s u \<and> \<not> live_or_inflight (opt_id (su_id u)) s) s)"

text \<open>The task of a configuration's current generation is missing, or exists with a status in \<open>bad\<close>.\<close>

definition node_needs_repair :: "NodeTaskOperation \<Rightarrow> NodeTaskStatus set \<Rightarrow> VpnConfiguration \<Rightarrow> db \<Rightarrow> bool" where
  "node_needs_repair operation bad v s \<longleftrightarrow>
     (let tasks = select_rows (\<lambda>t. nt_vpn_configuration_id t = vc_id v \<and> nt_vpn_configuration_id t \<noteq> None \<and> nt_operation t = operation \<and>
                    nt_vpn_generation t = Some (vc_generation v)) (d_ntasks s) in
      tasks = [] \<or> list_ex (\<lambda>t. nt_status t \<in> bad) tasks)"

definition panel_provision_needs_repair :: "VpnConfiguration \<Rightarrow> db \<Rightarrow> bool" where
  "panel_provision_needs_repair v s \<longleftrightarrow>
     (let tasks = select_rows (\<lambda>t. Some (pp_vpn_configuration_id t) = vc_id v \<and> pp_vpn_generation t = vc_generation v) (d_pprov s) in
      tasks = [] \<or> list_ex (\<lambda>t. pp_status t \<in> {PTS_SUCCEEDED, PTS_FAILED, PTS_CANCELLED}) tasks)"

definition panel_revoke_needs_repair :: "VpnConfiguration \<Rightarrow> db \<Rightarrow> bool" where
  "panel_revoke_needs_repair v s \<longleftrightarrow>
     (let tasks = select_rows (\<lambda>t. Some (pr_vpn_configuration_id t) = vc_id v \<and> pr_vpn_generation t = vc_generation v) (d_prev s) in
      tasks = [] \<or> list_ex (\<lambda>t. pr_status t = PTS_SUCCEEDED) tasks)"

definition repair_provision_anomalies :: "time \<Rightarrow> db \<Rightarrow> ReconciliationAnomaly list" where
  "repair_provision_anomalies now s = map (\<lambda>(v, u). anomaly 5 REPAIR_PROVISION (vc_subscription_id v))
     (filter (\<lambda>(v, u). vc_status v = VS_PROVISIONING \<and> vc_desired_state v = VD_ACTIVE \<and> is_current now s u \<and>
        (case get_row en_id (vc_server_endpoint_id v) (d_endpoints s) of
           None \<Rightarrow> False
         | Some e \<Rightarrow> if en_node_id e \<noteq> None then node_needs_repair PROVISION_CLIENT {NTS_SUCCEEDED, NTS_FAILED, NTS_CANCELLED} v s
                     else panel_provision_needs_repair v s)) (vpns_with_subscription s))"

definition repair_revoke_anomalies :: "db \<Rightarrow> ReconciliationAnomaly list" where
  "repair_revoke_anomalies s = map (\<lambda>v. anomaly 6 REPAIR_REVOKE (opt_id (vc_id v)))
     (select_rows (\<lambda>v. vc_status v = VS_REVOKING \<and> vc_desired_state v = VD_REVOKED \<and>
        (case get_row en_id (vc_server_endpoint_id v) (d_endpoints s) of
           None \<Rightarrow> False
         | Some e \<Rightarrow> if en_node_id e \<noteq> None then node_needs_repair REVOKE_CLIENT {NTS_SUCCEEDED} v s
                     else panel_revoke_needs_repair v s)) (d_vpns s))"

definition all_anomalies :: "time \<Rightarrow> db \<Rightarrow> ReconciliationAnomaly list" where
  "all_anomalies now s = expire_anomalies now s @ revoke_anomalies now s @ cleanup_anomalies now s @
     provision_anomalies now s @ repair_provision_anomalies now s @ repair_revoke_anomalies s"

definition anomaly_key :: "ReconciliationAnomaly \<Rightarrow> int \<times> int" where
  "anomaly_key a = (an_kind_order a, an_entity_id a)"

definition list_reconciliation_anomalies :: "time \<Rightarrow> int \<times> int \<Rightarrow> nat \<Rightarrow> ReconciliationAnomaly list tx" where
  "list_reconciliation_anomalies now cursor limit = readT (\<lambda>s.
     take limit (sort_key anomaly_key (filter (\<lambda>a. cursor < anomaly_key a) (all_anomalies now s))))"

section \<open>The run\<close>

definition expire_subscription :: "int \<Rightarrow> time \<Rightarrow> bool tx" where
  "expire_subscription subscription_id now =
     bindT (subscriptions_get_entity subscription_id) (\<lambda>found.
     case found of
       None \<Rightarrow> retT False
     | Some sub \<Rightarrow>
         if su_status sub \<noteq> SS_ACTIVE then retT False
         else bindT (subscriptions_get_current_period_entity subscription_id now) (\<lambda>period.
              if period \<noteq> None then retT False
              else bindT (subscriptions_save_entity (Subscription_expire sub now)) (\<lambda>_.
                   bindT (audit_append SUBSCRIPTION_ENDED AGG_SUBSCRIPTION subscription_id
                            [(''subscription_id'', JInt subscription_id)]) (\<lambda>_.
                   retT True))))"

definition anomaly_job :: "ReconciliationAnomaly \<Rightarrow> job option" where
  "anomaly_job a =
     (case an_kind a of
        REVOKE_VPN \<Rightarrow> Some (REVOKE_VPN_CONFIGURATION (an_entity_id a) EXPIRATION)
      | CLEANUP_VPN \<Rightarrow> Some (REVOKE_VPN_CONFIGURATION (an_entity_id a) REPLACEMENT_CLEANUP)
      | REPAIR_REVOKE \<Rightarrow> Some (REVOKE_VPN_CONFIGURATION (an_entity_id a) FORCE)
      | PROVISION_SUBSCRIPTION_K \<Rightarrow> Some (PROVISION_SUBSCRIPTION (an_entity_id a))
      | REPAIR_PROVISION \<Rightarrow> Some (PROVISION_SUBSCRIPTION (an_entity_id a))
      | EXPIRE_SUBSCRIPTION \<Rightarrow> None)"

record reconcile_result =
  rc_status :: string
  rc_batches :: nat
  rc_processed_anomalies :: nat
  rc_expired_subscriptions :: nat
  rc_vpn_to_revoke :: nat
  rc_subscriptions_to_provision :: nat
  rc_vpn_cleanup :: nat
  rc_provision_repairs :: nat
  rc_revoke_repairs :: nat
  rc_enqueue_failures :: nat
  rc_jobs :: "job list"

definition empty_result :: reconcile_result where
  "empty_result = \<lparr>rc_status = ''completed'', rc_batches = 0, rc_processed_anomalies = 0, rc_expired_subscriptions = 0,
     rc_vpn_to_revoke = 0, rc_subscriptions_to_provision = 0, rc_vpn_cleanup = 0, rc_provision_repairs = 0,
     rc_revoke_repairs = 0, rc_enqueue_failures = 0, rc_jobs = []\<rparr>"

definition record_enqueued :: "reconcile_result \<Rightarrow> ReconciliationAnomalyKind \<Rightarrow> reconcile_result" where
  "record_enqueued r kind =
     r\<lparr>rc_vpn_to_revoke := rc_vpn_to_revoke r + (if kind \<in> {REVOKE_VPN, CLEANUP_VPN, REPAIR_REVOKE} then 1 else 0),
       rc_subscriptions_to_provision := rc_subscriptions_to_provision r +
         (if kind \<in> {PROVISION_SUBSCRIPTION_K, REPAIR_PROVISION} then 1 else 0),
       rc_vpn_cleanup := rc_vpn_cleanup r + (if kind = CLEANUP_VPN then 1 else 0),
       rc_provision_repairs := rc_provision_repairs r + (if kind = REPAIR_PROVISION then 1 else 0),
       rc_revoke_repairs := rc_revoke_repairs r + (if kind = REPAIR_REVOKE then 1 else 0)\<rparr>"

fun process_anomalies ::
  "(job \<Rightarrow> bool) \<Rightarrow> time \<Rightarrow> ReconciliationAnomaly list \<Rightarrow> reconcile_result \<Rightarrow> db \<Rightarrow> reconcile_result res \<times> db" where
  "process_anomalies enqueue now [] r s = (Inr r, s)"
| "process_anomalies enqueue now (a # as) r s =
     (let r1 = r\<lparr>rc_processed_anomalies := rc_processed_anomalies r + 1\<rparr> in
      case anomaly_job a of
        None \<Rightarrow>
          (case run_uow (expire_subscription (an_entity_id a) now) s of
             (Inl e, s') \<Rightarrow> (Inl e, s')
           | (Inr ended, s') \<Rightarrow>
               process_anomalies enqueue now as
                 (if ended then r1\<lparr>rc_expired_subscriptions := rc_expired_subscriptions r1 + 1\<rparr> else r1) s')
      | Some j \<Rightarrow>
          if enqueue j
          then process_anomalies enqueue now as ((record_enqueued r1 (an_kind a))\<lparr>rc_jobs := rc_jobs r1 @ [j]\<rparr>) s
          else process_anomalies enqueue now as (r1\<lparr>rc_enqueue_failures := rc_enqueue_failures r1 + 1\<rparr>) s)"

definition RECONCILIATION_LEASE_NAME :: string where
  "RECONCILIATION_LEASE_NAME = ''reconcile_subscriptions''"

record reconcile_settings =
  rx_batch_size :: nat
  rx_max_batches_per_run :: nat
  rx_lease_seconds :: int

fun reconcile_batches ::
  "(job \<Rightarrow> bool) \<Rightarrow> (nat \<Rightarrow> time) \<Rightarrow> reconcile_settings \<Rightarrow> uuid \<Rightarrow> nat \<Rightarrow> int \<times> int \<Rightarrow> reconcile_result \<Rightarrow> db
     \<Rightarrow> reconcile_result res \<times> db" where
  "reconcile_batches enqueue clock cfg token 0 cursor r s = (Inr r, s)"
| "reconcile_batches enqueue clock cfg token (Suc n) cursor r s =
     (let now = clock (rc_batches r) in
      case run_uow (list_reconciliation_anomalies now cursor (rx_batch_size cfg)) s of
        (Inl e, s1) \<Rightarrow> (Inl e, s1)
      | (Inr anomalies, s1) \<Rightarrow>
          if anomalies = [] then (Inr r, s1)
          else
            (case process_anomalies enqueue now anomalies r s1 of
               (Inl e, s2) \<Rightarrow> (Inl e, s2)
             | (Inr r1, s2) \<Rightarrow>
                 (let r2 = r1\<lparr>rc_batches := rc_batches r1 + 1\<rparr> in
                  case run_uow (maintenance_renew_lease RECONCILIATION_LEASE_NAME token (clock (rc_batches r2)) (rx_lease_seconds cfg)) s2 of
                    (Inl e, s3) \<Rightarrow> (Inl e, s3)
                  | (Inr renewed, s3) \<Rightarrow>
                      if \<not> renewed then (Inr (r2\<lparr>rc_status := ''lease_lost''\<rparr>), s3)
                      else if length anomalies < rx_batch_size cfg then (Inr r2, s3)
                      else reconcile_batches enqueue clock cfg token n (anomaly_key (last anomalies)) r2 s3)))"

text \<open>The lease is released whether the batches end normally or with an exception.\<close>

definition ReconcileSubscriptions_execute ::
  "(job \<Rightarrow> bool) \<Rightarrow> (nat \<Rightarrow> time) \<Rightarrow> reconcile_settings \<Rightarrow> uuid \<Rightarrow> time \<Rightarrow> db \<Rightarrow> reconcile_result res \<times> db" where
  "ReconcileSubscriptions_execute enqueue clock cfg token now s =
     (case run_uow (maintenance_acquire_lease RECONCILIATION_LEASE_NAME token now (rx_lease_seconds cfg)) s of
        (Inl e, s1) \<Rightarrow> (Inl e, s1)
      | (Inr False, s1) \<Rightarrow> (Inr (empty_result\<lparr>rc_status := ''already_running''\<rparr>), s1)
      | (Inr True, s1) \<Rightarrow>
          (case reconcile_batches enqueue clock cfg token (rx_max_batches_per_run cfg) (0, 0) empty_result s1 of
             (result, s2) \<Rightarrow>
               (case run_uow (maintenance_release_lease RECONCILIATION_LEASE_NAME token) s2 of
                  (Inl e, s3) \<Rightarrow> (Inl e, s3)
                | (Inr _, s3) \<Rightarrow> (result, s3))))"

end
