(* ===== verification/NodeAdmin.thy ===== *)
theory NodeAdmin
  imports DispatchNode
begin

text \<open>
  Keeping track of nodes: \<^verbatim>\<open>use_cases/sync_nodes.py\<close>, \<^verbatim>\<open>use_cases/node_administration.py\<close> and
  \<^verbatim>\<open>use_cases/retire_node_journal_records.py\<close>. The node gateway is a parameter; \<open>err_text\<close> is \<^verbatim>\<open>str\<close> of an
  exception. The probes of one run go to different nodes; they are written one after the other, and one clock reading dates their
  outcome.
\<close>

section \<open>Probing nodes\<close>

datatype probe_target = Claimed NodeProbeClaim | Direct Node

fun target_node :: "probe_target \<Rightarrow> Node" where
  "target_node (Claimed c) = cl_node c"
| "target_node (Direct n) = n"

fun target_id :: "probe_target \<Rightarrow> int" where
  "target_id (Claimed c) = cl_node_id c"
| "target_id (Direct n) = opt_id (no_id n)"

definition opt_int :: "int option \<Rightarrow> json" where
  "opt_int v = (case v of None \<Rightarrow> JNull | Some i \<Rightarrow> JInt i)"

definition as_metrics_payload :: "NodeHealthSnapshot \<Rightarrow> dict" where
  "as_metrics_payload h = [(''active_clients'', opt_int (nh_active_clients h)), (''max_clients'', opt_int (nh_max_clients h)),
     (''load'', JObj (nh_load h)), (''traffic'', JObj (nh_traffic h))]"

definition snapshot_report :: "NodeHealthSnapshot \<Rightarrow> time \<Rightarrow> probe_report" where
  "snapshot_report h completed =
     \<lparr>pb_health_status = nh_health_status h, pb_agent_version = nh_agent_version h, pb_capabilities = nh_capabilities h,
      pb_metrics = as_metrics_payload h, pb_status_payload = nh_status_payload h, pb_inbounds = nh_inbounds h,
      pb_last_seen_at = Some completed, pb_last_error = None\<rparr>"

definition offline_report :: "string \<Rightarrow> probe_report" where
  "offline_report error =
     \<lparr>pb_health_status = NS_OFFLINE, pb_agent_version = None, pb_capabilities = [], pb_metrics = [], pb_status_payload = [],
      pb_inbounds = [], pb_last_seen_at = None, pb_last_error = Some error\<rparr>"

definition record_snapshot :: "probe_target \<Rightarrow> NodeHealthSnapshot \<Rightarrow> time \<Rightarrow> bool tx" where
  "record_snapshot target h completed =
     (case target of
        Claimed c \<Rightarrow> nodes_finalize_probe (target_id target) (cl_lease_token c) (snapshot_report h completed) completed
      | Direct n \<Rightarrow> bindT (nodes_upsert_node_status (target_id target) (snapshot_report h completed) completed None) (\<lambda>_. retT True))"

definition record_offline :: "probe_target \<Rightarrow> string \<Rightarrow> time \<Rightarrow> unit tx" where
  "record_offline target error completed =
     (case target of
        Claimed c \<Rightarrow> bindT (nodes_finalize_probe (target_id target) (cl_lease_token c) (offline_report error) completed) (\<lambda>_. retT ())
      | Direct n \<Rightarrow> nodes_mark_node_unreachable (target_id target) error completed)"

type_synonym snapshot_gateway = "Node \<Rightarrow> NodeCredential \<Rightarrow> string + NodeHealthSnapshot"

record sync_counts =
  sc_synced :: nat
  sc_offline :: nat

definition sync_target ::
  "snapshot_gateway \<Rightarrow> (error \<Rightarrow> string) \<Rightarrow> time \<Rightarrow> probe_target \<Rightarrow> sync_counts \<Rightarrow> db \<Rightarrow> sync_counts res \<times> db" where
  "sync_target gateway err_text completed target n s =
     (let offline = (\<lambda>error. case run_uow (record_offline target error completed) s of
            (Inl e, s') \<Rightarrow> (Inl e, s')
          | (Inr _, s') \<Rightarrow> (Inr (n\<lparr>sc_offline := sc_offline n + 1\<rparr>), s')) in
      case run_uow (nodes_get_active_credential (target_id target)) s of
        (Inl e, s') \<Rightarrow> (Inl e, s')
      | (Inr None, s') \<Rightarrow> (Inr n, s')
      | (Inr (Some credential), s') \<Rightarrow>
          (case gateway (target_node target) credential of
             Inl error \<Rightarrow> offline error
           | Inr h \<Rightarrow>
               (case run_uow (record_snapshot target h completed) s of
                  (Inl e, _) \<Rightarrow> offline (err_text e)
                | (Inr accepted, s'') \<Rightarrow> (Inr (if accepted then n\<lparr>sc_synced := sc_synced n + 1\<rparr> else n), s''))))"

fun sync_targets ::
  "snapshot_gateway \<Rightarrow> (error \<Rightarrow> string) \<Rightarrow> time \<Rightarrow> probe_target list \<Rightarrow> sync_counts \<Rightarrow> db \<Rightarrow> sync_counts res \<times> db" where
  "sync_targets gateway err_text completed [] n s = (Inr n, s)"
| "sync_targets gateway err_text completed (t # ts) n s =
     (case sync_target gateway err_text completed t n s of
        (Inl e, s') \<Rightarrow> (Inl e, s')
      | (Inr n', s') \<Rightarrow> sync_targets gateway err_text completed ts n' s')"

record sync_settings =
  sy_batch_size :: nat
  sy_probe_lease_seconds :: int
  sy_stale_after_seconds :: int

definition sync_select :: "sync_settings \<Rightarrow> (nat \<Rightarrow> uuid) \<Rightarrow> int option \<Rightarrow> time \<Rightarrow> probe_target list tx" where
  "sync_select cfg fresh node_id now =
     (case node_id of
        Some i \<Rightarrow> bindT (nodes_get_node i) (\<lambda>node. retT (case node of None \<Rightarrow> [] | Some n \<Rightarrow> [Direct n]))
      | None \<Rightarrow>
          bindT (nodes_claim_due_probe_targets fresh now (now - seconds (sy_stale_after_seconds cfg)) (sy_batch_size cfg)
                   (sy_probe_lease_seconds cfg)) (\<lambda>claims.
          retT (map Claimed claims)))"

definition SyncNodeStatus_execute ::
  "snapshot_gateway \<Rightarrow> (error \<Rightarrow> string) \<Rightarrow> sync_settings \<Rightarrow> (nat \<Rightarrow> uuid) \<Rightarrow> int option \<Rightarrow> time \<Rightarrow> time \<Rightarrow> db
     \<Rightarrow> sync_counts res \<times> db" where
  "SyncNodeStatus_execute gateway err_text cfg fresh node_id now completed s =
     (case run_uow (sync_select cfg fresh node_id now) s of
        (Inl e, s') \<Rightarrow> (Inl e, s')
      | (Inr targets, s') \<Rightarrow> sync_targets gateway err_text completed targets \<lparr>sc_synced = 0, sc_offline = 0\<rparr> s')"

section \<open>Administration\<close>

definition NodeAdministration_create_node ::
  "string \<Rightarrow> string \<Rightarrow> string \<Rightarrow> string \<Rightarrow> bool \<Rightarrow> int \<Rightarrow> string \<Rightarrow> string option \<Rightarrow> db \<Rightarrow> (Node \<times> NodeCredential) res \<times> db" where
  "NodeAdministration_create_node fresh_secret node_key display_name api_base_url is_enabled selection_weight key_id shared_secret =
     run_uow (bindT (nodes_create_node node_key display_name api_base_url is_enabled selection_weight) (\<lambda>node.
       bindT (nodes_create_credential (opt_id (no_id node)) key_id (or_else shared_secret fresh_secret) True None) (\<lambda>credential.
       retT (node, credential))))"

record node_state =
  nx_node_id :: int
  nx_health_status :: NodeStatus
  nx_last_seen_at :: "time option"

definition NodeAdministration_sync_node ::
  "snapshot_gateway \<Rightarrow> (error \<Rightarrow> string) \<Rightarrow> sync_settings \<Rightarrow> (nat \<Rightarrow> uuid) \<Rightarrow> int \<Rightarrow> time \<Rightarrow> time \<Rightarrow> db \<Rightarrow> node_state res \<times> db" where
  "NodeAdministration_sync_node gateway err_text cfg fresh node_id now completed s =
     (case SyncNodeStatus_execute gateway err_text cfg fresh (Some node_id) now completed s of
        (Inl e, s') \<Rightarrow> (Inl e, s')
      | (Inr n, s') \<Rightarrow>
          if sc_synced n = 0 \<and> sc_offline n = 0 then (Inl (NotFoundError ''Node not found''), s')
          else
            (case get_row no_id node_id (d_nodes s') of
               None \<Rightarrow> (Inl (NotFoundError ''Node not found''), s')
             | Some node \<Rightarrow> (Inr \<lparr>nx_node_id = node_id, nx_health_status = no_status node, nx_last_seen_at = no_last_seen_at node\<rparr>, s')))"

definition NodeAdministration_dispatch_task :: "int \<Rightarrow> db \<Rightarrow> job list res \<times> db" where
  "NodeAdministration_dispatch_task node_task_id =
     run_uow (bindT (nodes_get_task_entity node_task_id) (\<lambda>found.
       case found of
         None \<Rightarrow> raiseT (NotFoundError ''Node task not found'')
       | Some _ \<Rightarrow> retT [DISPATCH_NODE_TASK node_task_id]))"

section \<open>Retiring journal records\<close>

record JournalRetirementCandidate =
  jc_node_task_id :: int
  jc_idempotency_key :: string
  jc_node :: "Node option"
  jc_credential :: "NodeCredential option"

definition retirement_candidate :: "NodeTask \<Rightarrow> JournalRetirementCandidate list \<Rightarrow> JournalRetirementCandidate list tx" where
  "retirement_candidate task acc =
     (case nt_id task of
        None \<Rightarrow> raiseT (RuntimeError ''Persisted NodeTask is missing its primary key'')
      | Some i \<Rightarrow>
          bindT (nodes_get_node (nt_node_id task)) (\<lambda>node.
          bindT (if node = None then retT None else nodes_get_active_credential (nt_node_id task)) (\<lambda>credential.
          retT (acc @ [\<lparr>jc_node_task_id = i, jc_idempotency_key = nt_idempotency_key task, jc_node = node,
                        jc_credential = credential\<rparr>]))))"

definition load_retirement_candidates :: "nat \<Rightarrow> JournalRetirementCandidate list tx" where
  "load_retirement_candidates batch_size =
     bindT (nodes_list_terminal_unretired_tasks batch_size) (\<lambda>tasks. foldT retirement_candidate tasks [])"

record retire_result =
  rt_selected :: nat
  rt_retired :: nat
  rt_already_retired :: nat
  rt_operation_in_progress :: nat
  rt_marked :: nat
  rt_stale :: nat
  rt_failed :: nat

type_synonym retire_gateway = "Node \<Rightarrow> NodeCredential \<Rightarrow> string \<Rightarrow> string + dict"

text \<open>\<^verbatim>\<open>str(response.get("status") or "")\<close>\<close>

definition retirement_status :: "(json \<Rightarrow> string) \<Rightarrow> dict \<Rightarrow> string" where
  "retirement_status py_repr response = py_str py_repr (value_or (dict_value response ''status'') (JStr []))"

fun retire_candidates ::
  "(json \<Rightarrow> string) \<Rightarrow> retire_gateway \<Rightarrow> time \<Rightarrow> JournalRetirementCandidate list \<Rightarrow> retire_result \<Rightarrow> db \<Rightarrow> retire_result res \<times> db" where
  "retire_candidates py_repr gateway now [] r s = (Inr r, s)"
| "retire_candidates py_repr gateway now (c # cs) r s =
     (case (jc_node c, jc_credential c) of
        (Some node, Some credential) \<Rightarrow>
          (case gateway node credential (jc_idempotency_key c) of
             Inl _ \<Rightarrow> retire_candidates py_repr gateway now cs (r\<lparr>rt_failed := rt_failed r + 1\<rparr>) s
           | Inr response \<Rightarrow>
               (let st = retirement_status py_repr response in
                if st = ''operation_in_progress''
                then retire_candidates py_repr gateway now cs (r\<lparr>rt_operation_in_progress := rt_operation_in_progress r + 1\<rparr>) s
                else if st \<notin> {''retired'', ''already_retired''}
                then retire_candidates py_repr gateway now cs (r\<lparr>rt_failed := rt_failed r + 1\<rparr>) s
                else
                  (let r1 = (if st = ''retired'' then r\<lparr>rt_retired := rt_retired r + 1\<rparr>
                             else r\<lparr>rt_already_retired := rt_already_retired r + 1\<rparr>) in
                   case run_uow (nodes_mark_task_journal_retired (jc_node_task_id c) (jc_idempotency_key c) now) s of
                     (Inl e, s') \<Rightarrow> (Inl e, s')
                   | (Inr marked, s') \<Rightarrow>
                       retire_candidates py_repr gateway now cs
                         (if marked then r1\<lparr>rt_marked := rt_marked r1 + 1\<rparr> else r1\<lparr>rt_stale := rt_stale r1 + 1\<rparr>) s')))
      | _ \<Rightarrow> retire_candidates py_repr gateway now cs (r\<lparr>rt_failed := rt_failed r + 1\<rparr>) s)"

definition MAX_RETIREMENT_BATCH_SIZE :: nat where
  "MAX_RETIREMENT_BATCH_SIZE = 100"

definition RetireNodeJournalRecords_execute ::
  "(json \<Rightarrow> string) \<Rightarrow> retire_gateway \<Rightarrow> nat \<Rightarrow> time \<Rightarrow> db \<Rightarrow> retire_result res \<times> db" where
  "RetireNodeJournalRecords_execute py_repr gateway batch_size now s =
     (if \<not> (1 \<le> batch_size \<and> batch_size \<le> MAX_RETIREMENT_BATCH_SIZE)
      then (Inl (ValueError ''batch_size must be between 1 and 100''), s)
      else
        (case run_uow (load_retirement_candidates batch_size) s of
           (Inl e, s') \<Rightarrow> (Inl e, s')
         | (Inr candidates, s') \<Rightarrow>
             retire_candidates py_repr gateway now candidates
               \<lparr>rt_selected = length candidates, rt_retired = 0, rt_already_retired = 0, rt_operation_in_progress = 0,
                rt_marked = 0, rt_stale = 0, rt_failed = 0\<rparr> s'))"

end
