(* ===== verification/AccessInv.thy ===== *)
theory AccessInv
  imports CreateInv Reconcile NodeAdmin
begin

text \<open>
  The access side (provisioning, revoking, dispatching, probing, reconciling) keeps the entitlement invariant of the payment
  side: apart from ending a subscription, its transactions write none of the tables the invariant speaks about.
\<close>

section \<open>Repositories\<close>

lemma keeps_access_puts [preserves_intros]:
  "preserves (keeps A P) (put_vpns v)" "preserves (keeps A P) (put_pprov pp)" "preserves (keeps A P) (put_prev pr)"
  "preserves (keeps A P) (put_nodes n)" "preserves (keeps A P) (put_nstatus st)" "preserves (keeps A P) (put_creds c)"
  "preserves (keeps A P) (put_ntasks t)" "preserves (keeps A P) (put_nattempts na)" "preserves (keeps A P) (put_servers sv)"
  "preserves (keeps A P) (put_endpoints e)" "preserves (keeps A P) (put_leases l)" "preserves (keeps A P) (put_tariffs ta)"
  unfolding put_vpns_def put_pprov_def put_prev_def put_nodes_def put_nstatus_def put_creds_def put_ntasks_def
    put_nattempts_def put_servers_def put_endpoints_def put_leases_def put_tariffs_def
  by (rule preserves_writeT, simp add: keeps_def pay_inv_except_def)+

lemma keeps_vpn_repo [preserves_intros]:
  "preserves (keeps A P) (vpn_get_entity i)" "preserves (keeps A P) (vpn_get_latest_entity_for_subscription i)"
  "preserves (keeps A P) (vpn_add_entity c)" "preserves (keeps A P) (vpn_save_entity c)"
  "preserves (keeps A P) (vpn_get_panel_task_entity f i)" "preserves (keeps A P) (vpn_get_panel_task_for_configuration f i)"
  "preserves (keeps A P) (vpn_add_panel_task_entity f pp)" "preserves (keeps A P) (vpn_save_panel_task_entity pp)"
  "preserves (keeps A P) (vpn_list_stale_panel_task_entities f now n)" "preserves (keeps A P) (vpn_get_panel_revoke_task_entity i)"
  "preserves (keeps A P) (vpn_get_panel_revoke_task_for_generation i g)" "preserves (keeps A P) (vpn_add_panel_revoke_task_entity pr)"
  "preserves (keeps A P) (vpn_save_panel_revoke_task_entity pr)" "preserves (keeps A P) (vpn_list_stale_panel_revoke_task_entities now n)"
  "preserves (keeps A P) (vpn_get_configuration_with_endpoint i)"
  unfolding vpn_get_entity_def vpn_get_latest_entity_for_subscription_def vpn_add_entity_def vpn_save_entity_def
    vpn_get_panel_task_entity_def vpn_get_panel_task_for_configuration_def vpn_add_panel_task_entity_def vpn_save_panel_task_entity_def
    vpn_list_stale_panel_task_entities_def vpn_get_panel_revoke_task_entity_def vpn_get_panel_revoke_task_for_generation_def
    vpn_add_panel_revoke_task_entity_def vpn_save_panel_revoke_task_entity_def vpn_list_stale_panel_revoke_task_entities_def
    vpn_get_configuration_with_endpoint_def Let_def
  by (intro preserves_intros)+

lemma keeps_node_repo [preserves_intros]:
  "preserves (keeps A P) (nodes_create_node k d u b w)" "preserves (keeps A P) (nodes_get_node i)"
  "preserves (keeps A P) (nodes_get_node_operation_state i)" "preserves (keeps A P) (nodes_create_credential i k se b e)"
  "preserves (keeps A P) (nodes_get_active_credential i)" "preserves (keeps A P) (update_nodes_row i f)"
  "preserves (keeps A P) (nodes_create_task t)" "preserves (keeps A P) (nodes_get_task_entity i)"
  "preserves (keeps A P) (nodes_get_vpn_task_for_generation i op g)" "preserves (keeps A P) (nodes_save_task_entity t)"
  "preserves (keeps A P) (nodes_list_stale_task_entities now n)" "preserves (keeps A P) (nodes_list_terminal_unretired_tasks n)"
  "preserves (keeps A P) (nodes_mark_task_journal_retired i k now)" "preserves (keeps A P) (nodes_create_task_attempt i m pl now)"
  "preserves (keeps A P) (nodes_finish_task_attempt i k now r er)" "preserves (keeps A P) (nodes_fail_started_task_attempt i m now k)"
  unfolding nodes_create_node_def nodes_get_node_def nodes_get_node_operation_state_def nodes_create_credential_def
    nodes_get_active_credential_def update_nodes_row_def nodes_create_task_def nodes_get_task_entity_def nodes_get_vpn_task_for_generation_def
    nodes_save_task_entity_def nodes_list_stale_task_entities_def nodes_list_terminal_unretired_tasks_def
    nodes_mark_task_journal_retired_def nodes_create_task_attempt_def nodes_finish_task_attempt_def nodes_fail_started_task_attempt_def Let_def
  by (intro preserves_intros)+

lemma keeps_claim_probes [preserves_intros]: "preserves (keeps A P) (claim_probes e ts)"
proof (induction ts)
  case (Cons x ts)
  obtain tok r n where x: "x = (tok, r, n)" by (cases x)
  show ?case unfolding x claim_probes.simps by (intro preserves_intros Cons)
qed (unfold claim_probes.simps, rule preserves_pure)

lemma keeps_node_health [preserves_intros]:
  "preserves (keeps A P) (nodes_add_task_entity t)" "preserves (keeps A P) (nodes_upsert_node_status i p now f)"
  "preserves (keeps A P) (nodes_mark_node_unreachable i e now)" "preserves (keeps A P) (nodes_claim_due_probe_targets fr now d n l)"
  "preserves (keeps A P) (nodes_finalize_probe i tok p now)"
  unfolding nodes_add_task_entity_def nodes_upsert_node_status_def nodes_mark_node_unreachable_def nodes_claim_due_probe_targets_def
    nodes_finalize_probe_def Let_def
  by (intro preserves_intros)+

lemma keeps_server_repo [preserves_intros]:
  "preserves (keeps A P) (servers_create_server k h b)" "preserves (keeps A P) (servers_create_server_endpoint e)"
  "preserves (keeps A P) servers_get_first_enabled_endpoint" "preserves (keeps A P) servers_list_node_selection_candidates"
  "preserves (keeps A P) (servers_lock_and_revalidate_candidate i j)" "preserves (keeps A P) (maintenance_acquire_lease k tok now l)"
  "preserves (keeps A P) (maintenance_renew_lease k tok now l)" "preserves (keeps A P) (maintenance_release_lease k tok)"
  "preserves (keeps A P) (list_reconciliation_anomalies now c n)" "preserves (keeps A P) (admin_create_tariff k pm cu d ds b)"
  unfolding servers_create_server_def servers_create_server_endpoint_def servers_get_endpoint_with_server_def
    servers_get_first_enabled_endpoint_def servers_list_node_selection_candidates_def servers_lock_and_revalidate_candidate_def
    maintenance_acquire_lease_def maintenance_renew_lease_def maintenance_release_lease_def list_reconciliation_anomalies_def
    admin_create_tariff_def Let_def
  by (intro preserves_intros)+

section \<open>Provisioning and revoking\<close>

lemma keeps_provision_steps [preserves_intros]:
  "preserves (keeps A P) (select_endpoint rb st now)" "preserves (keeps A P) (provision_node_task cfg u c e row x now)"
  "preserves (keeps A P) (provision_panel_task f cfg c row x now)" "preserves (keeps A P) (recover_succeeded_provision c r)"
  "preserves (keeps A P) (node_plan i j m nt)" "preserves (keeps A P) (panel_plan i j m pt)"
  "preserves (keeps A P) (create_configuration cfg u i e)"
  unfolding select_endpoint_def provision_node_task_def provision_panel_task_def recover_succeeded_provision_def node_plan_def
    panel_plan_def create_configuration_def Let_def
  by (intro preserves_intros)+

lemma keeps_provision_plans [preserves_intros]:
  "preserves (keeps A P) (reuse_existing_provisioning f cfg u c x now)"
  "preserves (keeps A P) (load_or_create_configuration cfg u i e l)"
  unfolding reuse_existing_provisioning_def load_or_create_configuration_def
  by (intro preserves_intros)+

lemma keeps_provision [preserves_intros]: "preserves (keeps A P) (provision_prepare_plan f cfg rb u v i now)"
proof -
  have new: "preserves (keeps A P) (provision_new f cfg rb u v i l x now)" for l x
    unfolding provision_new_def Let_def by (intro preserves_intros)
  have "preserves (keeps A P) (provision_latest f cfg rb u v i l x now)" for l x
    unfolding provision_latest_def by (intro preserves_intros new)
  then show ?thesis unfolding provision_prepare_plan_def by (intro preserves_intros)
qed

lemma keeps_revoke_steps [preserves_intros]:
  "preserves (keeps A P) (recover_succeeded_revoke c now)" "preserves (keeps A P) (revoke_node_task rcfg u row i j g now)"
  "preserves (keeps A P) (revoke_panel_task rcfg u row i j g now)" "preserves (keeps A P) (access_is_current re i j now)"
  unfolding recover_succeeded_revoke_def revoke_node_task_def revoke_panel_task_def access_is_current_def Let_def
  by (intro preserves_intros)+

lemma keeps_revoke [preserves_intros]: "preserves (keeps A P) (revoke_prepare_plan rcfg u i re now)"
proof -
  have ex: "preserves (keeps A P) (existing_current_revoke_task c row now)" for c row
    unfolding existing_current_revoke_task_def by (intro preserves_intros)
  have wp: "preserves (keeps A P) (withdraw_and_plan rcfg u i j c now)" for j c
    unfolding withdraw_and_plan_def plan_revoke_task_def by (intro preserves_intros)
  show ?thesis
    unfolding revoke_prepare_plan_def revoke_locked_def Let_def by (intro preserves_intros ex wp)
qed

section \<open>Dispatching\<close>

lemma keeps_dispatch_steps [preserves_intros]:
  "preserves (keeps A P) (mark_configuration_failure t)" "preserves (keeps A P) (current_period_of j now)"
  "preserves (keeps A P) (cleanup_after_provision py u t k now g)" "preserves (keeps A P) (complete_revoke t i k now)"
  unfolding mark_configuration_failure_def current_period_of_def cleanup_after_provision_def complete_revoke_def
  by (intro preserves_intros)+

lemma keeps_dispatch [preserves_intros]:
  "preserves (keeps A P) (fail_or_retry b t k r now)" "preserves (keeps A P) (complete_provision py u t i k now)"
  unfolding fail_or_retry_def complete_provision_def Let_def by (intro preserves_intros)+

lemma keeps_dispatch_prepare [preserves_intros]: "preserves (keeps A P) (dispatch_prepare cfg tok i now)"
  unfolding dispatch_prepare_def claim_node_task_def defer_unavailable_node_def record_preflight_failure_def
  by (intro preserves_intros)

lemma keeps_dispatch_finalize [preserves_intros]: "preserves (keeps A P) (dispatch_finalize py b u pd out now)"
  unfolding dispatch_finalize_def finalize_transport_failure_def finalize_response_def finalize_success_def Let_def
  by (intro preserves_intros)

lemma keeps_recover_stale [preserves_intros]: "preserves (keeps A P) (recover_stale_tx b now n)"
  unfolding recover_stale_tx_def recover_stale_task_def Let_def by (intro preserves_intros)

lemma keeps_panel_steps [preserves_intros]:
  "preserves (keeps A P) (panel_activate t c now)" "preserves (keeps A P) (mark_panel_compensation t now k)"
  "preserves (keeps A P) (fail_current_provision t oc)" "preserves (keeps A P) (revoke_cancelled_provision t oc now)"
  unfolding panel_activate_def mark_panel_compensation_def fail_current_provision_def revoke_cancelled_provision_def
  by (intro preserves_intros)+

lemma keeps_panel [preserves_intros]:
  "preserves (keeps A P) (panel_prepare f l tok i now)" "preserves (keeps A P) (panel_finalize_success f pq now)"
  "preserves (keeps A P) (panel_finalize_failure f b pq k now)" "preserves (keeps A P) (record_compensation_success f pq now)"
  "preserves (keeps A P) (record_compensation_failure f pq k now)" "preserves (keeps A P) (recover_panel_provision now t ids)"
  unfolding panel_prepare_def panel_finalize_success_def panel_finalize_failure_def record_compensation_success_def
    record_compensation_failure_def recover_panel_provision_def Let_def
  by (intro preserves_intros)+

lemma keeps_panel_revoke [preserves_intros]:
  "preserves (keeps A P) (panel_revoke_prepare l tok i now)" "preserves (keeps A P) (panel_revoke_success pk now)"
  "preserves (keeps A P) (panel_revoke_failure b pk k now)" "preserves (keeps A P) (recover_panel_revoke now t ids)"
  unfolding panel_revoke_prepare_def panel_revoke_success_def panel_revoke_failure_def recover_panel_revoke_def Let_def
  by (intro preserves_intros)+

section \<open>Maintenance\<close>

lemma subscriptions_get_entity_wf: "subscriptions_get_entity i s = Inr (Some u, s') \<Longrightarrow> subscription_wf u \<and> s' = s"
  unfolding subscriptions_get_entity_def bindT_readT
  by (drule entityT_SomeD) (auto simp: subscription_from_row_def subscription_wf_iff Subscription_post_init_def bindE_eq_Inr)

lemma preserves_bindT_value:
  "preserves P m \<Longrightarrow> (\<And>x s s'. m s = Inr (x, s') \<Longrightarrow> preserves P (f x)) \<Longrightarrow> preserves P (bindT m f)"
  unfolding preserves_def bindT_Inr by blast

lemma keeps_expire_subscription [preserves_intros]: "preserves (keeps A P) (expire_subscription i now)"
  unfolding expire_subscription_def
proof (rule preserves_bindT_value [OF keeps_reads(5)])
  fix found s s' assume load: "subscriptions_get_entity i s = Inr (found, s')"
  have "subscription_wf (Subscription_expire u now)" if "found = Some u" for u
    using subscriptions_get_entity_wf load that Subscription_expire_wf by blast
  then show "preserves (keeps A P) (case found of None \<Rightarrow> retT False
     | Some sub \<Rightarrow>
         if su_status sub \<noteq> SS_ACTIVE then retT False
         else bindT (subscriptions_get_current_period_entity i now) (\<lambda>period.
              if period \<noteq> None then retT False
              else bindT (subscriptions_save_entity (Subscription_expire sub now)) (\<lambda>_.
                   bindT (audit_append SUBSCRIPTION_ENDED AGG_SUBSCRIPTION i [(''subscription_id'', JInt i)]) (\<lambda>_. retT True))))"
    by (cases found) (simp_all add: preserves_pure, intro impI preserves_intros keeps_save_sub, simp)
qed

lemma keeps_node_admin [preserves_intros]:
  "preserves (keeps A P) (record_snapshot t h now)" "preserves (keeps A P) (record_offline t k now)"
  "preserves (keeps A P) (sync_select cfg fr oi now)" "preserves (keeps A P) (load_retirement_candidates n)"
  unfolding record_snapshot_def record_offline_def sync_select_def load_retirement_candidates_def retirement_candidate_def
  by (cases t; simp; intro preserves_intros | intro preserves_intros)+

end
