(* ===== verification/AccessLife.thy ===== *)
theory AccessLife
  imports AccessInv
begin

text \<open>
  An abstract specification of what happens to one VPN access, and the relation between two databases that says that every
  configuration of the first has followed the specification on its way to the second.

  \<open>life_step\<close> is the specification: access is granted only to an entitled subscription, a withdrawal opens a new generation,
  and no step leads back from a withdrawn access. \<open>vpns_follow\<close> relates the tables of configurations before and after; \<open>acc\<close>
  is the assertion the transactions of the access side are proved to keep.
\<close>

section \<open>The specification\<close>

record access_life =
  al_status :: VpnConfigurationStatus
  al_wanted :: VpnDesiredState
  al_generation :: int

definition life_of :: "VpnConfiguration \<Rightarrow> access_life" where
  "life_of c = \<lparr>al_status = vc_status c, al_wanted = vc_desired_state c, al_generation = vc_generation c\<rparr>"

definition life_start :: access_life where
  "life_start = \<lparr>al_status = VS_PROVISIONING, al_wanted = VD_ACTIVE, al_generation = 1\<rparr>"

inductive life_step :: "bool \<Rightarrow> access_life \<Rightarrow> access_life \<Rightarrow> bool" for entitled where
  grant: "entitled \<Longrightarrow> al_status l = VS_PROVISIONING \<Longrightarrow> al_wanted l = VD_ACTIVE \<Longrightarrow>
     life_step entitled l (l\<lparr>al_status := VS_ACTIVE\<rparr>)"
| fail_grant: "al_status l = VS_PROVISIONING \<Longrightarrow> al_wanted l = VD_ACTIVE \<Longrightarrow>
     life_step entitled l (l\<lparr>al_status := VS_FAILED\<rparr>)"
| withdraw: "al_status l \<in> {VS_PROVISIONING, VS_ACTIVE, VS_FAILED} \<Longrightarrow> al_wanted l = VD_ACTIVE \<Longrightarrow>
     life_step entitled l \<lparr>al_status = VS_REVOKING, al_wanted = VD_REVOKED, al_generation = al_generation l + 1\<rparr>"
| finish_withdrawal: "al_status l = VS_REVOKING \<Longrightarrow> al_wanted l = VD_REVOKED \<Longrightarrow>
     life_step entitled l (l\<lparr>al_status := VS_REVOKED\<rparr>)"
| fail_withdrawal: "al_status l = VS_REVOKING \<Longrightarrow> al_wanted l = VD_REVOKED \<Longrightarrow>
     life_step entitled l (l\<lparr>al_status := VS_REVOKE_FAILED\<rparr>)"
| retry_withdrawal: "al_status l = VS_REVOKE_FAILED \<Longrightarrow> al_wanted l = VD_REVOKED \<Longrightarrow>
     life_step entitled l \<lparr>al_status = VS_REVOKING, al_wanted = VD_REVOKED, al_generation = al_generation l + 1\<rparr>"

definition life_ok :: "access_life \<Rightarrow> bool" where
  "life_ok l \<longleftrightarrow> 1 \<le> al_generation l \<and>
     (case al_wanted l of VD_ACTIVE \<Rightarrow> al_status l \<in> {VS_PROVISIONING, VS_ACTIVE, VS_FAILED}
      | VD_REVOKED \<Rightarrow> al_status l \<in> {VS_REVOKING, VS_REVOKE_FAILED, VS_REVOKED} \<and> 2 \<le> al_generation l)"

lemma life_start_ok: "life_ok life_start"
  by (simp add: life_ok_def life_start_def)

lemma life_step_ok: "life_step e l m \<Longrightarrow> life_ok l \<Longrightarrow> life_ok m"
  by (induction rule: life_step.induct) (auto simp: life_ok_def split: VpnDesiredState.splits)

lemma life_step_mono: "life_step e l m \<Longrightarrow> (e \<longrightarrow> e') \<Longrightarrow> life_step e' l m"
  by (induction rule: life_step.induct) (auto intro: life_step.intros)

lemma life_steps_mono: "(life_step e)\<^sup>*\<^sup>* l m \<Longrightarrow> (e \<longrightarrow> e') \<Longrightarrow> (life_step e')\<^sup>*\<^sup>* l m"
  by (induction rule: rtranclp_induct) (auto intro: life_step_mono rtranclp.rtrancl_into_rtrancl)

lemma life_step_True: "life_step True l m \<Longrightarrow> e \<Longrightarrow> life_step e l m"
  by (simp add: life_step_mono)

lemma life_steps_ok: "(life_step e)\<^sup>*\<^sup>* l m \<Longrightarrow> life_ok l \<Longrightarrow> life_ok m"
  by (induction rule: rtranclp_induct) (auto intro: life_step_ok)

lemma life_steps_generation: "(life_step e)\<^sup>*\<^sup>* l m \<Longrightarrow> al_generation l \<le> al_generation m"
  by (induction rule: rtranclp_induct) (auto elim!: life_step.cases)

lemma life_steps_withdrawn: "(life_step e)\<^sup>*\<^sup>* l m \<Longrightarrow> al_wanted l = VD_REVOKED \<Longrightarrow> al_wanted m = VD_REVOKED"
  by (induction rule: rtranclp_induct) (auto elim!: life_step.cases)

lemma life_steps_finished:
  "(life_step e)\<^sup>*\<^sup>* l m \<Longrightarrow> al_status l = VS_REVOKED \<Longrightarrow> m = l"
  by (induction rule: rtranclp_induct) (auto elim!: life_step.cases)

text \<open>Without an entitlement nothing becomes active.\<close>

lemma life_steps_no_grant: "(life_step False)\<^sup>*\<^sup>* l m \<Longrightarrow> al_status m = VS_ACTIVE \<Longrightarrow> m = l"
  by (induction rule: rtranclp_induct) (auto elim!: life_step.cases)

section \<open>Tables that follow it\<close>

definition same_access :: "VpnConfiguration \<Rightarrow> VpnConfiguration \<Rightarrow> bool" where
  "same_access c c' \<longleftrightarrow> vc_id c' = vc_id c \<and> vc_subscription_id c' = vc_subscription_id c \<and>
     vc_server_endpoint_id c' = vc_server_endpoint_id c \<and> vc_client_uuid c' = vc_client_uuid c \<and>
     vc_display_name c' = vc_display_name c \<and> vc_created_at c' = vc_created_at c"

definition vpn_row :: "int \<Rightarrow> VpnConfiguration table \<Rightarrow> VpnConfiguration option" where
  "vpn_row = get_row vc_id"

text \<open>\<open>J i\<close> says that subscription \<open>i\<close> is entitled to access.\<close>

definition follows_row :: "(int \<Rightarrow> bool) \<Rightarrow> VpnConfiguration option \<Rightarrow> VpnConfiguration \<Rightarrow> bool" where
  "follows_row J before c' =
     (case before of
        None \<Rightarrow> (life_step (J (vc_subscription_id c')))\<^sup>*\<^sup>* life_start (life_of c')
      | Some c \<Rightarrow> same_access c c' \<and> (life_step (J (vc_subscription_id c')))\<^sup>*\<^sup>* (life_of c) (life_of c'))"

definition vpns_follow :: "(int \<Rightarrow> bool) \<Rightarrow> VpnConfiguration table \<Rightarrow> VpnConfiguration table \<Rightarrow> bool" where
  "vpns_follow J t t' \<longleftrightarrow>
     (\<forall>i c'. vpn_row i t' = Some c' \<longrightarrow> follows_row J (vpn_row i t) c') \<and>
     (\<forall>i. vpn_row i t' = None \<longrightarrow> vpn_row i t = None)"

definition vpns_ok :: "VpnConfiguration table \<Rightarrow> bool" where
  "vpns_ok t \<longleftrightarrow> table_wf vc_id t \<and> list_all (\<lambda>c. life_ok (life_of c)) (rows t)"

lemma same_access_refl [simp]: "same_access c c"
  by (simp add: same_access_def)

lemma same_access_trans: "same_access a b \<Longrightarrow> same_access b c \<Longrightarrow> same_access a c"
  by (simp add: same_access_def)

lemma vpns_follow_refl: "vpns_follow J t t"
  by (auto simp: vpns_follow_def follows_row_def split: option.splits)

lemma follows_row_trans:
  assumes "follows_row J before b" and "follows_row J (Some b) c"
  shows "follows_row J before c"
proof -
  have b: "same_access b c" "(life_step (J (vc_subscription_id c)))\<^sup>*\<^sup>* (life_of b) (life_of c)"
    using assms(2) by (simp_all add: follows_row_def)
  have sub: "vc_subscription_id c = vc_subscription_id b" using b(1) by (simp add: same_access_def)
  show ?thesis
  proof (cases before)
    case None
    then show ?thesis using assms(1) b sub by (simp add: follows_row_def)
  next
    case (Some a)
    then show ?thesis using assms(1) b sub same_access_trans by (auto simp: follows_row_def)
  qed
qed

lemma vpns_follow_trans:
  assumes "vpns_follow J t u" and "vpns_follow J u v"
  shows "vpns_follow J t v"
proof -
  have "follows_row J (vpn_row i t) c" if "vpn_row i v = Some c" for i c
  proof -
    have uc: "follows_row J (vpn_row i u) c" using assms(2) that by (simp add: vpns_follow_def)
    show ?thesis
    proof (cases "vpn_row i u")
      case None
      then have "vpn_row i t = None" using assms(1) by (simp add: vpns_follow_def)
      then show ?thesis using uc None by simp
    next
      case (Some b)
      then have "follows_row J (vpn_row i t) b" using assms(1) by (simp add: vpns_follow_def)
      then show ?thesis using uc Some follows_row_trans by simp
    qed
  qed
  then show ?thesis using assms by (simp add: vpns_follow_def)
qed

lemma follows_row_mono: "follows_row J b c \<Longrightarrow> (\<And>i. J i \<Longrightarrow> K i) \<Longrightarrow> follows_row K b c"
  using life_steps_mono by (cases b) (auto simp: follows_row_def)

lemma vpns_follow_mono: "vpns_follow J t t' \<Longrightarrow> (\<And>i. J i \<Longrightarrow> K i) \<Longrightarrow> vpns_follow K t t'"
  unfolding vpns_follow_def using follows_row_mono [of J _ _ K] by blast

text \<open>What the specification says about a configuration that exists.\<close>

lemma vpns_follow_row:
  assumes "vpns_follow J t t'" and "vpn_row i t = Some c"
  obtains c' where "vpn_row i t' = Some c'" and "same_access c c'"
    and "(life_step (J (vc_subscription_id c')))\<^sup>*\<^sup>* (life_of c) (life_of c')"
proof -
  obtain c' where c': "vpn_row i t' = Some c'"
    using assms by (cases "vpn_row i t'") (auto simp: vpns_follow_def)
  then have "follows_row J (vpn_row i t) c'" using assms(1) by (simp add: vpns_follow_def)
  then show ?thesis using that c' assms(2) by (simp add: follows_row_def)
qed

lemma vpn_row_ok: "vpns_ok t \<Longrightarrow> vpn_row i t = Some c \<Longrightarrow> life_ok (life_of c) \<and> vc_id c = Some i"
  unfolding vpn_row_def vpns_ok_def by (auto dest: get_row_key simp: list_all_iff)

lemma vpns_ok_member: "vpns_ok t \<Longrightarrow> c \<in> set (rows t) \<Longrightarrow> \<exists>i. vc_id c = Some i \<and> vpn_row i t = Some c"
  unfolding vpn_row_def vpns_ok_def
  by (metis vpns_tab.get_row_member vpns_tab.wf_row_range)

section \<open>Adding and saving configurations\<close>

lemma insert_follows:
  assumes "vpns_ok t" and "insert_row (\<lambda>i r. r\<lparr>vc_id := Some i\<rparr>) c t = (r, t')" and "life_of c = life_start"
  shows "vpns_ok t' \<and> vpns_follow J t t' \<and> vpn_row (next_id t) t' = Some (c\<lparr>vc_id := Some (next_id t)\<rparr>)"
proof -
  have wf: "table_wf vc_id t" using assms(1) by (simp add: vpns_ok_def)
  note new = vpns_tab.insert_row_wf [OF wf assms(2)] vpns_tab.insert_row_lookup [OF wf assms(2)]
  have life: "life_of r = life_start" using assms(3) by (simp add: new(3) life_of_def life_start_def)
  have "vpns_ok t'" using assms(1) new(1) life life_start_ok by (simp add: vpns_ok_def new(4))
  moreover have "vpns_follow J t t'"
    using vpns_tab.get_row_new [OF wf] life
    by (auto simp: vpns_follow_def vpn_row_def new(2) follows_row_def split: option.splits if_splits)
  ultimately show ?thesis by (simp add: vpn_row_def new(2,3))
qed

definition saved_configuration :: "VpnConfiguration \<Rightarrow> VpnConfiguration \<Rightarrow> VpnConfiguration" where
  "saved_configuration c r = r\<lparr>vc_status := vc_status c, vc_desired_state := vc_desired_state c, vc_generation := vc_generation c,
     vc_remote_client_ref := vc_remote_client_ref c, vc_revoked_at := vc_revoked_at c\<rparr>"

lemma save_follows:
  assumes "vpns_ok t" and "vpn_row i t = Some c" and "same_access c c'"
    and "(life_step (J (vc_subscription_id c)))\<^sup>*\<^sup>* (life_of c) (life_of c')"
  shows "vpns_ok (update_row vc_id i (saved_configuration c') t)" (is "vpns_ok ?t")
    and "vpns_follow J t (update_row vc_id i (saved_configuration c') t)"
proof -
  have wf: "table_wf vc_id t" using assms(1) by (simp add: vpns_ok_def)
  have key: "vc_id (saved_configuration c' r) = vc_id r" for r by (simp add: saved_configuration_def)
  have look: "vpn_row j ?t = (if j = i then map_option (saved_configuration c') (vpn_row j t) else vpn_row j t)" for j
    unfolding vpn_row_def using vpns_tab.update_row_lookup key by metis
  have life: "life_of (saved_configuration c' r) = life_of c'" for r by (simp add: saved_configuration_def life_of_def)
  have "life_ok (life_of c')" using life_steps_ok [OF assms(4)] vpn_row_ok [OF assms(1,2)] by simp
  then have "list_all (\<lambda>r. life_ok (life_of r)) (rows ?t)"
    using assms(1) by (auto simp: vpns_ok_def list_all_iff life)
  then show "vpns_ok ?t" using vpns_tab.update_row_wf [OF wf key] by (simp add: vpns_ok_def)
  have "same_access c (saved_configuration c' c)" by (simp add: same_access_def saved_configuration_def)
  moreover have "vc_subscription_id (saved_configuration c' c) = vc_subscription_id c" by (simp add: saved_configuration_def)
  ultimately show "vpns_follow J t ?t"
    using assms(2,4) by (auto simp: vpns_follow_def look follows_row_def life split: option.splits)
qed

text \<open>The entity's operations are steps of the specification.\<close>

lemma activate_life:
  "VpnConfiguration_activate c r = Inr c' \<Longrightarrow> same_access c c' \<and> life_step True (life_of c) (life_of c')"
  using life_step.grant [of True "life_of c"]
  by (auto simp: VpnConfiguration_activate_def bindE_eq_Inr same_access_def life_of_def)

lemma fail_provisioning_life:
  "VpnConfiguration_fail_provisioning c = Inr c' \<Longrightarrow> life_ok (life_of c) \<Longrightarrow> same_access c c' \<and> life_step e (life_of c) (life_of c')"
  using life_step.fail_grant [of "life_of c" e]
  by (auto simp: VpnConfiguration_fail_provisioning_def bindE_eq_Inr same_access_def life_of_def life_ok_def split: VpnDesiredState.splits)

lemma cancel_life:
  "VpnConfiguration_cancel_provisioning_for_revoke c = Inr c' \<Longrightarrow> life_ok (life_of c) \<Longrightarrow>
     same_access c c' \<and> life_step e (life_of c) (life_of c')"
  using life_step.withdraw [of "life_of c" e]
  by (auto simp: VpnConfiguration_cancel_provisioning_for_revoke_def bindE_eq_Inr same_access_def life_of_def life_ok_def
      split: VpnDesiredState.splits)

lemma revoke_life:
  "VpnConfiguration_revoke c now = Inr c' \<Longrightarrow> same_access c c' \<and> life_step e (life_of c) (life_of c')"
  using life_step.finish_withdrawal [of "life_of c" e]
  by (auto simp: VpnConfiguration_revoke_def bindE_eq_Inr same_access_def life_of_def)

lemma fail_revoke_life:
  "VpnConfiguration_fail_revoke c = Inr c' \<Longrightarrow> life_ok (life_of c) \<Longrightarrow> same_access c c' \<and> life_step e (life_of c) (life_of c')"
  using life_step.fail_withdrawal [of "life_of c" e]
  by (auto simp: VpnConfiguration_fail_revoke_def bindE_eq_Inr same_access_def life_of_def life_ok_def split: VpnDesiredState.splits)

lemma withdraw_life:
  assumes "withdraw_configuration c = Inr (Some c')" and "life_ok (life_of c)"
  shows "same_access c c' \<and> (life_step e)\<^sup>*\<^sup>* (life_of c) (life_of c')"
proof (cases "vc_status c = VS_REVOKING")
  case True
  then show ?thesis using assms(1) by (simp add: withdraw_configuration_def)
next
  case False
  have "same_access c c' \<and> life_step e (life_of c) (life_of c')"
    using False assms life_step.withdraw [of "life_of c" e] life_step.retry_withdrawal [of "life_of c" e]
    by (auto simp: withdraw_configuration_def vpn_ops bindE_eq_Inr same_access_def life_of_def life_ok_def
        split: VpnConfigurationStatus.splits VpnDesiredState.splits)
  then show ?thesis by blast
qed

end
