(* ===== verification/AccessRefine.thy ===== *)
theory AccessRefine
  imports AccessLife
begin

text \<open>
  The transactions of the access side implement the abstract specification: whatever they do to a configuration is a
  sequence of steps of \<open>life_step\<close>, and access is granted only to a subscription that has a current paid period at the time
  the transaction reads. A node or panel task names the subscription of its configuration, which is what the check of the
  period relies on, and a panel task that revokes exists only for a configuration that is no longer wanted; these links are part
  of the invariant \<open>access_ok\<close>.
\<close>

section \<open>The assertion\<close>

definition linked_to :: "int option \<Rightarrow> int option \<Rightarrow> VpnConfiguration table \<Rightarrow> bool" where
  "linked_to v sub t =
     (case v of None \<Rightarrow> True | Some i \<Rightarrow> (case vpn_row i t of None \<Rightarrow> False | Some c \<Rightarrow> sub = Some (vc_subscription_id c)))"

definition ntasks_linked :: "db \<Rightarrow> bool" where
  "ntasks_linked s \<longleftrightarrow>
     list_all (\<lambda>t. linked_to (nt_vpn_configuration_id t) (nt_subscription_id t) (d_vpns s)) (rows (d_ntasks s))"

definition pprov_linked :: "db \<Rightarrow> bool" where
  "pprov_linked s \<longleftrightarrow>
     list_all (\<lambda>t. linked_to (Some (pp_vpn_configuration_id t)) (Some (pp_subscription_id t)) (d_vpns s)) (rows (d_pprov s))"

definition withdrawn_at :: "int \<Rightarrow> int \<Rightarrow> int \<Rightarrow> VpnConfiguration table \<Rightarrow> bool" where
  "withdrawn_at v sub g t =
     (case vpn_row v t of
        None \<Rightarrow> False
      | Some c \<Rightarrow> vc_subscription_id c = sub \<and> vc_desired_state c = VD_REVOKED \<and> g \<le> vc_generation c)"

definition prev_linked :: "db \<Rightarrow> bool" where
  "prev_linked s \<longleftrightarrow>
     list_all (\<lambda>t. withdrawn_at (pr_vpn_configuration_id t) (pr_subscription_id t) (pr_vpn_generation t) (d_vpns s)) (rows (d_prev s))"

lemmas tasks_linked = ntasks_linked_def pprov_linked_def prev_linked_def

definition access_ok :: "db \<Rightarrow> bool" where
  "access_ok s \<longleftrightarrow> vpns_ok (d_vpns s) \<and> vpns_constraints (d_vpns s) \<and> ntasks_constraints (d_ntasks s) \<and>
     ntasks_linked s \<and> pprov_linked s \<and> prev_linked s"

definition acc :: "time \<Rightarrow> db \<Rightarrow> (VpnConfiguration table \<Rightarrow> bool) \<Rightarrow> db \<Rightarrow> bool" where
  "acc now s0 C s \<longleftrightarrow> access_ok s \<and> d_periods s = d_periods s0 \<and>
     vpns_follow (\<lambda>i. has_current_period now i s0) (d_vpns s0) (d_vpns s) \<and> C (d_vpns s)"

text \<open>\<open>holds_row c\<close>: the configuration is stored as it was loaded. \<open>kept C\<close>: steps of the specification do not invalidate \<open>C\<close>.\<close>

definition holds_row :: "VpnConfiguration \<Rightarrow> VpnConfiguration table \<Rightarrow> bool" where
  "holds_row c t = (case vc_id c of None \<Rightarrow> False | Some i \<Rightarrow> vpn_row i t = Some c)"

definition kept :: "(VpnConfiguration table \<Rightarrow> bool) \<Rightarrow> bool" where
  "kept C \<longleftrightarrow> (\<forall>J t t'. vpns_follow J t t' \<longrightarrow> C t \<longrightarrow> C t')"

lemma keptD: "kept C \<Longrightarrow> vpns_follow J t t' \<Longrightarrow> C t \<Longrightarrow> C t'"
  unfolding kept_def by blast

lemma kept_True [simp]: "kept (\<lambda>_. True)"
  by (simp add: kept_def)

lemma kept_linked [simp]: "kept (linked_to v sub)"
proof -
  have "linked_to v sub t'" if follow: "vpns_follow J t t'" and "linked_to v sub t" for J t t'
  proof (cases v)
    case (Some i)
    then obtain c where c: "vpn_row i t = Some c" "sub = Some (vc_subscription_id c)"
      using \<open>linked_to v sub t\<close> by (auto simp: linked_to_def split: option.splits)
    obtain c' where "vpn_row i t' = Some c'" "same_access c c'" using vpns_follow_row [OF follow c(1)] by blast
    then show ?thesis using c(2) Some by (simp add: linked_to_def same_access_def)
  qed (simp add: linked_to_def)
  then show ?thesis unfolding kept_def by blast
qed

lemma kept_withdrawn [simp]: "kept (withdrawn_at v sub g)"
proof -
  have "withdrawn_at v sub g t'" if follow: "vpns_follow J t t'" and "withdrawn_at v sub g t" for J t t'
  proof -
    obtain c where c: "vpn_row v t = Some c" "vc_subscription_id c = sub" "vc_desired_state c = VD_REVOKED" "g \<le> vc_generation c"
      using \<open>withdrawn_at v sub g t\<close> by (auto simp: withdrawn_at_def split: option.splits)
    obtain c' where c': "vpn_row v t' = Some c'" "same_access c c'" "(life_step (J (vc_subscription_id c')))\<^sup>*\<^sup>* (life_of c) (life_of c')"
      using vpns_follow_row [OF follow c(1)] by blast
    show ?thesis
      using life_steps_withdrawn [OF c'(3)] life_steps_generation [OF c'(3)] c c'(1,2)
      by (simp add: withdrawn_at_def same_access_def life_of_def)
  qed
  then show ?thesis unfolding kept_def by blast
qed

lemma acc_weaken: "acc now s0 C s \<Longrightarrow> (C (d_vpns s) \<Longrightarrow> D (d_vpns s)) \<Longrightarrow> acc now s0 D s"
  by (simp add: acc_def)

lemma access_ok_linked: "access_ok s \<Longrightarrow> ntasks_linked s \<and> pprov_linked s \<and> prev_linked s \<and> vpns_ok (d_vpns s)"
  by (simp add: access_ok_def)

lemma linked_follow:
  assumes "vpns_follow J (d_vpns s) t"
  shows "ntasks_linked s \<Longrightarrow> ntasks_linked (s\<lparr>d_vpns := t\<rparr>)" and "pprov_linked s \<Longrightarrow> pprov_linked (s\<lparr>d_vpns := t\<rparr>)"
    and "prev_linked s \<Longrightarrow> prev_linked (s\<lparr>d_vpns := t\<rparr>)"
  using keptD [OF kept_linked assms] keptD [OF kept_withdrawn assms] by (auto simp: tasks_linked list_all_iff)

section \<open>Operations that leave the configurations alone\<close>

lemma acc_frame_puts [preserves_intros]:
  "preserves (acc now s0 C) (put_nodes n)" "preserves (acc now s0 C) (put_nstatus st)"
  "preserves (acc now s0 C) (put_creds c)" "preserves (acc now s0 C) (put_nattempts na)" "preserves (acc now s0 C) (put_servers sv)"
  "preserves (acc now s0 C) (put_endpoints e)" "preserves (acc now s0 C) (put_leases l)" "preserves (acc now s0 C) (put_audit au)"
  "preserves (acc now s0 C) (put_subs su)"
  unfolding put_nodes_def put_nstatus_def put_creds_def put_nattempts_def put_servers_def put_endpoints_def
    put_leases_def put_audit_def put_subs_def
  by (rule preserves_writeT, simp add: acc_def access_ok_def tasks_linked)+

lemma acc_frame_reads [preserves_intros]:
  "preserves (acc now s0 C) (vpn_get_entity i)" "preserves (acc now s0 C) (vpn_get_active_entity_for_subscription i)"
  "preserves (acc now s0 C) (vpn_get_latest_entity_for_subscription i)" "preserves (acc now s0 C) (vpn_get_panel_task_entity f i)"
  "preserves (acc now s0 C) (vpn_get_panel_task_for_configuration f i)" "preserves (acc now s0 C) (vpn_get_panel_revoke_task_entity i)"
  "preserves (acc now s0 C) (vpn_get_panel_revoke_task_for_generation i g)" "preserves (acc now s0 C) (vpn_get_configuration_with_endpoint i)"
  "preserves (acc now s0 C) (nodes_get_task_entity i)" "preserves (acc now s0 C) (nodes_get_vpn_task_for_generation i op g)"
  "preserves (acc now s0 C) (nodes_get_active_credential i)" "preserves (acc now s0 C) (nodes_get_node_operation_state i)"
  "preserves (acc now s0 C) (subscriptions_get_entity i)" "preserves (acc now s0 C) (subscriptions_get_current_period_entity i t)"
  "preserves (acc now s0 C) (current_period_of oi t)"
  unfolding vpn_get_entity_def vpn_get_active_entity_for_subscription_def vpn_get_latest_entity_for_subscription_def
    vpn_get_panel_task_entity_def vpn_get_panel_task_for_configuration_def vpn_get_panel_revoke_task_entity_def
    vpn_get_panel_revoke_task_for_generation_def vpn_get_configuration_with_endpoint_def nodes_get_task_entity_def
    nodes_get_vpn_task_for_generation_def nodes_get_active_credential_def nodes_get_node_operation_state_def
    subscriptions_get_entity_def subscriptions_get_current_period_entity_def current_period_of_def
  by (intro preserves_intros)+

lemma acc_frame_writes [preserves_intros]:
  "preserves (acc now s0 C) (nodes_create_task_attempt i m pl t)" "preserves (acc now s0 C) (nodes_finish_task_attempt i k t r er)"
  "preserves (acc now s0 C) (nodes_fail_started_task_attempt i m t k)" "preserves (acc now s0 C) (audit_append ev ag i pl)"
  unfolding nodes_create_task_attempt_def
    nodes_finish_task_attempt_def nodes_fail_started_task_attempt_def audit_append_def Let_def
  by (intro preserves_intros)+

text \<open>Saving a task keeps the configuration and the subscription it names.\<close>

lemma preserves_readT_writeT:
  "(\<And>s. P s \<Longrightarrow> c (h (g s)) \<Longrightarrow> P (put (h (g s)) s)) \<Longrightarrow> preserves P (bindT (readT g) (\<lambda>t. writeT c n (h t) put))"
  unfolding preserves_def bindT_readT writeT_Inr_iff by blast

lemma acc_ntasks_kept:
  assumes "acc now s0 C s" and "ntasks_constraints (update_where P f (d_ntasks s))" and "\<And>r. nt_vpn_configuration_id (f r) = nt_vpn_configuration_id r" and "\<And>r. nt_subscription_id (f r) = nt_subscription_id r"
  shows "acc now s0 C (s\<lparr>d_ntasks := update_where P f (d_ntasks s)\<rparr>)"
  using assms by (auto simp: acc_def access_ok_def tasks_linked list_all_iff)

lemma acc_save_ntask [preserves_intros]: "preserves (acc now s0 C) (nodes_save_task_entity t)"
  unfolding nodes_save_task_entity_def put_ntasks_def update_row_def
  by (intro preserves_option preserves_bindT preserves_pure preserves_readT_writeT acc_ntasks_kept)
     (simp_all add: saved_task_def)

lemma acc_save_pprov [preserves_intros]: "preserves (acc now s0 C) (vpn_save_panel_task_entity t)"
  unfolding vpn_save_panel_task_entity_def put_pprov_def
  by (intro preserves_option preserves_pure preserves_readT_writeT)
     (auto simp: acc_def access_ok_def tasks_linked list_all_iff)

lemma acc_save_prev [preserves_intros]: "preserves (acc now s0 C) (vpn_save_panel_revoke_task_entity t)"
  unfolding vpn_save_panel_revoke_task_entity_def put_prev_def
  by (intro preserves_option preserves_pure preserves_readT_writeT)
     (auto simp: acc_def access_ok_def tasks_linked list_all_iff)

lemma acc_journal_retired [preserves_intros]: "preserves (acc now s0 C) (nodes_mark_task_journal_retired i k t)"
  unfolding nodes_mark_task_journal_retired_def put_ntasks_def Let_def preserves_def bindT_readT bindT_Inr writeT_Inr_iff
  using acc_ntasks_kept [where P = "\<lambda>r. nt_id r = Some i \<and> nt_idempotency_key r = k \<and> task_is_terminal r \<and> nt_journal_retired_at r = None"
      and f = "\<lambda>r. r\<lparr>nt_journal_retired_at := Some t, nt_updated_at := Some t\<rparr>"]
  by auto

section \<open>Loading and saving\<close>

abbreviation acc_done :: "time \<Rightarrow> db \<Rightarrow> 'a \<Rightarrow> db \<Rightarrow> bool" where
  "acc_done now s0 \<equiv> (\<lambda>_. acc now s0 (\<lambda>_. True))"

lemma acc_end: "preserves (acc now s0 C) m \<Longrightarrow> hoare (acc now s0 C) m (acc_done now s0)"
  unfolding hoare_def preserves_def by (metis acc_weaken)

lemma acc_pre: "hoare (acc now s0 D) m Q \<Longrightarrow> (\<And>t. C t \<Longrightarrow> D t) \<Longrightarrow> hoare (acc now s0 C) m Q"
  unfolding hoare_def by (metis acc_weaken)

lemma hoare_op: "(\<And>x. r = Inr x \<Longrightarrow> hoare P (f x) Q) \<Longrightarrow> hoare P (bindT (liftT r) f) Q"
  unfolding hoare_def bindT_Inr liftT_Inr_iff by blast

lemma hoare_branch: "(b \<Longrightarrow> hoare P m Q) \<Longrightarrow> (\<not> b \<Longrightarrow> hoare P n Q) \<Longrightarrow> hoare P (if b then m else n) Q"
  by simp

lemma hoare_option:
  "(x = None \<Longrightarrow> hoare P m Q) \<Longrightarrow> (\<And>v. x = Some v \<Longrightarrow> hoare P (f v) Q) \<Longrightarrow> hoare P (case x of None \<Rightarrow> m | Some v \<Rightarrow> f v) Q"
  by (cases x) simp_all

lemma hoare_sum:
  "(\<And>a. x = Inl a \<Longrightarrow> hoare P (f a) Q) \<Longrightarrow> (\<And>b. x = Inr b \<Longrightarrow> hoare P (g b) Q) \<Longrightarrow> hoare P (case x of Inl a \<Rightarrow> f a | Inr b \<Rightarrow> g b) Q"
  by (cases x) simp_all

lemma hoare_known:
  "hoare P m Q \<Longrightarrow> hoare P (case None of None \<Rightarrow> m | Some v \<Rightarrow> f v) Q"
  "hoare P (f v) Q \<Longrightarrow> hoare P (case Some v of None \<Rightarrow> m | Some v \<Rightarrow> f v) Q"
  by simp_all

lemma loaded_row_held:
  assumes "acc now s0 C s" and "c \<in> set (rows (d_vpns s))"
  shows "acc now s0 (\<lambda>t. C t \<and> holds_row c t) s" and "life_ok (life_of c)"
proof -
  have ok: "vpns_ok (d_vpns s)" using assms(1) by (simp add: acc_def access_ok_def)
  obtain i where i: "vc_id c = Some i" "vpn_row i (d_vpns s) = Some c" using vpns_ok_member [OF ok assms(2)] by blast
  then show "acc now s0 (\<lambda>t. C t \<and> holds_row c t) s" using assms(1) by (simp add: acc_def holds_row_def)
  show "life_ok (life_of c)" using vpn_row_ok [OF ok i(2)] by simp
qed

lemma vpn_from_row_id: "vpn_configuration_from_row r = Inr c \<Longrightarrow> c = r"
  by (auto simp: vpn_configuration_from_row_def VpnConfiguration_post_init_def bindE_eq_Inr)

lemma with_entity:
  assumes none: "hoare (acc now s0 C) (f None) Q"
    and some: "\<And>c. vc_id c = Some i \<Longrightarrow> life_ok (life_of c) \<Longrightarrow> hoare (acc now s0 (\<lambda>t. C t \<and> holds_row c t)) (f (Some c)) Q"
  shows "hoare (acc now s0 C) (bindT (vpn_get_entity i) f) Q"
proof (rule hoareI)
  fix s x s' assume pre: "acc now s0 C s" and run: "bindT (vpn_get_entity i) f s = Inr (x, s')"
  obtain r where r: "vpn_get_entity i s = Inr (r, s)" and tail: "f r s = Inr (x, s')"
    using run by (auto simp: bindT_Inr vpn_get_entity_def dest: entityT_state)
  show "Q x s'"
  proof (cases r)
    case None
    then show ?thesis using hoareD [OF none pre] tail by simp
  next
    case (Some c)
    then have "get_row vc_id i (d_vpns s) = Some c"
      using r by (auto simp: vpn_get_entity_def dest!: entityT_SomeD vpn_from_row_id)
    then have c: "vc_id c = Some i" "c \<in> set (rows (d_vpns s))" by (auto dest: get_row_key)
    have "hoare (acc now s0 (\<lambda>t. C t \<and> holds_row c t)) (f (Some c)) Q"
      by (rule some [OF c(1) loaded_row_held(2) [OF pre c(2)]])
    then show ?thesis using hoareD loaded_row_held(1) [OF pre c(2)] tail Some by fastforce
  qed
qed

lemma with_latest:
  assumes none: "hoare (acc now s0 C) (f None) Q"
    and some: "\<And>c. vc_subscription_id c = i \<Longrightarrow> life_ok (life_of c) \<Longrightarrow> hoare (acc now s0 (\<lambda>t. C t \<and> holds_row c t)) (f (Some c)) Q"
  shows "hoare (acc now s0 C) (bindT (vpn_get_latest_entity_for_subscription i) f) Q"
proof (rule hoareI)
  fix s x s' assume pre: "acc now s0 C s" and run: "bindT (vpn_get_latest_entity_for_subscription i) f s = Inr (x, s')"
  obtain r where r: "vpn_get_latest_entity_for_subscription i s = Inr (r, s)" and tail: "f r s = Inr (x, s')"
    using run by (auto simp: bindT_Inr vpn_get_latest_entity_for_subscription_def dest: entityT_state)
  show "Q x s'"
  proof (cases r)
    case None
    then show ?thesis using hoareD [OF none pre] tail by simp
  next
    case (Some c)
    then have "c \<in> set (select_rows (\<lambda>v. vc_subscription_id v = i) (d_vpns s))"
      using r by (auto simp: vpn_get_latest_entity_for_subscription_def dest!: entityT_SomeD vpn_from_row_id top_by_in)
    then have c: "vc_subscription_id c = i" "c \<in> set (rows (d_vpns s))" by (auto simp: select_rows_def)
    have "hoare (acc now s0 (\<lambda>t. C t \<and> holds_row c t)) (f (Some c)) Q"
      by (rule some [OF c(1) loaded_row_held(2) [OF pre c(2)]])
    then show ?thesis using hoareD loaded_row_held(1) [OF pre c(2)] tail Some by fastforce
  qed
qed

lemma with_period:
  assumes "\<And>p. (p \<noteq> None \<longrightarrow> has_current_period now i s0) \<Longrightarrow> hoare (acc now s0 C) (f p) Q"
  shows "hoare (acc now s0 C) (bindT (subscriptions_get_current_period_entity i now) f) Q"
proof (rule hoareI)
  fix s x s' assume pre: "acc now s0 C s" and run: "bindT (subscriptions_get_current_period_entity i now) f s = Inr (x, s')"
  obtain p where p: "subscriptions_get_current_period_entity i now s = Inr (p, s)" and tail: "f p s = Inr (x, s')"
    using run by (auto simp: bindT_Inr subscriptions_get_current_period_entity_def dest: entityT_state)
  have "has_current_period now i s" if "p = Some v" for v
    using p that unfolding subscriptions_get_current_period_entity_def has_current_period_def bindT_readT
    by (auto dest!: entityT_SomeD)
  moreover have "has_current_period now i s = has_current_period now i s0"
    using pre by (simp add: acc_def has_current_period_def current_periods_def)
  ultimately have "hoare (acc now s0 C) (f p) Q" by (intro assms) auto
  then show "Q x s'" using pre tail by (rule hoareD)
qed

definition saved_as :: "VpnConfiguration \<Rightarrow> VpnConfiguration table \<Rightarrow> bool" where
  "saved_as c t \<longleftrightarrow> (\<exists>i r. vc_id c = Some i \<and> vpn_row i t = Some r \<and> same_access c r \<and> life_of r = life_of c)"

lemma acc_save_row:
  assumes "kept C" and "same_access c c'" and "(life_step e)\<^sup>*\<^sup>* (life_of c) (life_of c')"
    and "e \<longrightarrow> has_current_period now (vc_subscription_id c) s0"
  shows "hoare (acc now s0 (\<lambda>t. C t \<and> holds_row c t)) (vpn_save_entity c') (\<lambda>_. acc now s0 (\<lambda>t. C t \<and> saved_as c' t))"
proof (rule hoareI)
  fix s x s' assume pre: "acc now s0 (\<lambda>t. C t \<and> holds_row c t) s" and run: "vpn_save_entity c' s = Inr (x, s')"
  let ?J = "\<lambda>i. has_current_period now i s0"
  obtain i where i: "vc_id c = Some i" "vpn_row i (d_vpns s) = Some c"
    using pre by (auto simp: acc_def holds_row_def split: option.splits)
  let ?t = "update_row vc_id i (saved_configuration c') (d_vpns s)"
  have "vc_id c' = Some i" using assms(2) i(1) by (simp add: same_access_def)
  then have s': "s' = s\<lparr>d_vpns := ?t\<rparr>" "vpns_constraints ?t"
    using run by (simp_all add: vpn_save_entity_def put_vpns_def writeT_Inr_iff saved_configuration_def [abs_def])
  have ok: "access_ok s" "vpns_ok (d_vpns s)" using pre by (simp_all add: acc_def access_ok_def)
  note saved = save_follows [where J = ?J, OF ok(2) i(2) assms(2) life_steps_mono [OF assms(3,4)]]
  have "access_ok s'" using ok(1) s'(2) saved(1) linked_follow [OF saved(2)] by (simp add: s'(1) access_ok_def)
  moreover have "vpn_row i ?t = Some (saved_configuration c' c)"
    using i(2) vpns_tab.update_row_lookup [of "saved_configuration c'"] by (simp add: vpn_row_def saved_configuration_def)
  then have "saved_as c' ?t"
    using \<open>vc_id c' = Some i\<close> assms(2) unfolding saved_as_def
    by (intro exI [of _ i] exI [of _ "saved_configuration c' c"]) (simp add: same_access_def saved_configuration_def life_of_def)
  moreover have "C ?t" using keptD [OF assms(1) saved(2)] pre by (simp add: acc_def)
  ultimately show "acc now s0 (\<lambda>t. C t \<and> saved_as c' t) s'"
    using pre saved(2) vpns_follow_trans by (fastforce simp: acc_def s'(1))
qed

lemma acc_save:
  assumes "kept C" and "same_access c c'" and "(life_step e)\<^sup>*\<^sup>* (life_of c) (life_of c')"
    and "e \<longrightarrow> has_current_period now (vc_subscription_id c) s0"
  shows "hoare (acc now s0 (\<lambda>t. C t \<and> holds_row c t)) (vpn_save_entity c') (\<lambda>_. acc now s0 C)"
  using acc_save_row [OF assms] unfolding hoare_def by (metis (no_types, lifting) acc_weaken)

lemma save_then:
  assumes "kept C" and "same_access c c'" and "(life_step e)\<^sup>*\<^sup>* (life_of c) (life_of c')"
    and "e \<longrightarrow> has_current_period now (vc_subscription_id c) s0"
    and "\<And>u. hoare (acc now s0 C) (f u) Q"
  shows "hoare (acc now s0 (\<lambda>t. C t \<and> holds_row c t)) (bindT (vpn_save_entity c') f) Q"
  by (rule hoare_bindT [OF acc_save [OF assms(1-4)]]) (rule assms(5))

section \<open>Provisioning\<close>

lemma holds_linked: "holds_row c t \<Longrightarrow> linked_to (vc_id c) (Some (vc_subscription_id c)) t"
  by (cases "vc_id c") (auto simp: holds_row_def linked_to_def)

lemma acc_add_ntask:
  assumes "\<And>t. C t \<Longrightarrow> linked_to (nt_vpn_configuration_id task) (nt_subscription_id task) t"
  shows "preserves (acc now s0 C) (nodes_add_task_entity task)"
proof -
  have "acc now s0 C (s\<lparr>d_ntasks := snd (insert_row (\<lambda>i r. r\<lparr>nt_id := Some i\<rparr>) (new_task_row task m) (d_ntasks s))\<rparr>)"
    if "acc now s0 C s" and "ntasks_constraints (snd (insert_row (\<lambda>i r. r\<lparr>nt_id := Some i\<rparr>) (new_task_row task m) (d_ntasks s)))" for s m
    using that assms
    by (auto simp: acc_def access_ok_def tasks_linked insert_row_def Let_def new_task_row_def)
  then have "preserves (acc now s0 C) (nodes_create_task task)"
    unfolding nodes_create_task_def preserves_def bindT_readT put_ntasks_def case_prod_beta Let_def
    by (auto simp: bindT_Inr writeT_Inr_iff split: if_splits option.splits)
  then show ?thesis unfolding nodes_add_task_entity_def by (intro preserves_intros)
qed

lemma acc_add_pprov:
  assumes "\<And>t. C t \<Longrightarrow> linked_to (Some (pp_vpn_configuration_id task)) (Some (pp_subscription_id task)) t"
  shows "preserves (acc now s0 C) (vpn_add_panel_task_entity from_row task)"
proof (rule preservesI)
  fix s x s' assume pre: "acc now s0 C s" and run: "vpn_add_panel_task_entity from_row task s = Inr (x, s')"
  let ?row = "task\<lparr>pp_created_at := Some (d_clock s), pp_updated_at := Some (d_clock s)\<rparr>"
  show "acc now s0 C s'"
  proof (cases "list_ex (\<lambda>r. pp_vpn_configuration_id r = pp_vpn_configuration_id task) (rows (d_pprov s))")
    case True
    have "preserves (acc now s0 C) (bindT (vpn_get_panel_task_for_configuration from_row (pp_vpn_configuration_id task)) (\<lambda>existing.
          case existing of
            None \<Rightarrow> raiseT (RuntimeError ''Failed to persist panel provision task'')
          | Some e \<Rightarrow> retT e))"
      by (intro preserves_intros)
    then show ?thesis using pre run True by (auto simp: vpn_add_panel_task_entity_def dest: preservesD)
  next
    case False
    then have "s' = s\<lparr>d_pprov := snd (insert_row (\<lambda>i r. r\<lparr>pp_id := Some i\<rparr>) ?row (d_pprov s))\<rparr>"
      using run by (auto simp: vpn_add_panel_task_entity_def put_pprov_def case_prod_beta bindT_Inr writeT_Inr_iff liftT_Inr_iff)
    then show ?thesis
      using pre assms by (auto simp: acc_def access_ok_def tasks_linked insert_row_def Let_def)
  qed
qed

lemma acc_add_prev:
  assumes "\<And>t. C t \<Longrightarrow> withdrawn_at (pr_vpn_configuration_id task) (pr_subscription_id task) (pr_vpn_generation task) t"
  shows "preserves (acc now s0 C) (vpn_add_panel_revoke_task_entity task)"
proof (rule preservesI)
  fix s x s' assume pre: "acc now s0 C s" and run: "vpn_add_panel_revoke_task_entity task s = Inr (x, s')"
  let ?row = "task\<lparr>pr_created_at := Some (d_clock s), pr_updated_at := Some (d_clock s)\<rparr>"
  let ?known = "\<lambda>r. pr_vpn_configuration_id r = pr_vpn_configuration_id task \<and> pr_vpn_generation r = pr_vpn_generation task"
  show "acc now s0 C s'"
  proof (cases "list_ex ?known (rows (d_prev s))")
    case True
    have "preserves (acc now s0 C) (bindT (vpn_get_panel_revoke_task_for_generation (pr_vpn_configuration_id task) (pr_vpn_generation task)) (\<lambda>existing.
          case existing of
            None \<Rightarrow> raiseT (RuntimeError ''Failed to persist panel revoke task'')
          | Some e \<Rightarrow> retT e))"
      by (intro preserves_intros)
    then show ?thesis using pre run True by (auto simp: vpn_add_panel_revoke_task_entity_def dest: preservesD)
  next
    case False
    then have "s' = s\<lparr>d_prev := snd (insert_row (\<lambda>i r. r\<lparr>pr_id := Some i\<rparr>) ?row (d_prev s))\<rparr>"
      using run by (auto simp: vpn_add_panel_revoke_task_entity_def put_prev_def case_prod_beta bindT_Inr writeT_Inr_iff liftT_Inr_iff)
    then show ?thesis
      using pre assms by (auto simp: acc_def access_ok_def tasks_linked insert_row_def Let_def)
  qed
qed

lemma NodeTask_post_init_links:
  "NodeTask_post_init t = Inr t' \<Longrightarrow> nt_vpn_configuration_id t' = nt_vpn_configuration_id t \<and> nt_subscription_id t' = nt_subscription_id t"
  by (auto simp: NodeTask_post_init_def bindE_eq_Inr Let_def)

lemma PanelProvisionTask_post_init_links:
  "PanelProvisionTask_post_init t = Inr t' \<Longrightarrow>
     pp_vpn_configuration_id t' = pp_vpn_configuration_id t \<and> pp_subscription_id t' = pp_subscription_id t"
  by (auto simp: PanelProvisionTask_post_init_def bindE_eq_Inr Let_def)

lemma preserves_op: "(\<And>x. r = Inr x \<Longrightarrow> preserves P (f x)) \<Longrightarrow> preserves P (bindT (liftT r) f)"
  unfolding preserves_def bindT_Inr liftT_Inr_iff by blast

lemma acc_provision_node_task:
  assumes "\<And>t. C t \<Longrightarrow> linked_to (vc_id c) (Some (vc_subscription_id c)) t"
  shows "preserves (acc now s0 C) (provision_node_task cfg u c e row x at)"
proof (cases "vc_id c"; cases "ve_node_id e")
  fix i n assume "vc_id c = Some i" and "ve_node_id e = Some n"
  then show ?thesis
    unfolding provision_node_task_def Let_def
    using assms by (auto intro!: preserves_op acc_add_ntask dest!: NodeTask_post_init_links)
qed (auto simp: provision_node_task_def intro: preserves_intros)

lemma acc_provision_panel_task:
  assumes "\<And>t. C t \<Longrightarrow> linked_to (vc_id c) (Some (vc_subscription_id c)) t"
  shows "preserves (acc now s0 C) (provision_panel_task f cfg c row x at)"
proof (cases "vc_id c")
  case (Some i)
  then show ?thesis
    unfolding provision_panel_task_def
    using assms by (auto intro!: preserves_op acc_add_pprov dest!: PanelProvisionTask_post_init_links)
qed (auto simp: provision_panel_task_def intro: preserves_intros)

lemma acc_plans [preserves_intros]:
  "preserves (acc now s0 C) (node_plan i j m t)" "preserves (acc now s0 C) (panel_plan i j m pt)"
  unfolding node_plan_def panel_plan_def by (intro preserves_intros)+

lemma acc_recover_provision:
  assumes "has_current_period now (vc_subscription_id c) s0"
  shows "hoare (acc now s0 (\<lambda>t. C t \<and> holds_row c t)) (recover_succeeded_provision c r) (acc_done now s0)"
  unfolding recover_succeeded_provision_def
proof (rule hoare_option [OF hoare_raiseT], rule hoare_op)
  fix i c' assume act: "VpnConfiguration_activate c r = Inr c'"
  have "same_access c c'" "(life_step True)\<^sup>*\<^sup>* (life_of c) (life_of c')" using activate_life [OF act] by auto
  note saved = save_then [where C = "\<lambda>_. True", OF kept_True this]
  show "hoare (acc now s0 (\<lambda>t. C t \<and> holds_row c t)) (bindT (vpn_save_entity c') (\<lambda>_.
          bindT (audit_append VPN_CONFIGURATION_ACTIVATED AGG_VPN_CONFIGURATION i
                   [(''vpn_configuration_id'', JInt i), (''subscription_id'', JInt (vc_subscription_id c))]) (\<lambda>_.
          retT (ProvisionRecoveryPlan (vc_subscription_id c) i)))) (acc_done now s0)"
    by (rule acc_pre, rule saved) (use assms in \<open>auto intro!: acc_end intro: preserves_intros\<close>)
qed

lemma acc_reuse:
  assumes "has_current_period now (vc_subscription_id c) s0"
  shows "hoare (acc now s0 (\<lambda>t. C t \<and> holds_row c t)) (reuse_existing_provisioning f cfg u c x at) (acc_done now s0)"
proof -
  let ?P = "acc now s0 (\<lambda>t. C t \<and> holds_row c t)"
  have task: "preserves ?P (provision_node_task cfg u c e row x at)" "preserves ?P (provision_panel_task f cfg c row x at)" for e row
    by (rule acc_provision_node_task acc_provision_panel_task, simp add: holds_linked)+
  note rules = hoare_option hoare_raiseT hoare_branch hoare_seq [OF acc_frame_reads(5)] hoare_seq [OF acc_frame_reads(8)]
    hoare_seq [OF acc_frame_reads(10)] hoare_op acc_recover_provision [OF assms] acc_end preserves_intros task
  show ?thesis unfolding reuse_existing_provisioning_def by (intro rules)
qed

lemma prepared_life:
  "VpnProvisioningService_prepare cid sid e n = Inr p \<Longrightarrow>
     life_of ((pv_configuration p)\<lparr>vc_status := VS_PROVISIONING\<rparr>) = life_start \<and> vc_subscription_id (pv_configuration p) = sid"
  by (auto simp: VpnProvisioningService_prepare_def VpnConfiguration_post_init_def bindE_eq_Inr Let_def life_of_def life_start_def)

lemma acc_add_vpn:
  assumes "kept C" and "life_of c = life_start"
  shows "hoare (acc now s0 C) (vpn_add_entity c)
     (\<lambda>c'. acc now s0 (\<lambda>t. C t \<and> linked_to (vc_id c') (Some (vc_subscription_id c')) t))"
proof (rule hoareI)
  fix s c' s' assume pre: "acc now s0 C s" and run: "vpn_add_entity c s = Inr (c', s')"
  let ?J = "\<lambda>i. has_current_period now i s0"
  let ?c = "c\<lparr>vc_created_at := Some (d_clock s), vc_revoked_at := None\<rparr>"
  obtain r t where ins: "insert_row (\<lambda>i r. r\<lparr>vc_id := Some i\<rparr>) ?c (d_vpns s) = (r, t)" by fastforce
  have s': "s' = s\<lparr>d_vpns := t\<rparr>" "vpns_constraints t" and c': "c' = c\<lparr>vc_id := Some (next_id (d_vpns s))\<rparr>"
    using run ins by (auto simp: vpn_add_entity_def put_vpns_def bindT_Inr writeT_Inr_iff)
  have ok: "access_ok s" "vpns_ok (d_vpns s)" using pre by (simp_all add: acc_def access_ok_def)
  have "life_of ?c = life_start" using assms(2) by (simp add: life_of_def)
  note new = insert_follows [where J = ?J, OF ok(2) ins this]
  have "access_ok s'" using ok(1) s'(2) new linked_follow [of ?J s t] by (simp add: s'(1) access_ok_def)
  moreover have "C t" using keptD [OF assms(1)] new pre by (auto simp: acc_def)
  moreover have "linked_to (vc_id c') (Some (vc_subscription_id c')) t" using new by (simp add: c' linked_to_def)
  moreover have "vpns_follow ?J (d_vpns s0) t" using pre new vpns_follow_trans by (auto simp: acc_def)
  ultimately show "acc now s0 (\<lambda>t. C t \<and> linked_to (vc_id c') (Some (vc_subscription_id c')) t) s'"
    using pre by (simp add: acc_def s'(1))
qed

lemma hoare_post_seq: "(\<And>s. P s \<Longrightarrow> Q x s) \<Longrightarrow> preserves P m \<Longrightarrow> hoare P (bindT m (\<lambda>_. retT x)) Q"
  unfolding hoare_def preserves_def bindT_Inr by auto

lemma acc_create_configuration:
  assumes "kept C"
  shows "hoare (acc now s0 C) (create_configuration cfg u sid e)
     (\<lambda>c. acc now s0 (\<lambda>t. C t \<and> linked_to (vc_id c) (Some (vc_subscription_id c)) t))"
  unfolding create_configuration_def
proof (rule hoare_op)
  fix p assume "VpnProvisioningService_prepare u sid e (ps_display_name_prefix cfg @ ''-'' @ show_int sid) = Inr p"
  note life = prepared_life [OF this]
  show "hoare (acc now s0 C) (bindT (vpn_add_entity ((pv_configuration p)\<lparr>vc_status := VS_PROVISIONING\<rparr>)) (\<lambda>configuration.
       case vc_id configuration of
         None \<Rightarrow> raiseT (RuntimeError ''VPN configuration was not persisted'')
       | Some i \<Rightarrow>
           bindT (audit_append VPN_CONFIGURATION_CREATED AGG_VPN_CONFIGURATION i
                    [(''vpn_configuration_id'', JInt i), (''subscription_id'', JInt sid)]) (\<lambda>_.
           retT configuration)))
     (\<lambda>c. acc now s0 (\<lambda>t. C t \<and> linked_to (vc_id c) (Some (vc_subscription_id c)) t))"
    by (rule hoare_bindT [OF acc_add_vpn [OF assms conjunct1 [OF life]]])
       (intro hoare_option hoare_raiseT hoare_post_seq preserves_intros; simp)
qed

lemma acc_load_or_create:
  assumes "\<And>l. latest = Some l \<Longrightarrow> (\<And>t. C t \<Longrightarrow> holds_row l t)"
  shows "hoare (acc now s0 C) (load_or_create_configuration cfg u sid e latest)
     (\<lambda>c. acc now s0 (linked_to (vc_id c) (Some (vc_subscription_id c))))"
proof -
  have new: "hoare (acc now s0 C) (create_configuration cfg u sid e) (\<lambda>c. acc now s0 (linked_to (vc_id c) (Some (vc_subscription_id c))))"
    by (rule acc_pre [where D = "\<lambda>_. True"], rule hoare_weaken [OF acc_create_configuration [OF kept_True]]) (auto intro: acc_weaken)
  have old: "hoare (acc now s0 C) (retT l) (\<lambda>c. acc now s0 (linked_to (vc_id c) (Some (vc_subscription_id c))))" if "latest = Some l" for l
    by (rule hoare_retT, rule acc_weaken, assumption, rule holds_linked, rule assms [OF that])
  show ?thesis
    unfolding load_or_create_configuration_def
    by (intro hoare_option hoare_branch hoare_raiseT old new)
qed

lemma acc_provision_new:
  assumes "\<And>l. latest = Some l \<Longrightarrow> (\<And>t. C t \<Longrightarrow> holds_row l t)"
  shows "hoare (acc now s0 C) (provision_new f cfg rb u v sid latest x at) (acc_done now s0)"
proof -
  have sel: "preserves (acc now s0 C) (select_endpoint rb st at)" for st
    unfolding select_endpoint_def servers_list_node_selection_candidates_def servers_lock_and_revalidate_candidate_def
      servers_get_first_enabled_endpoint_def Let_def by (intro preserves_intros)
  have tasks: "preserves (acc now s0 (linked_to (vc_id c) (Some (vc_subscription_id c)))) (provision_node_task cfg v c e row x at)"
    "preserves (acc now s0 (linked_to (vc_id c) (Some (vc_subscription_id c)))) (provision_panel_task f cfg c row x at)" for c e row
    by (rule acc_provision_node_task acc_provision_panel_task, assumption)+
  show ?thesis
    unfolding provision_new_def Let_def case_prod_beta
    by (rule hoare_seq [OF sel], rule hoare_option [OF acc_end [OF preserves_pure(1)]],
        rule hoare_bindT [OF acc_load_or_create [OF assms]])
       (assumption, assumption, intro acc_end preserves_intros tasks)
qed

lemma acc_provision: "hoare (acc now s0 C) (provision_prepare_plan f cfg rb u v sid now) (acc_done now s0)"
proof -
  have latest: "hoare (acc now s0 D) (provision_latest f cfg rb u v sid latest x now) (acc_done now s0)"
    if "\<And>l. latest = Some l \<Longrightarrow> vc_subscription_id l = sid \<and> (\<forall>t. D t \<longrightarrow> holds_row l t)" and "has_current_period now sid s0"
    for D latest x
    unfolding provision_latest_def
  proof (rule hoare_option)
    show "hoare (acc now s0 D) (provision_new f cfg rb u v sid latest x now) (acc_done now s0)" if "latest = None"
      by (rule acc_provision_new) (simp add: that)
    fix l assume l: "latest = Some l"
    then have here: "vc_subscription_id l = sid" "\<And>t. D t \<Longrightarrow> holds_row l t" using that by auto
    have "hoare (acc now s0 D) (reuse_existing_provisioning f cfg v l x now) (acc_done now s0)"
      by (rule acc_pre [OF acc_reuse [where C = "\<lambda>_. True"]]) (use here that(2) in simp_all)
    moreover have "hoare (acc now s0 D) (provision_new f cfg rb u v sid latest x now) (acc_done now s0)"
      by (rule acc_provision_new) (use here l in simp)
    ultimately show "hoare (acc now s0 D) (if vc_status l \<in> {VS_REVOKING, VS_REVOKE_FAILED} then retT (ConfigurationIs (vc_status l) (opt_id (vc_id l)))
          else if vc_status l = VS_FAILED
          then (case vc_id l of
                  None \<Rightarrow> raiseT (RuntimeError ''Persisted VPN configuration has no id'')
                | Some i \<Rightarrow> retT (ProvisionCleanupPlan sid i))
          else if vc_status l = VS_PROVISIONING
          then reuse_existing_provisioning f cfg v l x now
          else provision_new f cfg rb u v sid latest x now) (acc_done now s0)"
      by (intro hoare_branch hoare_option hoare_raiseT acc_end [OF preserves_pure(1)])
  qed
  show ?thesis
    unfolding provision_prepare_plan_def
  proof (intro hoare_seq [OF acc_frame_reads(13)] hoare_option hoare_branch acc_end [OF preserves_pure(1)] with_period
      hoare_seq [OF acc_frame_reads(2)] with_latest)
    fix p and q :: SubscriptionPeriod assume "p \<noteq> None \<longrightarrow> has_current_period now sid s0" and "p = Some q"
    then have now: "has_current_period now sid s0" by simp
    show "hoare (acc now s0 C) (provision_latest f cfg rb u v sid None (sp_expires_at q) now) (acc_done now s0)"
      by (rule latest [OF _ now]) simp
    fix c :: VpnConfiguration assume "vc_subscription_id c = sid"
    then show "hoare (acc now s0 (\<lambda>t. C t \<and> holds_row c t)) (provision_latest f cfg rb u v sid (Some c) (sp_expires_at q) now) (acc_done now s0)"
      by (intro latest [OF _ now]) simp
  qed
qed

end
