(* ===== verification/DispatchRefine.thy ===== *)
theory DispatchRefine
  imports AccessRefine
begin

text \<open>
  Withdrawing an access, dispatching node and panel tasks and recovering expired leases implement the specification of
  \<open>AccessLife\<close>. The mapper of panel provision tasks is required to keep the identifiers of a row (\<open>mapper_ok\<close>), which both the
  mapper as it is written and the entity's constructor do.
\<close>

section \<open>Withdrawing\<close>

lemma save_last:
  assumes "same_access c c'" and "(life_step e)\<^sup>*\<^sup>* (life_of c) (life_of c')"
    and "e \<longrightarrow> has_current_period now (vc_subscription_id c) s0" and "preserves (acc now s0 (\<lambda>_. True)) m"
  shows "hoare (acc now s0 (\<lambda>t. C t \<and> holds_row c t)) (bindT (vpn_save_entity c') (\<lambda>_. m)) (acc_done now s0)"
proof (rule acc_pre)
  show "hoare (acc now s0 (\<lambda>t. True \<and> holds_row c t)) (bindT (vpn_save_entity c') (\<lambda>_. m)) (acc_done now s0)"
    by (rule save_then [OF kept_True assms(1-3)]) (rule acc_end [OF assms(4)])
qed simp

lemma save_only:
  assumes "same_access c c'" and "(life_step e)\<^sup>*\<^sup>* (life_of c) (life_of c')"
    and "e \<longrightarrow> has_current_period now (vc_subscription_id c) s0"
  shows "hoare (acc now s0 (\<lambda>t. C t \<and> holds_row c t)) (vpn_save_entity c') (acc_done now s0)"
proof (rule acc_pre)
  show "hoare (acc now s0 (\<lambda>t. True \<and> holds_row c t)) (vpn_save_entity c') (acc_done now s0)"
    by (rule acc_save [OF kept_True assms])
qed simp

text \<open>An operation of the entity followed by a save.\<close>

lemma op_then_save:
  assumes "\<And>c'. op = Inr c' \<Longrightarrow> same_access c c' \<and> life_step e (life_of c) (life_of c')"
    and "e \<longrightarrow> has_current_period now (vc_subscription_id c) s0" and "\<And>c'. preserves (acc now s0 (\<lambda>_. True)) (m c')"
  shows "hoare (acc now s0 (\<lambda>t. C t \<and> holds_row c t)) (bindT (liftT op) (\<lambda>c'. bindT (vpn_save_entity c') (\<lambda>_. m c'))) (acc_done now s0)"
proof (rule hoare_op)
  fix c' assume "op = Inr c'"
  then have "same_access c c'" "(life_step e)\<^sup>*\<^sup>* (life_of c) (life_of c')" using assms(1) by blast+
  then show "hoare (acc now s0 (\<lambda>t. C t \<and> holds_row c t)) (bindT (vpn_save_entity c') (\<lambda>_. m c')) (acc_done now s0)"
    by (rule save_last [OF _ _ assms(2,3)])
qed

lemma op_then_save_only:
  assumes "\<And>c'. op = Inr c' \<Longrightarrow> same_access c c' \<and> life_step False (life_of c) (life_of c')"
  shows "hoare (acc now s0 (\<lambda>t. C t \<and> holds_row c t)) (bindT (liftT op) vpn_save_entity) (acc_done now s0)"
proof (rule hoare_op)
  fix c' assume "op = Inr c'"
  then have "same_access c c'" "(life_step False)\<^sup>*\<^sup>* (life_of c) (life_of c')" using assms by blast+
  then show "hoare (acc now s0 (\<lambda>t. C t \<and> holds_row c t)) (vpn_save_entity c') (acc_done now s0)" by (rule save_only) simp
qed

lemma acc_activate:
  "has_current_period now (vc_subscription_id c) s0 \<Longrightarrow> (\<And>c'. preserves (acc now s0 (\<lambda>_. True)) (m c')) \<Longrightarrow>
     hoare (acc now s0 (\<lambda>t. C t \<and> holds_row c t))
       (bindT (liftT (VpnConfiguration_activate c r)) (\<lambda>c'. bindT (vpn_save_entity c') (\<lambda>_. m c'))) (acc_done now s0)"
  by (rule op_then_save [where e = True]) (rule activate_life, assumption, simp)

lemma acc_finish_revoke:
  "(\<And>c'. preserves (acc now s0 (\<lambda>_. True)) (m c')) \<Longrightarrow>
     hoare (acc now s0 (\<lambda>t. C t \<and> holds_row c t))
       (bindT (liftT (VpnConfiguration_revoke c at)) (\<lambda>c'. bindT (vpn_save_entity c') (\<lambda>_. m c'))) (acc_done now s0)"
  by (rule op_then_save [where e = False]) (rule revoke_life, assumption, simp)

lemma acc_cancel:
  "life_ok (life_of c) \<Longrightarrow> (\<And>c'. preserves (acc now s0 (\<lambda>_. True)) (m c')) \<Longrightarrow>
     hoare (acc now s0 (\<lambda>t. C t \<and> holds_row c t))
       (bindT (liftT (VpnConfiguration_cancel_provisioning_for_revoke c)) (\<lambda>c'. bindT (vpn_save_entity c') (\<lambda>_. m c'))) (acc_done now s0)"
  by (rule op_then_save [where e = False]) (rule cancel_life, assumption+, simp)

lemma acc_failures:
  assumes "life_ok (life_of c)"
  shows "hoare (acc now s0 (\<lambda>t. C t \<and> holds_row c t)) (bindT (liftT (VpnConfiguration_fail_provisioning c)) vpn_save_entity) (acc_done now s0)"
    and "hoare (acc now s0 (\<lambda>t. C t \<and> holds_row c t)) (bindT (liftT (VpnConfiguration_fail_revoke c)) vpn_save_entity) (acc_done now s0)"
  by (rule op_then_save_only, rule fail_provisioning_life fail_revoke_life, assumption, rule assms)+

lemma acc_recover_revoke:
  "hoare (acc now s0 (\<lambda>t. C t \<and> holds_row c t)) (recover_succeeded_revoke c at) (acc_done now s0)"
  unfolding recover_succeeded_revoke_def by (intro hoare_option hoare_raiseT acc_finish_revoke preserves_intros)

definition recovered :: "revoke_plan option \<Rightarrow> bool" where
  "recovered p = (case p of None \<Rightarrow> False | Some q \<Rightarrow> is_recovery q)"

lemma recover_revoke_plan: "recover_succeeded_revoke c at s = Inr (p, s') \<Longrightarrow> is_recovery p"
  by (auto simp: recover_succeeded_revoke_def bindT_Inr split: option.splits)

lemma acc_existing_revoke:
  "hoare (acc now s0 (\<lambda>t. C t \<and> holds_row c t)) (existing_current_revoke_task c row at)
     (\<lambda>p. if recovered p then acc now s0 (\<lambda>_. True) else acc now s0 (\<lambda>t. C t \<and> holds_row c t))"
  (is "hoare ?P _ ?Q")
proof -
  have keep: "hoare ?P (retT p) ?Q" if "\<not> recovered p" for p
    using that by (simp add: hoare_retT)
  have rec: "hoare ?P (bindT (recover_succeeded_revoke c at) (\<lambda>p. retT (Some p))) ?Q"
    using hoareD [OF acc_recover_revoke] recover_revoke_plan by (fastforce simp: hoare_def bindT_Inr recovered_def)
  show ?thesis
    unfolding existing_current_revoke_task_def
    by (intro hoare_option hoare_branch rec keep hoare_seq [OF acc_frame_reads(7)] hoare_seq [OF acc_frame_reads(10)])
       (simp_all add: recovered_def)
qed

lemma PanelRevoke_node_task:
  assumes "\<And>t. C t \<Longrightarrow> linked_to (Some v) (Some sid) t"
  shows "preserves (acc now s0 C) (revoke_node_task cfg u row v sid g at)"
proof (cases "en_node_id (cf_endpoint row)")
  case (Some n)
  then show ?thesis
    unfolding revoke_node_task_def Let_def
    using assms by (auto intro!: preserves_op acc_add_ntask dest!: NodeTask_post_init_links)
qed (auto simp: revoke_node_task_def intro: preserves_intros)

lemma PanelRevokeTask_post_init_links:
  "PanelRevokeTask_post_init t = Inr t' \<Longrightarrow> pr_vpn_configuration_id t' = pr_vpn_configuration_id t \<and>
     pr_subscription_id t' = pr_subscription_id t \<and> pr_vpn_generation t' = pr_vpn_generation t"
  by (auto simp: PanelRevokeTask_post_init_def bindE_eq_Inr Let_def)

lemma acc_plan_revoke:
  assumes "\<And>t. C t \<Longrightarrow> linked_to (Some v) (Some sid) t" and "\<And>t. C t \<Longrightarrow> withdrawn_at v sid (vc_generation c) t"
  shows "preserves (acc now s0 C) (plan_revoke_task cfg u v sid c at)"
proof -
  have "preserves (acc now s0 C) (revoke_panel_task cfg u row v sid (vc_generation c) at)" for row
    unfolding revoke_panel_task_def
    using assms(2) by (auto intro!: preserves_op acc_add_prev dest!: PanelRevokeTask_post_init_links)
  then show ?thesis
    unfolding plan_revoke_task_def by (intro preserves_intros PanelRevoke_node_task assms(1))
qed

text \<open>A configuration saved as withdrawn is withdrawn at its new generation, and so may get a panel task that revokes it.\<close>

lemma linked_holds:
  "linked_to (Some i) sub t \<Longrightarrow> holds_row c t \<Longrightarrow> vc_id c = Some i \<Longrightarrow> sub = Some (vc_subscription_id c)"
  by (simp add: linked_to_def holds_row_def)

lemma hoare_acc_fact: "(\<And>t. C t \<Longrightarrow> b) \<Longrightarrow> (b \<Longrightarrow> hoare (acc now s0 C) m Q) \<Longrightarrow> hoare (acc now s0 C) m Q"
  unfolding hoare_def acc_def by blast

lemma withdraw_wanted:
  "withdraw_configuration c = Inr (Some c') \<Longrightarrow> life_ok (life_of c) \<Longrightarrow> vc_desired_state c' = VD_REVOKED"
  by (auto simp: withdraw_configuration_def vpn_ops bindE_eq_Inr life_of_def life_ok_def
      split: VpnConfigurationStatus.splits VpnDesiredState.splits)

lemma saved_withdrawn:
  "saved_as c t \<Longrightarrow> vc_id c = Some v \<Longrightarrow> vc_desired_state c = VD_REVOKED \<Longrightarrow> withdrawn_at v (vc_subscription_id c) (vc_generation c) t"
  by (auto simp: saved_as_def withdrawn_at_def same_access_def life_of_def)

lemma acc_withdraw:
  assumes "life_ok (life_of c)" and "vc_id c = Some v"
  shows "hoare (acc now s0 (\<lambda>t. linked_to (Some v) (Some sid) t \<and> holds_row c t)) (withdraw_and_plan cfg u v sid c at) (acc_done now s0)"
proof (rule hoare_acc_fact)
  show "sid = vc_subscription_id c" if "linked_to (Some v) (Some sid) t \<and> holds_row c t" for t
    using linked_holds that assms(2) by blast
  assume sid: "sid = vc_subscription_id c"
  show "hoare (acc now s0 (\<lambda>t. linked_to (Some v) (Some sid) t \<and> holds_row c t)) (withdraw_and_plan cfg u v sid c at) (acc_done now s0)"
    unfolding withdraw_and_plan_def
  proof (intro hoare_branch acc_end [OF preserves_pure(1)] hoare_op hoare_option)
    fix r c' assume w: "withdraw_configuration c = Inr r" "r = Some c'"
    then have c': "same_access c c'" "(life_step False)\<^sup>*\<^sup>* (life_of c) (life_of c')" "vc_desired_state c' = VD_REVOKED"
      using withdraw_life withdraw_wanted assms(1) by blast+
    then have gone: "withdrawn_at v sid (vc_generation c') t" if "saved_as c' t" for t
      using saved_withdrawn [OF that] assms(2) by (simp add: same_access_def sid)
    have "hoare (acc now s0 (\<lambda>t. linked_to (Some v) (Some sid) t \<and> holds_row c t)) (vpn_save_entity c')
        (\<lambda>_. acc now s0 (\<lambda>t. linked_to (Some v) (Some sid) t \<and> saved_as c' t))"
      by (rule acc_save_row [OF kept_linked c'(1,2)]) simp
    then show "hoare (acc now s0 (\<lambda>t. linked_to (Some v) (Some sid) t \<and> holds_row c t)) (bindT (vpn_save_entity c') (\<lambda>_.
        plan_revoke_task cfg u v sid c' at)) (acc_done now s0)"
      by (rule hoare_bindT) (rule acc_end, rule acc_plan_revoke, blast, blast intro: gone)
  qed
qed

lemma with_config_row:
  assumes none: "hoare (acc now s0 C) (f None) Q"
    and some: "\<And>row. hoare (acc now s0 (\<lambda>t. C t \<and> linked_to (Some i) (Some (vc_subscription_id (cf_configuration row))) t)) (f (Some row)) Q"
  shows "hoare (acc now s0 C) (bindT (vpn_get_configuration_with_endpoint i) f) Q"
proof (rule hoareI)
  fix s x s' assume pre: "acc now s0 C s" and run: "bindT (vpn_get_configuration_with_endpoint i) f s = Inr (x, s')"
  obtain r where r: "vpn_get_configuration_with_endpoint i s = Inr (r, s)" and tail: "f r s = Inr (x, s')"
    using run by (auto simp: bindT_Inr vpn_get_configuration_with_endpoint_def)
  show "Q x s'"
  proof (cases r)
    case None
    then show ?thesis using hoareD [OF none pre] tail by simp
  next
    case (Some row)
    then have "vpn_row i (d_vpns s) = Some (cf_configuration row)"
      using r by (auto simp: vpn_get_configuration_with_endpoint_def vpn_row_def split: option.splits)
    then have "acc now s0 (\<lambda>t. C t \<and> linked_to (Some i) (Some (vc_subscription_id (cf_configuration row))) t) s"
      using pre by (simp add: acc_def linked_to_def)
    then show ?thesis using hoareD [OF some] tail Some by simp
  qed
qed

lemma acc_revoke_locked:
  assumes "life_ok (life_of c)" and "vc_id c = Some v"
  shows "hoare (acc now s0 (\<lambda>t. linked_to (Some v) (Some sid) t \<and> holds_row c t)) (revoke_locked cfg u v sid row c at) (acc_done now s0)"
  unfolding revoke_locked_def
proof (rule hoare_bindT [OF acc_existing_revoke])
  fix p
  let ?P = "acc now s0 (\<lambda>t. linked_to (Some v) (Some sid) t \<and> holds_row c t)"
  let ?m = "case p of
       Some plan \<Rightarrow> if is_recovery plan \<or> revoke_is_owned c then retT plan else withdraw_and_plan cfg u v sid c at
     | None \<Rightarrow> withdraw_and_plan cfg u v sid c at"
  have "hoare ?P ?m (acc_done now s0)"
    by (intro hoare_option hoare_branch acc_end [OF preserves_pure(1)] acc_withdraw [OF assms])
  moreover have "hoare (acc now s0 (\<lambda>_. True)) ?m (acc_done now s0)" if "recovered p"
    using that acc_end [OF preserves_pure(1)] by (auto simp: recovered_def split: option.splits)
  ultimately show "hoare (if recovered p then acc now s0 (\<lambda>_. True) else ?P) ?m (acc_done now s0)" by simp
qed

lemma acc_revoke: "hoare (acc now s0 (\<lambda>_. True)) (revoke_prepare_plan cfg u v re at) (acc_done now s0)"
proof -
  have cur: "preserves (acc now s0 C) (access_is_current re v i at)" for C i
    unfolding access_is_current_def by (intro preserves_intros)
  show ?thesis
    unfolding revoke_prepare_plan_def Let_def
  proof (intro with_config_row hoare_known hoare_option hoare_seq [OF cur] acc_end [OF preserves_pure(1)] with_entity)
    fix row :: config_row and c :: VpnConfiguration assume "life_ok (life_of c)" and "vc_id c = Some v"
    note locked = acc_revoke_locked [OF this]
    show "hoare (acc now s0 (\<lambda>t. (True \<and> linked_to (Some v) (Some (vc_subscription_id (cf_configuration row))) t) \<and> holds_row c t))
       (revoke_locked cfg u v (vc_subscription_id (cf_configuration row)) row c at) (acc_done now s0)"
      using locked by simp
  qed
qed

section \<open>Node tasks\<close>

lemma acc_mark_failure: "hoare (acc now s0 C) (mark_configuration_failure t) (acc_done now s0)"
  unfolding mark_configuration_failure_def
  by (intro hoare_known hoare_option with_entity hoare_branch acc_end [OF preserves_pure(1)] acc_failures)

lemma acc_then_retT: "hoare P m (acc_done now s0) \<Longrightarrow> hoare P (bindT m (\<lambda>x. retT (g x))) (acc_done now s0)"
  unfolding hoare_def bindT_Inr by auto

lemma acc_fail_or_retry: "hoare (acc now s0 C) (fail_or_retry b t k r at) (acc_done now s0)"
  unfolding fail_or_retry_def Let_def
  by (intro hoare_seq [OF acc_save_ntask] hoare_branch acc_end [OF preserves_pure(1)] acc_then_retT acc_mark_failure)

lemma acc_dispatch_prepare: "hoare (acc now s0 C) (dispatch_prepare cfg tok i at) (acc_done now s0)"
proof -
  have pre: "hoare (acc now s0 C) (record_preflight_failure cfg t a k at) (acc_done now s0)" for t a k
    unfolding record_preflight_failure_def by (intro hoare_seq [OF acc_frame_writes(2)] acc_then_retT acc_fail_or_retry)
  have claim: "hoare (acc now s0 C) (claim_node_task cfg tok i t n at) (acc_done now s0)" for t n
    unfolding claim_node_task_def case_prod_beta
    by (intro hoare_op hoare_seq [OF acc_save_ntask] hoare_seq [OF acc_frame_writes(1)] hoare_seq [OF acc_frame_reads(11)]
        hoare_option acc_then_retT pre acc_end [OF preserves_pure(1)])
  have later: "hoare (acc now s0 C) (defer_unavailable_node cfg t at k) (acc_done now s0)" for t k
    unfolding defer_unavailable_node_def by (intro acc_end preserves_intros)
  show ?thesis
    unfolding dispatch_prepare_def case_prod_beta
    by (intro hoare_seq [OF acc_frame_reads(9)] hoare_option hoare_seq [OF acc_frame_reads(12)] hoare_branch hoare_raiseT claim later
        acc_end [OF preserves_pure(1)])
qed

lemma node_task_from_row_links:
  "node_task_from_row r = Inr t \<Longrightarrow> nt_vpn_configuration_id t = nt_vpn_configuration_id r \<and> nt_subscription_id t = nt_subscription_id r"
  unfolding node_task_from_row_def by (drule NodeTask_post_init_links) simp

lemma with_node_task:
  assumes none: "hoare (acc now s0 C) (f None) Q"
    and some: "\<And>t. hoare (acc now s0 (linked_to (nt_vpn_configuration_id t) (nt_subscription_id t))) (f (Some t)) Q"
  shows "hoare (acc now s0 C) (bindT (nodes_get_task_entity i) f) Q"
proof (rule hoareI)
  fix s x s' assume pre: "acc now s0 C s" and run: "bindT (nodes_get_task_entity i) f s = Inr (x, s')"
  obtain r where r: "nodes_get_task_entity i s = Inr (r, s)" and tail: "f r s = Inr (x, s')"
    using run by (auto simp: bindT_Inr nodes_get_task_entity_def dest: entityT_state)
  show "Q x s'"
  proof (cases r)
    case None
    then show ?thesis using hoareD [OF none pre] tail by simp
  next
    case (Some t)
    then obtain v where v: "get_row nt_id i (d_ntasks s) = Some v" "node_task_from_row v = Inr t"
      using r by (auto simp: nodes_get_task_entity_def dest!: entityT_SomeD)
    have "v \<in> set (rows (d_ntasks s))" using get_row_key [OF v(1)] by simp
    then have "linked_to (nt_vpn_configuration_id v) (nt_subscription_id v) (d_vpns s)"
      using pre by (auto simp: acc_def access_ok_def ntasks_linked_def list_all_iff)
    then have "acc now s0 (linked_to (nt_vpn_configuration_id t) (nt_subscription_id t)) s"
      using pre node_task_from_row_links [OF v(2)] by (simp add: acc_def)
    then show ?thesis using hoareD [OF some] tail Some by simp
  qed
qed

lemma with_task_period:
  assumes "\<And>p. (\<And>i. sub = Some i \<Longrightarrow> p \<noteq> None \<Longrightarrow> has_current_period now i s0) \<Longrightarrow> hoare (acc now s0 C) (f p) Q"
    and "sub \<noteq> None"
  shows "hoare (acc now s0 C) (bindT (current_period_of sub now) f) Q"
proof -
  obtain i where i: "sub = Some i" using assms(2) by auto
  have "current_period_of sub now = bindT (subscriptions_get_entity i) (\<lambda>_. subscriptions_get_current_period_entity i now)"
    by (simp add: current_period_of_def i)
  then have e: "bindT (current_period_of sub now) f =
      bindT (subscriptions_get_entity i) (\<lambda>_. bindT (subscriptions_get_current_period_entity i now) f)"
    by (auto simp: fun_eq_iff bindT_def split: sum.splits)
  show ?thesis unfolding e by (intro hoare_seq [OF acc_frame_reads(13)] with_period assms(1)) (simp add: i)
qed

lemma acc_cleanup:
  assumes "\<And>t. C t \<Longrightarrow> linked_to (nt_vpn_configuration_id task) (nt_subscription_id task) t"
  shows "hoare (acc now s0 C) (cleanup_after_provision py u task k at g) (acc_done now s0)"
proof -
  have "nt_vpn_configuration_id f = nt_vpn_configuration_id task \<and> nt_subscription_id f = nt_subscription_id task"
    if "revoke_follow_up py u task at g = Inr f" for f
    using that by (auto simp: revoke_follow_up_def bindE_eq_Inr Let_def dest!: NodeTask_post_init_links)
  then show ?thesis
    unfolding cleanup_after_provision_def
    using assms by (intro hoare_op acc_end preserves_bindT acc_add_ntask preserves_option preserves_pure) auto
qed

text \<open>The three outcomes of a provision that succeeded on the node: grant, withdraw for lack of a period, clean up a stale one.\<close>

lemma acc_grant:
  assumes "vc_id c = Some v" and "\<And>i. sub = Some i \<Longrightarrow> has_current_period now i s0"
    and "\<And>c'. preserves (acc now s0 (\<lambda>_. True)) (m c')"
  shows "hoare (acc now s0 (\<lambda>t. linked_to (Some v) sub t \<and> holds_row c t))
       (bindT (liftT (VpnConfiguration_activate c r)) (\<lambda>c'. bindT (vpn_save_entity c') (\<lambda>_. m c'))) (acc_done now s0)"
proof (rule hoare_acc_fact)
  show "sub = Some (vc_subscription_id c)" if "linked_to (Some v) sub t \<and> holds_row c t" for t
    using linked_holds that assms(1) by blast
  assume "sub = Some (vc_subscription_id c)"
  then have "has_current_period now (vc_subscription_id c) s0" by (rule assms(2))
  then show "hoare (acc now s0 (\<lambda>t. linked_to (Some v) sub t \<and> holds_row c t))
       (bindT (liftT (VpnConfiguration_activate c r)) (\<lambda>c'. bindT (vpn_save_entity c') (\<lambda>_. m c'))) (acc_done now s0)"
    by (rule acc_activate) (rule assms(3))
qed

lemma acc_withdraw_late:
  assumes "life_ok (life_of c)"
    and "\<And>c'. hoare (acc now s0 (linked_to v sub)) (m c') (acc_done now s0)"
  shows "hoare (acc now s0 (\<lambda>t. linked_to v sub t \<and> holds_row c t))
       (bindT (liftT (VpnConfiguration_cancel_provisioning_for_revoke c)) (\<lambda>c'.
        bindT (vpn_save_entity (c'\<lparr>vc_remote_client_ref := r c'\<rparr>)) (\<lambda>_. m c'))) (acc_done now s0)"
proof (rule hoare_op)
  fix c' assume "VpnConfiguration_cancel_provisioning_for_revoke c = Inr c'"
  then have "same_access c c'" "(life_step False)\<^sup>*\<^sup>* (life_of c) (life_of c')" using cancel_life assms(1) by blast+
  then have "same_access c (c'\<lparr>vc_remote_client_ref := r c'\<rparr>)"
    "(life_step False)\<^sup>*\<^sup>* (life_of c) (life_of (c'\<lparr>vc_remote_client_ref := r c'\<rparr>))"
    by (simp_all add: same_access_def life_of_def)
  then show "hoare (acc now s0 (\<lambda>t. linked_to v sub t \<and> holds_row c t))
      (bindT (vpn_save_entity (c'\<lparr>vc_remote_client_ref := r c'\<rparr>)) (\<lambda>_. m c')) (acc_done now s0)"
    by (rule save_then [OF kept_linked]) (simp, rule assms(2))
qed

lemma acc_complete_provision:
  assumes v: "nt_vpn_configuration_id task = Some v"
  shows "hoare (acc now s0 (linked_to (Some v) (nt_subscription_id task))) (complete_provision py u task v k now) (acc_done now s0)"
proof (rule hoare_acc_fact)
  show "nt_subscription_id task \<noteq> None" if "linked_to (Some v) (nt_subscription_id task) t" for t
    using that by (auto simp: linked_to_def split: option.splits)
  assume sub: "nt_subscription_id task \<noteq> None"
  have cleanup: "hoare (acc now s0 C) (cleanup_after_provision py u task k now g) (acc_done now s0)"
    if "\<And>t. C t \<Longrightarrow> linked_to (Some v) (nt_subscription_id task) t" for C g
    by (rule acc_cleanup) (use that v in simp)
  show "hoare (acc now s0 (linked_to (Some v) (nt_subscription_id task))) (complete_provision py u task v k now) (acc_done now s0)"
    unfolding complete_provision_def
    by (intro with_task_period [OF _ sub] with_entity hoare_known hoare_raiseT hoare_op [where r = "text_column (nt_remote_client_ref task)"]
        hoare_branch acc_grant acc_withdraw_late cleanup preserves_intros) auto
qed

lemma NodeTask_complete_links:
  "NodeTask_complete t r at = Inr t' \<Longrightarrow> nt_vpn_configuration_id t' = nt_vpn_configuration_id t \<and> nt_subscription_id t' = nt_subscription_id t"
  by (auto simp: NodeTask_complete_def NodeTask_clear_lease_def bindE_eq_Inr Let_def)

lemma acc_complete_revoke: "hoare (acc now s0 C) (complete_revoke t v k at) (acc_done now s0)"
  unfolding complete_revoke_def
  by (intro with_entity hoare_known hoare_branch acc_finish_revoke acc_end [OF preserves_pure(1)] preserves_intros)

lemma acc_finalize_success:
  "hoare (acc now s0 (linked_to (nt_vpn_configuration_id t) (nt_subscription_id t))) (finalize_success py u t r now) (acc_done now s0)"
  unfolding finalize_success_def Let_def
proof (intro hoare_op hoare_seq [OF acc_save_ntask] hoare_option hoare_branch acc_end [OF preserves_pure(1)] acc_complete_revoke)
  fix t' v k assume "NodeTask_complete t r now = Inr t'" and v: "nt_vpn_configuration_id t' = Some v"
  then have "nt_vpn_configuration_id t = Some v" "nt_subscription_id t = nt_subscription_id t'" using NodeTask_complete_links by force+
  then show "hoare (acc now s0 (linked_to (nt_vpn_configuration_id t) (nt_subscription_id t))) (complete_provision py u t' v k now) (acc_done now s0)"
    using acc_complete_provision [OF v] by simp
qed

lemma acc_dispatch_finalize: "hoare (acc now s0 C) (dispatch_finalize py b u pd out now) (acc_done now s0)"
proof -
  have f: "hoare (acc now s0 D) (finalize_transport_failure b t a k now) (acc_done now s0)" for D t a k
    unfolding finalize_transport_failure_def by (intro hoare_seq [OF acc_frame_writes(2)] acc_then_retT acc_fail_or_retry)
  have r: "hoare (acc now s0 (linked_to (nt_vpn_configuration_id t) (nt_subscription_id t))) (finalize_response py b u pd t r now) (acc_done now s0)"
    for t r
    unfolding finalize_response_def Let_def
    by (intro hoare_seq [OF acc_frame_writes(2)] hoare_branch acc_then_retT acc_fail_or_retry acc_finalize_success)
  show ?thesis
    unfolding dispatch_finalize_def
    by (intro hoare_known hoare_option with_node_task hoare_branch hoare_sum acc_end [OF preserves_pure(1)] f r)
qed

lemma acc_recover_stale: "hoare (acc now s0 (\<lambda>_. True)) (recover_stale_tx b at n) (acc_done now s0)"
proof -
  have "hoare (acc now s0 (\<lambda>_. True)) (recover_stale_task b at t r) (acc_done now s0)" for t r
    unfolding recover_stale_task_def Let_def
    by (intro hoare_option hoare_branch acc_end [OF preserves_pure(1)] hoare_seq [OF acc_frame_writes(3)] hoare_op
        hoare_seq [OF acc_save_ntask] acc_then_retT acc_mark_failure)
  then show ?thesis
    unfolding recover_stale_tx_def nodes_list_stale_task_entities_def hoare_preserves by (intro preserves_intros)
qed

section \<open>Panel tasks\<close>

definition mapper_ok :: "panel_mapper \<Rightarrow> bool" where
  "mapper_ok f \<longleftrightarrow> (\<forall>r t. f r = Inr t \<longrightarrow>
     pp_vpn_configuration_id t = pp_vpn_configuration_id r \<and> pp_subscription_id t = pp_subscription_id r)"

lemma mappers_ok: "mapper_ok panel_provision_task_from_row" "mapper_ok PanelProvisionTask_post_init"
  by (auto simp: mapper_ok_def panel_provision_task_from_row_def dest: PanelProvisionTask_post_init_links)

lemma with_panel_task:
  assumes "mapper_ok m" and none: "hoare (acc now s0 C) (f None) Q"
    and some: "\<And>t. hoare (acc now s0 (linked_to (Some (pp_vpn_configuration_id t)) (Some (pp_subscription_id t)))) (f (Some t)) Q"
  shows "hoare (acc now s0 C) (bindT (vpn_get_panel_task_entity m i) f) Q"
proof (rule hoareI)
  fix s x s' assume pre: "acc now s0 C s" and run: "bindT (vpn_get_panel_task_entity m i) f s = Inr (x, s')"
  obtain r where r: "vpn_get_panel_task_entity m i s = Inr (r, s)" and tail: "f r s = Inr (x, s')"
    using run by (auto simp: bindT_Inr vpn_get_panel_task_entity_def dest: entityT_state)
  show "Q x s'"
  proof (cases r)
    case None
    then show ?thesis using hoareD [OF none pre] tail by simp
  next
    case (Some t)
    then obtain v where v: "get_row pp_id i (d_pprov s) = Some v" "m v = Inr t"
      using r by (auto simp: vpn_get_panel_task_entity_def dest!: entityT_SomeD)
    have "v \<in> set (rows (d_pprov s))" using get_row_key [OF v(1)] by simp
    then have "linked_to (Some (pp_vpn_configuration_id v)) (Some (pp_subscription_id v)) (d_vpns s)"
      using pre by (auto simp: acc_def access_ok_def pprov_linked_def list_all_iff)
    then have "acc now s0 (linked_to (Some (pp_vpn_configuration_id t)) (Some (pp_subscription_id t))) s"
      using pre assms(1) v(2) by (simp add: acc_def mapper_ok_def)
    then show ?thesis using hoareD [OF some] tail Some by simp
  qed
qed

lemma acc_panel_frames [preserves_intros]:
  "preserves (acc now s0 C) (panel_prepare m l tok i at)" "preserves (acc now s0 C) (mark_panel_compensation t at k)"
  "preserves (acc now s0 C) (record_compensation_failure m pq k at)" "preserves (acc now s0 C) (recover_panel_provision at t ids)"
  "preserves (acc now s0 C) (panel_revoke_prepare l tok i at)" "preserves (acc now s0 C) (recover_panel_revoke at pr ids)"
  unfolding panel_prepare_def mark_panel_compensation_def record_compensation_failure_def recover_panel_provision_def
    panel_revoke_prepare_def recover_panel_revoke_def
  by (intro preserves_intros)+

lemma acc_fail_current:
  assumes "\<And>c. oc = Some c \<Longrightarrow> life_ok (life_of c) \<and> (\<forall>t. D t \<longrightarrow> holds_row c t)"
  shows "hoare (acc now s0 D) (fail_current_provision t oc) (acc_done now s0)"
proof (cases oc)
  case (Some c)
  then have "life_ok (life_of c)" and held: "\<And>t. D t \<Longrightarrow> True \<and> holds_row c t" using assms by auto
  note fail = acc_pre [OF acc_failures(1) [where C = "\<lambda>_. True", OF this(1)] held]
  show ?thesis unfolding Some fail_current_provision_def
    by (intro hoare_known hoare_branch acc_end [OF preserves_pure(1)] fail) assumption
qed (simp add: fail_current_provision_def acc_end [OF preserves_pure(1)])

lemma acc_panel_activate:
  assumes "has_current_period now (vc_subscription_id c) s0"
  shows "hoare (acc now s0 (\<lambda>t. C t \<and> holds_row c t)) (panel_activate task c at) (acc_done now s0)"
  unfolding panel_activate_def by (intro acc_activate assms preserves_intros)

lemma acc_panel_success:
  assumes "mapper_ok m"
  shows "hoare (acc now s0 C) (panel_finalize_success m pq now) (acc_done now s0)"
  unfolding panel_finalize_success_def
proof (intro with_panel_task [OF assms] hoare_known hoare_raiseT hoare_branch
    acc_end [OF preserves_pure(1)] acc_end [OF acc_panel_frames(2)] acc_panel_frames(2)
    hoare_seq [OF acc_frame_reads(13)] with_period with_entity acc_cancel)
  fix t :: PanelProvisionTask and p and c :: VpnConfiguration
  let ?L = "linked_to (Some (pp_vpn_configuration_id t)) (Some (pp_subscription_id t))"
  assume per: "p \<noteq> None \<longrightarrow> has_current_period now (pp_subscription_id t) s0" and c: "vc_id c = Some (pp_vpn_configuration_id t)"
    and cur: "panel_provision_is_current t c \<and> p \<noteq> None"
  show "hoare (acc now s0 (\<lambda>u. ?L u \<and> holds_row c u)) (panel_activate t c now) (acc_done now s0)"
  proof (rule hoare_acc_fact)
    show "pp_subscription_id t = vc_subscription_id c" if "?L u \<and> holds_row c u" for u
      using linked_holds that c by blast
    assume "pp_subscription_id t = vc_subscription_id c"
    then have "has_current_period now (vc_subscription_id c) s0" using per cur by simp
    then show "hoare (acc now s0 (\<lambda>u. ?L u \<and> holds_row c u)) (panel_activate t c now) (acc_done now s0)" by (rule acc_panel_activate)
  qed
qed

lemma acc_panel_failure: "hoare (acc now s0 C) (panel_finalize_failure m b pq k at) (acc_done now s0)"
  unfolding panel_finalize_failure_def Let_def
  by (intro hoare_seq [OF acc_frame_reads(4)] hoare_option hoare_branch acc_end [OF preserves_pure(1)] hoare_seq [OF acc_save_pprov]
      with_entity acc_then_retT acc_fail_current) simp_all

lemma acc_compensation_outcome:
  assumes "\<And>c. oc = Some c \<Longrightarrow> life_ok (life_of c) \<and> (\<forall>t. D t \<longrightarrow> holds_row c t)"
  shows "hoare (acc now s0 D) (bindT (revoke_cancelled_provision t oc at) (\<lambda>_.
       bindT (if b then fail_current_provision t oc else retT ()) (\<lambda>_. retT k))) (acc_done now s0)"
proof (cases "\<exists>c. oc = Some c \<and> completes_cancelled_provision t c")
  case True
  then obtain c where c: "oc = Some c" "completes_cancelled_provision t c" by blast
  then have "fail_current_provision t oc = retT ()"
    by (simp add: fail_current_provision_def completes_cancelled_provision_def panel_provision_is_current_def)
  then have tail: "(bindT (if b then fail_current_provision t oc else retT ()) (\<lambda>_. retT k)) = retT k"
    by (cases b) (simp_all only: if_True if_False bindT_retT)
  have "hoare (acc now s0 D) (revoke_cancelled_provision t oc at) (acc_done now s0)"
    unfolding c(1) revoke_cancelled_provision_def
    by (rule acc_pre [where D = "\<lambda>t. True \<and> holds_row c t"], intro hoare_known hoare_branch acc_finish_revoke acc_end preserves_intros)
       (use assms c(1) in simp)
  then show ?thesis unfolding tail by (rule acc_then_retT)
next
  case False
  then have "revoke_cancelled_provision t oc at = retT ()" by (simp add: revoke_cancelled_provision_def split: option.splits)
  then have m: "bindT (revoke_cancelled_provision t oc at) (\<lambda>_. bindT (if b then fail_current_provision t oc else retT ()) (\<lambda>_. retT k)) =
      bindT (if b then fail_current_provision t oc else retT ()) (\<lambda>_. retT k)" by simp
  show ?thesis unfolding m by (intro acc_then_retT hoare_branch acc_fail_current assms acc_end [OF preserves_pure(1)])
qed

lemma acc_compensation_success: "hoare (acc now s0 C) (record_compensation_success m pq at) (acc_done now s0)"
  unfolding record_compensation_success_def Let_def
  by (intro hoare_seq [OF acc_frame_reads(4)] hoare_option hoare_branch acc_end [OF preserves_pure(1)] with_entity
      hoare_seq [OF acc_save_pprov] acc_compensation_outcome) simp_all

lemma acc_panel_revoke_success: "hoare (acc now s0 C) (panel_revoke_success pk at) (acc_done now s0)"
  unfolding panel_revoke_success_def
  by (intro hoare_seq [OF acc_frame_reads(6)] hoare_option hoare_branch acc_end [OF preserves_pure(1)] with_entity hoare_op
      hoare_seq [OF acc_save_prev] hoare_known acc_finish_revoke preserves_intros)

lemma acc_panel_revoke_failure: "hoare (acc now s0 C) (panel_revoke_failure b pk k at) (acc_done now s0)"
  unfolding panel_revoke_failure_def Let_def
  by (intro hoare_seq [OF acc_frame_reads(6)] hoare_known hoare_option hoare_branch acc_end [OF preserves_pure(1)] with_entity
      hoare_seq [OF acc_save_prev] acc_then_retT acc_failures)

end
