(* ===== verification/PayFrame.thy ===== *)
theory PayFrame
  imports DispatchRefine
begin

text \<open>
  Frames: the payment side writes no configuration and no task, so what holds of those tables (\<open>on_access Q\<close>) holds afterwards.
\<close>

definition on_access :: "(VpnConfiguration table \<Rightarrow> NodeTask table \<Rightarrow> PanelProvisionTask table \<Rightarrow>
    PanelRevokeTask table \<Rightarrow> bool) \<Rightarrow> db \<Rightarrow> bool" where
  "on_access Q s \<longleftrightarrow> Q (d_vpns s) (d_ntasks s) (d_pprov s) (d_prev s)"

lemma on_access_puts [preserves_intros]:
  "preserves (on_access Q) (put_users u)" "preserves (on_access Q) (put_contacts c)" "preserves (on_access Q) (put_tariffs ta)"
  "preserves (on_access Q) (put_orders od)" "preserves (on_access Q) (put_attempts a)" "preserves (on_access Q) (put_events e)"
  "preserves (on_access Q) (put_txns x)" "preserves (on_access Q) (put_inbox w)" "preserves (on_access Q) (put_subs su)"
  "preserves (on_access Q) (put_periods p)" "preserves (on_access Q) (put_audit au)" "preserves (on_access Q) (put_nodes n)"
  "preserves (on_access Q) (put_nstatus st)" "preserves (on_access Q) (put_creds cr)" "preserves (on_access Q) (put_servers sv)"
  "preserves (on_access Q) (put_endpoints en)" "preserves (on_access Q) (put_leases l)"
  unfolding put_users_def put_contacts_def put_tariffs_def put_orders_def put_attempts_def put_events_def put_txns_def put_inbox_def
    put_subs_def put_periods_def put_audit_def put_nodes_def put_nstatus_def put_creds_def put_servers_def put_endpoints_def put_leases_def
  by (rule preserves_writeT, simp add: on_access_def)+

lemma frame_payment_reads [preserves_intros]:
  "preserves (on_access Q) (payments_get_order_by_idempotency k)" "preserves (on_access Q) (payments_get_order_entity i)"
  "preserves (on_access Q) (payments_get_latest_attempt_entity i)" "preserves (on_access Q) (payments_get_attempt_entity i)"
  "preserves (on_access Q) (payments_get_attempt_entity_by_provider_payment_id k l)" "preserves (on_access Q) (payments_get_event_entity i)"
  "preserves (on_access Q) (payments_sum_provider_transactions i k l m)" "preserves (on_access Q) (subscriptions_get_entity i)"
  "preserves (on_access Q) (subscriptions_get_active_entity_for_user i)" "preserves (on_access Q) (subscriptions_get_last_period_entity i)"
  "preserves (on_access Q) (subscriptions_get_current_period_entity i t)" "preserves (on_access Q) (subscriptions_get_period_by_payment_order_id i)"
  "preserves (on_access Q) (subscriptions_has_funded_period_after i t)" "preserves (on_access Q) (vpn_get_active_entity_for_subscription i)"
  "preserves (on_access Q) (admin_get_tariff_entity i)" "preserves (on_access Q) (users_get_entity_by_contact k l)"
  "preserves (on_access Q) (users_get_user_by_contact k l)"
  unfolding payments_get_order_by_idempotency_def payments_get_order_entity_def payments_get_order_def payments_get_latest_attempt_entity_def
    payments_get_attempt_entity_def payments_get_attempt_entity_by_provider_payment_id_def payments_get_event_entity_def
    payments_sum_provider_transactions_def subscriptions_get_entity_def subscriptions_get_active_entity_for_user_def
    subscriptions_get_last_period_entity_def subscriptions_get_current_period_entity_def subscriptions_get_period_by_payment_order_id_def
    subscriptions_has_funded_period_after_def vpn_get_active_entity_for_subscription_def admin_get_tariff_entity_def
    users_get_entity_by_contact_def users_get_user_by_contact_def
  by (intro preserves_intros)+

lemma frame_payment_writes [preserves_intros]:
  "preserves (on_access Q) (payments_create_order od)" "preserves (on_access Q) (payments_save_order_entity od)"
  "preserves (on_access Q) (payments_create_attempt a)" "preserves (on_access Q) (payments_save_attempt_entity a)"
  "preserves (on_access Q) (payments_save_webhook_inbox k l h d)" "preserves (on_access Q) (payments_mark_webhook_inbox_status oi es er t)"
  "preserves (on_access Q) (payments_create_payment_event e)" "preserves (on_access Q) (payments_save_event_entity e)"
  "preserves (on_access Q) (payments_create_provider_transaction i oi k l m n j cu pl)" "preserves (on_access Q) (subscriptions_save_period_entity p)"
  "preserves (on_access Q) (subscriptions_add_entity su)" "preserves (on_access Q) (subscriptions_save_entity su)"
  "preserves (on_access Q) (subscriptions_add_period_entity p)" "preserves (on_access Q) (audit_append ev ag i pl)"
  "preserves (on_access Q) (admin_create_tariff k pm cu du ds b)" "preserves (on_access Q) (users_create_user nm)"
  "preserves (on_access Q) (users_upsert_contact i k l b)"
  unfolding payments_create_order_def payments_save_order_entity_def payments_create_attempt_def payments_save_attempt_entity_def
    payments_save_webhook_inbox_def payments_mark_webhook_inbox_status_def payments_create_payment_event_def payments_save_event_entity_def
    payments_create_provider_transaction_def subscriptions_save_period_entity_def subscriptions_add_entity_def subscriptions_save_entity_def
    subscriptions_add_period_entity_def audit_append_def admin_create_tariff_def users_create_user_def users_upsert_contact_def Let_def
  by (intro preserves_intros)+

section \<open>Settlement, creation, webhooks\<close>

lemma on_access_settle [preserves_intros]: "preserves (on_access Q) (settle_order od i now)"
  unfolding settle_order_def ActivateSubscription_execute_def last_period_of_active_def persist_activation_def
    emit_subscription_activated_def Let_def
  by (intro preserves_intros)

lemma frame_events [preserves_intros]:
  "preserves (on_access Q) (reject_paid_event e now k)" "preserves (on_access Q) (ignore_event e now)"
  unfolding reject_paid_event_def ignore_event_def by (intro preserves_intros)+

lemma frame_refund [preserves_intros]: "preserves (on_access Q) (process_refund e now)"
  unfolding process_refund_def book_refund_def refund_entitlement_def withdraw_period_def vpn_to_revoke_def expire_if_unfunded_def Let_def
  by (intro preserves_intros)

lemma frame_process_paid [preserves_intros]: "preserves (on_access Q) (process_paid e od oa now)"
  unfolding process_paid_def book_paid_def Let_def case_prod_beta by (intro preserves_intros)

lemma frame_process_unsuccessful [preserves_intros]: "preserves (on_access Q) (process_unsuccessful e od oa st now)"
  unfolding process_unsuccessful_def finish_unsuccessful_def Let_def case_prod_beta by (intro preserves_intros)

lemma frame_resolved: "preserves (on_access Q) (process_resolved r now)"
  by (cases r) (simp_all add: process_resolved_def preserves_pure, unfold Let_def, intro preserves_intros)

lemma frame_process_payment: "preserves (on_access Q) (process_payment_tx i now)"
  unfolding process_payment_tx_def resolve_context_def resolve_paid_context_def resolve_unpaid_context_def resolve_order_reference_def
    Let_def case_prod_beta
  by (intro preserves_intros frame_resolved)

lemma frame_mark_paid: "preserves (on_access Q) (mark_payment_order_paid_tx i now)"
  unfolding mark_payment_order_paid_tx_def settle_manually_def Let_def case_prod_beta by (intro preserves_intros)

lemma frame_requesting_user [preserves_intros]: "preserves (on_access Q) (requesting_user rq)"
  unfolding requesting_user_def users_register_telegram_entity_def users_register_telegram_user_def users_claim_telegram_id_contact_def
    users_note_username_def Let_def
  by (intro preserves_intros)

lemma frame_prepare_order: "preserves (on_access Q) (prepare_order l rq tok now)"
  unfolding prepare_order_def requested_tariff_def resolve_order_def payments_add_order_entity_def attempt_for_order_def
    reusable_attempt_def claim_attempt_def payments_add_attempt_entity_def Let_def case_prod_beta
  by (intro preserves_intros)

lemma frame_claims: "preserves (on_access Q) (finalize_owned_claim od oi tok intent now)" "preserves (on_access Q) (fail_owned_claim oi tok now)"
  unfolding finalize_owned_claim_def fail_owned_claim_def by (intro preserves_intros)+

lemma frame_ingest: "preserves (on_access Q) (ingest_tx provider headers n d now)"
  unfolding ingest_tx_def attempt_of_webhook_def Let_def by (intro preserves_intros)

section \<open>Maintenance and administration\<close>

lemma frame_expire_subscription: "preserves (on_access Q) (expire_subscription i now)"
  unfolding expire_subscription_def by (intro preserves_intros)

lemma frame_leases:
  "preserves (on_access Q) (maintenance_acquire_lease k tok now l)" "preserves (on_access Q) (maintenance_renew_lease k tok now l)"
  "preserves (on_access Q) (maintenance_release_lease k tok)"
  unfolding maintenance_acquire_lease_def maintenance_renew_lease_def maintenance_release_lease_def Let_def by (intro preserves_intros)+

lemma frame_claim_probes [preserves_intros]: "preserves (on_access Q) (claim_probes e ts)"
proof (induction ts)
  case (Cons x ts)
  obtain tok r n where x: "x = (tok, r, n)" by (cases x)
  show ?case unfolding x claim_probes.simps by (intro preserves_intros Cons)
qed (unfold claim_probes.simps, rule preserves_pure)

lemma frame_health [preserves_intros]:
  "preserves (on_access Q) (nodes_claim_due_probe_targets fr now d n l)" "preserves (on_access Q) (nodes_finalize_probe i tok p now)"
  "preserves (on_access Q) (nodes_upsert_node_status i p now f)" "preserves (on_access Q) (nodes_mark_node_unreachable i k now)"
  unfolding nodes_claim_due_probe_targets_def nodes_finalize_probe_def nodes_upsert_node_status_def nodes_mark_node_unreachable_def
    update_nodes_row_def Let_def
  by (intro preserves_intros)+

lemma frame_probes:
  "preserves (on_access Q) (sync_select cfg fr oi now)" "preserves (on_access Q) (record_snapshot t h now)"
  "preserves (on_access Q) (record_offline t k now)"
proof -
  show "preserves (on_access Q) (sync_select cfg fr oi now)"
    unfolding sync_select_def nodes_get_node_def by (intro preserves_intros)
  show "preserves (on_access Q) (record_snapshot t h now)" "preserves (on_access Q) (record_offline t k now)"
    by (cases t; simp add: record_snapshot_def record_offline_def; intro preserves_intros)+
qed

lemma frame_node_admin:
  "preserves (on_access Q) (nodes_create_node k d u b w)" "preserves (on_access Q) (nodes_create_credential i k se b e)"
  "preserves (on_access Q) (servers_create_server k h b)" "preserves (on_access Q) (servers_create_server_endpoint er)"
  unfolding nodes_create_node_def nodes_create_credential_def servers_create_server_def servers_create_server_endpoint_def
    servers_get_endpoint_with_server_def Let_def
  by (intro preserves_intros)+

end
