(* ===== verification/Shop.thy ===== *)
theory Shop
  imports PayFrame
begin

text \<open>
  The whole shop as a transition system. A step is one committed database transaction of any handler, with arguments chosen by
  the environment (requests, webhooks, queue, clock readings, random choices), or the passing of time. \<open>access_step now\<close> collects the
  transactions that touch VPN access; \<open>now\<close> is the clock reading they use. Transactions that roll back change nothing and are no steps.

  The combined invariant \<open>shop_inv\<close> holds initially and is kept by every step; between any two states of a run the configurations
  follow the specification of \<open>AccessLife\<close>. The handlers that consist of several transactions, with any steps of other workers in
  between, are runs of this system.
\<close>

section \<open>Steps\<close>

inductive access_step :: "time \<Rightarrow> db \<Rightarrow> db \<Rightarrow> bool" for now where
  provision: "provision_prepare_plan f cfg rb u v i now s = Inr (x, s') \<Longrightarrow> access_step now s s'"
| revoke: "revoke_prepare_plan rcfg u i reason now s = Inr (x, s') \<Longrightarrow> access_step now s s'"
| node_claim: "dispatch_prepare dcfg tok i now s = Inr (x, s') \<Longrightarrow> access_step now s s'"
| node_outcome: "dispatch_finalize py b u pd out now s = Inr (x, s') \<Longrightarrow> access_step now s s'"
| node_recovery: "recover_stale_tx b now n s = Inr (x, s') \<Longrightarrow> access_step now s s'"
| panel_claim: "panel_prepare f l tok i now s = Inr (x, s') \<Longrightarrow> access_step now s s'"
| panel_success: "mapper_ok f \<Longrightarrow> panel_finalize_success f pq now s = Inr (x, s') \<Longrightarrow> access_step now s s'"
| panel_failure: "panel_finalize_failure f b pq k now s = Inr (x, s') \<Longrightarrow> access_step now s s'"
| compensation_success: "record_compensation_success f pq now s = Inr (x, s') \<Longrightarrow> access_step now s s'"
| compensation_failure: "record_compensation_failure f pq k now s = Inr (x, s') \<Longrightarrow> access_step now s s'"
| panel_recovery: "panel_recover_stale f enq now n s = (Inr x, s') \<Longrightarrow> access_step now s s'"
| panel_revoke_claim: "panel_revoke_prepare l tok i now s = Inr (x, s') \<Longrightarrow> access_step now s s'"
| panel_revoke_ok: "panel_revoke_success pk now s = Inr (x, s') \<Longrightarrow> access_step now s s'"
| panel_revoke_failed: "panel_revoke_failure b pk k now s = Inr (x, s') \<Longrightarrow> access_step now s s'"
| panel_revoke_recovery: "panel_revoke_recover_stale enq now n s = (Inr x, s') \<Longrightarrow> access_step now s s'"
| journal_retired: "nodes_mark_task_journal_retired i k now s = Inr (x, s') \<Longrightarrow> access_step now s s'"

inductive shop_step :: "db \<Rightarrow> db \<Rightarrow> bool" where
  access: "access_step now s s' \<Longrightarrow> shop_step s s'"
| payment_event: "process_payment_tx i now s = Inr (x, s') \<Longrightarrow> shop_step s s'"
| manual_settlement: "mark_payment_order_paid_tx i now s = Inr (x, s') \<Longrightarrow> shop_step s s'"
| payment_request: "prepare_order l rq tok now s = Inr (x, s') \<Longrightarrow> shop_step s s'"
| invoice_created: "finalize_owned_claim od oi tok intent now s = Inr (x, s') \<Longrightarrow> shop_step s s'"
| invoice_failed: "fail_owned_claim oi tok now s = Inr (x, s') \<Longrightarrow> shop_step s s'"
| webhook: "ingest_tx provider headers n d now s = Inr (x, s') \<Longrightarrow> shop_step s s'"
| user: "users_register_telegram_entity tid nick name s = Inr (x, s') \<Longrightarrow> shop_step s s'"
| tariff: "admin_create_tariff k pm cu period descr b s = Inr (x, s') \<Longrightarrow> shop_step s s'"
| subscription_end: "expire_subscription i now s = Inr (x, s') \<Longrightarrow> shop_step s s'"
| lease_acquired: "maintenance_acquire_lease k tok now l s = Inr (x, s') \<Longrightarrow> shop_step s s'"
| lease_renewed: "maintenance_renew_lease k tok now l s = Inr (x, s') \<Longrightarrow> shop_step s s'"
| lease_released: "maintenance_release_lease k tok s = Inr (x, s') \<Longrightarrow> shop_step s s'"
| probe_claim: "sync_select scfg fresh oi now s = Inr (x, s') \<Longrightarrow> shop_step s s'"
| probe_snapshot: "record_snapshot target h now s = Inr (x, s') \<Longrightarrow> shop_step s s'"
| probe_offline: "record_offline target k now s = Inr (x, s') \<Longrightarrow> shop_step s s'"
| new_node: "NodeAdministration_create_node fresh_secret nk dn url en w key secret s = (Inr x, s') \<Longrightarrow> shop_step s s'"
| new_server: "servers_create_server k h b s = Inr (x, s') \<Longrightarrow> shop_step s s'"
| new_endpoint: "servers_create_server_endpoint er s = Inr (x, s') \<Longrightarrow> shop_step s s'"
| tick: "d_clock s \<le> t \<Longrightarrow> shop_step s (s\<lparr>d_clock := t\<rparr>)"

section \<open>Access\<close>

lemma acc_start: "access_ok s \<Longrightarrow> acc now s (\<lambda>_. True) s"
  by (simp add: acc_def vpns_follow_refl)

lemma acc_recoveries:
  "preserves (acc now s0 C) (bindT (vpn_list_stale_panel_task_entities f at n) (\<lambda>tasks.
     bindT (foldT (recover_panel_provision at) tasks []) (\<lambda>ids. retT (g ids))))"
  "preserves (acc now s0 C) (bindT (vpn_list_stale_panel_revoke_task_entities at n) (\<lambda>tasks.
     bindT (foldT (recover_panel_revoke at) tasks []) (\<lambda>ids. retT (g ids))))"
  unfolding vpn_list_stale_panel_task_entities_def vpn_list_stale_panel_revoke_task_entities_def by (intro preserves_intros)+

lemma access_step_acc:
  assumes "access_step now s s'" and "access_ok s"
  shows "acc now s (\<lambda>_. True) s'"
  using assms
proof (induction rule: access_step.induct)
  case (panel_recovery f enq n s x s')
  show ?case
    by (rule preservesD [OF acc_recoveries(1) acc_start [OF panel_recovery(2)] panel_recovery(1) [unfolded panel_recover_stale_def run_uow_Inr]])
next
  case (panel_revoke_recovery enq n s x s')
  show ?case
    by (rule preservesD [OF acc_recoveries(2) acc_start [OF panel_revoke_recovery(2)] panel_revoke_recovery(1) [unfolded panel_revoke_recover_stale_def run_uow_Inr]])
qed (rule hoareD [OF acc_provision acc_start] hoareD [OF acc_revoke acc_start] hoareD [OF acc_dispatch_prepare acc_start]
    hoareD [OF acc_dispatch_finalize acc_start] hoareD [OF acc_recover_stale acc_start] preservesD [OF acc_panel_frames(1) acc_start]
    hoareD [OF acc_panel_success acc_start] hoareD [OF acc_panel_failure acc_start] hoareD [OF acc_compensation_success acc_start]
    preservesD [OF acc_panel_frames(3) acc_start] preservesD [OF acc_panel_frames(5) acc_start] hoareD [OF acc_panel_revoke_success acc_start]
    hoareD [OF acc_panel_revoke_failure acc_start] preservesD [OF acc_journal_retired acc_start]; assumption)+

definition follows :: "db \<Rightarrow> db \<Rightarrow> bool" where
  "follows s s' \<longleftrightarrow> (access_ok s \<longrightarrow> access_ok s' \<and> vpns_follow (\<lambda>_. True) (d_vpns s) (d_vpns s'))"

lemma access_step_follows: "access_step now s s' \<Longrightarrow> follows s s'"
  unfolding follows_def using access_step_acc vpns_follow_mono by (fastforce simp: acc_def)

lemma access_view: "access_ok s \<longleftrightarrow> on_access (\<lambda>v n p r. vpns_ok v \<and> vpns_constraints v \<and> ntasks_constraints n \<and>
     list_all (\<lambda>t. linked_to (nt_vpn_configuration_id t) (nt_subscription_id t) v) (rows n) \<and>
     list_all (\<lambda>t. linked_to (Some (pp_vpn_configuration_id t)) (Some (pp_subscription_id t)) v) (rows p) \<and>
     list_all (\<lambda>t. withdrawn_at (pr_vpn_configuration_id t) (pr_subscription_id t) (pr_vpn_generation t) v) (rows r)) s"
  by (simp add: access_ok_def on_access_def tasks_linked)

lemma frame_follows:
  assumes "\<And>Q. preserves (on_access Q) m" and "m s = Inr (x, s')"
  shows "follows s s'"
proof -
  have "d_vpns s' = d_vpns s"
    using preservesD [OF assms(1) [of "\<lambda>v n p r. v = d_vpns s"] _ assms(2)] by (simp add: on_access_def)
  moreover have "access_ok s'" if "access_ok s"
    using preservesD [OF assms(1) _ assms(2)] that unfolding access_view by blast
  ultimately show ?thesis by (simp add: follows_def vpns_follow_refl)
qed

lemma frame_users: "preserves (on_access Q) (users_register_telegram_entity tid nick name)"
  unfolding users_register_telegram_entity_def users_register_telegram_user_def users_claim_telegram_id_contact_def
    users_note_username_def Let_def
  by (intro preserves_intros)

lemma frame_create_node:
  "preserves (on_access Q) (bindT (nodes_create_node nk dn url en w) (\<lambda>node.
     bindT (nodes_create_credential (opt_id (no_id node)) key secret True None) (\<lambda>credential. retT (node, credential))))"
  by (intro preserves_intros frame_node_admin)

lemma shop_step_follows: "shop_step s s' \<Longrightarrow> follows s s'"
proof (induction rule: shop_step.induct)
  case (access now s s')
  then show ?case by (rule access_step_follows)
next
  case (new_node fresh_secret nk dn url en w key secret s x s')
  then show ?case using frame_follows [OF frame_create_node] unfolding NodeAdministration_create_node_def run_uow_Inr by blast
next
  case (tick s t)
  have "access_ok (s\<lparr>d_clock := t\<rparr>) = access_ok s" by (simp add: access_view on_access_def)
  then show ?case by (simp add: follows_def vpns_follow_refl)
qed (rule frame_follows [OF frame_process_payment] frame_follows [OF frame_mark_paid] frame_follows [OF frame_prepare_order]
    frame_follows [OF frame_claims(1)] frame_follows [OF frame_claims(2)] frame_follows [OF frame_ingest] frame_follows [OF frame_users]
    frame_follows [OF frame_payment_writes(15)] frame_follows [OF frame_expire_subscription] frame_follows [OF frame_leases(1)]
    frame_follows [OF frame_leases(2)] frame_follows [OF frame_leases(3)] frame_follows [OF frame_probes(1)]
    frame_follows [OF frame_probes(2)] frame_follows [OF frame_probes(3)] frame_follows [OF frame_node_admin(3)]
    frame_follows [OF frame_node_admin(4)]; assumption)+

lemma follows_trans: "follows s t \<Longrightarrow> follows t u \<Longrightarrow> follows s u"
  unfolding follows_def using vpns_follow_trans by blast

lemma shop_steps_follow: "shop_step\<^sup>*\<^sup>* s s' \<Longrightarrow> follows s s'"
proof (induction rule: rtranclp_induct)
  case base
  then show ?case by (simp add: follows_def vpns_follow_refl)
next
  case (step t u)
  then show ?case using follows_trans shop_step_follows by blast
qed

section \<open>Payments\<close>

lemma pay_recoveries:
  "preserves pay_inv (bindT (vpn_list_stale_panel_task_entities f at n) (\<lambda>tasks.
     bindT (foldT (recover_panel_provision at) tasks []) (\<lambda>ids. retT (g ids))))"
  "preserves pay_inv (bindT (vpn_list_stale_panel_revoke_task_entities at n) (\<lambda>tasks.
     bindT (foldT (recover_panel_revoke at) tasks []) (\<lambda>ids. retT (g ids))))"
  by (rule pay_inv_preserves, intro preserves_intros)+

lemmas pay_inv_access =
  preservesD [OF pay_inv_preserves [OF keeps_provision]] preservesD [OF pay_inv_preserves [OF keeps_revoke]]
  preservesD [OF pay_inv_preserves [OF keeps_dispatch_prepare]] preservesD [OF pay_inv_preserves [OF keeps_dispatch_finalize]]
  preservesD [OF pay_inv_preserves [OF keeps_recover_stale]] preservesD [OF pay_inv_preserves [OF keeps_panel(1)]]
  preservesD [OF pay_inv_preserves [OF keeps_panel(2)]] preservesD [OF pay_inv_preserves [OF keeps_panel(3)]]
  preservesD [OF pay_inv_preserves [OF keeps_panel(4)]] preservesD [OF pay_inv_preserves [OF keeps_panel(5)]]
  preservesD [OF pay_inv_preserves [OF keeps_panel_revoke(1)]] preservesD [OF pay_inv_preserves [OF keeps_panel_revoke(2)]]
  preservesD [OF pay_inv_preserves [OF keeps_panel_revoke(3)]] preservesD [OF pay_inv_preserves [OF keeps_node_repo(13)]]

lemma access_step_pay: "access_step now s s' \<Longrightarrow> pay_inv s \<Longrightarrow> pay_inv s'"
proof (induction rule: access_step.induct)
  case (panel_recovery f enq n s x s')
  show ?case
    by (rule preservesD [OF pay_recoveries(1) panel_recovery(2) panel_recovery(1) [unfolded panel_recover_stale_def run_uow_Inr]])
next
  case (panel_revoke_recovery enq n s x s')
  show ?case
    by (rule preservesD [OF pay_recoveries(2) panel_revoke_recovery(2) panel_revoke_recovery(1) [unfolded panel_revoke_recover_stale_def run_uow_Inr]])
qed (rule pay_inv_access; assumption)+

lemma pay_users: "preserves pay_inv (users_register_telegram_entity tid nick name)"
  unfolding users_register_telegram_entity_def users_register_telegram_user_def users_get_entity_by_contact_def
    users_get_user_by_contact_def users_create_user_def users_claim_telegram_id_contact_def users_note_username_def
    users_upsert_contact_def Let_def
  by (intro pay_inv_preserves preserves_intros)

lemma pay_create_node:
  "preserves pay_inv (bindT (nodes_create_node nk dn url en w) (\<lambda>node.
     bindT (nodes_create_credential (opt_id (no_id node)) key secret True None) (\<lambda>credential. retT (node, credential))))"
  by (intro pay_inv_preserves preserves_intros)

lemmas pay_inv_shop =
  preservesD [OF pay_inv_process_payment] preservesD [OF pay_inv_mark_paid] preservesD [OF pay_inv_prepare_order]
  preservesD [OF pay_inv_finalize] preservesD [OF pay_inv_fail_claim] preservesD [OF pay_inv_ingest] preservesD [OF pay_users]
  preservesD [OF pay_inv_preserves [OF keeps_server_repo(10)]] preservesD [OF pay_inv_preserves [OF keeps_expire_subscription]]
  preservesD [OF pay_inv_preserves [OF keeps_server_repo(6)]] preservesD [OF pay_inv_preserves [OF keeps_server_repo(7)]]
  preservesD [OF pay_inv_preserves [OF keeps_server_repo(8)]] preservesD [OF pay_inv_preserves [OF keeps_node_admin(3)]]
  preservesD [OF pay_inv_preserves [OF keeps_node_admin(1)]] preservesD [OF pay_inv_preserves [OF keeps_node_admin(2)]]
  preservesD [OF pay_inv_preserves [OF keeps_server_repo(1)]] preservesD [OF pay_inv_preserves [OF keeps_server_repo(2)]]

lemma shop_step_pay: "shop_step s s' \<Longrightarrow> pay_inv s \<Longrightarrow> pay_inv s'"
proof (induction rule: shop_step.induct)
  case (access now s s')
  then show ?case by (rule access_step_pay)
next
  case (new_node fresh_secret nk dn url en w key secret s x s')
  show ?case by (rule preservesD [OF pay_create_node new_node(2) new_node(1) [unfolded NodeAdministration_create_node_def run_uow_Inr]])
next
  case (tick s t)
  then show ?case by (simp add: pay_inv_def pay_inv_except_def)
qed (rule pay_inv_shop; assumption)+

section \<open>Reachable states\<close>

definition shop_inv :: "db \<Rightarrow> bool" where
  "shop_inv s \<longleftrightarrow> pay_inv s \<and> access_ok s"

lemma shop_inv_empty: "shop_inv (empty_db clock)"
  by (simp add: shop_inv_def pay_inv_def pay_inv_except_def access_ok_def vpns_ok_def tasks_linked empty_db_def
      empty_table_def table_wf_def orders_inv_def orders_constraints_def attempts_constraints_def events_constraints_def
      txns_constraints_def subs_inv_def subs_constraints_def periods_inv_def periods_constraints_def linked_except_def paid_order_def
      get_row_def vpns_constraints_def ntasks_constraints_def)

lemma shop_step_inv: "shop_step s s' \<Longrightarrow> shop_inv s \<Longrightarrow> shop_inv s'"
  unfolding shop_inv_def using shop_step_pay shop_step_follows by (auto simp: follows_def)

lemma shop_steps_inv: "shop_step\<^sup>*\<^sup>* s s' \<Longrightarrow> shop_inv s \<Longrightarrow> shop_inv s'"
  by (induction rule: rtranclp_induct) (auto intro: shop_step_inv)

lemma shop_reachable_inv: "shop_step\<^sup>*\<^sup>* (empty_db clock) s \<Longrightarrow> shop_inv s"
  using shop_steps_inv shop_inv_empty by blast

section \<open>Handlers are runs\<close>

lemma uow_step:
  assumes "\<And>x s'. m s = Inr (x, s') \<Longrightarrow> shop_step s s'"
  shows "shop_step\<^sup>*\<^sup>* s (snd (run_uow m s))"
  using assms by (auto simp: run_uow_def split: sum.splits)

lemma access_uow:
  assumes "\<And>x s'. m s = Inr (x, s') \<Longrightarrow> access_step now s s'"
  shows "shop_step\<^sup>*\<^sup>* s (snd (run_uow m s))"
  by (rule uow_step) (rule shop_step.access, rule assms)

text \<open>\<open>others meanwhile\<close>: whatever happens between two transactions of a handler is a run of the shop.\<close>

definition others :: "(db \<Rightarrow> db) \<Rightarrow> bool" where
  "others meanwhile \<longleftrightarrow> (\<forall>s. shop_step\<^sup>*\<^sup>* s (meanwhile s))"

lemma run_node_dispatch:
  assumes "others meanwhile"
  shows "shop_step\<^sup>*\<^sup>* s (snd (DispatchNodeTask_execute py cfg gateway meanwhile tok u i at until s))"
proof -
  have a: "shop_step\<^sup>*\<^sup>* t (snd (run_uow (dispatch_prepare cfg tok i at) t))" for t by (rule access_uow) (rule access_step.node_claim)
  have b: "shop_step\<^sup>*\<^sup>* t (snd (run_uow (dispatch_finalize py b u pd out until) t))" for t b pd out
    by (rule access_uow) (rule access_step.node_outcome)
  obtain r s1 where r: "run_uow (dispatch_prepare cfg tok i at) s = (r, s1)" by fastforce
  then have one: "shop_step\<^sup>*\<^sup>* s s1" using a [of s] by simp
  show ?thesis
  proof (cases "\<exists>pd. r = Inr (Inr pd)")
    case True
    then obtain pd where pd: "r = Inr (Inr pd)" by blast
    obtain q s2 where q: "run_uow (dispatch_finalize py (ds_retry_base_seconds cfg) u pd (dispatch_send gateway pd) until) (meanwhile s1) = (q, s2)"
      by fastforce
    then have "shop_step\<^sup>*\<^sup>* (meanwhile s1) s2" using b by (metis snd_conv)
    then have "shop_step\<^sup>*\<^sup>* s s2" using one assms unfolding others_def by (meson rtranclp_trans)
    then show ?thesis by (simp add: DispatchNodeTask_execute_def r pd q split: sum.splits)
  next
    case False
    then show ?thesis using one by (auto simp: DispatchNodeTask_execute_def r split: sum.splits)
  qed
qed

lemma uow_pair: "run_uow m s = (r, s') \<Longrightarrow> shop_step\<^sup>*\<^sup>* s (snd (run_uow m s)) \<Longrightarrow> shop_step\<^sup>*\<^sup>* s s'"
  by simp

lemma others_then: "others meanwhile \<Longrightarrow> shop_step\<^sup>*\<^sup>* s s1 \<Longrightarrow> shop_step\<^sup>*\<^sup>* (meanwhile s1) s2 \<Longrightarrow> shop_step\<^sup>*\<^sup>* s s2"
  unfolding others_def by (meson rtranclp_trans)

lemma run_create_invoice:
  assumes "others meanwhile" and "shop_step\<^sup>*\<^sup>* s s1"
  shows "shop_step\<^sup>*\<^sup>* s (snd (create_invoice registry meanwhile prepared tok now s1))"
proof -
  have fail: "shop_step\<^sup>*\<^sup>* t (snd (run_uow (fail_owned_claim i tok now) t))" for t i by (rule uow_step) (rule shop_step.invoice_failed)
  have ok: "shop_step\<^sup>*\<^sup>* t (snd (run_uow (finalize_owned_claim od i tok intent now) t))" for t i od intent
    by (rule uow_step) (rule shop_step.invoice_created)
  have "snd (create_invoice registry meanwhile prepared tok now s1) = s1 \<or>
     shop_step\<^sup>*\<^sup>* (meanwhile s1) (snd (create_invoice registry meanwhile prepared tok now s1))"
    using fail [of "meanwhile s1"] ok [of "meanwhile s1"]
    by (auto simp: create_invoice_def split: sum.splits prod.splits) (metis snd_conv)+
  then show ?thesis using assms others_then by metis
qed

lemma run_create_payment:
  assumes "others meanwhile"
  shows "shop_step\<^sup>*\<^sup>* s (snd (CreatePayment_execute registry meanwhile l rq tok now later s))"
proof -
  obtain r s1 where r: "run_uow (prepare_order l rq tok now) s = (r, s1)" by fastforce
  have "shop_step\<^sup>*\<^sup>* s (snd (run_uow (prepare_order l rq tok now) s))" by (rule uow_step) (rule shop_step.payment_request)
  then have one: "shop_step\<^sup>*\<^sup>* s s1" by (simp add: r)
  then show ?thesis using run_create_invoice [OF assms one]
    by (auto simp: CreatePayment_execute_def r split: sum.splits option.splits)
qed

lemma run_panel_revoke:
  assumes "others meanwhile"
  shows "shop_step\<^sup>*\<^sup>* s (snd (DispatchPanelRevokeTask_execute request meanwhile b l tok i at until s))"
proof -
  obtain r s1 where r: "run_uow (panel_revoke_prepare l tok i at) s = (r, s1)" by fastforce
  have "shop_step\<^sup>*\<^sup>* s (snd (run_uow (panel_revoke_prepare l tok i at) s))" by (rule access_uow) (rule access_step.panel_revoke_claim)
  then have one: "shop_step\<^sup>*\<^sup>* s s1" by (simp add: r)
  have "shop_step\<^sup>*\<^sup>* t (snd (run_uow (panel_revoke_failure b pk k until) t))" for t pk k by (rule access_uow) (rule access_step.panel_revoke_failed)
  moreover have "shop_step\<^sup>*\<^sup>* t (snd (run_uow (panel_revoke_success pk until) t))" for t pk by (rule access_uow) (rule access_step.panel_revoke_ok)
  ultimately show ?thesis using one others_then [OF assms one]
    by (auto simp: DispatchPanelRevokeTask_execute_def r split: sum.splits option.splits)
qed

lemma run_compensation:
  assumes "others meanwhile"
  shows "shop_step\<^sup>*\<^sup>* s (snd (dispatch_compensation f request meanwhile pq now s))"
    and "shop_step\<^sup>*\<^sup>* s (compensate_after_local_failure f request meanwhile pq now s)"
proof -
  have fail: "shop_step\<^sup>*\<^sup>* t (snd (run_uow (record_compensation_failure f pq k now) t))" for t k
    by (rule access_uow) (rule access_step.compensation_failure)
  have ok: "shop_step\<^sup>*\<^sup>* t (snd (run_uow (record_compensation_success f pq now) t))" for t
    by (rule access_uow) (rule access_step.compensation_success)
  have later: "shop_step\<^sup>*\<^sup>* (meanwhile s) t \<Longrightarrow> shop_step\<^sup>*\<^sup>* s t" for t
    using others_then [OF assms] by blast
  show "shop_step\<^sup>*\<^sup>* s (compensate_after_local_failure f request meanwhile pq now s)"
    using later fail ok by (simp add: compensate_after_local_failure_def split: option.splits)
  have "snd (dispatch_compensation f request meanwhile pq now s) = compensate_after_local_failure f request meanwhile pq now s"
    by (auto simp: dispatch_compensation_def compensate_after_local_failure_def split: option.splits sum.splits prod.splits)
  then show "shop_step\<^sup>*\<^sup>* s (snd (dispatch_compensation f request meanwhile pq now s))"
    using \<open>shop_step\<^sup>*\<^sup>* s (compensate_after_local_failure f request meanwhile pq now s)\<close> by simp
qed

lemma run_finish_panel:
  assumes "others meanwhile" and "mapper_ok f"
  shows "shop_step\<^sup>*\<^sup>* s (snd (finish_panel_provision f request meanwhile pq until later s))"
proof -
  obtain r s1 where r: "run_uow (panel_finalize_success f pq until) s = (r, s1)" by fastforce
  have "shop_step\<^sup>*\<^sup>* s (snd (run_uow (panel_finalize_success f pq until) s))"
    by (rule access_uow) (rule access_step.panel_success [OF assms(2)])
  then have one: "shop_step\<^sup>*\<^sup>* s s1" by (simp add: r)
  then show ?thesis
    using rtranclp_trans [OF one run_compensation(1) [OF assms(1)]] rtranclp_trans [OF one run_compensation(2) [OF assms(1)]]
    by (auto simp: finish_panel_provision_def r split: sum.splits panel_outcome.splits)
qed

lemma run_panel_provision:
  assumes "others meanwhile" and "others meanwhile'" and "mapper_ok f"
  shows "shop_step\<^sup>*\<^sup>* s (snd (DispatchPanelProvisionTask_execute f request undo meanwhile meanwhile' b l tok i at until later s))"
proof -
  obtain r s1 where r: "run_uow (panel_prepare f l tok i at) s = (r, s1)" by fastforce
  have "shop_step\<^sup>*\<^sup>* s (snd (run_uow (panel_prepare f l tok i at) s))" by (rule access_uow) (rule access_step.panel_claim)
  then have one: "shop_step\<^sup>*\<^sup>* s s1" by (simp add: r)
  have fail: "shop_step\<^sup>*\<^sup>* t (snd (run_uow (panel_finalize_failure f b pq k until) t))" for t pq k
    by (rule access_uow) (rule access_step.panel_failure)
  show ?thesis
    using one rtranclp_trans [OF one run_compensation(1) [OF assms(1)]] others_then [OF assms(1) one fail]
      others_then [OF assms(1) one run_finish_panel [OF assms(2,3)]]
    by (auto simp: DispatchPanelProvisionTask_execute_def r split: sum.splits option.splits)
qed

lemma run_anomalies: "shop_step\<^sup>*\<^sup>* s (snd (process_anomalies enq now as r s))"
proof (induction as arbitrary: r s)
  case (Cons a as)
  obtain q s1 where q: "run_uow (expire_subscription (an_entity_id a) now) s = (q, s1)" by fastforce
  have "shop_step\<^sup>*\<^sup>* s (snd (run_uow (expire_subscription (an_entity_id a) now) s))" by (rule uow_step) (rule shop_step.subscription_end)
  then have one: "shop_step\<^sup>*\<^sup>* s s1" by (simp add: q)
  show ?case
  proof (cases "anomaly_job a")
    case None
    then show ?thesis using one rtranclp_trans [OF one Cons.IH] by (cases q) (simp_all add: q Let_def)
  next
    case (Some j)
    then show ?thesis using Cons.IH by (simp add: Let_def)
  qed
qed simp

lemma run_batches: "shop_step\<^sup>*\<^sup>* s (snd (reconcile_batches enq clock cfg tok n cursor r s))"
proof (induction n arbitrary: cursor r s)
  case (Suc n)
  let ?now = "clock (rc_batches r)"
  obtain as where as: "run_uow (list_reconciliation_anomalies ?now cursor (rx_batch_size cfg)) s = (Inr as, s)"
    by (simp add: run_uow_def list_reconciliation_anomalies_def)
  obtain p s2 where p: "process_anomalies enq ?now as r s = (p, s2)" by fastforce
  have two: "shop_step\<^sup>*\<^sup>* s s2" using run_anomalies [of s enq ?now as r] p by simp
  have renew: "shop_step\<^sup>*\<^sup>* s2 (snd (run_uow (maintenance_renew_lease RECONCILIATION_LEASE_NAME tok t (rx_lease_seconds cfg)) s2))" for t
    by (rule uow_step) (rule shop_step.lease_renewed)
  show ?case
  proof (cases p)
    case (Inr r1)
    let ?r2 = "r1\<lparr>rc_batches := rc_batches r1 + 1\<rparr>"
    obtain q s3 where q: "run_uow (maintenance_renew_lease RECONCILIATION_LEASE_NAME tok (clock (rc_batches ?r2)) (rx_lease_seconds cfg)) s2 = (q, s3)"
      by fastforce
    have three: "shop_step\<^sup>*\<^sup>* s s3" using rtranclp_trans [OF two renew] q by (metis snd_conv)
    show ?thesis
      using three rtranclp_trans [OF three Suc.IH] q by (cases q) (simp_all add: as p Inr Let_def)
  qed (use two in \<open>simp add: as p Let_def\<close>)
qed simp

lemma run_reconcile: "shop_step\<^sup>*\<^sup>* s (snd (ReconcileSubscriptions_execute enq clock cfg tok now s))"
proof -
  obtain a s1 where a: "run_uow (maintenance_acquire_lease RECONCILIATION_LEASE_NAME tok now (rx_lease_seconds cfg)) s = (a, s1)" by fastforce
  have "shop_step\<^sup>*\<^sup>* s (snd (run_uow (maintenance_acquire_lease RECONCILIATION_LEASE_NAME tok now (rx_lease_seconds cfg)) s))"
    by (rule uow_step) (rule shop_step.lease_acquired)
  then have one: "shop_step\<^sup>*\<^sup>* s s1" by (simp add: a)
  obtain r s2 where r: "reconcile_batches enq clock cfg tok (rx_max_batches_per_run cfg) (0, 0) empty_result s1 = (r, s2)" by fastforce
  have two: "shop_step\<^sup>*\<^sup>* s s2" using rtranclp_trans [OF one run_batches] r by (metis snd_conv)
  obtain q s3 where q: "run_uow (maintenance_release_lease RECONCILIATION_LEASE_NAME tok) s2 = (q, s3)" by fastforce
  have "shop_step\<^sup>*\<^sup>* s2 (snd (run_uow (maintenance_release_lease RECONCILIATION_LEASE_NAME tok) s2))"
    by (rule uow_step) (rule shop_step.lease_released)
  then have three: "shop_step\<^sup>*\<^sup>* s s3" using two by (simp add: q)
  show ?thesis using one three
    by (auto simp: ReconcileSubscriptions_execute_def a r q split: sum.splits bool.splits)
qed

end
