(* ===== verification/Scenario.thy ===== *)
theory Scenario
  imports Shop
begin

text \<open>
  A run of the shop from an empty database: a node and a tariff are set up, an order is created, invoiced and paid, access is
  provisioned on the node, and later withdrawn. It shows that the properties about reachable states speak about states in which
  something has happened.
\<close>

section \<open>Runs of transactions\<close>

definition runs :: "'a tx \<Rightarrow> bool" where
  "runs m \<longleftrightarrow> (\<forall>s x s'. m s = Inr (x, s') \<longrightarrow> shop_step\<^sup>*\<^sup>* s s')"

lemma runs_step: "(\<And>s x s'. m s = Inr (x, s') \<Longrightarrow> shop_step s s') \<Longrightarrow> runs m"
  unfolding runs_def by blast

lemma runs_access: "(\<And>s x s'. m s = Inr (x, s') \<Longrightarrow> access_step now s s') \<Longrightarrow> runs m"
  unfolding runs_def by (blast intro: shop_step.access)

lemma runs_bindT: "runs m \<Longrightarrow> (\<And>x. runs (f x)) \<Longrightarrow> runs (bindT m f)"
  unfolding runs_def bindT_Inr by (meson rtranclp_trans)

lemma runs_pure: "runs (retT x)" "runs (raiseT e)"
  by (simp_all add: runs_def)

lemma runs_cases:
  "(\<And>a. runs (f a)) \<Longrightarrow> (\<And>b. runs (g b)) \<Longrightarrow> runs (case x of Inl a \<Rightarrow> f a | Inr b \<Rightarrow> g b)"
  by (cases x) simp_all

section \<open>The scenario\<close>

definition demo_node :: Node where
  "demo_node = \<lparr>no_id = Some 1, no_node_key = ''n1'', no_display_name = ''node'', no_api_base_url = ''http://n1'', no_status = NS_UNKNOWN,
     no_is_enabled = True, no_selection_weight = 1, no_last_seen_at = None, no_last_error = None\<rparr>"

definition demo_health :: NodeHealthSnapshot where
  "demo_health = \<lparr>nh_health_status = NS_ONLINE, nh_agent_version = None, nh_active_clients = Some 0, nh_max_clients = Some 10,
     nh_load = [], nh_traffic = [], nh_capabilities = [], nh_status_payload = [], nh_inbounds = []\<rparr>"

definition demo_endpoint :: EndpointRow where
  "demo_endpoint = \<lparr>en_id = None, en_server_id = 1, en_protocol = ''vless'', en_port = 443, en_security = None, en_node_id = Some 1,
     en_local_inbound_id = None, en_sni = None, en_fingerprint = None, en_public_key = None, en_short_id = None,
     en_transport_type = None, en_flow = None, en_encryption = None, en_is_enabled = True\<rparr>"

text \<open>The status row the first snapshot creates has no client limit, so the node is usable only after a second one.\<close>

definition set_up :: "unit tx" where
  "set_up =
     bindT (admin_create_tariff ''month'' 19900 ''RUB'' 30 None True) (\<lambda>_.
     bindT (bindT (nodes_create_node ''n1'' ''node'' ''http://n1'' True 1) (\<lambda>node.
            bindT (nodes_create_credential (opt_id (no_id node)) ''k1'' (or_else None ''secret'') True None) (\<lambda>credential.
            retT (node, credential)))) (\<lambda>_.
     bindT (servers_create_server ''srv'' ''vpn.example'' True) (\<lambda>_.
     bindT (servers_create_server_endpoint demo_endpoint) (\<lambda>_.
     bindT (record_snapshot (Direct demo_node) demo_health 10) (\<lambda>_.
     bindT (record_snapshot (Direct demo_node) demo_health 11) (\<lambda>_. retT ()))))))"

definition demo_request :: payment_request where
  "demo_request = \<lparr>rq_telegram_id = 7, rq_tariff_id = 1, rq_provider = ''dummy'', rq_idempotency_key = ''k'', rq_username = None,
     rq_name_or_nick = Some ''ann''\<rparr>"

definition demo_intent :: PaymentIntent where
  "demo_intent = \<lparr>pi_provider = ''dummy'', pi_provider_payment_id = ''p1'', pi_status = ''pending'', pi_payment_url = None, pi_payload = []\<rparr>"

definition demo_webhook :: NormalizedWebhookEvent where
  "demo_webhook = \<lparr>ne_provider = ''dummy'', ne_event_key = ''e1'', ne_event_type = ''payment.paid'', ne_status = Some PS_PAID,
     ne_occurred_at = 13, ne_provider_payment_id = Some ''p1'', ne_payment_order_id = Some 1, ne_amount_minor = Some 19900,
     ne_currency = Some ''RUB'', ne_payload = []\<rparr>"

definition buy :: "unit tx" where
  "buy =
     bindT (prepare_order 60 demo_request ''tok'' 12) (\<lambda>p.
     bindT (finalize_owned_claim (pp_order p) (pa_id (pp_attempt p)) ''tok'' demo_intent 12) (\<lambda>_.
     bindT (ingest_tx ''dummy'' [] demo_webhook [] 13) (\<lambda>_.
     bindT (process_payment_tx 1 14) (\<lambda>_. retT ()))))"

definition demo_provision :: provision_settings where
  "demo_provision = \<lparr>ps_display_name_prefix = ''vpn'', ps_node_inbound_id = ''in'', ps_node_task_max_attempts = 3,
     ps_panel_task_max_attempts = 3, ps_xui_inbound_id = 1, ps_node_health_stale_after_seconds = 180\<rparr>"

definition demo_revoke :: revoke_settings where
  "demo_revoke = \<lparr>rs_node_inbound_id = ''in'', rs_node_task_max_attempts = 3, rs_panel_task_max_attempts = 3, rs_xui_inbound_id = 1\<rparr>"

definition demo_dispatch :: dispatch_settings where
  "demo_dispatch = \<lparr>ds_retry_base_seconds = 5, ds_lease_seconds = 60, ds_node_health_stale_after_seconds = 180,
     ds_node_unavailable_retry_seconds = 30\<rparr>"

definition dispatch_demo :: "int \<Rightarrow> uuid \<Rightarrow> uuid \<Rightarrow> dict \<Rightarrow> time \<Rightarrow> unit tx" where
  "dispatch_demo i tok u answer now =
     bindT (dispatch_prepare demo_dispatch tok i now) (\<lambda>r.
     case r of
       Inl _ \<Rightarrow> raiseT (RuntimeError ''not claimed'')
     | Inr pd \<Rightarrow> bindT (dispatch_finalize (\<lambda>_. []) 5 u pd (Inr (Some answer)) (now + 1)) (\<lambda>_. retT ()))"

definition grant_demo :: "unit tx" where
  "grant_demo =
     bindT (provision_prepare_plan PanelProvisionTask_post_init demo_provision (\<lambda>_. 0) ''c1'' ''t1'' 1 15) (\<lambda>_.
     dispatch_demo 1 ''l1'' ''x1'' [(''status'', JStr ''provisioned'')] 16)"

definition withdraw_demo :: "unit tx" where
  "withdraw_demo =
     bindT (revoke_prepare_plan demo_revoke ''t2'' 1 FORCE 20) (\<lambda>_.
     dispatch_demo 2 ''l2'' ''x2'' [(''status'', JStr ''revoked'')] 21)"

lemma runs_create_node:
  "runs (bindT (nodes_create_node k d u b w) (\<lambda>node.
     bindT (nodes_create_credential (opt_id (no_id node)) key (or_else sec fresh) True None) (\<lambda>credential. retT (node, credential))))"
  by (rule runs_step, rule shop_step.new_node, simp add: NodeAdministration_create_node_def run_uow_Inr)

lemma runs_set_up: "runs set_up"
  unfolding set_up_def
  by (intro runs_bindT runs_create_node runs_pure
      runs_step [OF shop_step.tariff] runs_step [OF shop_step.new_server] runs_step [OF shop_step.new_endpoint]
      runs_step [OF shop_step.probe_snapshot])

lemma runs_buy: "runs buy"
  unfolding buy_def
  by (intro runs_bindT runs_pure runs_step [OF shop_step.payment_request] runs_step [OF shop_step.invoice_created]
      runs_step [OF shop_step.webhook] runs_step [OF shop_step.payment_event])

lemma runs_dispatch: "runs (dispatch_demo i tok u answer now)"
  unfolding dispatch_demo_def
  by (intro runs_bindT runs_cases runs_pure runs_access [OF access_step.node_claim] runs_access [OF access_step.node_outcome])

lemma runs_grant: "runs grant_demo"
  unfolding grant_demo_def by (intro runs_bindT runs_dispatch runs_access [OF access_step.provision])

lemma runs_withdraw: "runs withdraw_demo"
  unfolding withdraw_demo_def by (intro runs_bindT runs_dispatch runs_access [OF access_step.revoke])

definition after :: "'a tx \<Rightarrow> db \<Rightarrow> db" where
  "after m s = (case m s of Inl _ \<Rightarrow> s | Inr (_, s') \<Rightarrow> s')"

definition succeeds :: "'a tx \<Rightarrow> db \<Rightarrow> bool" where
  "succeeds m s = (case m s of Inl _ \<Rightarrow> False | Inr _ \<Rightarrow> True)"

definition ready_shop :: db where
  "ready_shop = after set_up (empty_db 9)"

definition paid_shop :: db where
  "paid_shop = after buy ready_shop"

definition granted_shop :: db where
  "granted_shop = after grant_demo paid_shop"

definition withdrawn_shop :: db where
  "withdrawn_shop = after withdraw_demo granted_shop"

lemma after_runs: "runs m \<Longrightarrow> shop_step\<^sup>*\<^sup>* s (after m s)"
  by (auto simp: runs_def after_def split: sum.splits)

lemma scenario_reachable:
  "shop_step\<^sup>*\<^sup>* (empty_db 9) ready_shop" "shop_step\<^sup>*\<^sup>* (empty_db 9) paid_shop" "shop_step\<^sup>*\<^sup>* (empty_db 9) granted_shop"
  "shop_step\<^sup>*\<^sup>* granted_shop withdrawn_shop" "shop_step\<^sup>*\<^sup>* (empty_db 9) withdrawn_shop"
  unfolding ready_shop_def paid_shop_def granted_shop_def withdrawn_shop_def
  by (intro rtranclp_trans [OF _ after_runs] after_runs runs_set_up runs_buy runs_grant runs_withdraw rtranclp.rtrancl_refl)+

definition paid_facts :: "db \<Rightarrow> bool" where
  "paid_facts s \<longleftrightarrow> map (\<lambda>r. (po_id r, po_status r)) (rows (d_orders s)) = [(Some 1, PS_PAID)] \<and>
     map (\<lambda>p. (sp_payment_order_id p, sp_subscription_id p, sp_is_paid p)) (rows (d_periods s)) = [(Some 1, Some 1, True)] \<and>
     map (\<lambda>u. (su_id u, su_status u)) (rows (d_subs s)) = [(Some 1, SS_ACTIVE)] \<and> rows (d_vpns s) = []"

definition vpn_facts :: "db \<Rightarrow> (int option \<times> VpnConfigurationStatus \<times> VpnDesiredState \<times> int \<times> int) list" where
  "vpn_facts s = map (\<lambda>c. (vc_id c, vc_status c, vc_desired_state c, vc_generation c, vc_subscription_id c)) (rows (d_vpns s))"

lemma scenario_evaluated:
  "case set_up (empty_db 9) of Inl _ \<Rightarrow> False | Inr (_, s1) \<Rightarrow>
     (case buy s1 of Inl _ \<Rightarrow> False | Inr (_, s2) \<Rightarrow> paid_facts s2 \<and>
        (case grant_demo s2 of Inl _ \<Rightarrow> False | Inr (_, s3) \<Rightarrow> vpn_facts s3 = [(Some 1, VS_ACTIVE, VD_ACTIVE, 1, 1)] \<and>
           (case withdraw_demo s3 of Inl _ \<Rightarrow> False | Inr (_, s4) \<Rightarrow> vpn_facts s4 = [(Some 1, VS_REVOKED, VD_REVOKED, 2, 1)])))"
  by code_simp

lemma case_after: "(case m s of Inl _ \<Rightarrow> False | Inr (_, s') \<Rightarrow> P s') \<longleftrightarrow> succeeds m s \<and> P (after m s)"
  by (auto simp: succeeds_def after_def split: sum.splits)

lemma scenario_facts:
  "paid_facts paid_shop" "vpn_facts granted_shop = [(Some 1, VS_ACTIVE, VD_ACTIVE, 1, 1)]"
  "vpn_facts withdrawn_shop = [(Some 1, VS_REVOKED, VD_REVOKED, 2, 1)]"
  using scenario_evaluated unfolding case_after
  unfolding ready_shop_def [symmetric] paid_shop_def [symmetric] granted_shop_def [symmetric] withdrawn_shop_def [symmetric]
  by simp_all

end
