(* ===== verification/ShopProps.thy ===== *)
theory ShopProps
  imports Scenario
begin

text \<open>
  What holds in every state the shop can reach, whatever its workers, customers, providers and nodes do and however their
  transactions interleave.
\<close>

section \<open>Lemmas\<close>

lemma linked_orders:
  assumes "pay_inv s"
  shows "paid_order (d_orders s) i \<longleftrightarrow> (\<exists>!p. p \<in> set (rows (d_periods s)) \<and> sp_payment_order_id p = Some i)"
proof
  let ?ps = "filter (\<lambda>r. sp_payment_order_id r \<noteq> None) (rows (d_periods s))"
  have d: "distinct (map sp_payment_order_id ?ps)" and l: "linked_except {} (d_orders s) (d_periods s)"
    using assms by (simp_all add: pay_inv_def pay_inv_except_def periods_inv_def periods_constraints_def)
  { assume "paid_order (d_orders s) i"
    then obtain p where p: "p \<in> set (rows (d_periods s))" "sp_payment_order_id p = Some i"
      using l by (auto simp: linked_except_def has_period_def list_ex_iff)
    moreover have "q = p" if "q \<in> set (rows (d_periods s))" "sp_payment_order_id q = Some i" for q
      using inj_onD [OF conjunct2 [OF d [unfolded distinct_map]], of q p] p that by simp
    ultimately show "\<exists>!p. p \<in> set (rows (d_periods s)) \<and> sp_payment_order_id p = Some i" by blast }
  { assume "\<exists>!p. p \<in> set (rows (d_periods s)) \<and> sp_payment_order_id p = Some i"
    then show "paid_order (d_orders s) i" using l by (auto simp: linked_except_def) }
qed

lemma paid_order_iff: "paid_order t i \<longleftrightarrow> (\<exists>r. get_row po_id i t = Some r \<and> po_status r = PS_PAID)"
  by (auto simp: paid_order_def split: option.splits)

lemma active_row_entitled:
  assumes "vpns_follow J t t'" and "vpn_row i t' = Some c'" and "vc_status c' = VS_ACTIVE"
    and "\<And>c. vpn_row i t = Some c \<Longrightarrow> vc_status c \<noteq> VS_ACTIVE"
  shows "J (vc_subscription_id c')"
proof (rule ccontr)
  assume no: "\<not> J (vc_subscription_id c')"
  have f: "follows_row J (vpn_row i t) c'" using assms(1,2) by (simp add: vpns_follow_def)
  have act: "al_status (life_of c') = VS_ACTIVE" using assms(3) by (simp add: life_of_def)
  show False
  proof (cases "vpn_row i t")
    case None
    then have "(life_step False)\<^sup>*\<^sup>* life_start (life_of c')" using f no by (simp add: follows_row_def)
    then have "life_of c' = life_start" using life_steps_no_grant [OF _ act] by blast
    then show False using act by (simp add: life_start_def)
  next
    case (Some c)
    then have "(life_step False)\<^sup>*\<^sup>* (life_of c) (life_of c')" using f no by (simp add: follows_row_def)
    then have "life_of c' = life_of c" using life_steps_no_grant [OF _ act] by simp
    then show False using assms(3,4) Some by (simp add: life_of_def)
  qed
qed

section \<open>Entitlement\<close>

text \<open>C1. In every reachable state, an order is paid exactly when exactly one subscription period was created for it, a user has
  at most one active subscription, and no period is stored with an empty or reversed interval. No interleaving of webhooks,
  redeliveries, retries, refunds, manual settlements and other transactions sells a period twice or loses one.\<close>

theorem paid_order_has_exactly_one_period:
  assumes "shop_step\<^sup>*\<^sup>* (empty_db clock) s"
  shows "((\<exists>r. get_row po_id i (d_orders s) = Some r \<and> po_status r = PS_PAID) \<longleftrightarrow>
            (\<exists>!p. p \<in> set (rows (d_periods s)) \<and> sp_payment_order_id p = Some i)) \<and>
         distinct (map su_user_id (filter (\<lambda>u. su_status u = SS_ACTIVE) (rows (d_subs s)))) \<and>
         list_all (\<lambda>p. sp_starts_at p < sp_expires_at p) (rows (d_periods s))"
proof -
  have inv: "pay_inv s" using shop_reachable_inv [OF assms] by (simp add: shop_inv_def)
  have "(\<exists>r. get_row po_id i (d_orders s) = Some r \<and> po_status r = PS_PAID) \<longleftrightarrow>
           (\<exists>!p. p \<in> set (rows (d_periods s)) \<and> sp_payment_order_id p = Some i)"
    using linked_orders [OF inv] unfolding paid_order_iff .
  moreover have "distinct (map su_user_id (filter (\<lambda>u. su_status u = SS_ACTIVE) (rows (d_subs s))))"
    using inv by (simp add: pay_inv_def pay_inv_except_def subs_inv_def subs_constraints_def)
  moreover have "list_all (\<lambda>p. sp_starts_at p < sp_expires_at p) (rows (d_periods s))"
    using inv by (simp add: pay_inv_def pay_inv_except_def periods_inv_def periods_constraints_def period_check_def list_all_iff)
  ultimately show ?thesis by blast
qed

lemma paid_shop_order: "\<exists>r. get_row po_id 1 (d_orders paid_shop) = Some r \<and> po_status r = PS_PAID"
proof -
  obtain r where r: "rows (d_orders paid_shop) = [r]" "po_id r = Some 1" "po_status r = PS_PAID"
    using scenario_facts(1) by (auto simp: paid_facts_def)
  then show ?thesis by (simp add: get_row_def)
qed

theorem paid_order_has_exactly_one_period_witness:
  "shop_step\<^sup>*\<^sup>* (empty_db 9) paid_shop \<and> (\<exists>r. get_row po_id 1 (d_orders paid_shop) = Some r \<and> po_status r = PS_PAID) \<and>
     (\<exists>!p. p \<in> set (rows (d_periods paid_shop)) \<and> sp_payment_order_id p = Some 1)"
  using scenario_reachable(2) paid_shop_order paid_order_has_exactly_one_period [OF scenario_reachable(2), of 1] by blast

section \<open>Access\<close>

text \<open>C2. A transaction that makes a configuration active does so only for a subscription that has, at the clock reading it uses, a
  current period marked paid that was bought with an order, and that order is paid; and the configuration is still wanted.\<close>

theorem access_granted_only_while_paid:
  assumes "shop_step\<^sup>*\<^sup>* (empty_db clock) s" and "access_step now s s'"
    and "vpn_row i (d_vpns s') = Some c'" and "vc_status c' = VS_ACTIVE"
    and "\<forall>c. vpn_row i (d_vpns s) = Some c \<longrightarrow> vc_status c \<noteq> VS_ACTIVE"
  shows "(\<exists>p\<in>set (rows (d_periods s)). sp_subscription_id p = Some (vc_subscription_id c') \<and> sp_is_paid p \<and>
            sp_starts_at p \<le> now \<and> now < sp_expires_at p \<and>
            (\<exists>k r. sp_payment_order_id p = Some k \<and> get_row po_id k (d_orders s) = Some r \<and> po_status r = PS_PAID)) \<and>
         vc_desired_state c' = VD_ACTIVE"
proof
  have inv: "pay_inv s" "access_ok s" using shop_reachable_inv [OF assms(1)] by (simp_all add: shop_inv_def)
  have acc: "acc now s (\<lambda>_. True) s'" by (rule access_step_acc [OF assms(2) inv(2)])
  then have follow: "vpns_follow (\<lambda>i. has_current_period now i s) (d_vpns s) (d_vpns s')" by (simp add: acc_def)
  have "has_current_period now (vc_subscription_id c') s"
    by (rule active_row_entitled [OF follow assms(3,4)]) (use assms(5) in blast)
  then obtain p where p: "p \<in> set (current_periods (vc_subscription_id c') now s)"
    unfolding has_current_period_def by (meson last_in_set)
  then have "p \<in> set (rows (d_periods s))" by (simp add: current_periods_def select_rows_def)
  then obtain k where "sp_payment_order_id p = Some k" "paid_order (d_orders s) k"
    using pay_inv_linked(1,3) [OF inv(1)] by blast
  then have "\<exists>k r. sp_payment_order_id p = Some k \<and> get_row po_id k (d_orders s) = Some r \<and> po_status r = PS_PAID"
    by (auto simp: paid_order_iff)
  with p show "\<exists>p\<in>set (rows (d_periods s)). sp_subscription_id p = Some (vc_subscription_id c') \<and> sp_is_paid p \<and>
            sp_starts_at p \<le> now \<and> now < sp_expires_at p \<and>
            (\<exists>k r. sp_payment_order_id p = Some k \<and> get_row po_id k (d_orders s) = Some r \<and> po_status r = PS_PAID)"
    by (intro bexI [of _ p]) (auto simp: current_periods_def select_rows_def)
  have "life_ok (life_of c')" using vpn_row_ok [OF _ assms(3)] acc by (simp add: acc_def access_ok_def)
  then show "vc_desired_state c' = VD_ACTIVE"
    using assms(4) by (auto simp: life_ok_def life_of_def split: VpnDesiredState.splits)
qed

lemma vpn_facts_row:
  assumes "vpn_facts s = [(Some i, st, d, g, sub)]"
  shows "\<exists>c. vpn_row i (d_vpns s) = Some c \<and> vc_status c = st \<and> vc_desired_state c = d \<and> vc_generation c = g \<and> vc_subscription_id c = sub"
proof -
  obtain c where "rows (d_vpns s) = [c]" "vc_id c = Some i" "vc_status c = st" "vc_desired_state c = d" "vc_generation c = g"
      "vc_subscription_id c = sub"
    using assms by (auto simp: vpn_facts_def)
  then show ?thesis by (simp add: vpn_row_def get_row_def)
qed

definition active_in :: "db \<Rightarrow> int \<Rightarrow> bool" where
  "active_in s i = (case vpn_row i (d_vpns s) of None \<Rightarrow> False | Some c \<Rightarrow> vc_status c = VS_ACTIVE)"

lemma dispatch_demoD:
  assumes "dispatch_demo i tok u answer now s = Inr (x, s')"
  shows "\<exists>pd z s1. dispatch_prepare demo_dispatch tok i now s = Inr (Inr pd, s1) \<and>
     dispatch_finalize (\<lambda>_. []) 5 u pd (Inr (Some answer)) (now + 1) s1 = Inr (z, s')"
proof -
  obtain r s1 where r: "dispatch_prepare demo_dispatch tok i now s = Inr (r, s1)"
    and tail: "(case r of Inl _ \<Rightarrow> raiseT (RuntimeError ''not claimed'')
       | Inr pd \<Rightarrow> bindT (dispatch_finalize (\<lambda>_. []) 5 u pd (Inr (Some answer)) (now + 1)) (\<lambda>_. retT ())) s1 = Inr (x, s')"
    using assms unfolding dispatch_demo_def bindT_Inr by blast
  then show ?thesis by (cases r) (auto simp: bindT_Inr)
qed

text \<open>Somewhere in the scenario's grant a transaction makes the configuration active.\<close>

lemma scenario_grant_step:
  "\<exists>s s' now. shop_step\<^sup>*\<^sup>* (empty_db 9) s \<and> access_step now s s' \<and> \<not> active_in s 1 \<and> active_in s' 1"
proof -
  have "succeeds grant_demo paid_shop"
    using scenario_evaluated unfolding case_after unfolding ready_shop_def [symmetric] paid_shop_def [symmetric] by simp
  then obtain u where run: "grant_demo paid_shop = Inr (u, granted_shop)"
    by (auto simp: granted_shop_def succeeds_def after_def split: sum.splits)
  then obtain x s1 where
      1: "provision_prepare_plan PanelProvisionTask_post_init demo_provision (\<lambda>_. 0) ''c1'' ''t1'' 1 15 paid_shop = Inr (x, s1)" and
      "dispatch_demo 1 ''l1'' ''x1'' [(''status'', JStr ''provisioned'')] 16 s1 = Inr (u, granted_shop)"
    unfolding grant_demo_def bindT_Inr by blast
  then obtain pd z s2 where
      2: "dispatch_prepare demo_dispatch ''l1'' 1 16 s1 = Inr (Inr pd, s2)" and
      3: "dispatch_finalize (\<lambda>_. []) 5 ''x1'' pd (Inr (Some [(''status'', JStr ''provisioned'')])) (16 + 1) s2 = Inr (z, granted_shop)"
    using dispatch_demoD by blast
  note steps = access_step.provision [OF 1] access_step.node_claim [OF 2] access_step.node_outcome [OF 3]
  have r0: "shop_step\<^sup>*\<^sup>* (empty_db 9) paid_shop" by (rule scenario_reachable)
  have r1: "shop_step\<^sup>*\<^sup>* (empty_db 9) s1" using r0 shop_step.access [OF steps(1)] by (rule rtranclp.rtrancl_into_rtrancl)
  have r2: "shop_step\<^sup>*\<^sup>* (empty_db 9) s2" using r1 shop_step.access [OF steps(2)] by (rule rtranclp.rtrancl_into_rtrancl)
  have "\<not> active_in paid_shop 1" using scenario_facts(1) by (simp add: paid_facts_def active_in_def vpn_row_def get_row_def)
  moreover have "active_in granted_shop 1" using vpn_facts_row [OF scenario_facts(2)] by (auto simp: active_in_def)
  ultimately show ?thesis using r0 r1 r2 steps by metis
qed

theorem access_granted_only_while_paid_witness:
  "\<exists>s s' now c' p k r. shop_step\<^sup>*\<^sup>* (empty_db 9) s \<and> access_step now s s' \<and> vpn_row 1 (d_vpns s') = Some c' \<and> vc_status c' = VS_ACTIVE \<and>
     p \<in> set (rows (d_periods s)) \<and> sp_is_paid p \<and> sp_starts_at p \<le> now \<and> now < sp_expires_at p \<and>
     sp_payment_order_id p = Some k \<and> get_row po_id k (d_orders s) = Some r \<and> po_status r = PS_PAID"
proof -
  obtain s s' now where run: "shop_step\<^sup>*\<^sup>* (empty_db 9) s" "access_step now s s'" and "\<not> active_in s 1" "active_in s' 1"
    using scenario_grant_step by blast
  then obtain c' where c': "vpn_row 1 (d_vpns s') = Some c'" "vc_status c' = VS_ACTIVE"
    and before: "\<forall>c. vpn_row 1 (d_vpns s) = Some c \<longrightarrow> vc_status c \<noteq> VS_ACTIVE"
    by (auto simp: active_in_def split: option.splits)
  from access_granted_only_while_paid [OF run c' before] run c' show ?thesis by blast
qed

text \<open>C6. Once the withdrawal of an access was requested, it never comes back: in every later state the configuration still exists for the
  same subscription, endpoint and client, is not active, is still to be revoked, and its generation has not fallen; once it is
  revoked it stays exactly so.\<close>

theorem withdrawn_access_never_returns:
  assumes "shop_step\<^sup>*\<^sup>* (empty_db clock) s" and "shop_step\<^sup>*\<^sup>* s s'"
    and "vpn_row i (d_vpns s) = Some c" and "vc_desired_state c = VD_REVOKED"
  shows "\<exists>c'. vpn_row i (d_vpns s') = Some c' \<and> same_access c c' \<and> vc_status c' \<noteq> VS_ACTIVE \<and> vc_desired_state c' = VD_REVOKED \<and>
           vc_generation c \<le> vc_generation c' \<and> (vc_status c = VS_REVOKED \<longrightarrow> vc_status c' = VS_REVOKED \<and> vc_generation c' = vc_generation c)"
proof -
  have ok: "access_ok s" using shop_reachable_inv [OF assms(1)] by (simp add: shop_inv_def)
  then have s': "access_ok s'" and f: "vpns_follow (\<lambda>_. True) (d_vpns s) (d_vpns s')"
    using shop_steps_follow [OF assms(2)] by (simp_all add: follows_def)
  obtain c' where c': "vpn_row i (d_vpns s') = Some c'" "same_access c c'" and life: "(life_step True)\<^sup>*\<^sup>* (life_of c) (life_of c')"
    using vpns_follow_row [OF f assms(3)] by blast
  have "al_wanted (life_of c') = VD_REVOKED" using life_steps_withdrawn [OF life] assms(4) by (simp add: life_of_def)
  moreover have "life_ok (life_of c')" using vpn_row_ok [OF _ c'(1)] s' by (simp add: access_ok_def)
  ultimately have "vc_desired_state c' = VD_REVOKED" "vc_status c' \<noteq> VS_ACTIVE" by (auto simp: life_of_def life_ok_def)
  moreover have "vc_generation c \<le> vc_generation c'" using life_steps_generation [OF life] by (simp add: life_of_def)
  moreover have "vc_status c' = VS_REVOKED \<and> vc_generation c' = vc_generation c" if "vc_status c = VS_REVOKED"
    using life_steps_finished [OF life] that by (simp add: life_of_def)
  ultimately show ?thesis using c' by blast
qed

theorem withdrawn_access_never_returns_witness:
  "\<exists>c c' s'. shop_step\<^sup>*\<^sup>* (empty_db 9) withdrawn_shop \<and> vpn_row 1 (d_vpns withdrawn_shop) = Some c \<and> vc_desired_state c = VD_REVOKED \<and>
     shop_step\<^sup>*\<^sup>* withdrawn_shop s' \<and> s' \<noteq> withdrawn_shop \<and> vpn_row 1 (d_vpns s') = Some c' \<and> vc_status c' = VS_REVOKED"
proof -
  let ?s' = "withdrawn_shop\<lparr>d_clock := d_clock withdrawn_shop + 1\<rparr>"
  have step: "shop_step\<^sup>*\<^sup>* withdrawn_shop ?s'" by (rule r_into_rtranclp, rule shop_step.tick) simp
  have "d_clock ?s' \<noteq> d_clock withdrawn_shop" by simp
  then have diff: "?s' \<noteq> withdrawn_shop" by metis
  obtain c where c: "vpn_row 1 (d_vpns withdrawn_shop) = Some c" "vc_status c = VS_REVOKED" "vc_desired_state c = VD_REVOKED"
    using vpn_facts_row [OF scenario_facts(3)] by blast
  from withdrawn_access_never_returns [OF scenario_reachable(5) step c(1,3)] show ?thesis
    using scenario_reachable(5) step diff c by blast
qed

text \<open>C4. The transactions of the access side implement the abstract lifecycle: each of them takes every stored configuration through a sequence of
  steps of the specification (a new one from its initial state), in which access is granted only if the configuration's subscription
  has a current paid period at the transaction's clock reading, and keeps its identity. Any run of the whole shop does the same.\<close>

theorem access_refines_lifecycle:
  assumes "shop_step\<^sup>*\<^sup>* (empty_db clock) s"
  shows "(\<forall>now s'. access_step now s s' \<longrightarrow> vpns_follow (\<lambda>sub. has_current_period now sub s) (d_vpns s) (d_vpns s')) \<and>
         (\<forall>s'. shop_step\<^sup>*\<^sup>* s s' \<longrightarrow> vpns_follow (\<lambda>_. True) (d_vpns s) (d_vpns s'))"
proof -
  have ok: "access_ok s" using shop_reachable_inv [OF assms] by (simp add: shop_inv_def)
  have "vpns_follow (\<lambda>sub. has_current_period now sub s) (d_vpns s) (d_vpns s')" if "access_step now s s'" for now s'
    using access_step_acc [OF that ok] by (simp add: acc_def)
  moreover have "vpns_follow (\<lambda>_. True) (d_vpns s) (d_vpns s')" if "shop_step\<^sup>*\<^sup>* s s'" for s'
    using shop_steps_follow [OF that] ok by (simp add: follows_def)
  ultimately show ?thesis by blast
qed

theorem access_refines_lifecycle_witness:
  "vpns_follow (\<lambda>_. True) (d_vpns granted_shop) (d_vpns withdrawn_shop) \<and>
     vpn_facts granted_shop = [(Some 1, VS_ACTIVE, VD_ACTIVE, 1, 1)] \<and> vpn_facts withdrawn_shop = [(Some 1, VS_REVOKED, VD_REVOKED, 2, 1)]"
  using access_refines_lifecycle [OF scenario_reachable(3)] scenario_reachable(4) scenario_facts(2,3) by blast

text \<open>C7. In every reachable state every node task and panel provisioning task that names a configuration names one that exists,
  together with its subscription. Every panel revocation task names an existing configuration, with its subscription, that has been
  withdrawn, and never a later generation than the configuration's: no such task exists for access that is still wanted. A
  configuration that is wanted is being provisioned, active or failed; one that is not is being revoked, revoked or failed to be
  revoked.\<close>

theorem stored_access_is_consistent:
  assumes "shop_step\<^sup>*\<^sup>* (empty_db clock) s"
  shows "(\<forall>t\<in>set (rows (d_ntasks s)). \<forall>i. nt_vpn_configuration_id t = Some i \<longrightarrow>
            (\<exists>c. vpn_row i (d_vpns s) = Some c \<and> nt_subscription_id t = Some (vc_subscription_id c))) \<and>
         (\<forall>t\<in>set (rows (d_pprov s)).
            \<exists>c. vpn_row (pp_vpn_configuration_id t) (d_vpns s) = Some c \<and> pp_subscription_id t = vc_subscription_id c) \<and>
         (\<forall>t\<in>set (rows (d_prev s)).
            \<exists>c. vpn_row (pr_vpn_configuration_id t) (d_vpns s) = Some c \<and> pr_subscription_id t = vc_subscription_id c \<and>
                vc_desired_state c = VD_REVOKED \<and> pr_vpn_generation t \<le> vc_generation c) \<and>
         (\<forall>c\<in>set (rows (d_vpns s)).
            if vc_desired_state c = VD_ACTIVE then vc_status c \<in> {VS_PROVISIONING, VS_ACTIVE, VS_FAILED}
            else vc_status c \<in> {VS_REVOKING, VS_REVOKE_FAILED, VS_REVOKED})"
proof -
  have ok: "access_ok s" using shop_reachable_inv [OF assms] by (simp add: shop_inv_def)
  have "\<exists>c. vpn_row i (d_vpns s) = Some c \<and> nt_subscription_id t = Some (vc_subscription_id c)"
    if t: "t \<in> set (rows (d_ntasks s))" "nt_vpn_configuration_id t = Some i" for t i
  proof -
    have "linked_to (Some i) (nt_subscription_id t) (d_vpns s)"
      using ok t by (auto simp: access_ok_def ntasks_linked_def list_all_iff)
    then show ?thesis by (auto simp: linked_to_def split: option.splits)
  qed
  moreover have "\<exists>c. vpn_row (pp_vpn_configuration_id t) (d_vpns s) = Some c \<and> pp_subscription_id t = vc_subscription_id c"
    if "t \<in> set (rows (d_pprov s))" for t
    using ok that by (auto simp: access_ok_def pprov_linked_def list_all_iff linked_to_def split: option.splits)
  moreover have "\<exists>c. vpn_row (pr_vpn_configuration_id t) (d_vpns s) = Some c \<and> pr_subscription_id t = vc_subscription_id c \<and>
      vc_desired_state c = VD_REVOKED \<and> pr_vpn_generation t \<le> vc_generation c" if "t \<in> set (rows (d_prev s))" for t
    using ok that by (auto simp: access_ok_def prev_linked_def list_all_iff withdrawn_at_def split: option.splits)
  moreover have "if vc_desired_state c = VD_ACTIVE then vc_status c \<in> {VS_PROVISIONING, VS_ACTIVE, VS_FAILED}
      else vc_status c \<in> {VS_REVOKING, VS_REVOKE_FAILED, VS_REVOKED}" if "c \<in> set (rows (d_vpns s))" for c
  proof -
    have "life_ok (life_of c)" using ok that by (simp add: access_ok_def vpns_ok_def list_all_iff)
    then show ?thesis by (auto simp: life_ok_def life_of_def split: VpnDesiredState.splits)
  qed
  ultimately show ?thesis by blast
qed

lemma wanted_row:
  assumes "vpn_facts s = [(Some i, st, VD_ACTIVE, g, sub)]"
  shows "\<not> (\<exists>c. vpn_row j (d_vpns s) = Some c \<and> vc_desired_state c = VD_REVOKED)"
proof -
  obtain c where "rows (d_vpns s) = [c]" "vc_desired_state c = VD_ACTIVE" using assms by (auto simp: vpn_facts_def)
  then show ?thesis by (auto simp: vpn_row_def get_row_def split: if_splits)
qed

text \<open>In the scenario the configuration granted is wanted, so no revocation of it can be stored.\<close>

theorem stored_access_is_consistent_witness:
  "shop_step\<^sup>*\<^sup>* (empty_db 9) granted_shop \<and> length (rows (d_vpns granted_shop)) = 1 \<and> rows (d_prev granted_shop) = []"
proof -
  have "length (rows (d_vpns granted_shop)) = 1" using scenario_facts(2) by (auto simp: vpn_facts_def)
  moreover have "t \<notin> set (rows (d_prev granted_shop))" for t
    using stored_access_is_consistent [OF scenario_reachable(3)] wanted_row [OF scenario_facts(2)] by blast
  ultimately show ?thesis using scenario_reachable(3) by (metis list.set_intros(1) neq_Nil_conv)
qed

text \<open>C11. Every order, subscription and configuration the shop ever stores loads again: reading it back through its mapper, which
  revalidates the entity's rules, gives exactly the stored entity.\<close>

theorem stored_rows_load:
  assumes "shop_step\<^sup>*\<^sup>* (empty_db clock) s"
  shows "list_all (\<lambda>r. payment_order_from_row r = Inr r) (rows (d_orders s)) \<and>
         list_all (\<lambda>r. subscription_from_row r = Inr r) (rows (d_subs s)) \<and>
         list_all (\<lambda>r. vpn_configuration_from_row r = Inr r) (rows (d_vpns s))"
proof -
  have inv: "pay_inv s" "access_ok s" using shop_reachable_inv [OF assms] by (simp_all add: shop_inv_def)
  have "list_all (\<lambda>r. payment_order_from_row r = Inr r) (rows (d_orders s))"
    using inv(1) by (simp add: pay_inv_def pay_inv_except_def orders_inv_def order_row_ok_def [abs_def])
  moreover have "list_all subscription_wf (rows (d_subs s))"
    using inv(1) by (simp add: pay_inv_def pay_inv_except_def subs_inv_def)
  then have "list_all (\<lambda>r. subscription_from_row r = Inr r) (rows (d_subs s))"
    by (simp add: list_all_iff subscription_from_row_def subscription_wf_def)
  moreover have "list_all (\<lambda>c. life_ok (life_of c)) (rows (d_vpns s))"
    using inv(2) by (simp add: access_ok_def vpns_ok_def)
  then have "list_all (\<lambda>r. vpn_configuration_from_row r = Inr r) (rows (d_vpns s))"
    by (auto simp: list_all_iff vpn_configuration_from_row_def VpnConfiguration_post_init_def life_ok_def life_of_def)
  ultimately show ?thesis by blast
qed

theorem stored_rows_load_witness:
  "list_all (\<lambda>r. payment_order_from_row r = Inr r) (rows (d_orders paid_shop)) \<and> length (rows (d_orders paid_shop)) = 1"
proof -
  have "length (rows (d_orders paid_shop)) = 1" using scenario_facts(1) by (auto simp: paid_facts_def)
  then show ?thesis using stored_rows_load [OF scenario_reachable(2)] by blast
qed

section \<open>Handlers\<close>

text \<open>The handlers that talk to the outside world between two transactions (creating a payment, dispatching node and panel tasks) and the
  reconciliation run are runs of the shop's transactions, whatever the provider, node or panel answers and whatever other workers do
  in the meantime. So everything proved about reachable states holds before, between and after them.\<close>

theorem handlers_are_interleaved_transactions:
  assumes "others meanwhile" and "others meanwhile'" and "mapper_ok f"
  shows "shop_step\<^sup>*\<^sup>* s (snd (CreatePayment_execute registry meanwhile l rq tok at later s)) \<and>
         shop_step\<^sup>*\<^sup>* s (snd (DispatchNodeTask_execute py dcfg gateway meanwhile tok u i at until s)) \<and>
         shop_step\<^sup>*\<^sup>* s (snd (DispatchPanelProvisionTask_execute f request undo meanwhile meanwhile' b l tok i at until later s)) \<and>
         shop_step\<^sup>*\<^sup>* s (snd (DispatchPanelRevokeTask_execute undo meanwhile b l tok i at until s)) \<and>
         shop_step\<^sup>*\<^sup>* s (snd (ReconcileSubscriptions_execute enq clock rcfg tok at s))"
  by (intro conjI run_create_payment run_node_dispatch run_panel_provision run_panel_revoke run_reconcile assms)

theorem handlers_are_interleaved_transactions_witness:
  "others id \<and> mapper_ok PanelProvisionTask_post_init \<and>
     shop_step\<^sup>*\<^sup>* ready_shop (snd (CreatePayment_execute (\<lambda>_. Inr (\<lambda>_. Inr demo_intent)) id 60 demo_request ''tok'' 12 13 ready_shop))"
proof -
  have o: "others id" by (simp add: others_def)
  show ?thesis using handlers_are_interleaved_transactions [OF o o mappers_ok(2)] o mappers_ok(2) by blast
qed

end
