(* ===== verification/WorkerProps.thy ===== *)
theory WorkerProps
  imports Reconcile NodeAdmin
begin

text \<open>
  What the workers' leases guarantee on the database: claimed tasks and maintenance jobs are exclusive, a worker superseded by a later
  claim changes nothing, reconciliation runs are bounded, and new configurations are placed only where there is capacity.
\<close>

section \<open>Lemmas\<close>

lemma node_task_loads:
  "nodes_get_task_entity i s = Inr (Some t, s') \<longleftrightarrow>
     s' = s \<and> (\<exists>r. get_row nt_id i (d_ntasks s) = Some r \<and> node_task_from_row r = Inr t)"
  by (auto simp: nodes_get_task_entity_def entityT_Inr_iff split: option.splits)

lemma save_node_task:
  assumes "nodes_save_task_entity t s = Inr (x, s')" and "nt_id t = Some i"
  shows "s' = s\<lparr>d_ntasks := update_row nt_id i (saved_task t (d_clock s)) (d_ntasks s)\<rparr>"
  using assms by (auto simp: nodes_save_task_entity_def put_ntasks_def bindT_Inr liftT_Inr_iff writeT_Inr_iff)

lemma saved_task_lookup:
  "get_row nt_id j (update_row nt_id i (saved_task t now) tab) =
     (if j = i then map_option (saved_task t now) (get_row nt_id j tab) else get_row nt_id j tab)"
  by (rule ntasks_tab.update_row_lookup) (simp add: saved_task_def)

lemma ntasks_frame: "preserves (\<lambda>s. Q (d_ntasks s)) (nodes_create_task_attempt i n p at)"
  unfolding nodes_create_task_attempt_def put_nattempts_def by (intro preserves_intros preserves_writeT) simp

text \<open>What claiming a dispatchable task does when it succeeds.\<close>

lemma claim_node_taskD:
  assumes "claim_node_task cfg tok i task node at s = Inr (Inr pd, s')"
  shows "\<exists>n t' s1 a. NodeTask_start_attempt task at (at + seconds (ds_lease_seconds cfg)) tok = Inr (n, t') \<and>
     nodes_save_task_entity t' s = Inr ((), s1) \<and> nodes_create_task_attempt i n (nt_payload t') at s1 = Inr (a, s') \<and>
     pd_attempt_no pd = n \<and> pd_lease_token pd = tok \<and> pd_task pd = t'"
proof -
  obtain n t' s1 a s2 where run: "NodeTask_start_attempt task at (at + seconds (ds_lease_seconds cfg)) tok = Inr (n, t')"
      "nodes_save_task_entity t' s = Inr ((), s1)" "nodes_create_task_attempt i n (nt_payload t') at s1 = Inr (a, s2)"
    and rest: "bindT (nodes_get_active_credential (nt_node_id t')) (\<lambda>credential.
       case credential of
         None \<Rightarrow> bindT (record_preflight_failure cfg t' a ''Active node credential not found'' at) (\<lambda>_. retT (Inl ''credential_missing''))
       | Some c \<Rightarrow> retT (Inr \<lparr>pd_task = t', pd_node = node, pd_credential = c, pd_attempt_id = a,
                     pd_attempt_no = n, pd_lease_token = tok\<rparr>)) s2 = Inr (Inr pd, s')"
    using assms unfolding claim_node_task_def bindT_Inr liftT_Inr_iff by (auto simp: bindT_Inr)
  show ?thesis
  proof (cases "top_by nc_created_at (select_rows (\<lambda>r. nc_node_id r = nt_node_id t' \<and> nc_is_active r) (d_creds s2))")
    case None
    then show ?thesis using rest unfolding nodes_get_active_credential_def bindT_readT None by (auto simp: bindT_Inr)
  next
    case (Some c)
    then show ?thesis using rest run unfolding nodes_get_active_credential_def bindT_readT Some by auto
  qed
qed

text \<open>The state of a task right after it was claimed.\<close>

lemma claimed_row:
  assumes "dispatch_prepare cfg tok i at s = Inr (Inr pd, s')"
  shows "\<exists>r. get_row nt_id i (d_ntasks s') = Some r \<and> nt_status r = NTS_IN_PROGRESS \<and> nt_lease_token r = Some tok \<and>
     nt_lease_expires_at r = Some (at + seconds (ds_lease_seconds cfg)) \<and> nt_attempts r = pd_attempt_no pd \<and>
     pd_lease_token pd = tok \<and> at < at + seconds (ds_lease_seconds cfg) \<and> (\<exists>t. node_task_from_row r = Inr t) \<and>
     nt_id (pd_task pd) = Some i"
proof -
  obtain found s0 where found: "nodes_get_task_entity i s = Inr (found, s0)"
    and "(case dispatch_early_result found at of Some status \<Rightarrow> retT (Inl status) | None \<Rightarrow>
     (case found of
        None \<Rightarrow> raiseT (RuntimeError ''assert task is not None'')
      | Some task \<Rightarrow>
          bindT (nodes_get_node_operation_state (nt_node_id task)) (\<lambda>state.
          case state of
            None \<Rightarrow> defer_unavailable_node cfg task at ''node_missing''
          | Some (node, st) \<Rightarrow>
              if \<not> node_allows cfg task node st at
              then defer_unavailable_node cfg task at ''node_unavailable''
              else claim_node_task cfg tok i task node at))) s0 = Inr (Inr pd, s')"
    using assms unfolding dispatch_prepare_def bindT_Inr by blast
  then obtain task node where task: "found = Some task" and claim: "claim_node_task cfg tok i task node at s = Inr (Inr pd, s')"
    by (auto simp: nodes_get_task_entity_def nodes_get_node_operation_state_def defer_unavailable_node_def bindT_Inr
        split: option.splits if_splits dest!: entityT_state)
  obtain r0 where r0: "get_row nt_id i (d_ntasks s) = Some r0" "node_task_from_row r0 = Inr task"
    using found task node_task_loads by blast
  then have row: "task = r0\<lparr>nt_journal_retired_at := None\<rparr>" and id: "nt_id task = Some i"
    by (auto simp: node_task_from_row_def NodeTask_post_init_def bindE_eq_Inr dest: get_row_key)
  let ?e = "at + seconds (ds_lease_seconds cfg)"
  obtain n t' s1 a where start: "NodeTask_start_attempt task at ?e tok = Inr (n, t')" and save: "nodes_save_task_entity t' s = Inr ((), s1)"
    and att: "nodes_create_task_attempt i n (nt_payload t') at s1 = Inr (a, s')" and pd: "pd_attempt_no pd = n" "pd_lease_token pd = tok" "pd_task pd = t'"
    using claim_node_taskD [OF claim] by blast
  have t': "nt_id t' = Some i" "nt_status t' = NTS_IN_PROGRESS" "nt_lease_token t' = Some tok" "nt_lease_expires_at t' = Some ?e"
      "nt_attempts t' = n" "n = nt_attempts task + 1" "at < ?e" "nt_vpn_generation t' = nt_vpn_generation task"
    using start id by (auto simp: NodeTask_start_attempt_def bindE_eq_Inr seconds_def)
  have tab: "d_ntasks s' = update_row nt_id i (saved_task t' (d_clock s)) (d_ntasks s)"
    using preservesD [OF ntasks_frame [where Q = "\<lambda>t. t = d_ntasks s1"] refl att] save_node_task [OF save t'(1)] by simp
  have new: "get_row nt_id i (d_ntasks s') = Some (saved_task t' (d_clock s) r0)"
    unfolding tab saved_task_lookup by (simp add: r0(1))
  have "\<exists>t. node_task_from_row (saved_task t' (d_clock s) r0) = Inr t"
    using r0(2) t'(5,6,8) row by (auto simp: node_task_from_row_def NodeTask_post_init_def saved_task_def bindE_eq_Inr)
  then show ?thesis using new t' pd by (simp add: saved_task_def)
qed

text \<open>The same for the claims of panel tasks. The tables' constraints hold after a claim, because its write was accepted.\<close>

lemma panel_task_loads:
  "get_row pp_id i (d_pprov s) = Some r \<Longrightarrow> PanelProvisionTask_post_init r = Inr r \<Longrightarrow>
     vpn_get_panel_task_entity PanelProvisionTask_post_init i s = Inr (Some r, s)"
  by (simp add: vpn_get_panel_task_entity_def entityT_def)

lemma panel_revoke_loads:
  "get_row pr_id i (d_prev s) = Some r \<Longrightarrow> panel_revoke_task_from_row r = Inr r \<Longrightarrow>
     vpn_get_panel_revoke_task_entity i s = Inr (Some r, s)"
  by (simp add: vpn_get_panel_revoke_task_entity_def entityT_def)

lemma claimed_panel_row:
  assumes "panel_prepare PanelProvisionTask_post_init l tok i at s = Inr (Inr pq, s')"
  shows "\<exists>r. get_row pp_id i (d_pprov s') = Some r \<and> PanelProvisionTask_post_init r = Inr r \<and> pp_status r = PTS_IN_PROGRESS \<and>
     pp_lease_token r = Some tok \<and> pp_lease_expires_at r = Some (at + seconds l) \<and> pp_attempts r = pq_attempt_no pq \<and>
     pq_lease_token pq = tok \<and> pq_task_id pq = i \<and> pprov_constraints (d_pprov s')"
proof -
  obtain r0 where r0: "get_row pp_id i (d_pprov s) = Some r0" "PanelProvisionTask_post_init r0 = Inr r0"
    and rest: "(if pp_status r0 \<in> {PTS_SUCCEEDED, PTS_FAILED, PTS_CANCELLED} \<or> \<not> PanelProvisionTask_can_dispatch r0 at
         then retT (Inl (PanelTaskStatus_value (pp_status r0)))
         else
           bindT (liftT (PanelProvisionTask_start_attempt r0 at (at + seconds l) tok)) (\<lambda>(attempt_no, task').
           bindT (vpn_save_panel_task_entity task') (\<lambda>_.
           retT (Inr \<lparr>pq_task_id = i, pq_lease_token = tok, pq_attempt_no = attempt_no,
                       pq_compensate = pp_compensation_required task', pq_payload = pp_payload task'\<rparr>)))) s = Inr (Inr pq, s')"
    using assms by (auto simp: panel_prepare_def vpn_get_panel_task_entity_def entityT_Inr_iff bindT_Inr PanelProvisionTask_post_init_def
        bindE_eq_Inr split: option.splits)
  have id: "pp_id r0 = Some i" using get_row_key [OF r0(1)] by simp
  from rest obtain n t where start: "PanelProvisionTask_start_attempt r0 at (at + seconds l) tok = Inr (n, t)"
    and save: "vpn_save_panel_task_entity t s = Inr ((), s')"
    and pq: "pq_lease_token pq = tok" "pq_task_id pq = i" "pq_attempt_no pq = n"
    by (auto simp: bindT_Inr liftT_Inr_iff split: if_splits)
  have t: "pp_id t = Some i" "pp_status t = PTS_IN_PROGRESS" "pp_lease_token t = Some tok" "pp_lease_expires_at t = Some (at + seconds l)"
      "pp_attempts t = n" "n = pp_attempts r0 + 1" "pp_max_attempts t = pp_max_attempts r0" "pp_vpn_generation t = pp_vpn_generation r0"
    using start id by (auto simp: PanelProvisionTask_start_attempt_def bindE_eq_Inr)
  show ?thesis
    using save t pq r0
    by (auto simp: pprov_tab.update_row_lookup vpn_save_panel_task_entity_def put_pprov_def bindT_Inr writeT_Inr_iff PanelProvisionTask_post_init_def bindE_eq_Inr)
qed

lemma claimed_panel_revoke_row:
  assumes "panel_revoke_prepare l tok i at s = Inr (Inr pk, s')"
  shows "\<exists>r. get_row pr_id i (d_prev s') = Some r \<and> panel_revoke_task_from_row r = Inr r \<and> pr_status r = PTS_IN_PROGRESS \<and>
     pr_lease_token r = Some tok \<and> pr_lease_expires_at r = Some (at + seconds l) \<and> pr_attempts r = pk_attempt_no pk \<and>
     pk_lease_token pk = tok \<and> pk_task_id pk = i"
proof -
  obtain r0 where r0: "get_row pr_id i (d_prev s) = Some r0" "panel_revoke_task_from_row r0 = Inr r0"
    and rest: "(if pr_status r0 \<in> {PTS_SUCCEEDED, PTS_FAILED, PTS_CANCELLED} \<or> \<not> PanelRevokeTask_can_dispatch r0 at
         then retT (Inl (PanelTaskStatus_value (pr_status r0)))
         else
           bindT (liftT (PanelRevokeTask_start_attempt r0 at (at + seconds l) tok)) (\<lambda>(attempt_no, task').
           bindT (vpn_save_panel_revoke_task_entity task') (\<lambda>_.
           retT (Inr \<lparr>pk_task_id = i, pk_lease_token = tok, pk_attempt_no = attempt_no, pk_payload = pr_payload task'\<rparr>)))) s
       = Inr (Inr pk, s')"
    using assms by (auto simp: panel_revoke_prepare_def vpn_get_panel_revoke_task_entity_def entityT_Inr_iff bindT_Inr
        panel_revoke_task_from_row_def PanelRevokeTask_post_init_def bindE_eq_Inr split: option.splits)
  have id: "pr_id r0 = Some i" using get_row_key [OF r0(1)] by simp
  from rest obtain n t where start: "PanelRevokeTask_start_attempt r0 at (at + seconds l) tok = Inr (n, t)"
    and save: "vpn_save_panel_revoke_task_entity t s = Inr ((), s')"
    and pk: "pk_lease_token pk = tok" "pk_task_id pk = i" "pk_attempt_no pk = n"
    by (auto simp: bindT_Inr liftT_Inr_iff split: if_splits)
  have t: "pr_id t = Some i" "pr_status t = PTS_IN_PROGRESS" "pr_lease_token t = Some tok" "pr_lease_expires_at t = Some (at + seconds l)"
      "pr_attempts t = n" "n = pr_attempts r0 + 1" "pr_max_attempts t = pr_max_attempts r0" "pr_vpn_generation t = pr_vpn_generation r0"
    using start id by (auto simp: PanelRevokeTask_start_attempt_def bindE_eq_Inr)
  show ?thesis
    using save t pk r0
    by (auto simp: prev_tab.update_row_lookup vpn_save_panel_revoke_task_entity_def put_prev_def bindT_Inr writeT_Inr_iff panel_revoke_task_from_row_def
        PanelRevokeTask_post_init_def bindE_eq_Inr)
qed

section \<open>A small database for the examples\<close>

definition small_task :: "int \<Rightarrow> NodeTaskOperation \<Rightarrow> NodeTaskStatus \<Rightarrow> string \<Rightarrow> NodeTask" where
  "small_task i operation status key =
     \<lparr>nt_id = Some i, nt_task_uuid = key, nt_node_id = 1, nt_operation = operation, nt_status = status, nt_idempotency_key = key,
      nt_payload = [(''client_uuid'', JStr ''c''), (''inbound_id'', JStr ''in'')], nt_vpn_configuration_id = Some 1, nt_subscription_id = Some 1,
      nt_vpn_generation = Some 1, nt_response_payload = None, nt_remote_client_ref = JNull, nt_attempts = 0, nt_max_attempts = 3,
      nt_next_retry_at = Some 9, nt_last_error = None, nt_claimed_at = None, nt_lease_expires_at = None, nt_lease_token = None,
      nt_created_at = None, nt_updated_at = None, nt_completed_at = (if status = NTS_SUCCEEDED then Some 9 else None), nt_journal_retired_at = None\<rparr>"

definition small_db :: db where
  "small_db = (empty_db 9)\<lparr>
     d_nodes := \<lparr>rows = [\<lparr>no_id = Some 1, no_node_key = ''n1'', no_display_name = ''node'', no_api_base_url = ''http://n1'', no_status = NS_ONLINE,
       no_is_enabled = True, no_selection_weight = 1, no_last_seen_at = None, no_last_error = None\<rparr>], next_id = 2\<rparr>,
     d_nstatus := [\<lparr>st_node_id = 1, st_health_status = NS_ONLINE, st_agent_version = None, st_capabilities = [], st_metrics = [],
       st_status_payload = [], st_inbounds = [], st_last_seen_at = None, st_last_checked_at = Some 9, st_last_failed_at = None,
       st_active_clients = Some 0, st_max_clients = Some 10, st_probe_lease_token = None, st_probe_lease_expires_at = None, st_updated_at = 9\<rparr>],
     d_creds := \<lparr>rows = [\<lparr>nc_id = Some 1, nc_node_id = 1, nc_key_id = ''k'', nc_shared_secret = ''s'', nc_is_active = True, nc_created_at = 9,
       nc_expires_at = None\<rparr>], next_id = 2\<rparr>,
     d_servers := \<lparr>rows = [\<lparr>sv_id = Some 1, sv_server_name = ''srv'', sv_host = ''h'', sv_is_enabled = True\<rparr>], next_id = 2\<rparr>,
     d_endpoints := \<lparr>rows = [\<lparr>en_id = Some 1, en_server_id = 1, en_protocol = ''vless'', en_port = 443, en_security = None, en_node_id = Some 1,
       en_local_inbound_id = None, en_sni = None, en_fingerprint = None, en_public_key = None, en_short_id = None,
       en_transport_type = None, en_flow = None, en_encryption = None, en_is_enabled = True\<rparr>], next_id = 2\<rparr>,
     d_ntasks := \<lparr>rows = [small_task 1 PROVISION_CLIENT NTS_PENDING ''a'', small_task 2 REVOKE_CLIENT NTS_SUCCEEDED ''b''], next_id = 3\<rparr>\<rparr>"

definition small_settings :: dispatch_settings where
  "small_settings = \<lparr>ds_retry_base_seconds = 5, ds_lease_seconds = 60, ds_node_health_stale_after_seconds = 180, ds_node_unavailable_retry_seconds = 30\<rparr>"

text \<open>Panel tasks that are due.\<close>

definition small_provision :: PanelProvisionTask where
  "small_provision = \<lparr>pp_id = Some 1, pp_vpn_configuration_id = 1, pp_subscription_id = 1, pp_status = PTS_PENDING, pp_idempotency_key = ''p'',
     pp_payload = [], pp_vpn_generation = 1, pp_attempts = 0, pp_max_attempts = 3, pp_next_retry_at = Some 9, pp_last_error = None,
     pp_claimed_at = None, pp_lease_expires_at = None, pp_lease_token = None, pp_compensation_required = False,
     pp_created_at = None, pp_updated_at = None, pp_completed_at = None\<rparr>"

definition small_revoke :: PanelRevokeTask where
  "small_revoke = \<lparr>pr_id = Some 1, pr_task_uuid = ''u'', pr_vpn_configuration_id = 1, pr_subscription_id = 1, pr_vpn_generation = 1,
     pr_status = PTS_PENDING, pr_idempotency_key = ''p'', pr_payload = [], pr_attempts = 0, pr_max_attempts = 3, pr_next_retry_at = Some 9,
     pr_last_error = None, pr_claimed_at = None, pr_lease_expires_at = None, pr_lease_token = None,
     pr_created_at = None, pr_updated_at = None, pr_completed_at = None\<rparr>"

definition panel_db :: db where
  "panel_db = (empty_db 9)\<lparr>d_pprov := \<lparr>rows = [small_provision], next_id = 2\<rparr>, d_prev := \<lparr>rows = [small_revoke], next_id = 2\<rparr>\<rparr>"

lemma small_claim: "\<exists>pd s'. dispatch_prepare small_settings ''w1'' 1 10 small_db = Inr (Inr pd, s') \<and> nt_id (pd_task pd) = Some 1"
proof -
  have "case dispatch_prepare small_settings ''w1'' 1 10 small_db of Inr (Inr pd, s') \<Rightarrow> nt_id (pd_task pd) = Some 1 | _ \<Rightarrow> False" by code_simp
  then show ?thesis by (auto split: sum.splits)
qed

section \<open>Claims\<close>

text \<open>C17. A node task that a worker has claimed cannot be claimed by another one: until the claim is finished or recovered, every further dispatch
  of the task is answered with \<^verbatim>\<open>scheduled\<close> and changes nothing. The claim is stored with the worker's token, its attempt number and a
  lease that ends later than the claim.\<close>

theorem claimed_task_is_not_claimed_again:
  assumes "dispatch_prepare cfg tok i at s = Inr (Inr pd, s')"
  shows "dispatch_prepare cfg' tok' i at' s' = Inr (Inl ''scheduled'', s') \<and>
         (\<exists>r. get_row nt_id i (d_ntasks s') = Some r \<and> nt_status r = NTS_IN_PROGRESS \<and> nt_lease_token r = Some tok \<and>
            nt_attempts r = pd_attempt_no pd \<and> (\<exists>e. nt_lease_expires_at r = Some e \<and> at < e))"
proof -
  obtain r t where r: "get_row nt_id i (d_ntasks s') = Some r" "nt_status r = NTS_IN_PROGRESS" "nt_lease_token r = Some tok"
      "nt_lease_expires_at r = Some (at + seconds (ds_lease_seconds cfg))" "nt_attempts r = pd_attempt_no pd"
      "at < at + seconds (ds_lease_seconds cfg)" "node_task_from_row r = Inr t"
    using claimed_row [OF assms] by blast
  have load: "nodes_get_task_entity i s' = Inr (Some t, s')" unfolding node_task_loads using r by blast
  have "nt_status t = NTS_IN_PROGRESS" using r(2,7) by (auto simp: node_task_from_row_def NodeTask_post_init_def bindE_eq_Inr)
  then have "dispatch_early_result (Some t) at' = Some ''scheduled''"
    by (simp add: dispatch_early_result_def NodeTask_can_dispatch_def)
  then have "dispatch_prepare cfg' tok' i at' s' = Inr (Inl ''scheduled'', s')"
    by (simp add: dispatch_prepare_def bindT_def [where s = s'] load)
  then show ?thesis using r by blast
qed

theorem claimed_task_is_not_claimed_again_witness:
  "\<exists>pd s'. dispatch_prepare small_settings ''w1'' 1 10 small_db = Inr (Inr pd, s') \<and>
     dispatch_prepare small_settings ''w2'' 1 11 s' = Inr (Inl ''scheduled'', s')"
proof -
  obtain pd s' where claim: "dispatch_prepare small_settings ''w1'' 1 10 small_db = Inr (Inr pd, s')" using small_claim by blast
  show ?thesis using claim claimed_task_is_not_claimed_again [OF claim, of small_settings "''w2''" 11] by blast
qed

text \<open>What a worker can still record is decided by the row as it is stored: with another token it owns nothing, and after the end of its own
  lease a node task or the success of a panel revocation is not recorded any more.\<close>

lemma node_outcome_lost:
  assumes "get_row nt_id i (d_ntasks s) = Some r" and "node_task_from_row r = Inr t" and "nt_id (pd_task pd) = Some i"
    and "nt_lease_token r \<noteq> Some (pd_lease_token pd) \<or> (\<exists>e. nt_lease_expires_at r = Some e \<and> e \<le> now)"
  shows "dispatch_finalize py b u pd out now s = Inr (finalized ''stale_attempt'', s)"
proof -
  have load: "nodes_get_task_entity i s = Inr (Some t, s)" unfolding node_task_loads using assms(1,2) by blast
  have "nt_lease_token t = nt_lease_token r" "nt_lease_expires_at t = nt_lease_expires_at r"
    using assms(2) by (auto simp: node_task_from_row_def NodeTask_post_init_def bindE_eq_Inr)
  then have "\<not> NodeTask_owns_active_lease t (pd_lease_token pd) now (pd_attempt_no pd)"
    using assms(4) by (auto simp: NodeTask_owns_active_lease_def)
  then show ?thesis using assms(3) load by (simp add: dispatch_finalize_def bindT_def [where s = s])
qed

lemma provision_outcome_lost:
  assumes "get_row pp_id (pq_task_id pq) (d_pprov s) = Some r" and "PanelProvisionTask_post_init r = Inr r"
    and "pp_lease_token r \<noteq> Some (pq_lease_token pq)"
  shows "panel_finalize_success PanelProvisionTask_post_init pq now s = Inr (LeaseLost, s)"
    and "panel_finalize_failure PanelProvisionTask_post_init b pq k now s = Inr (''lease_lost'', s)"
    and "record_compensation_success PanelProvisionTask_post_init pq now s = Inr (''lease_lost'', s)"
    and "record_compensation_failure PanelProvisionTask_post_init pq k now s = Inr ((), s)"
  using assms(3) panel_task_loads [OF assms(1,2)]
  by (simp_all add: panel_finalize_success_def panel_finalize_failure_def record_compensation_success_def record_compensation_failure_def
      bindT_def [where s = s] PanelProvisionTask_owns_lease_def PanelProvisionTask_owns_active_lease_def)

lemma revoke_outcome_lost:
  assumes "get_row pr_id (pk_task_id pk) (d_prev s) = Some r" and "panel_revoke_task_from_row r = Inr r"
  shows "pr_lease_token r \<noteq> Some (pk_lease_token pk) \<or> (\<exists>e. pr_lease_expires_at r = Some e \<and> e \<le> now) \<Longrightarrow>
      panel_revoke_success pk now s = Inr (''stale_attempt'', s)"
    and "pr_lease_token r \<noteq> Some (pk_lease_token pk) \<Longrightarrow> panel_revoke_failure b pk k now s = Inr (''stale_attempt'', s)"
  using panel_revoke_loads [OF assms]
  by (auto simp: panel_revoke_success_def panel_revoke_failure_def bindT_def [where s = s] PanelRevokeTask_owns_lease_def
      PanelRevokeTask_owns_active_lease_def)

text \<open>A panel that answers after the lease has ended, while nobody else took the task, is recorded for compensation and nothing else.\<close>

lemma provision_outcome_late:
  assumes "get_row pp_id (pq_task_id pq) (d_pprov s) = Some r" and "PanelProvisionTask_post_init r = Inr r"
    and "pp_lease_token r = Some (pq_lease_token pq)" and "pp_attempts r = pq_attempt_no pq" and "pp_status r = PTS_IN_PROGRESS"
    and "pp_lease_expires_at r = Some e" and "e \<le> now" and con: "pprov_constraints (d_pprov s)"
  shows "\<exists>t r'. panel_finalize_success PanelProvisionTask_post_init pq now s = Inr (Compensate, s\<lparr>d_pprov := t\<rparr>) \<and>
     get_row pp_id (pq_task_id pq) t = Some r' \<and> pp_status r' = PTS_IN_PROGRESS \<and> pp_compensation_required r'"
proof -
  let ?r = "r\<lparr>pp_compensation_required := True, pp_last_error := Some ''panel lease expired after remote success'', pp_updated_at := Some now\<rparr>"
  have id: "pp_id r = Some (pq_task_id pq)" using get_row_key [OF assms(1)] by simp
  let ?f = "\<lambda>x. x\<lparr>pp_status := pp_status ?r, pp_payload := pp_payload ?r, pp_vpn_generation := pp_vpn_generation ?r,
     pp_attempts := pp_attempts ?r, pp_max_attempts := pp_max_attempts ?r, pp_next_retry_at := pp_next_retry_at ?r,
     pp_last_error := pp_last_error ?r, pp_claimed_at := pp_claimed_at ?r, pp_lease_expires_at := pp_lease_expires_at ?r,
     pp_lease_token := pp_lease_token ?r, pp_compensation_required := pp_compensation_required ?r,
     pp_updated_at := pp_updated_at ?r, pp_completed_at := pp_completed_at ?r\<rparr>"
  let ?t = "update_row pp_id (pq_task_id pq) ?f (d_pprov s)"
  have "r \<in> set (rows (d_pprov s))" using get_row_key [OF assms(1)] by simp
  then have ok: "pprov_constraints ?t"
    using con by (auto simp: pprov_constraints_def update_row_def update_where_def comp_def if_distrib [of pp_vpn_configuration_id]
        if_distrib [of pp_idempotency_key] list_all_iff cong: if_cong)
  have "panel_finalize_success PanelProvisionTask_post_init pq now s = mark_panel_compensation r now ''panel lease expired after remote success'' s"
    using panel_task_loads [OF assms(1,2)] assms(3-7)
    by (simp add: panel_finalize_success_def bindT_def [where s = s] PanelProvisionTask_owns_lease_def PanelProvisionTask_owns_active_lease_def)
  also have "\<dots> = Inr (Compensate, s\<lparr>d_pprov := ?t\<rparr>)"
    using assms(5) id ok by (simp add: mark_panel_compensation_def PanelProvisionTask_mark_compensation_required_def
        vpn_save_panel_task_entity_def put_pprov_def bindT_def liftT_def writeT_def ensure_def)
  finally show ?thesis
    using assms(1,5) by (intro exI [of _ ?t] exI [of _ "?f r"]) (simp add: pprov_tab.update_row_lookup)
qed

text \<open>C18. A worker whose claim was superseded records nothing. Let a task be claimed with one token and, after whatever else happened, be
  claimed again with another one. While it is stored as the second claim left it, whatever the first worker reports leaves the
  database as it is: the outcome of a node task, the success or failure of a panel provisioning task or of its compensation, and
  the success or failure of a panel revocation task. A worker that was not superseded but reports after its own lease has ended
  also records no outcome of a node task and no success of a panel revocation; the late success of a panel provisioning task is
  recorded only as a compensation the task requires, and no configuration is activated. (A late failure of a panel task that
  nobody else took is recorded, as the code means it to be.) Panel provisioning tasks are loaded by their entity's own check.\<close>

theorem stale_worker_changes_nothing:
  assumes "tok' \<noteq> tok"
  shows "(dispatch_prepare cfg tok i at s = Inr (Inr pd, s1) \<and> dispatch_prepare cfg' tok' i at' s2 = Inr (Inr pd', s3) \<and>
            get_row nt_id i (d_ntasks s4) = get_row nt_id i (d_ntasks s3) \<longrightarrow>
          dispatch_finalize py b u pd out now s4 = Inr (finalized ''stale_attempt'', s4)) \<and>
         (panel_prepare PanelProvisionTask_post_init l tok i at s = Inr (Inr pq, s1) \<and>
            panel_prepare PanelProvisionTask_post_init l' tok' i at' s2 = Inr (Inr pq', s3) \<and>
            get_row pp_id i (d_pprov s4) = get_row pp_id i (d_pprov s3) \<longrightarrow>
          panel_finalize_success PanelProvisionTask_post_init pq now s4 = Inr (LeaseLost, s4) \<and>
          panel_finalize_failure PanelProvisionTask_post_init b pq k now s4 = Inr (''lease_lost'', s4) \<and>
          record_compensation_success PanelProvisionTask_post_init pq now s4 = Inr (''lease_lost'', s4) \<and>
          record_compensation_failure PanelProvisionTask_post_init pq k now s4 = Inr ((), s4)) \<and>
         (panel_revoke_prepare l tok i at s = Inr (Inr pk, s1) \<and> panel_revoke_prepare l' tok' i at' s2 = Inr (Inr pk', s3) \<and>
            get_row pr_id i (d_prev s4) = get_row pr_id i (d_prev s3) \<longrightarrow>
          panel_revoke_success pk now s4 = Inr (''stale_attempt'', s4) \<and> panel_revoke_failure b pk k now s4 = Inr (''stale_attempt'', s4)) \<and>
         (dispatch_prepare cfg tok i at s = Inr (Inr pd, s1) \<and> get_row nt_id i (d_ntasks s4) = get_row nt_id i (d_ntasks s1) \<and>
            at + seconds (ds_lease_seconds cfg) \<le> now \<longrightarrow>
          dispatch_finalize py b u pd out now s4 = Inr (finalized ''stale_attempt'', s4)) \<and>
         (panel_revoke_prepare l tok i at s = Inr (Inr pk, s1) \<and> get_row pr_id i (d_prev s4) = get_row pr_id i (d_prev s1) \<and>
            at + seconds l \<le> now \<longrightarrow>
          panel_revoke_success pk now s4 = Inr (''stale_attempt'', s4)) \<and>
         (panel_prepare PanelProvisionTask_post_init l tok i at s = Inr (Inr pq, s1) \<and> d_pprov s4 = d_pprov s1 \<and> at + seconds l \<le> now \<longrightarrow>
          (\<exists>t r. panel_finalize_success PanelProvisionTask_post_init pq now s4 = Inr (Compensate, s4\<lparr>d_pprov := t\<rparr>) \<and>
             get_row pp_id i t = Some r \<and> pp_status r = PTS_IN_PROGRESS \<and> pp_compensation_required r))"
proof (intro conjI impI, goal_cases)
  case 1
  then obtain r t where "get_row nt_id i (d_ntasks s4) = Some r" "node_task_from_row r = Inr t" "nt_lease_token r = Some tok'"
    using claimed_row [of cfg' tok' i at' s2 pd' s3] by auto
  moreover have "nt_id (pd_task pd) = Some i" "pd_lease_token pd = tok" using claimed_row [of cfg tok i at s pd s1] 1 by auto
  ultimately show ?case using assms by (intro node_outcome_lost) auto
next
  case 2
  then show ?case using claimed_panel_row provision_outcome_lost(1) assms by (metis option.inject)
next
  case 3
  then show ?case using claimed_panel_row provision_outcome_lost(2) assms by (metis option.inject)
next
  case 4
  then show ?case using claimed_panel_row provision_outcome_lost(3) assms by (metis option.inject)
next
  case 5
  then show ?case using claimed_panel_row provision_outcome_lost(4) assms by (metis option.inject)
next
  case 6
  then show ?case using claimed_panel_revoke_row revoke_outcome_lost(1) assms by (metis option.inject)
next
  case 7
  then show ?case using claimed_panel_revoke_row revoke_outcome_lost(2) assms by (metis option.inject)
next
  case 8
  then obtain r t where "get_row nt_id i (d_ntasks s4) = Some r" "node_task_from_row r = Inr t" "nt_id (pd_task pd) = Some i"
      "nt_lease_expires_at r = Some (at + seconds (ds_lease_seconds cfg))"
    using claimed_row [of cfg tok i at s pd s1] by auto
  then show ?case using node_outcome_lost 8 by blast
next
  case 9
  then show ?case using claimed_panel_revoke_row revoke_outcome_lost(1) by metis
next
  case 10
  then obtain r where r: "get_row pp_id i (d_pprov s4) = Some r" "PanelProvisionTask_post_init r = Inr r" "pp_status r = PTS_IN_PROGRESS"
      "pp_lease_token r = Some (pq_lease_token pq)" "pp_lease_expires_at r = Some (at + seconds l)" "pp_attempts r = pq_attempt_no pq"
      "pq_task_id pq = i" "pprov_constraints (d_pprov s4)" using claimed_panel_row by metis
  then show ?case using provision_outcome_late [of pq s4 r] 10 by simp
qed


text \<open>The first worker claims for a minute, its lease is recovered later and the second worker claims the task.\<close>

definition claimed :: "('a + 'b) tx \<Rightarrow> db \<Rightarrow> ('b \<times> db) option" where
  "claimed m s = (case m s of Inl _ \<Rightarrow> None | Inr (x, s') \<Rightarrow> (case x of Inl _ \<Rightarrow> None | Inr p \<Rightarrow> Some (p, s')))"

lemma claimed_Some: "claimed m s = Some (p, s') \<longleftrightarrow> m s = Inr (Inr p, s')"
  by (auto simp: claimed_def split: sum.splits)

definition claimed_twice :: "('a + 'b) tx \<Rightarrow> (db \<Rightarrow> 'c res \<times> db) \<Rightarrow> ('a + 'b) tx \<Rightarrow> db \<Rightarrow> bool" where
  "claimed_twice claim1 recover claim2 s =
     (case claimed claim1 s of None \<Rightarrow> False | Some (p, s1) \<Rightarrow> \<not> Option.is_none (claimed claim2 (snd (recover s1))))"

lemma claimed_twiceD:
  assumes "claimed_twice claim1 recover claim2 s"
  obtains p s1 p' s3 where "claim1 s = Inr (Inr p, s1)" and "claim2 (snd (recover s1)) = Inr (Inr p', s3)"
proof -
  obtain p s1 where 1: "claimed claim1 s = Some (p, s1)" and 2: "\<not> Option.is_none (claimed claim2 (snd (recover s1)))"
    using assms by (auto simp: claimed_twice_def split: option.splits)
  from 2 obtain p' s3 where "claimed claim2 (snd (recover s1)) = Some (p', s3)" by (auto simp: Option.is_none_def)
  then show thesis using that 1 by (simp add: claimed_Some)
qed

lemma small_claims:
  "claimed_twice (dispatch_prepare small_settings ''w1'' 1 10) (recover_stale (\<lambda>_. True) 5 (seconds 100) 10)
     (dispatch_prepare small_settings ''w2'' 1 (seconds 150)) small_db"
  "claimed_twice (panel_prepare PanelProvisionTask_post_init 60 ''w1'' 1 10)
     (panel_recover_stale PanelProvisionTask_post_init (\<lambda>_. True) (seconds 100) 10)
     (panel_prepare PanelProvisionTask_post_init 60 ''w2'' 1 (seconds 150)) panel_db"
  "claimed_twice (panel_revoke_prepare 60 ''w1'' 1 10) (panel_revoke_recover_stale (\<lambda>_. True) (seconds 100) 10)
     (panel_revoke_prepare 60 ''w2'' 1 (seconds 150)) panel_db"
  by code_simp+

theorem stale_worker_changes_nothing_witness:
  "(\<exists>pd s1 pd' s3. dispatch_prepare small_settings ''w1'' 1 10 small_db = Inr (Inr pd, s1) \<and>
      dispatch_prepare small_settings ''w2'' 1 (seconds 150) (snd (recover_stale (\<lambda>_. True) 5 (seconds 100) 10 s1)) = Inr (Inr pd', s3) \<and>
      dispatch_finalize (\<lambda>_. []) 5 ''u'' pd (Inr (Some [])) (seconds 151) s3 = Inr (finalized ''stale_attempt'', s3) \<and>
      dispatch_finalize (\<lambda>_. []) 5 ''u'' pd (Inr (Some [])) (10 + seconds 60) s1 = Inr (finalized ''stale_attempt'', s1)) \<and>
   (\<exists>pq s1 pq' s3. panel_prepare PanelProvisionTask_post_init 60 ''w1'' 1 10 panel_db = Inr (Inr pq, s1) \<and>
      panel_prepare PanelProvisionTask_post_init 60 ''w2'' 1 (seconds 150)
        (snd (panel_recover_stale PanelProvisionTask_post_init (\<lambda>_. True) (seconds 100) 10 s1)) = Inr (Inr pq', s3) \<and>
      panel_finalize_success PanelProvisionTask_post_init pq (seconds 151) s3 = Inr (LeaseLost, s3) \<and>
      record_compensation_failure PanelProvisionTask_post_init pq ''e'' (seconds 151) s3 = Inr ((), s3) \<and>
      (\<exists>t. panel_finalize_success PanelProvisionTask_post_init pq (10 + seconds 60) s1 = Inr (Compensate, s1\<lparr>d_pprov := t\<rparr>))) \<and>
   (\<exists>pk s1 pk' s3. panel_revoke_prepare 60 ''w1'' 1 10 panel_db = Inr (Inr pk, s1) \<and>
      panel_revoke_prepare 60 ''w2'' 1 (seconds 150) (snd (panel_revoke_recover_stale (\<lambda>_. True) (seconds 100) 10 s1)) = Inr (Inr pk', s3) \<and>
      panel_revoke_success pk (seconds 151) s3 = Inr (''stale_attempt'', s3) \<and>
      panel_revoke_failure 5 pk ''e'' (seconds 151) s3 = Inr (''stale_attempt'', s3) \<and>
      panel_revoke_success pk (10 + seconds 60) s1 = Inr (''stale_attempt'', s1))"
proof -
  have w: "''w2'' \<noteq> ''w1''" by simp
  have lease: "ds_lease_seconds small_settings = 60" by (simp add: small_settings_def)
  note C = stale_worker_changes_nothing [OF w]
  note node_late = conjunct1 [OF conjunct2 [OF conjunct2 [OF conjunct2 [OF C]]], THEN mp]
    and revoke_late = conjunct1 [OF conjunct2 [OF conjunct2 [OF conjunct2 [OF conjunct2 [OF C]]]], THEN mp]
    and provision_late = conjunct2 [OF conjunct2 [OF conjunct2 [OF conjunct2 [OF conjunct2 [OF C]]]], THEN mp]
  obtain pd s1 pd' s3 where node: "dispatch_prepare small_settings ''w1'' 1 10 small_db = Inr (Inr pd, s1)"
      "dispatch_prepare small_settings ''w2'' 1 (seconds 150) (snd (recover_stale (\<lambda>_. True) 5 (seconds 100) 10 s1)) = Inr (Inr pd', s3)"
    by (rule claimed_twiceD [OF small_claims(1)])
  have 1: "dispatch_finalize (\<lambda>_. []) 5 ''u'' pd (Inr (Some [])) (seconds 151) s3 = Inr (finalized ''stale_attempt'', s3)"
    by (rule conjunct1 [OF C, THEN mp, OF conjI [OF node(1) conjI [OF node(2) refl]]])
  have 2: "dispatch_finalize (\<lambda>_. []) 5 ''u'' pd (Inr (Some [])) (10 + seconds 60) s1 = Inr (finalized ''stale_attempt'', s1)"
    by (rule node_late [OF conjI [OF node(1) conjI [OF refl]]]) (simp add: lease)
  obtain pq r1 pq' r3 where prov: "panel_prepare PanelProvisionTask_post_init 60 ''w1'' 1 10 panel_db = Inr (Inr pq, r1)"
      "panel_prepare PanelProvisionTask_post_init 60 ''w2'' 1 (seconds 150)
         (snd (panel_recover_stale PanelProvisionTask_post_init (\<lambda>_. True) (seconds 100) 10 r1)) = Inr (Inr pq', r3)"
    by (rule claimed_twiceD [OF small_claims(2)])
  note lost = conjunct1 [OF conjunct2 [OF C], THEN mp, OF conjI [OF prov(1) conjI [OF prov(2) refl]]]
  have 4: "\<exists>t. panel_finalize_success PanelProvisionTask_post_init pq (10 + seconds 60) r1 = Inr (Compensate, r1\<lparr>d_pprov := t\<rparr>)"
    using provision_late [OF conjI [OF prov(1) conjI [OF refl order_refl]]] by blast
  obtain pk q1 pk' q3 where rev: "panel_revoke_prepare 60 ''w1'' 1 10 panel_db = Inr (Inr pk, q1)"
      "panel_revoke_prepare 60 ''w2'' 1 (seconds 150) (snd (panel_revoke_recover_stale (\<lambda>_. True) (seconds 100) 10 q1)) = Inr (Inr pk', q3)"
    by (rule claimed_twiceD [OF small_claims(3)])
  note gone = conjunct1 [OF conjunct2 [OF conjunct2 [OF C]], THEN mp, OF conjI [OF rev(1) conjI [OF rev(2) refl]]]
  note late = revoke_late [OF conjI [OF rev(1) conjI [OF refl order_refl]]]
  show ?thesis
    using node 1 2 prov conjunct1 [OF lost] conjunct2 [OF conjunct2 [OF conjunct2 [OF lost]]] 4 rev gone late by blast
qed

section \<open>Maintenance leases\<close>

lemma lease_acquired:
  assumes "maintenance_acquire_lease k tok now l s = Inr (True, s')"
  shows "distinct (map ml_lease_name (d_leases s'))"
    and "\<exists>r. List.find (\<lambda>r. ml_lease_name r = k) (d_leases s') = Some r \<and> ml_owner_token r = tok \<and> ml_lease_expires_at r = now + seconds l"
proof -
  let ?lease = "\<lparr>ml_lease_name = k, ml_owner_token = tok, ml_lease_expires_at = now + seconds l, ml_updated_at = now\<rparr>"
  have *: "distinct (map ml_lease_name (d_leases s')) \<and> List.find (\<lambda>r. ml_lease_name r = k) (d_leases s') = Some ?lease"
  proof (cases "List.find (\<lambda>r. ml_lease_name r = k) (d_leases s)")
    case None
    then show ?thesis
      using assms by (auto simp: maintenance_acquire_lease_def Let_def put_leases_def bindT_Inr writeT_Inr_iff find_append)
  next
    case (Some r)
    let ?rs = "map (\<lambda>r. if ml_lease_name r = k then ?lease else r) (d_leases s)"
    have "s' = s\<lparr>d_leases := ?rs\<rparr>" and "distinct (map ml_lease_name ?rs)"
      using assms Some
      by (auto simp: maintenance_acquire_lease_def Let_def put_leases_def bindT_Inr writeT_Inr_iff split: if_splits)
    moreover have "List.find (\<lambda>r. ml_lease_name r = k) ?rs = Some ?lease"
      using Some find_Some_iff [OF Some] by (simp add: find_map_if)
    ultimately show ?thesis by simp
  qed
  then show "distinct (map ml_lease_name (d_leases s'))"
    and "\<exists>r. List.find (\<lambda>r. ml_lease_name r = k) (d_leases s') = Some r \<and> ml_owner_token r = tok \<and> ml_lease_expires_at r = now + seconds l"
    by simp_all
qed

lemma not_the_owner:
  assumes "distinct (map ml_lease_name ls)" and "List.find (\<lambda>r. ml_lease_name r = k) ls = Some r" and "ml_owner_token r \<noteq> tok"
  shows "\<forall>x\<in>set ls. \<not> (ml_lease_name x = k \<and> ml_owner_token x = tok)"
proof
  fix x assume x: "x \<in> set ls"
  have "ml_lease_name r = k" "r \<in> set ls" using find_Some_iff [OF assms(2)] by auto
  then show "\<not> (ml_lease_name x = k \<and> ml_owner_token x = tok)"
    using assms(1,3) x by (auto simp: distinct_map dest: inj_onD)
qed

lemma db_leases_id: "s\<lparr>d_leases := d_leases s\<rparr> = s"
  by simp

text \<open>C19. A maintenance lease is exclusive: after it was acquired and before it ends, nobody acquires it again, another token can neither renew nor
  release it, and a second reconciliation run reports that one is already running; none of these attempts changes the database.\<close>

theorem maintenance_lease_is_exclusive:
  assumes "maintenance_acquire_lease k tok now l s = Inr (True, s')" and "now' < now + seconds l" and "tok' \<noteq> tok"
  shows "maintenance_acquire_lease k tok' now' l' s' = Inr (False, s') \<and>
         maintenance_renew_lease k tok' now' l' s' = Inr (False, s') \<and>
         maintenance_release_lease k tok' s' = Inr (False, s') \<and>
         (k = RECONCILIATION_LEASE_NAME \<longrightarrow>
            ReconcileSubscriptions_execute enq clock cfg tok' now' s' = (Inr (empty_result\<lparr>rc_status := ''already_running''\<rparr>), s'))"
proof -
  obtain r where r: "List.find (\<lambda>r. ml_lease_name r = k) (d_leases s') = Some r" "ml_owner_token r = tok"
      "ml_lease_expires_at r = now + seconds l"
    using lease_acquired(2) [OF assms(1)] by blast
  note d = lease_acquired(1) [OF assms(1)]
  have none: "\<forall>x\<in>set (d_leases s'). \<not> (ml_lease_name x = k \<and> ml_owner_token x = tok')"
    by (rule not_the_owner [OF d r(1)]) (use r(2) assms(3) in simp)
  have acq: "maintenance_acquire_lease k tok' now' l'' s' = Inr (False, s')" for l''
    using assms(2) r by (simp add: maintenance_acquire_lease_def Let_def)
  have "map (\<lambda>x. if ml_lease_name x = k \<and> ml_owner_token x = tok' then g x else x) (d_leases s') = d_leases s'" for g
    using none by (intro map_idI) auto
  moreover have "filter (\<lambda>x. \<not> (ml_lease_name x = k \<and> ml_owner_token x = tok')) (d_leases s') = d_leases s'"
    using none by (intro filter_True) auto
  moreover have "\<not> list_ex (\<lambda>x. ml_lease_name x = k \<and> ml_owner_token x = tok') (d_leases s')"
    using none by (simp add: list_ex_iff)
  ultimately have "maintenance_renew_lease k tok' now' l' s' = Inr (False, s')" "maintenance_release_lease k tok' s' = Inr (False, s')"
    using d by (simp_all add: maintenance_renew_lease_def maintenance_release_lease_def Let_def put_leases_def bindT_def)
  moreover have "ReconcileSubscriptions_execute enq clock cfg tok' now' s' = (Inr (empty_result\<lparr>rc_status := ''already_running''\<rparr>), s')"
    if "k = RECONCILIATION_LEASE_NAME"
    using acq that by (simp add: ReconcileSubscriptions_execute_def run_uow_def)
  ultimately show ?thesis using acq by blast
qed

theorem maintenance_lease_is_exclusive_witness:
  "\<exists>s'. maintenance_acquire_lease RECONCILIATION_LEASE_NAME ''a'' 10 60 (empty_db 9) = Inr (True, s') \<and>
     maintenance_acquire_lease RECONCILIATION_LEASE_NAME ''b'' 11 60 s' = Inr (False, s')"
proof -
  have "maintenance_acquire_lease RECONCILIATION_LEASE_NAME ''a'' 10 60 (empty_db 9) =
      Inr (True, (empty_db 9)\<lparr>d_leases := [\<lparr>ml_lease_name = RECONCILIATION_LEASE_NAME, ml_owner_token = ''a'',
        ml_lease_expires_at = 10 + seconds 60, ml_updated_at = 10\<rparr>]\<rparr>)"
    by (simp add: maintenance_acquire_lease_def Let_def put_leases_def empty_db_def bindT_def)
  note held = this
  show ?thesis
    using held maintenance_lease_is_exclusive [OF held, of 11 "''b''" 60] by (auto simp: seconds_def)
qed

section \<open>Reconciliation\<close>

definition counts_ok :: "reconcile_result \<Rightarrow> bool" where
  "counts_ok r \<longleftrightarrow> rc_expired_subscriptions r + length (rc_jobs r) + rc_enqueue_failures r \<le> rc_processed_anomalies r"

lemma process_anomalies_counts:
  assumes "process_anomalies enq now as r s = (Inr r', s')"
  shows "rc_processed_anomalies r' = rc_processed_anomalies r + length as \<and> rc_batches r' = rc_batches r \<and>
     (counts_ok r \<longrightarrow> counts_ok r')"
  using assms
proof (induction as arbitrary: r s)
  case (Cons a as)
  show ?case
  proof (cases "anomaly_job a")
    case None
    obtain q s1 where q: "run_uow (expire_subscription (an_entity_id a) now) s = (q, s1)" by fastforce
    let ?r1 = "r\<lparr>rc_processed_anomalies := rc_processed_anomalies r + 1\<rparr>"
    obtain ended where "q = Inr ended" using Cons.prems None q by (cases q) (auto simp: Let_def)
    then have "process_anomalies enq now as
        (if ended then ?r1\<lparr>rc_expired_subscriptions := rc_expired_subscriptions ?r1 + 1\<rparr> else ?r1) s1 = (Inr r', s')"
      using Cons.prems None q by (cases ended) (simp_all add: Let_def)
    from Cons.IH [OF this] show ?thesis by (cases ended) (auto simp: counts_ok_def)
  next
    case (Some j)
    let ?r1 = "r\<lparr>rc_processed_anomalies := rc_processed_anomalies r + 1\<rparr>"
    have "process_anomalies enq now as (if enq j then (record_enqueued ?r1 (an_kind a))\<lparr>rc_jobs := rc_jobs ?r1 @ [j]\<rparr>
        else ?r1\<lparr>rc_enqueue_failures := rc_enqueue_failures ?r1 + 1\<rparr>) s = (Inr r', s')"
      using Cons.prems Some by (simp add: Let_def split: if_splits)
    from Cons.IH [OF this] show ?thesis by (cases "enq j") (auto simp: counts_ok_def record_enqueued_def)
  qed
qed simp

lemma reconcile_batches_bounds:
  assumes "reconcile_batches enq clock cfg tok n cursor r s = (Inr r', s')"
  shows "rc_batches r' \<le> rc_batches r + n \<and>
     rc_processed_anomalies r' \<le> rc_processed_anomalies r + (rc_batches r' - rc_batches r) * rx_batch_size cfg \<and>
     rc_batches r \<le> rc_batches r' \<and> (counts_ok r \<longrightarrow> counts_ok r')"
  using assms
proof (induction n arbitrary: cursor r s)
  case (Suc n)
  let ?now = "clock (rc_batches r)"
  obtain as where as: "run_uow (list_reconciliation_anomalies ?now cursor (rx_batch_size cfg)) s = (Inr as, s)"
    and len: "length as \<le> rx_batch_size cfg"
    by (simp add: run_uow_def list_reconciliation_anomalies_def)
  show ?case
  proof (cases "as = []")
    case True
    then show ?thesis using Suc.prems as by (simp add: Let_def)
  next
    case False
    obtain p s2 where p: "process_anomalies enq ?now as r s = (p, s2)" by fastforce
    obtain r1 where r1: "p = Inr r1" using Suc.prems as False p by (cases p) (auto simp: Let_def)
    let ?r2 = "r1\<lparr>rc_batches := rc_batches r1 + 1\<rparr>"
    obtain q s3 where q: "run_uow (maintenance_renew_lease RECONCILIATION_LEASE_NAME tok (clock (rc_batches ?r2)) (rx_lease_seconds cfg)) s2 = (q, s3)"
      by fastforce
    obtain renewed where renewed: "q = Inr renewed" using Suc.prems as False p r1 q by (cases q) (auto simp: Let_def)
    note one = process_anomalies_counts [OF p [unfolded r1]]
    have co: "counts_ok ?r2 = counts_ok r1" "counts_ok (?r2\<lparr>rc_status := st\<rparr>) = counts_ok r1" for st by (simp_all add: counts_ok_def)
    have end_cases: "r' = ?r2 \<or> r' = ?r2\<lparr>rc_status := ''lease_lost''\<rparr> \<or>
        reconcile_batches enq clock cfg tok n (anomaly_key (last as)) ?r2 s3 = (Inr r', s')"
      using Suc.prems as False p r1 q renewed by (auto simp: Let_def split: if_splits)
    have stop: ?thesis if "rc_batches r' = rc_batches r1 + 1" "rc_processed_anomalies r' = rc_processed_anomalies r1" "counts_ok r' = counts_ok r1"
      using that one len by auto
    from end_cases show ?thesis
    proof (elim disjE)
      assume go: "reconcile_batches enq clock cfg tok n (anomaly_key (last as)) ?r2 s3 = (Inr r', s')"
      note ih = Suc.IH [OF go]
      have "Suc (rc_batches r) \<le> rc_batches r'" using ih one by simp
      then have d: "rc_batches r' - rc_batches r = Suc (rc_batches r' - rc_batches ?r2)" using one by simp
      show ?thesis using ih one len co unfolding d by simp
    qed (rule stop; simp add: counts_ok_def)+
  qed
qed simp

text \<open>C20. A reconciliation run that no error aborts ends within its budget: it reads at most the configured number of batches, processes at most a batch
  size of anomalies in each, starts no more jobs than it has processed anomalies, and afterwards its lease is gone.\<close>

theorem reconciliation_run_is_bounded:
  assumes "ReconcileSubscriptions_execute enq clock cfg tok now s = (Inr r, s')"
  shows "rc_batches r \<le> rx_max_batches_per_run cfg \<and>
         rc_processed_anomalies r \<le> rc_batches r * rx_batch_size cfg \<and>
         rc_expired_subscriptions r + length (rc_jobs r) + rc_enqueue_failures r \<le> rc_processed_anomalies r \<and>
         (rc_status r = ''already_running'' \<or> (\<forall>x\<in>set (d_leases s'). \<not> (ml_lease_name x = RECONCILIATION_LEASE_NAME \<and> ml_owner_token x = tok)))"
proof -
  obtain a s1 where a: "run_uow (maintenance_acquire_lease RECONCILIATION_LEASE_NAME tok now (rx_lease_seconds cfg)) s = (a, s1)" by fastforce
  obtain b s2 where b: "reconcile_batches enq clock cfg tok (rx_max_batches_per_run cfg) (0, 0) empty_result s1 = (b, s2)" by fastforce
  obtain q s3 where q: "run_uow (maintenance_release_lease RECONCILIATION_LEASE_NAME tok) s2 = (q, s3)" by fastforce
  obtain got where got: "a = Inr got" using assms a by (cases a) (auto simp: ReconcileSubscriptions_execute_def)
  show ?thesis
  proof (cases got)
    case False
    then have "r = empty_result\<lparr>rc_status := ''already_running''\<rparr>" using assms a got by (simp add: ReconcileSubscriptions_execute_def)
    then show ?thesis by (simp add: empty_result_def)
  next
    case True
    then have run: "b = Inr r" "s' = s3" "\<exists>x. q = Inr x"
      using assms a got b q by (cases q; simp add: ReconcileSubscriptions_execute_def)+
    have "counts_ok empty_result" by (simp add: counts_ok_def empty_result_def)
    then have bounds: "rc_batches r \<le> rx_max_batches_per_run cfg" "rc_processed_anomalies r \<le> rc_batches r * rx_batch_size cfg" "counts_ok r"
      using reconcile_batches_bounds [OF b [unfolded run(1)]] by (simp_all add: empty_result_def)
    have "d_leases s3 = filter (\<lambda>x. \<not> (ml_lease_name x = RECONCILIATION_LEASE_NAME \<and> ml_owner_token x = tok)) (d_leases s2)"
      using q run(3) by (auto simp: run_uow_Inr maintenance_release_lease_def Let_def put_leases_def bindT_Inr writeT_Inr_iff)
    then show ?thesis using bounds run(2) by (auto simp: counts_ok_def)
  qed
qed

theorem reconciliation_run_is_bounded_witness:
  "\<exists>r s'. ReconcileSubscriptions_execute (\<lambda>_. True) (\<lambda>_. 10) \<lparr>rx_batch_size = 50, rx_max_batches_per_run = 3, rx_lease_seconds = 60\<rparr> ''t'' 10 (empty_db 9) =
     (Inr r, s') \<and> rc_batches r \<le> 3 \<and> rc_status r = ''completed''"
proof -
  let ?run = "ReconcileSubscriptions_execute (\<lambda>_. True) (\<lambda>_. 10) \<lparr>rx_batch_size = 50, rx_max_batches_per_run = 3, rx_lease_seconds = 60\<rparr> ''t'' 10 (empty_db 9)"
  have "case ?run of (Inl _, _) \<Rightarrow> False | (Inr r, _) \<Rightarrow> rc_status r = ''completed''" by code_simp
  then obtain r s' where r: "?run = (Inr r, s')" "rc_status r = ''completed''" by (auto split: prod.splits sum.splits)
  show ?thesis using r reconciliation_run_is_bounded [OF r(1)] by auto
qed

section \<open>Placement\<close>

lemma node_candidates_facts:
  assumes "c \<in> set (node_candidates s)"
  shows "sv_is_enabled (ca_server c)" and "en_is_enabled (ca_endpoint c)" and "sv_id (ca_server c) = Some (en_server_id (ca_endpoint c))"
    and "no_id (ca_node c) = en_node_id (ca_endpoint c)" and "no_id (ca_node c) \<noteq> None"
    and "ca_status c = status_of_node (opt_id (no_id (ca_node c))) s" and "ca_reserved c = local_reserved_clients (opt_id (no_id (ca_node c))) s"
    and "ca_node c \<in> set (rows (d_nodes s))"
  using assms by (auto simp: node_candidates_def endpoints_with_server_def) metis

lemma eligible_facts:
  assumes "eligible st (candidate_from_row c) now"
  shows "\<exists>r m. ca_status c = Some r \<and> st_max_clients r = Some m \<and> ca_reserved c < m \<and>
     (case st_active_clients r of None \<Rightarrow> True | Some a \<Rightarrow> a < m) \<and>
     st_health_status r \<in> {NS_ONLINE, NS_DEGRADED} \<and> (\<exists>l. st_last_checked_at r = Some l \<and> now - seconds st \<le> l) \<and> no_is_enabled (ca_node c)"
proof -
  obtain r where r: "ca_status c = Some r"
    using assms by (cases "ca_status c") (auto simp: eligible_def candidate_from_row_def)
  have st: "NodeStatus_of (NodeStatus_value x) = Inr x" for x by (cases x) (simp_all add: NodeStatus_of_def)
  show ?thesis
    using assms unfolding eligible_def allows_operation_def
    by (auto simp: candidate_from_row_def effective_clients_def r st split: option.splits if_splits)
qed

text \<open>C21. A new configuration is placed only on an enabled endpoint of an enabled server. If the endpoint is served by a node, the node is enabled,
  was found online or degraded recently enough, and neither the clients it reported nor the configurations the shop has on it reach its limit; an
  endpoint without a node is used only when no node could serve.\<close>

theorem selected_endpoint_has_capacity:
  assumes "select_endpoint rb st now s = Inr (Some (e, v), s')"
  shows "s' = s \<and> en_is_enabled e \<and> sv_is_enabled v \<and> sv_id v = Some (en_server_id e) \<and>
         (case en_node_id e of
            None \<Rightarrow> node_candidates s = []
          | Some n \<Rightarrow> (\<exists>nd\<in>set (rows (d_nodes s)). no_id nd = Some n \<and> no_is_enabled nd) \<and>
              (\<exists>r m. status_of_node n s = Some r \<and> st_max_clients r = Some m \<and> local_reserved_clients n s < m \<and>
              (case st_active_clients r of None \<Rightarrow> True | Some a \<Rightarrow> a < m) \<and> st_health_status r \<in> {NS_ONLINE, NS_DEGRADED} \<and>
              (\<exists>l. st_last_checked_at r = Some l \<and> now - seconds st \<le> l)))"
proof -
  let ?cands = "map candidate_from_row (sort_key (\<lambda>c. (opt_id (no_id (ca_node c)), opt_id (en_id (ca_endpoint c)))) (node_candidates s))"
  show ?thesis
  proof (cases "select_node rb ?cands now st")
    case None
    then have "?cands = []" and f: "servers_get_first_enabled_endpoint s = Inr (Some (e, v), s')"
      using assms by (auto simp: select_endpoint_def servers_list_node_selection_candidates_def Let_def split: if_splits)
    then have "length ?cands = 0" by (simp only: list.size)
    then have none: "node_candidates s = []" by simp
    let ?es = "filter (\<lambda>(e, v). sv_is_enabled v \<and> en_is_enabled e \<and> en_node_id e = None) (endpoints_with_server s)"
    let ?k = "\<lambda>(e, v). (opt_id (sv_id v), opt_id (en_id e))"
    obtain rest where same: "s' = s" and sk: "sort_key ?k ?es = (e, v) # rest"
      using f by (auto simp: servers_get_first_enabled_endpoint_def split: list.splits)
    have "(e, v) \<in> set (sort_key ?k ?es)" unfolding sk by (rule list.set_intros(1))
    then have "(e, v) \<in> set ?es" by (simp only: set_sort)
    then show ?thesis using none same by (auto simp: endpoints_with_server_def)
  next
    case (Some sel)
    let ?find = "if get_row no_id (ns_node_id sel) (d_nodes s) = None then None
      else List.find (\<lambda>c. no_id (ca_node c) = Some (ns_node_id sel) \<and> en_id (ca_endpoint c) = Some (ns_endpoint_id sel)) (node_candidates s)"
    have run: "(case ?find of None \<Rightarrow> retT None
         | Some row \<Rightarrow>
             if ns_node_id (candidate_from_row row) \<noteq> ns_node_id sel \<or> ns_endpoint_id (candidate_from_row row) \<noteq> ns_endpoint_id sel \<or>
                \<not> eligible st (candidate_from_row row) now
             then retT None
             else retT (Some (ca_endpoint row, ca_server row))) s = Inr (Some (e, v), s')"
      using assms
      unfolding select_endpoint_def servers_list_node_selection_candidates_def servers_lock_and_revalidate_candidate_def Let_def bindT_readT
        Some option.case .
    obtain row where row: "?find = Some row" using run by (cases ?find) auto
    have el: "eligible st (candidate_from_row row) now" and ev: "e = ca_endpoint row" "v = ca_server row" and s': "s' = s"
      using run unfolding row by (auto split: if_splits)
    have mem: "row \<in> set (node_candidates s)"
      using row find_Some_iff by (fastforce split: if_splits)
    note facts = node_candidates_facts [OF mem]
    obtain n where n: "no_id (ca_node row) = Some n" using facts(5) by auto
    then have en: "en_node_id (ca_endpoint row) = Some n" using facts(4) by simp
    have "opt_id (no_id (ca_node row)) = n" by (simp add: n opt_id_def)
    then have st: "ca_status row = status_of_node n s" "ca_reserved row = local_reserved_clients n s" using facts(6,7) by simp_all
    have "\<exists>nd\<in>set (rows (d_nodes s)). no_id nd = Some n \<and> no_is_enabled nd" using eligible_facts [OF el] facts(8) n by blast
    moreover have "\<exists>r m. status_of_node n s = Some r \<and> st_max_clients r = Some m \<and> local_reserved_clients n s < m \<and>
        (case st_active_clients r of None \<Rightarrow> True | Some a \<Rightarrow> a < m) \<and> st_health_status r \<in> {NS_ONLINE, NS_DEGRADED} \<and>
        (\<exists>l. st_last_checked_at r = Some l \<and> now - seconds st \<le> l)"
      using eligible_facts [OF el] unfolding st by blast
    ultimately show ?thesis unfolding ev s' en option.case using facts(1-3) by blast
  qed
qed

theorem selected_endpoint_has_capacity_witness:
  "\<exists>e v. select_endpoint (\<lambda>_. 0) 180 10 small_db = Inr (Some (e, v), small_db) \<and> en_is_enabled e \<and> sv_is_enabled v"
proof -
  have "case select_endpoint (\<lambda>_. 0) 180 10 small_db of Inr (Some (e, v), s') \<Rightarrow> True | _ \<Rightarrow> False" by code_simp
  then obtain e v s' where run: "select_endpoint (\<lambda>_. 0) 180 10 small_db = Inr (Some (e, v), s')"
    by (auto split: sum.splits prod.splits option.splits)
  show ?thesis using run selected_endpoint_has_capacity [OF run] by blast
qed

section \<open>A late provision\<close>

text \<open>C22. The cleanup of a provision that succeeded too late is not sent when the configuration's generation already has a finished revoke: the
  follow-up then is that finished task, no new one is stored, and dispatching it reports \<^verbatim>\<open>succeeded\<close> without a request to the node. The client the late
  provision created stays on the node.\<close>

theorem late_provision_cleanup_is_not_sent:
  assumes "vpn_task_row v REVOKE_CLIENT g s = Some old" and "nt_status old = NTS_SUCCEEDED" and "nt_vpn_configuration_id task = Some v"
    and "find_row (\<lambda>r. nt_idempotency_key r = revoke_key v g u) (d_ntasks s) = None"
    and "cleanup_after_provision py u task k now g s = Inr (fin, s')" and "table_wf nt_id (d_ntasks s)"
  shows "s' = s \<and> df_follow_up_task_id fin = nt_id old \<and>
         (\<forall>i cfg tok at. nt_id old = Some i \<longrightarrow> dispatch_prepare cfg tok i at s = Inr (Inl ''succeeded'', s))"
proof -
  have old: "old \<in> set (rows (d_ntasks s))" "nt_vpn_configuration_id old = Some v" "nt_operation old = REVOKE_CLIENT" "nt_vpn_generation old = Some g"
    using assms(1) by (auto simp: vpn_task_row_def select_rows_def dest!: top_by_in)
  obtain f where f: "revoke_follow_up py u task now g = Inr f"
    and rest: "bindT (nodes_add_task_entity f) (\<lambda>stored. case nt_id stored of
       None \<Rightarrow> raiseT (RuntimeError ''Follow-up node task was not persisted'')
     | Some t \<Rightarrow> retT \<lparr>df_status = k, df_follow_up_task_id = Some t\<rparr>) s = Inr (fin, s')"
    using assms(5) unfolding cleanup_after_provision_def bindT_Inr liftT_Inr_iff by (auto simp: bindT_Inr)
  have fs: "nt_vpn_configuration_id f = Some v" "nt_operation f = REVOKE_CLIENT" "nt_vpn_generation f = Some g"
      "nt_idempotency_key f = revoke_key v g u"
    using f assms(3) by (auto simp: revoke_follow_up_def Let_def NodeTask_post_init_def bindE_eq_Inr opt_id_def)
  have "list_ex (task_collides f) (rows (d_ntasks s))"
    using old fs by (auto simp: list_ex_iff task_collides_def ntask_vpn_key_def intro!: bexI [of _ old])
  moreover have "existing_task f s = Some old" using assms(1,4) fs by (simp add: existing_task_def)
  ultimately have create: "nodes_create_task f s = Inr (old, s)" by (simp add: nodes_create_task_def)
  then obtain t where t: "node_task_from_row old = Inr t"
    and fin: "(case nt_id t of None \<Rightarrow> raiseT (RuntimeError ''Follow-up node task was not persisted'')
        | Some i \<Rightarrow> retT \<lparr>df_status = k, df_follow_up_task_id = Some i\<rparr>) s = Inr (fin, s')"
    using rest by (auto simp: nodes_add_task_entity_def bindT_Inr liftT_Inr_iff)
  then have ids: "nt_id t = nt_id old" "nt_status t = nt_status old"
    by (auto simp: node_task_from_row_def NodeTask_post_init_def bindE_eq_Inr)
  have "dispatch_prepare cfg tok i at s = Inr (Inl ''succeeded'', s)" if "nt_id old = Some i" for i cfg tok at
  proof -
    have "get_row nt_id i (d_ntasks s) = Some old" by (rule ntasks_tab.get_row_member [OF assms(6) old(1) that])
    then have load: "nodes_get_task_entity i s = Inr (Some t, s)" unfolding node_task_loads using t by blast
    show ?thesis using ids(2) assms(2) by (simp add: dispatch_prepare_def bindT_def [where s = s] load dispatch_early_result_def)
  qed
  moreover have "s' = s \<and> df_follow_up_task_id fin = nt_id old" using fin ids by (auto split: option.splits)
  ultimately show ?thesis by blast
qed

theorem late_provision_cleanup_is_not_sent_witness:
  "\<exists>fin. cleanup_after_provision (\<lambda>_. []) ''u'' (small_task 1 PROVISION_CLIENT NTS_SUCCEEDED ''a'') ''succeeded'' 20 1 small_db = Inr (fin, small_db) \<and>
     dispatch_prepare small_settings ''w'' 2 21 small_db = Inr (Inl ''succeeded'', small_db)"
proof -
  let ?late = "small_task 1 PROVISION_CLIENT NTS_SUCCEEDED ''a''" and ?old = "small_task 2 REVOKE_CLIENT NTS_SUCCEEDED ''b''"
  let ?run = "cleanup_after_provision (\<lambda>_. []) ''u'' ?late ''succeeded'' 20 1 small_db"
  have "vpn_task_row 1 REVOKE_CLIENT 1 small_db = Some ?old" by code_simp
  moreover have "find_row (\<lambda>r. nt_idempotency_key r = revoke_key 1 1 ''u'') (d_ntasks small_db) = None" by code_simp
  moreover have "case ?run of Inr (fin, s') \<Rightarrow> True | _ \<Rightarrow> False" by code_simp
  then obtain fin s' where run: "?run = Inr (fin, s')" by (auto split: sum.splits prod.splits)
  moreover have "table_wf nt_id (d_ntasks small_db)" by (simp add: small_db_def small_task_def table_wf_def)
  ultimately have "s' = small_db \<and> (\<forall>i cfg tok at. nt_id ?old = Some i \<longrightarrow> dispatch_prepare cfg tok i at small_db = Inr (Inl ''succeeded'', small_db))"
    using late_provision_cleanup_is_not_sent [of 1 1 small_db ?old ?late "''u''" "\<lambda>_. []" "''succeeded''" 20 fin s'] by (simp add: small_task_def)
  then show ?thesis using run by (simp add: small_task_def)
qed

end
