(* ===== verification/NodeAuth.thy ===== *)
theory NodeAuth
  imports Prelude "HOL-Library.AList"
begin

text \<open>
  Signed requests between the shop and its node agents (\<^verbatim>\<open>infrastructure/nodes/auth.py\<close>): the nonce store, the headers the
  shop signs and the verification the agent runs. SHA-256, HMAC, \<^verbatim>\<open>datetime.fromisoformat\<close> and the ISO text of the clock are
  parameters, collected in one record.
\<close>

section \<open>Library functions\<close>

datatype parsed_time = BadTime | NaiveTime | AwareTime time

record auth_lib =
  lb_sha256 :: "string \<Rightarrow> string"
  lb_hmac :: "string \<Rightarrow> string \<Rightarrow> string"
  lb_fromisoformat :: "string \<Rightarrow> parsed_time"
  lb_isoformat :: "time \<Rightarrow> string"

definition newline :: char where
  "newline = CHR 0x0A"

text \<open>\<^verbatim>\<open>raw.replace("Z", "+00:00")\<close>, and \<^verbatim>\<open>hmac.compare_digest\<close>, which refuses text that is not ASCII.\<close>

definition replace_Z :: "string \<Rightarrow> string" where
  "replace_Z s = concat (map (\<lambda>c. if c = CHR ''Z'' then ''+00:00'' else [c]) s)"

definition is_ascii :: "string \<Rightarrow> bool" where
  "is_ascii s = list_all (\<lambda>c. (of_char c :: nat) < 128) s"

definition compare_digest :: "string \<Rightarrow> string \<Rightarrow> bool res" where
  "compare_digest a b =
     bindE (ensure (is_ascii a \<and> is_ascii b) (TypeError ''comparing strings with non-ASCII characters is not supported'')) (\<lambda>_.
     Inr (a = b))"

section \<open>Nonces\<close>

record InMemoryNonceStore =
  nn_ttl :: int
  nn_entries :: "(string \<times> time) list"

definition InMemoryNonceStore_init :: "int \<Rightarrow> InMemoryNonceStore" where
  "InMemoryNonceStore_init ttl_seconds = \<lparr>nn_ttl = ttl_seconds, nn_entries = []\<rparr>"

definition InMemoryNonceStore_purge :: "time \<Rightarrow> InMemoryNonceStore \<Rightarrow> InMemoryNonceStore" where
  "InMemoryNonceStore_purge now self = self\<lparr>nn_entries := filter (\<lambda>(key, expires_at). \<not> expires_at \<le> now) (nn_entries self)\<rparr>"

definition InMemoryNonceStore_remember :: "string \<Rightarrow> time \<Rightarrow> InMemoryNonceStore \<Rightarrow> bool \<times> InMemoryNonceStore" where
  "InMemoryNonceStore_remember key now self =
     (let self = InMemoryNonceStore_purge now self;
          remembered = self\<lparr>nn_entries := AList.update key (now + seconds (nn_ttl self)) (nn_entries self)\<rparr> in
      case map_of (nn_entries self) key of
        Some expires_at \<Rightarrow> if now < expires_at then (False, self) else (True, remembered)
      | None \<Rightarrow> (True, remembered))"

section \<open>Signing\<close>

type_synonym headers = "(string \<times> string) list"

definition NODE_ID_HEADER :: string where "NODE_ID_HEADER = ''X-Node-Id''"
definition KEY_ID_HEADER :: string where "KEY_ID_HEADER = ''X-Key-Id''"
definition TIMESTAMP_HEADER :: string where "TIMESTAMP_HEADER = ''X-Timestamp''"
definition NONCE_HEADER :: string where "NONCE_HEADER = ''X-Nonce''"
definition IDEMPOTENCY_HEADER :: string where "IDEMPOTENCY_HEADER = ''X-Idempotency-Key''"
definition SIGNATURE_HEADER :: string where "SIGNATURE_HEADER = ''X-Signature''"

lemmas header_names = NODE_ID_HEADER_def KEY_ID_HEADER_def TIMESTAMP_HEADER_def NONCE_HEADER_def IDEMPOTENCY_HEADER_def SIGNATURE_HEADER_def

fun join_lines :: "string list \<Rightarrow> string" where
  "join_lines [] = []"
| "join_lines [x] = x"
| "join_lines (x # xs) = x @ newline # join_lines xs"

definition canonical_string :: "string \<Rightarrow> string \<Rightarrow> string \<Rightarrow> string \<Rightarrow> string \<Rightarrow> string \<Rightarrow> string" where
  "canonical_string meth path timestamp nonce idempotency_key body_hash =
     join_lines [upper meth, path, timestamp, nonce, idempotency_key, body_hash]"

definition build_signed_headers ::
  "auth_lib \<Rightarrow> string \<Rightarrow> string \<Rightarrow> string \<Rightarrow> string \<Rightarrow> string \<Rightarrow> string \<Rightarrow> string \<Rightarrow> string option \<Rightarrow> string option \<Rightarrow> time \<Rightarrow> string \<Rightarrow> headers" where
  "build_signed_headers lib node_id key_id secret meth path body idempotency_key timestamp nonce now fresh =
     (let ts = or_else timestamp (lb_isoformat lib now);
          nonce_value = or_else nonce fresh;
          canonical = canonical_string meth path ts nonce_value idempotency_key (lb_sha256 lib body) in
      [(NODE_ID_HEADER, node_id), (KEY_ID_HEADER, key_id), (TIMESTAMP_HEADER, ts), (NONCE_HEADER, nonce_value),
       (IDEMPOTENCY_HEADER, idempotency_key), (SIGNATURE_HEADER, lb_hmac lib secret canonical)])"

section \<open>Verification\<close>

record VerifiedNodeRequest =
  vr_node_id :: string
  vr_key_id :: string
  vr_timestamp :: time
  vr_nonce :: string
  vr_idempotency_key :: string

definition header_value :: "headers \<Rightarrow> string \<Rightarrow> string" where
  "header_value headers name = (case List.find (\<lambda>(key, value). lower key = lower name) headers of None \<Rightarrow> [] | Some (_, value) \<Rightarrow> value)"

record signed_request =
  sr_method :: string
  sr_path :: string
  sr_body :: string
  sr_headers :: headers

record auth_settings =
  as_node_id :: string
  as_key_id :: string
  as_secret :: string
  as_tolerance_seconds :: int

definition parse_timestamp :: "auth_lib \<Rightarrow> string \<Rightarrow> time res" where
  "parse_timestamp lib timestamp_raw =
     (case lb_fromisoformat lib (replace_Z timestamp_raw) of
        BadTime \<Rightarrow> Inl (NodeAuthError ''Invalid timestamp'')
      | NaiveTime \<Rightarrow> Inl (NodeAuthError ''Timestamp must include timezone'')
      | AwareTime t \<Rightarrow> Inr t)"

definition request_canonical :: "auth_lib \<Rightarrow> signed_request \<Rightarrow> string" where
  "request_canonical lib rq =
     canonical_string (sr_method rq) (sr_path rq) (header_value (sr_headers rq) TIMESTAMP_HEADER) (header_value (sr_headers rq) NONCE_HEADER)
       (header_value (sr_headers rq) IDEMPOTENCY_HEADER) (lb_sha256 lib (sr_body rq))"

definition nonce_key :: "signed_request \<Rightarrow> string" where
  "nonce_key rq = header_value (sr_headers rq) NODE_ID_HEADER @ '':'' @ header_value (sr_headers rq) NONCE_HEADER"

text \<open>The checks before the nonce store is touched; the result is what an accepted request is reported as.\<close>

definition check_signed_request :: "auth_lib \<Rightarrow> auth_settings \<Rightarrow> signed_request \<Rightarrow> time \<Rightarrow> VerifiedNodeRequest res" where
  "check_signed_request lib cfg rq current_time =
     (let h = header_value (sr_headers rq);
          supplied_signature = h SIGNATURE_HEADER in
      bindE (ensure (h NODE_ID_HEADER = as_node_id cfg) (NodeAuthError ''Unexpected node id'')) (\<lambda>_.
      bindE (ensure (h KEY_ID_HEADER = as_key_id cfg) (NodeAuthError ''Unexpected key id'')) (\<lambda>_.
      bindE (ensure (\<not> (h TIMESTAMP_HEADER = [] \<or> h NONCE_HEADER = [] \<or> h IDEMPOTENCY_HEADER = [] \<or> supplied_signature = []))
               (NodeAuthError ''Missing authentication headers'')) (\<lambda>_.
      bindE (parse_timestamp lib (h TIMESTAMP_HEADER)) (\<lambda>timestamp.
      bindE (ensure (\<not> \<bar>current_time - timestamp\<bar> > seconds (as_tolerance_seconds cfg)) (NodeAuthError ''Timestamp outside allowed skew'')) (\<lambda>_.
      bindE (compare_digest supplied_signature (lb_hmac lib (as_secret cfg) (request_canonical lib rq))) (\<lambda>same.
      bindE (ensure same (NodeAuthError ''Invalid signature'')) (\<lambda>_.
      Inr \<lparr>vr_node_id = h NODE_ID_HEADER, vr_key_id = h KEY_ID_HEADER, vr_timestamp = timestamp, vr_nonce = h NONCE_HEADER,
           vr_idempotency_key = h IDEMPOTENCY_HEADER\<rparr>))))))))"

definition verify_signed_request ::
  "auth_lib \<Rightarrow> auth_settings \<Rightarrow> signed_request \<Rightarrow> time \<Rightarrow> InMemoryNonceStore \<Rightarrow> VerifiedNodeRequest res \<times> InMemoryNonceStore" where
  "verify_signed_request lib cfg rq current_time nonce_store =
     (case check_signed_request lib cfg rq current_time of
        Inl e \<Rightarrow> (Inl e, nonce_store)
      | Inr verified \<Rightarrow>
          (case InMemoryNonceStore_remember (nonce_key rq) current_time nonce_store of
             (False, nonce_store) \<Rightarrow> (Inl (NodeAuthError ''Replay detected''), nonce_store)
           | (True, nonce_store) \<Rightarrow> (Inr verified, nonce_store)))"

text \<open>The requests an agent receives, one after the other, each with the clock reading of its verification.\<close>

fun verify_requests ::
  "auth_lib \<Rightarrow> auth_settings \<Rightarrow> InMemoryNonceStore \<Rightarrow> (signed_request \<times> time) list \<Rightarrow> VerifiedNodeRequest res list" where
  "verify_requests lib cfg store [] = []"
| "verify_requests lib cfg store ((rq, now) # rest) =
     (let (result, store) = verify_signed_request lib cfg rq now store in result # verify_requests lib cfg store rest)"

section \<open>Lemmas\<close>

text \<open>Until when a nonce is remembered.\<close>

definition remembered_until :: "InMemoryNonceStore \<Rightarrow> string \<Rightarrow> time option" where
  "remembered_until store key = map_of (nn_entries store) key"

definition store_ok :: "InMemoryNonceStore \<Rightarrow> bool" where
  "store_ok store \<longleftrightarrow> distinct (map fst (nn_entries store))"

lemma map_of_filter_value:
  "distinct (map fst xs) \<Longrightarrow> map_of (filter (\<lambda>(k, v). P v) xs) k = (case map_of xs k of None \<Rightarrow> None | Some v \<Rightarrow> if P v then Some v else None)"
proof (induction xs)
  case (Cons x xs)
  obtain a b where x: "x = (a, b)" by (cases x)
  have "map_of (filter (\<lambda>(k, v). P v) xs) a = None" using Cons.prems x by (force simp: map_of_eq_None_iff)
  then show ?case using Cons x by (auto split: option.splits)
qed simp

lemma purge_remembered:
  assumes "store_ok store"
  shows "remembered_until (InMemoryNonceStore_purge now store) key =
           (case remembered_until store key of None \<Rightarrow> None | Some e \<Rightarrow> if now < e then Some e else None)"
proof -
  have "map_of (filter (\<lambda>(key, e). now < e) (nn_entries store)) key =
      (case map_of (nn_entries store) key of None \<Rightarrow> None | Some e \<Rightarrow> if now < e then Some e else None)"
    by (rule map_of_filter_value) (use assms in \<open>simp add: store_ok_def\<close>)
  then show ?thesis by (simp add: remembered_until_def InMemoryNonceStore_purge_def not_le)
qed

lemma purge_ok [simp]: "store_ok store \<Longrightarrow> store_ok (InMemoryNonceStore_purge now store)"
  unfolding store_ok_def InMemoryNonceStore_purge_def by (auto intro: distinct_map_filter)

lemma purge_ttl [simp]: "nn_ttl (InMemoryNonceStore_purge now store) = nn_ttl store"
  by (simp add: InMemoryNonceStore_purge_def)

text \<open>The contract of a nonce store, and what a verifier that uses one may rely on.\<close>

locale nonce_store =
  fixes remember :: "string \<Rightarrow> time \<Rightarrow> 's \<Rightarrow> bool \<times> 's" and until :: "'s \<Rightarrow> string \<Rightarrow> time option" and ttl :: "'s \<Rightarrow> int" and ok :: "'s \<Rightarrow> bool"
  assumes remember_new: "ok s \<Longrightarrow> fst (remember k now s) \<longleftrightarrow> (case until s k of None \<Rightarrow> True | Some e \<Rightarrow> e \<le> now)"
    and remember_sets: "ok s \<Longrightarrow> fst (remember k now s) \<Longrightarrow> until (snd (remember k now s)) k = Some (now + seconds (ttl s))"
    and remember_keeps: "ok s \<Longrightarrow> until s k' = Some e \<Longrightarrow> now < e \<Longrightarrow> until (snd (remember k now s)) k' = Some e"
    and remember_ttl: "ttl (snd (remember k now s)) = ttl s"
    and remember_ok: "ok s \<Longrightarrow> ok (snd (remember k now s))"
begin

lemma refused:
  assumes "ok s" and "until s k = Some e" and "now < e"
  shows "\<not> fst (remember k now s)"
  using assms by (simp add: remember_new)

lemma refused_again:
  assumes "ok s" and "fst (remember k now s)" and "now' < now + seconds (ttl s)"
  shows "\<not> fst (remember k now' (snd (remember k now s)))"
  by (rule refused [OF remember_ok [OF assms(1)] remember_sets [OF assms(1,2)] assms(3)])

end

lemma remember_eq:
  assumes "store_ok store"
  shows "InMemoryNonceStore_remember key now store =
    (let s = InMemoryNonceStore_purge now store in
     if (case remembered_until store key of None \<Rightarrow> True | Some e \<Rightarrow> e \<le> now)
     then (True, s\<lparr>nn_entries := AList.update key (now + seconds (nn_ttl store)) (nn_entries s)\<rparr>) else (False, s))"
proof -
  have "map_of (nn_entries (InMemoryNonceStore_purge now store)) key =
      (case remembered_until store key of None \<Rightarrow> None | Some e \<Rightarrow> if now < e then Some e else None)"
    using purge_remembered [OF assms] by (simp add: remembered_until_def)
  then show ?thesis by (auto simp: InMemoryNonceStore_remember_def Let_def split: option.splits)
qed

interpretation nonces: nonce_store InMemoryNonceStore_remember remembered_until nn_ttl store_ok
proof
  fix s :: InMemoryNonceStore and k k' :: string and now e :: time
  assume ok: "store_ok s"
  show "fst (InMemoryNonceStore_remember k now s) \<longleftrightarrow> (case remembered_until s k of None \<Rightarrow> True | Some e \<Rightarrow> e \<le> now)"
    by (simp add: remember_eq [OF ok] Let_def)
  show "store_ok (snd (InMemoryNonceStore_remember k now s))"
    using purge_ok [OF ok] by (simp add: remember_eq [OF ok] Let_def store_ok_def distinct_update)
  show "remembered_until (snd (InMemoryNonceStore_remember k now s)) k = Some (now + seconds (nn_ttl s))"
    if "fst (InMemoryNonceStore_remember k now s)"
    using that by (simp add: remember_eq [OF ok] Let_def remembered_until_def update_conv split: if_splits)
  show "remembered_until (snd (InMemoryNonceStore_remember k now s)) k' = Some e" if "remembered_until s k' = Some e" "now < e"
  proof -
    have "remembered_until (InMemoryNonceStore_purge now s) k' = Some e" using that purge_remembered [OF ok] by simp
    then show ?thesis using that by (auto simp: remember_eq [OF ok] Let_def remembered_until_def update_conv)
  qed
next
  show "nn_ttl (snd (InMemoryNonceStore_remember k now s)) = nn_ttl s" for k now s
    by (auto simp: InMemoryNonceStore_remember_def Let_def split: option.splits)
qed

text \<open>When a request is accepted.\<close>

definition request_valid :: "auth_lib \<Rightarrow> auth_settings \<Rightarrow> signed_request \<Rightarrow> bool" where
  "request_valid lib cfg rq \<longleftrightarrow>
     (let h = header_value (sr_headers rq) in
      h NODE_ID_HEADER = as_node_id cfg \<and> h KEY_ID_HEADER = as_key_id cfg \<and>
      h TIMESTAMP_HEADER \<noteq> [] \<and> h NONCE_HEADER \<noteq> [] \<and> h IDEMPOTENCY_HEADER \<noteq> [] \<and> h SIGNATURE_HEADER \<noteq> [] \<and>
      h SIGNATURE_HEADER = lb_hmac lib (as_secret cfg) (request_canonical lib rq) \<and> is_ascii (h SIGNATURE_HEADER))"

definition request_time :: "auth_lib \<Rightarrow> signed_request \<Rightarrow> time res" where
  "request_time lib rq = parse_timestamp lib (header_value (sr_headers rq) TIMESTAMP_HEADER)"

definition verified_of :: "signed_request \<Rightarrow> time \<Rightarrow> VerifiedNodeRequest" where
  "verified_of rq t = (let h = header_value (sr_headers rq) in
     \<lparr>vr_node_id = h NODE_ID_HEADER, vr_key_id = h KEY_ID_HEADER, vr_timestamp = t, vr_nonce = h NONCE_HEADER, vr_idempotency_key = h IDEMPOTENCY_HEADER\<rparr>)"

lemma check_accepts_iff:
  "check_signed_request lib cfg rq now = Inr v \<longleftrightarrow>
     request_valid lib cfg rq \<and> (\<exists>t. request_time lib rq = Inr t \<and> \<bar>now - t\<bar> \<le> seconds (as_tolerance_seconds cfg) \<and> v = verified_of rq t)"
  by (auto simp: check_signed_request_def request_valid_def request_time_def verified_of_def compare_digest_def Let_def bindE_eq_Inr not_less)

lemma verify_accepts_iff:
  "verify_signed_request lib cfg rq now store = (Inr v, store') \<longleftrightarrow>
     check_signed_request lib cfg rq now = Inr v \<and> InMemoryNonceStore_remember (nonce_key rq) now store = (True, store')"
  by (auto simp: verify_signed_request_def split: sum.splits prod.splits bool.splits)

lemma verify_store:
  "snd (verify_signed_request lib cfg rq now store) = store \<or>
   snd (verify_signed_request lib cfg rq now store) = snd (InMemoryNonceStore_remember (nonce_key rq) now store)"
  by (auto simp: verify_signed_request_def split: sum.splits prod.splits bool.splits)

lemma verify_keeps:
  assumes "store_ok store"
  shows "store_ok (snd (verify_signed_request lib cfg rq now store))"
    and "nn_ttl (snd (verify_signed_request lib cfg rq now store)) = nn_ttl store"
    and "remembered_until store k = Some e \<Longrightarrow> now < e \<Longrightarrow> remembered_until (snd (verify_signed_request lib cfg rq now store)) k = Some e"
  using verify_store [of lib cfg rq now store] assms nonces.remember_ok [OF assms] nonces.remember_ttl nonces.remember_keeps [OF assms]
  by metis+

text \<open>While a nonce is remembered, no request that carries it is accepted.\<close>

lemma remembered_nonce_refused:
  assumes "store_ok store" and "remembered_until store k = Some e"
    and "sorted (map snd rqs)" and "(rq, now) = rqs ! j" and "j < length rqs" and "nonce_key rq = k" and "now < e"
  shows "\<nexists>v. verify_requests lib cfg store rqs ! j = Inr v"
  using assms
proof (induction rqs arbitrary: store j)
  case (Cons r rqs)
  obtain rq0 now0 where r: "r = (rq0, now0)" by (cases r)
  obtain result store' where v: "verify_signed_request lib cfg rq0 now0 store = (result, store')" by fastforce
  have s': "store' = snd (verify_signed_request lib cfg rq0 now0 store)" by (simp add: v)
  show ?case
  proof (cases j)
    case 0
    then have "\<not> fst (InMemoryNonceStore_remember k now store)"
      using nonces.refused [OF Cons.prems(1,2,7)] by simp
    then have "\<nexists>x. result = Inr x" using 0 v Cons.prems r verify_accepts_iff by fastforce
    then show ?thesis using 0 r v by simp
  next
    case (Suc i)
    then have mem: "(rq, now) \<in> set rqs" using Cons.prems by (metis nth_mem length_Cons Suc_less_eq nth_Cons_Suc)
    then have le: "now0 < e" using Cons.prems(3,7) r by fastforce
    have "remembered_until store' k = Some e" unfolding s' by (rule verify_keeps(3) [OF Cons.prems(1,2) le])
    moreover have "store_ok store'" unfolding s' by (rule verify_keeps(1) [OF Cons.prems(1)])
    ultimately show ?thesis using Cons.IH [of store' i] Cons.prems Suc r v by simp
  qed
qed simp

lemma accepted_twice_spaced:
  assumes "store_ok store" and "sorted (map snd rqs)" and "i < j" and "j < length rqs"
    and "rqs ! i = (rq, at)" and "rqs ! j = (rq', at')" and "nonce_key rq' = nonce_key rq"
    and "verify_requests lib cfg store rqs ! i = Inr v" and "verify_requests lib cfg store rqs ! j = Inr v'"
  shows "at + seconds (nn_ttl store) \<le> at'"
  using assms
proof (induction rqs arbitrary: store i j)
  case (Cons r rqs)
  obtain rq0 now0 where r: "r = (rq0, now0)" by (cases r)
  obtain result store' where ver: "verify_signed_request lib cfg rq0 now0 store = (result, store')" by fastforce
  have s': "store' = snd (verify_signed_request lib cfg rq0 now0 store)" by (simp add: ver)
  have ok: "store_ok store'" and ttl: "nn_ttl store' = nn_ttl store" unfolding s' using verify_keeps [OF Cons.prems(1)] by simp_all
  obtain j' where j: "j = Suc j'" using Cons.prems(3) by (cases j) auto
  show ?case
  proof (cases i)
    case 0
    then have head: "rq0 = rq" "now0 = at" "result = Inr v" using Cons.prems r ver by auto
    then have rem: "InMemoryNonceStore_remember (nonce_key rq) at store = (True, store')" using ver verify_accepts_iff by metis
    have "remembered_until store' (nonce_key rq) = Some (at + seconds (nn_ttl store))"
      using nonces.remember_sets [OF Cons.prems(1), of "nonce_key rq" at] rem by simp
    from remembered_nonce_refused [OF ok this, of rqs rq' at' j' lib cfg] show ?thesis
      using Cons.prems r ver j by (force simp: not_less)
  next
    case (Suc i')
    then have "at + seconds (nn_ttl store') \<le> at'"
      using Cons.IH [OF ok, of i' j'] Cons.prems j r ver by simp
    then show ?thesis by (simp add: ttl)
  qed
qed simp

lemma verify_requests_checked:
  assumes "verify_requests lib cfg store rqs ! i = Inr v" and "i < length rqs" and "rqs ! i = (rq, at)"
  shows "check_signed_request lib cfg rq at = Inr v"
  using assms
proof (induction rqs arbitrary: store i)
  case (Cons r rqs)
  obtain rq0 now0 where r: "r = (rq0, now0)" by (cases r)
  obtain result store' where ver: "verify_signed_request lib cfg rq0 now0 store = (result, store')" by fastforce
  show ?case
  proof (cases i)
    case 0
    then show ?thesis using Cons.prems r ver verify_accepts_iff by auto
  next
    case (Suc i')
    then show ?thesis using Cons.IH [of store' i'] Cons.prems r ver by simp
  qed
qed simp

lemma init_ok: "store_ok (InMemoryNonceStore_init ttl)" "nn_ttl (InMemoryNonceStore_init ttl) = ttl"
  by (simp_all add: store_ok_def InMemoryNonceStore_init_def)

lemma line_split:
  assumes "newline \<notin> set a" and "newline \<notin> set b"
  shows "a @ newline # x = b @ newline # y \<longleftrightarrow> a = b \<and> x = y"
  using assms by (auto simp: append_eq_append_conv2 Cons_eq_append_conv append_eq_Cons_conv)

lemma upper_char_newline:
  assumes "upper_char c = newline"
  shows "c = newline"
proof (cases "97 \<le> (of_char c :: nat) \<and> (of_char c :: nat) \<le> 122")
  case True
  then have "(of_char (upper_char c) :: nat) = (of_char c - 32) mod 256" by (simp add: upper_char_def Let_def)
  also have "\<dots> = of_char c - 32" using True by (intro mod_less) linarith
  finally have "(of_char (upper_char c) :: nat) = of_char c - 32" .
  then have "(of_char c :: nat) - 32 = 10" unfolding assms by (simp add: newline_def)
  then show ?thesis using True by linarith
next
  case False
  then show ?thesis using assms by (simp add: upper_char_def Let_def split: if_splits)
qed

lemma canonical_inj:
  assumes "newline \<notin> set m" "newline \<notin> set p" "newline \<notin> set t" "newline \<notin> set n" "newline \<notin> set k"
    and "newline \<notin> set m'" "newline \<notin> set p'" "newline \<notin> set t'" "newline \<notin> set n'" "newline \<notin> set k'"
  shows "canonical_string m p t n k h = canonical_string m' p' t' n' k' h' \<longleftrightarrow>
    upper m = upper m' \<and> p = p' \<and> t = t' \<and> n = n' \<and> k = k' \<and> h = h'"
proof -
  have up: "newline \<notin> set (upper m)" if "newline \<notin> set m" for m
    using that by (auto simp: upper_def dest: upper_char_newline [OF sym])
  show ?thesis using assms by (simp add: canonical_string_def line_split up)
qed

text \<open>The request the shop builds, and how an agent with the same secret checks it.\<close>

definition built_request :: "auth_lib \<Rightarrow> auth_settings \<Rightarrow> string \<Rightarrow> string \<Rightarrow> string \<Rightarrow> string \<Rightarrow> time \<Rightarrow> string \<Rightarrow> signed_request" where
  "built_request lib cfg m p body key sent fresh =
     \<lparr>sr_method = m, sr_path = p, sr_body = body,
      sr_headers = build_signed_headers lib (as_node_id cfg) (as_key_id cfg) (as_secret cfg) m p body key None None sent fresh\<rparr>"

lemma built_headers:
  fixes lib cfg m p body key sent fresh
  defines "h \<equiv> header_value (sr_headers (built_request lib cfg m p body key sent fresh))"
  shows "h NODE_ID_HEADER = as_node_id cfg" "h KEY_ID_HEADER = as_key_id cfg" "h TIMESTAMP_HEADER = lb_isoformat lib sent" "h NONCE_HEADER = fresh"
    "h IDEMPOTENCY_HEADER = key"
    "h SIGNATURE_HEADER = lb_hmac lib (as_secret cfg) (canonical_string m p (lb_isoformat lib sent) fresh key (lb_sha256 lib body))"
  by (simp_all add: h_def built_request_def build_signed_headers_def header_value_def header_names lower_def lower_char_def or_else_def Let_def)

lemma built_request_checked:
  assumes "lb_fromisoformat lib (replace_Z (lb_isoformat lib sent)) = AwareTime ts" and "lb_isoformat lib sent \<noteq> []"
    and "\<And>c. is_ascii (lb_hmac lib (as_secret cfg) c) \<and> lb_hmac lib (as_secret cfg) c \<noteq> []"
    and "fresh \<noteq> []" and "key \<noteq> []" and "\<bar>at - ts\<bar> \<le> seconds (as_tolerance_seconds cfg)"
  shows "check_signed_request lib cfg (built_request lib cfg m p body key sent fresh) at =
           Inr \<lparr>vr_node_id = as_node_id cfg, vr_key_id = as_key_id cfg, vr_timestamp = ts, vr_nonce = fresh, vr_idempotency_key = key\<rparr>"
    and "nonce_key (built_request lib cfg m p body key sent fresh) = as_node_id cfg @ '':'' @ fresh"
proof -
  let ?rq = "built_request lib cfg m p body key sent fresh"
  have parts: "sr_method ?rq = m" "sr_path ?rq = p" "sr_body ?rq = body" by (simp_all add: built_request_def)
  have "request_valid lib cfg ?rq" using assms(2-5) by (simp add: request_valid_def request_canonical_def built_headers parts)
  moreover have "request_time lib ?rq = Inr ts" using assms(1) by (simp add: request_time_def parse_timestamp_def built_headers)
  ultimately show "check_signed_request lib cfg ?rq at =
      Inr \<lparr>vr_node_id = as_node_id cfg, vr_key_id = as_key_id cfg, vr_timestamp = ts, vr_nonce = fresh, vr_idempotency_key = key\<rparr>"
    unfolding check_accepts_iff using assms(6) by (simp add: verified_of_def built_headers)
  show "nonce_key ?rq = as_node_id cfg @ '':'' @ fresh" by (simp add: nonce_key_def built_headers)
qed

lemma header_value_in: "header_value hs n \<in> insert [] (snd ` set hs)"
  by (auto simp: header_value_def split: option.splits dest!: find_Some_iff intro: rev_image_eqI)

text \<open>Library functions, settings and a request for the examples.\<close>

definition sample_lib :: auth_lib where
  "sample_lib = \<lparr>lb_sha256 = id, lb_hmac = (\<lambda>secret c. CHR ''m'' # filter (\<lambda>ch. (of_char ch :: nat) < 128 \<and> ch \<noteq> newline) (secret @ c)),
     lb_fromisoformat = (\<lambda>s. if s = ''60s+00:00'' then AwareTime (seconds 60) else BadTime), lb_isoformat = (\<lambda>_. ''60sZ'')\<rparr>"

definition sample_auth :: auth_settings where
  "sample_auth = \<lparr>as_node_id = ''n1'', as_key_id = ''k1'', as_secret = ''secret'', as_tolerance_seconds = 30\<rparr>"

definition sample_request :: signed_request where
  "sample_request = built_request sample_lib sample_auth ''POST'' ''/agent/clients/revoke'' ''{}'' ''key'' 0 ''nonce''"

lemma sample_facts:
  "lb_fromisoformat sample_lib (replace_Z (lb_isoformat sample_lib 0)) = AwareTime (seconds 60)" "lb_isoformat sample_lib 0 \<noteq> []"
  "is_ascii (lb_hmac sample_lib (as_secret sample_auth) c) \<and> lb_hmac sample_lib (as_secret sample_auth) c \<noteq> []"
  "as_tolerance_seconds sample_auth = 30"
  by (auto simp: sample_lib_def sample_auth_def replace_Z_def is_ascii_def list_all_iff)

lemma sample_checked:
  assumes "\<bar>at - seconds 60\<bar> \<le> seconds 30"
  shows "check_signed_request sample_lib sample_auth sample_request at =
     Inr \<lparr>vr_node_id = as_node_id sample_auth, vr_key_id = as_key_id sample_auth, vr_timestamp = seconds 60, vr_nonce = ''nonce'',
          vr_idempotency_key = ''key''\<rparr>"
  unfolding sample_request_def by (rule built_request_checked [OF sample_facts(1-3)]) (use assms sample_facts(4) in simp_all)

lemma sample_accepted:
  assumes "\<bar>at - seconds 60\<bar> \<le> seconds 30"
  shows "\<exists>store. verify_signed_request sample_lib sample_auth sample_request at (InMemoryNonceStore_init 30) =
     (Inr \<lparr>vr_node_id = as_node_id sample_auth, vr_key_id = as_key_id sample_auth, vr_timestamp = seconds 60, vr_nonce = ''nonce'',
          vr_idempotency_key = ''key''\<rparr>, store)"
proof -
  have "fst (InMemoryNonceStore_remember (nonce_key sample_request) at (InMemoryNonceStore_init 30))"
    unfolding nonces.remember_new [OF init_ok(1)] by (simp add: remembered_until_def InMemoryNonceStore_init_def)
  then obtain store where "InMemoryNonceStore_remember (nonce_key sample_request) at (InMemoryNonceStore_init 30) = (True, store)"
    by (metis (full_types) prod.exhaust_sel)
  then show ?thesis unfolding verify_accepts_iff using sample_checked [OF assms] by simp
qed

section \<open>Properties\<close>

text \<open>The request the shop signs is accepted by an agent with the same node key, key id and secret: when the clocks differ by no more than the
  tolerance, the nonce is not remembered and no header is empty, verification reports the signed fields and remembers the nonce.\<close>

theorem signed_request_is_accepted:
  assumes "lb_fromisoformat lib (replace_Z (lb_isoformat lib sent)) = AwareTime ts" and "lb_isoformat lib sent \<noteq> []"
    and "\<And>c. is_ascii (lb_hmac lib (as_secret cfg) c) \<and> lb_hmac lib (as_secret cfg) c \<noteq> []"
    and "fresh \<noteq> []" and "key \<noteq> []" and "\<bar>at - ts\<bar> \<le> seconds (as_tolerance_seconds cfg)"
    and "store_ok store" and "case remembered_until store (as_node_id cfg @ '':'' @ fresh) of None \<Rightarrow> True | Some e \<Rightarrow> e \<le> at"
  shows "\<exists>store'. verify_signed_request lib cfg
      \<lparr>sr_method = m, sr_path = p, sr_body = body,
       sr_headers = build_signed_headers lib (as_node_id cfg) (as_key_id cfg) (as_secret cfg) m p body key None None sent fresh\<rparr> at store =
    (Inr \<lparr>vr_node_id = as_node_id cfg, vr_key_id = as_key_id cfg, vr_timestamp = ts, vr_nonce = fresh, vr_idempotency_key = key\<rparr>, store') \<and>
    remembered_until store' (as_node_id cfg @ '':'' @ fresh) = Some (at + seconds (nn_ttl store))"
proof -
  let ?rq = "built_request lib cfg m p body key sent fresh"
  note check = built_request_checked [OF assms(1-6), of m p body]
  have new: "fst (InMemoryNonceStore_remember (nonce_key ?rq) at store)"
    unfolding nonces.remember_new [OF assms(7)] check(2) by (rule assms(8))
  then have "verify_signed_request lib cfg ?rq at store =
      (Inr \<lparr>vr_node_id = as_node_id cfg, vr_key_id = as_key_id cfg, vr_timestamp = ts, vr_nonce = fresh, vr_idempotency_key = key\<rparr>,
       snd (InMemoryNonceStore_remember (nonce_key ?rq) at store))"
    unfolding verify_accepts_iff using check(1) by (cases "InMemoryNonceStore_remember (nonce_key ?rq) at store") simp
  then show ?thesis using nonces.remember_sets [OF assms(7) new] unfolding check(2) by (simp add: built_request_def)
qed

theorem signed_request_is_accepted_witness:
  "\<exists>store'. verify_signed_request sample_lib sample_auth
      \<lparr>sr_method = ''POST'', sr_path = ''/p'', sr_body = ''{}'',
       sr_headers = build_signed_headers sample_lib (as_node_id sample_auth) (as_key_id sample_auth) (as_secret sample_auth) ''POST'' ''/p'' ''{}''
         ''key'' None None 0 ''nonce''\<rparr> (seconds 61) (InMemoryNonceStore_init 30) =
    (Inr \<lparr>vr_node_id = as_node_id sample_auth, vr_key_id = as_key_id sample_auth, vr_timestamp = seconds 60, vr_nonce = ''nonce'',
       vr_idempotency_key = ''key''\<rparr>, store')"
proof -
  have "\<bar>seconds 61 - seconds 60\<bar> \<le> seconds (as_tolerance_seconds sample_auth)" by (simp add: sample_facts seconds_def)
  moreover have "case remembered_until (InMemoryNonceStore_init 30) (as_node_id sample_auth @ '':'' @ ''nonce'') of None \<Rightarrow> True | Some e \<Rightarrow> e \<le> seconds 61"
    by (simp add: remembered_until_def InMemoryNonceStore_init_def)
  ultimately show ?thesis
    using signed_request_is_accepted [OF sample_facts(1-3), of "''nonce''" "''key''" "seconds 61" "InMemoryNonceStore_init 30"
        "''POST''" "''/p''" "''{}''"] init_ok by blast
qed

text \<open>Two accepted requests with the same signature are the same request: they agree in method, path, timestamp, nonce, idempotency key
  and body, unless HMAC or SHA-256 collides on them. Method, path and headers contain no line breaks, as in every HTTP request.\<close>

theorem signature_binds_request:
  assumes "check_signed_request lib cfg rq at = Inr v" and "check_signed_request lib cfg rq' at' = Inr v'"
    and "header_value (sr_headers rq') SIGNATURE_HEADER = header_value (sr_headers rq) SIGNATURE_HEADER"
    and "\<forall>r\<in>{rq, rq'}. newline \<notin> set (sr_method r) \<and> newline \<notin> set (sr_path r) \<and> (\<forall>n. newline \<notin> set (header_value (sr_headers r) n))"
  shows "(upper (sr_method rq') = upper (sr_method rq) \<and> sr_path rq' = sr_path rq \<and> sr_body rq' = sr_body rq \<and>
          vr_timestamp v' = vr_timestamp v \<and> vr_nonce v' = vr_nonce v \<and> vr_idempotency_key v' = vr_idempotency_key v) \<or>
         (request_canonical lib rq' \<noteq> request_canonical lib rq \<and>
          lb_hmac lib (as_secret cfg) (request_canonical lib rq') = lb_hmac lib (as_secret cfg) (request_canonical lib rq)) \<or>
         (sr_body rq' \<noteq> sr_body rq \<and> lb_sha256 lib (sr_body rq') = lb_sha256 lib (sr_body rq))"
proof -
  obtain t t' where v: "request_valid lib cfg rq" "request_time lib rq = Inr t" "v = verified_of rq t"
      "request_valid lib cfg rq'" "request_time lib rq' = Inr t'" "v' = verified_of rq' t'"
    using assms(1,2) unfolding check_accepts_iff by blast
  then have mac: "lb_hmac lib (as_secret cfg) (request_canonical lib rq') = lb_hmac lib (as_secret cfg) (request_canonical lib rq)"
    using assms(3) by (simp add: request_valid_def Let_def)
  show ?thesis
  proof (cases "request_canonical lib rq' = request_canonical lib rq")
    case True
    then have same: "upper (sr_method rq') = upper (sr_method rq)" "sr_path rq' = sr_path rq"
        "header_value (sr_headers rq') TIMESTAMP_HEADER = header_value (sr_headers rq) TIMESTAMP_HEADER"
        "header_value (sr_headers rq') NONCE_HEADER = header_value (sr_headers rq) NONCE_HEADER"
        "header_value (sr_headers rq') IDEMPOTENCY_HEADER = header_value (sr_headers rq) IDEMPOTENCY_HEADER"
        "lb_sha256 lib (sr_body rq') = lb_sha256 lib (sr_body rq)"
      using assms(4) unfolding request_canonical_def by (simp_all add: canonical_inj)
    then have "t' = t" using v(2,5) by (simp add: request_time_def)
    then show ?thesis using same v(3,6) by (auto simp: verified_of_def Let_def)
  qed (use mac in blast)
qed

theorem signature_binds_request_witness:
  "\<exists>v v'. check_signed_request sample_lib sample_auth sample_request (seconds 50) = Inr v \<and>
     check_signed_request sample_lib sample_auth sample_request (seconds 61) = Inr v' \<and> vr_nonce v' = vr_nonce v"
proof -
  have near: "\<bar>seconds 50 - seconds 60\<bar> \<le> seconds 30" "\<bar>seconds 61 - seconds 60\<bar> \<le> seconds 30" by (simp_all add: seconds_def)
  have "newline \<notin> set v" if "v \<in> insert [] (snd ` set (sr_headers sample_request))" for v
    using that by (auto simp: sample_request_def built_request_def build_signed_headers_def sample_lib_def sample_auth_def or_else_def newline_def Let_def)
  then have "newline \<notin> set (header_value (sr_headers sample_request) n)" for n using header_value_in by blast
  moreover have "newline \<notin> set (sr_method sample_request)" "newline \<notin> set (sr_path sample_request)"
    by (simp_all add: sample_request_def built_request_def newline_def)
  ultimately show ?thesis
    using signature_binds_request [OF sample_checked [OF near(1)] sample_checked [OF near(2)]] sample_checked [OF near(1)] sample_checked [OF near(2)]
    by auto
qed

text \<open>C23. A nonce is accepted once per tolerance period, and a request whose timestamp lies before the moment it was first accepted is never
  accepted again, however many other requests the agent verifies in between.\<close>

theorem replayed_request_is_refused:
  assumes "sorted (map snd rqs)" and "i < j" and "j < length rqs" and "rqs ! i = (rq, at)" and "rqs ! j = (rq', at')"
    and "nonce_key rq' = nonce_key rq"
    and "verify_requests lib cfg (InMemoryNonceStore_init (as_tolerance_seconds cfg)) rqs ! i = Inr v"
    and "at' < at + seconds (as_tolerance_seconds cfg) \<or> rq' = rq \<and> vr_timestamp v < at"
  shows "\<nexists>v'. verify_requests lib cfg (InMemoryNonceStore_init (as_tolerance_seconds cfg)) rqs ! j = Inr v'"
proof
  assume "\<exists>v'. verify_requests lib cfg (InMemoryNonceStore_init (as_tolerance_seconds cfg)) rqs ! j = Inr v'"
  then obtain v' where v': "verify_requests lib cfg (InMemoryNonceStore_init (as_tolerance_seconds cfg)) rqs ! j = Inr v'" by blast
  have late: "at + seconds (as_tolerance_seconds cfg) \<le> at'"
    using accepted_twice_spaced [OF init_ok(1) assms(1-7) v'] by (simp add: init_ok)
  then have same: "rq' = rq" "vr_timestamp v < at" using assms(8) by simp_all
  have "check_signed_request lib cfg rq at = Inr v" by (rule verify_requests_checked [OF assms(7) less_trans [OF assms(2,3)] assms(4)])
  moreover have "check_signed_request lib cfg rq at' = Inr v'" using verify_requests_checked [OF v' assms(3,5)] same by simp
  ultimately show False using late same(2) by (auto simp: check_accepts_iff verified_of_def Let_def)
qed

theorem replayed_request_is_refused_witness:
  "\<nexists>v. verify_requests sample_lib sample_auth (InMemoryNonceStore_init (as_tolerance_seconds sample_auth))
     [(sample_request, seconds 61), (sample_request, seconds 91)] ! 1 = Inr v"
proof -
  let ?rqs = "[(sample_request, seconds 61), (sample_request, seconds 91)]"
  have "\<bar>seconds 61 - seconds 60\<bar> \<le> seconds 30" by (simp add: seconds_def)
  then obtain v where v: "verify_requests sample_lib sample_auth (InMemoryNonceStore_init (as_tolerance_seconds sample_auth)) ?rqs ! 0 = Inr v"
      "vr_timestamp v = seconds 60"
    using sample_accepted [of "seconds 61"] by (auto simp: sample_facts)
  show ?thesis
    using replayed_request_is_refused [of ?rqs 0 1 sample_request "seconds 61" sample_request "seconds 91" sample_lib sample_auth v] v
    by (simp add: seconds_def)
qed

text \<open>A request whose timestamp is not before its first acceptance is accepted a second time: the store forgets its nonce after the
  tolerance, and the timestamp is then still within the tolerance on the other side.\<close>

theorem future_request_is_accepted_twice:
  assumes "store_ok store" and "nn_ttl store = as_tolerance_seconds cfg"
    and "verify_signed_request lib cfg rq at store = (Inr v, store')" and "at \<le> vr_timestamp v"
  shows "\<exists>store''. verify_signed_request lib cfg rq (at + seconds (as_tolerance_seconds cfg)) store' = (Inr v, store'')"
proof -
  let ?later = "at + seconds (as_tolerance_seconds cfg)"
  have check: "check_signed_request lib cfg rq at = Inr v" and rem: "InMemoryNonceStore_remember (nonce_key rq) at store = (True, store')"
    using assms(3) by (simp_all add: verify_accepts_iff)
  have "check_signed_request lib cfg rq ?later = Inr v"
    using check assms(4) by (auto simp: check_accepts_iff verified_of_def Let_def)
  moreover have "store_ok store'" "remembered_until store' (nonce_key rq) = Some ?later"
    using nonces.remember_ok [OF assms(1), of "nonce_key rq" at] nonces.remember_sets [OF assms(1), of "nonce_key rq" at] rem assms(2) by simp_all
  then have "fst (InMemoryNonceStore_remember (nonce_key rq) ?later store')" by (simp add: nonces.remember_new)
  ultimately show ?thesis
    unfolding verify_accepts_iff by (cases "InMemoryNonceStore_remember (nonce_key rq) ?later store'") simp
qed

theorem future_request_is_accepted_twice_witness:
  "\<exists>v store' store''. verify_signed_request sample_lib sample_auth sample_request (seconds 50) (InMemoryNonceStore_init 30) = (Inr v, store') \<and>
     verify_signed_request sample_lib sample_auth sample_request (seconds 50 + seconds 30) store' = (Inr v, store'')"
proof -
  have "\<bar>seconds 50 - seconds 60\<bar> \<le> seconds 30" by (simp add: seconds_def)
  then obtain v store' where first: "verify_signed_request sample_lib sample_auth sample_request (seconds 50) (InMemoryNonceStore_init 30) = (Inr v, store')"
      "vr_timestamp v = seconds 60"
    using sample_accepted [of "seconds 50"] by auto
  show ?thesis
    using future_request_is_accepted_twice [OF init_ok(1) _ first(1)] first by (simp add: init_ok sample_facts seconds_def)
qed

end
