(* ===== verification/Journal.thy ===== *)
theory Journal
  imports Prelude
begin

text \<open>
  The node agent's operation journal (\<^verbatim>\<open>infrastructure/nodes/idempotency.py\<close>): one row per idempotency key, claimed under a lease,
  completed with the response, marked retryable or retired. Each operation is one SQLite transaction. Timestamps are stored as text and read
  back as the time they denote; \<^verbatim>\<open>orjson.dumps\<close> and \<^verbatim>\<open>orjson.loads\<close> are parameters.
\<close>

section \<open>Rows and claims\<close>

datatype JournalClaimKind = JC_OWNER | JC_REPLAY | JC_CONFLICT | JC_IN_PROGRESS

record JournalClaim =
  jc_kind :: JournalClaimKind
  jc_owner_token :: "uuid option"
  jc_response :: "dict option"
  jc_reclaimed :: bool

definition journal_claim :: "JournalClaimKind \<Rightarrow> JournalClaim" where
  "journal_claim kind = \<lparr>jc_kind = kind, jc_owner_token = None, jc_response = None, jc_reclaimed = False\<rparr>"

datatype journal_status = JS_IN_PROGRESS | JS_COMPLETED | JS_RETRYABLE

record journal_row =
  jr_idempotency_key :: string
  jr_request_hash :: string
  jr_operation :: string
  jr_client_uuid :: string
  jr_inbound_id :: string
  jr_status :: journal_status
  jr_response_json :: "string option"
  jr_owner_token :: "uuid option"
  jr_lease_expires_at :: "time option"
  jr_last_error :: "string option"
  jr_created_at :: time
  jr_updated_at :: time

type_synonym journal = "journal_row list"

record journal_lib =
  jl_dumps :: "dict \<Rightarrow> string"
  jl_loads :: "string \<Rightarrow> dict res"

section \<open>Operations\<close>

definition journal_find :: "string \<Rightarrow> journal \<Rightarrow> journal_row option" where
  "journal_find key jrn = List.find (\<lambda>r. jr_idempotency_key r = key) jrn"

definition same_request :: "journal_row \<Rightarrow> string \<Rightarrow> string \<Rightarrow> string \<Rightarrow> string \<Rightarrow> bool" where
  "same_request row request_hash operation client_uuid inbound_id \<longleftrightarrow>
     jr_request_hash row = request_hash \<and> jr_operation row = operation \<and> jr_client_uuid row = client_uuid \<and> jr_inbound_id row = inbound_id"

definition claim_response :: "journal_lib \<Rightarrow> string option \<Rightarrow> dict res" where
  "claim_response lib response_json =
     (case response_json of None \<Rightarrow> Inr [] | Some text \<Rightarrow> if text = [] then Inr [] else jl_loads lib text)"

definition journal_claim_sync ::
  "journal_lib \<Rightarrow> int \<Rightarrow> uuid \<Rightarrow> string \<Rightarrow> string \<Rightarrow> string \<Rightarrow> string \<Rightarrow> string \<Rightarrow> time \<Rightarrow> journal \<Rightarrow> JournalClaim res \<times> journal" where
  "journal_claim_sync lib lease_seconds owner_token idempotency_key request_hash operation client_uuid inbound_id now jrn =
     (let lease_expires_at = now + seconds lease_seconds in
      case journal_find idempotency_key jrn of
        None \<Rightarrow>
          (Inr ((journal_claim JC_OWNER)\<lparr>jc_owner_token := Some owner_token\<rparr>),
           jrn @ [\<lparr>jr_idempotency_key = idempotency_key, jr_request_hash = request_hash, jr_operation = operation,
              jr_client_uuid = client_uuid, jr_inbound_id = inbound_id, jr_status = JS_IN_PROGRESS, jr_response_json = None,
              jr_owner_token = Some owner_token, jr_lease_expires_at = Some lease_expires_at, jr_last_error = None,
              jr_created_at = now, jr_updated_at = now\<rparr>])
      | Some row \<Rightarrow>
          if \<not> same_request row request_hash operation client_uuid inbound_id then (Inr (journal_claim JC_CONFLICT), jrn)
          else if jr_status row = JS_COMPLETED then
            (case claim_response lib (jr_response_json row) of
               Inl e \<Rightarrow> (Inl e, jrn)
             | Inr response \<Rightarrow> (Inr ((journal_claim JC_REPLAY)\<lparr>jc_response := Some response\<rparr>), jrn))
          else if jr_status row = JS_IN_PROGRESS \<and> (case jr_lease_expires_at row of None \<Rightarrow> False | Some e \<Rightarrow> now < e)
            then (Inr (journal_claim JC_IN_PROGRESS), jrn)
          else
            (Inr ((journal_claim JC_OWNER)\<lparr>jc_owner_token := Some owner_token, jc_reclaimed := True\<rparr>),
             map (\<lambda>r. if jr_idempotency_key r = idempotency_key
               then r\<lparr>jr_status := JS_IN_PROGRESS, jr_owner_token := Some owner_token, jr_lease_expires_at := Some lease_expires_at,
                      jr_last_error := None, jr_updated_at := now\<rparr> else r) jrn))"

text \<open>An \<^verbatim>\<open>UPDATE\<close> of the row that the owner holds; the row count tells whether there was one.\<close>

definition owned_by :: "string \<Rightarrow> uuid \<Rightarrow> journal_row \<Rightarrow> bool" where
  "owned_by key token r \<longleftrightarrow> jr_idempotency_key r = key \<and> jr_status r = JS_IN_PROGRESS \<and> jr_owner_token r = Some token"

definition journal_update_owned :: "string \<Rightarrow> uuid \<Rightarrow> (journal_row \<Rightarrow> journal_row) \<Rightarrow> journal \<Rightarrow> bool \<times> journal" where
  "journal_update_owned key token f jrn =
     (length (filter (owned_by key token) jrn) = 1, map (\<lambda>r. if owned_by key token r then f r else r) jrn)"

definition journal_complete_sync :: "journal_lib \<Rightarrow> string \<Rightarrow> uuid \<Rightarrow> dict \<Rightarrow> time \<Rightarrow> journal \<Rightarrow> bool \<times> journal" where
  "journal_complete_sync lib idempotency_key owner_token response now jrn =
     journal_update_owned idempotency_key owner_token
       (\<lambda>r. r\<lparr>jr_status := JS_COMPLETED, jr_response_json := Some (jl_dumps lib response), jr_owner_token := None,
             jr_lease_expires_at := None, jr_last_error := None, jr_updated_at := now\<rparr>) jrn"

definition journal_mark_retryable_sync :: "string \<Rightarrow> uuid \<Rightarrow> string \<Rightarrow> time \<Rightarrow> journal \<Rightarrow> bool \<times> journal" where
  "journal_mark_retryable_sync idempotency_key owner_token error now jrn =
     journal_update_owned idempotency_key owner_token
       (\<lambda>r. r\<lparr>jr_status := JS_RETRYABLE, jr_owner_token := None, jr_lease_expires_at := None, jr_last_error := Some error,
             jr_updated_at := now\<rparr>) jrn"

definition journal_retire_sync :: "string \<Rightarrow> journal \<Rightarrow> string res \<times> journal" where
  "journal_retire_sync idempotency_key jrn =
     (case journal_find idempotency_key jrn of
        None \<Rightarrow> (Inr ''already_retired'', jrn)
      | Some row \<Rightarrow>
          if jr_status row = JS_IN_PROGRESS then (Inr ''operation_in_progress'', jrn)
          else
            (let gone = (\<lambda>r. jr_idempotency_key r = idempotency_key \<and> jr_status r \<in> {JS_COMPLETED, JS_RETRYABLE}) in
             if length (filter gone jrn) \<noteq> 1
             then (Inl (RuntimeError ''Journal retirement lost its serialized row''), filter (\<lambda>r. \<not> gone r) jrn)
             else (Inr ''retired'', filter (\<lambda>r. \<not> gone r) jrn)))"

section \<open>Specification\<close>

text \<open>
  What the journal promises: for every key it knows which request took it and whether that request is running (for whom, until when), done
  (with which response) or may be tried again.
\<close>

type_synonym request_identity = "string \<times> string \<times> string \<times> string"

datatype op_state = Running uuid time | Done "string option" | Retry

type_synonym journal_spec = "string \<rightharpoonup> request_identity \<times> op_state"

datatype spec_claim = Own bool | Replay "string option" | Conflict | Busy

definition spec_claim :: "uuid \<Rightarrow> time \<Rightarrow> request_identity \<Rightarrow> time \<Rightarrow> string \<Rightarrow> journal_spec \<Rightarrow> spec_claim \<times> journal_spec" where
  "spec_claim tok until who now k m =
     (case m k of
        None \<Rightarrow> (Own False, m(k \<mapsto> (who, Running tok until)))
      | Some (who', st) \<Rightarrow>
          if who' \<noteq> who then (Conflict, m)
          else case st of
            Done r \<Rightarrow> (Replay r, m)
          | Running t e \<Rightarrow> if now < e then (Busy, m) else (Own True, m(k \<mapsto> (who, Running tok until)))
          | Retry \<Rightarrow> (Own True, m(k \<mapsto> (who, Running tok until))))"

definition spec_finish :: "string \<Rightarrow> uuid \<Rightarrow> op_state \<Rightarrow> journal_spec \<Rightarrow> bool \<times> journal_spec" where
  "spec_finish k tok st m =
     (case m k of
        Some (who, Running t e) \<Rightarrow> if t = tok then (True, m(k \<mapsto> (who, st))) else (False, m)
      | _ \<Rightarrow> (False, m))"

definition spec_retire :: "string \<Rightarrow> journal_spec \<Rightarrow> string \<times> journal_spec" where
  "spec_retire k m =
     (case m k of
        None \<Rightarrow> (''already_retired'', m)
      | Some (who, Running t e) \<Rightarrow> (''operation_in_progress'', m)
      | Some (who, _) \<Rightarrow> (''retired'', m(k := None)))"

text \<open>The abstraction, and the invariant of the stored rows.\<close>

definition row_state :: "journal_row \<Rightarrow> op_state" where
  "row_state r = (case jr_status r of
     JS_IN_PROGRESS \<Rightarrow> (case (jr_owner_token r, jr_lease_expires_at r) of (Some t, Some e) \<Rightarrow> Running t e | _ \<Rightarrow> Retry)
   | JS_COMPLETED \<Rightarrow> Done (jr_response_json r)
   | JS_RETRYABLE \<Rightarrow> Retry)"

definition row_identity :: "journal_row \<Rightarrow> request_identity" where
  "row_identity r = (jr_request_hash r, jr_operation r, jr_client_uuid r, jr_inbound_id r)"

definition journal_abs :: "journal \<Rightarrow> journal_spec" where
  "journal_abs jrn = (\<lambda>k. map_option (\<lambda>r. (row_identity r, row_state r)) (journal_find k jrn))"

definition journal_row_ok :: "journal_row \<Rightarrow> bool" where
  "journal_row_ok r \<longleftrightarrow> (jr_status r = JS_IN_PROGRESS \<longleftrightarrow> jr_owner_token r \<noteq> None) \<and>
     (jr_status r = JS_IN_PROGRESS \<longleftrightarrow> jr_lease_expires_at r \<noteq> None) \<and> (jr_status r = JS_COMPLETED \<longrightarrow> jr_response_json r \<noteq> None)"

definition journal_ok :: "journal \<Rightarrow> bool" where
  "journal_ok jrn \<longleftrightarrow> distinct (map jr_idempotency_key jrn) \<and> list_all journal_row_ok jrn"

section \<open>Lemmas\<close>

lemma find_key_eq: "journal_find k jrn = Some r \<Longrightarrow> jr_idempotency_key r = k \<and> r \<in> set jrn"
  unfolding journal_find_def using find_Some_iff by fastforce

lemma find_member: "distinct (map jr_idempotency_key jrn) \<Longrightarrow> r \<in> set jrn \<Longrightarrow> journal_find (jr_idempotency_key r) jrn = Some r"
  unfolding journal_find_def by (induction jrn) (auto split: if_splits)

lemma find_row_ok: "journal_ok jrn \<Longrightarrow> journal_find k jrn = Some r \<Longrightarrow> journal_row_ok r"
  using find_key_eq by (auto simp: journal_ok_def list_all_iff)

lemma find_map_rows:
  assumes "\<And>r. jr_idempotency_key (f r) = jr_idempotency_key r"
  shows "journal_find k (map f jrn) = map_option f (journal_find k jrn)"
  unfolding journal_find_def by (induction jrn) (auto simp: assms)

lemma map_rows_ok:
  assumes "journal_ok jrn" and "\<And>r. jr_idempotency_key (f r) = jr_idempotency_key r"
    and "\<And>r. r \<in> set jrn \<Longrightarrow> journal_row_ok r \<Longrightarrow> journal_row_ok (f r)"
  shows "journal_ok (map f jrn)"
  using assms by (auto simp: journal_ok_def list_all_iff comp_def)

lemma other_keys:
  assumes "distinct (map jr_idempotency_key (r # jrn))" and "x \<in> set jrn"
  shows "jr_idempotency_key x \<noteq> jr_idempotency_key r"
proof -
  have "jr_idempotency_key x \<in> set (map jr_idempotency_key jrn)" using assms(2) by simp
  then show ?thesis using assms(1) by (auto simp del: set_map)
qed

lemma find_filter_rows:
  assumes "distinct (map jr_idempotency_key jrn)"
  shows "journal_find k (filter P jrn) = (case journal_find k jrn of None \<Rightarrow> None | Some r \<Rightarrow> if P r then Some r else None)"
  using assms
proof (induction jrn)
  case (Cons r jrn)
  have "journal_find k (filter P jrn) = None" "journal_find k jrn = None" if "jr_idempotency_key r = k"
    using that other_keys [OF Cons.prems] by (auto simp: journal_find_def find_None_iff)
  then show ?case using Cons by (auto simp: journal_find_def)
qed (simp add: journal_find_def)

lemma count_key:
  assumes "distinct (map jr_idempotency_key jrn)" and "\<And>r. P r \<Longrightarrow> jr_idempotency_key r = k"
  shows "length (filter P jrn) = (case journal_find k jrn of None \<Rightarrow> 0 | Some r \<Rightarrow> if P r then 1 else 0)"
  using assms(1)
proof (induction jrn)
  case (Cons r jrn)
  have "filter P jrn = []" if "jr_idempotency_key r = k"
    using that other_keys [OF Cons.prems] assms(2) by (auto simp: filter_empty_conv)
  moreover have "\<not> P r" if "jr_idempotency_key r \<noteq> k" using that assms(2) by blast
  ultimately show ?case using Cons by (auto simp: journal_find_def)
qed (simp add: journal_find_def)

lemma owned_filter:
  assumes "journal_ok jrn"
  shows "length (filter (owned_by k tok) jrn) = 1 \<longleftrightarrow> (\<exists>r. journal_find k jrn = Some r \<and> owned_by k tok r)"
  using assms by (subst count_key [where k = k]) (auto simp: journal_ok_def owned_by_def split: option.splits)

lemma row_state_ok:
  assumes "journal_row_ok r"
  shows "row_state r = (case jr_status r of JS_IN_PROGRESS \<Rightarrow> Running (the (jr_owner_token r)) (the (jr_lease_expires_at r))
           | JS_COMPLETED \<Rightarrow> Done (jr_response_json r) | JS_RETRYABLE \<Rightarrow> Retry)"
  using assms by (cases "jr_status r") (auto simp: row_state_def journal_row_ok_def)

text \<open>Every operation keeps the invariant and does to the abstraction what the specification says.\<close>

lemma journal_abs_find: "journal_find k jrn = None \<Longrightarrow> journal_abs jrn k = None"
  "journal_find k jrn = Some r \<Longrightarrow> journal_abs jrn k = Some (row_identity r, row_state r)"
  by (simp_all add: journal_abs_def)

lemma update_row_abs:
  assumes "\<And>r. jr_idempotency_key (f r) = jr_idempotency_key r" and "journal_find k jrn = Some r"
    and "\<And>x. jr_idempotency_key x \<noteq> k \<Longrightarrow> f x = x"
  shows "journal_abs (map f jrn) = (journal_abs jrn)(k \<mapsto> (row_identity (f r), row_state (f r)))"
proof
  fix k'
  show "journal_abs (map f jrn) k' = ((journal_abs jrn)(k \<mapsto> (row_identity (f r), row_state (f r)))) k'"
  proof (cases "k' = k")
    case True
    then show ?thesis using assms(2) by (simp add: journal_abs_def find_map_rows [OF assms(1)])
  next
    case False
    then have "map_option f (journal_find k' jrn) = journal_find k' jrn"
      using assms(3) find_key_eq by (cases "journal_find k' jrn") force+
    then show ?thesis using False by (simp add: journal_abs_def find_map_rows [OF assms(1)])
  qed
qed

lemma update_owned_correct:
  assumes "journal_ok jrn" and "\<And>r. jr_idempotency_key (f r) = jr_idempotency_key r" and "\<And>r. row_identity (f r) = row_identity r"
    and "\<And>r. journal_row_ok r \<Longrightarrow> journal_row_ok (f r)" and "\<And>r. row_state (f r) = st"
  shows "journal_ok (snd (journal_update_owned k tok f jrn))"
    and "fst (journal_update_owned k tok f jrn) = fst (spec_finish k tok st (journal_abs jrn))"
    and "journal_abs (snd (journal_update_owned k tok f jrn)) = snd (spec_finish k tok st (journal_abs jrn))"
proof -
  let ?g = "\<lambda>r. if owned_by k tok r then f r else r"
  have key: "jr_idempotency_key (?g r) = jr_idempotency_key r" for r by (simp add: assms(2))
  show "journal_ok (snd (journal_update_owned k tok f jrn))"
    using map_rows_ok [OF assms(1), of ?g] assms(2,4) by (simp add: journal_update_owned_def)
  have "fst (journal_update_owned k tok f jrn) = fst (spec_finish k tok st (journal_abs jrn)) \<and>
      journal_abs (snd (journal_update_owned k tok f jrn)) = snd (spec_finish k tok st (journal_abs jrn))"
  proof (cases "journal_find k jrn")
    case None
    then have "?g r = r" if "r \<in> set jrn" for r using that by (auto simp: journal_find_def find_None_iff owned_by_def)
    then have "map ?g jrn = jrn" by (simp add: map_idI)
    then show ?thesis using None owned_filter [OF assms(1), of k tok]
      by (simp add: journal_update_owned_def spec_finish_def journal_abs_find)
  next
    case (Some r)
    note ok = find_row_ok [OF assms(1) Some] and k = find_key_eq [OF Some]
    have own: "owned_by k tok r \<longleftrightarrow> (\<exists>e. row_state r = Running tok e)"
      using ok k by (cases "jr_status r") (auto simp: row_state_ok [OF ok] owned_by_def journal_row_ok_def)
    have abs: "journal_abs (map ?g jrn) = (journal_abs jrn)(k \<mapsto> (row_identity (?g r), row_state (?g r)))"
      by (rule update_row_abs [OF key Some]) (simp add: owned_by_def)
    show ?thesis
    proof (cases "owned_by k tok r")
      case True
      then show ?thesis using own Some abs assms(3,5) owned_filter [OF assms(1), of k tok]
        by (auto simp: journal_update_owned_def spec_finish_def journal_abs_find)
    next
      case False
      then have "journal_abs (map ?g jrn) = journal_abs jrn" using abs Some by (simp add: journal_abs_find fun_upd_idem)
      then show ?thesis using False own Some owned_filter [OF assms(1), of k tok]
        by (auto simp: journal_update_owned_def spec_finish_def journal_abs_find split: op_state.splits)
    qed
  qed
  then show "fst (journal_update_owned k tok f jrn) = fst (spec_finish k tok st (journal_abs jrn))"
    and "journal_abs (snd (journal_update_owned k tok f jrn)) = snd (spec_finish k tok st (journal_abs jrn))" by blast+
qed

lemma complete_refines:
  assumes "journal_ok jrn"
  shows "journal_ok (snd (journal_complete_sync lib k tok r now jrn))"
    and "fst (journal_complete_sync lib k tok r now jrn) = fst (spec_finish k tok (Done (Some (jl_dumps lib r))) (journal_abs jrn))"
    and "journal_abs (snd (journal_complete_sync lib k tok r now jrn)) = snd (spec_finish k tok (Done (Some (jl_dumps lib r))) (journal_abs jrn))"
  unfolding journal_complete_sync_def
  by (rule update_owned_correct [OF assms]; simp add: row_identity_def journal_row_ok_def row_state_def)+

lemma mark_retryable_refines:
  assumes "journal_ok jrn"
  shows "journal_ok (snd (journal_mark_retryable_sync k tok e now jrn))"
    and "fst (journal_mark_retryable_sync k tok e now jrn) = fst (spec_finish k tok Retry (journal_abs jrn))"
    and "journal_abs (snd (journal_mark_retryable_sync k tok e now jrn)) = snd (spec_finish k tok Retry (journal_abs jrn))"
  unfolding journal_mark_retryable_sync_def
  by (rule update_owned_correct [OF assms]; simp add: row_identity_def journal_row_ok_def row_state_def)+

definition claim_result :: "journal_lib \<Rightarrow> uuid \<Rightarrow> spec_claim \<Rightarrow> JournalClaim res" where
  "claim_result lib tok c = (case c of
     Own b \<Rightarrow> Inr ((journal_claim JC_OWNER)\<lparr>jc_owner_token := Some tok, jc_reclaimed := b\<rparr>)
   | Replay text \<Rightarrow> bindE (claim_response lib text) (\<lambda>r. Inr ((journal_claim JC_REPLAY)\<lparr>jc_response := Some r\<rparr>))
   | Conflict \<Rightarrow> Inr (journal_claim JC_CONFLICT)
   | Busy \<Rightarrow> Inr (journal_claim JC_IN_PROGRESS))"

lemma claim_refines:
  fixes lib l tok k h op c b now jrn
  defines "run \<equiv> journal_claim_sync lib l tok k h op c b now jrn" and "spec \<equiv> spec_claim tok (now + seconds l) (h, op, c, b) now k (journal_abs jrn)"
  assumes ok: "journal_ok jrn"
  shows "journal_ok (snd run)" and "fst run = claim_result lib tok (fst spec)" and "journal_abs (snd run) = snd spec"
proof -
  have "journal_ok (snd run) \<and> fst run = claim_result lib tok (fst spec) \<and> journal_abs (snd run) = snd spec"
  proof (cases "journal_find k jrn")
    case None
    then have new: "k \<notin> set (map jr_idempotency_key jrn)" by (auto simp: journal_find_def find_None_iff)
    have abs: "journal_abs (jrn @ [r]) = (journal_abs jrn)(k \<mapsto> (row_identity r, row_state r))" if "jr_idempotency_key r = k" for r
      using that None by (auto simp: journal_abs_def journal_find_def find_append split: option.splits)
    show ?thesis
      using None new ok
      by (simp add: run_def spec_def journal_claim_sync_def spec_claim_def journal_abs_find abs row_identity_def row_state_def claim_result_def
          journal_claim_def Let_def journal_ok_def journal_row_ok_def)
  next
    case (Some r)
    let ?f = "\<lambda>r. if jr_idempotency_key r = k then r\<lparr>jr_status := JS_IN_PROGRESS, jr_owner_token := Some tok,
        jr_lease_expires_at := Some (now + seconds l), jr_last_error := None, jr_updated_at := now\<rparr> else r"
    note rok = find_row_ok [OF ok Some] and k = find_key_eq [OF Some]
    have same: "same_request r h op c b \<longleftrightarrow> row_identity r = (h, op, c, b)" by (auto simp: same_request_def row_identity_def)
    have jok: "journal_ok (map ?f jrn)" by (rule map_rows_ok [OF ok]) (auto simp: journal_row_ok_def)
    have "journal_abs (map ?f jrn) = (journal_abs jrn)(k \<mapsto> (row_identity (?f r), row_state (?f r)))"
      by (rule update_row_abs [OF _ Some]) auto
    then have abs: "journal_abs (map ?f jrn) = (journal_abs jrn)(k \<mapsto> (row_identity r, Running tok (now + seconds l)))"
      using k by (simp add: row_identity_def row_state_def)
    show ?thesis
    proof (cases "jr_status r")
      case JS_IN_PROGRESS
      then obtain t e where "jr_owner_token r = Some t" "jr_lease_expires_at r = Some e" using rok by (auto simp: journal_row_ok_def)
      then show ?thesis using JS_IN_PROGRESS Some ok jok abs same
        by (auto simp: run_def spec_def journal_claim_sync_def spec_claim_def journal_abs_find row_state_def claim_result_def journal_claim_def Let_def)
    next
      case JS_COMPLETED
      then show ?thesis using Some ok same
        by (auto simp: run_def spec_def journal_claim_sync_def spec_claim_def journal_abs_find row_state_def claim_result_def journal_claim_def
            Let_def bindE_def split: sum.splits)
    next
      case JS_RETRYABLE
      then show ?thesis using Some ok jok abs same
        by (auto simp: run_def spec_def journal_claim_sync_def spec_claim_def journal_abs_find row_state_def claim_result_def journal_claim_def Let_def)
    qed
  qed
  then show "journal_ok (snd run)" and "fst run = claim_result lib tok (fst spec)" and "journal_abs (snd run) = snd spec" by blast+
qed

lemma retire_refines:
  assumes ok: "journal_ok jrn"
  shows "journal_ok (snd (journal_retire_sync k jrn))" and "fst (journal_retire_sync k jrn) = Inr (fst (spec_retire k (journal_abs jrn)))"
    and "journal_abs (snd (journal_retire_sync k jrn)) = snd (spec_retire k (journal_abs jrn))"
proof -
  let ?gone = "\<lambda>r. jr_idempotency_key r = k \<and> (jr_status r = JS_COMPLETED \<or> jr_status r = JS_RETRYABLE)"
  have d: "distinct (map jr_idempotency_key jrn)" using ok by (simp add: journal_ok_def)
  have kept: "journal_ok (filter P jrn)" for P using ok by (auto simp: journal_ok_def list_all_iff distinct_map_filter)
  have "journal_ok (snd (journal_retire_sync k jrn)) \<and> fst (journal_retire_sync k jrn) = Inr (fst (spec_retire k (journal_abs jrn))) \<and>
      journal_abs (snd (journal_retire_sync k jrn)) = snd (spec_retire k (journal_abs jrn))"
  proof (cases "journal_find k jrn")
    case None
    then show ?thesis using ok by (simp add: journal_retire_sync_def spec_retire_def journal_abs_find)
  next
    case (Some r)
    note rok = find_row_ok [OF ok Some] and k = find_key_eq [OF Some]
    show ?thesis
    proof (cases "jr_status r = JS_IN_PROGRESS")
      case True
      then show ?thesis using Some ok by (simp add: journal_retire_sync_def spec_retire_def journal_abs_find row_state_ok [OF rok])
    next
      case False
      then have gone: "?gone r" using k by (cases "jr_status r") simp_all
      have one: "length (filter ?gone jrn) = 1" by (subst count_key [OF d, of _ k]) (use Some gone in simp_all)
      have "journal_abs (filter (\<lambda>r. \<not> ?gone r) jrn) = (journal_abs jrn)(k := None)"
        using Some gone by (auto simp: journal_abs_def fun_eq_iff find_filter_rows [OF d] split: option.splits dest: find_key_eq)
      then show ?thesis using Some False one kept row_state_ok [OF rok]
        by (auto simp: journal_retire_sync_def spec_retire_def journal_abs_find split: journal_status.splits)
    qed
  qed
  then show "journal_ok (snd (journal_retire_sync k jrn))" and "fst (journal_retire_sync k jrn) = Inr (fst (spec_retire k (journal_abs jrn)))"
    and "journal_abs (snd (journal_retire_sync k jrn)) = snd (spec_retire k (journal_abs jrn))" by blast+
qed

section \<open>Sequences of operations\<close>

text \<open>What any number of requests may do to the journal.\<close>

datatype journal_op =
    Claim uuid string string string string string time
  | Complete string uuid dict time
  | MarkRetryable string uuid string time
  | Retire string

fun journal_do :: "journal_lib \<Rightarrow> int \<Rightarrow> journal_op \<Rightarrow> journal \<Rightarrow> journal" where
  "journal_do lib l (Claim tok k h op c b now) jrn = snd (journal_claim_sync lib l tok k h op c b now jrn)"
| "journal_do lib l (Complete k tok r now) jrn = snd (journal_complete_sync lib k tok r now jrn)"
| "journal_do lib l (MarkRetryable k tok e now) jrn = snd (journal_mark_retryable_sync k tok e now jrn)"
| "journal_do lib l (Retire k) jrn = snd (journal_retire_sync k jrn)"

fun spec_do :: "journal_lib \<Rightarrow> int \<Rightarrow> journal_op \<Rightarrow> journal_spec \<Rightarrow> journal_spec" where
  "spec_do lib l (Claim tok k h op c b now) m = snd (spec_claim tok (now + seconds l) (h, op, c, b) now k m)"
| "spec_do lib l (Complete k tok r now) m = snd (spec_finish k tok (Done (Some (jl_dumps lib r))) m)"
| "spec_do lib l (MarkRetryable k tok e now) m = snd (spec_finish k tok Retry m)"
| "spec_do lib l (Retire k) m = snd (spec_retire k m)"

text \<open>An implementation whose operations follow a specification, and what carries over to sequences of operations.\<close>

locale implements =
  fixes step :: "'op \<Rightarrow> 's \<Rightarrow> 's" and spec :: "'op \<Rightarrow> 'm \<Rightarrow> 'm" and abs :: "'s \<Rightarrow> 'm" and ok :: "'s \<Rightarrow> bool"
  assumes step_ok: "ok s \<Longrightarrow> ok (step op s)"
    and step_abs: "ok s \<Longrightarrow> abs (step op s) = spec op (abs s)"
begin

lemma run_ok: "ok s \<Longrightarrow> ok (fold step ops s)"
  by (induction ops arbitrary: s) (simp_all add: step_ok)

lemma run_abs: "ok s \<Longrightarrow> abs (fold step ops s) = fold spec ops (abs s)"
  by (induction ops arbitrary: s) (simp_all add: step_ok step_abs)

lemma run_keeps:
  assumes "ok s" and "P (abs s)" and "\<And>op m. op \<in> set ops \<Longrightarrow> P m \<Longrightarrow> P (spec op m)"
  shows "P (abs (fold step ops s))"
proof -
  have "P (fold spec ops m)" if "P m" for m
    using that assms(3) by (induction ops arbitrary: m) simp_all
  then show ?thesis using assms(1,2) by (simp add: run_abs)
qed

end

interpretation jrn: implements "journal_do lib l" "spec_do lib l" journal_abs journal_ok for lib l
proof
  fix s op
  assume ok: "journal_ok s"
  show "journal_ok (journal_do lib l op s)"
    using ok by (cases op) (simp_all add: claim_refines complete_refines mark_retryable_refines retire_refines)
  show "journal_abs (journal_do lib l op s) = spec_do lib l op (journal_abs s)"
    using ok by (cases op) (simp_all add: claim_refines complete_refines mark_retryable_refines retire_refines)
qed

lemma done_stays:
  assumes "m k = Some (who, Done r)" and "op \<noteq> Retire k"
  shows "spec_do lib l op m k = Some (who, Done r)"
  using assms by (cases who; cases op) (auto simp: spec_claim_def spec_finish_def spec_retire_def split: option.splits op_state.splits if_splits)

text \<open>An operation that leaves a running claim alone: it does not finish it, and does not claim the key when the lease is over.\<close>

definition leaves_claim :: "string \<Rightarrow> uuid \<Rightarrow> time \<Rightarrow> journal_op \<Rightarrow> bool" where
  "leaves_claim k tok until op = (case op of
     Claim _ k' _ _ _ _ now \<Rightarrow> k' = k \<longrightarrow> now < until
   | Complete k' tok' _ _ \<Rightarrow> \<not> (k' = k \<and> tok' = tok)
   | MarkRetryable k' tok' _ _ \<Rightarrow> \<not> (k' = k \<and> tok' = tok)
   | Retire _ \<Rightarrow> True)"

lemma running_stays:
  assumes "m k = Some (who, Running tok until)" and "leaves_claim k tok until op"
  shows "spec_do lib l op m k = Some (who, Running tok until)"
  using assms by (cases who; cases op) (auto simp: leaves_claim_def spec_claim_def spec_finish_def spec_retire_def split: option.splits op_state.splits if_splits)

lemma claim_pair:
  assumes "journal_ok jrn" and "fst (spec_claim tok (now + seconds l) (h, op, c, b) now k (journal_abs jrn)) = x" and "x \<noteq> Own False" and "x \<noteq> Own True"
  shows "journal_claim_sync lib l tok k h op c b now jrn = (claim_result lib tok x, jrn)"
proof -
  have "fst (journal_claim_sync lib l tok k h op c b now jrn) = claim_result lib tok x"
    using claim_refines(2) [OF assms(1)] assms(2) by simp
  moreover have "snd (journal_claim_sync lib l tok k h op c b now jrn) = jrn"
    using calculation assms(3,4)
    by (cases x) (auto simp: journal_claim_sync_def claim_result_def journal_claim_def Let_def bindE_def split: option.splits if_splits sum.splits)
  ultimately show ?thesis by (metis prod.collapse)
qed

text \<open>A completed record answers every later claim of its key.\<close>

lemma done_replayed:
  assumes "journal_ok jrn" and "journal_abs jrn k = Some (who, Done text)" and "Retire k \<notin> set ops"
  shows "journal_claim_sync lib l' tok k h op c b now (fold (journal_do lib l) ops jrn) =
    (if who = (h, op, c, b) then claim_result lib tok (Replay text) else Inr (journal_claim JC_CONFLICT), fold (journal_do lib l) ops jrn)"
proof -
  let ?jrn = "fold (journal_do lib l) ops jrn"
  have abs: "journal_abs ?jrn k = Some (who, Done text)"
    by (rule jrn.run_keeps [where P = "\<lambda>m. m k = Some (who, Done text)", OF assms(1,2)]) (use assms(3) in \<open>auto intro: done_stays\<close>)
  have ok: "journal_ok ?jrn" by (rule jrn.run_ok [OF assms(1)])
  show ?thesis
    using abs claim_pair [OF ok, of tok now l' h op c b k "if who = (h, op, c, b) then Replay text else Conflict"]
    by (cases "who = (h, op, c, b)") (simp_all add: spec_claim_def claim_result_def split: prod.splits)
qed

text \<open>Who runs under a token that no other request uses.\<close>

lemma token_origin:
  assumes "\<forall>who e. m k = Some (who, Running tok e) \<longrightarrow> who = me" and "\<forall>k h op' c b now. op \<noteq> Claim tok k h op' c b now"
  shows "\<forall>who e. spec_do lib l op m k = Some (who, Running tok e) \<longrightarrow> who = me"
  using assms by (cases op) (auto simp: spec_claim_def spec_finish_def spec_retire_def split: option.splits op_state.splits if_splits)

text \<open>Serialisation functions for the examples.\<close>

definition sample_json :: journal_lib where
  "sample_json = \<lparr>jl_dumps = (\<lambda>d. CHR ''{'' # concat (map fst d)), jl_loads = (\<lambda>text. Inr [(tl text, JNull)])\<rparr>"

definition claimed_journal :: journal where
  "claimed_journal = snd (journal_claim_sync sample_json 60 ''t'' ''k'' ''h'' ''provision'' ''c'' ''1'' 0 [])"

lemma claimed_journal:
  "journal_ok claimed_journal"
  "journal_claim_sync sample_json 60 ''t'' ''k'' ''h'' ''provision'' ''c'' ''1'' 0 [] =
     (Inr ((journal_claim JC_OWNER)\<lparr>jc_owner_token := Some ''t''\<rparr>), claimed_journal)"
  by (simp_all add: claimed_journal_def journal_claim_sync_def journal_find_def Let_def journal_ok_def journal_row_ok_def)

section \<open>Properties\<close>

text \<open>C8. The journal's transactions implement its specification: on rows that satisfy the invariant, each of them answers what the specification of
  claims answers, changes the abstract record of its key exactly as specified and of no other key, and keeps the invariant.\<close>

theorem journal_implements_specification:
  assumes "journal_ok jrn"
  shows "fst (journal_claim_sync lib l tok k h op c b now jrn) = claim_result lib tok (fst (spec_claim tok (now + seconds l) (h, op, c, b) now k (journal_abs jrn))) \<and>
         fst (journal_complete_sync lib k tok r now jrn) = fst (spec_finish k tok (Done (Some (jl_dumps lib r))) (journal_abs jrn)) \<and>
         fst (journal_mark_retryable_sync k tok e now jrn) = fst (spec_finish k tok Retry (journal_abs jrn)) \<and>
         fst (journal_retire_sync k jrn) = Inr (fst (spec_retire k (journal_abs jrn))) \<and>
         (\<forall>ops. journal_ok (fold (journal_do lib l) ops jrn) \<and> journal_abs (fold (journal_do lib l) ops jrn) = fold (spec_do lib l) ops (journal_abs jrn))"
  by (simp add: claim_refines(2) complete_refines(2) mark_retryable_refines(2) retire_refines(2) jrn.run_ok jrn.run_abs assms)

theorem journal_implements_specification_witness:
  "journal_ok [] \<and>
   journal_abs (fold (journal_do sample_json 60) [Claim ''t'' ''k'' ''h'' ''provision'' ''c'' ''1'' 0, MarkRetryable ''k'' ''t'' ''e'' 1] []) ''k'' =
     Some ((''h'', ''provision'', ''c'', ''1''), Retry)"
proof -
  let ?ops = "[Claim ''t'' ''k'' ''h'' ''provision'' ''c'' ''1'' 0, MarkRetryable ''k'' ''t'' ''e'' 1]"
  have ok: "journal_ok []" by (simp add: journal_ok_def)
  have "journal_abs [] = Map.empty" by (simp add: journal_abs_def journal_find_def)
  then have "fold (spec_do sample_json 60) ?ops (journal_abs []) ''k'' = Some ((''h'', ''provision'', ''c'', ''1''), Retry)"
    by (simp add: spec_claim_def spec_finish_def)
  then show ?thesis
    using journal_implements_specification [OF ok, of sample_json 60 "''t''" "''k''" "''h''" "''provision''" "''c''" "''1''" 0 "[]" "''e''"] ok by metis
qed

text \<open>C24. A completed operation is never run again: whatever other requests do to the journal, until its key is retired every claim of the key by the
  same request is answered with the stored response, and every claim by a different request is a conflict; neither changes the journal.\<close>

theorem completed_operation_is_replayed:
  assumes "journal_ok jrn" and "journal_complete_sync lib k tok r at jrn = (True, jrn1)" and "Retire k \<notin> set ops"
    and "jl_loads lib (jl_dumps lib r) = Inr r'" and "jl_dumps lib r \<noteq> []"
  shows "\<exists>row. journal_find k jrn = Some row \<and>
     (let jrn2 = fold (journal_do lib l) ops jrn1 in
      \<forall>tok' h op c b now. journal_claim_sync lib l' tok' k h op c b now jrn2 =
        (Inr (if same_request row h op c b then (journal_claim JC_REPLAY)\<lparr>jc_response := Some r'\<rparr> else journal_claim JC_CONFLICT), jrn2))"
proof -
  let ?jrn2 = "fold (journal_do lib l) ops jrn1"
  have ok1: "journal_ok jrn1" using complete_refines(1) [OF assms(1), of lib k tok r at] assms(2) by simp
  have done1: "spec_finish k tok (Done (Some (jl_dumps lib r))) (journal_abs jrn) = (True, journal_abs jrn1)"
    using complete_refines(2,3) [OF assms(1), of lib k tok r at] assms(2) by (simp add: prod_eq_iff)
  then obtain who where "\<exists>st. journal_abs jrn k = Some (who, st)"
      and upd: "journal_abs jrn1 = (journal_abs jrn)(k \<mapsto> (who, Done (Some (jl_dumps lib r))))"
    by (auto simp: spec_finish_def split: option.splits op_state.splits if_splits prod.splits dest: sym)
  then have who: "\<exists>st. journal_abs jrn k = Some (who, st)" "journal_abs jrn1 k = Some (who, Done (Some (jl_dumps lib r)))" by simp_all
  then obtain row where row: "journal_find k jrn = Some row" "row_identity row = who" by (auto simp: journal_abs_def)
  have "journal_claim_sync lib l' tok' k h op c b now ?jrn2 =
      (Inr (if same_request row h op c b then (journal_claim JC_REPLAY)\<lparr>jc_response := Some r'\<rparr> else journal_claim JC_CONFLICT), ?jrn2)"
    for tok' h op c b now
  proof -
    have "same_request row h op c b \<longleftrightarrow> who = (h, op, c, b)" using row(2) by (auto simp: same_request_def row_identity_def)
    then show ?thesis
      unfolding done_replayed [OF ok1 who(2) assms(3)] using assms(4,5) by (simp add: claim_result_def claim_response_def)
  qed
  then show ?thesis using row(1) by (simp add: Let_def)
qed

theorem completed_operation_is_replayed_witness:
  "\<exists>jrn1. journal_complete_sync sample_json ''k'' ''t'' [(''ok'', JNull)] 1 claimed_journal = (True, jrn1) \<and>
     fst (journal_claim_sync sample_json 60 ''t2'' ''k'' ''h'' ''provision'' ''c'' ''1'' 5 jrn1) =
       Inr ((journal_claim JC_REPLAY)\<lparr>jc_response := Some [(''ok'', JNull)]\<rparr>)"
proof -
  obtain jrn1 where run: "journal_complete_sync sample_json ''k'' ''t'' [(''ok'', JNull)] 1 claimed_journal = (True, jrn1)"
    by (simp add: claimed_journal_def journal_claim_sync_def journal_find_def Let_def journal_complete_sync_def journal_update_owned_def owned_by_def)
  obtain row where row: "journal_find ''k'' claimed_journal = Some row" "same_request row ''h'' ''provision'' ''c'' ''1''"
    by (simp add: claimed_journal_def journal_claim_sync_def journal_find_def Let_def same_request_def)
  have "fst (journal_claim_sync sample_json 60 ''t2'' ''k'' ''h'' ''provision'' ''c'' ''1'' 5 (fold (journal_do sample_json 60) [] jrn1)) =
      Inr ((journal_claim JC_REPLAY)\<lparr>jc_response := Some [(''ok'', JNull)]\<rparr>)"
    using completed_operation_is_replayed [OF claimed_journal(1) run, of "[]" "[(''ok'', JNull)]" 60 60] row by (simp add: sample_json_def Let_def)
  then show ?thesis using run by simp
qed

text \<open>C25. A claimed operation has one owner: from the claim until its lease ends or its owner finishes it, whatever other requests do, no claim of the key
  succeeds, no other token can complete it or mark it retryable, and it cannot be retired; the owner can still complete it.\<close>

theorem claimed_operation_has_one_owner:
  assumes "journal_ok jrn" and "journal_claim_sync lib l tok k h op c b at jrn = (Inr claim, jrn1)" and "jc_kind claim = JC_OWNER"
    and "\<forall>x\<in>set ops. leaves_claim k tok (at + seconds l) x"
  defines "jrn2 \<equiv> fold (journal_do lib l) ops jrn1"
  shows "(\<forall>tok' now. now < at + seconds l \<longrightarrow> journal_claim_sync lib l tok' k h op c b now jrn2 = (Inr (journal_claim JC_IN_PROGRESS), jrn2)) \<and>
         (\<forall>tok' r e now. tok' \<noteq> tok \<longrightarrow> \<not> fst (journal_complete_sync lib k tok' r now jrn2) \<and> \<not> fst (journal_mark_retryable_sync k tok' e now jrn2)) \<and>
         journal_retire_sync k jrn2 = (Inr ''operation_in_progress'', jrn2) \<and>
         (\<forall>r now. fst (journal_complete_sync lib k tok r now jrn2))"
proof -
  let ?spec = "spec_claim tok (at + seconds l) (h, op, c, b) at k (journal_abs jrn)"
  have ok1: "journal_ok jrn1" using claim_refines(1) [OF assms(1), of lib l tok k h op c b at] assms(2) by simp
  have "claim_result lib tok (fst ?spec) = Inr claim" and abs1: "journal_abs jrn1 = snd ?spec"
    using claim_refines(2,3) [OF assms(1), of lib l tok k h op c b at] assms(2) by simp_all
  then have own: "fst ?spec = Own False \<or> fst ?spec = Own True"
    using assms(3) by (cases "fst ?spec") (auto simp: claim_result_def journal_claim_def bindE_eq_Inr)
  then have run1: "journal_abs jrn1 k = Some ((h, op, c, b), Running tok (at + seconds l))"
    unfolding abs1 by (auto simp: spec_claim_def split: option.splits op_state.splits if_splits prod.splits)
  have ok2: "journal_ok jrn2" unfolding jrn2_def by (rule jrn.run_ok [OF ok1])
  have run2: "journal_abs jrn2 k = Some ((h, op, c, b), Running tok (at + seconds l))"
    unfolding jrn2_def
    by (rule jrn.run_keeps [where P = "\<lambda>m. m k = Some ((h, op, c, b), Running tok (at + seconds l))", OF ok1 run1])
      (use assms(4) in \<open>auto intro: running_stays\<close>)
  have "journal_claim_sync lib l tok' k h op c b now jrn2 = (Inr (journal_claim JC_IN_PROGRESS), jrn2)" if "now < at + seconds l" for tok' now
    using claim_pair [OF ok2, of tok' now l h op c b k Busy] run2 that by (simp add: spec_claim_def claim_result_def)
  moreover have "journal_retire_sync k jrn2 = (Inr ''operation_in_progress'', jrn2)"
    using retire_refines(2) [OF ok2, of k] run2 by (auto simp: spec_retire_def journal_retire_sync_def Let_def split: option.splits if_splits)
  ultimately show ?thesis
    using run2 by (simp add: complete_refines(2) [OF ok2] mark_retryable_refines(2) [OF ok2] spec_finish_def)
qed

theorem claimed_operation_has_one_owner_witness:
  "journal_claim_sync sample_json 60 ''t2'' ''k'' ''h'' ''provision'' ''c'' ''1'' 5 claimed_journal =
     (Inr (journal_claim JC_IN_PROGRESS), claimed_journal) \<and>
   \<not> fst (journal_complete_sync sample_json ''k'' ''t2'' [] 6 claimed_journal)"
proof -
  have ok: "journal_ok []" by (simp add: journal_ok_def)
  show ?thesis
    using claimed_operation_has_one_owner [OF ok claimed_journal(2), of "[]"] by (simp add: journal_claim_def seconds_def)
qed

end
