(* ===== verification/NodeAgent.thy ===== *)
theory NodeAgent
  imports NodeAuth Journal NodeSelection
begin

text \<open>
  The agent on a VPN node (\<^verbatim>\<open>apps/node_agent/routes.py\<close>, \<^verbatim>\<open>runtime.py\<close>): authentication of a request, the two journalled operations,
  the retirement of journal records and the stub runtime. The runtime an operation calls is a parameter with a state of its own, and so
  is what other requests do to the agent at each \<^verbatim>\<open>await\<close>; pydantic's validation of a runtime's answer and SHA-256 are parameters.
\<close>

section \<open>Requests and responses\<close>

record AgentRevokeRequest =
  av_task_id :: string
  av_idempotency_key :: string
  av_client_uuid :: string
  av_inbound_id :: string
  av_metadata :: dict

record AgentProvisionRequest =
  ap_task_id :: string
  ap_idempotency_key :: string
  ap_client_uuid :: string
  ap_display_name :: string
  ap_inbound_id :: string
  ap_flow :: "string option"
  ap_expires_at :: "string option"
  ap_metadata :: dict

record AgentOperationResponse =
  ao_status :: string
  ao_client_uuid :: string
  ao_remote_client_ref :: "string option"
  ao_applied_at :: "string option"
  ao_error_code :: "string option"
  ao_message :: "string option"

definition AgentRevokeRequest_dump :: "AgentRevokeRequest \<Rightarrow> dict" where
  "AgentRevokeRequest_dump p =
     [(''task_id'', JStr (av_task_id p)), (''idempotency_key'', JStr (av_idempotency_key p)), (''client_uuid'', JStr (av_client_uuid p)),
      (''inbound_id'', JStr (av_inbound_id p)), (''metadata'', JObj (av_metadata p))]"

definition AgentProvisionRequest_dump :: "AgentProvisionRequest \<Rightarrow> dict" where
  "AgentProvisionRequest_dump p =
     [(''task_id'', JStr (ap_task_id p)), (''idempotency_key'', JStr (ap_idempotency_key p)), (''client_uuid'', JStr (ap_client_uuid p)),
      (''display_name'', JStr (ap_display_name p)), (''inbound_id'', JStr (ap_inbound_id p)), (''flow'', opt_str (ap_flow p)),
      (''expires_at'', opt_str (ap_expires_at p)), (''metadata'', JObj (ap_metadata p))]"

text \<open>
  Pydantic's validation of the two requests (\<^verbatim>\<open>schemas/nodes.py\<close>): texts must be texts, unknown fields are dropped, and
  \<open>datetime\<close> is what pydantic reads from a value and prints again for JSON, in its own format.
\<close>

definition model_text :: "dict \<Rightarrow> string \<Rightarrow> string option" where
  "model_text d k = (case dict_get d k of Some (JStr s) \<Rightarrow> Some s | _ \<Rightarrow> None)"

definition model_optional :: "(json \<Rightarrow> string option) \<Rightarrow> dict \<Rightarrow> string \<Rightarrow> string option option" where
  "model_optional read d k =
     (case dict_get d k of
        None \<Rightarrow> Some None
      | Some v \<Rightarrow> if v = JNull then Some None else map_option Some (read v))"

definition text_of :: "json \<Rightarrow> string option" where
  "text_of v = (case v of JStr s \<Rightarrow> Some s | _ \<Rightarrow> None)"

definition model_dict :: "dict \<Rightarrow> string \<Rightarrow> dict option" where
  "model_dict d k = (case dict_get d k of None \<Rightarrow> Some [] | Some (JObj m) \<Rightarrow> Some m | _ \<Rightarrow> None)"

definition AgentProvisionRequest_validate :: "(json \<Rightarrow> string option) \<Rightarrow> dict \<Rightarrow> AgentProvisionRequest option" where
  "AgentProvisionRequest_validate datetime d =
     Option.bind (model_text d ''task_id'') (\<lambda>task_id.
     Option.bind (model_text d ''idempotency_key'') (\<lambda>idempotency_key.
     Option.bind (model_text d ''client_uuid'') (\<lambda>client_uuid.
     Option.bind (model_text d ''display_name'') (\<lambda>display_name.
     Option.bind (model_text d ''inbound_id'') (\<lambda>inbound_id.
     Option.bind (model_optional text_of d ''flow'') (\<lambda>flow.
     Option.bind (model_optional datetime d ''expires_at'') (\<lambda>expires_at.
     Option.bind (model_dict d ''metadata'') (\<lambda>metadata.
     Some \<lparr>ap_task_id = task_id, ap_idempotency_key = idempotency_key, ap_client_uuid = client_uuid, ap_display_name = display_name,
           ap_inbound_id = inbound_id, ap_flow = flow, ap_expires_at = expires_at, ap_metadata = metadata\<rparr>))))))))"

definition AgentRevokeRequest_validate :: "dict \<Rightarrow> AgentRevokeRequest option" where
  "AgentRevokeRequest_validate d =
     Option.bind (model_text d ''task_id'') (\<lambda>task_id.
     Option.bind (model_text d ''idempotency_key'') (\<lambda>idempotency_key.
     Option.bind (model_text d ''client_uuid'') (\<lambda>client_uuid.
     Option.bind (model_text d ''inbound_id'') (\<lambda>inbound_id.
     Option.bind (model_dict d ''metadata'') (\<lambda>metadata.
     Some \<lparr>av_task_id = task_id, av_idempotency_key = idempotency_key, av_client_uuid = client_uuid, av_inbound_id = inbound_id,
           av_metadata = metadata\<rparr>)))))"

definition JournalRetireRequest_validate :: "dict \<Rightarrow> string option" where
  "JournalRetireRequest_validate d = (case model_text d ''idempotency_key'' of None \<Rightarrow> None | Some k \<Rightarrow> if k = [] then None else Some k)"

record agent_lib =
  gl_sha256 :: "string \<Rightarrow> string"
  gl_json :: journal_lib
  gl_validate :: "dict \<Rightarrow> AgentOperationResponse res"
  gl_dump :: "AgentOperationResponse \<Rightarrow> dict"
  gl_repr :: "json \<Rightarrow> string"
  gl_error_text :: "error \<Rightarrow> string"

text \<open>\<^verbatim>\<open>str(payload[key])\<close>, and Python's \<^verbatim>\<open>int(text)\<close> for decimal texts.\<close>

definition str_field :: "agent_lib \<Rightarrow> dict \<Rightarrow> string \<Rightarrow> string res" where
  "str_field lib d k = (case dict_get d k of None \<Rightarrow> Inl (KeyError k) | Some v \<Rightarrow> Inr (py_str (gl_repr lib) v))"

fun int_digits :: "bool \<Rightarrow> nat \<Rightarrow> string \<Rightarrow> nat option" where
  "int_digits after_digit acc [] = (if after_digit then Some acc else None)"
| "int_digits after_digit acc (c # cs) =
     (let n = (of_char c :: nat) in
      if 48 \<le> n \<and> n \<le> 57 then int_digits True (acc * 10 + (n - 48)) cs
      else if c = CHR ''_'' \<and> after_digit then int_digits False acc cs
      else None)"

definition py_int :: "string \<Rightarrow> int option" where
  "py_int s =
     (case strip s of
        [] \<Rightarrow> None
      | c # cs \<Rightarrow>
          if c = CHR ''-'' then map_option (\<lambda>n. - int n) (int_digits False 0 cs)
          else if c = CHR ''+'' then map_option int (int_digits False 0 cs)
          else map_option int (int_digits False 0 (c # cs)))"

definition positive_inbound :: "string \<Rightarrow> bool" where
  "positive_inbound s \<longleftrightarrow> (case py_int s of None \<Rightarrow> False | Some i \<Rightarrow> 0 < i)"

section \<open>The runtime\<close>

record 'r runtime =
  rt_provision :: "dict \<Rightarrow> time \<Rightarrow> 'r \<Rightarrow> dict res \<times> 'r"
  rt_revoke :: "dict \<Rightarrow> time \<Rightarrow> 'r \<Rightarrow> dict res \<times> 'r"

record stub_client =
  sc_display_name :: string
  sc_inbound_id :: string
  sc_remote_client_ref :: string
  sc_expires_at :: json
  sc_metadata :: dict

type_synonym stub_clients = "(string \<times> stub_client) list"

definition payload_dict :: "dict \<Rightarrow> string \<Rightarrow> dict res" where
  "payload_dict d k = (case dict_get d k of
     None \<Rightarrow> Inr []
   | Some v \<Rightarrow> if \<not> truthy v then Inr [] else (case v of JObj m \<Rightarrow> Inr m | _ \<Rightarrow> Inl (TypeError ''cannot convert to dict'')))"

definition StubNodeRuntime_provision_client ::
  "agent_lib \<Rightarrow> (time \<Rightarrow> string) \<Rightarrow> dict \<Rightarrow> time \<Rightarrow> stub_clients \<Rightarrow> dict res \<times> stub_clients" where
  "StubNodeRuntime_provision_client lib iso_text payload now clients =
     (case str_field lib payload ''client_uuid'' of
        Inl e \<Rightarrow> (Inl e, clients)
      | Inr client_uuid \<Rightarrow>
          (case map_of clients client_uuid of
             Some c \<Rightarrow>
               (Inr [(''status'', JStr ''already_exists''), (''client_uuid'', JStr client_uuid),
                     (''remote_client_ref'', JStr (sc_remote_client_ref c)), (''applied_at'', JStr (iso_text now))], clients)
           | None \<Rightarrow>
               (case bindE (str_field lib payload ''inbound_id'') (\<lambda>inbound_id.
                     bindE (str_field lib payload ''display_name'') (\<lambda>display_name.
                     bindE (payload_dict payload ''metadata'') (\<lambda>metadata.
                     Inr \<lparr>sc_display_name = display_name, sc_inbound_id = inbound_id,
                          sc_remote_client_ref = ''stub:'' @ inbound_id @ '':'' @ display_name,
                          sc_expires_at = dict_value payload ''expires_at'', sc_metadata = metadata\<rparr>))) of
                  Inl e \<Rightarrow> (Inl e, clients)
                | Inr c \<Rightarrow>
                    (Inr [(''status'', JStr ''provisioned''), (''client_uuid'', JStr client_uuid),
                          (''remote_client_ref'', JStr (sc_remote_client_ref c)), (''applied_at'', JStr (iso_text now))],
                     clients @ [(client_uuid, c)]))))"

definition StubNodeRuntime_revoke_client ::
  "agent_lib \<Rightarrow> (time \<Rightarrow> string) \<Rightarrow> dict \<Rightarrow> time \<Rightarrow> stub_clients \<Rightarrow> dict res \<times> stub_clients" where
  "StubNodeRuntime_revoke_client lib iso_text payload now clients =
     (case str_field lib payload ''client_uuid'' of
        Inl e \<Rightarrow> (Inl e, clients)
      | Inr client_uuid \<Rightarrow>
          (case map_of clients client_uuid of
             None \<Rightarrow>
               (Inr [(''status'', JStr ''not_found_treated_as_success''), (''client_uuid'', JStr client_uuid), (''applied_at'', JStr (iso_text now))], clients)
           | Some removed \<Rightarrow>
               (Inr [(''status'', JStr ''revoked''), (''client_uuid'', JStr client_uuid),
                     (''remote_client_ref'', JStr (sc_remote_client_ref removed)), (''applied_at'', JStr (iso_text now))],
                filter (\<lambda>(u, _). u \<noteq> client_uuid) clients)))"

definition stub_runtime :: "agent_lib \<Rightarrow> (time \<Rightarrow> string) \<Rightarrow> stub_clients runtime" where
  "stub_runtime lib iso_text =
     \<lparr>rt_provision = StubNodeRuntime_provision_client lib iso_text, rt_revoke = StubNodeRuntime_revoke_client lib iso_text\<rparr>"

section \<open>Operations\<close>

datatype agent_operation = Op_provision | Op_revoke

definition operation_name :: "agent_operation \<Rightarrow> string" where
  "operation_name op = (case op of Op_provision \<Rightarrow> ''provision'' | Op_revoke \<Rightarrow> ''revoke'')"

definition success_statuses :: "agent_operation \<Rightarrow> string list" where
  "success_statuses op = (case op of Op_provision \<Rightarrow> PROVISION_SUCCESS_STATUSES | Op_revoke \<Rightarrow> REVOKE_SUCCESS_STATUSES)"

type_synonym 'r agent = "journal \<times> 'r"

definition request_hash :: "agent_lib \<Rightarrow> string \<Rightarrow> string \<Rightarrow> string \<Rightarrow> string" where
  "request_hash lib meth path raw_body = gl_sha256 lib (upper meth @ newline # path @ newline # raw_body)"

text \<open>The checks before the journal is touched; they yield the client and inbound the journal records.\<close>

definition check_operation :: "agent_lib \<Rightarrow> bool \<Rightarrow> string \<Rightarrow> dict \<Rightarrow> (string \<times> string) res" where
  "check_operation lib xui verified_key payload =
     bindE (ensure (xui \<longrightarrow> positive_inbound (py_str (gl_repr lib) (case dict_get payload ''inbound_id'' of None \<Rightarrow> JStr [] | Some v \<Rightarrow> v)))
              (HTTPException 422 ''inbound_id must be a positive integer'')) (\<lambda>_.
     bindE (str_field lib payload ''idempotency_key'') (\<lambda>body_key.
     bindE (ensure (body_key = verified_key) (HTTPException 400 ''Signed idempotency key does not match request body'')) (\<lambda>_.
     bindE (str_field lib payload ''client_uuid'') (\<lambda>client_uuid.
     bindE (str_field lib payload ''inbound_id'') (\<lambda>inbound_id.
     Inr (client_uuid, inbound_id))))))"

text \<open>What the owner of a claim asks of the runtime: an ambiguous earlier provision is removed first.\<close>

definition call_runtime ::
  "agent_lib \<Rightarrow> 'r runtime \<Rightarrow> agent_operation \<Rightarrow> bool \<Rightarrow> dict \<Rightarrow> string \<Rightarrow> string \<Rightarrow> time \<Rightarrow> 'r \<Rightarrow> AgentOperationResponse res \<times> 'r" where
  "call_runtime lib rt op reclaimed payload client_uuid inbound_id now r =
     (let (cleaned, r1) =
            (if op = Op_provision \<and> reclaimed then
               (case rt_revoke rt [(''client_uuid'', JStr client_uuid), (''inbound_id'', JStr inbound_id)] now r of
                  (Inl e, r1) \<Rightarrow> (Inl e, r1)
                | (Inr cleanup, r1) \<Rightarrow>
                    (ensure (py_str (gl_repr lib) (dict_value cleanup ''status'') \<in> set REVOKE_SUCCESS_STATUSES)
                       (RuntimeError ''Ambiguous provision cleanup did not converge''), r1))
             else (Inr (), r)) in
      case cleaned of
        Inl e \<Rightarrow> (Inl e, r1)
      | Inr _ \<Rightarrow>
          (case (case op of Op_provision \<Rightarrow> rt_provision rt payload now r1 | Op_revoke \<Rightarrow> rt_revoke rt payload now r1) of
             (Inl e, r2) \<Rightarrow> (Inl e, r2)
           | (Inr raw_response, r2) \<Rightarrow> (gl_validate lib raw_response, r2)))"

definition failure_note :: "AgentOperationResponse \<Rightarrow> string" where
  "failure_note response = or_else (ao_message response) (or_else (ao_error_code response) (''remote status='' @ ao_status response))"

text \<open>How the owner records the outcome.\<close>

definition record_outcome ::
  "agent_lib \<Rightarrow> agent_operation \<Rightarrow> string \<Rightarrow> uuid \<Rightarrow> AgentOperationResponse res \<Rightarrow> time \<Rightarrow> journal \<Rightarrow> AgentOperationResponse res \<times> journal" where
  "record_outcome lib op key owner_token outcome now jrn =
     (case outcome of
        Inl (HTTPException code detail) \<Rightarrow> (outcome, jrn)
      | Inl e \<Rightarrow> (Inl e, snd (journal_mark_retryable_sync key owner_token (gl_error_text lib e) now jrn))
      | Inr response \<Rightarrow>
          if ao_status response \<notin> set (success_statuses op)
          then (Inr response, snd (journal_mark_retryable_sync key owner_token (failure_note response) now jrn))
          else
            (case journal_complete_sync (gl_json lib) key owner_token (gl_dump lib response) now jrn of
               (True, jrn') \<Rightarrow> (Inr response, jrn')
             | (False, jrn') \<Rightarrow> (Inl (HTTPException 409 ''Operation ownership changed before journal finalization''), jrn')))"

definition execute_operation ::
  "agent_lib \<Rightarrow> bool \<Rightarrow> int \<Rightarrow> 'r runtime \<Rightarrow> uuid \<Rightarrow> ('r agent \<Rightarrow> 'r agent) \<Rightarrow> ('r agent \<Rightarrow> 'r agent) \<Rightarrow> agent_operation \<Rightarrow> string \<Rightarrow> string \<Rightarrow> string
   \<Rightarrow> string \<Rightarrow> dict \<Rightarrow> time \<Rightarrow> time \<Rightarrow> 'r agent \<Rightarrow> AgentOperationResponse res \<times> 'r agent" where
  "execute_operation lib xui lease_seconds rt owner_token before_call before_record op meth path raw_body verified_key payload at later s =
     (case check_operation lib xui verified_key payload of
        Inl e \<Rightarrow> (Inl e, s)
      | Inr (client_uuid, inbound_id) \<Rightarrow>
          (case journal_claim_sync (gl_json lib) lease_seconds owner_token verified_key (request_hash lib meth path raw_body) (operation_name op)
                  client_uuid inbound_id at (fst s) of
             (Inl e, jrn) \<Rightarrow> (Inl e, (jrn, snd s))
           | (Inr claim, jrn) \<Rightarrow>
               (case jc_kind claim of
                  JC_CONFLICT \<Rightarrow> (Inl (HTTPException 409 ''Idempotency key was already used for a different request''), (jrn, snd s))
                | JC_IN_PROGRESS \<Rightarrow> (Inl (HTTPException 409 ''Operation with this idempotency key is already in progress''), (jrn, snd s))
                | JC_REPLAY \<Rightarrow> (gl_validate lib (case jc_response claim of None \<Rightarrow> [] | Some d \<Rightarrow> d), (jrn, snd s))
                | JC_OWNER \<Rightarrow>
                    (case jc_owner_token claim of
                       None \<Rightarrow> (Inl (RuntimeError ''Journal owner claim is missing owner token''), (jrn, snd s))
                     | Some token \<Rightarrow>
                         let (jrn1, r1) = before_call (jrn, snd s);
                             (outcome, r2) = call_runtime lib rt op (jc_reclaimed claim) payload client_uuid inbound_id later r1;
                             (jrn2, r3) = before_record (jrn1, r2);
                             (result, jrn3) = record_outcome lib op verified_key token outcome later jrn2 in
                         (result, (jrn3, r3))))))"

section \<open>Routes\<close>

record 'r agent_state =
  ag_nonces :: InMemoryNonceStore
  ag_agent :: "'r agent"

definition require_node_auth ::
  "auth_lib \<Rightarrow> auth_settings \<Rightarrow> signed_request \<Rightarrow> time \<Rightarrow> InMemoryNonceStore \<Rightarrow> VerifiedNodeRequest res \<times> InMemoryNonceStore" where
  "require_node_auth alib cfg rq now nonces =
     (case verify_signed_request alib cfg rq now nonces of
        (Inl (NodeAuthError detail), nonces) \<Rightarrow> (Inl (HTTPException 401 detail), nonces)
      | (result, nonces) \<Rightarrow> (result, nonces))"

text \<open>A start finds the journal as the last run left it in its file; the nonces are forgotten.\<close>

definition agent_startup :: "auth_settings \<Rightarrow> journal \<Rightarrow> 'r \<Rightarrow> 'r agent_state" where
  "agent_startup cfg jrn r = \<lparr>ag_nonces = InMemoryNonceStore_init (as_tolerance_seconds cfg), ag_agent = (jrn, r)\<rparr>"

definition operation_route ::
  "auth_lib \<Rightarrow> auth_settings \<Rightarrow> agent_lib \<Rightarrow> bool \<Rightarrow> int \<Rightarrow> 'r runtime \<Rightarrow> uuid \<Rightarrow> ('r agent \<Rightarrow> 'r agent) \<Rightarrow> ('r agent \<Rightarrow> 'r agent) \<Rightarrow> agent_operation
   \<Rightarrow> signed_request \<Rightarrow> dict \<Rightarrow> time \<Rightarrow> time \<Rightarrow> 'r agent_state \<Rightarrow> AgentOperationResponse res \<times> 'r agent_state" where
  "operation_route alib cfg lib xui lease_seconds rt token before_call before_record op rq payload at later s =
     (case require_node_auth alib cfg rq at (ag_nonces s) of
        (Inl e, nonces) \<Rightarrow> (Inl e, s\<lparr>ag_nonces := nonces\<rparr>)
      | (Inr verified, nonces) \<Rightarrow>
          (case execute_operation lib xui lease_seconds rt token before_call before_record op (sr_method rq) (sr_path rq) (sr_body rq)
                  (vr_idempotency_key verified) payload at later (ag_agent s) of
             (result, agent) \<Rightarrow> (result, s\<lparr>ag_nonces := nonces, ag_agent := agent\<rparr>)))"

definition retire_journal_route ::
  "auth_lib \<Rightarrow> auth_settings \<Rightarrow> signed_request \<Rightarrow> string \<Rightarrow> time \<Rightarrow> 'r agent_state \<Rightarrow> dict res \<times> 'r agent_state" where
  "retire_journal_route alib cfg rq idempotency_key now s =
     (case require_node_auth alib cfg rq now (ag_nonces s) of
        (Inl e, nonces) \<Rightarrow> (Inl e, s\<lparr>ag_nonces := nonces\<rparr>)
      | (Inr verified, nonces) \<Rightarrow>
          if idempotency_key \<noteq> vr_idempotency_key verified
          then (Inl (HTTPException 400 ''Signed idempotency key does not match request body''), s\<lparr>ag_nonces := nonces\<rparr>)
          else
            (case journal_retire_sync idempotency_key (fst (ag_agent s)) of
               (Inl e, jrn) \<Rightarrow> (Inl e, s\<lparr>ag_nonces := nonces, ag_agent := (jrn, snd (ag_agent s))\<rparr>)
             | (Inr status, jrn) \<Rightarrow>
                 (if status = ''operation_in_progress'' then Inl (HTTPException 409 status) else Inr [(''status'', JStr status)],
                  s\<lparr>ag_nonces := nonces, ag_agent := (jrn, snd (ag_agent s))\<rparr>)))"

section \<open>Lemmas\<close>

text \<open>Other requests: what they do to the journal is a sequence of its operations, and none of them claims under this request's token.\<close>

definition other_requests :: "agent_lib \<Rightarrow> int \<Rightarrow> uuid \<Rightarrow> ('r agent \<Rightarrow> 'r agent) \<Rightarrow> bool" where
  "other_requests lib l tok f \<longleftrightarrow>
     (\<forall>s. \<exists>ops. fst (f s) = fold (journal_do (gl_json lib) l) ops (fst s) \<and> (\<forall>k h op c b now. Claim tok k h op c b now \<notin> set ops))"

lemma others_ok: "other_requests lib l tok f \<Longrightarrow> journal_ok (fst s) \<Longrightarrow> journal_ok (fst (f s))"
  unfolding other_requests_def by (metis jrn.run_ok)

lemma others_origin:
  assumes "other_requests lib l tok f" and "journal_ok (fst s)"
    and "\<forall>who e. journal_abs (fst s) k = Some (who, Running tok e) \<longrightarrow> who = me"
  shows "\<forall>who e. journal_abs (fst (f s)) k = Some (who, Running tok e) \<longrightarrow> who = me"
proof -
  obtain ops where ops: "fst (f s) = fold (journal_do (gl_json lib) l) ops (fst s)" "\<forall>k h op c b now. Claim tok k h op c b now \<notin> set ops"
    using assms(1) unfolding other_requests_def by blast
  show ?thesis
    unfolding ops(1)
    by (rule jrn.run_keeps [where P = "\<lambda>m. \<forall>who e. m k = Some (who, Running tok e) \<longrightarrow> who = me", OF assms(2,3)])
      (rule token_origin, use ops(2) in auto)
qed

lemma claim_owner:
  assumes "journal_ok jrn" and "journal_claim_sync lib l tok k h op c b at jrn = (Inr claim, jrn1)" and "jc_kind claim = JC_OWNER"
  shows "journal_ok jrn1" and "journal_abs jrn1 k = Some ((h, op, c, b), Running tok (at + seconds l))" and "jc_owner_token claim = Some tok"
proof -
  let ?spec = "spec_claim tok (at + seconds l) (h, op, c, b) at k (journal_abs jrn)"
  show "journal_ok jrn1" using claim_refines(1) [OF assms(1), of lib l tok k h op c b at] assms(2) by simp
  have res: "claim_result lib tok (fst ?spec) = Inr claim" and abs1: "journal_abs jrn1 = snd ?spec"
    using claim_refines(2,3) [OF assms(1), of lib l tok k h op c b at] assms(2) by simp_all
  then have own: "\<exists>x. fst ?spec = Own x" using assms(3) by (cases "fst ?spec") (auto simp: claim_result_def journal_claim_def bindE_eq_Inr)
  then show "journal_abs jrn1 k = Some ((h, op, c, b), Running tok (at + seconds l))"
    unfolding abs1 by (auto simp: spec_claim_def split: option.splits op_state.splits if_splits prod.splits)
  show "jc_owner_token claim = Some tok" using own res by (auto simp: claim_result_def journal_claim_def)
qed

lemma claim_replay:
  assumes "journal_ok jrn" and "journal_claim_sync lib l tok k h op c b at jrn = (Inr claim, jrn1)" and "jc_kind claim = JC_REPLAY"
  shows "jrn1 = jrn" and "\<exists>text d. journal_abs jrn k = Some ((h, op, c, b), Done text) \<and> claim_response lib text = Inr d \<and> jc_response claim = Some d"
proof -
  let ?spec = "spec_claim tok (at + seconds l) (h, op, c, b) at k (journal_abs jrn)"
  have res: "claim_result lib tok (fst ?spec) = Inr claim"
    using claim_refines(2) [OF assms(1), of lib l tok k h op c b at] assms(2) by simp
  then obtain tx where own: "fst ?spec = Replay tx"
    using assms(3) by (cases "fst ?spec") (auto simp: claim_result_def journal_claim_def)
  show "jrn1 = jrn" using claim_pair [OF assms(1) own, of lib] assms(2) by simp
  have "journal_abs jrn k = Some ((h, op, c, b), Done tx)"
    using own by (auto simp: spec_claim_def split: option.splits op_state.splits if_splits prod.splits)
  then show "\<exists>text d. journal_abs jrn k = Some ((h, op, c, b), Done text) \<and> claim_response lib text = Inr d \<and> jc_response claim = Some d"
    using res own by (auto simp: claim_result_def journal_claim_def bindE_eq_Inr)
qed

lemma completed_abs:
  assumes "journal_ok jrn" and "journal_complete_sync lib k tok r at jrn = (True, jrn1)"
    and "\<forall>who e. journal_abs jrn k = Some (who, Running tok e) \<longrightarrow> who = me"
  shows "journal_ok jrn1" and "journal_abs jrn1 k = Some (me, Done (Some (jl_dumps lib r)))"
proof -
  show "journal_ok jrn1" using complete_refines(1) [OF assms(1), of lib k tok r at] assms(2) by simp
  have "fst (spec_finish k tok (Done (Some (jl_dumps lib r))) (journal_abs jrn))"
    and abs1: "journal_abs jrn1 = snd (spec_finish k tok (Done (Some (jl_dumps lib r))) (journal_abs jrn))"
    using complete_refines(2,3) [OF assms(1), of lib k tok r at] assms(2) by simp_all
  then show "journal_abs jrn1 k = Some (me, Done (Some (jl_dumps lib r)))"
    unfolding abs1 using assms(3) by (auto simp: spec_finish_def split: option.splits op_state.splits if_splits prod.splits)
qed

text \<open>The state an operation leaves when it answered with a success.\<close>

lemma execute_success:
  assumes ok: "journal_ok (fst s)" and oth: "other_requests lib l tok bc" "other_requests lib l tok br"
    and run: "execute_operation lib xui l rt tok bc br op meth path body key payload at later s = (Inr resp, s1)"
    and good: "ao_status resp \<in> set (success_statuses op)"
    and json: "jl_loads (gl_json lib) (jl_dumps (gl_json lib) (gl_dump lib resp)) = Inr d" "gl_validate lib d = Inr resp"
      "jl_dumps (gl_json lib) (gl_dump lib resp) \<noteq> []"
  shows "\<exists>c b text d. check_operation lib xui key payload = Inr (c, b) \<and> journal_ok (fst s1) \<and>
    journal_abs (fst s1) key = Some ((request_hash lib meth path body, operation_name op, c, b), Done text) \<and>
    claim_response (gl_json lib) text = Inr d \<and> gl_validate lib d = Inr resp"
proof -
  let ?h = "request_hash lib meth path body"
  obtain c b where chk: "check_operation lib xui key payload = Inr (c, b)"
    using run by (auto simp: execute_operation_def split: sum.splits)
  obtain res jrn where cl: "journal_claim_sync (gl_json lib) l tok key ?h (operation_name op) c b at (fst s) = (res, jrn)" by fastforce
  obtain claim where claim: "res = Inr claim" using run chk cl by (cases res) (auto simp: execute_operation_def)
  note cl = cl [unfolded claim]
  consider "jc_kind claim = JC_REPLAY" | "jc_kind claim = JC_OWNER"
    using run chk cl by (cases "jc_kind claim") (auto simp: execute_operation_def)
  then show ?thesis
  proof cases
    case 1
    obtain tx d where "journal_abs (fst s) key = Some ((?h, operation_name op, c, b), Done tx)" "claim_response (gl_json lib) tx = Inr d"
        "jc_response claim = Some d"
      using claim_replay(2) [OF ok cl 1] by blast
    then show ?thesis using run chk cl 1 ok claim_replay(1) [OF ok cl 1] by (auto simp: execute_operation_def)
  next
    case 2
    note own = claim_owner [OF ok cl 2]
    obtain jrn1 r1 where s1: "bc (jrn, snd s) = (jrn1, r1)" by fastforce
    obtain outcome r2 where out: "call_runtime lib rt op (jc_reclaimed claim) payload c b later r1 = (outcome, r2)" by fastforce
    obtain jrn2 r3 where s2: "br (jrn1, r2) = (jrn2, r3)" by fastforce
    obtain result jrn3 where rec: "record_outcome lib op key tok outcome later jrn2 = (result, jrn3)" by fastforce
    have end_: "result = Inr resp" "fst s1 = jrn3"
      using run chk cl 2 own(3) s1 out s2 rec by (auto simp: execute_operation_def)
    have o1: "\<forall>who e. journal_abs jrn1 key = Some (who, Running tok e) \<longrightarrow> who = (?h, operation_name op, c, b)" "journal_ok jrn1"
      using others_origin [OF oth(1), of "(jrn, snd s)" key "(?h, operation_name op, c, b)"] others_ok [OF oth(1), of "(jrn, snd s)"] own(1,2) s1 by simp_all
    have o2: "\<forall>who e. journal_abs jrn2 key = Some (who, Running tok e) \<longrightarrow> who = (?h, operation_name op, c, b)" "journal_ok jrn2"
      using others_origin [OF oth(2), of "(jrn1, r2)" key "(?h, operation_name op, c, b)"] others_ok [OF oth(2), of "(jrn1, r2)"] o1 s2 by simp_all
    obtain x where x: "journal_complete_sync (gl_json lib) key tok (gl_dump lib resp) later jrn2 = (x, jrn3)" and "x" and "outcome = Inr resp"
      using rec end_(1) good by (auto simp: record_outcome_def split: sum.splits error.splits if_splits prod.splits bool.splits)
    then have "journal_complete_sync (gl_json lib) key tok (gl_dump lib resp) later jrn2 = (True, jrn3)" by simp
    note comp = completed_abs [OF o2(2) this o2(1)]
    have "claim_response (gl_json lib) (Some (jl_dumps (gl_json lib) (gl_dump lib resp))) = Inr d"
      using json by (simp add: claim_response_def)
    then show ?thesis using comp chk end_(2) json(2) by blast
  qed
qed

lemma map_of_filter_key: "map_of (filter (\<lambda>(u, _). u \<noteq> k) xs) = (map_of xs)(k := None)"
  by (induction xs) (auto simp: fun_eq_iff)

lemma dump_fields:
  "str_field lib (AgentProvisionRequest_dump p) ''client_uuid'' = Inr (ap_client_uuid p)"
  "str_field lib (AgentProvisionRequest_dump p) ''inbound_id'' = Inr (ap_inbound_id p)"
  "str_field lib (AgentProvisionRequest_dump p) ''display_name'' = Inr (ap_display_name p)"
  "str_field lib (AgentProvisionRequest_dump p) ''idempotency_key'' = Inr (ap_idempotency_key p)"
  "payload_dict (AgentProvisionRequest_dump p) ''metadata'' = Inr (ap_metadata p)"
  "dict_value (AgentProvisionRequest_dump p) ''expires_at'' = opt_str (ap_expires_at p)"
  "str_field lib (AgentRevokeRequest_dump q) ''client_uuid'' = Inr (av_client_uuid q)"
  "str_field lib (AgentRevokeRequest_dump q) ''inbound_id'' = Inr (av_inbound_id q)"
  by (auto simp: str_field_def payload_dict_def dict_value_def dict_get_def AgentProvisionRequest_dump_def AgentRevokeRequest_dump_def)

definition provisioned_client :: "AgentProvisionRequest \<Rightarrow> stub_client" where
  "provisioned_client p = \<lparr>sc_display_name = ap_display_name p, sc_inbound_id = ap_inbound_id p,
     sc_remote_client_ref = ''stub:'' @ ap_inbound_id p @ '':'' @ ap_display_name p, sc_expires_at = opt_str (ap_expires_at p), sc_metadata = ap_metadata p\<rparr>"

lemma stub_provision:
  "\<exists>d. StubNodeRuntime_provision_client lib iso_text (AgentProvisionRequest_dump p) now r =
     (Inr d, if map_of r (ap_client_uuid p) = None then r @ [(ap_client_uuid p, provisioned_client p)] else r)"
  by (auto simp: StubNodeRuntime_provision_client_def dump_fields provisioned_client_def split: option.splits)

lemma stub_revoke:
  assumes "str_field lib payload ''client_uuid'' = Inr u"
  shows "\<exists>d. StubNodeRuntime_revoke_client lib iso_text payload now r = (Inr d, filter (\<lambda>(u', _). u' \<noteq> u) r) \<and>
           py_str rep (dict_value d ''status'') \<in> set REVOKE_SUCCESS_STATUSES"
proof (cases "map_of r u")
  case None
  then have "\<forall>x\<in>set r. fst x \<noteq> u" by (auto simp: map_of_eq_None_iff)
  then have "filter (\<lambda>(u', _). u' \<noteq> u) r = r" by (intro filter_True) auto
  then show ?thesis using assms None
    by (simp add: StubNodeRuntime_revoke_client_def dict_value_def dict_get_def REVOKE_SUCCESS_STATUSES_def)
next
  case (Some c)
  then show ?thesis using assms
    by (simp add: StubNodeRuntime_revoke_client_def dict_value_def dict_get_def REVOKE_SUCCESS_STATUSES_def)
qed

text \<open>Library functions and a request for the examples.\<close>

definition sample_agent :: agent_lib where
  "sample_agent = \<lparr>gl_sha256 = id,
     gl_json = \<lparr>jl_dumps = (\<lambda>_. ''{}''), jl_loads = (\<lambda>_. Inr [(''status'', JStr ''provisioned''), (''client_uuid'', JStr ''c'')])\<rparr>,
     gl_validate = (\<lambda>d. case (dict_get d ''status'', dict_get d ''client_uuid'') of
       (Some (JStr st), Some (JStr u)) \<Rightarrow> Inr \<lparr>ao_status = st, ao_client_uuid = u, ao_remote_client_ref = None, ao_applied_at = None,
          ao_error_code = None, ao_message = None\<rparr>
     | _ \<Rightarrow> Inl (ValueError ''invalid response'')),
     gl_dump = (\<lambda>r. [(''status'', JStr (ao_status r)), (''client_uuid'', JStr (ao_client_uuid r))]),
     gl_repr = (\<lambda>_. []), gl_error_text = (\<lambda>_. [])\<rparr>"

definition sample_provision :: AgentProvisionRequest where
  "sample_provision = \<lparr>ap_task_id = ''1'', ap_idempotency_key = ''k'', ap_client_uuid = ''c'', ap_display_name = ''n'', ap_inbound_id = ''1'',
     ap_flow = None, ap_expires_at = None, ap_metadata = []\<rparr>"

definition sample_response :: AgentOperationResponse where
  "sample_response = \<lparr>ao_status = ''provisioned'', ao_client_uuid = ''c'', ao_remote_client_ref = None, ao_applied_at = None,
     ao_error_code = None, ao_message = None\<rparr>"

section \<open>Properties\<close>

text \<open>A request that is not signed with the agent's secret, is outside the clock tolerance, replays a nonce or names another idempotency key in its
  body than it signed is refused, and changes neither the journal nor the clients on the node.\<close>

theorem unauthorised_request_changes_nothing:
  assumes "\<forall>v. fst (verify_signed_request alib cfg rq at (ag_nonces s)) = Inr v \<longrightarrow>
              str_field lib payload ''idempotency_key'' \<noteq> Inr (vr_idempotency_key v)"
  shows "\<exists>e s'. operation_route alib cfg lib xui l rt tok bc br op rq payload at later s = (Inl e, s') \<and> ag_agent s' = ag_agent s"
proof -
  obtain res nonces where ver: "verify_signed_request alib cfg rq at (ag_nonces s) = (res, nonces)" by fastforce
  show ?thesis
  proof (cases res)
    case (Inl e)
    then show ?thesis using ver by (cases e) (auto simp: operation_route_def require_node_auth_def)
  next
    case (Inr v)
    then have "str_field lib payload ''idempotency_key'' \<noteq> Inr (vr_idempotency_key v)" using assms ver by simp
    then have "\<exists>e. check_operation lib xui (vr_idempotency_key v) payload = Inl e"
      by (cases "str_field lib payload ''idempotency_key''") (auto simp: check_operation_def bindE_def ensure_def split: sum.splits)
    then show ?thesis using Inr ver by (auto simp: operation_route_def require_node_auth_def execute_operation_def)
  qed
qed

theorem unauthorised_request_changes_nothing_witness:
  "\<exists>e s'. operation_route sample_lib sample_auth sample_agent False 60 (stub_runtime sample_agent (\<lambda>_. [])) ''t'' id id Op_revoke
     \<lparr>sr_method = ''POST'', sr_path = ''/agent/clients/revoke'', sr_body = ''{}'', sr_headers = []\<rparr> [] 0 1 (agent_startup sample_auth [] []) = (Inl e, s') \<and>
     ag_agent s' = ag_agent (agent_startup sample_auth [] [] :: stub_clients agent_state)"
proof -
  have "\<forall>v. fst (verify_signed_request sample_lib sample_auth
      \<lparr>sr_method = ''POST'', sr_path = ''/agent/clients/revoke'', sr_body = ''{}'', sr_headers = []\<rparr> 0 (ag_nonces (agent_startup sample_auth [] [] :: stub_clients agent_state))) = Inr v \<longrightarrow>
    str_field sample_agent [] ''idempotency_key'' \<noteq> Inr (vr_idempotency_key v)"
    by (simp add: str_field_def dict_get_def)
  then show ?thesis by (rule unauthorised_request_changes_nothing)
qed

text \<open>C26. A client operation that answered with a success is not run twice: until its journal record is retired, the same request is answered with the
  same response and without calling the runtime, whatever other requests did in between, during the first run and after it.\<close>

theorem repeated_operation_is_answered_from_journal:
  assumes "journal_ok (fst s)" and "other_requests lib l tok bc" and "other_requests lib l tok br"
    and "execute_operation lib xui l rt tok bc br op meth path body key payload at later s = (Inr resp, s1)"
    and "ao_status resp \<in> set (success_statuses op)" and "Retire key \<notin> set ops"
    and "jl_loads (gl_json lib) (jl_dumps (gl_json lib) (gl_dump lib resp)) = Inr d" and "gl_validate lib d = Inr resp"
    and "jl_dumps (gl_json lib) (gl_dump lib resp) \<noteq> []"
  shows "let jrn = fold (journal_do (gl_json lib) l) ops (fst s1) in
     execute_operation lib xui l' rt' tok' bc' br' op meth path body key payload at' later' (jrn, r) = (Inr resp, (jrn, r))"
proof -
  let ?jrn = "fold (journal_do (gl_json lib) l) ops (fst s1)"
  obtain c b tx d' where chk: "check_operation lib xui key payload = Inr (c, b)" and "journal_ok (fst s1)"
    and "journal_abs (fst s1) key = Some ((request_hash lib meth path body, operation_name op, c, b), Done tx)"
    and resp: "claim_response (gl_json lib) tx = Inr d'" "gl_validate lib d' = Inr resp"
    using execute_success [OF assms(1-5,7-9)] by blast
  then have "journal_claim_sync (gl_json lib) l' tok' key (request_hash lib meth path body) (operation_name op) c b at' ?jrn =
      (Inr ((journal_claim JC_REPLAY)\<lparr>jc_response := Some d'\<rparr>), ?jrn)"
    using done_replayed [OF _ _ assms(6)] by (simp add: claim_result_def)
  then show ?thesis using chk resp by (simp add: execute_operation_def journal_claim_def Let_def)
qed

theorem repeated_operation_is_answered_from_journal_witness:
  "\<exists>resp jrn r. execute_operation sample_agent False 60 (stub_runtime sample_agent (\<lambda>_. [])) ''t'' id id Op_provision ''POST'' ''/p'' ''{}'' ''k''
       (AgentProvisionRequest_dump sample_provision) 0 1 ([], []) = (Inr resp, (jrn, r)) \<and>
     execute_operation sample_agent False 60 (stub_runtime sample_agent (\<lambda>_. [])) ''t2'' id id Op_provision ''POST'' ''/p'' ''{}'' ''k''
       (AgentProvisionRequest_dump sample_provision) 5 6 (jrn, r) = (Inr resp, (jrn, r))"
proof -
  let ?run = "execute_operation sample_agent False 60 (stub_runtime sample_agent (\<lambda>_. [])) ''t'' id id Op_provision ''POST'' ''/p'' ''{}'' ''k''
       (AgentProvisionRequest_dump sample_provision) 0 1 ([], [])"
  have "fst ?run = Inr sample_response" by code_simp
  then obtain jrn r where run: "?run = (Inr sample_response, (jrn, r))" by (metis prod.collapse)
  have oth: "other_requests sample_agent 60 ''t'' (id :: stub_clients agent \<Rightarrow> _)"
    unfolding other_requests_def by (auto intro: exI [of _ "[]"])
  have ok: "journal_ok (fst ([] :: journal, [] :: stub_clients))" by (simp add: journal_ok_def)
  have "ao_status sample_response \<in> set (success_statuses Op_provision)"
    "jl_loads (gl_json sample_agent) (jl_dumps (gl_json sample_agent) (gl_dump sample_agent sample_response)) =
       Inr [(''status'', JStr ''provisioned''), (''client_uuid'', JStr ''c'')]"
    "gl_validate sample_agent [(''status'', JStr ''provisioned''), (''client_uuid'', JStr ''c'')] = Inr sample_response"
    "jl_dumps (gl_json sample_agent) (gl_dump sample_agent sample_response) \<noteq> []"
    by code_simp+
  then show ?thesis
    using repeated_operation_is_answered_from_journal [OF ok oth oth run, of "[]", where r = r and l' = 60 and tok' = "''t2''" and bc' = id and br' = id
        and rt' = "stub_runtime sample_agent (\<lambda>_. [])" and at' = 5 and later' = 6] run
    by simp
qed

text \<open>What an owned operation does to a node with the stub runtime: a revoke leaves the node without the client; a provision leaves it with the
  client of this request, unless the client was there before and the claim is the first one; and no other client changes. A reclaimed
  provision removes what an interrupted earlier one may have left before it provisions again.\<close>

theorem stub_runtime_effect:
  "map_of (snd (call_runtime lib (stub_runtime lib iso_text) Op_provision reclaimed (AgentProvisionRequest_dump p) (ap_client_uuid p) (ap_inbound_id p) now r)) =
     (if reclaimed \<or> map_of r (ap_client_uuid p) = None then (map_of r)(ap_client_uuid p \<mapsto> provisioned_client p) else map_of r) \<and>
   map_of (snd (call_runtime lib (stub_runtime lib iso_text) Op_revoke reclaimed (AgentRevokeRequest_dump q) (av_client_uuid q) (av_inbound_id q) now r)) =
     (map_of r)(av_client_uuid q := None)"
proof
  let ?u = "ap_client_uuid p"
  let ?cleanup = "[(''client_uuid'', JStr ?u), (''inbound_id'', JStr (ap_inbound_id p))]"
  have field: "str_field lib ?cleanup ''client_uuid'' = Inr ?u" by (simp add: str_field_def dict_get_def)
  obtain d where rev: "StubNodeRuntime_revoke_client lib iso_text ?cleanup now r = (Inr d, filter (\<lambda>(u', _). u' \<noteq> ?u) r)"
      "py_str (gl_repr lib) (dict_value d ''status'') \<in> set REVOKE_SUCCESS_STATUSES"
    using stub_revoke [OF field] by blast
  let ?r1 = "if reclaimed then filter (\<lambda>(u', _). u' \<noteq> ?u) r else r"
  obtain d' where prov: "StubNodeRuntime_provision_client lib iso_text (AgentProvisionRequest_dump p) now ?r1 =
      (Inr d', if map_of ?r1 ?u = None then ?r1 @ [(?u, provisioned_client p)] else ?r1)"
    using stub_provision by blast
  have "snd (call_runtime lib (stub_runtime lib iso_text) Op_provision reclaimed (AgentProvisionRequest_dump p) ?u (ap_inbound_id p) now r) =
      (if map_of ?r1 ?u = None then ?r1 @ [(?u, provisioned_client p)] else ?r1)"
    using rev prov by (cases reclaimed) (simp_all add: call_runtime_def stub_runtime_def)
  moreover have "map_of ?r1 = (if reclaimed then (map_of r)(?u := None) else map_of r)" by (simp add: map_of_filter_key)
  moreover have "[?u \<mapsto> c] ++ m = m(?u \<mapsto> c)" if "m ?u = None" for m and c :: stub_client
    using that by (auto simp: map_add_def fun_eq_iff split: option.splits)
  ultimately show "map_of (snd (call_runtime lib (stub_runtime lib iso_text) Op_provision reclaimed (AgentProvisionRequest_dump p) ?u (ap_inbound_id p) now r)) =
     (if reclaimed \<or> map_of r ?u = None then (map_of r)(?u \<mapsto> provisioned_client p) else map_of r)"
    by (cases reclaimed; cases "map_of r ?u") simp_all
next
  obtain d where "StubNodeRuntime_revoke_client lib iso_text (AgentRevokeRequest_dump q) now r = (Inr d, filter (\<lambda>(u', _). u' \<noteq> av_client_uuid q) r)"
    using stub_revoke [OF dump_fields(7)] by blast
  then show "map_of (snd (call_runtime lib (stub_runtime lib iso_text) Op_revoke reclaimed (AgentRevokeRequest_dump q) (av_client_uuid q) (av_inbound_id q) now r)) =
     (map_of r)(av_client_uuid q := None)"
    by (simp add: call_runtime_def stub_runtime_def map_of_filter_key)
qed

end
