(* ===== verification/NodeClient.thy ===== *)
theory NodeClient
  imports NodeAgent Store
begin

text \<open>
  The shop's client of the node agents (\<^verbatim>\<open>infrastructure/nodes/client.py\<close>) and the agent behind it. The HTTP transport is the parameter
  \<open>send\<close>, with a state of its own; the last section puts the agent of \<^verbatim>\<open>apps/node_agent\<close> behind it.
\<close>

section \<open>Responses\<close>

datatype http_body = NoBody | NotJson | JsonBody json

record http_response =
  hr_status :: int
  hr_body :: http_body

datatype client_error = StatusError int http_body | ClientError error

type_synonym 'w send = "string \<Rightarrow> signed_request \<Rightarrow> 'w \<Rightarrow> http_response option \<times> 'w"

definition is_success :: "int \<Rightarrow> bool" where
  "is_success code \<longleftrightarrow> 200 \<le> code \<and> code \<le> 299"

text \<open>\<^verbatim>\<open>dict(value)\<close> of a decoded JSON value.\<close>

definition dict_of_json :: "json \<Rightarrow> dict res" where
  "dict_of_json v =
     (case v of
        JObj d \<Rightarrow> Inr d
      | JStr s \<Rightarrow> if s = [] then Inr [] else Inl (ValueError ''dictionary update sequence element has the wrong length'')
      | JList xs \<Rightarrow>
          mapE (\<lambda>x. case x of JList [JStr k, w] \<Rightarrow> Inr (k, w) | _ \<Rightarrow> Inl (TypeError ''cannot convert dictionary update sequence'')) xs
      | _ \<Rightarrow> Inl (TypeError ''object is not iterable''))"

definition rstrip_slash :: "string \<Rightarrow> string" where
  "rstrip_slash s = rev (dropWhile (\<lambda>c. c = CHR ''/'') (rev s))"

definition json_bytes :: "(dict \<Rightarrow> string) \<Rightarrow> dict option \<Rightarrow> string" where
  "json_bytes dumps payload = (case payload of None \<Rightarrow> [] | Some d \<Rightarrow> dumps d)"

definition read_response :: "http_response \<Rightarrow> client_error + dict" where
  "read_response response =
     (if \<not> is_success (hr_status response) then Inl (StatusError (hr_status response) (hr_body response))
      else case hr_body response of
        NoBody \<Rightarrow> Inr []
      | NotJson \<Rightarrow> Inl (ClientError (ValueError ''response is not JSON''))
      | JsonBody v \<Rightarrow> (case dict_of_json v of Inl e \<Rightarrow> Inl (ClientError e) | Inr d \<Rightarrow> Inr d))"

section \<open>Requests\<close>

record 'w node_http =
  nw_lib :: auth_lib
  nw_dumps :: "dict \<Rightarrow> string"
  nw_send :: "'w send"

definition client_request :: "'w node_http \<Rightarrow> Node \<Rightarrow> NodeCredential \<Rightarrow> string \<Rightarrow> string \<Rightarrow> dict option \<Rightarrow> string \<Rightarrow> time \<Rightarrow> string \<Rightarrow> signed_request" where
  "client_request http node credential meth path payload idempotency_key now nonce =
     (let body = json_bytes (nw_dumps http) payload;
          headers = build_signed_headers (nw_lib http) (no_node_key node) (nc_key_id credential) (nc_shared_secret credential) meth path body
            idempotency_key None None now nonce in
      \<lparr>sr_method = meth, sr_path = path, sr_body = body,
       sr_headers = (if body \<noteq> [] then headers @ [(''Content-Type'', ''application/json'')] else headers)\<rparr>)"

definition NodeApiClient_request ::
  "'w node_http \<Rightarrow> Node \<Rightarrow> NodeCredential \<Rightarrow> string \<Rightarrow> string \<Rightarrow> dict option \<Rightarrow> string \<Rightarrow> time \<Rightarrow> string \<Rightarrow> 'w \<Rightarrow> (client_error + dict) \<times> 'w" where
  "NodeApiClient_request http node credential meth path payload idempotency_key now nonce w =
     (case nw_send http (rstrip_slash (no_api_base_url node)) (client_request http node credential meth path payload idempotency_key now nonce) w of
        (None, w') \<Rightarrow> (Inl (ClientError (GatewayError ''node request failed'')), w')
      | (Some response, w') \<Rightarrow> (read_response response, w'))"

definition node_id_text :: "Node \<Rightarrow> string" where
  "node_id_text node = (case no_id node of None \<Rightarrow> ''None'' | Some i \<Rightarrow> show_int i)"

definition NodeApiClient_get :: "string \<Rightarrow> 'w node_http \<Rightarrow> Node \<Rightarrow> NodeCredential \<Rightarrow> time \<Rightarrow> string \<Rightarrow> 'w \<Rightarrow> (client_error + dict) \<times> 'w" where
  "NodeApiClient_get what http node credential now nonce =
     NodeApiClient_request http node credential ''GET'' (''/agent/'' @ what) None (what @ '':'' @ node_id_text node) now nonce"

text \<open>The three single requests are sent together; the first that fails decides.\<close>

definition NodeApiClient_get_snapshot ::
  "(json \<Rightarrow> string) \<Rightarrow> 'w node_http \<Rightarrow> Node \<Rightarrow> NodeCredential \<Rightarrow> time \<Rightarrow> (nat \<Rightarrow> string) \<Rightarrow> 'w \<Rightarrow> (client_error + NodeHealthSnapshot) \<times> 'w" where
  "NodeApiClient_get_snapshot py_repr http node credential now nonce w =
     (let parse = (\<lambda>payload. case NodeHealthSnapshot_from_payload py_repr payload of Inl e \<Rightarrow> Inl (ClientError e) | Inr h \<Rightarrow> Inr h) in
      case NodeApiClient_get ''snapshot'' http node credential now (nonce 0) w of
        (Inr payload, w1) \<Rightarrow> (parse payload, w1)
      | (Inl e, w1) \<Rightarrow>
          if (case e of StatusError code _ \<Rightarrow> code \<notin> {404, 405} | ClientError _ \<Rightarrow> True) then (Inl e, w1)
          else
            (let (health, w2) = NodeApiClient_get ''health'' http node credential now (nonce 1) w1;
                 (capabilities, w3) = NodeApiClient_get ''capabilities'' http node credential now (nonce 2) w2;
                 (status, w4) = NodeApiClient_get ''status'' http node credential now (nonce 3) w3 in
             case (health, capabilities, status) of
               (Inr h, Inr c, Inr st) \<Rightarrow>
                 (parse [(''health'', JObj h), (''capabilities'', JObj c), (''status'', JObj st), (''agent_version'', dict_value h ''agent_version''),
                    (''metrics'', JObj [(''active_clients'', dict_value_default st ''active_clients'' (JInt 0)),
                       (''max_clients'', dict_value_default st ''max_clients'' (JInt 0)),
                       (''load'', dict_value_default st ''load'' (JObj [])), (''traffic'', dict_value_default st ''traffic'' (JObj []))]),
                    (''inbounds'', dict_value_default st ''inbounds'' (JList []))], w4)
             | (Inl e, _, _) \<Rightarrow> (Inl e, w4)
             | (_, Inl e, _) \<Rightarrow> (Inl e, w4)
             | (_, _, Inl e) \<Rightarrow> (Inl e, w4)))"

definition NodeApiClient_provision_client ::
  "'w node_http \<Rightarrow> Node \<Rightarrow> NodeCredential \<Rightarrow> dict \<Rightarrow> string \<Rightarrow> time \<Rightarrow> string \<Rightarrow> 'w \<Rightarrow> (client_error + dict) \<times> 'w" where
  "NodeApiClient_provision_client http node credential payload idempotency_key =
     NodeApiClient_request http node credential ''POST'' ''/agent/clients/provision'' (Some payload) idempotency_key"

definition NodeApiClient_revoke_client ::
  "'w node_http \<Rightarrow> Node \<Rightarrow> NodeCredential \<Rightarrow> dict \<Rightarrow> string \<Rightarrow> time \<Rightarrow> string \<Rightarrow> 'w \<Rightarrow> (client_error + dict) \<times> 'w" where
  "NodeApiClient_revoke_client http node credential payload idempotency_key =
     NodeApiClient_request http node credential ''POST'' ''/agent/clients/revoke'' (Some payload) idempotency_key"

definition NodeApiClient_retire_journal_record ::
  "'w node_http \<Rightarrow> Node \<Rightarrow> NodeCredential \<Rightarrow> string \<Rightarrow> time \<Rightarrow> string \<Rightarrow> 'w \<Rightarrow> (client_error + dict) \<times> 'w" where
  "NodeApiClient_retire_journal_record http node credential idempotency_key now nonce w =
     (case NodeApiClient_request http node credential ''POST'' ''/agent/idempotency/retire'' (Some [(''idempotency_key'', JStr idempotency_key)])
             idempotency_key now nonce w of
        (Inl (StatusError code body), w') \<Rightarrow>
          if code \<noteq> 409 then (Inl (StatusError code body), w')
          else
            (case body of
               JsonBody (JObj d) \<Rightarrow>
                 if dict_value d ''detail'' = JStr ''operation_in_progress'' then (Inr [(''status'', JStr ''operation_in_progress'')], w')
                 else (Inl (StatusError code body), w')
             | _ \<Rightarrow> (Inl (StatusError code body), w'))
      | (result, w') \<Rightarrow> (result, w'))"

section \<open>The agent behind the transport\<close>

text \<open>
  What FastAPI does with a request to one of the agent's POST routes. A body that is not JSON is refused at once (422); then the
  dependency authenticates; then the body is validated against the route's model (422 when it does not fit, with pydantic's list
  of errors); then the route runs. An \<^verbatim>\<open>HTTPException\<close> becomes its status with the detail, any other exception a 500.
  \<open>aa_loads\<close> is the JSON parser, \<open>aa_datetime\<close> pydantic's reading of a point in time together with its printing, which
  need not be the text that was sent. A body is taken as JSON, as the client declares it.
\<close>

definition error_response :: "error \<Rightarrow> http_response" where
  "error_response e = (case e of
     HTTPException code detail \<Rightarrow> \<lparr>hr_status = code, hr_body = JsonBody (JObj [(''detail'', JStr detail)])\<rparr>
   | _ \<Rightarrow> \<lparr>hr_status = 500, hr_body = NotJson\<rparr>)"

record 'r agent_app =
  aa_auth_lib :: auth_lib
  aa_auth :: auth_settings
  aa_lib :: agent_lib
  aa_xui :: bool
  aa_lease_seconds :: int
  aa_runtime :: "'r runtime"
  aa_loads :: "string \<Rightarrow> json option"
  aa_datetime :: "json \<Rightarrow> string option"
  aa_errors :: "string \<Rightarrow> json"

definition unprocessable :: "'r agent_app \<Rightarrow> signed_request \<Rightarrow> http_response" where
  "unprocessable app rq = \<lparr>hr_status = 422, hr_body = JsonBody (JObj [(''detail'', aa_errors app (sr_body rq))])\<rparr>"

definition request_json :: "'r agent_app \<Rightarrow> signed_request \<Rightarrow> json option" where
  "request_json app rq = (if sr_body rq = [] then Some JNull else aa_loads app (sr_body rq))"

text \<open>A request whose body does not fit: the dependency has run, so the nonce is used up.\<close>

definition refuse_body :: "'r agent_app \<Rightarrow> time \<Rightarrow> signed_request \<Rightarrow> 'r agent_state \<Rightarrow> http_response option \<times> 'r agent_state" where
  "refuse_body app at rq s =
     (case require_node_auth (aa_auth_lib app) (aa_auth app) rq at (ag_nonces s) of
        (Inl e, nonces) \<Rightarrow> (Some (error_response e), s\<lparr>ag_nonces := nonces\<rparr>)
      | (Inr _, nonces) \<Rightarrow> (Some (unprocessable app rq), s\<lparr>ag_nonces := nonces\<rparr>))"

definition validated_payload :: "'r agent_app \<Rightarrow> agent_operation \<Rightarrow> json \<Rightarrow> dict option" where
  "validated_payload app op v =
     (case v of
        JObj d \<Rightarrow>
          (case op of
             Op_provision \<Rightarrow> map_option AgentProvisionRequest_dump (AgentProvisionRequest_validate (aa_datetime app) d)
           | Op_revoke \<Rightarrow> map_option AgentRevokeRequest_dump (AgentRevokeRequest_validate d))
      | _ \<Rightarrow> None)"

definition serve_operation ::
  "'r agent_app \<Rightarrow> uuid \<Rightarrow> ('r agent \<Rightarrow> 'r agent) \<Rightarrow> ('r agent \<Rightarrow> 'r agent) \<Rightarrow> agent_operation \<Rightarrow> time \<Rightarrow> time \<Rightarrow> signed_request \<Rightarrow> 'r agent_state
   \<Rightarrow> http_response option \<times> 'r agent_state" where
  "serve_operation app token bc br op at later rq s =
     (case request_json app rq of
        None \<Rightarrow> (Some (unprocessable app rq), s)
      | Some v \<Rightarrow>
          (case validated_payload app op v of
             None \<Rightarrow> refuse_body app at rq s
           | Some payload \<Rightarrow>
               (case operation_route (aa_auth_lib app) (aa_auth app) (aa_lib app) (aa_xui app) (aa_lease_seconds app) (aa_runtime app) token bc br op
                       rq payload at later s of
                  (Inl e, s') \<Rightarrow> (Some (error_response e), s')
                | (Inr response, s') \<Rightarrow> (Some \<lparr>hr_status = 200, hr_body = JsonBody (JObj (gl_dump (aa_lib app) response))\<rparr>, s'))))"

definition serve_retire :: "'r agent_app \<Rightarrow> time \<Rightarrow> signed_request \<Rightarrow> 'r agent_state \<Rightarrow> http_response option \<times> 'r agent_state" where
  "serve_retire app now rq s =
     (case request_json app rq of
        None \<Rightarrow> (Some (unprocessable app rq), s)
      | Some v \<Rightarrow>
          (case (case v of JObj d \<Rightarrow> JournalRetireRequest_validate d | _ \<Rightarrow> None) of
             None \<Rightarrow> refuse_body app now rq s
           | Some key \<Rightarrow>
               (case retire_journal_route (aa_auth_lib app) (aa_auth app) rq key now s of
                  (Inl e, s') \<Rightarrow> (Some (error_response e), s')
                | (Inr d, s') \<Rightarrow> (Some \<lparr>hr_status = 200, hr_body = JsonBody (JObj d)\<rparr>, s'))))"

text \<open>The agent's router for POST requests. Its GET routes are those of \<^verbatim>\<open>AgentStatus\<close>.\<close>

definition agent_get_paths :: "string list" where
  "agent_get_paths = [''/agent/health'', ''/agent/capabilities'', ''/agent/status'', ''/agent/snapshot'']"

definition serve_post ::
  "'r agent_app \<Rightarrow> uuid \<Rightarrow> ('r agent \<Rightarrow> 'r agent) \<Rightarrow> ('r agent \<Rightarrow> 'r agent) \<Rightarrow> time \<Rightarrow> time \<Rightarrow> signed_request \<Rightarrow> 'r agent_state
   \<Rightarrow> http_response option \<times> 'r agent_state" where
  "serve_post app token bc br at later rq s =
     (if sr_path rq = ''/agent/clients/provision'' then serve_operation app token bc br Op_provision at later rq s
      else if sr_path rq = ''/agent/clients/revoke'' then serve_operation app token bc br Op_revoke at later rq s
      else if sr_path rq = ''/agent/idempotency/retire'' then serve_retire app at rq s
      else if sr_path rq \<in> set agent_get_paths then (Some (error_response (HTTPException 405 ''Method Not Allowed'')), s)
      else (Some (error_response (HTTPException 404 ''Not Found'')), s))"

definition serve_agent ::
  "'r agent_app \<Rightarrow> (signed_request \<Rightarrow> 'r agent_state \<Rightarrow> http_response option \<times> 'r agent_state) \<Rightarrow> uuid \<Rightarrow> ('r agent \<Rightarrow> 'r agent)
   \<Rightarrow> ('r agent \<Rightarrow> 'r agent) \<Rightarrow> time \<Rightarrow> time \<Rightarrow> signed_request \<Rightarrow> 'r agent_state \<Rightarrow> http_response option \<times> 'r agent_state" where
  "serve_agent app other_methods token bc br at later rq s =
     (if sr_method rq = ''POST'' then serve_post app token bc br at later rq s else other_methods rq s)"

section \<open>Lemmas\<close>

text \<open>A client and an agent that share node key, key id and secret, whose clocks are close enough, and a nonce the agent does not remember.\<close>

record exchange =
  ex_sent :: time
  ex_received :: time
  ex_nonce :: string
  ex_key :: string

definition can_talk :: "auth_lib \<Rightarrow> auth_settings \<Rightarrow> Node \<Rightarrow> NodeCredential \<Rightarrow> exchange \<Rightarrow> InMemoryNonceStore \<Rightarrow> bool" where
  "can_talk lib cfg node credential x nonces \<longleftrightarrow>
     no_node_key node = as_node_id cfg \<and> nc_key_id credential = as_key_id cfg \<and> nc_shared_secret credential = as_secret cfg \<and>
     (\<exists>ts. lb_fromisoformat lib (replace_Z (lb_isoformat lib (ex_sent x))) = AwareTime ts \<and>
        \<bar>ex_received x - ts\<bar> \<le> seconds (as_tolerance_seconds cfg)) \<and>
     lb_isoformat lib (ex_sent x) \<noteq> [] \<and> (\<forall>c. is_ascii (lb_hmac lib (as_secret cfg) c) \<and> lb_hmac lib (as_secret cfg) c \<noteq> []) \<and>
     ex_nonce x \<noteq> [] \<and> ex_key x \<noteq> [] \<and> store_ok nonces \<and>
     (case remembered_until nonces (as_node_id cfg @ '':'' @ ex_nonce x) of None \<Rightarrow> True | Some e \<Rightarrow> e \<le> ex_received x)"

definition AUTH_HEADERS :: "string list" where
  "AUTH_HEADERS = [NODE_ID_HEADER, KEY_ID_HEADER, TIMESTAMP_HEADER, NONCE_HEADER, IDEMPOTENCY_HEADER, SIGNATURE_HEADER]"

lemma check_cong:
  assumes "sr_method rq' = sr_method rq" "sr_path rq' = sr_path rq" "sr_body rq' = sr_body rq"
    and "\<forall>n\<in>set AUTH_HEADERS. header_value (sr_headers rq') n = header_value (sr_headers rq) n"
  shows "check_signed_request lib cfg rq' now = check_signed_request lib cfg rq now" and "nonce_key rq' = nonce_key rq"
  using assms by (simp_all add: check_signed_request_def request_canonical_def nonce_key_def AUTH_HEADERS_def Let_def)

lemma built_header_append:
  "n \<in> set AUTH_HEADERS \<Longrightarrow> header_value (build_signed_headers lib a b c m p body key None None sent fresh @ extra) n =
     header_value (build_signed_headers lib a b c m p body key None None sent fresh) n"
  by (auto simp: AUTH_HEADERS_def header_value_def build_signed_headers_def header_names lower_def lower_char_def Let_def)

lemma talk_authenticated:
  assumes "can_talk (nw_lib http) cfg node credential x nonces"
  shows "\<exists>nonces' v. require_node_auth (nw_lib http) cfg
      (client_request http node credential meth path payload (ex_key x) (ex_sent x) (ex_nonce x)) (ex_received x) nonces = (Inr v, nonces') \<and>
    vr_idempotency_key v = ex_key x"
proof -
  let ?lib = "nw_lib http" and ?body = "json_bytes (nw_dumps http) payload"
  let ?rq = "client_request http node credential meth path payload (ex_key x) (ex_sent x) (ex_nonce x)"
  let ?built = "built_request ?lib cfg meth path ?body (ex_key x) (ex_sent x) (ex_nonce x)"
  obtain ts where ts: "lb_fromisoformat ?lib (replace_Z (lb_isoformat ?lib (ex_sent x))) = AwareTime ts"
      "\<bar>ex_received x - ts\<bar> \<le> seconds (as_tolerance_seconds cfg)"
    and more: "lb_isoformat ?lib (ex_sent x) \<noteq> []" "\<And>c. is_ascii (lb_hmac ?lib (as_secret cfg) c) \<and> lb_hmac ?lib (as_secret cfg) c \<noteq> []"
      "ex_nonce x \<noteq> []" "ex_key x \<noteq> []" and ok: "store_ok nonces"
    and new: "case remembered_until nonces (as_node_id cfg @ '':'' @ ex_nonce x) of None \<Rightarrow> True | Some e \<Rightarrow> e \<le> ex_received x"
    using assms unfolding can_talk_def by blast
  have parts: "sr_method ?rq = sr_method ?built" "sr_path ?rq = sr_path ?built" "sr_body ?rq = sr_body ?built"
    by (simp_all add: client_request_def built_request_def Let_def)
  have same: "\<forall>n\<in>set AUTH_HEADERS. header_value (sr_headers ?rq) n = header_value (sr_headers ?built) n"
    using assms built_header_append by (auto simp: client_request_def built_request_def can_talk_def Let_def)
  note check = built_request_checked [OF ts(1) more ts(2), of meth path ?body]
  have "check_signed_request ?lib cfg ?rq (ex_received x) =
      Inr \<lparr>vr_node_id = as_node_id cfg, vr_key_id = as_key_id cfg, vr_timestamp = ts, vr_nonce = ex_nonce x, vr_idempotency_key = ex_key x\<rparr>"
    using check(1) check_cong(1) [OF parts same] by simp
  moreover have "fst (InMemoryNonceStore_remember (nonce_key ?rq) (ex_received x) nonces)"
    unfolding nonces.remember_new [OF ok] using new check(2) check_cong(2) [OF parts same] by simp
  ultimately show ?thesis
    by (cases "InMemoryNonceStore_remember (nonce_key ?rq) (ex_received x) nonces") (simp add: require_node_auth_def verify_signed_request_def)
qed

text \<open>A node, its credential and its agent for the examples.\<close>

definition sample_node :: Node where
  "sample_node = \<lparr>no_id = Some 1, no_node_key = as_node_id sample_auth, no_display_name = ''node'', no_api_base_url = ''http://n1'', no_status = NS_ONLINE,
     no_is_enabled = True, no_selection_weight = 1, no_last_seen_at = None, no_last_error = None\<rparr>"

definition sample_credential :: NodeCredential where
  "sample_credential = \<lparr>nc_id = Some 1, nc_node_id = 1, nc_key_id = as_key_id sample_auth, nc_shared_secret = as_secret sample_auth, nc_is_active = True,
     nc_created_at = 0, nc_expires_at = None\<rparr>"

definition sample_exchange :: exchange where
  "sample_exchange = \<lparr>ex_sent = 0, ex_received = seconds 61, ex_nonce = ''nonce'', ex_key = ''k''\<rparr>"

text \<open>The expiry is sent in Python's ISO format and comes out of pydantic in its own.\<close>

definition sample_sent :: dict where
  "sample_sent =
     [(''task_id'', JStr ''1''), (''idempotency_key'', JStr ''k''), (''client_uuid'', JStr ''c''), (''display_name'', JStr ''n''), (''inbound_id'', JStr ''1''),
      (''flow'', JNull), (''expires_at'', JStr ''2026-01-01T00:00:00+00:00''), (''metadata'', JObj [(''vpn_generation'', JInt 1)])]"

definition sample_app :: "dict \<Rightarrow> stub_clients agent_app" where
  "sample_app payload = \<lparr>aa_auth_lib = sample_lib, aa_auth = sample_auth, aa_lib = sample_agent, aa_xui = False, aa_lease_seconds = 60,
     aa_runtime = stub_runtime sample_agent (\<lambda>_. []), aa_loads = (\<lambda>_. Some (JObj payload)),
     aa_datetime = (\<lambda>v. if v = JStr ''2026-01-01T00:00:00+00:00'' then Some ''2026-01-01T00:00:00Z'' else None), aa_errors = (\<lambda>_. JList [])\<rparr>"

lemma sample_can_talk: "can_talk sample_lib sample_auth sample_node sample_credential sample_exchange (InMemoryNonceStore_init 30)"
proof -
  have "lb_fromisoformat sample_lib (replace_Z (lb_isoformat sample_lib (ex_sent sample_exchange))) = AwareTime (seconds 60)"
    using sample_facts(1) by (simp add: sample_exchange_def)
  moreover have "\<bar>ex_received sample_exchange - seconds 60\<bar> \<le> seconds (as_tolerance_seconds sample_auth)"
    by (simp add: sample_exchange_def sample_facts seconds_def)
  ultimately show ?thesis
    unfolding can_talk_def using sample_facts(2,3) init_ok(1)
    by (auto simp: sample_node_def sample_credential_def sample_exchange_def remembered_until_def InMemoryNonceStore_init_def)
qed

section \<open>Properties\<close>

lemma model_textD: "model_text d k = Some s \<Longrightarrow> dict_get d k = Some (JStr s)"
  by (auto simp: model_text_def split: option.splits json.splits)

lemma validated_keeps:
  assumes "validated_payload app op (JObj d) = Some valid" and "k \<in> {''task_id'', ''idempotency_key'', ''client_uuid'', ''inbound_id''}"
  shows "dict_get valid k = dict_get d k"
proof (cases op)
  case Op_provision
  then show ?thesis using assms
    by (auto simp: validated_payload_def AgentProvisionRequest_validate_def AgentProvisionRequest_dump_def dict_get_def [of "_ # _"]
        bind_eq_Some_conv dest!: model_textD)
next
  case Op_revoke
  then show ?thesis using assms
    by (auto simp: validated_payload_def AgentRevokeRequest_validate_def AgentRevokeRequest_dump_def dict_get_def [of "_ # _"]
        bind_eq_Some_conv dest!: model_textD)
qed

text \<open>C10. The shop's client and the agent fit together: a client operation the shop sends to a node with the right credential reaches its route,
  passes the agent's authentication, and is executed under the idempotency key the shop gave, for the task, client and inbound the shop
  named, on the payload as the route's model reads it; its outcome comes back as the operation's response or as the HTTP error it
  raised. A payload that does not fit the model comes back as a 422 and touches neither journal nor runtime. Of the JSON functions it is
  used that the agent parses what the client printed; points in time may be printed in another format than they were sent in.\<close>

theorem client_operation_is_executed:
  fixes app :: "'r agent_app" and http :: "'r agent_state node_http"
  assumes "can_talk (nw_lib http) (aa_auth app) node credential x (ag_nonces s)" and "aa_auth_lib app = nw_lib http"
    and "nw_dumps http payload \<noteq> []" and "aa_loads app (nw_dumps http payload) = Some (JObj payload)"
    and "nw_send http = (\<lambda>_. serve_agent app other_methods tok bc br (ex_received x) later)"
    and "(path, call, op) \<in> {(''/agent/clients/provision'', NodeApiClient_provision_client, Op_provision),
       (''/agent/clients/revoke'', NodeApiClient_revoke_client, Op_revoke)}"
  shows "\<exists>s'. case validated_payload app op (JObj payload) of
       None \<Rightarrow>
         call http node credential payload (ex_key x) (ex_sent x) (ex_nonce x) s =
           (Inl (StatusError 422 (JsonBody (JObj [(''detail'', aa_errors app (nw_dumps http payload))]))), s') \<and>
         ag_agent s' = ag_agent s
     | Some valid \<Rightarrow>
         call http node credential payload (ex_key x) (ex_sent x) (ex_nonce x) s =
           (case execute_operation (aa_lib app) (aa_xui app) (aa_lease_seconds app) (aa_runtime app) tok bc br op ''POST'' path (nw_dumps http payload)
              (ex_key x) valid (ex_received x) later (ag_agent s) of
              (Inr response, agent) \<Rightarrow> (Inr (gl_dump (aa_lib app) response), s')
            | (Inl e, agent) \<Rightarrow> (read_response (error_response e), s')) \<and>
         ag_agent s' = snd (execute_operation (aa_lib app) (aa_xui app) (aa_lease_seconds app) (aa_runtime app) tok bc br op ''POST'' path
           (nw_dumps http payload) (ex_key x) valid (ex_received x) later (ag_agent s)) \<and>
         (\<forall>k\<in>{''task_id'', ''idempotency_key'', ''client_uuid'', ''inbound_id''}. dict_get valid k = dict_get payload k)"
proof -
  let ?rq = "client_request http node credential ''POST'' path (Some payload) (ex_key x) (ex_sent x) (ex_nonce x)"
  obtain nonces' v where auth: "require_node_auth (nw_lib http) (aa_auth app) ?rq (ex_received x) (ag_nonces s) = (Inr v, nonces')"
      "vr_idempotency_key v = ex_key x"
    using talk_authenticated [OF assms(1)] by blast
  have parts: "sr_method ?rq = ''POST''" "sr_path ?rq = path" "sr_body ?rq = nw_dumps http payload"
    by (simp_all add: client_request_def json_bytes_def Let_def)
  have json: "request_json app ?rq = Some (JObj payload)" using assms(3,4) by (simp add: request_json_def parts)
  have routed: "nw_send http base ?rq u = serve_operation app tok bc br op (ex_received x) later ?rq u" for base u
    using assms(6) by (auto simp: assms(5) serve_agent_def serve_post_def parts)
  have call: "call http node credential payload (ex_key x) (ex_sent x) (ex_nonce x) =
      NodeApiClient_request http node credential ''POST'' path (Some payload) (ex_key x) (ex_sent x) (ex_nonce x)"
    using assms(6) by (auto simp: NodeApiClient_provision_client_def NodeApiClient_revoke_client_def)
  show ?thesis
  proof (cases "validated_payload app op (JObj payload)")
    case None
    then have "call http node credential payload (ex_key x) (ex_sent x) (ex_nonce x) s =
        (Inl (StatusError 422 (JsonBody (JObj [(''detail'', aa_errors app (nw_dumps http payload))]))), s\<lparr>ag_nonces := nonces'\<rparr>)"
      using auth json unfolding call NodeApiClient_request_def routed serve_operation_def
      by (simp add: refuse_body_def assms(2) unprocessable_def parts read_response_def is_success_def)
    then show ?thesis using None by (intro exI [of _ "s\<lparr>ag_nonces := nonces'\<rparr>"]) simp
  next
    case (Some valid)
    let ?run = "execute_operation (aa_lib app) (aa_xui app) (aa_lease_seconds app) (aa_runtime app) tok bc br op ''POST'' path (nw_dumps http payload)
        (ex_key x) valid (ex_received x) later (ag_agent s)"
    obtain result agent where run: "?run = (result, agent)" by (cases ?run)
    have route: "operation_route (aa_auth_lib app) (aa_auth app) (aa_lib app) (aa_xui app) (aa_lease_seconds app) (aa_runtime app) tok bc br op ?rq valid
        (ex_received x) later s = (result, s\<lparr>ag_nonces := nonces', ag_agent := agent\<rparr>)"
      using auth run by (simp add: operation_route_def parts assms(2))
    then have "call http node credential payload (ex_key x) (ex_sent x) (ex_nonce x) s =
        (case result of Inr response \<Rightarrow> Inr (gl_dump (aa_lib app) response) | Inl e \<Rightarrow> read_response (error_response e),
         s\<lparr>ag_nonces := nonces', ag_agent := agent\<rparr>)"
      using json Some unfolding call NodeApiClient_request_def routed serve_operation_def
      by (cases result) (simp_all add: read_response_def is_success_def dict_of_json_def)
    then show ?thesis
      unfolding Some option.case run using validated_keeps [OF Some]
      by (cases result) (auto intro!: exI [of _ "s\<lparr>ag_nonces := nonces', ag_agent := agent\<rparr>"])
  qed
qed

theorem client_operation_is_executed_witness:
  "\<exists>s'. NodeApiClient_provision_client
      \<lparr>nw_lib = sample_lib, nw_dumps = (\<lambda>_. ''{}''),
       nw_send = (\<lambda>_. serve_agent (sample_app sample_sent) (\<lambda>_ s. (None, s)) ''t'' id id (ex_received sample_exchange) (seconds 62))\<rparr>
      sample_node sample_credential sample_sent (ex_key sample_exchange) (ex_sent sample_exchange) (ex_nonce sample_exchange)
      \<lparr>ag_nonces = InMemoryNonceStore_init 30, ag_agent = ([], [])\<rparr> = (Inr (gl_dump sample_agent sample_response), s') \<and>
     map_option sc_expires_at (map_of (snd (ag_agent s')) ''c'') = Some (JStr ''2026-01-01T00:00:00Z'')"
proof -
  let ?http = "\<lparr>nw_lib = sample_lib, nw_dumps = (\<lambda>_. ''{}''),
       nw_send = (\<lambda>_. serve_agent (sample_app sample_sent) (\<lambda>_ s. (None, s)) ''t'' id id (ex_received sample_exchange) (seconds 62))\<rparr>"
  obtain valid where valid: "validated_payload (sample_app sample_sent) Op_provision (JObj sample_sent) = Some valid"
    and "valid = the (validated_payload (sample_app sample_sent) Op_provision (JObj sample_sent))"
  proof -
    have "\<not> Option.is_none (validated_payload (sample_app sample_sent) Op_provision (JObj sample_sent))" by code_simp
    then show thesis using that by (auto simp: Option.is_none_def)
  qed
  let ?run = "execute_operation sample_agent False 60 (stub_runtime sample_agent (\<lambda>_. [])) ''t'' id id Op_provision ''POST'' ''/agent/clients/provision'' ''{}''
      (ex_key sample_exchange) (the (validated_payload (sample_app sample_sent) Op_provision (JObj sample_sent))) (ex_received sample_exchange) (seconds 62) ([], [])"
  have "fst ?run = Inr sample_response \<and> map_option sc_expires_at (map_of (snd (snd ?run)) ''c'') = Some (JStr ''2026-01-01T00:00:00Z'')" by code_simp
  then obtain agent where run: "?run = (Inr sample_response, agent)" "map_option sc_expires_at (map_of (snd agent) ''c'') = Some (JStr ''2026-01-01T00:00:00Z'')"
    by (cases ?run) auto
  show ?thesis
    using client_operation_is_executed [where app = "sample_app sample_sent" and http = ?http and node = sample_node and credential = sample_credential
        and x = sample_exchange and s = "\<lparr>ag_nonces = InMemoryNonceStore_init 30, ag_agent = ([], [])\<rparr>" and payload = sample_sent and tok = "''t''"
        and bc = id and br = id and op = Op_provision and later = "seconds 62" and path = "''/agent/clients/provision''"
        and call = NodeApiClient_provision_client and other_methods = "\<lambda>_ s. (None, s)"]
      run sample_can_talk valid
    by (auto simp: sample_app_def)
qed

text \<open>Retiring a journal record works end to end: with the right credential the shop learns exactly what the node's journal answered, the refusal
  to retire a running operation included, which travels as a 409 response.\<close>

theorem retirement_reaches_journal:
  fixes app :: "'r agent_app" and http :: "'r agent_state node_http"
  assumes "can_talk (nw_lib http) (aa_auth app) node credential x (ag_nonces s)" and "aa_auth_lib app = nw_lib http"
    and "nw_dumps http [(''idempotency_key'', JStr (ex_key x))] \<noteq> []"
    and "aa_loads app (nw_dumps http [(''idempotency_key'', JStr (ex_key x))]) = Some (JObj [(''idempotency_key'', JStr (ex_key x))])"
    and "nw_send http = (\<lambda>_. serve_agent app other_methods tok bc br (ex_received x) later)" and "journal_ok (fst (ag_agent s))"
  shows "\<exists>status s'. journal_retire_sync (ex_key x) (fst (ag_agent s)) = (Inr status, fst (ag_agent s')) \<and> snd (ag_agent s') = snd (ag_agent s) \<and>
     NodeApiClient_retire_journal_record http node credential (ex_key x) (ex_sent x) (ex_nonce x) s = (Inr [(''status'', JStr status)], s')"
proof -
  let ?p = "[(''idempotency_key'', JStr (ex_key x))]"
  let ?rq = "client_request http node credential ''POST'' ''/agent/idempotency/retire'' (Some ?p) (ex_key x) (ex_sent x) (ex_nonce x)"
  obtain nonces' v where auth: "require_node_auth (nw_lib http) (aa_auth app) ?rq (ex_received x) (ag_nonces s) = (Inr v, nonces')"
      "vr_idempotency_key v = ex_key x"
    using talk_authenticated [OF assms(1)] by blast
  obtain status jrn where ret: "journal_retire_sync (ex_key x) (fst (ag_agent s)) = (Inr status, jrn)"
    using retire_refines(2) [OF assms(6)] by (metis prod.collapse)
  let ?s' = "s\<lparr>ag_nonces := nonces', ag_agent := (jrn, snd (ag_agent s))\<rparr>"
  have key: "ex_key x \<noteq> []" using assms(1) by (simp add: can_talk_def)
  have parts: "sr_method ?rq = ''POST''" "sr_path ?rq = ''/agent/idempotency/retire''" "sr_body ?rq = nw_dumps http ?p"
    by (simp_all add: client_request_def json_bytes_def Let_def)
  have json: "request_json app ?rq = Some (JObj ?p)" using assms(3,4) by (simp add: request_json_def parts)
  have routed: "nw_send http base ?rq u = serve_retire app (ex_received x) ?rq u" for base u
    by (simp add: assms(5) serve_agent_def serve_post_def parts)
  have valid: "JournalRetireRequest_validate ?p = Some (ex_key x)"
    using key by (simp add: JournalRetireRequest_validate_def model_text_def dict_get_def)
  have "retire_journal_route (aa_auth_lib app) (aa_auth app) ?rq (ex_key x) (ex_received x) s =
      (if status = ''operation_in_progress'' then Inl (HTTPException 409 status) else Inr [(''status'', JStr status)], ?s')"
    using auth ret by (simp add: retire_journal_route_def assms(2))
  then have "NodeApiClient_retire_journal_record http node credential (ex_key x) (ex_sent x) (ex_nonce x) s = (Inr [(''status'', JStr status)], ?s')"
    using json valid unfolding NodeApiClient_retire_journal_record_def NodeApiClient_request_def routed serve_retire_def
    by (cases "status = ''operation_in_progress''")
      (simp_all add: dict_get_def dict_value_def error_response_def read_response_def is_success_def dict_of_json_def)
  then show ?thesis using ret by (intro exI [of _ status] exI [of _ ?s']) simp
qed

theorem retirement_reaches_journal_witness:
  "\<exists>s'. NodeApiClient_retire_journal_record
      \<lparr>nw_lib = sample_lib, nw_dumps = (\<lambda>_. ''{}''),
       nw_send = (\<lambda>_. serve_agent (sample_app [(''idempotency_key'', JStr (ex_key sample_exchange))]) (\<lambda>_ s. (None, s)) ''t'' id id
         (ex_received sample_exchange) (seconds 62))\<rparr>
      sample_node sample_credential (ex_key sample_exchange) (ex_sent sample_exchange) (ex_nonce sample_exchange)
      \<lparr>ag_nonces = InMemoryNonceStore_init 30, ag_agent = (claimed_journal, [])\<rparr> = (Inr [(''status'', JStr ''operation_in_progress'')], s')"
proof -
  let ?p = "[(''idempotency_key'', JStr (ex_key sample_exchange))]"
  let ?http = "\<lparr>nw_lib = sample_lib, nw_dumps = (\<lambda>_. ''{}''), nw_send = (\<lambda>_. serve_agent (sample_app ?p) (\<lambda>_ s. (None, s)) ''t'' id id (ex_received sample_exchange) (seconds 62))\<rparr>"
  have "journal_retire_sync (ex_key sample_exchange) claimed_journal = (Inr ''operation_in_progress'', claimed_journal)" by code_simp
  then show ?thesis
    using retirement_reaches_journal [where app = "sample_app ?p" and http = ?http and node = sample_node and credential = sample_credential
        and x = sample_exchange and s = "\<lparr>ag_nonces = InMemoryNonceStore_init 30, ag_agent = (claimed_journal, [])\<rparr>" and tok = "''t''"
        and bc = id and br = id and later = "seconds 62" and other_methods = "\<lambda>_ s. (None, s)"]
      sample_can_talk claimed_journal(1)
    by (auto simp: sample_app_def)
qed

end
