(* ===== verification/Xui.thy ===== *)
theory Xui
  imports NodeClient
begin

text \<open>
  The client of the 3x-ui panel (\<^verbatim>\<open>infrastructure/xui.py\<close>), the panel adapter of the shop (\<^verbatim>\<open>infrastructure/panel/adapter.py\<close>) and the
  agent's runtime on such a panel (\<^verbatim>\<open>apps/node_agent/runtime.py\<close>). The panel is the parameter \<open>panel\<close>: it answers a call with a response
  or not at all, and has a state of its own. The JSON text inside an inbound, timestamps in texts and the floating-point conversion to
  milliseconds are parameters as well.
\<close>

section \<open>The panel client\<close>

datatype xui_call = XLogin string string | XAddClient int dict | XDelClient int string | XGetInbound int

type_synonym 'p panel = "xui_call \<Rightarrow> 'p \<Rightarrow> http_response option \<times> 'p"

record xui_lib =
  xl_repr :: "json \<Rightarrow> string"
  xl_loads :: "string \<Rightarrow> json option"
  xl_fromisoformat :: "string \<Rightarrow> parsed_time"
  xl_milliseconds :: "time \<Rightarrow> int"

record xui_settings =
  xs_base_url :: "string option"
  xs_username :: "string option"
  xs_password :: "string option"

record XuiClient =
  xc_username :: string
  xc_password :: string

definition XuiClient_init :: "xui_settings \<Rightarrow> XuiClient res" where
  "XuiClient_init cfg =
     (if or_else (xs_base_url cfg) [] = [] \<or> or_else (xs_username cfg) [] = [] \<or> or_else (xs_password cfg) [] = []
      then Inl (RuntimeError ''XUI credentials are not configured'')
      else Inr \<lparr>xc_username = or_else (xs_username cfg) [], xc_password = or_else (xs_password cfg) []\<rparr>)"

definition validated_body :: "xui_lib \<Rightarrow> http_response \<Rightarrow> dict res" where
  "validated_body lib response =
     (case hr_body response of
        JsonBody (JObj body) \<Rightarrow>
          if dict_value body ''success'' \<noteq> JBool True
          then Inl (RuntimeError (''XUI logical request failed: '' @ py_str (xl_repr lib)
                 (value_or (value_or (dict_value body ''msg'') (dict_value body ''message'')) (JStr ''XUI logical request failed''))))
          else Inr body
      | JsonBody _ \<Rightarrow> Inl (RuntimeError ''XUI returned a non-object application response'')
      | _ \<Rightarrow> Inl (RuntimeError ''XUI returned a non-JSON application response''))"

definition raise_for_status :: "http_response \<Rightarrow> unit res" where
  "raise_for_status response = ensure (is_success (hr_status response)) (GatewayError ''HTTP status error'')"

text \<open>One call to the panel: the transport may fail.\<close>

definition panel_call :: "'p panel \<Rightarrow> xui_call \<Rightarrow> 'p \<Rightarrow> http_response res \<times> 'p" where
  "panel_call panel call p = (case panel call p of (None, p') \<Rightarrow> (Inl (GatewayError ''panel request failed''), p') | (Some r, p') \<Rightarrow> (Inr r, p'))"

definition checked_call :: "xui_lib \<Rightarrow> 'p panel \<Rightarrow> xui_call \<Rightarrow> 'p \<Rightarrow> dict res \<times> 'p" where
  "checked_call lib panel call p =
     (case panel_call panel call p of
        (Inl e, p') \<Rightarrow> (Inl e, p')
      | (Inr r, p') \<Rightarrow> (bindE (raise_for_status r) (\<lambda>_. validated_body lib r), p'))"

definition XuiClient_login :: "xui_lib \<Rightarrow> 'p panel \<Rightarrow> XuiClient \<Rightarrow> 'p \<Rightarrow> dict res \<times> 'p" where
  "XuiClient_login lib panel client = checked_call lib panel (XLogin (xc_username client) (xc_password client))"

definition expiry_milliseconds :: "xui_lib \<Rightarrow> json \<Rightarrow> int res" where
  "expiry_milliseconds lib v =
     (case v of
        JStr s \<Rightarrow>
          (case xl_fromisoformat lib (replace_Z s) of
             BadTime \<Rightarrow> Inl (RuntimeError ''Invalid XUI client expiry timestamp'')
           | NaiveTime \<Rightarrow> Inl (RuntimeError ''XUI client expiry must be timezone-aware'')
           | AwareTime t \<Rightarrow> Inr (xl_milliseconds lib t))
      | JNull \<Rightarrow> Inr 0
      | _ \<Rightarrow> Inl (TypeError ''object has no attribute tzinfo''))"

definition XuiClient_add_client ::
  "xui_lib \<Rightarrow> 'p panel \<Rightarrow> XuiClient \<Rightarrow> int \<Rightarrow> string \<Rightarrow> string \<Rightarrow> json \<Rightarrow> json \<Rightarrow> 'p \<Rightarrow> unit res \<times> 'p" where
  "XuiClient_add_client lib panel client inbound_id client_uuid email flow expires_at p =
     (case expiry_milliseconds lib expires_at of
        Inl e \<Rightarrow> (Inl e, p)
      | Inr expiry_ms \<Rightarrow>
          (case XuiClient_login lib panel client p of
             (Inl e, p1) \<Rightarrow> (Inl e, p1)
           | (Inr _, p1) \<Rightarrow>
               (case checked_call lib panel
                       (XAddClient inbound_id [(''id'', JStr client_uuid), (''email'', JStr email), (''flow'', value_or flow (JStr [])),
                          (''expiryTime'', JInt expiry_ms)]) p1 of
                  (Inl e, p2) \<Rightarrow> (Inl e, p2)
                | (Inr _, p2) \<Rightarrow> (Inr (), p2))))"

definition configured_clients :: "xui_lib \<Rightarrow> dict \<Rightarrow> dict list res" where
  "configured_clients lib inbound =
     bindE (case dict_value inbound ''settings'' of
              JStr s \<Rightarrow> (case xl_loads lib s of None \<Rightarrow> Inl (RuntimeError ''XUI inbound settings is invalid JSON'') | Some v \<Rightarrow> Inr v)
            | v \<Rightarrow> Inr v) (\<lambda>settings.
     bindE (case settings of JNull \<Rightarrow> Inr [] | JObj d \<Rightarrow> Inr d | _ \<Rightarrow> Inl (RuntimeError ''XUI inbound settings is invalid'')) (\<lambda>settings.
     case value_or (dict_value settings ''clients'') (JList []) of
       JList items \<Rightarrow> mapE (\<lambda>item. case item of JObj d \<Rightarrow> Inr d | _ \<Rightarrow> Inl (RuntimeError ''XUI inbound clients is invalid'')) items
     | _ \<Rightarrow> Inl (RuntimeError ''XUI inbound clients is invalid'')))"

definition inbound_contains_uuid :: "xui_lib \<Rightarrow> dict \<Rightarrow> string \<Rightarrow> bool res" where
  "inbound_contains_uuid lib inbound client_uuid =
     bindE (configured_clients lib inbound) (\<lambda>clients.
     Inr (list_ex (\<lambda>c. py_str (xl_repr lib) (value_or (dict_value c ''id'') (JStr [])) = client_uuid) clients))"

definition get_inbound_with_client :: "xui_lib \<Rightarrow> 'p panel \<Rightarrow> int \<Rightarrow> 'p \<Rightarrow> dict res \<times> 'p" where
  "get_inbound_with_client lib panel inbound_id p =
     (case checked_call lib panel (XGetInbound inbound_id) p of
        (Inl e, p') \<Rightarrow> (Inl e, p')
      | (Inr body, p') \<Rightarrow>
          (case dict_value body ''obj'' of
             JObj inbound \<Rightarrow> (Inr inbound, p')
           | _ \<Rightarrow> (Inl (RuntimeError ''XUI inbound response is missing object payload''), p')))"

definition XuiClient_get_inbound :: "xui_lib \<Rightarrow> 'p panel \<Rightarrow> XuiClient \<Rightarrow> int \<Rightarrow> 'p \<Rightarrow> dict res \<times> 'p" where
  "XuiClient_get_inbound lib panel client inbound_id p =
     (case XuiClient_login lib panel client p of
        (Inl e, p1) \<Rightarrow> (Inl e, p1)
      | (Inr _, p1) \<Rightarrow> get_inbound_with_client lib panel inbound_id p1)"

text \<open>What the answer to a deletion means: the client is gone, it may already have been gone, or the deletion failed.\<close>

datatype deletion = Deleted | Ambiguous | DeletionFailed error

definition deletion_of :: "xui_lib \<Rightarrow> http_response \<Rightarrow> deletion" where
  "deletion_of lib response =
     (if hr_status response = 404 then Ambiguous
      else case raise_for_status response of
        Inl e \<Rightarrow> DeletionFailed e
      | Inr _ \<Rightarrow>
          (case validated_body lib response of
             Inr _ \<Rightarrow> Deleted
           | Inl e \<Rightarrow>
               (case e of
                  RuntimeError msg \<Rightarrow>
                    if list_ex (\<lambda>token. contains_str token (lower msg)) [''not found'', ''not exist'', ''does not exist''] then Ambiguous
                    else DeletionFailed e
                | _ \<Rightarrow> DeletionFailed e)))"

definition XuiClient_delete_client :: "xui_lib \<Rightarrow> 'p panel \<Rightarrow> XuiClient \<Rightarrow> int \<Rightarrow> string \<Rightarrow> 'p \<Rightarrow> bool res \<times> 'p" where
  "XuiClient_delete_client lib panel client inbound_id client_uuid p =
     (case XuiClient_login lib panel client p of
        (Inl e, p1) \<Rightarrow> (Inl e, p1)
      | (Inr _, p1) \<Rightarrow>
          (case panel_call panel (XDelClient inbound_id client_uuid) p1 of
             (Inl e, p2) \<Rightarrow> (Inl e, p2)
           | (Inr response, p2) \<Rightarrow>
               (case deletion_of lib response of
                  DeletionFailed e \<Rightarrow> (Inl e, p2)
                | Deleted \<Rightarrow> (Inr True, p2)
                | Ambiguous \<Rightarrow>
                    (case get_inbound_with_client lib panel inbound_id p2 of
                       (Inl e, p3) \<Rightarrow> (Inl e, p3)
                     | (Inr inbound, p3) \<Rightarrow> (bindE (inbound_contains_uuid lib inbound client_uuid) (\<lambda>present. Inr (\<not> present)), p3)))))"

section \<open>Metrics\<close>

definition nonnegative_int :: "json \<Rightarrow> int res" where
  "nonnegative_int v =
     bindE (case v of
              JNull \<Rightarrow> Inr 0
            | JBool b \<Rightarrow> Inr (if b then 1 else 0)
            | JInt i \<Rightarrow> Inr i
            | JStr s \<Rightarrow> if s = [] then Inr 0 else require (RuntimeError ''XUI traffic metric is invalid'') (py_int s)
            | JList xs \<Rightarrow> if xs = [] then Inr 0 else Inl (RuntimeError ''XUI traffic metric is invalid'')
            | JObj d \<Rightarrow> if d = [] then Inr 0 else Inl (RuntimeError ''XUI traffic metric is invalid'')) (\<lambda>result.
     bindE (ensure (\<not> result < 0) (RuntimeError ''XUI traffic metric cannot be negative'')) (\<lambda>_.
     Inr result))"

fun sum_traffic :: "json list \<Rightarrow> int \<Rightarrow> int \<Rightarrow> (int \<times> int) res" where
  "sum_traffic [] rx tx = Inr (rx, tx)"
| "sum_traffic (JObj stat # stats) rx tx =
     bindE (nonnegative_int (dict_value_default stat ''up'' (JInt 0))) (\<lambda>up.
     bindE (nonnegative_int (dict_value_default stat ''down'' (JInt 0))) (\<lambda>down.
     sum_traffic stats (rx + up) (tx + down)))"
| "sum_traffic (_ # stats) rx tx = Inl (RuntimeError ''XUI inbound clientStats entry is invalid'')"

definition inbound_metrics :: "xui_lib \<Rightarrow> dict \<Rightarrow> (int \<times> int \<times> int) res" where
  "inbound_metrics lib inbound =
     bindE (configured_clients lib inbound) (\<lambda>clients.
     let active_clients = int (length (filter (\<lambda>c. dict_value_default c ''enable'' (JBool True) \<noteq> JBool False) clients)) in
     case value_or (dict_value inbound ''clientStats'') (JList []) of
       JList stats \<Rightarrow> bindE (sum_traffic stats 0 0) (\<lambda>(rx, tx). Inr (active_clients, rx, tx))
     | _ \<Rightarrow> Inl (RuntimeError ''XUI inbound clientStats is invalid''))"

definition inbound_numeric_id :: "json \<Rightarrow> int res" where
  "inbound_numeric_id raw =
     bindE (case raw of
              JInt i \<Rightarrow> Inr i
            | JBool b \<Rightarrow> Inr (if b then 1 else 0)
            | JStr s \<Rightarrow> require (RuntimeError ''Inbound id must be numeric for XUI runtime'') (py_int s)
            | _ \<Rightarrow> Inl (RuntimeError ''Inbound id must be numeric for XUI runtime'')) (\<lambda>v.
     bindE (ensure (\<not> v \<le> 0) (RuntimeError ''XUI inbound id must be positive'')) (\<lambda>_. Inr v))"

section \<open>The shop's panel adapter\<close>

definition payload_value :: "dict \<Rightarrow> string \<Rightarrow> json res" where
  "payload_value d k = (case dict_get d k of None \<Rightarrow> Inl (KeyError k) | Some v \<Rightarrow> Inr v)"

definition payload_text :: "xui_lib \<Rightarrow> dict \<Rightarrow> string \<Rightarrow> string res" where
  "payload_text lib d k = bindE (payload_value d k) (\<lambda>v. Inr (py_str (xl_repr lib) v))"

definition XuiPanelAdapter_provision :: "xui_lib \<Rightarrow> xui_settings \<Rightarrow> 'p panel \<Rightarrow> dict \<Rightarrow> 'p \<Rightarrow> unit res \<times> 'p" where
  "XuiPanelAdapter_provision lib cfg panel payload p =
     (case bindE (XuiClient_init cfg) (\<lambda>client.
           bindE (bindE (payload_value payload ''xui_inbound_id'') inbound_numeric_id) (\<lambda>inbound_id.
           bindE (payload_text lib payload ''client_uuid'') (\<lambda>client_uuid.
           bindE (payload_text lib payload ''display_name'') (\<lambda>email.
           Inr (client, inbound_id, client_uuid, email))))) of
        Inl e \<Rightarrow> (Inl e, p)
      | Inr (client, inbound_id, client_uuid, email) \<Rightarrow>
          XuiClient_add_client lib panel client inbound_id client_uuid email (dict_value payload ''flow'') (dict_value payload ''expires_at'') p)"

definition verified_deletion :: "bool res \<times> 'p \<Rightarrow> unit res \<times> 'p" where
  "verified_deletion d = (bindE (fst d) (\<lambda>deleted. ensure deleted (RuntimeError ''XUI client deletion could not be verified'')), snd d)"

definition XuiPanelAdapter_revoke :: "xui_lib \<Rightarrow> xui_settings \<Rightarrow> 'p panel \<Rightarrow> dict \<Rightarrow> 'p \<Rightarrow> unit res \<times> 'p" where
  "XuiPanelAdapter_revoke lib cfg panel payload p =
     (case bindE (XuiClient_init cfg) (\<lambda>client.
           bindE (bindE (payload_value payload ''xui_inbound_id'') inbound_numeric_id) (\<lambda>inbound_id.
           bindE (payload_text lib payload ''client_uuid'') (\<lambda>client_uuid.
           Inr (client, inbound_id, client_uuid)))) of
        Inl e \<Rightarrow> (Inl e, p)
      | Inr (client, inbound_id, client_uuid) \<Rightarrow> verified_deletion (XuiClient_delete_client lib panel client inbound_id client_uuid p))"

section \<open>The agent's runtime on a panel\<close>

definition validate_xui_inbound :: "xui_lib \<Rightarrow> json \<Rightarrow> int res" where
  "validate_xui_inbound lib v =
     (case py_int (py_str (xl_repr lib) v) of
        None \<Rightarrow> Inl (ValueError ''inbound_id must be a positive integer for XUI runtime'')
      | Some i \<Rightarrow> if i \<le> 0 then Inl (ValueError ''inbound_id must be a positive integer for XUI runtime'') else Inr i)"

definition XuiNodeRuntime_provision_client ::
  "xui_lib \<Rightarrow> (time \<Rightarrow> string) \<Rightarrow> xui_settings \<Rightarrow> 'p panel \<Rightarrow> dict \<Rightarrow> time \<Rightarrow> 'p \<Rightarrow> dict res \<times> 'p" where
  "XuiNodeRuntime_provision_client lib iso_text cfg panel payload now p =
     (case bindE (validate_xui_inbound lib (dict_value payload ''inbound_id'')) (\<lambda>inbound_id.
           bindE (XuiClient_init cfg) (\<lambda>client.
           bindE (payload_text lib payload ''client_uuid'') (\<lambda>client_uuid.
           bindE (payload_text lib payload ''display_name'') (\<lambda>email.
           Inr (client, inbound_id, client_uuid, email))))) of
        Inl e \<Rightarrow> (Inl e, p)
      | Inr (client, inbound_id, client_uuid, email) \<Rightarrow>
          (case XuiClient_add_client lib panel client inbound_id client_uuid email (dict_value payload ''flow'') (dict_value payload ''expires_at'') p of
             (Inl e, p') \<Rightarrow> (Inl e, p')
           | (Inr _, p') \<Rightarrow>
               (Inr [(''status'', JStr ''provisioned''), (''client_uuid'', JStr client_uuid), (''remote_client_ref'', JStr email),
                     (''applied_at'', JStr (iso_text now))], p')))"

definition XuiNodeRuntime_revoke_client ::
  "xui_lib \<Rightarrow> (time \<Rightarrow> string) \<Rightarrow> xui_settings \<Rightarrow> 'p panel \<Rightarrow> dict \<Rightarrow> time \<Rightarrow> 'p \<Rightarrow> dict res \<times> 'p" where
  "XuiNodeRuntime_revoke_client lib iso_text cfg panel payload now p =
     (case bindE (validate_xui_inbound lib (dict_value payload ''inbound_id'')) (\<lambda>inbound_id.
           bindE (XuiClient_init cfg) (\<lambda>client.
           bindE (payload_text lib payload ''client_uuid'') (\<lambda>client_uuid.
           Inr (client, inbound_id, client_uuid)))) of
        Inl e \<Rightarrow> (Inl e, p)
      | Inr (client, inbound_id, client_uuid) \<Rightarrow>
          (case verified_deletion (XuiClient_delete_client lib panel client inbound_id client_uuid p) of
             (Inl e, p') \<Rightarrow> (Inl e, p')
           | (Inr _, p') \<Rightarrow> (Inr [(''status'', JStr ''revoked''), (''client_uuid'', JStr client_uuid), (''applied_at'', JStr (iso_text now))], p')))"

definition xui_runtime :: "xui_lib \<Rightarrow> (time \<Rightarrow> string) \<Rightarrow> xui_settings \<Rightarrow> 'p panel \<Rightarrow> 'p runtime" where
  "xui_runtime lib iso_text cfg panel =
     \<lparr>rt_provision = XuiNodeRuntime_provision_client lib iso_text cfg panel, rt_revoke = XuiNodeRuntime_revoke_client lib iso_text cfg panel\<rparr>"

section \<open>Lemmas\<close>

text \<open>
  What the panel's documentation promises: a deletion it confirms removes the client, and an inbound it returns lists the clients it serves.
\<close>

definition honest_panel :: "xui_lib \<Rightarrow> 'p panel \<Rightarrow> ('p \<Rightarrow> int \<Rightarrow> string set) \<Rightarrow> bool" where
  "honest_panel lib panel clients \<longleftrightarrow>
     (\<forall>i u p r p'. panel (XDelClient i u) p = (Some r, p') \<and> is_success (hr_status r) \<and> (\<exists>body. validated_body lib r = Inr body) \<longrightarrow> u \<notin> clients p' i) \<and>
     (\<forall>i p r p' body inbound cs. panel (XGetInbound i) p = (Some r, p') \<and> validated_body lib r = Inr body \<and> dict_value body ''obj'' = JObj inbound \<and>
        configured_clients lib inbound = Inr cs \<longrightarrow>
        clients p' i \<subseteq> set (map (\<lambda>c. py_str (xl_repr lib) (value_or (dict_value c ''id'') (JStr []))) cs))"

lemma listed_inbound:
  assumes "honest_panel lib panel clients" and "get_inbound_with_client lib panel i p = (Inr inbound, p')"
    and "inbound_contains_uuid lib inbound u = Inr False"
  shows "u \<notin> clients p' i"
proof -
  obtain body where "checked_call lib panel (XGetInbound i) p = (Inr body, p')" and obj: "dict_value body ''obj'' = JObj inbound"
    using assms(2) by (auto simp: get_inbound_with_client_def split: prod.splits sum.splits json.splits)
  then obtain r where r: "panel (XGetInbound i) p = (Some r, p')" "validated_body lib r = Inr body"
    by (auto simp: checked_call_def panel_call_def bindE_eq_Inr split: prod.splits sum.splits option.splits)
  obtain cs where cs: "configured_clients lib inbound = Inr cs"
      "\<not> list_ex (\<lambda>c. py_str (xl_repr lib) (value_or (dict_value c ''id'') (JStr [])) = u) cs"
    using assms(3) by (auto simp: inbound_contains_uuid_def bindE_eq_Inr)
  have "clients p' i \<subseteq> set (map (\<lambda>c. py_str (xl_repr lib) (value_or (dict_value c ''id'') (JStr []))) cs)"
    using assms(1) r obj cs(1) unfolding honest_panel_def by blast
  then show ?thesis using cs(2) by (auto simp: list_ex_iff)
qed

lemma deleted_response: "deletion_of lib r = Deleted \<Longrightarrow> is_success (hr_status r) \<and> (\<exists>body. validated_body lib r = Inr body)"
  by (auto simp: deletion_of_def raise_for_status_def ensure_def split: if_splits sum.splits error.splits)

lemma delete_client_gone:
  assumes "honest_panel lib panel clients" and "XuiClient_delete_client lib panel client i u p = (Inr True, p')"
  shows "u \<notin> clients p' i"
proof -
  obtain l p1 where 1: "XuiClient_login lib panel client p = (Inr l, p1)"
    using assms(2) by (auto simp: XuiClient_delete_client_def split: prod.splits sum.splits)
  obtain r p2 where 2: "panel_call panel (XDelClient i u) p1 = (Inr r, p2)"
    using assms(2) 1 by (auto simp: XuiClient_delete_client_def split: prod.splits sum.splits)
  then have del: "panel (XDelClient i u) p1 = (Some r, p2)" by (auto simp: panel_call_def split: prod.splits option.splits)
  show ?thesis
  proof (cases "deletion_of lib r")
    case Deleted
    then have "p' = p2" using assms(2) 1 2 by (simp add: XuiClient_delete_client_def)
    then show ?thesis using assms(1) del deleted_response [OF Deleted] unfolding honest_panel_def by blast
  next
    case Ambiguous
    then obtain inbound where "get_inbound_with_client lib panel i p2 = (Inr inbound, p')" "inbound_contains_uuid lib inbound u = Inr False"
      using assms(2) 1 2 by (auto simp: XuiClient_delete_client_def bindE_eq_Inr split: prod.splits sum.splits)
    then show ?thesis by (rule listed_inbound [OF assms(1)])
  next
    case (DeletionFailed e)
    then show ?thesis using assms(2) 1 2 by (simp add: XuiClient_delete_client_def)
  qed
qed

lemma verified_deletionD: "verified_deletion d = (Inr x, p') \<Longrightarrow> d = (Inr True, p')"
  by (cases d) (auto simp: verified_deletion_def bindE_eq_Inr)

section \<open>Properties\<close>

text \<open>C28. A revocation on a panel is reported only when the client is gone. If the panel's deletions and listings are honest, then after the shop's
  panel adapter has revoked a client without an error, or the agent's runtime has answered \<^verbatim>\<open>revoked\<close>, the panel no longer serves that client on that
  inbound; a deletion the panel calls unknown counts only after the inbound was read and does not list the client.\<close>

theorem panel_revocation_is_verified:
  assumes "honest_panel lib panel clients" and "payload_text lib payload ''client_uuid'' = Inr u"
  shows "(bindE (payload_value payload ''xui_inbound_id'') inbound_numeric_id = Inr i \<and> XuiPanelAdapter_revoke lib cfg panel payload p = (Inr x, p') \<longrightarrow>
            u \<notin> clients p' i) \<and>
         (validate_xui_inbound lib (dict_value payload ''inbound_id'') = Inr i \<and>
            XuiNodeRuntime_revoke_client lib iso_text cfg panel payload now p = (Inr d, p') \<longrightarrow> u \<notin> clients p' i)"
proof (intro conjI impI)
  assume run: "bindE (payload_value payload ''xui_inbound_id'') inbound_numeric_id = Inr i \<and> XuiPanelAdapter_revoke lib cfg panel payload p = (Inr x, p')"
  then obtain client where "verified_deletion (XuiClient_delete_client lib panel client i u p) = (Inr x, p')"
    using assms(2) by (cases "XuiClient_init cfg") (auto simp: XuiPanelAdapter_revoke_def)
  then show "u \<notin> clients p' i" by (rule delete_client_gone [OF assms(1) verified_deletionD])
next
  assume run: "validate_xui_inbound lib (dict_value payload ''inbound_id'') = Inr i \<and>
      XuiNodeRuntime_revoke_client lib iso_text cfg panel payload now p = (Inr d, p')"
  then obtain client y where "verified_deletion (XuiClient_delete_client lib panel client i u p) = (Inr y, p')"
    using assms(2) by (cases "XuiClient_init cfg") (auto simp: XuiNodeRuntime_revoke_client_def split: prod.splits sum.splits)
  then show "u \<notin> clients p' i" by (rule delete_client_gone [OF assms(1) verified_deletionD])
qed

text \<open>A small panel for the example: it serves a list of clients on every inbound.\<close>

fun small_panel :: "string list panel" where
  "small_panel (XLogin user password) us = (Some \<lparr>hr_status = 200, hr_body = JsonBody (JObj [(''success'', JBool True)])\<rparr>, us)"
| "small_panel (XAddClient i c) us =
     (Some \<lparr>hr_status = 200, hr_body = JsonBody (JObj [(''success'', JBool True)])\<rparr>, us @ [case dict_value c ''id'' of JStr u \<Rightarrow> u | _ \<Rightarrow> []])"
| "small_panel (XDelClient i u) us =
     (if u \<in> set us then (Some \<lparr>hr_status = 200, hr_body = JsonBody (JObj [(''success'', JBool True)])\<rparr>, filter (\<lambda>x. x \<noteq> u) us)
      else (Some \<lparr>hr_status = 404, hr_body = NoBody\<rparr>, us))"
| "small_panel (XGetInbound i) us =
     (Some \<lparr>hr_status = 200, hr_body = JsonBody (JObj [(''success'', JBool True),
        (''obj'', JObj [(''settings'', JObj [(''clients'', JList (map (\<lambda>u. JObj [(''id'', JStr u)]) us))])])])\<rparr>, us)"

definition small_lib :: xui_lib where
  "small_lib = \<lparr>xl_repr = (\<lambda>_. []), xl_loads = (\<lambda>_. None), xl_fromisoformat = (\<lambda>_. BadTime), xl_milliseconds = (\<lambda>t. t div 1000)\<rparr>"

lemma small_panel_honest: "honest_panel small_lib small_panel (\<lambda>us i. set us)"
proof -
  have ids: "mapE (\<lambda>item. case item of JObj d \<Rightarrow> Inr d | _ \<Rightarrow> Inl (RuntimeError ''XUI inbound clients is invalid'')) (map (\<lambda>u. JObj [(''id'', JStr u)]) us) =
      Inr (map (\<lambda>u. [(''id'', JStr u)]) us)" for us
    by (induction us) simp_all
  have listed: "configured_clients small_lib [(''settings'', JObj [(''clients'', JList (map (\<lambda>u. JObj [(''id'', JStr u)]) us))])] =
      Inr (map (\<lambda>u. [(''id'', JStr u)]) us)" for us
    using ids by (simp add: configured_clients_def dict_value_def dict_get_def value_or_def)
  have id_text: "py_str f (value_or (dict_value [(''id'', JStr u)] ''id'') (JStr [])) = u" for f u
    by (simp add: dict_value_def dict_get_def value_or_def)
  show ?thesis
    unfolding honest_panel_def
  proof (intro conjI allI impI; elim conjE exE)
    fix i u p r p' body
    assume "small_panel (XDelClient i u) p = (Some r, p')" "is_success (hr_status r)"
    then show "u \<notin> set p'" by (auto simp: is_success_def split: if_splits)
  next
    fix i p r p' body inbound cs
    assume "small_panel (XGetInbound i) p = (Some r, p')" "validated_body small_lib r = Inr body" "dict_value body ''obj'' = JObj inbound"
      and cs: "configured_clients small_lib inbound = Inr cs"
    then have "p' = p" "inbound = [(''settings'', JObj [(''clients'', JList (map (\<lambda>u. JObj [(''id'', JStr u)]) p))])]"
      by (auto simp: validated_body_def dict_value_def dict_get_def)
    then show "set p' \<subseteq> set (map (\<lambda>c. py_str (xl_repr small_lib) (value_or (dict_value c ''id'') (JStr []))) cs)"
      using cs listed by (auto simp: id_text image_image)
  qed
qed

theorem panel_revocation_is_verified_witness:
  "\<exists>p'. XuiPanelAdapter_revoke small_lib \<lparr>xs_base_url = Some ''u'', xs_username = Some ''a'', xs_password = Some ''b''\<rparr> small_panel
     [(''client_uuid'', JStr ''c''), (''xui_inbound_id'', JInt 1)] [''c'', ''d''] = (Inr (), p') \<and> ''c'' \<notin> set p'"
proof -
  let ?cfg = "\<lparr>xs_base_url = Some ''u'', xs_username = Some ''a'', xs_password = Some ''b''\<rparr>"
  let ?payload = "[(''client_uuid'', JStr ''c''), (''xui_inbound_id'', JInt 1)]"
  have "fst (XuiPanelAdapter_revoke small_lib ?cfg small_panel ?payload [''c'', ''d'']) = Inr ()" by code_simp
  then obtain p' where run: "XuiPanelAdapter_revoke small_lib ?cfg small_panel ?payload [''c'', ''d''] = (Inr (), p')" by (metis prod.collapse)
  have "payload_text small_lib ?payload ''client_uuid'' = Inr ''c''" "bindE (payload_value ?payload ''xui_inbound_id'') inbound_numeric_id = Inr 1"
    by code_simp+
  then show ?thesis using run panel_revocation_is_verified [OF small_panel_honest, of ?payload "''c''" 1 ?cfg "[''c'', ''d'']" "()" p'] by auto
qed

end
