(* ===== verification/Adapters.thy ===== *)
theory Adapters
  imports NodeClient Money CreatePay
begin

text \<open>
  The payment providers (\<^verbatim>\<open>infrastructure/payments\<close>): for each adapter the creation of a payment and the verification of a webhook, and the
  registry that finds an adapter. The providers' HTTP interfaces, JSON texts, hashes, URL encoding and timestamps are parameters, collected
  in one record. JSON numbers with a fraction are not part of the model's JSON values; amounts given as texts and integers are.
\<close>

section \<open>Library functions and settings\<close>

record pay_lib =
  pl_repr :: "json \<Rightarrow> string"
  pl_loads :: "string \<Rightarrow> json option"
  pl_dumps :: "dict \<Rightarrow> string"
  pl_sha256 :: "string \<Rightarrow> string"
  pl_hmac :: "string \<Rightarrow> string \<Rightarrow> string"
  pl_md5 :: "string \<Rightarrow> string"
  pl_b64 :: "string \<Rightarrow> string"
  pl_urlencode :: "(string \<times> string) list \<Rightarrow> string"
  pl_fromisoformat :: "string \<Rightarrow> time option"
  pl_post :: "string \<Rightarrow> headers \<Rightarrow> dict \<Rightarrow> json option"
  pl_get :: "string \<Rightarrow> headers \<Rightarrow> json option"

record pay_settings =
  pg_production :: bool
  pg_dummy_base_url :: string
  pg_return_url :: string
  pg_ton_wallet :: "string option"
  pg_heleket_key :: "string option"
  pg_heleket_base_url :: "string option"
  pg_cryptobot_token :: "string option"
  pg_cryptobot_base_url :: string
  pg_yookassa_shop_id :: "string option"
  pg_yookassa_secret :: "string option"

definition configured :: "string option \<Rightarrow> bool" where
  "configured s \<longleftrightarrow> or_else s [] \<noteq> []"

section \<open>Values in webhooks\<close>

text \<open>\<^verbatim>\<open>Decimal(text)\<close>, with its special values.\<close>

datatype parsed_decimal = NotDecimal | DecimalNaN bool | DecimalInfinite | Finite decimal

definition all_digits :: "string \<Rightarrow> bool" where
  "all_digits s = list_all (\<lambda>c. 48 \<le> (of_char c :: nat) \<and> (of_char c :: nat) \<le> 57) s"

definition digits_value :: "string \<Rightarrow> nat" where
  "digits_value s = fold (\<lambda>c n. n * 10 + ((of_char c :: nat) - 48)) s 0"

definition split_at :: "char \<Rightarrow> string \<Rightarrow> string \<times> string option" where
  "split_at c s = (takeWhile (\<lambda>x. x \<noteq> c) s, case dropWhile (\<lambda>x. x \<noteq> c) s of [] \<Rightarrow> None | _ # rest \<Rightarrow> Some rest)"

definition split_sign :: "string \<Rightarrow> int \<times> string" where
  "split_sign s = (case s of [] \<Rightarrow> (1, []) | c # cs \<Rightarrow> if c = CHR ''-'' then (-1, cs) else if c = CHR ''+'' then (1, cs) else (1, s))"

definition parse_exponent :: "string option \<Rightarrow> int option" where
  "parse_exponent text =
     (case text of
        None \<Rightarrow> Some 0
      | Some t \<Rightarrow> let (sign, ds) = split_sign t in if ds \<noteq> [] \<and> all_digits ds then Some (sign * int (digits_value ds)) else None)"

definition py_decimal :: "string \<Rightarrow> parsed_decimal" where
  "py_decimal raw =
     (let (sign, body) = split_sign (filter (\<lambda>c. c \<noteq> CHR ''_'') (strip raw));
          low = lower body in
      if low \<in> {''inf'', ''infinity''} then DecimalInfinite
      else if starts_with ''nan'' low \<and> all_digits (drop 3 low) then DecimalNaN False
      else if starts_with ''snan'' low \<and> all_digits (drop 4 low) then DecimalNaN True
      else
        (let (mantissa, e) = split_at (CHR ''e'') low;
             (whole, fraction) = split_at (CHR ''.'') mantissa;
             fraction = (case fraction of None \<Rightarrow> [] | Some f \<Rightarrow> f) in
         case parse_exponent e of
           None \<Rightarrow> NotDecimal
         | Some x \<Rightarrow>
             if all_digits whole \<and> all_digits fraction \<and> whole @ fraction \<noteq> []
             then Finite (Decimal (sign * int (digits_value (whole @ fraction))) (x - int (length fraction)))
             else NotDecimal))"

text \<open>The integer a finite decimal denotes, if it denotes one.\<close>

definition decimal_integral :: "decimal \<Rightarrow> int option" where
  "decimal_integral d =
     (if 0 \<le> exponent d then Some (coeff d * 10 ^ nat (exponent d))
      else let m = 10 ^ nat (- exponent d) in if m dvd coeff d then Some (coeff d div m) else None)"

definition round_half_even :: "int \<Rightarrow> int \<Rightarrow> int" where
  "round_half_even c m =
     (let q = \<bar>c\<bar> div m; r = \<bar>c\<bar> mod m in sgn c * (if 2 * r < m \<or> 2 * r = m \<and> even q then q else q + 1))"

text \<open>\<^verbatim>\<open>Decimal(...) * Decimal("100")\<close> in the default context of 28 digits.\<close>

definition decimal_times_100 :: "decimal \<Rightarrow> decimal" where
  "decimal_times_100 d =
     (let c = coeff d * 100; k = length (show_nat (nat \<bar>c\<bar>)) - 28 in Decimal (round_half_even c (10 ^ k)) (exponent d + int k))"

definition is_blank_value :: "json \<Rightarrow> bool" where
  "is_blank_value v \<longleftrightarrow> v = JNull \<or> v = JStr []"

definition exact_minor :: "pay_lib \<Rightarrow> string \<Rightarrow> json \<Rightarrow> int option res" where
  "exact_minor lib invalid v =
     (if is_blank_value v then Inr None
      else case py_decimal (py_str (pl_repr lib) v) of
        NotDecimal \<Rightarrow> Inl (WebhookPayloadError invalid)
      | DecimalNaN signaling \<Rightarrow> if signaling then Inl (ArithmeticError ''InvalidOperation'') else Inr None
      | DecimalInfinite \<Rightarrow> Inl (ArithmeticError ''OverflowError'')
      | Finite d \<Rightarrow> Inr (decimal_integral d))"

definition money_to_minor :: "pay_lib \<Rightarrow> json \<Rightarrow> int option res" where
  "money_to_minor lib v =
     (if is_blank_value v then Inr None
      else case py_decimal (py_str (pl_repr lib) v) of
        NotDecimal \<Rightarrow> Inl (WebhookPayloadError ''YooKassa amount is invalid'')
      | DecimalNaN signaling \<Rightarrow>
          Inl (WebhookPayloadError (if signaling then ''YooKassa amount is invalid'' else ''YooKassa amount has unsupported precision''))
      | DecimalInfinite \<Rightarrow> Inl (ArithmeticError ''OverflowError'')
      | Finite d \<Rightarrow>
          (case decimal_integral (decimal_times_100 d) of
             None \<Rightarrow> Inl (WebhookPayloadError ''YooKassa amount has unsupported precision'')
           | Some i \<Rightarrow> Inr (Some i)))"

definition text_int :: "pay_lib \<Rightarrow> string \<Rightarrow> json \<Rightarrow> int option res" where
  "text_int lib invalid v =
     (if is_blank_value v then Inr None
      else case py_int (py_str (pl_repr lib) v) of None \<Rightarrow> Inl (WebhookPayloadError invalid) | Some i \<Rightarrow> Inr (Some i))"

text \<open>\<^verbatim>\<open>int(value)\<close> of a decoded JSON value.\<close>

definition json_int :: "json \<Rightarrow> int option" where
  "json_int v = (case v of JInt i \<Rightarrow> Some i | JBool b \<Rightarrow> Some (if b then 1 else 0) | JStr s \<Rightarrow> py_int s | _ \<Rightarrow> None)"

definition optional_currency :: "pay_lib \<Rightarrow> json \<Rightarrow> string option" where
  "optional_currency lib v =
     (if v = JNull then None
      else let normalized = upper (strip (py_str (pl_repr lib) v)) in if normalized = [] then None else Some normalized)"

definition optional_text :: "pay_lib \<Rightarrow> json \<Rightarrow> string option" where
  "optional_text lib v = (if v = JNull then None else Some (py_str (pl_repr lib) v))"

definition parse_object :: "pay_lib \<Rightarrow> string \<Rightarrow> string \<Rightarrow> dict res" where
  "parse_object lib invalid raw_body =
     (case pl_loads lib raw_body of Some (JObj d) \<Rightarrow> Inr d | _ \<Rightarrow> Inl (WebhookPayloadError invalid))"

text \<open>\<^verbatim>\<open>d.get(a) or d.get(b) or ...\<close>\<close>

fun first_truthy :: "json list \<Rightarrow> json" where
  "first_truthy [] = JNull"
| "first_truthy [v] = v"
| "first_truthy (v # vs) = (if truthy v then v else first_truthy vs)"

section \<open>Dummy\<close>

definition order_text :: "pay_lib \<Rightarrow> dict \<Rightarrow> string \<Rightarrow> string" where
  "order_text lib order k = py_str (pl_repr lib) (dict_value order k)"

definition DummyPaymentAdapter_create_payment :: "pay_lib \<Rightarrow> pay_settings \<Rightarrow> uuid \<Rightarrow> string \<Rightarrow> dict \<Rightarrow> PaymentIntent res" where
  "DummyPaymentAdapter_create_payment lib cfg fresh return_url order =
     (let provider_payment_id = ''dummy-'' @ order_text lib order ''payment_order_id'' @ ''-'' @ take 8 fresh in
      Inr \<lparr>pi_provider = ''dummy'', pi_provider_payment_id = provider_payment_id, pi_status = ''pending'',
           pi_payment_url = Some (rstrip_slash (pg_dummy_base_url cfg) @ ''/sandbox/payments/'' @ order_text lib order ''payment_order_id'' @
             ''?provider_payment_id='' @ provider_payment_id),
           pi_payload = [(''return_url'', JStr return_url)]\<rparr>)"

definition dummy_optional_int :: "json \<Rightarrow> int option res" where
  "dummy_optional_int v =
     (if is_blank_value v then Inr None
      else case json_int v of None \<Rightarrow> Inl (WebhookPayloadError ''Dummy amount is invalid'') | Some i \<Rightarrow> Inr (Some i))"

definition DummyPaymentAdapter_verify :: "pay_lib \<Rightarrow> pay_settings \<Rightarrow> time \<Rightarrow> string \<Rightarrow> headers \<Rightarrow> NormalizedWebhookEvent res" where
  "DummyPaymentAdapter_verify lib cfg now raw_body headers =
     bindE (ensure (\<not> pg_production cfg) (WebhookAuthenticationError ''Dummy payment webhooks are disabled in production'')) (\<lambda>_.
     bindE (parse_object lib ''Dummy webhook payload is invalid'' raw_body) (\<lambda>payload.
     bindE (case dict_get payload ''payment_order_id'' of
              None \<Rightarrow> Inl (WebhookPayloadError ''Dummy payment order id is invalid'')
            | Some v \<Rightarrow> require (WebhookPayloadError ''Dummy payment order id is invalid'') (json_int v)) (\<lambda>payment_order_id.
     let text = py_str (pl_repr lib);
         status = lower (text (dict_value_default payload ''status'' (JStr ''paid'')));
         provider_payment_id = dict_value payload ''provider_payment_id'' in
     bindE (dummy_optional_int (dict_value payload ''amount_minor'')) (\<lambda>amount_minor.
     Inr \<lparr>ne_provider = ''dummy'',
          ne_event_key = text (value_or (dict_value payload ''event_key'') (JStr (''dummy:'' @ show_int payment_order_id @ '':'' @ status))),
          ne_event_type = text (dict_value_default payload ''event_type'' (JStr (''dummy.'' @ status))),
          ne_status = Some (if status = ''paid'' then PS_PAID else PS_PENDING), ne_occurred_at = now,
          ne_provider_payment_id = (if is_blank_value provider_payment_id then None else Some (text provider_payment_id)),
          ne_payment_order_id = Some payment_order_id, ne_amount_minor = amount_minor,
          ne_currency = optional_currency lib (dict_value payload ''currency''), ne_payload = payload\<rparr>))))"

section \<open>TON\<close>

definition TonAdapter_create_payment :: "pay_lib \<Rightarrow> pay_settings \<Rightarrow> uuid \<Rightarrow> string \<Rightarrow> dict \<Rightarrow> PaymentIntent res" where
  "TonAdapter_create_payment lib cfg fresh return_url order =
     bindE (ensure (configured (pg_ton_wallet cfg)) (RuntimeError ''TON wallet address is not configured'')) (\<lambda>_.
     let wallet = or_else (pg_ton_wallet cfg) [];
         query = pl_urlencode lib [(''amount'', order_text lib order ''amount_minor''), (''text'', ''order:'' @ order_text lib order ''payment_order_id''),
                   (''bin'', return_url)] in
     Inr \<lparr>pi_provider = ''ton'', pi_provider_payment_id = ''ton-'' @ order_text lib order ''payment_order_id'' @ ''-'' @ take 8 fresh,
          pi_status = ''pending'', pi_payment_url = Some (''ton://transfer/'' @ wallet @ ''?'' @ query), pi_payload = [(''wallet'', JStr wallet)]\<rparr>)"

definition TonAdapter_verify :: "string \<Rightarrow> headers \<Rightarrow> NormalizedWebhookEvent res" where
  "TonAdapter_verify raw_body headers =
     Inl (WebhookAuthenticationError ''TON webhook authenticity cannot be established with the configured contract'')"

section \<open>Heleket and CryptoBot\<close>

text \<open>What both read from the provider's answer to a new invoice; \<^verbatim>\<open>.get\<close> on anything but an object raises.\<close>

definition invoice_intent :: "pay_lib \<Rightarrow> string \<Rightarrow> uuid \<Rightarrow> string \<Rightarrow> string \<Rightarrow> json option \<Rightarrow> PaymentIntent res" where
  "invoice_intent lib provider fresh url_field other_url_field answer =
     bindE (require (GatewayError ''provider request failed'') answer) (\<lambda>body.
     bindE (case body of JObj d \<Rightarrow> Inr d | _ \<Rightarrow> Inl (TypeError ''object has no attribute get'')) (\<lambda>body.
     bindE (case dict_value_default body ''result'' (JObj body) of JObj d \<Rightarrow> Inr d | _ \<Rightarrow> Inl (TypeError ''object has no attribute get'')) (\<lambda>invoice.
     let url = first_truthy [dict_value invoice url_field, dict_value invoice other_url_field] in
     Inr \<lparr>pi_provider = provider,
          pi_provider_payment_id = py_str (pl_repr lib) (first_truthy [dict_value invoice ''invoice_id'', dict_value invoice ''id'', JStr fresh]),
          pi_status = py_str (pl_repr lib) (dict_value_default invoice ''status'' (JStr ''pending'')),
          pi_payment_url = optional_text lib url, pi_payload = body\<rparr>)))"

definition HeleketAdapter_create_payment :: "pay_lib \<Rightarrow> pay_settings \<Rightarrow> uuid \<Rightarrow> string \<Rightarrow> dict \<Rightarrow> PaymentIntent res" where
  "HeleketAdapter_create_payment lib cfg fresh return_url order =
     bindE (ensure (configured (pg_heleket_key cfg) \<and> configured (pg_heleket_base_url cfg)) (RuntimeError ''Heleket credentials are not configured'')) (\<lambda>_.
     bindE (require (TypeError ''order id'') (json_int (dict_value order ''payment_order_id''))) (\<lambda>order_id.
     invoice_intent lib ''heleket'' fresh ''payment_url'' ''checkout_url''
       (pl_post lib (rstrip_slash (or_else (pg_heleket_base_url cfg) []) @ ''/invoice'') [(''Authorization'', ''Bearer '' @ or_else (pg_heleket_key cfg) [])]
          [(''amount'', dict_value order ''amount_minor''), (''currency'', dict_value order ''currency''), (''order_id'', JInt order_id),
           (''callback_url'', JStr return_url)])))"

definition escape_slashes :: "string \<Rightarrow> string" where
  "escape_slashes s = concat (map (\<lambda>c. if c = CHR ''/'' then [CHR 0x5C, CHR ''/''] else [c]) s)"

definition heleket_signature :: "pay_lib \<Rightarrow> string \<Rightarrow> dict \<Rightarrow> string" where
  "heleket_signature lib api_key payload =
     pl_md5 lib (pl_b64 lib (escape_slashes (pl_dumps lib (filter (\<lambda>(k, _). k \<noteq> ''sign'') payload))) @ api_key)"

definition heleket_status :: "string \<Rightarrow> PaymentStatus" where
  "heleket_status v =
     (if v \<in> {''paid'', ''success'', ''completed''} then PS_PAID
      else if v \<in> {''failed'', ''fail''} then PS_FAILED
      else if v = ''expired'' then PS_EXPIRED
      else if v \<in> {''cancelled'', ''canceled''} then PS_CANCELLED
      else PS_PENDING)"

definition HeleketAdapter_verify :: "pay_lib \<Rightarrow> pay_settings \<Rightarrow> time \<Rightarrow> string \<Rightarrow> headers \<Rightarrow> NormalizedWebhookEvent res" where
  "HeleketAdapter_verify lib cfg now raw_body headers =
     bindE (parse_object lib ''Heleket webhook payload is invalid'' raw_body) (\<lambda>payload.
     bindE (case dict_value payload ''sign'' of
              JStr sign \<Rightarrow>
                if \<not> configured (pg_heleket_key cfg) \<or> strip sign = [] then Inl (WebhookAuthenticationError ''Heleket webhook authentication failed'')
                else Inr sign
            | _ \<Rightarrow> Inl (WebhookAuthenticationError ''Heleket webhook authentication failed'')) (\<lambda>received_sign.
     bindE (compare_digest (lower (strip received_sign)) (heleket_signature lib (or_else (pg_heleket_key cfg) []) payload)) (\<lambda>same.
     bindE (ensure same (WebhookAuthenticationError ''Heleket webhook authentication failed'')) (\<lambda>_.
     let text = py_str (pl_repr lib);
         event_type = text (first_truthy [dict_value payload ''event'', dict_value payload ''type'', JStr ''heleket.update'']);
         raw_status = lower (text (first_truthy [dict_value payload ''status'', dict_value payload ''payment_status'', JStr ''pending'']));
         provider_payment_id = first_truthy [dict_value payload ''uuid'', dict_value payload ''invoice_id'', dict_value payload ''id''] in
     bindE (text_int lib ''Heleket order reference is invalid'' (first_truthy [dict_value payload ''order_id'', dict_value payload ''merchant_order_id'']))
       (\<lambda>payment_order_id.
     bindE (exact_minor lib ''Heleket amount is invalid'' (dict_value payload ''amount'')) (\<lambda>amount_minor.
     Inr \<lparr>ne_provider = ''heleket'',
          ne_event_key = ''heleket:'' @ text (value_or provider_payment_id (JStr ''unknown'')) @ '':'' @ event_type @ '':'' @ raw_status,
          ne_event_type = event_type, ne_status = Some (heleket_status raw_status), ne_occurred_at = now,
          ne_provider_payment_id = optional_text lib provider_payment_id, ne_payment_order_id = payment_order_id, ne_amount_minor = amount_minor,
          ne_currency = optional_currency lib (dict_value payload ''currency''), ne_payload = payload\<rparr>))))))"

definition CryptoBotAdapter_create_payment :: "pay_lib \<Rightarrow> pay_settings \<Rightarrow> uuid \<Rightarrow> string \<Rightarrow> dict \<Rightarrow> PaymentIntent res" where
  "CryptoBotAdapter_create_payment lib cfg fresh return_url order =
     bindE (ensure (configured (pg_cryptobot_token cfg)) (RuntimeError ''CryptoBot token is not configured'')) (\<lambda>_.
     invoice_intent lib ''cryptobot'' fresh ''bot_invoice_url'' ''pay_url''
       (pl_post lib (rstrip_slash (pg_cryptobot_base_url cfg) @ ''/createInvoice'') [(''Crypto-Pay-API-Token'', or_else (pg_cryptobot_token cfg) [])]
          [(''asset'', dict_value order ''currency''), (''amount'', JStr (order_text lib order ''amount_minor'')),
           (''description'', JStr (''order:'' @ order_text lib order ''payment_order_id'')), (''paid_btn_name'', JStr ''openBot''),
           (''paid_btn_url'', JStr return_url), (''payload'', JStr (order_text lib order ''payment_order_id''))]))"

definition cryptobot_header :: "headers \<Rightarrow> string \<Rightarrow> string option" where
  "cryptobot_header headers name = map_option (\<lambda>(_, v). strip v) (List.find (\<lambda>(k, _). lower k = lower name) headers)"

definition cryptobot_status :: "string \<Rightarrow> PaymentStatus" where
  "cryptobot_status v =
     (let v = lower v in
      if v = ''paid'' then PS_PAID else if v = ''expired'' then PS_EXPIRED
      else if v \<in> {''cancelled'', ''canceled''} then PS_CANCELLED else if v = ''failed'' then PS_FAILED else PS_PENDING)"

definition CryptoBotAdapter_verify :: "pay_lib \<Rightarrow> pay_settings \<Rightarrow> time \<Rightarrow> string \<Rightarrow> headers \<Rightarrow> NormalizedWebhookEvent res" where
  "CryptoBotAdapter_verify lib cfg now raw_body headers =
     (let token = or_else (pg_cryptobot_token cfg) [];
          signature = or_else (cryptobot_header headers ''crypto-pay-api-signature'') [];
          text = py_str (pl_repr lib) in
      bindE (ensure (token \<noteq> [] \<and> signature \<noteq> []) (WebhookAuthenticationError ''CryptoBot webhook authentication failed'')) (\<lambda>_.
      bindE (compare_digest (lower signature) (pl_hmac lib (pl_sha256 lib token) raw_body)) (\<lambda>same.
      bindE (ensure same (WebhookAuthenticationError ''CryptoBot webhook authentication failed'')) (\<lambda>_.
      bindE (parse_object lib ''CryptoBot webhook payload is invalid'' raw_body) (\<lambda>payload.
      bindE (case first_truthy [dict_value payload ''payload'', dict_value payload ''invoice'', JObj payload] of
               JObj invoice \<Rightarrow> Inr invoice
             | _ \<Rightarrow> Inl (WebhookPayloadError ''CryptoBot invoice payload is invalid'')) (\<lambda>invoice.
      let invoice_id = first_truthy [dict_value invoice ''invoice_id'', dict_value invoice ''id''];
          invoice_status = lower (text (first_truthy [dict_value invoice ''status'', dict_value payload ''status'', JStr ''pending'']));
          order_id = (case dict_value invoice ''payload'' of JObj _ \<Rightarrow> JNull | v \<Rightarrow> v);
          event_type = text (value_or (dict_value payload ''update_type'') (JStr (''invoice.'' @ invoice_status))) in
      bindE (text_int lib ''CryptoBot order reference is invalid'' order_id) (\<lambda>payment_order_id.
      bindE (exact_minor lib ''CryptoBot amount is invalid'' (dict_value invoice ''amount'')) (\<lambda>amount_minor.
      Inr \<lparr>ne_provider = ''cryptobot'',
           ne_event_key = ''cryptobot:'' @ text (value_or invoice_id (JStr ''unknown'')) @ '':'' @ event_type @ '':'' @ invoice_status,
           ne_event_type = event_type, ne_status = Some (cryptobot_status invoice_status), ne_occurred_at = now,
           ne_provider_payment_id = optional_text lib invoice_id, ne_payment_order_id = payment_order_id, ne_amount_minor = amount_minor,
           ne_currency = optional_currency lib (first_truthy [dict_value invoice ''asset'', dict_value invoice ''currency'']),
           ne_payload = payload\<rparr>))))))))"

section \<open>YooKassa\<close>

text \<open>\<^verbatim>\<open>f"{Decimal(minor) / Decimal('100'):.2f}"\<close> for an amount that is not negative.\<close>

definition two_digits :: "nat \<Rightarrow> string" where
  "two_digits n = [char_of (48 + n div 10), char_of (48 + n mod 10)]"

definition yookassa_amount :: "int \<Rightarrow> string" where
  "yookassa_amount amount_minor = show_nat (nat amount_minor div 100) @ ''.'' @ two_digits (nat amount_minor mod 100)"

definition yookassa_basic_auth :: "pay_lib \<Rightarrow> pay_settings \<Rightarrow> string" where
  "yookassa_basic_auth lib cfg = pl_b64 lib (or_else (pg_yookassa_shop_id cfg) [] @ '':'' @ or_else (pg_yookassa_secret cfg) [])"

definition YooKassaAdapter_create_payment :: "pay_lib \<Rightarrow> pay_settings \<Rightarrow> dict \<Rightarrow> PaymentIntent res" where
  "YooKassaAdapter_create_payment lib cfg order =
     bindE (ensure (configured (pg_yookassa_shop_id cfg) \<and> configured (pg_yookassa_secret cfg)) (RuntimeError ''YooKassa credentials are not configured'')) (\<lambda>_.
     bindE (require (TypeError ''amount'') (json_int (dict_value order ''amount_minor''))) (\<lambda>amount_minor.
     bindE (require (TypeError ''order id'') (json_int (dict_value order ''payment_order_id''))) (\<lambda>order_id.
     bindE (require (GatewayError ''provider request failed'')
              (pl_post lib ''https://api.yookassa.ru/v3/payments''
                 [(''Authorization'', ''Basic '' @ yookassa_basic_auth lib cfg), (''Idempotence-Key'', order_text lib order ''idempotency_key'')]
                 [(''amount'', JObj [(''value'', JStr (yookassa_amount amount_minor)), (''currency'', dict_value order ''currency'')]),
                  (''capture'', JBool True),
                  (''confirmation'', JObj [(''type'', JStr ''redirect''), (''return_url'', JStr (pg_return_url cfg))]),
                  (''description'', JStr (''Subscription order '' @ order_text lib order ''payment_order_id'')),
                  (''metadata'', JObj [(''payment_order_id'', JInt order_id), (''provider'', JStr ''yookassa'')])])) (\<lambda>answer.
     bindE (case answer of JObj d \<Rightarrow> Inr d | _ \<Rightarrow> Inl (TypeError ''object is not subscriptable'')) (\<lambda>body.
     bindE (require (KeyError ''id'') (dict_get body ''id'')) (\<lambda>id_value.
     bindE (case dict_value_default body ''confirmation'' (JObj []) of JObj d \<Rightarrow> Inr d | _ \<Rightarrow> Inl (TypeError ''object has no attribute get'')) (\<lambda>confirmation.
     Inr \<lparr>pi_provider = ''yookassa'', pi_provider_payment_id = py_str (pl_repr lib) id_value,
          pi_status = py_str (pl_repr lib) (dict_value_default body ''status'' (JStr ''pending'')),
          pi_payment_url = optional_text lib (dict_value confirmation ''confirmation_url''), pi_payload = body\<rparr>)))))))"

definition yookassa_status :: "string \<Rightarrow> PaymentStatus" where
  "yookassa_status v =
     (if v \<in> {''succeeded'', ''paid''} then PS_PAID else if v = ''waiting_for_capture'' then PS_AUTHORIZED
      else if v \<in> {''canceled'', ''cancelled''} then PS_CANCELLED else if v = ''failed'' then PS_FAILED else PS_PENDING)"

fun yookassa_occurred_at :: "pay_lib \<Rightarrow> time \<Rightarrow> json list \<Rightarrow> time" where
  "yookassa_occurred_at lib now [] = now"
| "yookassa_occurred_at lib now (JStr raw # rest) =
     (if raw = [] then yookassa_occurred_at lib now rest
      else case pl_fromisoformat lib (replace_Z raw) of Some t \<Rightarrow> t | None \<Rightarrow> yookassa_occurred_at lib now rest)"
| "yookassa_occurred_at lib now (_ # rest) = yookassa_occurred_at lib now rest"

definition occurred_at :: "pay_lib \<Rightarrow> time \<Rightarrow> dict \<Rightarrow> time" where
  "occurred_at lib now provider_object =
     yookassa_occurred_at lib now [dict_value provider_object ''captured_at'', dict_value provider_object ''created_at'']"

definition yookassa_normalize_refund :: "pay_lib \<Rightarrow> time \<Rightarrow> dict \<Rightarrow> string \<Rightarrow> NormalizedWebhookEvent res" where
  "yookassa_normalize_refund lib now provider_object refund_id =
     bindE (ensure (lower (py_str (pl_repr lib) (value_or (dict_value provider_object ''status'') (JStr []))) = ''succeeded'')
              (WebhookAuthenticationError ''YooKassa refund is not succeeded'')) (\<lambda>_.
     bindE (case dict_value provider_object ''payment_id'' of
              JStr p \<Rightarrow> if strip p = [] then Inl (WebhookPayloadError ''YooKassa refund payment_id is missing'') else Inr p
            | _ \<Rightarrow> Inl (WebhookPayloadError ''YooKassa refund payment_id is missing'')) (\<lambda>payment_id.
     bindE (case dict_value provider_object ''amount'' of JObj a \<Rightarrow> Inr a | _ \<Rightarrow> Inl (WebhookPayloadError ''YooKassa refund amount is invalid'')) (\<lambda>amount.
     bindE (money_to_minor lib (dict_value amount ''value'')) (\<lambda>amount_minor.
     Inr \<lparr>ne_provider = ''yookassa'', ne_event_key = ''yookassa:refund:'' @ refund_id @ '':succeeded'', ne_event_type = ''refund.succeeded'',
          ne_status = None, ne_occurred_at = occurred_at lib now provider_object, ne_provider_payment_id = Some payment_id,
          ne_payment_order_id = None, ne_amount_minor = amount_minor, ne_currency = optional_currency lib (dict_value amount ''currency''),
          ne_payload = [(''event'', JStr ''refund.succeeded''), (''object'', JObj provider_object)]\<rparr>))))"

definition optional_object :: "string \<Rightarrow> json \<Rightarrow> dict res" where
  "optional_object invalid v = (case v of JNull \<Rightarrow> Inr [] | JObj d \<Rightarrow> Inr d | _ \<Rightarrow> Inl (WebhookPayloadError invalid))"

definition yookassa_normalize_payment :: "pay_lib \<Rightarrow> time \<Rightarrow> dict \<Rightarrow> string \<Rightarrow> NormalizedWebhookEvent res" where
  "yookassa_normalize_payment lib now provider_object event_type =
     (let text = py_str (pl_repr lib);
          provider_payment_id = text (dict_value provider_object ''id'');
          raw_status = lower (text (value_or (dict_value provider_object ''status'') (JStr ''pending''))) in
      bindE (optional_object ''YooKassa amount is invalid'' (dict_value provider_object ''amount'')) (\<lambda>amount.
      bindE (optional_object ''YooKassa metadata is invalid'' (dict_value provider_object ''metadata'')) (\<lambda>metadata.
      bindE (text_int lib ''YooKassa order reference is invalid'' (dict_value metadata ''payment_order_id'')) (\<lambda>payment_order_id.
      bindE (money_to_minor lib (dict_value amount ''value'')) (\<lambda>amount_minor.
      Inr \<lparr>ne_provider = ''yookassa'', ne_event_key = ''yookassa:'' @ provider_payment_id @ '':'' @ event_type @ '':'' @ raw_status,
           ne_event_type = event_type, ne_status = Some (yookassa_status raw_status), ne_occurred_at = occurred_at lib now provider_object,
           ne_provider_payment_id = Some provider_payment_id, ne_payment_order_id = payment_order_id, ne_amount_minor = amount_minor,
           ne_currency = optional_currency lib (dict_value amount ''currency''),
           ne_payload = [(''event'', JStr event_type), (''object'', JObj provider_object)]\<rparr>)))))"

definition yookassa_fetch :: "pay_lib \<Rightarrow> pay_settings \<Rightarrow> bool \<Rightarrow> string \<Rightarrow> json option" where
  "yookassa_fetch lib cfg is_refund object_id =
     pl_get lib (''https://api.yookassa.ru/v3/'' @ (if is_refund then ''refunds'' else ''payments'') @ ''/'' @ object_id)
       [(''Authorization'', ''Basic '' @ yookassa_basic_auth lib cfg)]"

definition YooKassaAdapter_verify :: "pay_lib \<Rightarrow> pay_settings \<Rightarrow> time \<Rightarrow> string \<Rightarrow> headers \<Rightarrow> NormalizedWebhookEvent res" where
  "YooKassaAdapter_verify lib cfg now raw_body headers =
     bindE (parse_object lib ''YooKassa webhook payload is invalid'' raw_body) (\<lambda>inbound.
     let event_type = py_str (pl_repr lib) (value_or (dict_value inbound ''event'') (JStr ''payment.unknown'')) in
     bindE (case dict_value inbound ''object'' of JObj d \<Rightarrow> Inr d | _ \<Rightarrow> Inl (WebhookPayloadError ''YooKassa webhook object is missing'')) (\<lambda>inbound_object.
     bindE (case dict_value inbound_object ''id'' of
              JStr i \<Rightarrow> if strip i = [] then Inl (WebhookPayloadError ''YooKassa object id is missing'') else Inr i
            | _ \<Rightarrow> Inl (WebhookPayloadError ''YooKassa object id is missing'')) (\<lambda>object_id.
     bindE (ensure (configured (pg_yookassa_shop_id cfg) \<and> configured (pg_yookassa_secret cfg))
              (WebhookAuthenticationError ''YooKassa webhook authentication failed'')) (\<lambda>_.
     let is_refund = (event_type = ''refund.succeeded'') in
     bindE (require (WebhookAuthenticationError ''YooKassa webhook authentication failed'') (yookassa_fetch lib cfg is_refund object_id))
       (\<lambda>answer.
     bindE (case answer of
              JObj d \<Rightarrow> if dict_value d ''id'' \<noteq> JStr object_id then Inl (WebhookAuthenticationError ''YooKassa webhook authentication failed'') else Inr d
            | _ \<Rightarrow> Inl (WebhookAuthenticationError ''YooKassa webhook authentication failed'')) (\<lambda>provider_object.
     if is_refund then yookassa_normalize_refund lib now provider_object object_id
     else yookassa_normalize_payment lib now provider_object event_type))))))"

section \<open>Registry\<close>

datatype adapter = YooKassaAdapter | DummyPaymentAdapter | CryptoBotAdapter | HeleketAdapter | TonAdapter

definition registered_adapters :: "pay_settings \<Rightarrow> (string \<times> adapter) list" where
  "registered_adapters cfg =
     (''yookassa'', YooKassaAdapter) #
     (if \<not> pg_production cfg
      then [(''dummy'', DummyPaymentAdapter), (''cryptobot'', CryptoBotAdapter), (''heleket'', HeleketAdapter), (''ton'', TonAdapter)] else [])"

definition PaymentAdapterRegistry_get :: "pay_settings \<Rightarrow> string \<Rightarrow> adapter res" where
  "PaymentAdapterRegistry_get cfg provider =
     require (ValueError (''Unsupported payment provider: '' @ provider)) (map_of (registered_adapters cfg) provider)"

definition adapter_verify :: "pay_lib \<Rightarrow> pay_settings \<Rightarrow> adapter \<Rightarrow> time \<Rightarrow> string \<Rightarrow> headers \<Rightarrow> NormalizedWebhookEvent res" where
  "adapter_verify lib cfg a = (case a of
     YooKassaAdapter \<Rightarrow> YooKassaAdapter_verify lib cfg
   | DummyPaymentAdapter \<Rightarrow> DummyPaymentAdapter_verify lib cfg
   | CryptoBotAdapter \<Rightarrow> CryptoBotAdapter_verify lib cfg
   | HeleketAdapter \<Rightarrow> HeleketAdapter_verify lib cfg
   | TonAdapter \<Rightarrow> (\<lambda>_. TonAdapter_verify))"

definition adapter_create :: "pay_lib \<Rightarrow> pay_settings \<Rightarrow> adapter \<Rightarrow> uuid \<Rightarrow> string \<Rightarrow> dict \<Rightarrow> PaymentIntent res" where
  "adapter_create lib cfg a fresh return_url = (case a of
     YooKassaAdapter \<Rightarrow> YooKassaAdapter_create_payment lib cfg
   | DummyPaymentAdapter \<Rightarrow> DummyPaymentAdapter_create_payment lib cfg fresh return_url
   | CryptoBotAdapter \<Rightarrow> CryptoBotAdapter_create_payment lib cfg fresh return_url
   | HeleketAdapter \<Rightarrow> HeleketAdapter_create_payment lib cfg fresh return_url
   | TonAdapter \<Rightarrow> TonAdapter_create_payment lib cfg fresh return_url)"

text \<open>The registry as the parameter of \<^const>\<open>IngestWebhook_execute\<close> and \<^const>\<open>CreatePayment_execute\<close>.\<close>

definition registry_verify :: "pay_lib \<Rightarrow> pay_settings \<Rightarrow> time \<Rightarrow> string \<Rightarrow> string \<Rightarrow> dict \<Rightarrow> NormalizedWebhookEvent res" where
  "registry_verify lib cfg now provider raw_body headers =
     bindE (PaymentAdapterRegistry_get cfg provider) (\<lambda>a.
     adapter_verify lib cfg a now raw_body (map (\<lambda>(k, v). (k, py_str (pl_repr lib) v)) headers))"

definition registry_gateway :: "pay_lib \<Rightarrow> pay_settings \<Rightarrow> uuid \<Rightarrow> string \<Rightarrow> string \<Rightarrow> gateway res" where
  "registry_gateway lib cfg fresh return_url provider =
     bindE (PaymentAdapterRegistry_get cfg provider) (\<lambda>a. Inr (adapter_create lib cfg a fresh return_url))"

section \<open>Lemmas\<close>

definition decimal_digit :: "char \<Rightarrow> bool" where
  "decimal_digit c \<longleftrightarrow> 48 \<le> (of_char c :: nat) \<and> (of_char c :: nat) \<le> 57"

lemma all_digits_iff: "all_digits s \<longleftrightarrow> (\<forall>c\<in>set s. decimal_digit c)"
  by (simp add: all_digits_def decimal_digit_def list_all_iff)

lemma digit_code: "(n :: nat) < 10 \<Longrightarrow> (of_char (char_of (48 + n) :: char) :: nat) = 48 + n"
  by simp

lemma digit_char: "(n :: nat) < 10 \<Longrightarrow> decimal_digit (char_of (48 + n))"
  unfolding decimal_digit_def digit_code by simp

lemma show_nat_eq: "show_nat n = (if n < 10 then [] else show_nat (n div 10)) @ [char_of (48 + n mod 10)]"
  by (subst show_nat.simps) simp

lemma show_nat_all_digits: "all_digits (show_nat n)"
proof (induction n rule: less_induct)
  case (less n)
  have "all_digits (show_nat (n div 10))" if "\<not> n < 10" using less that by simp
  then show ?case by (subst show_nat_eq) (auto simp: all_digits_iff digit_char)
qed

lemma digits_value_snoc: "digits_value (s @ [c]) = digits_value s * 10 + ((of_char c :: nat) - 48)"
  by (simp add: digits_value_def)

lemma digits_value_show: "digits_value (show_nat n) = n"
proof (induction n rule: less_induct)
  case (less n)
  have "digits_value (if n < 10 then [] else show_nat (n div 10)) = n div 10"
    using less by (simp add: digits_value_def [of "[]"])
  then show ?case by (subst show_nat_eq) (simp add: digits_value_snoc digit_code del: of_char_of)
qed

lemma length_show_nat: "n < 10 ^ Suc d \<Longrightarrow> length (show_nat n) \<le> Suc d"
proof (induction d arbitrary: n)
  case (Suc d)
  then have "n div 10 < 10 ^ Suc d" by (simp add: less_mult_imp_div_less mult.commute)
  then show ?case using Suc.IH [of "n div 10"] by (subst show_nat_eq) simp
qed (simp add: show_nat_eq)

lemma plain_digit:
  assumes "decimal_digit c"
  shows "\<not> is_space c" and "lower_char c = c" and "c \<noteq> CHR ''_''" and "c \<noteq> CHR ''e''" and "c \<noteq> CHR ''.''" and "c \<noteq> CHR ''-''" and "c \<noteq> CHR ''+''"
    and "c \<noteq> CHR ''i''" and "c \<noteq> CHR ''n''" and "c \<noteq> CHR ''s''"
  using assms by (auto simp: decimal_digit_def is_space_def lower_char_def Let_def)

lemma dot_facts: "\<not> is_space (CHR ''.'')" "lower_char (CHR ''.'') = CHR ''.''"
  by (simp_all add: is_space_def lower_char_def)

lemma strip_no_space: "(\<forall>c\<in>set s. \<not> is_space c) \<Longrightarrow> strip s = s"
proof -
  assume no: "\<forall>c\<in>set s. \<not> is_space c"
  have "dropWhile is_space s = s" using no by (cases s) simp_all
  moreover have "dropWhile is_space (rev s) = rev s" using no by (cases "rev s") (auto simp: rev_eq_Cons_iff)
  ultimately show ?thesis by (simp add: strip_def lstrip_def)
qed

text \<open>The decimal that the text of two groups of digits with a point between them denotes.\<close>

lemma py_decimal_fixed:
  assumes "all_digits whole" and "whole \<noteq> []" and "all_digits fraction"
  shows "py_decimal (whole @ ''.'' @ fraction) = Finite (Decimal (int (digits_value (whole @ fraction))) (- int (length fraction)))"
proof -
  let ?s = "whole @ CHR ''.'' # fraction"
  have digits: "decimal_digit c" if "c \<in> set whole \<or> c \<in> set fraction" for c using assms that by (auto simp: all_digits_iff)
  have "\<forall>c\<in>set ?s. \<not> is_space c" using digits plain_digit(1) dot_facts(1) by auto
  then have strip: "strip ?s = ?s" by (rule strip_no_space)
  have nou: "filter (\<lambda>c. c \<noteq> CHR ''_'') ?s = ?s" using digits plain_digit(3) by (intro filter_True) auto
  obtain c cs where w: "whole = c # cs" using assms(2) by (cases whole) auto
  have c: "decimal_digit c" using digits w by simp
  have sign: "split_sign ?s = (1, ?s)" using plain_digit [OF c] by (simp add: split_sign_def w)
  have low: "lower ?s = ?s" using digits plain_digit(2) dot_facts(2) by (auto simp: lower_def intro!: map_idI)
  have special: "?s \<notin> {''inf'', ''infinity''}" "\<not> starts_with ''nan'' ?s" "\<not> starts_with ''snan'' ?s" using plain_digit [OF c] by (auto simp: w)
  have "\<forall>x\<in>set ?s. x \<noteq> CHR ''e''" using digits plain_digit(4) by auto
  then have "takeWhile (\<lambda>x. x \<noteq> CHR ''e'') ?s = ?s" "dropWhile (\<lambda>x. x \<noteq> CHR ''e'') ?s = []"
    unfolding takeWhile_eq_all_conv dropWhile_eq_Nil_conv by blast+
  then have e: "split_at (CHR ''e'') ?s = (?s, None)" unfolding split_at_def by (simp only: list.case)
  have all: "\<forall>x\<in>set whole. x \<noteq> CHR ''.''" using digits plain_digit(5) by auto
  have "takeWhile (\<lambda>x. x \<noteq> CHR ''.'') ?s = whole" "dropWhile (\<lambda>x. x \<noteq> CHR ''.'') ?s = CHR ''.'' # fraction"
    using all by (simp_all add: takeWhile_append2 dropWhile_append2)
  then have dot: "split_at (CHR ''.'') ?s = (whole, Some fraction)" by (simp add: split_at_def)
  show ?thesis
    unfolding py_decimal_def append_Cons append_Nil strip nou sign Let_def prod.case low e dot parse_exponent_def option.case
    using special assms by simp
qed

lemma yookassa_amount_decimal:
  assumes "0 \<le> m"
  shows "py_decimal (yookassa_amount m) = Finite (Decimal m (- 2))"
proof -
  let ?n = "nat m"
  have two: "all_digits (two_digits (?n mod 100))" "length (two_digits (?n mod 100)) = 2"
    by (auto simp: two_digits_def all_digits_iff intro!: digit_char)
  have "two_digits (?n mod 100) = [char_of (48 + ?n mod 100 div 10)] @ [char_of (48 + ?n mod 100 mod 10)]" by (simp add: two_digits_def)
  then have "digits_value (show_nat (?n div 100) @ two_digits (?n mod 100)) = (?n div 100 * 10 + ?n mod 100 div 10) * 10 + ?n mod 100 mod 10"
    by (simp only: append_assoc [symmetric] digits_value_snoc digits_value_show) (simp add: digit_code del: of_char_of)
  also have "\<dots> = ?n div 100 * 100 + (?n mod 100 div 10 * 10 + ?n mod 100 mod 10)" by (simp only: add_mult_distrib mult.assoc)
  also have "\<dots> = ?n" by (simp only: div_mult_mod_eq)
  finally have val: "digits_value (show_nat (?n div 100) @ two_digits (?n mod 100)) = ?n" .
  have "show_nat (?n div 100) \<noteq> []" by (subst show_nat_eq) simp
  from py_decimal_fixed [OF show_nat_all_digits this two(1)] show ?thesis
    using val two(2) assms by (simp add: yookassa_amount_def)
qed

lemma amount_read_back:
  assumes "0 \<le> m" and "m < 10 ^ 26"
  shows "money_to_minor lib (JStr (yookassa_amount m)) = Inr (Some m)"
proof -
  have "nat \<bar>m * 100\<bar> < 10 ^ Suc 27"
  proof -
    have "m * 100 < 10 ^ 28" using assms(2) by simp
    then have "nat (m * 100) < nat (10 ^ 28)" by (rule nat_mono_iff [THEN iffD2, rotated]) simp
    then show ?thesis using assms(1) by (simp add: abs_mult)
  qed
  then have "length (show_nat (nat \<bar>m * 100\<bar>)) \<le> 28" using length_show_nat [of _ 27] by (simp only: Suc_numeral semiring_norm)
  then have "decimal_times_100 (Decimal m (- 2)) = Decimal (m * 100) (- 2)"
    using assms(1) by (simp add: decimal_times_100_def Let_def round_half_even_def sgn_if)
  moreover have "decimal_integral (Decimal (m * 100) (- 2)) = Some m" by (simp add: decimal_integral_def Let_def)
  moreover have "yookassa_amount m \<noteq> []" by (simp add: yookassa_amount_def)
  ultimately show ?thesis by (simp add: money_to_minor_def is_blank_value_def yookassa_amount_decimal [OF assms(1)])
qed

text \<open>What each adapter has checked when it accepts a webhook.\<close>

lemma json_cases_Inr:
  "(case v of JObj d \<Rightarrow> Inr d | _ \<Rightarrow> Inl e) = Inr x \<longleftrightarrow> v = JObj x"
  "(case v of JObj d \<Rightarrow> if P d then Inl e else Inr d | _ \<Rightarrow> Inl e) = Inr x \<longleftrightarrow> v = JObj x \<and> \<not> P x"
  "(case v of JStr i \<Rightarrow> if Q i then Inl e else Inr i | _ \<Rightarrow> Inl e) = Inr y \<longleftrightarrow> v = JStr y \<and> \<not> Q y"
  by (cases v; auto)+

lemma parse_object_Inr: "parse_object lib e raw = Inr d \<longleftrightarrow> pl_loads lib raw = Some (JObj d)"
proof (cases "pl_loads lib raw")
  case (Some v)
  then show ?thesis by (cases v) (auto simp: parse_object_def)
qed (simp add: parse_object_def)

lemma compare_digest_Inr: "compare_digest a b = Inr c \<longleftrightarrow> is_ascii a \<and> is_ascii b \<and> c = (a = b)"
  by (auto simp: compare_digest_def bindE_eq_Inr)

lemmas adapter_simps = bindE_eq_Inr Let_def json_cases_Inr parse_object_Inr compare_digest_Inr

lemma heleket_accepts:
  assumes "HeleketAdapter_verify lib cfg now raw headers = Inr n"
  shows "ne_provider n = ''heleket'' \<and> (\<exists>d sign. pl_loads lib raw = Some (JObj d) \<and> dict_value d ''sign'' = JStr sign \<and> configured (pg_heleket_key cfg) \<and>
    lower (strip sign) = heleket_signature lib (or_else (pg_heleket_key cfg) []) d \<and> ne_payload n = d)"
  using assms unfolding HeleketAdapter_verify_def adapter_simps by auto

lemma cryptobot_accepts:
  assumes "CryptoBotAdapter_verify lib cfg now raw headers = Inr n"
  shows "ne_provider n = ''cryptobot'' \<and> configured (pg_cryptobot_token cfg) \<and> (\<exists>d. pl_loads lib raw = Some (JObj d) \<and> ne_payload n = d) \<and>
    (\<exists>sig. cryptobot_header headers ''crypto-pay-api-signature'' = Some sig \<and>
       lower sig = pl_hmac lib (pl_sha256 lib (or_else (pg_cryptobot_token cfg) [])) raw)"
proof -
  have "ne_provider n = ''cryptobot'' \<and> configured (pg_cryptobot_token cfg) \<and> (\<exists>d. pl_loads lib raw = Some (JObj d) \<and> ne_payload n = d) \<and>
      or_else (cryptobot_header headers ''crypto-pay-api-signature'') [] \<noteq> [] \<and>
      lower (or_else (cryptobot_header headers ''crypto-pay-api-signature'') []) = pl_hmac lib (pl_sha256 lib (or_else (pg_cryptobot_token cfg) [])) raw"
    using assms unfolding CryptoBotAdapter_verify_def configured_def adapter_simps by auto
  then show ?thesis by (auto simp: or_else_def split: option.splits if_splits)
qed

lemma dummy_accepts:
  assumes "DummyPaymentAdapter_verify lib cfg now raw headers = Inr n"
  shows "ne_provider n = ''dummy'' \<and> \<not> pg_production cfg"
  using assms by (auto simp: DummyPaymentAdapter_verify_def bindE_eq_Inr Let_def)

text \<open>What an event of YooKassa says is read from the object its interface returned: the amount and the currency, and for a payment its own
  identifier, the order of its metadata and the state, for a refund the payment it belongs to.\<close>

definition read_from_object :: "pay_lib \<Rightarrow> dict \<Rightarrow> NormalizedWebhookEvent \<Rightarrow> bool" where
  "read_from_object lib d n \<longleftrightarrow> dict_value (ne_payload n) ''object'' = JObj d \<and>
     (\<exists>amount. optional_object ''YooKassa amount is invalid'' (dict_value d ''amount'') = Inr amount \<and>
        money_to_minor lib (dict_value amount ''value'') = Inr (ne_amount_minor n) \<and>
        ne_currency n = optional_currency lib (dict_value amount ''currency''))"

lemma yookassa_normalized_refund:
  assumes "yookassa_normalize_refund lib now d i = Inr n"
  shows "ne_provider n = ''yookassa'' \<and> read_from_object lib d n \<and> ne_status n = None \<and>
     lower (py_str (pl_repr lib) (value_or (dict_value d ''status'') (JStr []))) = ''succeeded'' \<and>
     (\<exists>p. dict_value d ''payment_id'' = JStr p \<and> ne_provider_payment_id n = Some p)"
proof -
  obtain p amount minor where "lower (py_str (pl_repr lib) (value_or (dict_value d ''status'') (JStr []))) = ''succeeded''"
      "dict_value d ''payment_id'' = JStr p" "dict_value d ''amount'' = JObj amount" "money_to_minor lib (dict_value amount ''value'') = Inr minor"
      "n = \<lparr>ne_provider = ''yookassa'', ne_event_key = ''yookassa:refund:'' @ i @ '':succeeded'', ne_event_type = ''refund.succeeded'',
          ne_status = None, ne_occurred_at = occurred_at lib now d, ne_provider_payment_id = Some p, ne_payment_order_id = None,
          ne_amount_minor = minor, ne_currency = optional_currency lib (dict_value amount ''currency''),
          ne_payload = [(''event'', JStr ''refund.succeeded''), (''object'', JObj d)]\<rparr>"
    using assms unfolding yookassa_normalize_refund_def adapter_simps by auto
  then show ?thesis by (simp add: read_from_object_def optional_object_def dict_value_def dict_get_def)
qed

lemma yookassa_normalized_payment:
  assumes "yookassa_normalize_payment lib now d ev = Inr n"
  shows "ne_provider n = ''yookassa'' \<and> read_from_object lib d n \<and>
     ne_provider_payment_id n = Some (py_str (pl_repr lib) (dict_value d ''id'')) \<and>
     ne_status n = Some (yookassa_status (lower (py_str (pl_repr lib) (value_or (dict_value d ''status'') (JStr ''pending''))))) \<and>
     (\<exists>metadata. optional_object ''YooKassa metadata is invalid'' (dict_value d ''metadata'') = Inr metadata \<and>
        text_int lib ''YooKassa order reference is invalid'' (dict_value metadata ''payment_order_id'') = Inr (ne_payment_order_id n))"
proof -
  obtain amount metadata order minor where "optional_object ''YooKassa amount is invalid'' (dict_value d ''amount'') = Inr amount"
      "optional_object ''YooKassa metadata is invalid'' (dict_value d ''metadata'') = Inr metadata"
      "text_int lib ''YooKassa order reference is invalid'' (dict_value metadata ''payment_order_id'') = Inr order"
      "money_to_minor lib (dict_value amount ''value'') = Inr minor" "ne_provider n = ''yookassa''" "ne_amount_minor n = minor"
      "ne_payment_order_id n = order" "ne_currency n = optional_currency lib (dict_value amount ''currency'')"
      "ne_provider_payment_id n = Some (py_str (pl_repr lib) (dict_value d ''id''))"
      "ne_status n = Some (yookassa_status (lower (py_str (pl_repr lib) (value_or (dict_value d ''status'') (JStr ''pending'')))))"
      "ne_payload n = [(''event'', JStr ev), (''object'', JObj d)]"
    using assms unfolding yookassa_normalize_payment_def bindE_eq_Inr Let_def by auto
  then show ?thesis by (simp add: read_from_object_def dict_value_def dict_get_def)
qed

lemma yookassa_paid: "yookassa_status v = PS_PAID \<longleftrightarrow> v \<in> {''succeeded'', ''paid''}"
  by (auto simp: yookassa_status_def)

definition yookassa_confirms :: "pay_lib \<Rightarrow> pay_settings \<Rightarrow> string \<Rightarrow> NormalizedWebhookEvent \<Rightarrow> dict \<Rightarrow> dict \<Rightarrow> string \<Rightarrow> dict \<Rightarrow> bool \<Rightarrow> bool" where
  "yookassa_confirms lib cfg raw n body obj i d refund \<longleftrightarrow>
     pl_loads lib raw = Some (JObj body) \<and> dict_value body ''object'' = JObj obj \<and> dict_value obj ''id'' = JStr i \<and>
     yookassa_fetch lib cfg refund i = Some (JObj d) \<and> dict_value d ''id'' = JStr i \<and> read_from_object lib d n \<and>
     (if refund
      then ne_status n = None \<and> lower (py_str (pl_repr lib) (value_or (dict_value d ''status'') (JStr []))) = ''succeeded'' \<and>
        (\<exists>p. dict_value d ''payment_id'' = JStr p \<and> ne_provider_payment_id n = Some p)
      else ne_provider_payment_id n = Some i \<and>
        (ne_status n = Some PS_PAID \<longleftrightarrow> lower (py_str (pl_repr lib) (value_or (dict_value d ''status'') (JStr ''pending''))) \<in> {''succeeded'', ''paid''}) \<and>
        (\<exists>metadata. optional_object ''YooKassa metadata is invalid'' (dict_value d ''metadata'') = Inr metadata \<and>
           text_int lib ''YooKassa order reference is invalid'' (dict_value metadata ''payment_order_id'') = Inr (ne_payment_order_id n)))"

lemma yookassa_accepts:
  assumes "YooKassaAdapter_verify lib cfg now raw headers = Inr n"
  shows "ne_provider n = ''yookassa'' \<and> configured (pg_yookassa_secret cfg) \<and>
    (\<exists>body obj i d refund. yookassa_confirms lib cfg raw n body obj i d refund)"
proof -
  obtain body obj i d refund ev where body: "pl_loads lib raw = Some (JObj body)" "dict_value body ''object'' = JObj obj" "dict_value obj ''id'' = JStr i"
    and fetch: "yookassa_fetch lib cfg refund i = Some (JObj d)" "dict_value d ''id'' = JStr i" and secret: "configured (pg_yookassa_secret cfg)"
    and res: "(if refund then yookassa_normalize_refund lib now d i else yookassa_normalize_payment lib now d ev) = Inr n"
    using assms unfolding YooKassaAdapter_verify_def adapter_simps by auto
  have "ne_provider n = ''yookassa'' \<and> yookassa_confirms lib cfg raw n body obj i d refund"
  proof (cases refund)
    case True
    then have "yookassa_normalize_refund lib now d i = Inr n" using res by simp
    from yookassa_normalized_refund [OF this] show ?thesis
      using body fetch True by (simp add: yookassa_confirms_def)
  next
    case False
    then have "yookassa_normalize_payment lib now d ev = Inr n" using res by simp
    from yookassa_normalized_payment [OF this] show ?thesis
      using body fetch False by (simp add: yookassa_confirms_def yookassa_paid)
  qed
  then show ?thesis using secret by blast
qed

text \<open>A provider for the examples: it knows one paid payment.\<close>

definition sample_pay :: pay_lib where
  "sample_pay = \<lparr>pl_repr = (\<lambda>_. []),
     pl_loads = (\<lambda>_. Some (JObj [(''event'', JStr ''payment.succeeded''), (''object'', JObj [(''id'', JStr ''p1'')])])), pl_dumps = (\<lambda>_. []),
     pl_sha256 = id, pl_hmac = (\<lambda>_. id), pl_md5 = id, pl_b64 = id, pl_urlencode = (\<lambda>_. []), pl_fromisoformat = (\<lambda>_. None),
     pl_post = (\<lambda>_ _ _. None),
     pl_get = (\<lambda>_ _. Some (JObj [(''id'', JStr ''p1''), (''status'', JStr ''succeeded'')]))\<rparr>"

text \<open>The same with an amount.\<close>

definition sample_object :: dict where
  "sample_object = [(''id'', JStr ''p1''), (''status'', JStr ''succeeded''),
     (''amount'', JObj [(''value'', JStr (yookassa_amount 19900)), (''currency'', JStr ''rub'')])]"

definition sample_priced_pay :: pay_lib where
  "sample_priced_pay = sample_pay\<lparr>pl_get := (\<lambda>_ _. Some (JObj sample_object))\<rparr>"

definition sample_pay_settings :: pay_settings where
  "sample_pay_settings = \<lparr>pg_production = True, pg_dummy_base_url = [], pg_return_url = [], pg_ton_wallet = None, pg_heleket_key = None,
     pg_heleket_base_url = None, pg_cryptobot_token = None, pg_cryptobot_base_url = [], pg_yookassa_shop_id = Some ''1'', pg_yookassa_secret = Some ''s''\<rparr>"

section \<open>Properties\<close>

text \<open>C30. What an accepted webhook rests on. For YooKassa the body only names an object: YooKassa's interface was asked, with the shop's
  credentials, and returned an object with that identifier, and the event's amount, currency, payment, order and state are those
  of the returned object; it says paid exactly if that object is paid, and a refund is taken only if that object is a refund that
  succeeded. CryptoBot has signed the body with the shop's token and Heleket its payload with the shop's key, and the event carries
  that body. A webhook of the dummy provider carries no proof at all; it, CryptoBot and Heleket are accepted outside production only,
  and TON is never accepted.\<close>

theorem accepted_webhook_is_authentic:
  assumes "registry_verify lib cfg now provider raw headers = Inr n"
  shows "ne_provider n = provider \<and>
    (provider = ''yookassa'' \<and> configured (pg_yookassa_secret cfg) \<and>
       (\<exists>body obj i d refund. pl_loads lib raw = Some (JObj body) \<and> dict_value body ''object'' = JObj obj \<and> dict_value obj ''id'' = JStr i \<and>
          yookassa_fetch lib cfg refund i = Some (JObj d) \<and> dict_value d ''id'' = JStr i \<and> dict_value (ne_payload n) ''object'' = JObj d \<and>
          (\<exists>amount. optional_object ''YooKassa amount is invalid'' (dict_value d ''amount'') = Inr amount \<and>
             money_to_minor lib (dict_value amount ''value'') = Inr (ne_amount_minor n) \<and>
             ne_currency n = optional_currency lib (dict_value amount ''currency'')) \<and>
          (if refund
           then ne_status n = None \<and> lower (py_str (pl_repr lib) (value_or (dict_value d ''status'') (JStr []))) = ''succeeded'' \<and>
             (\<exists>p. dict_value d ''payment_id'' = JStr p \<and> ne_provider_payment_id n = Some p)
           else ne_provider_payment_id n = Some i \<and>
             (ne_status n = Some PS_PAID \<longleftrightarrow> lower (py_str (pl_repr lib) (value_or (dict_value d ''status'') (JStr ''pending''))) \<in> {''succeeded'', ''paid''}) \<and>
             (\<exists>metadata. optional_object ''YooKassa metadata is invalid'' (dict_value d ''metadata'') = Inr metadata \<and>
                text_int lib ''YooKassa order reference is invalid'' (dict_value metadata ''payment_order_id'') = Inr (ne_payment_order_id n)))) \<or>
     \<not> pg_production cfg \<and>
       (provider = ''cryptobot'' \<and> configured (pg_cryptobot_token cfg) \<and> pl_loads lib raw = Some (JObj (ne_payload n)) \<and>
          (\<exists>sig. cryptobot_header (map (\<lambda>(k, v). (k, py_str (pl_repr lib) v)) headers) ''crypto-pay-api-signature'' = Some sig \<and>
             lower sig = pl_hmac lib (pl_sha256 lib (or_else (pg_cryptobot_token cfg) [])) raw) \<or>
        provider = ''heleket'' \<and> configured (pg_heleket_key cfg) \<and> pl_loads lib raw = Some (JObj (ne_payload n)) \<and>
          (\<exists>sign. dict_value (ne_payload n) ''sign'' = JStr sign \<and>
             lower (strip sign) = heleket_signature lib (or_else (pg_heleket_key cfg) []) (ne_payload n)) \<or>
        provider = ''dummy''))"
proof -
  obtain a where reg: "PaymentAdapterRegistry_get cfg provider = Inr a"
    and ver: "adapter_verify lib cfg a now raw (map (\<lambda>(k, v). (k, py_str (pl_repr lib) v)) headers) = Inr n"
    using assms by (auto simp: registry_verify_def bindE_eq_Inr)
  have prov: "(provider, a) \<in> set (registered_adapters cfg)"
    using reg by (simp add: PaymentAdapterRegistry_get_def map_of_SomeD)
  then have only: "pg_production cfg \<longrightarrow> provider = ''yookassa''" by (auto simp: registered_adapters_def)
  show ?thesis
  proof (cases a)
    case YooKassaAdapter
    then have p: "provider = ''yookassa''" using prov by (auto simp: registered_adapters_def split: if_splits)
    have "YooKassaAdapter_verify lib cfg now raw (map (\<lambda>(k, v). (k, py_str (pl_repr lib) v)) headers) = Inr n"
      using ver YooKassaAdapter by (simp add: adapter_verify_def)
    from yookassa_accepts [OF this, unfolded yookassa_confirms_def read_from_object_def conj_assoc] show ?thesis
      unfolding p by (elim conjE) (intro conjI disjI1 refl; assumption)
  next
    case DummyPaymentAdapter
    then have p: "provider = ''dummy''" using prov by (auto simp: registered_adapters_def split: if_splits)
    show ?thesis using ver DummyPaymentAdapter dummy_accepts unfolding p by (simp add: adapter_verify_def)
  next
    case CryptoBotAdapter
    then have p: "provider = ''cryptobot''" using prov by (auto simp: registered_adapters_def split: if_splits)
    have "CryptoBotAdapter_verify lib cfg now raw (map (\<lambda>(k, v). (k, py_str (pl_repr lib) v)) headers) = Inr n"
      using ver CryptoBotAdapter by (simp add: adapter_verify_def)
    from cryptobot_accepts [OF this] show ?thesis using only unfolding p by auto
  next
    case HeleketAdapter
    then have p: "provider = ''heleket''" using prov by (auto simp: registered_adapters_def split: if_splits)
    have "HeleketAdapter_verify lib cfg now raw (map (\<lambda>(k, v). (k, py_str (pl_repr lib) v)) headers) = Inr n" using ver HeleketAdapter by (simp add: adapter_verify_def)
    from heleket_accepts [OF this] show ?thesis using only unfolding p by auto
  next
    case TonAdapter
    then show ?thesis using ver by (simp add: adapter_verify_def TonAdapter_verify_def)
  qed
qed

lemma sample_payment_accepted:
  "\<exists>n. registry_verify sample_priced_pay sample_pay_settings 7 ''yookassa'' ''raw'' [] = Inr n \<and> ne_status n = Some PS_PAID \<and>
     ne_amount_minor n = Some 19900"
  using amount_read_back [of 19900 sample_priced_pay]
  by (simp add: registry_verify_def PaymentAdapterRegistry_get_def require_def registered_adapters_def adapter_verify_def
      YooKassaAdapter_verify_def parse_object_def yookassa_fetch_def sample_priced_pay_def sample_pay_def sample_pay_settings_def
      sample_object_def dict_value_def dict_get_def value_or_def configured_def or_else_def yookassa_normalize_payment_def optional_object_def
      text_int_def is_blank_value_def yookassa_status_def lower_def lower_char_def strip_def lstrip_def is_space_def Let_def)

theorem accepted_webhook_is_authentic_witness:
  "\<exists>n i d amount. registry_verify sample_priced_pay sample_pay_settings 7 ''yookassa'' ''raw'' [] = Inr n \<and> ne_status n = Some PS_PAID \<and>
     ne_amount_minor n = Some 19900 \<and>
     yookassa_fetch sample_priced_pay sample_pay_settings False i = Some (JObj d) \<and> dict_value d ''id'' = JStr i \<and> ne_provider_payment_id n = Some i \<and>
     optional_object ''YooKassa amount is invalid'' (dict_value d ''amount'') = Inr amount \<and>
     money_to_minor sample_priced_pay (dict_value amount ''value'') = Inr (ne_amount_minor n)"
proof -
  obtain n where n: "registry_verify sample_priced_pay sample_pay_settings 7 ''yookassa'' ''raw'' [] = Inr n" "ne_status n = Some PS_PAID"
      "ne_amount_minor n = Some 19900"
    using sample_payment_accepted by blast
  have production: "pg_production sample_pay_settings" by (simp add: sample_pay_settings_def)
  note authentic = accepted_webhook_is_authentic [OF n(1)]
  then show ?thesis
  proof (elim conjE disjE exE, goal_cases)
    case (1 body obj i d refund amount)
    then have paid: "\<not> refund" using n(2) by (cases refund) simp_all
    have "ne_provider_payment_id n = Some i" "yookassa_fetch sample_priced_pay sample_pay_settings False i = Some (JObj d)"
      using 1 paid by simp_all
    moreover have "dict_value d ''id'' = JStr i" "optional_object ''YooKassa amount is invalid'' (dict_value d ''amount'') = Inr amount"
      "money_to_minor sample_priced_pay (dict_value amount ''value'') = Inr (ne_amount_minor n)"
      by (rule 1)+
    ultimately show ?case using n by blast
  qed (use production in simp_all)
qed

text \<open>C31. The amount the shop asks YooKassa for is read back exactly: the text with two decimals that a payment is created with is converted by the
  webhook's normalisation to the same number of minor units.\<close>

theorem yookassa_amount_roundtrip:
  assumes "0 \<le> m" and "m < 10 ^ 26"
  shows "money_to_minor lib (JStr (yookassa_amount m)) = Inr (Some m)"
  by (rule amount_read_back [OF assms])

theorem yookassa_amount_roundtrip_witness: "money_to_minor sample_pay (JStr (yookassa_amount 19905)) = Inr (Some 19905)"
  using yookassa_amount_roundtrip [of 19905] by simp

end
