(* ===== verification/Legacy.thy ===== *)
theory Legacy
  imports ProcessPay VpnConfig
begin

text \<open>
  The compatibility services (\<^verbatim>\<open>domain/subscriptions/service.py\<close>, \<^verbatim>\<open>domain/vpn/service.py\<close>) and the row-level operations of the
  subscription repository they are written against.

  \<^verbatim>\<open>SubscriptionService\<close> promises to preserve the interface older extensions use without duplicating the rules. What that means is
  \<open>legacy_activation_is_activation\<close>: on the subscription repository it does what \<^verbatim>\<open>ActivateSubscription\<close> does.
\<close>

section \<open>Row-level operations of the subscription repository\<close>

definition subscriptions_lock_active_subscription_for_user :: "int \<Rightarrow> Subscription option tx" where
  "subscriptions_lock_active_subscription_for_user user_id =
     readT (\<lambda>s. find_row (\<lambda>r. su_user_id r = user_id \<and> su_status r = SS_ACTIVE) (d_subs s))"

definition subscriptions_get_subscription :: "int \<Rightarrow> Subscription option tx" where
  "subscriptions_get_subscription subscription_id = readT (\<lambda>s. get_row su_id subscription_id (d_subs s))"

definition subscriptions_create_subscription :: "int \<Rightarrow> int \<Rightarrow> SubscriptionStatus \<Rightarrow> time \<Rightarrow> int tx" where
  "subscriptions_create_subscription user_id tariff_id status created_at =
     bindT (readT d_subs) (\<lambda>t.
     let (row, t') = insert_row (\<lambda>i r. r\<lparr>su_id := Some i\<rparr>)
           \<lparr>su_id = None, su_user_id = user_id, su_tariff_id = tariff_id, su_status = status,
            su_created_at = created_at, su_ended_at = None\<rparr> t in
     bindT (put_subs t') (\<lambda>_. retT (next_id t)))"

definition subscriptions_end_subscription :: "int \<Rightarrow> time option \<Rightarrow> SubscriptionStatus \<Rightarrow> unit tx" where
  "subscriptions_end_subscription subscription_id ended_at status =
     bindT (readT d_subs) (\<lambda>t.
     put_subs (update_row su_id subscription_id (\<lambda>r. r\<lparr>su_status := status, su_ended_at := ended_at\<rparr>) t))"

definition subscriptions_lock_last_period :: "int \<Rightarrow> SubscriptionPeriod option tx" where
  "subscriptions_lock_last_period subscription_id =
     readT (\<lambda>s. top_by sp_expires_at (select_rows (\<lambda>p. sp_subscription_id p = Some subscription_id) (d_periods s)))"

definition subscriptions_create_period :: "int \<Rightarrow> time \<Rightarrow> time \<Rightarrow> bool \<Rightarrow> time \<Rightarrow> int option \<Rightarrow> int tx" where
  "subscriptions_create_period subscription_id starts_at expires_at is_paid created_at payment_order_id =
     bindT (readT d_periods) (\<lambda>t.
     let (row, t') = insert_row (\<lambda>i r. r\<lparr>sp_id := Some i\<rparr>)
           \<lparr>sp_id = None, sp_subscription_id = Some subscription_id, sp_starts_at = starts_at, sp_expires_at = expires_at,
            sp_is_paid = is_paid, sp_created_at = created_at, sp_payment_order_id = payment_order_id\<rparr> t in
     bindT (put_periods t') (\<lambda>_. retT (next_id t)))"

section \<open>The subscription facade\<close>

record SubscriptionActivationResult =
  ar_subscription_id :: int
  ar_subscription_period_id :: int
  ar_starts_at :: time
  ar_expires_at :: time
  ar_created_new_subscription :: bool

definition subscription_from_legacy_row :: "Subscription \<Rightarrow> Subscription res" where
  "subscription_from_legacy_row row = Subscription_post_init row"

definition period_from_legacy_row :: "SubscriptionPeriod option \<Rightarrow> int option \<Rightarrow> SubscriptionPeriod option res" where
  "period_from_legacy_row row subscription_id =
     (case row of
        None \<Rightarrow> Inr None
      | Some r \<Rightarrow> bindE (SubscriptionPeriod_post_init (r\<lparr>sp_subscription_id := subscription_id, sp_payment_order_id := None\<rparr>)) (\<lambda>p.
                  Inr (Some p)))"

definition legacy_last_row :: "Subscription option \<Rightarrow> int \<Rightarrow> SubscriptionPeriod option tx" where
  "legacy_last_row active tariff_id =
     (case active of
        None \<Rightarrow> retT None
      | Some a \<Rightarrow>
          (case su_id a of
             None \<Rightarrow> retT None
           | Some i \<Rightarrow> if su_tariff_id a = tariff_id then subscriptions_lock_last_period i else retT None))"

definition legacy_end_replaced :: "Subscription option \<Rightarrow> unit tx" where
  "legacy_end_replaced replaced =
     (case replaced of
        None \<Rightarrow> retT ()
      | Some r \<Rightarrow> (case su_id r of None \<Rightarrow> retT () | Some i \<Rightarrow> subscriptions_end_subscription i (su_ended_at r) (su_status r)))"

definition legacy_subscription_id :: "SubscriptionActivation \<Rightarrow> int tx" where
  "legacy_subscription_id activation =
     (let sub = sa_subscription activation in
      if sa_created_new_subscription activation
      then subscriptions_create_subscription (su_user_id sub) (su_tariff_id sub) (su_status sub) (su_created_at sub)
      else (case su_id sub of
              None \<Rightarrow> raiseT (RuntimeError ''Existing subscription has no id'')
            | Some i \<Rightarrow> retT i))"

definition SubscriptionService_apply_paid_period ::
  "int \<Rightarrow> int \<Rightarrow> int \<Rightarrow> time \<Rightarrow> SubscriptionActivationResult tx" where
  "SubscriptionService_apply_paid_period user_id tariff_id period_days now =
     bindT (subscriptions_lock_active_subscription_for_user user_id) (\<lambda>active_row.
     bindT (entityT subscription_from_legacy_row active_row) (\<lambda>active.
     bindT (legacy_last_row active tariff_id) (\<lambda>last_row.
     bindT (liftT (period_from_legacy_row last_row (case active of None \<Rightarrow> None | Some a \<Rightarrow> su_id a))) (\<lambda>last_period.
     bindT (liftT (apply_paid_period active last_period user_id tariff_id period_days now)) (\<lambda>activation.
     bindT (legacy_end_replaced (sa_replaced_subscription activation)) (\<lambda>_.
     bindT (legacy_subscription_id activation) (\<lambda>subscription_id.
     let period = sa_period activation in
     bindT (subscriptions_create_period subscription_id (sp_starts_at period) (sp_expires_at period) (sp_is_paid period)
              (sp_created_at period) None) (\<lambda>period_id.
     retT \<lparr>ar_subscription_id = subscription_id, ar_subscription_period_id = period_id, ar_starts_at = sp_starts_at period,
           ar_expires_at = sp_expires_at period, ar_created_new_subscription = sa_created_new_subscription activation\<rparr>))))))))"

text \<open>What the facade reports of an activation.\<close>

definition activation_result :: "SubscriptionActivation \<Rightarrow> SubscriptionActivationResult" where
  "activation_result a =
     \<lparr>ar_subscription_id = (case su_id (sa_subscription a) of None \<Rightarrow> 0 | Some i \<Rightarrow> i),
      ar_subscription_period_id = (case sp_id (sa_period a) of None \<Rightarrow> 0 | Some i \<Rightarrow> i),
      ar_starts_at = sp_starts_at (sa_period a), ar_expires_at = sp_expires_at (sa_period a),
      ar_created_new_subscription = sa_created_new_subscription a\<rparr>"

section \<open>The configuration facade\<close>

record PreparedVpnConfiguration =
  pc_client_uuid :: uuid
  pc_display_name :: string
  pc_built :: string

text \<open>The facade draws a fresh client identifier; the endpoint parameters are passed to the builder as they are.\<close>

definition VpnService_prepare_configuration :: "uuid \<Rightarrow> VlessBuildInput \<Rightarrow> PreparedVpnConfiguration" where
  "VpnService_prepare_configuration uuid4 endpoint =
     \<lparr>pc_client_uuid = uuid4, pc_display_name = vb_display_name endpoint,
      pc_built = VlessUriBuilder_build (endpoint\<lparr>vb_client_uuid := uuid4\<rparr>)\<rparr>"

section \<open>Agreement with the use case\<close>

lemma create_subscription_is_add:
  assumes "su_ended_at sub = None"
  shows "subscriptions_create_subscription (su_user_id sub) (su_tariff_id sub) (su_status sub) (su_created_at sub) s =
     (case subscriptions_add_entity sub s of Inl e \<Rightarrow> Inl e
      | Inr (x, s') \<Rightarrow> Inr (next_id (d_subs s), s'))"
  using assms
  by (cases sub) (simp add: subscriptions_create_subscription_def subscriptions_add_entity_def insert_row_def Let_def
      bindT_def put_subs_def writeT_def readT_def retT_def)

lemma end_subscription_is_save:
  assumes "su_id r = Some i" and "\<And>x. x \<in> set (rows (d_subs s)) \<Longrightarrow> su_id x = Some i \<Longrightarrow> su_tariff_id x = su_tariff_id r"
  shows "subscriptions_end_subscription i (su_ended_at r) (su_status r) s = subscriptions_save_entity r s"
proof -
  have "update_row su_id i (\<lambda>x. x\<lparr>su_status := su_status r, su_ended_at := su_ended_at r\<rparr>) (d_subs s) =
        update_row su_id i (\<lambda>x. x\<lparr>su_tariff_id := su_tariff_id r, su_status := su_status r, su_ended_at := su_ended_at r\<rparr>) (d_subs s)"
    using assms(2) by (auto simp: update_row_def update_where_def intro!: map_cong)
  then show ?thesis
    using assms(1) by (simp add: subscriptions_end_subscription_def subscriptions_save_entity_def bindT_def readT_def)
qed

lemma save_unchanged_subscription:
  assumes "table_wf su_id (d_subs s)" and "subs_constraints (d_subs s)"
    and "sub \<in> set (rows (d_subs s))" and "su_id sub = Some i"
  shows "subscriptions_save_entity sub s = Inr ((), s)"
proof -
  have "x\<lparr>su_tariff_id := su_tariff_id sub, su_status := su_status sub, su_ended_at := su_ended_at sub\<rparr> = x"
    if "x \<in> set (rows (d_subs s))" "su_id x = Some i" for x
  proof -
    have "x = sub" using subs_tab.wf_unique [OF assms(1) that(1) assms(3)] that(2) assms(4) by simp
    then show ?thesis by simp
  qed
  then have "update_row su_id i (\<lambda>x. x\<lparr>su_tariff_id := su_tariff_id sub, su_status := su_status sub, su_ended_at := su_ended_at sub\<rparr>) (d_subs s) = d_subs s"
    by (simp add: update_row_def update_where_def map_idI cong: if_cong)
  then show ?thesis
    using assms(2,4) by (simp add: subscriptions_save_entity_def bindT_def readT_def put_subs_def writeT_def)
qed

lemma create_period_is_add:
  assumes "sp_payment_order_id p = None"
  shows "subscriptions_create_period i (sp_starts_at p) (sp_expires_at p) (sp_is_paid p) (sp_created_at p) None s =
     (case subscriptions_add_period_entity (p\<lparr>sp_subscription_id := Some i, sp_payment_order_id := None\<rparr>) s of
        Inl e \<Rightarrow> Inl e | Inr (x, s') \<Rightarrow> Inr (next_id (d_periods s), s'))"
  using assms
  by (cases p) (simp add: subscriptions_create_period_def subscriptions_add_period_entity_def insert_row_def Let_def
      bindT_def put_periods_def writeT_def readT_def retT_def)

lemma apply_paid_period_shape:
  assumes "apply_paid_period active lp u t d now = Inr a"
    and "\<forall>x. active = Some x \<longrightarrow> su_status x = SS_ACTIVE"
  shows "sp_payment_order_id (sa_period a) = None"
    and "sa_created_new_subscription a \<Longrightarrow> su_ended_at (sa_subscription a) = None"
    and "\<not> sa_created_new_subscription a \<Longrightarrow> active = Some (sa_subscription a) \<and> sa_replaced_subscription a = None"
    and "sa_replaced_subscription a = Some r \<Longrightarrow> \<exists>x. active = Some x \<and> su_id r = su_id x \<and> su_tariff_id r = su_tariff_id x"
  using assms
  by (auto simp: apply_paid_period_def bindE_def Subscription_start_def Subscription_post_init_def Subscription_extend_def
      SubscriptionPeriod_post_init_def ensure_def Subscription_expire_def Let_def split: sum.splits option.splits if_splits)

lemma apply_paid_period_last_expiry:
  assumes "map_option sp_expires_at lp = map_option sp_expires_at lp'"
  shows "apply_paid_period active lp u t d now = apply_paid_period active lp' u t d now"
proof -
  have "Subscription_extend sub n now lp p oid = Subscription_extend sub n now lp' p oid" for sub n p oid
    using assms by (cases lp; cases lp') (simp_all add: Subscription_extend_def)
  then show ?thesis
    by (cases active) (simp_all add: apply_paid_period_def bindE_def split: sum.splits)
qed

lemma period_from_legacy_row_agrees:
  "entityT subscription_period_from_row r s =
     (case period_from_legacy_row r i of Inl e \<Rightarrow> Inl e | Inr _ \<Rightarrow> Inr (r, s))"
  "period_from_legacy_row r i = Inr r' \<Longrightarrow> map_option sp_expires_at r' = map_option sp_expires_at r"
  by (cases r; auto simp: period_from_legacy_row_def entityT_def subscription_period_from_row_def SubscriptionPeriod_post_init_def
      bindE_def ensure_def bindT_def liftT_def retT_def split: if_splits)+

text \<open>The writes of the facade are those of \<open>persist_activation\<close>.\<close>

definition legacy_persist :: "SubscriptionActivation \<Rightarrow> SubscriptionActivationResult tx" where
  "legacy_persist activation =
     bindT (legacy_end_replaced (sa_replaced_subscription activation)) (\<lambda>_.
     bindT (legacy_subscription_id activation) (\<lambda>subscription_id.
     let period = sa_period activation in
     bindT (subscriptions_create_period subscription_id (sp_starts_at period) (sp_expires_at period) (sp_is_paid period)
              (sp_created_at period) None) (\<lambda>period_id.
     retT \<lparr>ar_subscription_id = subscription_id, ar_subscription_period_id = period_id, ar_starts_at = sp_starts_at period,
           ar_expires_at = sp_expires_at period, ar_created_new_subscription = sa_created_new_subscription activation\<rparr>)))"

lemma add_period_result:
  "subscriptions_add_period_entity p s = Inr (p', s') \<Longrightarrow>
     sp_id p' = Some (next_id (d_periods s)) \<and> sp_starts_at p' = sp_starts_at p \<and> sp_expires_at p' = sp_expires_at p"
  by (auto simp: subscriptions_add_period_entity_def insert_row_def Let_def bindT_def put_periods_def writeT_def readT_def
      retT_def raiseT_def split: option.splits if_splits)

lemma legacy_period_step:
  assumes "sp_payment_order_id p = None" and "su_id sub = Some i"
  shows "bindT (subscriptions_create_period i (sp_starts_at p) (sp_expires_at p) (sp_is_paid p) (sp_created_at p) None) (\<lambda>period_id.
     retT \<lparr>ar_subscription_id = i, ar_subscription_period_id = period_id, ar_starts_at = sp_starts_at p,
           ar_expires_at = sp_expires_at p, ar_created_new_subscription = sa_created_new_subscription a\<rparr>) s =
   (case bindT (subscriptions_add_period_entity (p\<lparr>sp_subscription_id := su_id sub, sp_payment_order_id := None\<rparr>)) (\<lambda>period.
     retT (a\<lparr>sa_subscription := sub, sa_period := period\<rparr>)) s of
     Inl e \<Rightarrow> Inl e | Inr (a', s') \<Rightarrow> Inr (activation_result a', s'))"
proof (cases "subscriptions_add_period_entity (p\<lparr>sp_subscription_id := Some i, sp_payment_order_id := None\<rparr>) s")
  case (Inl e)
  then show ?thesis using create_period_is_add [OF assms(1), of i s] assms(2) by (simp add: bindT_def)
next
  case (Inr y)
  obtain p' s' where y: "y = (p', s')" by (cases y)
  have "sp_id p' = Some (next_id (d_periods s)) \<and> sp_starts_at p' = sp_starts_at p \<and> sp_expires_at p' = sp_expires_at p"
    using add_period_result [OF Inr [unfolded y]] by simp
  then show ?thesis
    using create_period_is_add [OF assms(1), of i s] assms(2) Inr y by (simp add: bindT_def retT_def activation_result_def)
qed

lemma legacy_new_subscription:
  assumes "sp_payment_order_id (sa_period a) = None" and "su_ended_at (sa_subscription a) = None" and "sa_created_new_subscription a"
  shows "bindT (legacy_subscription_id a) (\<lambda>i. bindT (subscriptions_create_period i (sp_starts_at (sa_period a)) (sp_expires_at (sa_period a))
          (sp_is_paid (sa_period a)) (sp_created_at (sa_period a)) None) (\<lambda>pid.
        retT \<lparr>ar_subscription_id = i, ar_subscription_period_id = pid, ar_starts_at = sp_starts_at (sa_period a),
           ar_expires_at = sp_expires_at (sa_period a), ar_created_new_subscription = sa_created_new_subscription a\<rparr>)) s =
      (case bindT (subscriptions_add_entity (sa_subscription a)) (\<lambda>sub. bindT (subscriptions_add_period_entity
          ((sa_period a)\<lparr>sp_subscription_id := su_id sub, sp_payment_order_id := None\<rparr>)) (\<lambda>period.
        retT (a\<lparr>sa_subscription := sub, sa_period := period\<rparr>))) s of Inl e \<Rightarrow> Inl e | Inr (a', s') \<Rightarrow> Inr (activation_result a', s'))"
proof (cases "subscriptions_add_entity (sa_subscription a) s")
  case (Inl e)
  then show ?thesis using create_subscription_is_add [OF assms(2), of s] assms(3) by (simp add: bindT_def [where s = s] legacy_subscription_id_def Let_def)
next
  case (Inr y)
  obtain sub s2 where y: "y = (sub, s2)" by (cases y)
  then have "su_id sub = Some (next_id (d_subs s))"
    using Inr by (auto simp: subscriptions_add_entity_def insert_row_def Let_def bindT_def put_subs_def writeT_def readT_def retT_def split: if_splits)
  then show ?thesis
    using legacy_period_step [OF assms(1), of sub "next_id (d_subs s)" a s2] create_subscription_is_add [OF assms(2), of s] assms(3) Inr y
    by (simp add: bindT_def [where s = s] legacy_subscription_id_def Let_def)
qed

lemma legacy_end_replaced_is_save:
  assumes "table_wf su_id (d_subs s)" and "x \<in> set (rows (d_subs s))" and "su_id r = su_id x" and "su_tariff_id r = su_tariff_id x"
  shows "legacy_end_replaced (Some r) s = subscriptions_save_entity r s"
proof -
  obtain i where i: "su_id r = Some i" using subs_tab.wf_row_range [OF assms(1,2)] assms(3) by metis
  have "su_tariff_id z = su_tariff_id r" if "z \<in> set (rows (d_subs s))" "su_id z = Some i" for z
    using subs_tab.wf_unique [OF assms(1) that(1) assms(2)] that(2) i assms(3,4) by simp
  then show ?thesis using i end_subscription_is_save [OF i] by (simp add: legacy_end_replaced_def)
qed

lemma legacy_persist_is_persist:
  assumes wf: "table_wf su_id (d_subs s)" "subs_constraints (d_subs s)"
    and a: "apply_paid_period active lp u t d now = Inr a"
    and act: "\<forall>x. active = Some x \<longrightarrow> x \<in> set (rows (d_subs s)) \<and> su_status x = SS_ACTIVE"
  shows "legacy_persist a s = (case persist_activation a None s of Inl e \<Rightarrow> Inl e | Inr (a', s') \<Rightarrow> Inr (activation_result a', s'))"
proof -
  have "\<forall>x. active = Some x \<longrightarrow> su_status x = SS_ACTIVE" using act by blast
  note shape = apply_paid_period_shape [OF a this]
  show ?thesis
  proof (cases "sa_created_new_subscription a")
    case False
    then obtain i where i: "active = Some (sa_subscription a)" "sa_replaced_subscription a = None" "su_id (sa_subscription a) = Some i"
      using shape(3) act subs_tab.wf_row_range [OF wf(1)] by metis
    have "subscriptions_save_entity (sa_subscription a) s = Inr ((), s)"
      using save_unchanged_subscription [OF wf _ i(3)] act i(1) by blast
    then show ?thesis
      using legacy_period_step [OF shape(1) i(3), of a s] False i
      by (simp add: legacy_persist_def persist_activation_def legacy_end_replaced_def legacy_subscription_id_def Let_def bindT_def [where s = s] retT_def)
  next
    case True
    have rep: "legacy_end_replaced (sa_replaced_subscription a) s =
        (case sa_replaced_subscription a of None \<Rightarrow> retT () | Some r \<Rightarrow> subscriptions_save_entity r) s"
    proof (cases "sa_replaced_subscription a")
      case (Some r)
      then show ?thesis using shape(4) act legacy_end_replaced_is_save [OF wf(1)] by (metis option.case(2))
    qed (simp add: legacy_end_replaced_def)
    show ?thesis
    proof (cases "legacy_end_replaced (sa_replaced_subscription a) s")
      case (Inl e)
      then show ?thesis using rep by (simp add: legacy_persist_def persist_activation_def bindT_def [where s = s])
    next
      case (Inr y)
      then show ?thesis using rep legacy_new_subscription [OF shape(1) shape(2) [OF True] True, of "snd y"] True
        by (cases y) (simp add: legacy_persist_def persist_activation_def bindT_def [where s = s] Let_def)
    qed
  qed
qed

lemma last_row_agrees:
  "\<exists>lr. legacy_last_row r tariff_id s = Inr (lr, s) \<and> last_period_of_active r tariff_id s = entityT subscription_period_from_row lr s"
  by (auto simp: legacy_last_row_def last_period_of_active_def subscriptions_lock_last_period_def subscriptions_get_last_period_entity_def
      readT_def retT_def bindT_def entityT_def split: option.splits)

lemma post_init_keeps: "Subscription_post_init x = Inr y \<Longrightarrow> y = x"
  by (simp add: Subscription_post_init_def bindE_def ensure_def split: if_splits)

lemma loaded_subscription:
  "entityT subscription_from_row r s =
     (case r of None \<Rightarrow> Inr (None, s) | Some x \<Rightarrow> (case Subscription_post_init x of Inl e \<Rightarrow> Inl e | Inr _ \<Rightarrow> Inr (r, s)))"
  by (cases r) (auto simp: entityT_def subscription_from_row_def bindT_def liftT_def retT_def dest: post_init_keeps split: sum.splits)

lemma active_row_found:
  "find_row (\<lambda>r. su_user_id r = u \<and> su_status r = SS_ACTIVE) t = Some x \<Longrightarrow> x \<in> set (rows t) \<and> su_status x = SS_ACTIVE"
  unfolding find_row_def by (metis (mono_tags, lifting) find_Some_iff nth_mem)

lemma legacy_continuation:
  assumes "table_wf su_id (d_subs s)" and "subs_constraints (d_subs s)"
    and "\<forall>x. r = Some x \<longrightarrow> x \<in> set (rows (d_subs s)) \<and> su_status x = SS_ACTIVE"
  shows "bindT (legacy_last_row r tariff_id) (\<lambda>last_row.
     bindT (liftT (period_from_legacy_row last_row i)) (\<lambda>last_period.
     bindT (liftT (apply_paid_period r last_period user_id tariff_id period_days now)) legacy_persist)) s =
   (case bindT (last_period_of_active r tariff_id) (\<lambda>last_period.
     bindT (liftT (apply_paid_period r last_period user_id tariff_id period_days now)) (\<lambda>a. persist_activation a None)) s of
        Inl e \<Rightarrow> Inl e | Inr (a, s') \<Rightarrow> Inr (activation_result a, s'))"
proof -
  obtain lr where lr: "legacy_last_row r tariff_id s = Inr (lr, s)"
      "last_period_of_active r tariff_id s = entityT subscription_period_from_row lr s" using last_row_agrees by blast
  show ?thesis
  proof (cases "period_from_legacy_row lr i")
    case (Inl e)
    then show ?thesis using lr period_from_legacy_row_agrees(1) [of lr s i] by (simp add: bindT_def [where s = s] liftT_def)
  next
    case (Inr lp)
    have ap: "apply_paid_period r lp user_id tariff_id period_days now = apply_paid_period r lr user_id tariff_id period_days now"
      by (rule apply_paid_period_last_expiry) (rule period_from_legacy_row_agrees(2) [OF Inr])
    show ?thesis
    proof (cases "apply_paid_period r lr user_id tariff_id period_days now")
      case (Inl e)
      then show ?thesis using lr Inr ap period_from_legacy_row_agrees(1) [of lr s i] by (simp add: bindT_def [where s = s] liftT_def)
    next
      case act: (Inr a)
      show ?thesis
        using legacy_persist_is_persist [OF assms(1,2) act assms(3)] lr Inr ap act period_from_legacy_row_agrees(1) [of lr s i]
        by (simp add: bindT_def [where s = s] liftT_def)
    qed
  qed
qed

text \<open>C39. The compatibility facade does what the use case does: on every database whose subscription rows satisfy the table's constraints,
  \<^verbatim>\<open>SubscriptionService.apply_paid_period\<close> succeeds exactly when \<^verbatim>\<open>ActivateSubscription\<close> without an order does, with the same
  error or the same reported activation, and leaves the same database.\<close>

theorem legacy_activation_is_activation:
  assumes "table_wf su_id (d_subs s)" and "subs_constraints (d_subs s)"
  shows "SubscriptionService_apply_paid_period user_id tariff_id period_days now s =
     (case ActivateSubscription_execute user_id tariff_id period_days now None s of
        Inl e \<Rightarrow> Inl e | Inr (a, s') \<Rightarrow> Inr (activation_result a, s'))"
proof -
  define r where "r = find_row (\<lambda>r. su_user_id r = user_id \<and> su_status r = SS_ACTIVE) (d_subs s)"
  have "\<forall>x. r = Some x \<longrightarrow> x \<in> set (rows (d_subs s)) \<and> su_status x = SS_ACTIVE"
    unfolding r_def using active_row_found by blast
  note agree = legacy_continuation [OF assms this, where i = "case r of None \<Rightarrow> None | Some a \<Rightarrow> su_id a", of tariff_id user_id period_days now]
  have legacy: "SubscriptionService_apply_paid_period user_id tariff_id period_days now s =
      bindT (entityT subscription_from_row r) (\<lambda>active. bindT (legacy_last_row active tariff_id) (\<lambda>last_row.
      bindT (liftT (period_from_legacy_row last_row (case active of None \<Rightarrow> None | Some a \<Rightarrow> su_id a))) (\<lambda>last_period.
      bindT (liftT (apply_paid_period active last_period user_id tariff_id period_days now)) legacy_persist))) s"
    unfolding SubscriptionService_apply_paid_period_def legacy_persist_def [abs_def] subscriptions_lock_active_subscription_for_user_def
      subscription_from_legacy_row_def [abs_def] subscription_from_row_def [abs_def] r_def
    by (simp add: bindT_def [where s = s] readT_def)
  have use: "ActivateSubscription_execute user_id tariff_id period_days now None s =
      bindT (entityT subscription_from_row r) (\<lambda>active. bindT (last_period_of_active active tariff_id) (\<lambda>last_period.
      bindT (liftT (apply_paid_period active last_period user_id tariff_id period_days now)) (\<lambda>a. persist_activation a None))) s"
    unfolding ActivateSubscription_execute_def subscriptions_get_active_entity_for_user_def r_def
    by (simp add: bindT_def [where s = s] readT_def)
  show ?thesis
  proof (cases "entityT subscription_from_row r s")
    case (Inl e)
    then show ?thesis unfolding legacy use by (simp add: bindT_def [where s = s])
  next
    case (Inr y)
    then have "y = (r, s)" by (simp add: loaded_subscription split: option.splits sum.splits)
    then show ?thesis unfolding legacy use using agree Inr by (simp add: bindT_def [where s = s and m = "entityT subscription_from_row r"])
  qed
qed

definition one_subscription_db :: db where
  "one_subscription_db = (empty_db 0)\<lparr>
     d_subs := \<lparr>rows = [\<lparr>su_id = Some 1, su_user_id = 7, su_tariff_id = 3, su_status = SS_ACTIVE, su_created_at = 0, su_ended_at = None\<rparr>],
                next_id = 2\<rparr>,
     d_periods := \<lparr>rows = [\<lparr>sp_id = Some 1, sp_subscription_id = Some 1, sp_starts_at = 0, sp_expires_at = days 30, sp_is_paid = True,
                     sp_created_at = 0, sp_payment_order_id = Some 5\<rparr>], next_id = 2\<rparr>\<rparr>"

theorem legacy_activation_is_activation_witness:
  "table_wf su_id (d_subs one_subscription_db) \<and> subs_constraints (d_subs one_subscription_db) \<and>
   (case SubscriptionService_apply_paid_period 7 3 10 (days 20) one_subscription_db of
      Inl _ \<Rightarrow> False | Inr (r, s') \<Rightarrow> ar_starts_at r = days 30 \<and> ar_expires_at r = days 40 \<and> length (rows (d_periods s')) = 2)"
proof -
  have wf: "table_wf su_id (d_subs one_subscription_db)" "subs_constraints (d_subs one_subscription_db)" by code_simp+
  have "case ActivateSubscription_execute 7 3 10 (days 20) None one_subscription_db of
      Inl _ \<Rightarrow> False | Inr (a, s') \<Rightarrow> ar_starts_at (activation_result a) = days 30 \<and> ar_expires_at (activation_result a) = days 40 \<and>
        length (rows (d_periods s')) = 2" by code_simp
  then show ?thesis using wf legacy_activation_is_activation [OF wf, of 7 3 10 "days 20"] by (simp split: sum.splits prod.splits)
qed

end
