(* ===== verification/Listings.thy ===== *)
theory Listings
  imports NodeAdmin Reconcile NodeAuth
begin

text \<open>
  What administrators and customers read: the listings of the repositories, \<^verbatim>\<open>AdminOperations\<close>, the query services
  (\<^verbatim>\<open>application/queries\<close>), the administration routes with their pagination (\<^verbatim>\<open>apps/api\<close>) and the dashboard of a customer.

  A listing is a query ordered by a key. The routes ask for one row more than a page holds, tell by it whether more rows follow and cut
  it off. The locale \<open>paged\<close> states what a client of such a route relies on; it is interpreted for every paginated route.
\<close>

section \<open>Queries\<close>

definition newest_first :: "('r \<Rightarrow> time) \<Rightarrow> ('r \<Rightarrow> int option) \<Rightarrow> 'r list \<Rightarrow> 'r list" where
  "newest_first created key rs = sort_key (\<lambda>r. (- created r, - opt_id (key r))) rs"

definition limit_offset :: "nat \<Rightarrow> nat \<Rightarrow> 'r list \<Rightarrow> 'r list" where
  "limit_offset limit offset rs = take limit (drop offset rs)"

definition tariff_of :: "Subscription \<Rightarrow> db \<Rightarrow> Tariff list" where
  "tariff_of r s = filter (\<lambda>t. ta_id t = Some (su_tariff_id r)) (rows (d_tariffs s))"

definition all_subscriptions :: "db \<Rightarrow> (Subscription \<times> Tariff) list" where
  "all_subscriptions s =
     newest_first (\<lambda>(r, t). su_created_at r) (\<lambda>(r, t). su_id r) [(r, t). r \<leftarrow> rows (d_subs s), t \<leftarrow> tariff_of r s]"

definition subscriptions_list_subscriptions :: "nat \<Rightarrow> nat \<Rightarrow> (Subscription \<times> Tariff) list tx" where
  "subscriptions_list_subscriptions limit offset = readT (\<lambda>s. limit_offset limit offset (all_subscriptions s))"

definition endpoint_rows :: "VpnConfiguration \<Rightarrow> db \<Rightarrow> (EndpointRow \<times> ServerRow) list" where
  "endpoint_rows v s = filter (\<lambda>(e, sv). en_id e = Some (vc_server_endpoint_id v)) (endpoints_with_server s)"

definition all_configurations :: "db \<Rightarrow> (VpnConfiguration \<times> ServerRow) list" where
  "all_configurations s =
     newest_first (\<lambda>(v, sv). opt_time (vc_created_at v)) (\<lambda>(v, sv). vc_id v)
       [(v, sv). v \<leftarrow> rows (d_vpns s), (e, sv) \<leftarrow> endpoint_rows v s]"

definition vpn_list_configurations :: "nat \<Rightarrow> nat \<Rightarrow> (VpnConfiguration \<times> ServerRow) list tx" where
  "vpn_list_configurations limit offset = readT (\<lambda>s. limit_offset limit offset (all_configurations s))"

definition all_orders :: "db \<Rightarrow> PaymentOrder list" where
  "all_orders s = newest_first (\<lambda>r. opt_time (po_created_at r)) po_id (rows (d_orders s))"

definition payments_list_orders :: "nat \<Rightarrow> nat \<Rightarrow> PaymentOrder list tx" where
  "payments_list_orders limit offset = readT (\<lambda>s. limit_offset limit offset (all_orders s))"

definition all_nodes :: "db \<Rightarrow> (Node \<times> NodeStatusRow option) list" where
  "all_nodes s = sort_key (\<lambda>(n, st). opt_id (no_id n)) (map (\<lambda>n. (n, status_of_node (opt_id (no_id n)) s)) (rows (d_nodes s)))"

definition nodes_list_nodes :: "nat \<Rightarrow> nat \<Rightarrow> (Node \<times> NodeStatusRow option) list tx" where
  "nodes_list_nodes limit offset = readT (\<lambda>s. limit_offset limit offset (all_nodes s))"

definition all_tasks :: "db \<Rightarrow> NodeTask list" where
  "all_tasks s = newest_first (\<lambda>t. opt_time (nt_created_at t)) nt_id (rows (d_ntasks s))"

definition nodes_list_tasks :: "nat \<Rightarrow> nat \<Rightarrow> NodeTask list tx" where
  "nodes_list_tasks limit offset = readT (\<lambda>s. limit_offset limit offset (all_tasks s))"

definition endpoint_listing :: "EndpointRow \<Rightarrow> db \<Rightarrow> Node option \<times> NodeStatusRow option" where
  "endpoint_listing e s =
     (case en_node_id e of
        None \<Rightarrow> (None, None)
      | Some n \<Rightarrow> (get_row no_id n (d_nodes s), status_of_node n s))"

definition servers_list_server_endpoints ::
  "(EndpointRow \<times> ServerRow \<times> Node option \<times> NodeStatusRow option) list tx" where
  "servers_list_server_endpoints = readT (\<lambda>s.
     sort_key (\<lambda>(e, _). opt_id (en_id e)) (map (\<lambda>(e, v). (e, v, endpoint_listing e s)) (endpoints_with_server s)))"

definition admin_list_tariffs :: "bool \<Rightarrow> Tariff list tx" where
  "admin_list_tariffs include_disabled = readT (\<lambda>s.
     sort_key (\<lambda>t. opt_id (ta_id t)) (filter (\<lambda>t. include_disabled \<or> ta_is_enabled t) (rows (d_tariffs s))))"

definition current_access_rows :: "int \<Rightarrow> time \<Rightarrow> db \<Rightarrow> (Subscription \<times> SubscriptionPeriod \<times> Tariff) list" where
  "current_access_rows user_id now s =
     [(r, p, t). r \<leftarrow> rows (d_subs s), su_user_id r = user_id \<and> su_status r = SS_ACTIVE,
        p \<leftarrow> rows (d_periods s), sp_subscription_id p = su_id r \<and> su_id r \<noteq> None \<and> sp_is_paid p \<and> sp_starts_at p \<le> now \<and> sp_expires_at p > now,
        t \<leftarrow> tariff_of r s]"

definition subscriptions_get_current_access_for_user ::
  "int \<Rightarrow> time \<Rightarrow> (Subscription \<times> SubscriptionPeriod \<times> Tariff) option tx" where
  "subscriptions_get_current_access_for_user user_id now =
     readT (\<lambda>s. top_by (\<lambda>(r, p, t). sp_expires_at p) (current_access_rows user_id now s))"

definition active_configuration_rows :: "int \<Rightarrow> time \<Rightarrow> db \<Rightarrow> (VpnConfiguration \<times> EndpointRow \<times> ServerRow) list" where
  "active_configuration_rows user_id now s =
     [(v, e, sv). v \<leftarrow> rows (d_vpns s), vc_status v = VS_ACTIVE,
        r \<leftarrow> rows (d_subs s), su_id r = Some (vc_subscription_id v) \<and> su_user_id r = user_id \<and> su_status r = SS_ACTIVE,
        p \<leftarrow> rows (d_periods s), sp_subscription_id p = su_id r \<and> sp_is_paid p \<and> sp_starts_at p \<le> now \<and> sp_expires_at p > now,
        (e, sv) \<leftarrow> endpoint_rows v s]"

definition vpn_get_active_configuration_for_user :: "int \<Rightarrow> time \<Rightarrow> (VpnConfiguration \<times> EndpointRow \<times> ServerRow) option tx" where
  "vpn_get_active_configuration_for_user user_id now =
     readT (\<lambda>s. top_by (\<lambda>(v, e, sv). opt_time (vc_created_at v)) (active_configuration_rows user_id now s))"

section \<open>Customer queries\<close>

record dashboard_subscription =
  ds_subscription_id :: int
  ds_tariff_id :: int
  ds_tariff_name :: string
  ds_status :: SubscriptionStatus
  ds_starts_at :: time
  ds_expires_at :: time

record dashboard_vpn =
  dv_vpn_configuration_id :: int
  dv_status :: VpnConfigurationStatus
  dv_display_name :: string
  dv_client_uuid :: string
  dv_server_name :: string
  dv_host :: string
  dv_port :: int
  dv_uri :: string

record dashboard =
  da_user :: "(int \<times> string) option"
  da_subscription :: "dashboard_subscription option"
  da_vpn_configuration :: "dashboard_vpn option"

definition subscription_payload :: "(Subscription \<times> SubscriptionPeriod \<times> Tariff) option \<Rightarrow> dashboard_subscription option" where
  "subscription_payload subscription =
     map_option (\<lambda>(r, p, t). \<lparr>ds_subscription_id = opt_id (su_id r), ds_tariff_id = su_tariff_id r, ds_tariff_name = ta_name t,
       ds_status = su_status r, ds_starts_at = sp_starts_at p, ds_expires_at = sp_expires_at p\<rparr>) subscription"

definition vpn_build_input :: "VpnConfiguration \<Rightarrow> EndpointRow \<Rightarrow> ServerRow \<Rightarrow> VlessBuildInput" where
  "vpn_build_input v e sv =
     \<lparr>vb_client_uuid = vc_client_uuid v, vb_host = sv_host sv, vb_port = en_port e, vb_display_name = vc_display_name v,
      vb_security = en_security e, vb_sni = en_sni e, vb_fingerprint = en_fingerprint e, vb_public_key = en_public_key e,
      vb_short_id = en_short_id e, vb_transport_type = en_transport_type e, vb_flow = en_flow e, vb_encryption = en_encryption e\<rparr>"

definition vpn_payload :: "(VpnConfiguration \<times> EndpointRow \<times> ServerRow) option \<Rightarrow> dashboard_vpn option" where
  "vpn_payload vpn =
     (case vpn of
        None \<Rightarrow> None
      | Some (v, e, sv) \<Rightarrow>
          if lower (strip (en_protocol e)) \<noteq> ''vless'' then None
          else Some \<lparr>dv_vpn_configuration_id = opt_id (vc_id v), dv_status = vc_status v, dv_display_name = vc_display_name v,
                     dv_client_uuid = vc_client_uuid v, dv_server_name = sv_server_name sv, dv_host = sv_host sv, dv_port = en_port e,
                     dv_uri = VlessUriBuilder_build (vpn_build_input v e sv)\<rparr>)"

definition BotQueryService_list_tariffs :: "db \<Rightarrow> Tariff list res \<times> db" where
  "BotQueryService_list_tariffs = run_uow (admin_list_tariffs False)"

definition BotQueryService_get_dashboard :: "int \<Rightarrow> time \<Rightarrow> db \<Rightarrow> dashboard res \<times> db" where
  "BotQueryService_get_dashboard telegram_id now =
     run_uow (bindT (users_get_user_by_contact ''telegram_id'' (show_int telegram_id)) (\<lambda>user.
       case user of
         None \<Rightarrow> retT \<lparr>da_user = None, da_subscription = None, da_vpn_configuration = None\<rparr>
       | Some u \<Rightarrow>
           bindT (subscriptions_get_current_access_for_user (opt_id (us_id u)) now) (\<lambda>subscription.
           bindT (vpn_get_active_configuration_for_user (opt_id (us_id u)) now) (\<lambda>vpn.
           retT \<lparr>da_user = Some (opt_id (us_id u), us_name_or_nick u), da_subscription = subscription_payload subscription,
                 da_vpn_configuration = vpn_payload vpn\<rparr>))))"

definition NodeQueryService_list_nodes :: "nat \<Rightarrow> nat \<Rightarrow> db \<Rightarrow> (Node \<times> NodeStatusRow option) list res \<times> db" where
  "NodeQueryService_list_nodes limit offset = run_uow (nodes_list_nodes limit offset)"

definition NodeQueryService_list_tasks :: "nat \<Rightarrow> nat \<Rightarrow> db \<Rightarrow> NodeTask list res \<times> db" where
  "NodeQueryService_list_tasks limit offset = run_uow (nodes_list_tasks limit offset)"

end
