(* ===== verification/AdminApi.thy ===== *)
theory AdminApi
  imports Listings "HOL-Library.Multiset"
begin

text \<open>
  The administration interface: request schemas (\<^verbatim>\<open>schemas/admin.py\<close>, \<^verbatim>\<open>schemas/nodes.py\<close>), the token check
  (\<^verbatim>\<open>core/security.py\<close>), \<^verbatim>\<open>AdminOperations\<close>, the routes of \<^verbatim>\<open>apps/api/routes/admin.py\<close> and \<^verbatim>\<open>nodes.py\<close> with their
  pagination, and the translation of errors into responses (\<^verbatim>\<open>apps/api/main.py\<close>).

  Every route is a function of the settings, the request and the database; an error is a value, and \<open>error_status\<close> is the status code the
  application answers it with. The syntax of the node's URL is checked by a library and is not part of the model.
\<close>

section \<open>Requests\<close>

definition too_few :: error where
  "too_few = HTTPException 422 ''request validation''"

record CreateTariffRequest =
  ct_tariff_name :: string
  ct_price_minor :: int
  ct_currency :: string
  ct_period_days :: int
  ct_description :: "string option"
  ct_is_enabled :: bool

definition CreateTariffRequest_validate :: "CreateTariffRequest \<Rightarrow> CreateTariffRequest res" where
  "CreateTariffRequest_validate r =
     bindE (ensure (ct_tariff_name r \<noteq> [] \<and> ct_price_minor r > 0 \<and> ct_currency r \<noteq> [] \<and> ct_period_days r > 0) too_few) (\<lambda>_. Inr r)"

record CreateServerRequest =
  cs_server_name :: string
  cs_host :: string
  cs_is_enabled :: bool

definition CreateServerRequest_validate :: "CreateServerRequest \<Rightarrow> CreateServerRequest res" where
  "CreateServerRequest_validate r = bindE (ensure (cs_server_name r \<noteq> [] \<and> cs_host r \<noteq> []) too_few) (\<lambda>_. Inr r)"

definition normalise_opt :: "string option \<Rightarrow> string option" where
  "normalise_opt v = (case v of None \<Rightarrow> None | Some x \<Rightarrow> if x = [] then Some [] else Some (lower (strip x)))"

text \<open>The endpoint request carries the columns of an endpoint row without its key.\<close>

definition CreateServerEndpointRequest_validate :: "EndpointRow \<Rightarrow> EndpointRow res" where
  "CreateServerEndpointRequest_validate r =
     bindE (ensure (en_protocol r \<noteq> [] \<and> 1 \<le> en_port r \<and> en_port r \<le> 65535) too_few) (\<lambda>_.
     let r = r\<lparr>en_protocol := lower (strip (en_protocol r)), en_security := normalise_opt (en_security r), en_flow := normalise_opt (en_flow r)\<rparr> in
     (case validate_vless_endpoint (en_protocol r) (en_security r) (en_sni r) (en_fingerprint r) (en_public_key r) (en_short_id r) (en_flow r) of
        Inl _ \<Rightarrow> Inl too_few
      | Inr _ \<Rightarrow> Inr r))"

record CreateNodeRequest =
  cn_node_key :: string
  cn_display_name :: string
  cn_api_base_url :: string
  cn_is_enabled :: bool
  cn_selection_weight :: int
  cn_key_id :: string
  cn_shared_secret :: "string option"

definition CreateNodeRequest_validate :: "CreateNodeRequest \<Rightarrow> CreateNodeRequest res" where
  "CreateNodeRequest_validate r =
     bindE (ensure (cn_node_key r \<noteq> [] \<and> cn_display_name r \<noteq> [] \<and> cn_selection_weight r > 0 \<and> cn_key_id r \<noteq> [] \<and>
       (case cn_shared_secret r of None \<Rightarrow> True | Some x \<Rightarrow> 8 \<le> length x)) too_few) (\<lambda>_. Inr r)"

section \<open>Admin operations\<close>

definition AdminOperations_list_tariffs :: "db \<Rightarrow> Tariff list res \<times> db" where
  "AdminOperations_list_tariffs = run_uow (admin_list_tariffs True)"

definition AdminOperations_create_tariff :: "CreateTariffRequest \<Rightarrow> db \<Rightarrow> Tariff res \<times> db" where
  "AdminOperations_create_tariff r =
     run_uow (admin_create_tariff (ct_tariff_name r) (ct_price_minor r) (ct_currency r) (ct_period_days r) (ct_description r) (ct_is_enabled r))"

definition AdminOperations_list_servers :: "db \<Rightarrow> ServerRow list res \<times> db" where
  "AdminOperations_list_servers = run_uow servers_list_servers"

definition AdminOperations_create_server :: "CreateServerRequest \<Rightarrow> db \<Rightarrow> ServerRow res \<times> db" where
  "AdminOperations_create_server r = run_uow (servers_create_server (cs_server_name r) (cs_host r) (cs_is_enabled r))"

definition AdminOperations_list_server_endpoints ::
  "db \<Rightarrow> (EndpointRow \<times> ServerRow \<times> Node option \<times> NodeStatusRow option) list res \<times> db" where
  "AdminOperations_list_server_endpoints = run_uow servers_list_server_endpoints"

definition AdminOperations_create_server_endpoint :: "EndpointRow \<Rightarrow> db \<Rightarrow> (EndpointRow \<times> ServerRow) res \<times> db" where
  "AdminOperations_create_server_endpoint r = run_uow (servers_create_server_endpoint r)"

definition AdminOperations_list_subscriptions :: "nat \<Rightarrow> nat \<Rightarrow> db \<Rightarrow> (Subscription \<times> Tariff) list res \<times> db" where
  "AdminOperations_list_subscriptions limit offset = run_uow (subscriptions_list_subscriptions limit offset)"

definition AdminOperations_list_vpn_configurations :: "nat \<Rightarrow> nat \<Rightarrow> db \<Rightarrow> (VpnConfiguration \<times> ServerRow) list res \<times> db" where
  "AdminOperations_list_vpn_configurations limit offset = run_uow (vpn_list_configurations limit offset)"

definition AdminOperations_list_payment_orders :: "nat \<Rightarrow> nat \<Rightarrow> db \<Rightarrow> PaymentOrder list res \<times> db" where
  "AdminOperations_list_payment_orders limit offset = run_uow (payments_list_orders limit offset)"

definition AdminOperations_queue_provisioning :: "int \<Rightarrow> job list" where
  "AdminOperations_queue_provisioning subscription_id = [PROVISION_SUBSCRIPTION subscription_id]"

definition AdminOperations_queue_revoke :: "int \<Rightarrow> job list" where
  "AdminOperations_queue_revoke vpn_configuration_id = [REVOKE_VPN_CONFIGURATION vpn_configuration_id FORCE]"

definition payments_get_latest_attempt :: "int \<Rightarrow> PaymentAttempt option tx" where
  "payments_get_latest_attempt payment_order_id =
     readT (\<lambda>s. top_by (\<lambda>a. (opt_time (pa_created_at a), opt_id (pa_id a)))
       (select_rows (\<lambda>a. pa_payment_order_id a = payment_order_id) (d_attempts s)))"

definition AdminOperations_get_payment_with_attempt :: "int \<Rightarrow> db \<Rightarrow> (PaymentOrder \<times> PaymentAttempt option) res \<times> db" where
  "AdminOperations_get_payment_with_attempt payment_order_id =
     run_uow (bindT (payments_get_order payment_order_id) (\<lambda>order.
       case order of
         None \<Rightarrow> raiseT (NotFoundError ''Order not found'')
       | Some ord \<Rightarrow> bindT (payments_get_latest_attempt payment_order_id) (\<lambda>attempt. retT (ord, attempt))))"

section \<open>Routes\<close>

record api_settings =
  ap_admin_api_token :: string
  ap_internal_api_key :: string

definition require_admin_token :: "api_settings \<Rightarrow> string \<Rightarrow> unit res" where
  "require_admin_token cfg x_admin_token =
     bindE (compare_digest x_admin_token (ap_admin_api_token cfg)) (\<lambda>same.
     ensure same (HTTPException 401 ''Invalid admin token''))"

definition require_internal_api_key :: "api_settings \<Rightarrow> string \<Rightarrow> unit res" where
  "require_internal_api_key cfg x_internal_api_key =
     bindE (compare_digest x_internal_api_key (ap_internal_api_key cfg)) (\<lambda>same.
     ensure same (HTTPException 401 ''Invalid internal API key''))"

record 'r page_response =
  pg_rows :: "'r list"
  pg_headers :: "(string \<times> string) list"

definition set_pagination_headers :: "int \<Rightarrow> int \<Rightarrow> bool \<Rightarrow> (string \<times> string) list" where
  "set_pagination_headers limit offset has_more =
     [(''X-Page-Limit'', show_int limit), (''X-Page-Offset'', show_int offset), (''X-Has-More'', if has_more then ''true'' else ''false'')]"

text \<open>The body the paginated routes share; \<open>query\<close> is the operation they call.\<close>

definition paged_route ::
  "(nat \<Rightarrow> nat \<Rightarrow> db \<Rightarrow> 'r list res \<times> db) \<Rightarrow> api_settings \<Rightarrow> string \<Rightarrow> int \<Rightarrow> int \<Rightarrow> db \<Rightarrow> 'r page_response res \<times> db" where
  "paged_route query cfg token limit offset s =
     (case require_admin_token cfg token of
        Inl e \<Rightarrow> (Inl e, s)
      | Inr _ \<Rightarrow>
          if \<not> (1 \<le> limit \<and> limit \<le> 200 \<and> 0 \<le> offset) then (Inl too_few, s)
          else
            (case query (nat limit + 1) (nat offset) s of
               (Inl e, s') \<Rightarrow> (Inl e, s')
             | (Inr rs, s') \<Rightarrow>
                 (Inr \<lparr>pg_rows = take (nat limit) rs, pg_headers = set_pagination_headers limit offset (nat limit < length rs)\<rparr>, s')))"

definition list_subscriptions_route where
  "list_subscriptions_route = paged_route AdminOperations_list_subscriptions"

definition list_vpn_configurations_route where
  "list_vpn_configurations_route = paged_route AdminOperations_list_vpn_configurations"

definition list_payment_orders_route where
  "list_payment_orders_route = paged_route AdminOperations_list_payment_orders"

definition get_nodes_route where
  "get_nodes_route = paged_route NodeQueryService_list_nodes"

definition get_tasks_route where
  "get_tasks_route = paged_route NodeQueryService_list_tasks"

datatype admin_request =
    CreateTariff CreateTariffRequest
  | CreateServer CreateServerRequest
  | CreateServerEndpoint EndpointRow
  | MarkPaymentOrderPaid int
  | QueueProvisioning int
  | QueueRevoke int
  | ReconcileNow
  | CreateNode CreateNodeRequest
  | SyncNode int
  | DispatchTask int

datatype admin_reply =
    TariffReply Tariff
  | ServerReply ServerRow
  | EndpointReply "EndpointRow \<times> ServerRow"
  | PaidReply admin_result
  | QueuedReply int
  | ReconcileReply reconcile_result
  | NodeReply "Node \<times> NodeCredential"
  | SyncReply node_state

definition map_reply :: "('a \<Rightarrow> admin_reply \<times> job list) \<Rightarrow> 'a res \<times> db \<Rightarrow> (admin_reply \<times> job list) res \<times> db" where
  "map_reply f r = (case r of (Inl e, s) \<Rightarrow> (Inl e, s) | (Inr x, s) \<Rightarrow> (Inr (f x), s))"

text \<open>\<^verbatim>\<open>NodeSyncResponse\<close> requires the time the node was last seen.\<close>

definition NodeSyncResponse_validate :: "node_state res \<times> db \<Rightarrow> node_state res \<times> db" where
  "NodeSyncResponse_validate r =
     (case r of
        (Inr n, s) \<Rightarrow> if nx_last_seen_at n = None then (Inl (ValueError ''last_seen_at''), s) else r
      | _ \<Rightarrow> r)"

text \<open>What the routes need of the other components.\<close>

record admin_env =
  av_settings :: api_settings
  av_now :: time
  av_reconcile :: "db \<Rightarrow> reconcile_result res \<times> db"
  av_sync_node :: "int \<Rightarrow> db \<Rightarrow> node_state res \<times> db"
  av_fresh_secret :: string

fun admin_route :: "admin_env \<Rightarrow> admin_request \<Rightarrow> db \<Rightarrow> (admin_reply \<times> job list) res \<times> db" where
  "admin_route env (CreateTariff r) s =
     (case CreateTariffRequest_validate r of Inl e \<Rightarrow> (Inl e, s)
      | Inr r \<Rightarrow> map_reply (\<lambda>t. (TariffReply t, [])) (AdminOperations_create_tariff r s))"
| "admin_route env (CreateServer r) s =
     (case CreateServerRequest_validate r of Inl e \<Rightarrow> (Inl e, s)
      | Inr r \<Rightarrow> map_reply (\<lambda>v. (ServerReply v, [])) (AdminOperations_create_server r s))"
| "admin_route env (CreateServerEndpoint r) s =
     (case CreateServerEndpointRequest_validate r of Inl e \<Rightarrow> (Inl e, s)
      | Inr r \<Rightarrow> map_reply (\<lambda>v. (EndpointReply v, [])) (AdminOperations_create_server_endpoint r s))"
| "admin_route env (MarkPaymentOrderPaid i) s =
     map_reply (\<lambda>(r, jobs). (PaidReply r, jobs)) (AdminOperations_mark_payment_order_paid i (av_now env) s)"
| "admin_route env (QueueProvisioning i) s = (Inr (QueuedReply i, AdminOperations_queue_provisioning i), s)"
| "admin_route env (QueueRevoke i) s = (Inr (QueuedReply i, AdminOperations_queue_revoke i), s)"
| "admin_route env ReconcileNow s = map_reply (\<lambda>r. (ReconcileReply r, rc_jobs r)) (av_reconcile env s)"
| "admin_route env (CreateNode r) s =
     (case CreateNodeRequest_validate r of Inl e \<Rightarrow> (Inl e, s)
      | Inr r \<Rightarrow> map_reply (\<lambda>n. (NodeReply n, []))
          (NodeAdministration_create_node (av_fresh_secret env) (cn_node_key r) (cn_display_name r) (cn_api_base_url r) (cn_is_enabled r)
             (cn_selection_weight r) (cn_key_id r) (cn_shared_secret r) s))"
| "admin_route env (SyncNode i) s = map_reply (\<lambda>n. (SyncReply n, [])) (NodeSyncResponse_validate (av_sync_node env i s))"
| "admin_route env (DispatchTask i) s = map_reply (\<lambda>jobs. (QueuedReply i, jobs)) (NodeAdministration_dispatch_task i s)"

definition admin_api :: "admin_env \<Rightarrow> string \<Rightarrow> admin_request \<Rightarrow> db \<Rightarrow> (admin_reply \<times> job list) res \<times> db" where
  "admin_api env token request s =
     (case require_admin_token (av_settings env) token of Inl e \<Rightarrow> (Inl e, s) | Inr _ \<Rightarrow> admin_route env request s)"

text \<open>The exception handlers of the application; any other exception is a server error.\<close>

fun error_status :: "error \<Rightarrow> int" where
  "error_status (NotFoundError _) = 404"
| "error_status (ValidationError _) = 422"
| "error_status (ConflictError _) = 409"
| "error_status (HTTPException n _) = n"
| "error_status _ = 500"

section \<open>Following the pages of a listing\<close>

text \<open>A client asks for page after page until a response says that no more rows follow. \<open>None\<close> stands for a client that never stops, or
  that is answered with an error.\<close>

partial_function (option) follow_pages :: "(int \<Rightarrow> 'r page_response res) \<Rightarrow> int \<Rightarrow> int \<Rightarrow> 'r list option" where
  "follow_pages get limit offset =
     (case get offset of
        Inl e \<Rightarrow> None
      | Inr p \<Rightarrow>
          if map_of (pg_headers p) ''X-Has-More'' = Some ''true''
          then Option.bind (follow_pages get limit (offset + limit)) (\<lambda>rest. Some (pg_rows p @ rest))
          else Some (pg_rows p))"

locale paged =
  fixes route :: "api_settings \<Rightarrow> string \<Rightarrow> int \<Rightarrow> int \<Rightarrow> db \<Rightarrow> 'r page_response res \<times> db"
    and listing :: "db \<Rightarrow> 'r list"
  assumes page: "require_admin_token cfg token = Inr () \<Longrightarrow> 1 \<le> limit \<Longrightarrow> limit \<le> 200 \<Longrightarrow> 0 \<le> offset \<Longrightarrow>
      route cfg token limit offset s =
        (Inr \<lparr>pg_rows = take (nat limit) (drop (nat offset) (listing s)),
              pg_headers = set_pagination_headers limit offset (nat offset + nat limit < length (listing s))\<rparr>, s)"
    and protected: "require_admin_token cfg token = Inl e \<Longrightarrow> route cfg token limit offset s = (Inl e, s)"
begin

lemma pages_from_offset:
  assumes "require_admin_token cfg token = Inr ()" and "1 \<le> limit" and "limit \<le> 200"
  shows "0 \<le> offset \<Longrightarrow>
    follow_pages (\<lambda>o'. fst (route cfg token limit o' s)) limit offset = Some (drop (nat offset) (listing s))"
proof (induction "length (listing s) - nat offset" arbitrary: offset rule: less_induct)
  case less
  let ?L = "listing s" and ?more = "nat offset + nat limit < length (listing s)"
  have get: "fst (route cfg token limit offset s) = Inr \<lparr>pg_rows = take (nat limit) (drop (nat offset) ?L),
      pg_headers = set_pagination_headers limit offset ?more\<rparr>"
    using page [OF assms less.prems] by simp
  show ?case
  proof (cases ?more)
    case True
    have step: "nat (offset + limit) = nat offset + nat limit" using assms(2) less.prems by simp
    have "follow_pages (\<lambda>o'. fst (route cfg token limit o' s)) limit (offset + limit) = Some (drop (nat (offset + limit)) ?L)"
      using assms(2) less.prems True by (intro less.hyps) (simp_all add: step)
    moreover have "take (nat limit) (drop (nat offset) ?L) @ drop (nat offset + nat limit) ?L = drop (nat offset) ?L"
      by (metis add.commute append_take_drop_id drop_drop)
    ultimately show ?thesis
      using True by (subst follow_pages.simps) (simp add: get set_pagination_headers_def step)
  next
    case False
    then have "take (nat limit) (drop (nat offset) ?L) = drop (nat offset) ?L" by simp
    then show ?thesis using False by (subst follow_pages.simps) (simp add: get set_pagination_headers_def)
  qed
qed

lemma pages_cover_listing:
  assumes "require_admin_token cfg token = Inr ()" and "1 \<le> limit" and "limit \<le> 200"
  shows "follow_pages (\<lambda>o'. fst (route cfg token limit o' s)) limit 0 = Some (listing s)"
  using pages_from_offset [OF assms, of 0] by simp

end

lemma paged_route_page:
  assumes "\<And>limit offset s. query limit offset s = (Inr (limit_offset limit offset (listing s)), s)"
    and "require_admin_token cfg token = Inr ()" and "1 \<le> limit" and "limit \<le> 200" and "0 \<le> offset"
  shows "paged_route query cfg token limit offset s =
        (Inr \<lparr>pg_rows = take (nat limit) (drop (nat offset) (listing s)),
              pg_headers = set_pagination_headers limit offset (nat offset + nat limit < length (listing s))\<rparr>, s)"
proof -
  have "nat limit < length (limit_offset (nat limit + 1) (nat offset) (listing s)) \<longleftrightarrow> nat offset + nat limit < length (listing s)"
    by (auto simp: limit_offset_def)
  moreover have "take (nat limit) (limit_offset (nat limit + 1) (nat offset) (listing s)) = take (nat limit) (drop (nat offset) (listing s))"
    by (simp add: limit_offset_def min_def)
  ultimately show ?thesis using assms by (simp add: paged_route_def)
qed

lemma paged_route_protected: "require_admin_token cfg token = Inl e \<Longrightarrow> paged_route query cfg token limit offset s = (Inl e, s)"
  by (simp add: paged_route_def)

lemmas listing_queries = run_uow_def readT_def AdminOperations_list_subscriptions_def subscriptions_list_subscriptions_def
  AdminOperations_list_vpn_configurations_def vpn_list_configurations_def AdminOperations_list_payment_orders_def payments_list_orders_def
  NodeQueryService_list_nodes_def nodes_list_nodes_def NodeQueryService_list_tasks_def nodes_list_tasks_def

interpretation subscription_pages: paged list_subscriptions_route all_subscriptions
  unfolding list_subscriptions_route_def by unfold_locales (intro paged_route_page, simp_all add: listing_queries paged_route_protected)

interpretation configuration_pages: paged list_vpn_configurations_route all_configurations
  unfolding list_vpn_configurations_route_def by unfold_locales (intro paged_route_page, simp_all add: listing_queries paged_route_protected)

interpretation order_pages: paged list_payment_orders_route all_orders
  unfolding list_payment_orders_route_def by unfold_locales (intro paged_route_page, simp_all add: listing_queries paged_route_protected)

interpretation node_pages: paged get_nodes_route all_nodes
  unfolding get_nodes_route_def by unfold_locales (intro paged_route_page, simp_all add: listing_queries paged_route_protected)

interpretation task_pages: paged get_tasks_route all_tasks
  unfolding get_tasks_route_def by unfold_locales (intro paged_route_page, simp_all add: listing_queries paged_route_protected)

lemma sort_key_decreasing: "sorted_wrt (\<lambda>a b. k a \<le> k b) (sort_key k xs)" for k :: "'a \<Rightarrow> 'b::linorder"
  using sorted_sort_key [of k xs] by (simp add: sorted_map)

lemma newest_first_order: "sorted_wrt (\<lambda>a b. c b \<le> c a) (newest_first c k xs)"
  using sort_key_decreasing [of "\<lambda>r. (- c r, - opt_id (k r))" xs]
  unfolding newest_first_def by (rule sorted_wrt_mono_rel [rotated]) auto

lemma newest_first_rows: "mset (newest_first c k xs) = mset xs"
  by (simp add: newest_first_def)

lemma all_nodes_rows: "image_mset fst (mset (all_nodes s)) = mset (rows (d_nodes s))"
  by (simp add: all_nodes_def multiset.map_comp comp_def)

text \<open>C37. The pages of a listing are the listing: with the administrator's token, a client that follows the \<^verbatim>\<open>X-Has-More\<close> header from the first
  page terminates for every page size the routes accept, and has then read exactly the ordered listing: every order, node and task once, the
  newest first, and every subscription and configuration with its tariff or server.\<close>

theorem pages_are_the_listing:
  assumes "require_admin_token cfg token = Inr ()" and "1 \<le> limit" and "limit \<le> 200"
  shows "follow_pages (\<lambda>o'. fst (list_payment_orders_route cfg token limit o' s)) limit 0 = Some (all_orders s) \<and>
     follow_pages (\<lambda>o'. fst (list_subscriptions_route cfg token limit o' s)) limit 0 = Some (all_subscriptions s) \<and>
     follow_pages (\<lambda>o'. fst (list_vpn_configurations_route cfg token limit o' s)) limit 0 = Some (all_configurations s) \<and>
     follow_pages (\<lambda>o'. fst (get_nodes_route cfg token limit o' s)) limit 0 = Some (all_nodes s) \<and>
     follow_pages (\<lambda>o'. fst (get_tasks_route cfg token limit o' s)) limit 0 = Some (all_tasks s) \<and>
     mset (all_orders s) = mset (rows (d_orders s)) \<and> sorted_wrt (\<lambda>a b. opt_time (po_created_at b) \<le> opt_time (po_created_at a)) (all_orders s) \<and>
     mset (all_tasks s) = mset (rows (d_ntasks s)) \<and> mset (map fst (all_nodes s)) = mset (rows (d_nodes s))"
  using subscription_pages.pages_cover_listing [OF assms] configuration_pages.pages_cover_listing [OF assms]
    order_pages.pages_cover_listing [OF assms] node_pages.pages_cover_listing [OF assms] task_pages.pages_cover_listing [OF assms]
  by (simp add: all_orders_def all_tasks_def newest_first_rows newest_first_order all_nodes_rows)

section \<open>Dashboards\<close>

definition paid_now :: "int \<Rightarrow> time \<Rightarrow> db \<Rightarrow> Subscription \<Rightarrow> bool" where
  "paid_now user_id now s r \<longleftrightarrow> r \<in> set (rows (d_subs s)) \<and> su_user_id r = user_id \<and> su_status r = SS_ACTIVE \<and>
     (\<exists>p\<in>set (rows (d_periods s)). sp_subscription_id p = su_id r \<and> sp_is_paid p \<and> sp_starts_at p \<le> now \<and> now < sp_expires_at p)"

lemma endpoint_rows_iff:
  "(e, sv) \<in> set (endpoint_rows v s) \<longleftrightarrow>
     e \<in> set (rows (d_endpoints s)) \<and> en_id e = Some (vc_server_endpoint_id v) \<and> sv \<in> set (rows (d_servers s)) \<and> sv_id sv = Some (en_server_id e)"
  by (auto simp: endpoint_rows_def endpoints_with_server_def)

lemma in_guarded: "y \<in> set (concat (map (\<lambda>x. if P x then f x else []) xs)) \<longleftrightarrow> (\<exists>x\<in>set xs. P x \<and> y \<in> set (f x))"
  by auto

lemma pair_in_image: "(v, e, sv) \<in> set (map (\<lambda>(e, sv). (w, e, sv)) l) \<longleftrightarrow> v = w \<and> (e, sv) \<in> set l"
  by auto

lemma active_configuration_rows_iff:
  "(v, e, sv) \<in> set (active_configuration_rows u now s) \<longleftrightarrow>
     v \<in> set (rows (d_vpns s)) \<and> vc_status v = VS_ACTIVE \<and>
     (\<exists>r. paid_now u now s r \<and> su_id r = Some (vc_subscription_id v)) \<and> (e, sv) \<in> set (endpoint_rows v s)"
  unfolding active_configuration_rows_def paid_now_def in_guarded pair_in_image by blast

lemma current_access_rows_iff:
  "(r, p, t) \<in> set (current_access_rows u now s) \<longleftrightarrow>
     r \<in> set (rows (d_subs s)) \<and> su_user_id r = u \<and> su_status r = SS_ACTIVE \<and> su_id r \<noteq> None \<and>
     p \<in> set (rows (d_periods s)) \<and> sp_subscription_id p = su_id r \<and> sp_is_paid p \<and> sp_starts_at p \<le> now \<and> now < sp_expires_at p \<and>
     t \<in> set (rows (d_tariffs s)) \<and> ta_id t = Some (su_tariff_id r)"
  by (auto simp: current_access_rows_def tariff_of_def)

text \<open>What the database's constraints say of the rows a dashboard joins: one active subscription per user, one active configuration per
  subscription, and keys that identify their rows.\<close>

definition dashboard_tables :: "db \<Rightarrow> bool" where
  "dashboard_tables s \<longleftrightarrow> subs_constraints (d_subs s) \<and> vpns_constraints (d_vpns s) \<and>
     table_wf su_id (d_subs s) \<and> table_wf en_id (d_endpoints s) \<and> table_wf sv_id (d_servers s)"

lemma paid_now_unique:
  assumes "dashboard_tables s" and "paid_now u now s r" and "paid_now u now s r'"
  shows "r = r'"
proof -
  have "distinct (map su_user_id (filter (\<lambda>r. su_status r = SS_ACTIVE) (rows (d_subs s))))"
    using assms(1) by (simp add: dashboard_tables_def subs_constraints_def)
  then show ?thesis using assms(2,3) by (auto simp: distinct_map inj_on_def paid_now_def)
qed

lemma active_configuration_row_unique:
  assumes "dashboard_tables s" and "(v, e, sv) \<in> set (active_configuration_rows u now s)" and "(v', e', sv') \<in> set (active_configuration_rows u now s)"
  shows "(v', e', sv') = (v, e, sv)"
proof -
  obtain r r' where r: "paid_now u now s r" "su_id r = Some (vc_subscription_id v)" "paid_now u now s r'" "su_id r' = Some (vc_subscription_id v')"
    using assms(2,3) by (auto simp: active_configuration_rows_iff)
  then have sub: "vc_subscription_id v' = vc_subscription_id v" using paid_now_unique [OF assms(1), of u now r r'] by simp
  have "distinct (map vc_subscription_id (filter (\<lambda>r. vc_status r = VS_ACTIVE) (rows (d_vpns s))))"
    using assms(1) by (simp add: dashboard_tables_def vpns_constraints_def)
  then have v: "v' = v" using sub assms(2,3) unfolding active_configuration_rows_iff by (auto simp: distinct_map inj_on_def)
  have wf: "distinct (map en_id (rows (d_endpoints s)))" "distinct (map sv_id (rows (d_servers s)))"
    using assms(1) by (simp_all add: dashboard_tables_def table_wf_def)
  have "e' = e" using wf(1) v assms(2,3) unfolding active_configuration_rows_iff endpoint_rows_iff by (auto simp: distinct_map inj_on_def)
  then show ?thesis using wf(2) v assms(2,3) unfolding active_configuration_rows_iff endpoint_rows_iff by (auto simp: distinct_map inj_on_def)
qed

lemma active_configuration_iff:
  assumes "dashboard_tables s"
  shows "top_by k (active_configuration_rows u now s) = Some (v, e, sv) \<longleftrightarrow> (v, e, sv) \<in> set (active_configuration_rows u now s)"
proof
  assume "(v, e, sv) \<in> set (active_configuration_rows u now s)"
  moreover from this obtain w where w: "top_by k (active_configuration_rows u now s) = Some w"
    by (metis empty_iff empty_set not_None_eq top_by_None)
  moreover obtain v' e' sv' where "w = (v', e', sv')" by (cases w)
  ultimately show "top_by k (active_configuration_rows u now s) = Some (v, e, sv)"
    using top_by_in [OF w] active_configuration_row_unique [OF assms] by metis
qed (rule top_by_in)

lemma current_access_iff:
  assumes "table_wf su_id (d_subs s)" and "\<forall>r\<in>set (rows (d_subs s)). \<exists>t\<in>set (rows (d_tariffs s)). ta_id t = Some (su_tariff_id r)"
  shows "(top_by k (current_access_rows u now s) = None) \<longleftrightarrow> (\<nexists>r. paid_now u now s r)"
proof -
  have keyed: "su_id r \<noteq> None" if "r \<in> set (rows (d_subs s))" for r
    using subs_tab.wf_row_range [OF assms(1) that] by (metis option.discI)
  have "current_access_rows u now s \<noteq> [] \<longleftrightarrow> (\<exists>r p t. (r, p, t) \<in> set (current_access_rows u now s))"
    by (metis list.set_intros(1) neq_Nil_conv empty_iff empty_set prod_cases3)
  also have "\<dots> \<longleftrightarrow> (\<exists>r. paid_now u now s r)"
    using assms(2) keyed unfolding current_access_rows_iff paid_now_def by blast
  finally show ?thesis unfolding top_by_None by blast
qed

text \<open>C34. A customer sees a key exactly while the access is paid for: for a registered customer the dashboard shows a subscription if and only if an
  active subscription of theirs has a current paid period, and it shows a configuration if and only if that subscription has an active
  VLESS configuration on an existing endpoint; it is then that configuration, with the URI built from its client identifier and endpoint.
  Reading the dashboard changes nothing.\<close>

theorem dashboard_shows_paid_access:
  assumes "users_get_user_by_contact ''telegram_id'' (show_int telegram_id) s = Inr (Some u, s)" and "us_id u = Some user_id"
    and "dashboard_tables s"
    and "\<forall>r\<in>set (rows (d_subs s)). \<exists>t\<in>set (rows (d_tariffs s)). ta_id t = Some (su_tariff_id r)"
  shows "\<exists>d. BotQueryService_get_dashboard telegram_id now s = (Inr d, s) \<and> da_user d = Some (user_id, us_name_or_nick u) \<and>
     (da_subscription d \<noteq> None \<longleftrightarrow> (\<exists>r. paid_now user_id now s r)) \<and>
     (\<forall>x. da_vpn_configuration d = Some x \<longleftrightarrow>
        (\<exists>r v e sv. paid_now user_id now s r \<and> v \<in> set (rows (d_vpns s)) \<and> vc_status v = VS_ACTIVE \<and> su_id r = Some (vc_subscription_id v) \<and>
           (e, sv) \<in> set (endpoint_rows v s) \<and> lower (strip (en_protocol e)) = ''vless'' \<and>
           dv_vpn_configuration_id x = opt_id (vc_id v) \<and> dv_uri x = VlessUriBuilder_build (vpn_build_input v e sv) \<and>
           vpn_payload (Some (v, e, sv)) = Some x))"
proof -
  let ?sub = "top_by (\<lambda>(r, p, t). sp_expires_at p) (current_access_rows user_id now s)"
  let ?vpn = "top_by (\<lambda>(v, e, sv). opt_time (vc_created_at v)) (active_configuration_rows user_id now s)"
  let ?d = "\<lparr>da_user = Some (user_id, us_name_or_nick u), da_subscription = subscription_payload ?sub, da_vpn_configuration = vpn_payload ?vpn\<rparr>"
  have run: "BotQueryService_get_dashboard telegram_id now s = (Inr ?d, s)"
    using assms(1,2) by (simp add: BotQueryService_get_dashboard_def run_uow_def bindT_def readT_def retT_def opt_id_def
        subscriptions_get_current_access_for_user_def vpn_get_active_configuration_for_user_def)
  have "table_wf su_id (d_subs s)" using assms(3) by (simp add: dashboard_tables_def)
  then have sub: "subscription_payload ?sub \<noteq> None \<longleftrightarrow> (\<exists>r. paid_now user_id now s r)"
    using current_access_iff [OF _ assms(4)] by (simp add: subscription_payload_def)
  have vpn: "vpn_payload ?vpn = Some x \<longleftrightarrow>
      (\<exists>v e sv. (v, e, sv) \<in> set (active_configuration_rows user_id now s) \<and> vpn_payload (Some (v, e, sv)) = Some x)" for x
  proof (cases ?vpn)
    case None
    then show ?thesis by (simp add: vpn_payload_def top_by_None)
  next
    case (Some w)
    obtain v e sv where w: "w = (v, e, sv)" by (cases w)
    then show ?thesis
      using Some active_configuration_iff [OF assms(3)] by (metis Pair_inject option.inject)
  qed
  have payload: "vpn_payload (Some (v, e, sv)) = Some x \<Longrightarrow> lower (strip (en_protocol e)) = ''vless'' \<and>
      dv_vpn_configuration_id x = opt_id (vc_id v) \<and> dv_uri x = VlessUriBuilder_build (vpn_build_input v e sv)" for v e sv x
    by (auto simp: vpn_payload_def split: if_splits)
  have "(vpn_payload ?vpn = Some x) \<longleftrightarrow>
      (\<exists>r v e sv. paid_now user_id now s r \<and> v \<in> set (rows (d_vpns s)) \<and> vc_status v = VS_ACTIVE \<and> su_id r = Some (vc_subscription_id v) \<and>
         (e, sv) \<in> set (endpoint_rows v s) \<and> lower (strip (en_protocol e)) = ''vless'' \<and>
         dv_vpn_configuration_id x = opt_id (vc_id v) \<and> dv_uri x = VlessUriBuilder_build (vpn_build_input v e sv) \<and>
         vpn_payload (Some (v, e, sv)) = Some x)" for x
    unfolding vpn active_configuration_rows_iff using payload by blast
  then show ?thesis using run sub by (intro exI [of _ ?d]) simp
qed

section \<open>Administration requests\<close>

interpretation endpoints_tab: keyed_table en_id "\<lambda>i r. r\<lparr>en_id := Some i\<rparr>" by unfold_locales simp

lemma created_endpoint:
  assumes "servers_create_server_endpoint r s = Inr ((e, v), s')" and "table_wf en_id (d_endpoints s)"
  shows "e = r\<lparr>en_id := Some (next_id (d_endpoints s))\<rparr>"
proof -
  obtain row t where ins: "insert_row (\<lambda>i r. r\<lparr>en_id := Some i\<rparr>) r (d_endpoints s) = (row, t)" by (cases "insert_row (\<lambda>i r. r\<lparr>en_id := Some i\<rparr>) r (d_endpoints s)")
  note new = endpoints_tab.insert_row_lookup [OF assms(2) ins]
  obtain s1 where s1: "put_endpoints t s = Inr ((), s1)" "servers_get_endpoint_with_server (next_id (d_endpoints s)) s1 = Inr (Some (e, v), s')"
    using assms(1) new(2) unfolding servers_create_server_endpoint_def
    by (auto simp: ins bindT_def readT_def retT_def raiseT_def Let_def opt_id_def split: if_splits sum.splits prod.splits option.splits)
  then have "d_endpoints s1 = t" by (auto simp: put_endpoints_def writeT_Inr_iff)
  then show ?thesis
    using s1(2) new by (auto simp: servers_get_endpoint_with_server_def readT_def split: option.splits)
qed

lemma validated_endpoint:
  assumes "CreateServerEndpointRequest_validate r = Inr r'"
  shows "validate_vless_endpoint (en_protocol r') (en_security r') (en_sni r') (en_fingerprint r') (en_public_key r') (en_short_id r') (en_flow r') = Inr ()"
    and "1 \<le> en_port r'" and "en_port r' \<le> 65535"
  using assms by (auto simp: CreateServerEndpointRequest_validate_def bindE_def ensure_def Let_def split: if_splits sum.splits)

lemma valid_protocol:
  assumes "validate_vless_endpoint p sec sni fp pk sid fl = Inr ()"
  shows "lower (strip p) = ''vless''" and "p \<noteq> []"
proof -
  show v: "lower (strip p) = ''vless''"
    using assms by (simp add: validate_vless_endpoint_def Let_def bindE_def ensure_def split: if_splits)
  show "p \<noteq> []" using v by (auto simp: strip_def lstrip_def lower_def)
qed

text \<open>An endpoint that the administration interface accepts can be provisioned: whatever the request was, if an endpoint was created, then it is
  a VLESS endpoint with a valid port, and the provisioning service prepares an access on it for every subscription.\<close>

theorem created_endpoint_can_be_provisioned:
  assumes "admin_api env token (CreateServerEndpoint r) s = (Inr (EndpointReply (e, v), jobs), s')" and "table_wf en_id (d_endpoints s)"
  shows "(\<exists>access. VpnProvisioningService_prepare client_uuid subscription_id (endpoint_from_row e v) display_name = Inr access \<and>
            vc_server_endpoint_id (pv_configuration access) = opt_id (en_id e)) \<and>
     lower (strip (en_protocol e)) = ''vless'' \<and> 1 \<le> en_port e \<and> en_port e \<le> 65535 \<and> jobs = []"
proof -
  obtain r' where r': "CreateServerEndpointRequest_validate r = Inr r'" "servers_create_server_endpoint r' s = Inr ((e, v), s')" "jobs = []"
    using assms(1)
    by (auto simp: admin_api_def map_reply_def AdminOperations_create_server_endpoint_def run_uow_def split: sum.splits prod.splits)
  have e: "e = r'\<lparr>en_id := Some (next_id (d_endpoints s))\<rparr>" using created_endpoint [OF r'(2) assms(2)] .
  note valid = validated_endpoint [OF r'(1)]
  have "VpnProvisioningService_prepare client_uuid subscription_id (endpoint_from_row e v) display_name \<noteq> Inl x" for x
    using valid(1) valid_protocol [OF valid(1)]
    by (simp add: VpnProvisioningService_prepare_def endpoint_from_row_def e Let_def VpnConfiguration_post_init_def bindE_def ensure_def)
  then obtain access where "VpnProvisioningService_prepare client_uuid subscription_id (endpoint_from_row e v) display_name = Inr access"
    by (metis sum.exhaust)
  moreover from this have "vc_server_endpoint_id (pv_configuration access) = opt_id (en_id e)"
    by (auto simp: VpnProvisioningService_prepare_def endpoint_from_row_def Let_def VpnConfiguration_post_init_def bindE_def ensure_def split: sum.splits if_splits)
  ultimately show ?thesis using valid valid_protocol [OF valid(1)] r'(3) by (simp add: e)
qed

interpretation nodes_tab: keyed_table no_id "\<lambda>i r. r\<lparr>no_id := Some i\<rparr>" by unfold_locales simp

lemma unreachable_node_row:
  assumes "nodes_mark_node_unreachable i error t s = Inr ((), s')" and "get_row no_id i (d_nodes s) = Some n"
  shows "get_row no_id i (d_nodes s') = Some (n\<lparr>no_status := NS_OFFLINE, no_last_error := Some error\<rparr>)"
proof -
  let ?f = "\<lambda>n. n\<lparr>no_status := NS_OFFLINE, no_last_error := Some error\<rparr>"
  have "d_nodes s' = update_row no_id i ?f (d_nodes s)"
    using assms(1) by (auto simp: nodes_mark_node_unreachable_def update_nodes_row_def put_nodes_def put_nstatus_def bindT_def readT_def
        writeT_def split: if_splits sum.splits prod.splits)
  then show ?thesis using nodes_tab.update_row_lookup [of ?f i i "d_nodes s"] assms(2) by simp
qed

text \<open>An administrator who probes an unreachable node that was never seen is answered with a server error, although the probe was carried out
  and its result stored: the response requires the time the node was last seen.\<close>

theorem sync_of_unseen_node_is_server_error:
  assumes "require_admin_token (av_settings env) token = Inr ()"
    and "av_sync_node env = (\<lambda>i. NodeAdministration_sync_node gateway err_text cfg fresh i now completed)"
    and "get_row no_id i (d_nodes s) = Some n" and "no_last_seen_at n = None"
    and "nodes_get_active_credential i s = Inr (Some c, s)" and "gateway n c = Inl error"
    and "nodes_mark_node_unreachable i error completed s = Inr ((), s')"
  shows "admin_api env token (SyncNode i) s = (Inl (ValueError ''last_seen_at''), s') \<and> error_status (ValueError ''last_seen_at'') = 500 \<and>
     (\<exists>n'. get_row no_id i (d_nodes s') = Some n' \<and> no_status n' = NS_OFFLINE)"
proof -
  have i: "no_id n = Some i" using get_row_key [OF assms(3)] by simp
  have node: "get_row no_id i (d_nodes s') = Some (n\<lparr>no_status := NS_OFFLINE, no_last_error := Some error\<rparr>)"
    using unreachable_node_row [OF assms(7,3)] .
  have "sync_target gateway err_text completed (Direct n) m s = (Inr (m\<lparr>sc_offline := sc_offline m + 1\<rparr>), s')" for m
    using assms(5-7) i by (simp add: sync_target_def Let_def run_uow_def record_offline_def opt_id_def)
  moreover have "sync_select cfg fresh (Some i) now s = Inr ([Direct n], s)"
    using assms(3) by (simp add: sync_select_def nodes_get_node_def bindT_def readT_def retT_def)
  ultimately have "SyncNodeStatus_execute gateway err_text cfg fresh (Some i) now completed s = (Inr \<lparr>sc_synced = 0, sc_offline = 1\<rparr>, s')"
    by (simp add: SyncNodeStatus_execute_def run_uow_def)
  then have "NodeAdministration_sync_node gateway err_text cfg fresh i now completed s =
      (Inr \<lparr>nx_node_id = i, nx_health_status = NS_OFFLINE, nx_last_seen_at = None\<rparr>, s')"
    using node assms(4) by (simp add: NodeAdministration_sync_node_def)
  then show ?thesis using node assms(1,2) by (simp add: admin_api_def map_reply_def NodeSyncResponse_validate_def)
qed

section \<open>A small shop\<close>

definition shop_settings :: api_settings where
  "shop_settings = \<lparr>ap_admin_api_token = ''admin'', ap_internal_api_key = ''key''\<rparr>"

definition shop_db :: db where
  "shop_db = (empty_db 0)\<lparr>
     d_users := \<lparr>rows = [\<lparr>us_id = Some 1, us_name_or_nick = ''ann'', us_created_at = None, us_contacts = [], us_enabled = True\<rparr>], next_id = 2\<rparr>,
     d_contacts := \<lparr>rows = [\<lparr>cr_id = Some 1, cr_user_id = 1, cr_contact_type = ''telegram_id'', cr_contact_value = ''5'', cr_is_primary = True\<rparr>], next_id = 2\<rparr>,
     d_tariffs := \<lparr>rows = [\<lparr>ta_id = Some 1, ta_name = ''month'', ta_price = \<lparr>minor = 100, currency = ''RUB''\<rparr>, ta_period_days = 30,
                     ta_description = None, ta_is_enabled = True\<rparr>], next_id = 2\<rparr>,
     d_subs := \<lparr>rows = [\<lparr>su_id = Some 1, su_user_id = 1, su_tariff_id = 1, su_status = SS_ACTIVE, su_created_at = 0, su_ended_at = None\<rparr>], next_id = 2\<rparr>,
     d_periods := \<lparr>rows = [\<lparr>sp_id = Some 1, sp_subscription_id = Some 1, sp_starts_at = 0, sp_expires_at = 100, sp_is_paid = True,
                     sp_created_at = 0, sp_payment_order_id = None\<rparr>], next_id = 2\<rparr>,
     d_servers := \<lparr>rows = [\<lparr>sv_id = Some 1, sv_server_name = ''de'', sv_host = ''de.example'', sv_is_enabled = True\<rparr>], next_id = 2\<rparr>,
     d_endpoints := \<lparr>rows = [\<lparr>en_id = Some 1, en_server_id = 1, en_protocol = ''vless'', en_port = 443, en_security = None, en_node_id = None,
                       en_local_inbound_id = None, en_sni = None, en_fingerprint = None, en_public_key = None, en_short_id = None,
                       en_transport_type = None, en_flow = None, en_encryption = None, en_is_enabled = True\<rparr>], next_id = 2\<rparr>,
     d_nodes := \<lparr>rows = [\<lparr>no_id = Some 1, no_node_key = ''n1'', no_display_name = ''n1'', no_api_base_url = ''http://n1'', no_status = NS_UNKNOWN,
                   no_is_enabled = True, no_selection_weight = 100, no_last_seen_at = None, no_last_error = None\<rparr>], next_id = 2\<rparr>,
     d_creds := \<lparr>rows = [\<lparr>nc_id = Some 1, nc_node_id = 1, nc_key_id = ''k'', nc_shared_secret = ''s'', nc_is_active = True, nc_created_at = 0,
                   nc_expires_at = None\<rparr>], next_id = 2\<rparr>,
     d_vpns := \<lparr>rows = [\<lparr>vc_id = Some 1, vc_subscription_id = 1, vc_server_endpoint_id = 1, vc_client_uuid = ''u'', vc_display_name = ''vpn'',
                  vc_status = VS_ACTIVE, vc_remote_client_ref = None, vc_created_at = Some 0, vc_revoked_at = None,
                  vc_desired_state = VD_ACTIVE, vc_generation = 1\<rparr>], next_id = 2\<rparr>\<rparr>"

lemma shop_token: "require_admin_token shop_settings ''admin'' = Inr ()" by code_simp

theorem pages_are_the_listing_witness:
  "follow_pages (\<lambda>o'. fst (get_nodes_route shop_settings ''admin'' 1 o' shop_db)) 1 0 = Some (all_nodes shop_db) \<and> length (all_nodes shop_db) = 1"
proof -
  have "length (all_nodes shop_db) = 1" by code_simp
  then show ?thesis using pages_are_the_listing [OF shop_token, of 1 shop_db] by simp
qed

lemma five: "show_nat 5 = ''5''"
  by (subst show_nat.simps) (simp add: char_of_def bit_0)

theorem dashboard_shows_paid_access_witness:
  "\<exists>d x. BotQueryService_get_dashboard 5 50 shop_db = (Inr d, shop_db) \<and> da_vpn_configuration d = Some x \<and> dv_vpn_configuration_id x = 1"
proof -
  let ?u = "hd (rows (d_users shop_db))" and ?v = "hd (rows (d_vpns shop_db))" and ?e = "hd (rows (d_endpoints shop_db))"
    and ?sv = "hd (rows (d_servers shop_db))" and ?r = "hd (rows (d_subs shop_db))"
  have user: "users_get_user_by_contact ''telegram_id'' (show_int 5) shop_db = Inr (Some ?u, shop_db)" "us_id ?u = Some 1"
    by (simp_all add: users_get_user_by_contact_def readT_def find_row_def shop_db_def show_int_def five)
  have tables: "dashboard_tables shop_db" by code_simp
  have refs: "\<forall>r\<in>set (rows (d_subs shop_db)). \<exists>t\<in>set (rows (d_tariffs shop_db)). ta_id t = Some (su_tariff_id r)" by (simp add: shop_db_def)
  have row: "paid_now 1 50 shop_db ?r" "?v \<in> set (rows (d_vpns shop_db))" "vc_status ?v = VS_ACTIVE" "su_id ?r = Some (vc_subscription_id ?v)"
      "(?e, ?sv) \<in> set (endpoint_rows ?v shop_db)" "lower (strip (en_protocol ?e)) = ''vless''" "opt_id (vc_id ?v) = 1"
    by code_simp+
  then obtain x where "vpn_payload (Some (?v, ?e, ?sv)) = Some x" "dv_vpn_configuration_id x = 1"
      "dv_uri x = VlessUriBuilder_build (vpn_build_input ?v ?e ?sv)" by (simp add: vpn_payload_def)
  then show ?thesis
    using dashboard_shows_paid_access [OF user tables refs, of 50] row by metis
qed

definition second_endpoint :: EndpointRow where
  "second_endpoint = \<lparr>en_id = None, en_server_id = 1, en_protocol = '' VLESS '', en_port = 8443, en_security = None, en_node_id = None,
     en_local_inbound_id = None, en_sni = None, en_fingerprint = None, en_public_key = None, en_short_id = None,
     en_transport_type = None, en_flow = None, en_encryption = None, en_is_enabled = True\<rparr>"

definition shop_env :: admin_env where
  "shop_env = \<lparr>av_settings = shop_settings, av_now = 0, av_reconcile = (\<lambda>s. (Inr empty_result, s)),
     av_sync_node = (\<lambda>i. NodeAdministration_sync_node (\<lambda>n c. Inl ''down'') (\<lambda>e. []) \<lparr>sy_batch_size = 1, sy_probe_lease_seconds = 1, sy_stale_after_seconds = 1\<rparr>
        (\<lambda>n. ''t'') i 10 11), av_fresh_secret = ''secret''\<rparr>"

theorem created_endpoint_can_be_provisioned_witness:
  "\<exists>e v jobs s'. admin_api shop_env ''admin'' (CreateServerEndpoint second_endpoint) shop_db = (Inr (EndpointReply (e, v), jobs), s') \<and>
     lower (strip (en_protocol e)) = ''vless'' \<and> en_id e = Some 2"
proof -
  obtain r s' where run: "admin_api shop_env ''admin'' (CreateServerEndpoint second_endpoint) shop_db = (r, s')"
    by (cases "admin_api shop_env ''admin'' (CreateServerEndpoint second_endpoint) shop_db")
  have "case fst (admin_api shop_env ''admin'' (CreateServerEndpoint second_endpoint) shop_db) of
      Inr (EndpointReply (e, v), jobs) \<Rightarrow> en_id e = Some 2 | _ \<Rightarrow> False" by code_simp
  then obtain e v jobs where r: "r = Inr (EndpointReply (e, v), jobs)" "en_id e = Some 2"
    unfolding run fst_conv by (cases r) (auto split: admin_reply.splits)
  have "table_wf en_id (d_endpoints shop_db)" by code_simp
  from created_endpoint_can_be_provisioned [OF run [unfolded r(1)] this] show ?thesis
    using run r by blast
qed

theorem sync_of_unseen_node_is_server_error_witness:
  "\<exists>s'. admin_api shop_env ''admin'' (SyncNode 1) shop_db = (Inl (ValueError ''last_seen_at''), s') \<and> s' \<noteq> shop_db"
proof -
  let ?n = "hd (rows (d_nodes shop_db))" and ?c = "hd (rows (d_creds shop_db))"
  have "case nodes_mark_node_unreachable 1 ''down'' 11 shop_db of Inr (_, s') \<Rightarrow> True | _ \<Rightarrow> False" by code_simp
  then obtain s' where s': "nodes_mark_node_unreachable 1 ''down'' 11 shop_db = Inr ((), s')" by (auto split: sum.splits)
  have env: "require_admin_token (av_settings shop_env) ''admin'' = Inr ()"
      "av_sync_node shop_env = (\<lambda>i. NodeAdministration_sync_node (\<lambda>n c. Inl ''down'') (\<lambda>e. []) \<lparr>sy_batch_size = 1, sy_probe_lease_seconds = 1, sy_stale_after_seconds = 1\<rparr>
        (\<lambda>n. ''t'') i 10 11)" by (simp_all add: shop_env_def shop_token)
  have node: "get_row no_id 1 (d_nodes shop_db) = Some ?n" "no_last_seen_at ?n = None" "no_status ?n = NS_UNKNOWN"
    by (simp_all add: shop_db_def get_row_def)
  have cred: "nodes_get_active_credential 1 shop_db = Inr (Some ?c, shop_db)"
    by (simp add: nodes_get_active_credential_def readT_def shop_db_def select_rows_def)
  show ?thesis
    using sync_of_unseen_node_is_server_error [OF env node(1,2) cred _ s'] node by auto
qed

end
