(* ===== verification/WebhookApi.thy ===== *)
theory WebhookApi
  imports Adapters AdminApi "HOL-Library.Word"
begin

unbundle bit_operations_syntax

text \<open>
  The webhook routes (\<^verbatim>\<open>apps/api/routes/webhooks.py\<close>): where a request comes from, how much of it is read, and what the provider's
  answer is turned into. Addresses and networks are those of Python's \<^verbatim>\<open>ipaddress\<close>: an IPv4 address is a 32 bit word, an IPv6 address a
  128 bit word, and a network keeps the address bits its mask selects.
\<close>

section \<open>Addresses and networks\<close>

datatype ip = IPv4 "32 word" | IPv6 "128 word"

definition parse_ipv4 :: "string \<Rightarrow> 32 word option" where
  "parse_ipv4 s =
     (if valid_ipv4 s then Some (foldl (\<lambda>w p. push_bit 8 w OR of_nat (decimal_value p)) 0 (split_on (CHR ''.'') s)) else None)"

definition hextet_value :: "string \<Rightarrow> nat" where
  "hextet_value s = foldl (\<lambda>n c. n * 16 + hex_value (upper_char c)) 0 s"

definition hextet_text :: "nat \<Rightarrow> string" where
  "hextet_text n = map (\<lambda>i. hex_digit (n div 16 ^ i mod 16)) [3, 2, 1, 0]"

text \<open>The parts between the colons, a dotted tail written as two parts, and the eight parts after \<^verbatim>\<open>::\<close> is filled up.\<close>

definition ipv6_parts :: "string \<Rightarrow> string list" where
  "ipv6_parts s =
     (let parts = split_on (CHR '':'') (hd (split_on (CHR ''%'') s)) in
      case parse_ipv4 (last parts) of
        None \<Rightarrow> parts
      | Some w \<Rightarrow> butlast parts @ [hextet_text (unat (drop_bit 16 w)), hextet_text (unat (take_bit 16 w))])"

definition ipv6_hextets :: "string list \<Rightarrow> string list" where
  "ipv6_hextets parts =
     (let n = length parts in
      case filter (\<lambda>i. parts ! i = []) [1..<n - 1] of
        [] \<Rightarrow> parts
      | i # _ \<Rightarrow>
          (let hi = (if hd parts = [] then i - 1 else i); lo = (if last parts = [] then n - i - 2 else n - i - 1) in
           take hi parts @ replicate (8 - (hi + lo)) ''0'' @ drop (n - lo) parts))"

definition parse_ipv6 :: "string \<Rightarrow> 128 word option" where
  "parse_ipv6 s =
     (if is_ipv6_address s then Some (foldl (\<lambda>w p. push_bit 16 w OR of_nat (hextet_value p)) 0 (ipv6_hextets (ipv6_parts s))) else None)"

definition ip_address :: "string \<Rightarrow> ip option" where
  "ip_address value =
     (case parse_ipv4 value of Some w \<Rightarrow> Some (IPv4 w) | None \<Rightarrow> map_option IPv6 (parse_ipv6 value))"

definition netmask :: "nat \<Rightarrow> 'a::len word" where
  "netmask prefix = (- 1) XOR drop_bit prefix (- 1)"

datatype network = Net4 "32 word" nat | Net6 "128 word" nat

definition prefix_of_text :: "nat \<Rightarrow> string \<Rightarrow> nat option" where
  "prefix_of_text longest s = (if s \<noteq> [] \<and> list_all is_digit s \<and> decimal_value s \<le> longest then Some (decimal_value s) else None)"

text \<open>An IPv4 mask may also be a dotted netmask or hostmask.\<close>

definition prefix_of_mask :: "32 word \<Rightarrow> nat option" where
  "prefix_of_mask w =
     (case List.find (\<lambda>p. netmask p = w) [0..<33] of
        Some p \<Rightarrow> Some p
      | None \<Rightarrow> List.find (\<lambda>p. netmask p = NOT w) [0..<33])"

definition ipv4_prefix :: "string option \<Rightarrow> nat option" where
  "ipv4_prefix m' =
     (case m' of
        None \<Rightarrow> Some 32
      | Some m \<Rightarrow>
          (case prefix_of_text 32 m of
             Some p \<Rightarrow> Some p
           | None \<Rightarrow> (case parse_ipv4 m of None \<Rightarrow> None | Some w \<Rightarrow> prefix_of_mask w)))"

definition ipv6_prefix :: "string option \<Rightarrow> nat option" where
  "ipv6_prefix m' = (case m' of None \<Rightarrow> Some 128 | Some m \<Rightarrow> prefix_of_text 128 m)"

definition ipv4_network :: "string \<Rightarrow> string option \<Rightarrow> network option" where
  "ipv4_network addr m' =
     (case (parse_ipv4 addr, ipv4_prefix m') of
        (Some w, Some p) \<Rightarrow> Some (Net4 (w AND netmask p) p)
      | _ \<Rightarrow> None)"

definition ipv6_network :: "string \<Rightarrow> string option \<Rightarrow> network option" where
  "ipv6_network addr m' =
     (case (parse_ipv6 addr, ipv6_prefix m') of
        (Some w, Some p) \<Rightarrow> Some (Net6 (w AND netmask p) p)
      | _ \<Rightarrow> None)"

definition ip_network :: "string \<Rightarrow> network option" where
  "ip_network cidr =
     (case split_on (CHR ''/'') cidr of
        [addr] \<Rightarrow> (case ipv4_network addr None of Some n \<Rightarrow> Some n | None \<Rightarrow> ipv6_network addr None)
      | [addr, m'] \<Rightarrow> (case ipv4_network addr (Some m') of Some n \<Rightarrow> Some n | None \<Rightarrow> ipv6_network addr (Some m'))
      | _ \<Rightarrow> None)"

fun in_network :: "ip \<Rightarrow> network \<Rightarrow> bool" where
  "in_network (IPv4 a) (Net4 n p) \<longleftrightarrow> a AND netmask p = n"
| "in_network (IPv6 a) (Net6 n p) \<longleftrightarrow> a AND netmask p = n"
| "in_network _ _ \<longleftrightarrow> False"

section \<open>The source of a request\<close>

text \<open>A network that cannot be parsed ends the search: the exception is answered with \<^verbatim>\<open>False\<close>.\<close>

fun any_network :: "ip \<Rightarrow> string list \<Rightarrow> bool" where
  "any_network a [] = False"
| "any_network a (c # cs) =
     (case ip_network c of None \<Rightarrow> False | Some n \<Rightarrow> in_network a n \<or> any_network a cs)"

definition in_cidrs :: "string \<Rightarrow> string list \<Rightarrow> bool" where
  "in_cidrs value cidrs = (case ip_address value of None \<Rightarrow> False | Some a \<Rightarrow> any_network a cidrs)"

record webhook_request =
  wr_client_host :: "string option"
  wr_headers :: headers
  wr_stream :: "string list"

definition invalid_source :: error where
  "invalid_source = HTTPException 401 ''invalid webhook source''"

definition peer_ip :: "webhook_request \<Rightarrow> string res" where
  "peer_ip request = (case wr_client_host request of None \<Rightarrow> Inl invalid_source | Some h \<Rightarrow> if h = [] then Inl invalid_source else Inr h)"

fun walk_chain :: "string list \<Rightarrow> string \<Rightarrow> string list \<Rightarrow> string res" where
  "walk_chain trusted current [] = Inr current"
| "walk_chain trusted current (candidate # rest) =
     (if \<not> in_cidrs current trusted then Inr current
      else if ip_address candidate = None then Inl invalid_source
      else walk_chain trusted candidate rest)"

definition forwarded_chain :: "webhook_request \<Rightarrow> string list" where
  "forwarded_chain request =
     filter (\<lambda>part. part \<noteq> []) (map strip (split_on (CHR '','') (or_else (map_of (wr_headers request) ''x-forwarded-for'') [])))"

definition effective_client_ip :: "webhook_request \<Rightarrow> string list \<Rightarrow> string res" where
  "effective_client_ip request trusted =
     bindE (peer_ip request) (\<lambda>peer.
     if \<not> in_cidrs peer trusted then Inr peer
     else if forwarded_chain request = [] then Inr peer
     else walk_chain trusted peer (rev (forwarded_chain request)))"

section \<open>The body\<close>

definition body_too_large :: error where
  "body_too_large = HTTPException 413 ''webhook body too large''"

fun read_chunks :: "int \<Rightarrow> string \<Rightarrow> string list \<Rightarrow> string res" where
  "read_chunks maximum body [] = Inr body"
| "read_chunks maximum body (chunk # chunks) =
     (let body = body @ chunk in if int (length body) > maximum then Inl body_too_large else read_chunks maximum body chunks)"

definition check_content_length :: "webhook_request \<Rightarrow> int \<Rightarrow> unit res" where
  "check_content_length request maximum =
     (let raw_length = or_else (map_of (wr_headers request) ''content-length'') [] in
      if raw_length = [] then Inr ()
      else case py_int raw_length of
             None \<Rightarrow> Inl (HTTPException 400 ''invalid content length'')
           | Some n \<Rightarrow> if n > maximum then Inl body_too_large else Inr ())"

definition read_bounded_body :: "webhook_request \<Rightarrow> int \<Rightarrow> string res" where
  "read_bounded_body request maximum =
     bindE (check_content_length request maximum) (\<lambda>_. read_chunks maximum [] (wr_stream request))"

section \<open>The routes\<close>

record webhook_settings =
  ws_trusted_proxy_cidrs :: "string list"
  ws_yookassa_allowed_networks :: "string list"
  ws_max_body_bytes :: int

definition check_source :: "webhook_settings \<Rightarrow> string \<Rightarrow> webhook_request \<Rightarrow> unit res" where
  "check_source cfg provider request =
     (if lower (strip provider) = ''yookassa''
      then bindE (effective_client_ip request (ws_trusted_proxy_cidrs cfg)) (\<lambda>source_ip.
           ensure (in_cidrs source_ip (ws_yookassa_allowed_networks cfg)) invalid_source)
      else Inr ())"

fun webhook_error :: "error \<Rightarrow> error" where
  "webhook_error (WebhookAuthenticationError _) = HTTPException 401 ''invalid webhook''"
| "webhook_error (WebhookPayloadError _) = HTTPException 400 ''invalid webhook payload''"
| "webhook_error (ValueError _) = HTTPException 404 ''unsupported payment provider''"
| "webhook_error e = e"

type_synonym ingest = "string \<Rightarrow> string \<Rightarrow> headers \<Rightarrow> db \<Rightarrow> (ingest_result \<times> job list) res \<times> db"

definition handle_payment_webhook ::
  "webhook_settings \<Rightarrow> ingest \<Rightarrow> string \<Rightarrow> webhook_request \<Rightarrow> db \<Rightarrow> (ingest_result \<times> job list) res \<times> db" where
  "handle_payment_webhook cfg ingest provider request s =
     (case bindE (check_source cfg provider request) (\<lambda>_. read_bounded_body request (ws_max_body_bytes cfg)) of
        Inl e \<Rightarrow> (Inl e, s)
      | Inr raw_body \<Rightarrow>
          (case ingest provider raw_body (wr_headers request) s of
             (Inl e, s') \<Rightarrow> (Inl (webhook_error e), s')
           | (Inr r, s') \<Rightarrow> (Inr r, s')))"

definition yookassa_webhook where
  "yookassa_webhook cfg ingest = handle_payment_webhook cfg ingest ''yookassa''"

text \<open>The use case as the routes call it.\<close>

definition shop_ingest :: "pay_lib \<Rightarrow> pay_settings \<Rightarrow> time \<Rightarrow> ingest" where
  "shop_ingest lib pay now provider raw_body hs =
     IngestWebhook_execute (registry_verify lib pay now) (pl_loads lib) provider raw_body (map (\<lambda>(k, v). (k, JStr v)) hs) now"

section \<open>Networks are common prefixes\<close>

lemma bit_netmask: "bit (netmask p :: 'a::len word) i \<longleftrightarrow> i < LENGTH('a) \<and> LENGTH('a) \<le> i + p"
  by (auto simp: netmask_def bit_xor_iff bit_drop_bit_eq bit_minus_1_iff bit_mask_iff bit_not_iff)

lemma masked_eq_iff:
  "a AND netmask p = w AND netmask p \<longleftrightarrow> (\<forall>i. LENGTH('a) - p \<le> i \<longrightarrow> i < LENGTH('a) \<longrightarrow> bit a i = bit w i)" for a w :: "'a::len word"
proof -
  have "a AND netmask p = w AND netmask p \<longleftrightarrow> (\<forall>i. i < LENGTH('a) \<longrightarrow> LENGTH('a) \<le> i + p \<longrightarrow> bit a i = bit w i)"
    by (auto simp: bit_eq_iff bit_and_iff bit_netmask)
  then show ?thesis by (auto simp: diff_le_eq)
qed

lemma prefix_of_text_le: "prefix_of_text n s = Some p \<Longrightarrow> p \<le> n"
  by (auto simp: prefix_of_text_def split: if_splits)

lemma find_mem: "List.find P xs = Some x \<Longrightarrow> x \<in> set xs"
  by (induction xs) (auto split: if_splits)

lemma ipv4_prefix_le: "ipv4_prefix m = Some p \<Longrightarrow> p \<le> 32"
proof (cases m)
  case (Some x)
  assume p: "ipv4_prefix m = Some p"
  have "q \<le> 32" if "List.find P [0..<33] = Some q" for P q
    using find_mem [OF that] by (simp del: upt_rec_numeral)
  then show ?thesis
    using p Some prefix_of_text_le [of 32 x] by (auto simp: ipv4_prefix_def prefix_of_mask_def split: option.splits)
qed (simp add: ipv4_prefix_def)

lemma ipv6_prefix_le: "ipv6_prefix m = Some p \<Longrightarrow> p \<le> 128"
  by (auto simp: ipv6_prefix_def split: option.splits dest: prefix_of_text_le)

text \<open>A network is a common prefix: a network text denotes an address and a prefix length no longer than the address, and an address
  belongs to it exactly if it has the same version and agrees with the network's address in that many leading bits; the
  remaining bits of either do not matter.\<close>

theorem network_is_common_prefix:
  "(ipv4_network addr m = Some n \<longrightarrow> (\<exists>w p. parse_ipv4 addr = Some w \<and> p \<le> 32 \<and>
     (\<forall>a. in_network (IPv4 a) n \<longleftrightarrow> (\<forall>i. 32 - p \<le> i \<longrightarrow> i < 32 \<longrightarrow> bit a i = bit w i)) \<and> (\<forall>b. \<not> in_network (IPv6 b) n))) \<and>
   (ipv6_network addr m = Some n \<longrightarrow> (\<exists>w p. parse_ipv6 addr = Some w \<and> p \<le> 128 \<and>
     (\<forall>a. in_network (IPv6 a) n \<longleftrightarrow> (\<forall>i. 128 - p \<le> i \<longrightarrow> i < 128 \<longrightarrow> bit a i = bit w i)) \<and> (\<forall>b. \<not> in_network (IPv4 b) n)))"
  (is "(_ \<longrightarrow> ?v4) \<and> (_ \<longrightarrow> ?v6)")
proof (intro conjI impI)
  assume "ipv4_network addr m = Some n"
  then obtain w p where "parse_ipv4 addr = Some w" "ipv4_prefix m = Some p" "n = Net4 (w AND netmask p) p"
    by (auto simp: ipv4_network_def split: option.splits)
  then show ?v4 using ipv4_prefix_le by (auto simp: masked_eq_iff)
next
  assume "ipv6_network addr m = Some n"
  then obtain w p where "parse_ipv6 addr = Some w" "ipv6_prefix m = Some p" "n = Net6 (w AND netmask p) p"
    by (auto simp: ipv6_network_def split: option.splits)
  then show ?v6 using ipv6_prefix_le by (auto simp: masked_eq_iff)
qed

section \<open>The client behind the proxies\<close>

lemma walk_chain_closed:
  "walk_chain trusted current hs =
     (let k = length (takeWhile (\<lambda>h. in_cidrs h trusted) (current # hs)); k = min k (length hs) in
      if list_all (\<lambda>h. ip_address h \<noteq> None) (take k hs) then Inr ((current # hs) ! k) else Inl invalid_source)"
  by (induction hs arbitrary: current) (auto simp: Let_def)

text \<open>C33. The address a webhook is attributed to is the first hop that is not a trusted proxy: counted from the connection and then from the right end
  of the forwarded chain, it is the first address outside the trusted networks, or the last one if all are trusted. Nothing the
  sender wrote further to the left has an influence, and a hop that is consulted but is not an address makes the request fail.\<close>

theorem client_is_first_untrusted_hop:
  assumes "wr_client_host request = Some peer" and "peer \<noteq> []"
  shows "effective_client_ip request trusted =
     (let hops = peer # rev (forwarded_chain request);
          k = min (length (takeWhile (\<lambda>h. in_cidrs h trusted) hops)) (length hops - 1) in
      if list_all (\<lambda>h. ip_address h \<noteq> None) (take k (tl hops)) then Inr (hops ! k) else Inl invalid_source)"
proof (cases "in_cidrs peer trusted")
  case True
  show ?thesis
  proof (cases "forwarded_chain request = []")
    case False
    then show ?thesis
      using assms True walk_chain_closed [of trusted peer "rev (forwarded_chain request)"]
      by (simp add: effective_client_ip_def peer_ip_def bindE_def Let_def)
  qed (use assms True in \<open>simp add: effective_client_ip_def peer_ip_def bindE_def\<close>)
qed (use assms in \<open>simp add: effective_client_ip_def peer_ip_def bindE_def\<close>)

lemma any_network_member:
  "any_network a cidrs \<Longrightarrow> \<exists>cidr\<in>set cidrs. \<exists>n. ip_network cidr = Some n \<and> in_network a n"
  by (induction cidrs) (auto split: option.splits)

lemma in_cidrs_member:
  assumes "in_cidrs ip cidrs"
  shows "\<exists>a. ip_address ip = Some a \<and> (\<exists>cidr\<in>set cidrs. \<exists>n. ip_network cidr = Some n \<and> in_network a n)"
  using assms any_network_member by (auto simp: in_cidrs_def split: option.splits)

lemma read_chunks_Inr:
  "read_chunks maximum body chunks = Inr b \<Longrightarrow>
     b = body @ concat chunks \<and> (int (length body) \<le> maximum \<longrightarrow> int (length b) \<le> maximum)"
  by (induction chunks arbitrary: body) (fastforce simp: Let_def split: if_splits)+

lemma read_bounded_body_Inr:
  assumes "read_bounded_body request maximum = Inr b" and "0 < maximum"
  shows "b = concat (wr_stream request)" and "int (length b) \<le> maximum"
  using assms read_chunks_Inr [of maximum "[]" "wr_stream request" b] by (auto simp: read_bounded_body_def bindE_eq_Inr)

lemma shop_ingest_Inr:
  assumes "shop_ingest lib pay now provider raw hs s = (Inr (r, jobs), s')"
  shows "jobs = [PROCESS_PAYMENT_EVENT (ir_payment_event_id r)]"
    and "\<exists>n. registry_verify lib pay now provider raw (map (\<lambda>(k, v). (k, JStr v)) hs) = Inr n \<and> ir_event_key r = ne_event_key n"
  using assms unfolding shop_ingest_def IngestWebhook_execute_def
  by (auto simp: bindE_eq_Inr run_uow_def bindT_def retT_def split: sum.splits prod.splits)

lemma shop_ingest_Inl: "shop_ingest lib pay now provider raw hs s = (Inl e, s') \<Longrightarrow> s' = s"
  by (auto simp: shop_ingest_def IngestWebhook_execute_def run_uow_def split: sum.splits prod.splits)

text \<open>C32. A webhook is taken in only if it passed the route's checks. A refused request leaves the database as it was. An accepted one
  was read completely and within the size limit, was vouched for by its provider, and has queued the processing of its event; if it
  claims to be from YooKassa it came from an address in one of the configured networks; in production it does claim so.\<close>

theorem accepted_webhook_passed_route:
  assumes "handle_payment_webhook cfg (shop_ingest lib pay now) provider request s = (result, s')" and "0 < ws_max_body_bytes cfg"
  shows "case result of
     Inl e \<Rightarrow> s' = s
   | Inr (r, jobs) \<Rightarrow>
       int (length (concat (wr_stream request))) \<le> ws_max_body_bytes cfg \<and> jobs = [PROCESS_PAYMENT_EVENT (ir_payment_event_id r)] \<and>
       (\<exists>n. registry_verify lib pay now provider (concat (wr_stream request)) (map (\<lambda>(k, v). (k, JStr v)) (wr_headers request)) = Inr n \<and>
            ir_event_key r = ne_event_key n) \<and>
       (pg_production pay \<longrightarrow> provider = ''yookassa'') \<and>
       (provider = ''yookassa'' \<longrightarrow>
          (\<exists>ip a. effective_client_ip request (ws_trusted_proxy_cidrs cfg) = Inr ip \<and> ip_address ip = Some a \<and>
             (\<exists>cidr\<in>set (ws_yookassa_allowed_networks cfg). \<exists>n. ip_network cidr = Some n \<and> in_network a n)))"
proof (cases result)
  case (Inl e)
  then have "s' = s"
    using assms(1) shop_ingest_Inl by (fastforce simp: handle_payment_webhook_def split: sum.splits prod.splits)
  then show ?thesis using Inl by simp
next
  case (Inr y)
  obtain r jobs where y: "y = (r, jobs)" by (cases y)
  obtain raw where src: "check_source cfg provider request = Inr ()" and raw: "read_bounded_body request (ws_max_body_bytes cfg) = Inr raw"
    and ing: "shop_ingest lib pay now provider raw (wr_headers request) s = (Inr (r, jobs), s')"
    using assms(1) unfolding Inr y handle_payment_webhook_def
    by (auto simp: bindE_def split: sum.splits prod.splits)
  note body = read_bounded_body_Inr [OF raw assms(2)]
  note ok = shop_ingest_Inr [OF ing, unfolded body(1)]
  have "pg_production pay \<longrightarrow> provider = ''yookassa''"
    using ok(2) by (auto simp: registry_verify_def bindE_eq_Inr PaymentAdapterRegistry_get_def require_def registered_adapters_def
        split: option.splits if_splits)
  moreover have "\<exists>ip a. effective_client_ip request (ws_trusted_proxy_cidrs cfg) = Inr ip \<and> ip_address ip = Some a \<and>
      (\<exists>cidr\<in>set (ws_yookassa_allowed_networks cfg). \<exists>n. ip_network cidr = Some n \<and> in_network a n)" if "provider = ''yookassa''"
  proof -
    have "lower (strip provider) = ''yookassa''" unfolding that by code_simp
    then obtain ip where "effective_client_ip request (ws_trusted_proxy_cidrs cfg) = Inr ip" "in_cidrs ip (ws_yookassa_allowed_networks cfg)"
      using src by (auto simp: check_source_def bindE_eq_Inr ensure_def split: if_splits)
    then show ?thesis using in_cidrs_member by blast
  qed
  ultimately show ?thesis unfolding Inr y using ok body by auto
qed

section \<open>Examples\<close>

theorem network_is_common_prefix_witness:
  "ipv4_network ''10.1.0.0'' (Some ''8'') = Some (Net4 0x0A000000 8) \<and>
   (\<exists>w p. parse_ipv4 ''10.1.0.0'' = Some w \<and> p \<le> 32 \<and>
     (\<forall>a. in_network (IPv4 a) (Net4 0x0A000000 8) \<longleftrightarrow> (\<forall>i. 32 - p \<le> i \<longrightarrow> i < 32 \<longrightarrow> bit a i = bit w i)))"
proof -
  have "ipv4_network ''10.1.0.0'' (Some ''8'') = Some (Net4 0x0A000000 8)" by code_simp
  then show ?thesis using network_is_common_prefix [of "''10.1.0.0''" "Some ''8''" "Net4 0x0A000000 8"] by auto
qed

definition sample_notification :: webhook_request where
  "sample_notification = \<lparr>wr_client_host = Some ''10.0.0.1'', wr_headers = [(''x-forwarded-for'', ''6.6.6.6, 185.71.76.1'')], wr_stream = [''ra'', ''w'']\<rparr>"

definition sample_webhook_settings :: webhook_settings where
  "sample_webhook_settings = \<lparr>ws_trusted_proxy_cidrs = [''10.0.0.0/8''], ws_yookassa_allowed_networks = [''185.71.76.0/27''], ws_max_body_bytes = 100\<rparr>"

lemma sample_chain: "forwarded_chain sample_notification = [''6.6.6.6'', ''185.71.76.1'']" by code_simp

theorem client_is_first_untrusted_hop_witness:
  "effective_client_ip sample_notification [''10.0.0.0/8''] = Inr ''185.71.76.1''"
proof -
  have "in_cidrs ''10.0.0.1'' [''10.0.0.0/8'']" "\<not> in_cidrs ''185.71.76.1'' [''10.0.0.0/8'']" "ip_address ''185.71.76.1'' \<noteq> None" by code_simp+
  then show ?thesis
    using client_is_first_untrusted_hop [of sample_notification "''10.0.0.1''" "[''10.0.0.0/8'']"]
    by (simp add: sample_chain) (simp add: sample_notification_def Let_def)
qed

theorem accepted_webhook_passed_route_witness:
  "\<exists>r jobs s'. handle_payment_webhook sample_webhook_settings (shop_ingest sample_pay sample_pay_settings 7) ''yookassa'' sample_notification (empty_db 0) =
     (Inr (r, jobs), s') \<and> jobs = [PROCESS_PAYMENT_EVENT (ir_payment_event_id r)] \<and> length (rows (d_events s')) = 1"
proof -
  obtain result s' where run: "handle_payment_webhook sample_webhook_settings (shop_ingest sample_pay sample_pay_settings 7) ''yookassa'' sample_notification (empty_db 0) = (result, s')"
    by (cases "handle_payment_webhook sample_webhook_settings (shop_ingest sample_pay sample_pay_settings 7) ''yookassa'' sample_notification (empty_db 0)")
  have "case handle_payment_webhook sample_webhook_settings (shop_ingest sample_pay sample_pay_settings 7) ''yookassa'' sample_notification (empty_db 0) of
      (Inr _, s') \<Rightarrow> length (rows (d_events s')) = 1 | _ \<Rightarrow> False" by code_simp
  then obtain r jobs where ok: "result = Inr (r, jobs)" "length (rows (d_events s')) = 1"
    unfolding run by (cases result) auto
  have "0 < ws_max_body_bytes sample_webhook_settings" by (simp add: sample_webhook_settings_def)
  from accepted_webhook_passed_route [OF run this] show ?thesis using run ok by auto
qed

end
