(* ===== verification/BotUi.thy ===== *)
theory BotUi
  imports Config
begin

text \<open>
  What the Telegram bot shows and understands: keyboards (\<^verbatim>\<open>apps/bot/keyboards.py\<close>), screens, callback data and the order in which the
  router tries its handlers (\<^verbatim>\<open>apps/bot/handlers.py\<close>).

  A text is named by the constant or function of the source that renders it and carries the values put into it; the wording and the
  labels of buttons are left out. Callback data are the texts of the source.
\<close>

section \<open>Texts\<close>

datatype day_form = DAYS_MANY | DAYS_ONE | DAYS_FEW

definition format_period :: "int \<Rightarrow> int \<times> day_form" where
  "format_period period_days =
     (let last_two = period_days mod 100; lst = period_days mod 10 in
      (period_days, if 11 \<le> last_two \<and> last_two \<le> 14 then DAYS_MANY else if lst = 1 then DAYS_ONE
                    else if 2 \<le> lst \<and> lst \<le> 4 then DAYS_FEW else DAYS_MANY))"

text \<open>The price with two decimals unless it is whole; exact for every amount a floating point number represents exactly.\<close>

definition format_price :: "int \<Rightarrow> string \<Rightarrow> string" where
  "format_price price_minor cur =
     (if price_minor mod 100 = 0 then show_int (price_minor div 100)
      else (if price_minor < 0 then ''-'' else []) @ show_nat (nat \<bar>price_minor\<bar> div 100) @ ''.'' @ two_digits (nat \<bar>price_minor\<bar> mod 100)) @
     '' '' @ cur"

fun escape_char :: "char \<Rightarrow> string" where
  "escape_char c =
     (if c = CHR ''&'' then ''&amp;'' else if c = CHR ''<'' then ''&lt;'' else if c = CHR ''>'' then ''&gt;''
      else if c = CHR 0x22 then ''&quot;'' else if c = CHR 0x27 then ''&#x27;'' else [c])"

definition escape :: "string \<Rightarrow> string" where
  "escape s = concat (map escape_char s)"

record tariff_block =
  tb_name :: string
  tb_price :: string
  tb_period :: "int \<times> day_form"
  tb_description :: "string option"

datatype bot_text =
    HOME_LOADING_TEXT | TARIFF_LOADING_TEXT | MY_VPN_LOADING_TEXT | HELP_TEXT | INSTRUCTIONS_TEXT
  | BACKEND_ERROR_TEXT | NETWORK_ERROR_TEXT | USER_RECOVERABLE_ERROR_TEXT | UNKNOWN_ERROR_TEXT | UNKNOWN_INPUT_TEXT
  | STALE_ACTION_TEXT | TARIFF_EMPTY_TEXT | TARIFF_STALE_TEXT | ORDER_ERROR_TEXT | ORDER_CREATING_TEXT
  | HomeInactiveText | HomeReadyText time | HomePendingText time
  | VpnInactiveText | VpnReadyText time string | VpnPendingText time
  | TariffsText "tariff_block list"
  | PaymentReadyText int string string | PaymentUnavailableText int | PaymentDevLocalText string

section \<open>Keyboards\<close>

datatype button = Callback string | Url string

type_synonym keyboard = "button list list"

definition ANDROID_URL :: string where "ANDROID_URL = ''https://telegra.ph/Instrukciya-Android-11-09''"
definition IOS_URL :: string where "IOS_URL = ''https://telegra.ph/Instrukciya-iOS-11-09''"
definition WINDOWS_URL :: string where "WINDOWS_URL = ''https://telegra.ph/Instrukciya-Windows-11-09''"
definition LINUX_URL :: string where "LINUX_URL = ''https://telegra.ph/Instrukciya-Linux-11-09''"

definition back_and_home_row :: "string \<Rightarrow> button list" where
  "back_and_home_row back_route_code = [Callback (''ui2:b:'' @ back_route_code), Callback ''ui2:h'']"

definition platform_row :: "string \<Rightarrow> string \<Rightarrow> button list" where
  "platform_row first_url second_url = [Url first_url, Url second_url]"

definition home_inactive_keyboard :: keyboard where
  "home_inactive_keyboard = [[Callback ''ui2:t''], [Callback ''ui2:v''], [Callback ''ui2:i''], [Callback ''ui2:help'']]"

definition home_active_ready_keyboard :: keyboard where
  "home_active_ready_keyboard = [[Callback ''ui2:v''], [Callback ''ui2:t''], [Callback ''ui2:i''], [Callback ''ui2:help'']]"

definition home_active_pending_keyboard :: keyboard where
  "home_active_pending_keyboard = [[Callback ''ui2:v''], [Callback ''ui2:t''], [Callback ''ui2:i''], [Callback ''ui2:help'']]"

definition route_loading_keyboard :: keyboard where
  "route_loading_keyboard = [[Callback ''ui2:b:h'']]"

definition order_data :: "string \<Rightarrow> int \<Rightarrow> string \<Rightarrow> string" where
  "order_data prefix tariff_id intent_id = prefix @ show_int tariff_id @ '':'' @ intent_id"

definition tariffs_keyboard :: "Tariff list \<Rightarrow> (int \<Rightarrow> string) \<Rightarrow> keyboard" where
  "tariffs_keyboard tariffs intent_ids =
     map (\<lambda>t. [Callback (order_data ''ui2:o:'' (opt_id (ta_id t)) (intent_ids (opt_id (ta_id t))))]) tariffs @ [[Callback ''ui2:b:h'']]"

definition tariff_refresh_keyboard :: keyboard where
  "tariff_refresh_keyboard = [[Callback ''ui2:t''], [Callback ''ui2:b:h'']]"

definition order_error_keyboard :: "int \<Rightarrow> string \<Rightarrow> keyboard" where
  "order_error_keyboard tariff_id intent_id =
     [[Callback (order_data ''ui2:r:'' tariff_id intent_id)], [Callback ''ui2:t''], back_and_home_row ''t'']"

definition payment_ready_keyboard :: "string \<Rightarrow> keyboard" where
  "payment_ready_keyboard payment_url = [[Url payment_url], [Callback ''ui2:v''], back_and_home_row ''t'']"

definition payment_unavailable_keyboard :: keyboard where
  "payment_unavailable_keyboard = [[Callback ''ui2:t''], back_and_home_row ''t'']"

definition payment_dev_local_keyboard :: keyboard where
  "payment_dev_local_keyboard = [[Callback ''ui2:t''], back_and_home_row ''t'']"

definition my_vpn_inactive_keyboard :: keyboard where
  "my_vpn_inactive_keyboard = [[Callback ''ui2:t''], [Callback ''ui2:i''], [Callback ''ui2:b:h'']]"

definition my_vpn_pending_keyboard :: keyboard where
  "my_vpn_pending_keyboard = [[Callback ''ui2:v''], [Callback ''ui2:help''], [Callback ''ui2:b:h'']]"

definition my_vpn_ready_keyboard :: keyboard where
  "my_vpn_ready_keyboard =
     [platform_row ANDROID_URL IOS_URL, platform_row WINDOWS_URL LINUX_URL, [Callback ''ui2:t''], [Callback ''ui2:b:h'']]"

definition instructions_keyboard :: keyboard where
  "instructions_keyboard =
     [platform_row ANDROID_URL IOS_URL, platform_row WINDOWS_URL LINUX_URL, [Callback ''ui2:v''], [Callback ''ui2:b:h'']]"

definition help_keyboard :: keyboard where
  "help_keyboard = [[Callback ''ui2:v''], [Callback ''ui2:i''], [Callback ''ui2:b:h'']]"

definition backend_error_keyboard :: "string \<Rightarrow> keyboard" where
  "backend_error_keyboard context_code = [[Callback (''ui2:retry:'' @ context_code)], [Callback ''ui2:h'']]"

definition home_only_keyboard :: keyboard where
  "home_only_keyboard = [[Callback ''ui2:h'']]"

section \<open>Callback data\<close>

datatype route =
    Home | Tariffs | MyVpn | Instructions | Help | Back | RetryContext | SelectTariff | RetryOrder | LegacyBuy | Stale

text \<open>The handlers in the order they are registered.\<close>

definition callback_routes :: "((string \<Rightarrow> bool) \<times> route) list" where
  "callback_routes =
     [((=) ''ui2:h'', Home), ((=) ''ui2:t'', Tariffs), ((=) ''ui2:v'', MyVpn), ((=) ''ui2:i'', Instructions), ((=) ''ui2:help'', Help),
      (starts_with ''ui2:b:'', Back), (starts_with ''ui2:retry:'', RetryContext), (starts_with ''ui2:o:'', SelectTariff),
      (starts_with ''ui2:r:'', RetryOrder), ((=) ''main_menu'', Home), ((=) ''tariffs'', Tariffs), ((=) ''dashboard'', MyVpn),
      ((=) ''help'', Help), ((=) ''instructions'', Instructions), (starts_with ''buy:'', LegacyBuy)]"

fun first_route :: "((string \<Rightarrow> bool) \<times> route) list \<Rightarrow> string \<Rightarrow> route" where
  "first_route [] d = Stale"
| "first_route ((matches, r) # rest) d = (if matches d then r else first_route rest d)"

definition callback_route :: "string option \<Rightarrow> route" where
  "callback_route data = (case data of None \<Rightarrow> Stale | Some d \<Rightarrow> first_route callback_routes d)"

definition intent_char :: "char \<Rightarrow> bool" where
  "intent_char c \<longleftrightarrow> (let n = (of_char c :: nat) in (48 \<le> n \<and> n \<le> 57) \<or> (65 \<le> n \<and> n \<le> 90) \<or> (97 \<le> n \<and> n \<le> 122)) \<or> c = CHR ''_'' \<or> c = CHR ''-''"

definition is_intent_id :: "string \<Rightarrow> bool" where
  "is_intent_id s \<longleftrightarrow> length s = 10 \<and> list_all intent_char s"

definition parse_order_callback :: "string option \<Rightarrow> string \<Rightarrow> (int \<times> string) option" where
  "parse_order_callback data prefix =
     (case data of
        None \<Rightarrow> None
      | Some d \<Rightarrow>
          if d = [] \<or> \<not> starts_with prefix d then None
          else
            (case split_on (CHR '':'') (drop (length prefix) d) of
               [tariff_raw, intent_id] \<Rightarrow>
                 if tariff_raw = [] \<or> \<not> list_all is_digit tariff_raw \<or> length intent_id \<noteq> 10 then None
                 else if \<not> list_all intent_char intent_id then None
                 else Some (int (decimal_value tariff_raw), intent_id)
             | _ \<Rightarrow> None))"

definition remove_prefix :: "string \<Rightarrow> string \<Rightarrow> string" where
  "remove_prefix p s = (if starts_with p s then drop (length p) s else s)"

end
