(* ===== verification/Bot.thy ===== *)
theory Bot
  imports BotUi
begin

text \<open>
  The Telegram bot (\<^verbatim>\<open>apps/bot/handlers.py\<close>, \<^verbatim>\<open>order_flow.py\<close>, \<^verbatim>\<open>infrastructure/redis/dedup.py\<close>). A handler is a function of an update and
  the bot's state: the keys the deduplicator has seen, the backend, and the messages sent so far.

  The backend is a record of operations on a state of its own, so that handlers can be run against the shop's interface or against
  any other one. Texts the bot has sent are recognised by the constructor they were sent with; older messages say
  themselves whether they begin like a payment message.
\<close>

section \<open>Updates\<close>

record tg_user =
  tu_id :: int
  tu_username :: "string option"
  tu_first_name :: "string option"
  tu_last_name :: "string option"

text \<open>The message a pressed button belongs to: unavailable, one of the bot's texts, an older text, or one without text.\<close>

datatype source = Unavailable | Shown bot_text | OldText bool | NoText bool

record callback_query =
  cq_id :: string
  cq_from :: tg_user
  cq_data :: "string option"
  cq_source :: source

datatype command = Start | Menu | Plans | Status | HelpCommand | InstructionsCommand | Unknown

record message =
  me_chat_id :: int
  me_message_id :: int
  me_from :: tg_user
  me_command :: command

definition display_name :: "tg_user \<Rightarrow> string" where
  "display_name user =
     (let joined = strip (join_str '' '' (filter (\<lambda>p. p \<noteq> []) [or_else (tu_first_name user) [], or_else (tu_last_name user) []])) in
      if joined \<noteq> [] then joined else or_else (tu_username user) (''telegram-'' @ show_int (tu_id user)))"

definition requires_new_message :: "source \<Rightarrow> bool" where
  "requires_new_message src \<longleftrightarrow> (case src of NoText _ \<Rightarrow> True | _ \<Rightarrow> False)"

definition is_artifact_source :: "source \<Rightarrow> bool" where
  "is_artifact_source src \<longleftrightarrow>
     (case src of
        Shown (PaymentReadyText _ _ _) \<Rightarrow> True
      | Shown (PaymentUnavailableText _) \<Rightarrow> True
      | Shown (PaymentDevLocalText _) \<Rightarrow> True
      | OldText artifact \<Rightarrow> artifact
      | NoText artifact \<Rightarrow> artifact
      | _ \<Rightarrow> False)"

section \<open>The backend and the state of the bot\<close>

datatype backend_error = NetworkFailure | StatusError int | OtherFailure

type_synonym 'a bres = "backend_error + 'a"

record 'b backend =
  be_register_user :: "int \<Rightarrow> string option \<Rightarrow> string \<Rightarrow> 'b \<Rightarrow> unit bres \<times> 'b"
  be_list_tariffs :: "'b \<Rightarrow> Tariff list bres \<times> 'b"
  be_get_dashboard :: "int \<Rightarrow> 'b \<Rightarrow> dashboard bres \<times> 'b"
  be_create_order :: "int \<Rightarrow> int \<Rightarrow> string option \<Rightarrow> string \<Rightarrow> string option \<Rightarrow> string option \<Rightarrow> 'b \<Rightarrow> payment_response bres \<times> 'b"

datatype action =
    Acknowledge
  | SendMessage bot_text "keyboard option"
  | EditMessage bot_text "keyboard option"

record 'b bot =
  bo_seen :: "(string \<times> time) list"
  bo_backend :: 'b
  bo_out :: "action list"

record 'b bot_env =
  bv_backend :: "'b backend"
  bv_provider :: string
  bv_dedup_ttl_seconds :: int
  bv_production :: bool
  bv_intent_ids :: "int \<Rightarrow> string"

definition emit :: "action \<Rightarrow> 'b bot \<Rightarrow> 'b bot" where
  "emit a st = st\<lparr>bo_out := bo_out st @ [a]\<rparr>"

definition ensure_once :: "string \<Rightarrow> int \<Rightarrow> time \<Rightarrow> 'b bot \<Rightarrow> bool \<times> 'b bot" where
  "ensure_once key ttl_seconds now st =
     (if list_ex (\<lambda>(k, e). k = key \<and> now < e) (bo_seen st) then (False, st)
      else (True, st\<lparr>bo_seen := (key, now + seconds ttl_seconds) # filter (\<lambda>(k, e). k \<noteq> key) (bo_seen st)\<rparr>))"

definition call_backend :: "('b \<Rightarrow> 'a bres \<times> 'b) \<Rightarrow> 'b bot \<Rightarrow> 'a bres \<times> 'b bot" where
  "call_backend f st = (case f (bo_backend st) of (r, b) \<Rightarrow> (r, st\<lparr>bo_backend := b\<rparr>))"

definition accept_message :: "'b bot_env \<Rightarrow> message \<Rightarrow> time \<Rightarrow> 'b bot \<Rightarrow> bool \<times> 'b bot" where
  "accept_message env m now st =
     ensure_once (''telegram:message:'' @ show_int (me_chat_id m) @ '':'' @ show_int (me_message_id m)) (bv_dedup_ttl_seconds env) now st"

definition accept_callback :: "'b bot_env \<Rightarrow> callback_query \<Rightarrow> time \<Rightarrow> 'b bot \<Rightarrow> bool \<times> 'b bot" where
  "accept_callback env c now st =
     ensure_once (''telegram:callback:'' @ show_int (tu_id (cq_from c)) @ '':'' @ cq_id c) (bv_dedup_ttl_seconds env) now (emit Acknowledge st)"

section \<open>Presenting\<close>

definition send_message :: "bot_text \<Rightarrow> keyboard option \<Rightarrow> 'b bot \<Rightarrow> 'b bot" where
  "send_message text_value markup = emit (SendMessage text_value markup)"

definition replace_message :: "bot_text \<Rightarrow> keyboard option \<Rightarrow> 'b bot \<Rightarrow> 'b bot" where
  "replace_message text_value markup = emit (EditMessage text_value markup)"

text \<open>Whether there is a message to show the rest in, and the state after showing the first text.\<close>

definition render_callback :: "callback_query \<Rightarrow> bot_text \<Rightarrow> keyboard option \<Rightarrow> 'b bot \<Rightarrow> bool \<times> 'b bot" where
  "render_callback c text_value markup st =
     (if cq_source c = Unavailable then (False, st)
      else if is_artifact_source (cq_source c) \<or> requires_new_message (cq_source c) then (True, send_message text_value markup st)
      else (True, replace_message text_value markup st))"

definition backend_failure_text :: "backend_error \<Rightarrow> bot_text" where
  "backend_failure_text e =
     (case e of
        NetworkFailure \<Rightarrow> NETWORK_ERROR_TEXT
      | StatusError n \<Rightarrow> if 400 \<le> n \<and> n < 500 then USER_RECOVERABLE_ERROR_TEXT else BACKEND_ERROR_TEXT
      | OtherFailure \<Rightarrow> UNKNOWN_ERROR_TEXT)"

definition key_ready :: "dashboard \<Rightarrow> string option" where
  "key_ready d = (case da_vpn_configuration d of None \<Rightarrow> None | Some v \<Rightarrow> if dv_uri v = [] then None else Some (dv_uri v))"

definition home_screen :: "dashboard \<Rightarrow> bot_text \<times> keyboard" where
  "home_screen d =
     (case da_subscription d of
        None \<Rightarrow> (HomeInactiveText, home_inactive_keyboard)
      | Some sub \<Rightarrow>
          (case key_ready d of
             Some _ \<Rightarrow> (HomeReadyText (ds_expires_at sub), home_active_ready_keyboard)
           | None \<Rightarrow> (HomePendingText (ds_expires_at sub), home_active_pending_keyboard)))"

definition my_vpn_screen :: "dashboard \<Rightarrow> bot_text \<times> keyboard" where
  "my_vpn_screen d =
     (case da_subscription d of
        None \<Rightarrow> (VpnInactiveText, my_vpn_inactive_keyboard)
      | Some sub \<Rightarrow>
          (case key_ready d of
             Some uri \<Rightarrow> (VpnReadyText (ds_expires_at sub) (escape uri), my_vpn_ready_keyboard)
           | None \<Rightarrow> (VpnPendingText (ds_expires_at sub), my_vpn_pending_keyboard)))"

definition tariffs_text :: "Tariff list \<Rightarrow> bot_text" where
  "tariffs_text tariffs = TariffsText (map (\<lambda>t.
     \<lparr>tb_name = escape (ta_name t), tb_price = escape (format_price (minor (ta_price t)) (currency (ta_price t))),
      tb_period = format_period (ta_period_days t),
      tb_description = (case ta_description t of None \<Rightarrow> None | Some d \<Rightarrow> if strip d = [] then None else Some (escape (strip d)))\<rparr>) tariffs)"

section \<open>Loading a screen\<close>

definition register_user :: "'b bot_env \<Rightarrow> tg_user \<Rightarrow> 'b bot \<Rightarrow> unit bres \<times> 'b bot" where
  "register_user env user = call_backend (be_register_user (bv_backend env) (tu_id user) (tu_username user) (display_name user))"

definition load_dashboard :: "'b bot_env \<Rightarrow> tg_user \<Rightarrow> 'b bot \<Rightarrow> dashboard bres \<times> 'b bot" where
  "load_dashboard env user st =
     (case register_user env user st of
        (Inl e, st) \<Rightarrow> (Inl e, st)
      | (Inr _, st) \<Rightarrow> call_backend (be_get_dashboard (bv_backend env) (tu_id user)) st)"

definition load_home :: "'b bot_env \<Rightarrow> tg_user \<Rightarrow> 'b bot \<Rightarrow> 'b bot" where
  "load_home env user st =
     (case load_dashboard env user st of
        (Inl e, st) \<Rightarrow> replace_message (backend_failure_text e) (Some (backend_error_keyboard ''h'')) st
      | (Inr d, st) \<Rightarrow> (case home_screen d of (text_value, markup) \<Rightarrow> replace_message text_value (Some markup) st))"

definition load_my_vpn :: "'b bot_env \<Rightarrow> tg_user \<Rightarrow> 'b bot \<Rightarrow> 'b bot" where
  "load_my_vpn env user st =
     (case load_dashboard env user st of
        (Inl e, st) \<Rightarrow> replace_message (backend_failure_text e) (Some (backend_error_keyboard ''v'')) st
      | (Inr d, st) \<Rightarrow> (case my_vpn_screen d of (text_value, markup) \<Rightarrow> replace_message text_value (Some markup) st))"

definition render_tariffs :: "'b bot_env \<Rightarrow> Tariff list \<Rightarrow> 'b bot \<Rightarrow> 'b bot" where
  "render_tariffs env tariffs =
     (if tariffs = [] then replace_message TARIFF_EMPTY_TEXT (Some tariff_refresh_keyboard)
      else replace_message (tariffs_text tariffs) (Some (tariffs_keyboard tariffs (bv_intent_ids env))))"

definition load_tariffs :: "'b bot_env \<Rightarrow> tg_user \<Rightarrow> 'b bot \<Rightarrow> 'b bot" where
  "load_tariffs env user st =
     (case register_user env user st of
        (Inl e, st) \<Rightarrow> replace_message (backend_failure_text e) (Some (backend_error_keyboard ''t'')) st
      | (Inr _, st) \<Rightarrow>
          (case call_backend (be_list_tariffs (bv_backend env)) st of
             (Inl e, st) \<Rightarrow> replace_message (backend_failure_text e) (Some (backend_error_keyboard ''t'')) st
           | (Inr tariffs, st) \<Rightarrow> render_tariffs env (filter ta_is_enabled tariffs) st))"

definition from_callback ::
  "callback_query \<Rightarrow> bot_text \<Rightarrow> keyboard option \<Rightarrow> ('b bot \<Rightarrow> 'b bot) \<Rightarrow> 'b bot \<Rightarrow> 'b bot" where
  "from_callback c loading markup load st =
     (case render_callback c loading markup st of (shown, st) \<Rightarrow> if shown then load st else st)"

definition home_from_message where
  "home_from_message env m st = load_home env (me_from m) (send_message HOME_LOADING_TEXT None st)"

definition home_from_callback where
  "home_from_callback env c = from_callback c HOME_LOADING_TEXT None (load_home env (cq_from c))"

definition tariffs_from_message where
  "tariffs_from_message env m st = load_tariffs env (me_from m) (send_message TARIFF_LOADING_TEXT (Some route_loading_keyboard) st)"

definition tariffs_from_callback where
  "tariffs_from_callback env c = from_callback c TARIFF_LOADING_TEXT (Some route_loading_keyboard) (load_tariffs env (cq_from c))"

definition my_vpn_from_message where
  "my_vpn_from_message env m st = load_my_vpn env (me_from m) (send_message MY_VPN_LOADING_TEXT (Some route_loading_keyboard) st)"

definition my_vpn_from_callback where
  "my_vpn_from_callback env c = from_callback c MY_VPN_LOADING_TEXT (Some route_loading_keyboard) (load_my_vpn env (cq_from c))"

section \<open>Orders\<close>

datatype order_failure = TariffUnavailable | OrderBackendError backend_error

definition order_key :: "int \<Rightarrow> int \<Rightarrow> string \<Rightarrow> string" where
  "order_key telegram_id tariff_id intent_id =
     ''tg-ui2:'' @ show_int telegram_id @ '':'' @ show_int tariff_id @ '':'' @ intent_id"

definition create_or_retry ::
  "'b bot_env \<Rightarrow> tg_user \<Rightarrow> int \<Rightarrow> string \<Rightarrow> 'b bot \<Rightarrow> (order_failure + payment_response) \<times> 'b bot" where
  "create_or_retry env user tariff_id intent_id st =
     (case call_backend (be_list_tariffs (bv_backend env)) st of
        (Inl e, st) \<Rightarrow> (Inl (OrderBackendError e), st)
      | (Inr tariffs, st) \<Rightarrow>
          if \<not> list_ex (\<lambda>t. ta_id t = Some tariff_id \<and> ta_is_enabled t) tariffs then (Inl TariffUnavailable, st)
          else
            (case call_backend (be_create_order (bv_backend env) (tu_id user) tariff_id (Some (bv_provider env))
                    (order_key (tu_id user) tariff_id intent_id) (tu_username user) (Some (display_name user))) st of
               (Inl e, st) \<Rightarrow> (Inl (OrderBackendError e), st)
             | (Inr order, st) \<Rightarrow> (Inr order, st)))"

definition url_scheme :: "string \<Rightarrow> string" where
  "url_scheme url =
     (let clean = filter (\<lambda>c. c \<notin> {CHR 0x09, CHR 0x0A, CHR 0x0D}) (dropWhile (\<lambda>c. (of_char c :: nat) \<le> 32) url) in
      if without_scheme clean = clean then [] else lower (fst (split_at (CHR '':'') clean)))"

definition url_hostname :: "string \<Rightarrow> string" where
  "url_hostname netloc =
     (let hostinfo = rev (takeWhile (\<lambda>c. c \<noteq> CHR ''@'') (rev netloc)) in
      lower (case split_at (CHR ''['') hostinfo of
               (_, Some bracketed) \<Rightarrow> fst (split_at (CHR '']'') bracketed)
             | (_, None) \<Rightarrow> fst (split_at (CHR '':'') hostinfo)))"

definition is_local_url :: "string \<Rightarrow> bool res" where
  "is_local_url url = bindE (url_netloc url) (\<lambda>netloc. Inr (url_hostname netloc \<in> {''localhost'', ''127.0.0.1'', ''::1''}))"

definition is_valid_external_url :: "string \<Rightarrow> bool res" where
  "is_valid_external_url url =
     bindE (url_netloc url) (\<lambda>netloc.
     if url_scheme url \<notin> {''http'', ''https''} \<or> netloc = [] then Inr False
     else bindE (is_local_url url) (\<lambda>is_local. Inr (\<not> is_local)))"

definition payment_artifact :: "'b bot_env \<Rightarrow> payment_response \<Rightarrow> (bot_text \<times> keyboard) res" where
  "payment_artifact env order =
     (let unavailable = (PaymentUnavailableText (opt_id (re_payment_order_id order)), payment_unavailable_keyboard);
          payment_url = or_else (re_payment_url order) [] in
      if payment_url = [] then Inr unavailable
      else bindE (is_local_url payment_url) (\<lambda>is_local.
           if is_local
           then Inr (if bv_production env then unavailable else (PaymentDevLocalText (escape payment_url), payment_dev_local_keyboard))
           else bindE (is_valid_external_url payment_url) (\<lambda>valid.
                Inr (if \<not> valid then unavailable
                     else (PaymentReadyText (opt_id (re_payment_order_id order)) (escape (re_tariff_name order))
                             (escape (format_price (re_amount_minor order) (re_currency order))), payment_ready_keyboard payment_url)))))"

text \<open>An exception while the payment message is built leaves the handler; nothing more is shown then.\<close>

definition create_order :: "'b bot_env \<Rightarrow> callback_query \<Rightarrow> int \<Rightarrow> string \<Rightarrow> 'b bot \<Rightarrow> unit res \<times> 'b bot" where
  "create_order env c tariff_id intent_id st =
     (case render_callback c ORDER_CREATING_TEXT None st of (shown, st) \<Rightarrow>
      if \<not> shown then (Inr (), st)
      else
        (case (case register_user env (cq_from c) st of
                 (Inl e, st) \<Rightarrow> (Inl (OrderBackendError e), st)
               | (Inr _, st) \<Rightarrow> create_or_retry env (cq_from c) tariff_id intent_id st) of
           (Inl TariffUnavailable, st) \<Rightarrow> (Inr (), replace_message TARIFF_STALE_TEXT (Some tariff_refresh_keyboard) st)
         | (Inl (OrderBackendError _), st) \<Rightarrow> (Inr (), replace_message ORDER_ERROR_TEXT (Some (order_error_keyboard tariff_id intent_id)) st)
         | (Inr order, st) \<Rightarrow>
             (case payment_artifact env order of
                Inl e \<Rightarrow> (Inl e, st)
              | Inr (text_value, markup) \<Rightarrow> (Inr (), replace_message text_value (Some markup) st))))"

section \<open>Handlers\<close>

definition back_callback :: "'b bot_env \<Rightarrow> callback_query \<Rightarrow> 'b bot \<Rightarrow> 'b bot" where
  "back_callback env c st =
     (let route_code = remove_prefix ''ui2:b:'' (or_else (cq_data c) []) in
      if route_code = ''h'' then home_from_callback env c st
      else if route_code = ''t'' then tariffs_from_callback env c st
      else snd (render_callback c STALE_ACTION_TEXT (Some home_only_keyboard) st))"

definition retry_context_callback :: "'b bot_env \<Rightarrow> callback_query \<Rightarrow> 'b bot \<Rightarrow> 'b bot" where
  "retry_context_callback env c st =
     (let context_code = remove_prefix ''ui2:retry:'' (or_else (cq_data c) []) in
      if context_code = ''h'' then home_from_callback env c st
      else if context_code = ''t'' then tariffs_from_callback env c st
      else if context_code = ''v'' then my_vpn_from_callback env c st
      else snd (render_callback c STALE_ACTION_TEXT (Some home_only_keyboard) st))"

definition stale_callback :: "callback_query \<Rightarrow> 'b bot \<Rightarrow> 'b bot" where
  "stale_callback c st = snd (render_callback c STALE_ACTION_TEXT (Some home_only_keyboard) st)"

definition intent_key :: "int \<Rightarrow> int \<Rightarrow> string \<Rightarrow> string" where
  "intent_key telegram_id tariff_id intent_id =
     ''telegram:ui2:intent:'' @ show_int telegram_id @ '':'' @ show_int tariff_id @ '':'' @ intent_id"

definition select_tariff_callback :: "'b bot_env \<Rightarrow> callback_query \<Rightarrow> time \<Rightarrow> 'b bot \<Rightarrow> unit res \<times> 'b bot" where
  "select_tariff_callback env c now st =
     (case parse_order_callback (cq_data c) ''ui2:o:'' of
        None \<Rightarrow> (Inr (), stale_callback c st)
      | Some (tariff_id, intent_id) \<Rightarrow>
          (case ensure_once (intent_key (tu_id (cq_from c)) tariff_id intent_id) (bv_dedup_ttl_seconds env) now st of
             (False, st) \<Rightarrow> (Inr (), st)
           | (True, st) \<Rightarrow> create_order env c tariff_id intent_id st))"

definition retry_order_callback :: "'b bot_env \<Rightarrow> callback_query \<Rightarrow> 'b bot \<Rightarrow> unit res \<times> 'b bot" where
  "retry_order_callback env c st =
     (case parse_order_callback (cq_data c) ''ui2:r:'' of
        None \<Rightarrow> (Inr (), stale_callback c st)
      | Some (tariff_id, intent_id) \<Rightarrow> create_order env c tariff_id intent_id st)"

definition legacy_buy_callback :: "'b bot_env \<Rightarrow> callback_query \<Rightarrow> 'b bot \<Rightarrow> 'b bot" where
  "legacy_buy_callback env c =
     from_callback c TARIFF_LOADING_TEXT (Some route_loading_keyboard) (\<lambda>st.
       (case call_backend (be_list_tariffs (bv_backend env)) st of
          (Inl e, st) \<Rightarrow> replace_message (backend_failure_text e) (Some (backend_error_keyboard ''t'')) st
        | (Inr _, st) \<Rightarrow> replace_message TARIFF_STALE_TEXT (Some tariff_refresh_keyboard) st))"

definition dispatch_callback :: "'b bot_env \<Rightarrow> callback_query \<Rightarrow> time \<Rightarrow> 'b bot \<Rightarrow> unit res \<times> 'b bot" where
  "dispatch_callback env c now st =
     (case callback_route (cq_data c) of
        Home \<Rightarrow> (Inr (), home_from_callback env c st)
      | Tariffs \<Rightarrow> (Inr (), tariffs_from_callback env c st)
      | MyVpn \<Rightarrow> (Inr (), my_vpn_from_callback env c st)
      | Help \<Rightarrow> (Inr (), snd (render_callback c HELP_TEXT (Some help_keyboard) st))
      | Instructions \<Rightarrow> (Inr (), snd (render_callback c INSTRUCTIONS_TEXT (Some instructions_keyboard) st))
      | Back \<Rightarrow> (Inr (), back_callback env c st)
      | RetryContext \<Rightarrow> (Inr (), retry_context_callback env c st)
      | SelectTariff \<Rightarrow> select_tariff_callback env c now st
      | RetryOrder \<Rightarrow> retry_order_callback env c st
      | LegacyBuy \<Rightarrow> (Inr (), legacy_buy_callback env c st)
      | Stale \<Rightarrow> (Inr (), stale_callback c st))"

text \<open>Every callback handler acknowledges the update and stops if it was seen before.\<close>

definition on_callback :: "'b bot_env \<Rightarrow> callback_query \<Rightarrow> time \<Rightarrow> 'b bot \<Rightarrow> unit res \<times> 'b bot" where
  "on_callback env c now st =
     (case accept_callback env c now st of
        (False, st) \<Rightarrow> (Inr (), st)
      | (True, st) \<Rightarrow> dispatch_callback env c now st)"

definition on_message :: "'b bot_env \<Rightarrow> message \<Rightarrow> time \<Rightarrow> 'b bot \<Rightarrow> 'b bot" where
  "on_message env m now st =
     (case accept_message env m now st of
        (False, st) \<Rightarrow> st
      | (True, st) \<Rightarrow>
          (case me_command m of
             Start \<Rightarrow> home_from_message env m st
           | Menu \<Rightarrow> home_from_message env m st
           | Plans \<Rightarrow> tariffs_from_message env m st
           | Status \<Rightarrow> my_vpn_from_message env m st
           | HelpCommand \<Rightarrow> send_message HELP_TEXT (Some help_keyboard) st
           | InstructionsCommand \<Rightarrow> send_message INSTRUCTIONS_TEXT (Some instructions_keyboard) st
           | Unknown \<Rightarrow> send_message UNKNOWN_INPUT_TEXT (Some home_only_keyboard) st))"

section \<open>The shop as the backend\<close>

definition status_of_error :: "error \<Rightarrow> backend_error" where
  "status_of_error e = StatusError (error_status e)"

definition over_http :: "('a \<Rightarrow> 'c) \<Rightarrow> 'a res \<times> db \<Rightarrow> 'c bres \<times> db" where
  "over_http f r = (case r of (Inl e, s) \<Rightarrow> (Inl (status_of_error e), s) | (Inr x, s) \<Rightarrow> (Inr (f x), s))"

record shop_api_env =
  sh_settings :: api_settings
  sh_client_key :: string
  sh_registry :: "string \<Rightarrow> gateway res"
  sh_default_provider :: string
  sh_lease_seconds :: int
  sh_token :: uuid
  sh_fresh_key :: string
  sh_now :: time
  sh_later :: time

text \<open>The routes of \<^verbatim>\<open>apps/api/routes/bot_commands.py\<close> and \<^verbatim>\<open>bot_queries.py\<close>, behind the internal key the client sends.\<close>

definition bot_api :: "shop_api_env \<Rightarrow> (db \<Rightarrow> 'a res \<times> db) \<Rightarrow> db \<Rightarrow> 'a res \<times> db" where
  "bot_api env endpoint s =
     (case require_internal_api_key (sh_settings env) (sh_client_key env) of Inl e \<Rightarrow> (Inl e, s) | Inr _ \<Rightarrow> endpoint s)"

definition register_bot_user_endpoint :: "shop_api_env \<Rightarrow> int \<Rightarrow> string option \<Rightarrow> string \<Rightarrow> db \<Rightarrow> User res \<times> db" where
  "register_bot_user_endpoint env telegram_id username name_or_nick = bot_api env (RegisterBotUser_execute telegram_id username name_or_nick)"

definition create_order_endpoint ::
  "shop_api_env \<Rightarrow> int \<Rightarrow> int \<Rightarrow> string option \<Rightarrow> string option \<Rightarrow> string option \<Rightarrow> string option \<Rightarrow> db \<Rightarrow> payment_response res \<times> db" where
  "create_order_endpoint env telegram_id tariff_id provider idempotency_key username name_or_nick =
     bot_api env (CreatePayment_execute (sh_registry env) (\<lambda>s. s) (sh_lease_seconds env)
       (payment_request_of (sh_default_provider env) (sh_fresh_key env) telegram_id tariff_id provider idempotency_key username name_or_nick)
       (sh_token env) (sh_now env) (sh_later env))"

definition list_tariffs_endpoint :: "shop_api_env \<Rightarrow> db \<Rightarrow> Tariff list res \<times> db" where
  "list_tariffs_endpoint env = bot_api env BotQueryService_list_tariffs"

definition dashboard_endpoint :: "shop_api_env \<Rightarrow> int \<Rightarrow> db \<Rightarrow> dashboard res \<times> db" where
  "dashboard_endpoint env telegram_id = bot_api env (BotQueryService_get_dashboard telegram_id (sh_now env))"

definition shop_backend :: "shop_api_env \<Rightarrow> db backend" where
  "shop_backend env =
     \<lparr>be_register_user = (\<lambda>telegram_id username name s. over_http (\<lambda>_. ()) (register_bot_user_endpoint env telegram_id username name s)),
      be_list_tariffs = (\<lambda>s. over_http id (list_tariffs_endpoint env s)),
      be_get_dashboard = (\<lambda>telegram_id s. over_http id (dashboard_endpoint env telegram_id s)),
      be_create_order = (\<lambda>telegram_id tariff_id provider key username name s.
        over_http id (create_order_endpoint env telegram_id tariff_id provider (Some key) username name s))\<rparr>"

end
