(* ===== verification/BotProps.thy ===== *)
theory BotProps
  imports Bot
begin

text \<open>
  Properties of the Telegram bot: the buttons it shows are understood when they are pressed, every update is answered once, a repeated tap
  orders nothing, and a key is shown only to the customer whose dashboard has it.
\<close>

section \<open>Callback data\<close>

lemma decimal_digits: "decimal_value s = digits_value s"
  by (simp add: decimal_value_def digits_value_def foldl_conv_fold)

lemma digit_facts:
  assumes "is_digit c"
  shows "decimal_digit c" and "c \<noteq> CHR '':''" and "intent_char c"
  using assms by (auto simp: is_digit_def decimal_digit_def intent_char_def Let_def)

lemma show_int_digits:
  assumes "0 \<le> i"
  shows "list_all is_digit (show_int i)" and "show_int i \<noteq> []" and "decimal_value (show_int i) = nat i"
proof -
  have "show_int i = show_nat (nat i)" using assms by (simp add: show_int_def)
  then show "list_all is_digit (show_int i)" "show_int i \<noteq> []" "decimal_value (show_int i) = nat i"
    using show_nat_all_digits [of "nat i"] digits_value_show [of "nat i"] show_nat_eq [of "nat i"]
    by (auto simp: all_digits_def list_all_iff is_digit_def Let_def decimal_digits)
qed

lemma intent_no_colon: "is_intent_id s \<Longrightarrow> CHR '':'' \<notin> set s"
  by (auto simp: is_intent_id_def list_all_iff intent_char_def Let_def)

lemma digits_no_colon: "list_all is_digit s \<Longrightarrow> CHR '':'' \<notin> set s"
  by (auto simp: list_all_iff dest: digit_facts)

lemma starts_with_append [simp]: "starts_with p (p @ s)"
  by (induction p) auto

lemma parse_order_data:
  assumes "0 \<le> tariff_id" and "is_intent_id intent_id" and "prefix \<noteq> []"
  shows "parse_order_callback (Some (order_data prefix tariff_id intent_id)) prefix = Some (tariff_id, intent_id)"
proof -
  note d = show_int_digits [OF assms(1)]
  have "split_on (CHR '':'') (show_int tariff_id @ CHR '':'' # intent_id) = [show_int tariff_id, intent_id]"
    using split_on_no_sep [OF digits_no_colon [OF d(1)]] split_on_no_sep [OF intent_no_colon [OF assms(2)]] by (simp add: split_on_append)
  then show ?thesis
    using d assms by (simp add: parse_order_callback_def order_data_def is_intent_id_def)
qed

lemma colon_prefix:
  assumes "x @ CHR '':'' # s = y @ CHR '':'' # t" and "CHR '':'' \<notin> set x" and "CHR '':'' \<notin> set y"
  shows "x = y \<and> s = t"
  using assms by (induction x arbitrary: y) (case_tac y; auto)+

lemma show_int_inj: "show_int i = show_int j \<Longrightarrow> 0 \<le> i \<Longrightarrow> 0 \<le> j \<Longrightarrow> i = j"
  using show_int_digits(3) by (metis eq_nat_nat_iff)

text \<open>The order behind a button survives the way to Telegram and back: the data of a tariff's button, and of the button that retries
  its order, are parsed to the tariff and intent they were made of, and the idempotency key the shop is asked with tells any two
  orders apart that differ in customer, tariff or intent.\<close>

theorem order_button_roundtrip:
  assumes "0 \<le> tariff_id" and "is_intent_id intent_id" and "0 \<le> user" and "0 \<le> user'" and "0 \<le> tariff_id'" and "is_intent_id intent_id'"
  shows "parse_order_callback (Some (order_data ''ui2:o:'' tariff_id intent_id)) ''ui2:o:'' = Some (tariff_id, intent_id) \<and>
     parse_order_callback (Some (order_data ''ui2:r:'' tariff_id intent_id)) ''ui2:r:'' = Some (tariff_id, intent_id) \<and>
     (order_key user tariff_id intent_id = order_key user' tariff_id' intent_id' \<longleftrightarrow>
        user = user' \<and> tariff_id = tariff_id' \<and> intent_id = intent_id')"
proof -
  have colon: "CHR '':'' \<notin> set (show_int i)" if "0 \<le> i" for i using digits_no_colon [OF show_int_digits(1) [OF that]] .
  have "user = user' \<and> tariff_id = tariff_id' \<and> intent_id = intent_id'" if "order_key user tariff_id intent_id = order_key user' tariff_id' intent_id'"
  proof -
    have eq: "show_int user @ CHR '':'' # (show_int tariff_id @ CHR '':'' # intent_id) =
        show_int user' @ CHR '':'' # (show_int tariff_id' @ CHR '':'' # intent_id')"
      using that by (simp add: order_key_def)
    note c1 = colon_prefix [OF eq colon [OF assms(3)] colon [OF assms(4)]]
    note c2 = colon_prefix [OF conjunct2 [OF c1] colon [OF assms(1)] colon [OF assms(5)]]
    show ?thesis using c1 c2 show_int_inj assms by blast
  qed
  then show ?thesis using parse_order_data [OF assms(1,2)] by auto
qed

definition sample_intent :: string where
  "sample_intent = ''aZ09_-bcde''"

theorem order_button_roundtrip_witness:
  "parse_order_callback (Some (order_data ''ui2:o:'' 3 sample_intent)) ''ui2:o:'' = Some (3, sample_intent) \<and>
   order_key 5 3 sample_intent \<noteq> order_key 6 3 sample_intent"
proof -
  have "is_intent_id sample_intent" by code_simp
  then show ?thesis using order_button_roundtrip [of 3 sample_intent 5 6 3 sample_intent] by simp
qed

section \<open>Buttons\<close>

text \<open>Whether pressing a button with these data is understood: it reaches a handler that does not answer that the button is outdated, and
  the data fit into the 64 bytes Telegram allows.\<close>

definition understood :: "string \<Rightarrow> bool" where
  "understood d \<longleftrightarrow> length d \<le> 64 \<and>
     (case callback_route (Some d) of
        Stale \<Rightarrow> False
      | LegacyBuy \<Rightarrow> False
      | Back \<Rightarrow> remove_prefix ''ui2:b:'' d \<in> {''h'', ''t''}
      | RetryContext \<Rightarrow> remove_prefix ''ui2:retry:'' d \<in> {''h'', ''t'', ''v''}
      | SelectTariff \<Rightarrow> parse_order_callback (Some d) ''ui2:o:'' \<noteq> None
      | RetryOrder \<Rightarrow> parse_order_callback (Some d) ''ui2:r:'' \<noteq> None
      | _ \<Rightarrow> True)"

definition good_keyboard :: "keyboard \<Rightarrow> bool" where
  "good_keyboard k \<longleftrightarrow> (\<forall>row\<in>set k. \<forall>b\<in>set row. case b of Callback d \<Rightarrow> understood d | Url _ \<Rightarrow> True)"

lemma fixed_data_understood:
  "understood ''ui2:h''" "understood ''ui2:t''" "understood ''ui2:v''" "understood ''ui2:i''" "understood ''ui2:help''"
  "understood ''ui2:b:h''" "understood ''ui2:b:t''" "understood ''ui2:retry:h''" "understood ''ui2:retry:t''" "understood ''ui2:retry:v''"
  by code_simp+

lemmas keyboard_defs = home_inactive_keyboard_def home_active_ready_keyboard_def home_active_pending_keyboard_def route_loading_keyboard_def
  tariff_refresh_keyboard_def payment_ready_keyboard_def payment_unavailable_keyboard_def payment_dev_local_keyboard_def
  my_vpn_inactive_keyboard_def my_vpn_pending_keyboard_def my_vpn_ready_keyboard_def instructions_keyboard_def help_keyboard_def
  backend_error_keyboard_def home_only_keyboard_def back_and_home_row_def platform_row_def

lemma fixed_keyboards_good:
  "good_keyboard home_inactive_keyboard" "good_keyboard home_active_ready_keyboard" "good_keyboard home_active_pending_keyboard"
  "good_keyboard route_loading_keyboard" "good_keyboard tariff_refresh_keyboard" "good_keyboard (payment_ready_keyboard url)"
  "good_keyboard payment_unavailable_keyboard" "good_keyboard payment_dev_local_keyboard" "good_keyboard my_vpn_inactive_keyboard"
  "good_keyboard my_vpn_pending_keyboard" "good_keyboard my_vpn_ready_keyboard" "good_keyboard instructions_keyboard" "good_keyboard help_keyboard"
  "good_keyboard (backend_error_keyboard ''h'')" "good_keyboard (backend_error_keyboard ''t'')" "good_keyboard (backend_error_keyboard ''v'')"
  "good_keyboard home_only_keyboard"
  using fixed_data_understood by (simp_all add: good_keyboard_def keyboard_defs)

lemma order_data_route:
  "callback_route (Some (order_data ''ui2:o:'' t i)) = SelectTariff" "callback_route (Some (order_data ''ui2:r:'' t i)) = RetryOrder"
  by (simp_all add: callback_route_def callback_routes_def order_data_def)

lemma order_data_understood:
  assumes "0 \<le> t" and "t < 10 ^ 47" and "is_intent_id i" and "prefix \<in> {''ui2:o:'', ''ui2:r:''}"
  shows "understood (order_data prefix t i)"
proof -
  have "nat t < 10 ^ Suc 46" using assms(1,2) by simp
  then have "length (show_int t) \<le> 47" using length_show_nat [of "nat t" 46] assms(1) by (simp add: show_int_def)
  then have "length (order_data prefix t i) \<le> 64" using assms(3,4) by (auto simp: order_data_def is_intent_id_def)
  then show ?thesis
    using parse_order_data [OF assms(1,3)] assms(4) by (auto simp: understood_def order_data_route)
qed

lemma split_on_parts:
  "split_on c xs = [a] \<Longrightarrow> xs = a"
  "split_on c xs = [a, b] \<Longrightarrow> xs = a @ c # b"
  by (induction xs arbitrary: a) (auto split: if_splits list.splits simp: split_on_ne)

lemma digits_value_bound: "all_digits s \<Longrightarrow> digits_value s < 10 ^ length s"
proof (induction s rule: rev_induct)
  case (snoc c s)
  then have "digits_value s < 10 ^ length s" "(of_char c :: nat) - 48 \<le> 9" by (auto simp: all_digits_def)
  then show ?case by (simp add: digits_value_snoc)
qed (simp add: digits_value_def)

lemma parsed_order:
  assumes "parse_order_callback (Some d) prefix = Some (t, i)" and "length d \<le> 64" and "length prefix = 6"
  shows "0 \<le> t" and "t < 10 ^ 47" and "is_intent_id i"
proof -
  obtain raw where raw: "split_on (CHR '':'') (drop (length prefix) d) = [raw, i]" "list_all is_digit raw" "t = int (decimal_value raw)"
    and i: "length i = 10" "list_all intent_char i"
    using assms(1) by (auto simp: parse_order_callback_def split: if_splits list.splits)
  show "0 \<le> t" using raw(3) by simp
  show "is_intent_id i" using i by (simp add: is_intent_id_def)
  have "drop 6 d = raw @ CHR '':'' # i" using split_on_parts(2) [OF raw(1)] assms(3) by simp
  from arg_cong [OF this, of length] have len: "length raw \<le> 47" using assms(2) i(1) by simp
  have "all_digits raw" using raw(2) by (auto simp: all_digits_def list_all_iff is_digit_def Let_def)
  then have "digits_value raw < 10 ^ length raw" by (rule digits_value_bound)
  also have "\<dots> \<le> 10 ^ 47" using len by (intro power_increasing) simp_all
  finally have "digits_value raw < 10 ^ 47" .
  then have "int (digits_value raw) < int (10 ^ 47)" by (simp only: of_nat_less_iff)
  then show "t < 10 ^ 47" using raw(3) by (simp add: decimal_digits)
qed

section \<open>Every update is answered\<close>

text \<open>The backend's answers name tariffs by identifiers a button has room for, and the bot's fresh intent identifiers have the form it accepts.\<close>

definition sound_env :: "'b bot_env \<Rightarrow> bool" where
  "sound_env env \<longleftrightarrow>
     (\<forall>b. case fst (be_list_tariffs (bv_backend env) b) of
             Inl _ \<Rightarrow> True
           | Inr tariffs \<Rightarrow> (\<forall>t\<in>set tariffs. 0 \<le> opt_id (ta_id t) \<and> opt_id (ta_id t) < 10 ^ 47)) \<and>
     (\<forall>i. is_intent_id (bv_intent_ids env i))"

definition final_text :: "bot_text \<Rightarrow> bool" where
  "final_text t \<longleftrightarrow> t \<notin> {HOME_LOADING_TEXT, TARIFF_LOADING_TEXT, MY_VPN_LOADING_TEXT, ORDER_CREATING_TEXT}"

definition final_action :: "action \<Rightarrow> bool" where
  "final_action a \<longleftrightarrow>
     (case a of Acknowledge \<Rightarrow> False | SendMessage t k \<Rightarrow> final_text t \<and> (case k of None \<Rightarrow> False | Some k \<Rightarrow> good_keyboard k)
      | EditMessage t k \<Rightarrow> final_text t \<and> (case k of None \<Rightarrow> False | Some k \<Rightarrow> good_keyboard k))"

definition is_loading :: "action \<Rightarrow> bool" where
  "is_loading a \<longleftrightarrow> a \<noteq> Acknowledge \<and> \<not> final_action a"

text \<open>An operation that shows one final screen.\<close>

definition concludes :: "('b bot \<Rightarrow> 'b bot) \<Rightarrow> bool" where
  "concludes f \<longleftrightarrow> (\<forall>st. \<exists>a. bo_out (f st) = bo_out st @ [a] \<and> final_action a)"

lemma call_backend_out: "call_backend f st = (r, st') \<Longrightarrow> bo_out st' = bo_out st \<and> bo_seen st' = bo_seen st"
  by (auto simp: call_backend_def split: prod.splits)

lemma concludes_replace: "final_text t \<Longrightarrow> good_keyboard k \<Longrightarrow> concludes (replace_message t (Some k))"
  by (auto simp: concludes_def replace_message_def emit_def final_action_def)

lemma concludes_send: "final_text t \<Longrightarrow> good_keyboard k \<Longrightarrow> concludes (send_message t (Some k))"
  by (auto simp: concludes_def send_message_def emit_def final_action_def)

lemma shown_after:
  assumes "concludes g" and "bo_out st' = bo_out st"
  shows "\<exists>a. bo_out (g st') = bo_out st @ [a] \<and> final_action a"
  using assms unfolding concludes_def by metis

lemma failure_final: "final_text (backend_failure_text e)"
  by (simp add: final_text_def backend_failure_text_def split: backend_error.splits)

lemma load_dashboard_out: "load_dashboard env user st = (r, st') \<Longrightarrow> bo_out st' = bo_out st \<and> bo_seen st' = bo_seen st"
  unfolding load_dashboard_def register_user_def by (auto split: prod.splits sum.splits dest!: call_backend_out)

lemma concludes_load_home: "concludes (load_home env user)"
  unfolding concludes_def
proof
  fix st :: "'a bot"
  obtain r st' where run: "load_dashboard env user st = (r, st')" by (cases "load_dashboard env user st")
  note same = conjunct1 [OF load_dashboard_out [OF run]]
  show "\<exists>a. bo_out (load_home env user st) = bo_out st @ [a] \<and> final_action a"
  proof (cases r)
    case (Inl e)
    then show ?thesis
      using shown_after [OF concludes_replace [OF failure_final fixed_keyboards_good(14)] same] by (simp add: load_home_def run)
  next
    case (Inr d)
    obtain t k where screen: "home_screen d = (t, k)" by (cases "home_screen d")
    have "final_text t \<and> good_keyboard k"
      using screen fixed_keyboards_good by (auto simp: home_screen_def final_text_def split: option.splits)
    then show ?thesis using shown_after [OF concludes_replace same] Inr by (simp add: load_home_def run screen)
  qed
qed

lemma concludes_load_my_vpn: "concludes (load_my_vpn env user)"
  unfolding concludes_def
proof
  fix st :: "'a bot"
  obtain r st' where run: "load_dashboard env user st = (r, st')" by (cases "load_dashboard env user st")
  note same = conjunct1 [OF load_dashboard_out [OF run]]
  show "\<exists>a. bo_out (load_my_vpn env user st) = bo_out st @ [a] \<and> final_action a"
  proof (cases r)
    case (Inl e)
    then show ?thesis
      using shown_after [OF concludes_replace [OF failure_final fixed_keyboards_good(16)] same] by (simp add: load_my_vpn_def run)
  next
    case (Inr d)
    obtain t k where screen: "my_vpn_screen d = (t, k)" by (cases "my_vpn_screen d")
    have "final_text t \<and> good_keyboard k"
      using screen fixed_keyboards_good by (auto simp: my_vpn_screen_def final_text_def split: option.splits)
    then show ?thesis using shown_after [OF concludes_replace same] Inr by (simp add: load_my_vpn_def run screen)
  qed
qed

lemma tariffs_keyboard_good:
  assumes "\<forall>t\<in>set ts. 0 \<le> opt_id (ta_id t) \<and> opt_id (ta_id t) < 10 ^ 47" and "\<forall>i. is_intent_id (f i)"
  shows "good_keyboard (tariffs_keyboard ts f)"
  using assms order_data_understood fixed_data_understood(6) by (auto simp: good_keyboard_def tariffs_keyboard_def)

lemma order_error_keyboard_good:
  "0 \<le> t \<Longrightarrow> t < 10 ^ 47 \<Longrightarrow> is_intent_id i \<Longrightarrow> good_keyboard (order_error_keyboard t i)"
  using order_data_understood fixed_data_understood
  by (simp add: good_keyboard_def order_error_keyboard_def back_and_home_row_def)

lemma concludes_render_tariffs:
  assumes "\<forall>t\<in>set ts. 0 \<le> opt_id (ta_id t) \<and> opt_id (ta_id t) < 10 ^ 47" and "\<forall>i. is_intent_id (bv_intent_ids env i)"
  shows "concludes (render_tariffs env ts)"
proof (cases "ts = []")
  case True
  have "final_text TARIFF_EMPTY_TEXT" by (simp add: final_text_def)
  from concludes_replace [OF this fixed_keyboards_good(5)] show ?thesis using True by (simp add: concludes_def render_tariffs_def)
next
  case False
  have "final_text (tariffs_text ts)" by (simp add: final_text_def tariffs_text_def)
  then show ?thesis
    using False concludes_replace tariffs_keyboard_good [OF assms] unfolding render_tariffs_def by fastforce
qed

lemma sound_list_tariffs:
  assumes "sound_env env" and "call_backend (be_list_tariffs (bv_backend env)) st = (Inr ts, st')"
  shows "\<forall>t\<in>set ts. 0 \<le> opt_id (ta_id t) \<and> opt_id (ta_id t) < 10 ^ 47"
proof -
  have "fst (be_list_tariffs (bv_backend env) (bo_backend st)) = Inr ts"
    using assms(2) by (auto simp: call_backend_def split: prod.splits)
  then show ?thesis using assms(1) unfolding sound_env_def by (metis (no_types, lifting) old.sum.simps(6))
qed

lemma register_out: "register_user env user st = (r, st') \<Longrightarrow> bo_out st' = bo_out st \<and> bo_seen st' = bo_seen st"
  by (simp add: register_user_def call_backend_out)

lemma concludes_load_tariffs:
  assumes "sound_env env"
  shows "concludes (load_tariffs env user)"
  unfolding concludes_def
proof
  fix st :: "'a bot"
  obtain r st1 where reg: "register_user env user st = (r, st1)" by (cases "register_user env user st")
  obtain q st2 where got: "call_backend (be_list_tariffs (bv_backend env)) st1 = (q, st2)"
    by (cases "call_backend (be_list_tariffs (bv_backend env)) st1")
  note same1 = conjunct1 [OF register_out [OF reg]]
  have same2: "bo_out st2 = bo_out st" using call_backend_out [OF got] same1 by simp
  note failed = concludes_replace [OF failure_final fixed_keyboards_good(15)]
  show "\<exists>a. bo_out (load_tariffs env user st) = bo_out st @ [a] \<and> final_action a"
  proof (cases r)
    case (Inl e)
    then show ?thesis using shown_after [OF failed same1] by (simp add: load_tariffs_def reg)
  next
    case (Inr u)
    show ?thesis
    proof (cases q)
      case (Inl e)
      then show ?thesis using shown_after [OF failed same2] Inr by (simp add: load_tariffs_def reg got)
    next
      case (Inr ts)
      have "concludes (render_tariffs env (filter ta_is_enabled ts))"
        using sound_list_tariffs [OF assms got [unfolded Inr]] assms by (intro concludes_render_tariffs) (auto simp: sound_env_def)
      from shown_after [OF this same2] show ?thesis using Inr \<open>r = Inr u\<close> by (simp add: load_tariffs_def reg got)
    qed
  qed
qed

text \<open>What follows the acknowledgement of a callback: nothing if there is no message to show it in, otherwise a final screen, possibly
  after a loading one.\<close>

definition reply :: "callback_query \<Rightarrow> action list \<Rightarrow> bool" where
  "reply c xs \<longleftrightarrow>
     (if cq_source c = Unavailable then xs = []
      else Acknowledge \<notin> set xs \<and> xs \<noteq> [] \<and> length xs \<le> 2 \<and> final_action (last xs))"

definition replies :: "callback_query \<Rightarrow> ('b bot \<Rightarrow> 'b bot) \<Rightarrow> bool" where
  "replies c f \<longleftrightarrow> (\<forall>st. \<exists>xs. bo_out (f st) = bo_out st @ xs \<and> reply c xs)"

lemma final_not_acknowledge: "final_action a \<Longrightarrow> a \<noteq> Acknowledge"
  by (auto simp: final_action_def)

lemma render_callback_out:
  assumes "render_callback c t k st = (shown, st')"
  shows "bo_seen st' = bo_seen st \<and> shown = (cq_source c \<noteq> Unavailable) \<and>
     (if shown then bo_out st' = bo_out st @ [SendMessage t k] \<or> bo_out st' = bo_out st @ [EditMessage t k] else st' = st)"
  using assms by (auto simp: render_callback_def send_message_def replace_message_def emit_def split: if_splits)

lemma replies_from_callback:
  assumes "concludes load"
  shows "replies c (from_callback c t k load)"
  unfolding replies_def
proof
  fix st :: "'a bot"
  obtain shown st1 where run: "render_callback c t k st = (shown, st1)" by (cases "render_callback c t k st")
  note out = render_callback_out [OF run]
  show "\<exists>xs. bo_out (from_callback c t k load st) = bo_out st @ xs \<and> reply c xs"
  proof (cases shown)
    case False
    then show ?thesis using out by (simp add: from_callback_def run reply_def)
  next
    case True
    obtain a where a: "bo_out (load st1) = bo_out st1 @ [a]" "final_action a" using assms by (auto simp: concludes_def)
    show ?thesis
      using True out a final_not_acknowledge [OF a(2)] by (auto simp: from_callback_def run reply_def)
  qed
qed

lemma replies_render:
  assumes "final_text t" and "good_keyboard k"
  shows "replies c (\<lambda>st. snd (render_callback c t (Some k) st))"
  unfolding replies_def
proof
  fix st :: "'a bot"
  obtain shown st1 where run: "render_callback c t (Some k) st = (shown, st1)" by (cases "render_callback c t (Some k) st")
  note out = render_callback_out [OF run]
  show "\<exists>xs. bo_out (snd (render_callback c t (Some k) st)) = bo_out st @ xs \<and> reply c xs"
    using out assms by (cases shown) (auto simp: run reply_def final_action_def)
qed

lemma replies_stale: "replies c (stale_callback c)"
  unfolding stale_callback_def by (rule replies_render [OF _ fixed_keyboards_good(17)]) (simp add: final_text_def)

lemma replies_legacy_buy: "replies c (legacy_buy_callback env c)"
  unfolding legacy_buy_callback_def
proof (rule replies_from_callback, unfold concludes_def, rule allI)
  fix st :: "'a bot"
  obtain r st' where run: "call_backend (be_list_tariffs (bv_backend env)) st = (r, st')"
    by (cases "call_backend (be_list_tariffs (bv_backend env)) st")
  note same = conjunct1 [OF call_backend_out [OF run]]
  have stale: "final_text TARIFF_STALE_TEXT" by (simp add: final_text_def)
  show "\<exists>a. bo_out (case call_backend (be_list_tariffs (bv_backend env)) st of
         (Inl e, st) \<Rightarrow> replace_message (backend_failure_text e) (Some (backend_error_keyboard ''t'')) st
       | (Inr _, st) \<Rightarrow> replace_message TARIFF_STALE_TEXT (Some tariff_refresh_keyboard) st) = bo_out st @ [a] \<and> final_action a"
    using shown_after [OF concludes_replace [OF failure_final fixed_keyboards_good(15)] same]
      shown_after [OF concludes_replace [OF stale fixed_keyboards_good(5)] same] by (cases r) (simp_all add: run)
qed

text \<open>An order: registered, requested and shown, or the exception of building the payment message.\<close>

definition malformed_payment_url :: "payment_response \<Rightarrow> bool" where
  "malformed_payment_url order \<longleftrightarrow> (\<exists>e. url_netloc (or_else (re_payment_url order) []) = Inl e)"

lemma payment_artifact_final:
  assumes "payment_artifact env order = Inr (t, k)"
  shows "final_text t \<and> good_keyboard k"
  using assms fixed_keyboards_good
  by (auto simp: payment_artifact_def Let_def bindE_eq_Inr final_text_def split: if_splits)

lemma payment_artifact_fails:
  assumes "payment_artifact env order = Inl e"
  shows "malformed_payment_url order"
proof (rule ccontr)
  assume "\<not> malformed_payment_url order"
  then obtain n where n: "url_netloc (or_else (re_payment_url order) []) = Inr n"
    unfolding malformed_payment_url_def by (cases "url_netloc (or_else (re_payment_url order) [])") auto
  show False using assms by (auto simp: payment_artifact_def Let_def is_local_url_def is_valid_external_url_def n split: if_splits)
qed

lemma create_or_retry_out:
  "create_or_retry env user t i st = (r, st') \<Longrightarrow> bo_out st' = bo_out st \<and> bo_seen st' = bo_seen st"
  unfolding create_or_retry_def by (auto split: prod.splits sum.splits if_splits dest!: call_backend_out)

definition may_return_malformed_url :: "'b bot_env \<Rightarrow> bool" where
  "may_return_malformed_url env \<longleftrightarrow>
     (\<exists>u t p k n d b order. fst (be_create_order (bv_backend env) u t p k n d b) = Inr order \<and> malformed_payment_url order)"

lemma create_or_retry_order:
  assumes "create_or_retry env user t i st = (Inr order, st')" and "malformed_payment_url order"
  shows "may_return_malformed_url env"
proof -
  have "\<exists>u t p k n d b. fst (be_create_order (bv_backend env) u t p k n d b) = Inr order"
    using assms(1) unfolding create_or_retry_def call_backend_def
    by (auto split: prod.splits sum.splits if_splits) (metis fst_conv)
  then show ?thesis using assms(2) unfolding may_return_malformed_url_def by blast
qed

definition order_reply :: "'b bot_env \<Rightarrow> callback_query \<Rightarrow> unit res \<Rightarrow> action list \<Rightarrow> bool" where
  "order_reply env c r xs \<longleftrightarrow>
     (case r of
        Inr _ \<Rightarrow> reply c xs
      | Inl _ \<Rightarrow> may_return_malformed_url env \<and> (xs = [SendMessage ORDER_CREATING_TEXT None] \<or> xs = [EditMessage ORDER_CREATING_TEXT None]))"

lemma create_order_replies:
  assumes "create_order env c t i st = (r, st')" and "0 \<le> t" "t < 10 ^ 47" "is_intent_id i"
  shows "\<exists>xs. bo_out st' = bo_out st @ xs \<and> order_reply env c r xs"
proof -
  obtain shown st1 where render: "render_callback c ORDER_CREATING_TEXT None st = (shown, st1)"
    by (cases "render_callback c ORDER_CREATING_TEXT None st")
  note out = render_callback_out [OF render]
  show ?thesis
  proof (cases shown)
    case False
    then show ?thesis using assms(1) out by (auto simp: create_order_def render order_reply_def reply_def)
  next
    case True
    then obtain l where l: "bo_out st1 = bo_out st @ [l]" "l = SendMessage ORDER_CREATING_TEXT None \<or> l = EditMessage ORDER_CREATING_TEXT None"
      and there: "cq_source c \<noteq> Unavailable" using out by auto
    define ask where "ask = (case register_user env (cq_from c) st1 of
        (Inl e, st) \<Rightarrow> (Inl (OrderBackendError e), st)
      | (Inr _, st) \<Rightarrow> create_or_retry env (cq_from c) t i st)"
    obtain q st2 where q: "ask = (q, st2)" by (cases ask)
    have same: "bo_out st2 = bo_out st1"
      using q unfolding ask_def by (auto split: prod.splits sum.splits dest!: register_out create_or_retry_out)
    have run: "create_order env c t i st = (case ask of
           (Inl TariffUnavailable, st) \<Rightarrow> (Inr (), replace_message TARIFF_STALE_TEXT (Some tariff_refresh_keyboard) st)
         | (Inl (OrderBackendError _), st) \<Rightarrow> (Inr (), replace_message ORDER_ERROR_TEXT (Some (order_error_keyboard t i)) st)
         | (Inr order, st) \<Rightarrow>
             (case payment_artifact env order of
                Inl e \<Rightarrow> (Inl e, st)
              | Inr (text_value, markup) \<Rightarrow> (Inr (), replace_message text_value (Some markup) st)))"
      using True by (simp add: create_order_def render ask_def)
    have answered: "\<exists>xs. bo_out (replace_message t' (Some k) st2) = bo_out st @ xs \<and> reply c xs" if "final_text t'" "good_keyboard k" for t' k
      using that l same there by (auto simp: replace_message_def emit_def reply_def final_action_def)
    have texts: "final_text TARIFF_STALE_TEXT" "final_text ORDER_ERROR_TEXT" by (simp_all add: final_text_def)
    show ?thesis
    proof (cases q)
      case (Inl f)
      then show ?thesis
        using assms(1) run answered [OF texts(1) fixed_keyboards_good(5)] answered [OF texts(2) order_error_keyboard_good [OF assms(2-4)]]
        by (cases f) (auto simp: q order_reply_def)
    next
      case (Inr order)
      show ?thesis
      proof (cases "payment_artifact env order")
        case (Inl e)
        have "create_or_retry env (cq_from c) t i (snd (register_user env (cq_from c) st1)) = (Inr order, st2)"
          using q Inr unfolding ask_def by (auto split: prod.splits sum.splits)
        then have "may_return_malformed_url env" using create_or_retry_order payment_artifact_fails [OF Inl] by blast
        then show ?thesis using assms(1) run Inr Inl l same by (auto simp: q order_reply_def)
      next
        case art: (Inr tk)
        then show ?thesis
          using assms(1) run Inr answered payment_artifact_final [of env order "fst tk" "snd tk"] by (cases tk) (auto simp: q order_reply_def)
      qed
    qed
  qed
qed

definition seen :: "string \<Rightarrow> time \<Rightarrow> 'b bot \<Rightarrow> bool" where
  "seen key now st \<longleftrightarrow> (\<exists>e. (key, e) \<in> set (bo_seen st) \<and> now < e)"

definition callback_key :: "callback_query \<Rightarrow> string" where
  "callback_key c = ''telegram:callback:'' @ show_int (tu_id (cq_from c)) @ '':'' @ cq_id c"

lemma ensure_once_False: "ensure_once key ttl now st = (False, st') \<longleftrightarrow> seen key now st \<and> st' = st"
  by (auto simp: ensure_once_def seen_def list_ex_iff split: if_splits)

lemma ensure_once_out: "ensure_once key ttl now st = (b, st') \<Longrightarrow> bo_out st' = bo_out st \<and> bo_backend st' = bo_backend st"
  by (auto simp: ensure_once_def split: if_splits)

lemma ensure_once_True: "ensure_once key ttl now st = (True, st') \<Longrightarrow>
    \<not> seen key now st \<and> bo_seen st' = (key, now + seconds ttl) # filter (\<lambda>(k, e). k \<noteq> key) (bo_seen st)"
  by (auto simp: ensure_once_def seen_def list_ex_iff split: if_splits)

lemma replies_with: "replies c f \<Longrightarrow> f st = st' \<Longrightarrow> \<exists>xs. bo_out st' = bo_out st @ xs \<and> order_reply env c (Inr ()) xs"
  unfolding replies_def order_reply_def by auto

lemma replies_if: "replies c f \<Longrightarrow> replies c g \<Longrightarrow> replies c (\<lambda>st. if P then f st else g st)"
  by (cases P) simp_all

lemma replies_screens:
  "replies c (home_from_callback env c)" "replies c (my_vpn_from_callback env c)" "sound_env env \<Longrightarrow> replies c (tariffs_from_callback env c)"
  unfolding home_from_callback_def my_vpn_from_callback_def tariffs_from_callback_def
  by (auto intro: replies_from_callback concludes_load_home concludes_load_my_vpn concludes_load_tariffs)

lemma replies_back:
  assumes "sound_env env"
  shows "replies c (back_callback env c)"
proof -
  have "back_callback env c = (\<lambda>st. if remove_prefix ''ui2:b:'' (or_else (cq_data c) []) = ''h'' then home_from_callback env c st
      else if remove_prefix ''ui2:b:'' (or_else (cq_data c) []) = ''t'' then tariffs_from_callback env c st else stale_callback c st)"
    by (simp add: fun_eq_iff back_callback_def Let_def stale_callback_def)
  then show ?thesis by (simp only:) (intro replies_if replies_stale replies_screens assms)
qed

lemma replies_retry_context:
  assumes "sound_env env"
  shows "replies c (retry_context_callback env c)"
proof -
  have "retry_context_callback env c = (\<lambda>st. if remove_prefix ''ui2:retry:'' (or_else (cq_data c) []) = ''h'' then home_from_callback env c st
      else if remove_prefix ''ui2:retry:'' (or_else (cq_data c) []) = ''t'' then tariffs_from_callback env c st
      else if remove_prefix ''ui2:retry:'' (or_else (cq_data c) []) = ''v'' then my_vpn_from_callback env c st else stale_callback c st)"
    by (simp add: fun_eq_iff retry_context_callback_def Let_def stale_callback_def)
  then show ?thesis by (simp only:) (intro replies_if replies_stale replies_screens assms)
qed

definition repeated_order :: "callback_query \<Rightarrow> time \<Rightarrow> 'b bot \<Rightarrow> bool" where
  "repeated_order c now st \<longleftrightarrow>
     (\<exists>t i. parse_order_callback (cq_data c) ''ui2:o:'' = Some (t, i) \<and> seen (intent_key (tu_id (cq_from c)) t i) now st)"

lemma parse_order_None: "parse_order_callback None p = None"
  by (simp add: parse_order_callback_def)

lemma select_replies:
  assumes "select_tariff_callback env c now st = (r, st')" and short: "length (or_else (cq_data c) []) \<le> 64"
  shows "\<exists>xs. bo_out st' = bo_out st @ xs \<and> (order_reply env c r xs \<or> r = Inr () \<and> xs = [] \<and> repeated_order c now st)"
proof (cases "parse_order_callback (cq_data c) ''ui2:o:''")
  case None
  then have "r = Inr ()" "stale_callback c st = st'" using assms(1) by (simp_all add: select_tariff_callback_def)
  then show ?thesis using replies_with [OF replies_stale] by blast
next
  case (Some ti)
  obtain t i where ti: "ti = (t, i)" by (cases ti)
  obtain d where d: "cq_data c = Some d" using Some parse_order_None by (cases "cq_data c") auto
  note parsed = parsed_order [OF Some [unfolded d ti]]
  obtain b st1 where once: "ensure_once (intent_key (tu_id (cq_from c)) t i) (bv_dedup_ttl_seconds env) now st = (b, st1)"
    by (cases "ensure_once (intent_key (tu_id (cq_from c)) t i) (bv_dedup_ttl_seconds env) now st")
  note out = ensure_once_out [OF once]
  show ?thesis
  proof (cases b)
    case True
    then have "create_order env c t i st1 = (r, st')" using assms(1) Some ti once by (simp add: select_tariff_callback_def)
    from create_order_replies [OF this] show ?thesis using parsed short d out by (auto simp: or_else_def)
  next
    case False
    then show ?thesis using assms(1) Some ti once by (auto simp: select_tariff_callback_def ensure_once_False repeated_order_def)
  qed
qed

lemma retry_replies:
  assumes "retry_order_callback env c st = (r, st')" and short: "length (or_else (cq_data c) []) \<le> 64"
  shows "\<exists>xs. bo_out st' = bo_out st @ xs \<and> order_reply env c r xs"
proof (cases "parse_order_callback (cq_data c) ''ui2:r:''")
  case None
  then have "r = Inr ()" "stale_callback c st = st'" using assms(1) by (simp_all add: retry_order_callback_def)
  then show ?thesis using replies_with [OF replies_stale] by blast
next
  case (Some ti)
  obtain t i where ti: "ti = (t, i)" by (cases ti)
  obtain d where d: "cq_data c = Some d" using Some parse_order_None by (cases "cq_data c") auto
  note parsed = parsed_order [OF Some [unfolded d ti]]
  have "create_order env c t i st = (r, st')" using assms(1) Some ti by (simp add: retry_order_callback_def)
  from create_order_replies [OF this] show ?thesis using parsed short d by (simp add: or_else_def)
qed

lemma dispatch_replies:
  assumes run: "dispatch_callback env c now st = (r, st')" and env: "sound_env env" and short: "length (or_else (cq_data c) []) \<le> 64"
  shows "\<exists>xs. bo_out st' = bo_out st @ xs \<and> (order_reply env c r xs \<or> r = Inr () \<and> xs = [] \<and> repeated_order c now st)"
proof -
  have fixed_texts: "final_text HELP_TEXT" "final_text INSTRUCTIONS_TEXT" by (simp_all add: final_text_def)
  note fixed = replies_screens(1,2) replies_screens(3) [OF env] replies_render [OF fixed_texts(1) fixed_keyboards_good(13)]
    replies_render [OF fixed_texts(2) fixed_keyboards_good(12)] replies_stale replies_back [OF env] replies_retry_context [OF env] replies_legacy_buy
  have done_by: ?thesis if "replies c f" "dispatch_callback env c now st = (Inr (), f st)" for f
  proof -
    have "r = Inr ()" "f st = st'" using that(2) run by simp_all
    then show ?thesis using replies_with [OF that(1)] by blast
  qed
  show ?thesis
  proof (cases "callback_route (cq_data c)")
    case SelectTariff
    then show ?thesis using select_replies [OF _ short] run by (simp add: dispatch_callback_def)
  next
    case RetryOrder
    then have "retry_order_callback env c st = (r, st')" using run by (simp add: dispatch_callback_def)
    from retry_replies [OF this short] show ?thesis by blast
  qed (rule done_by, rule fixed, simp add: dispatch_callback_def)+
qed

text \<open>C35. Every pressed button is answered once: the first thing the bot does is to acknowledge it. What follows is one screen that is not a
  loading screen (possibly after a loading screen) whose every button the bot understands, or nothing, and that only if there is no message to
  show it in or the update or its order was handled before. The one exception is an order whose payment address the shop returned malformed:
  the customer is left at the loading screen.\<close>

theorem callback_is_answered:
  assumes "on_callback env c now st = (r, st')" and "sound_env env" and "length (or_else (cq_data c) []) \<le> 64"
  shows "\<exists>xs. bo_out st' = bo_out st @ Acknowledge # xs \<and>
     (order_reply env c r xs \<or> r = Inr () \<and> xs = [] \<and> (seen (callback_key c) now st \<or> repeated_order c now st))"
proof -
  obtain b st1 where once: "accept_callback env c now st = (b, st1)" by (cases "accept_callback env c now st")
  note e = once [unfolded accept_callback_def, folded callback_key_def]
  have out: "bo_out st1 = bo_out st @ [Acknowledge]" using ensure_once_out [OF e] by (simp add: emit_def)
  show ?thesis
  proof (cases b)
    case False
    then show ?thesis using assms(1) e out by (auto simp: on_callback_def once ensure_once_False seen_def emit_def)
  next
    case True
    then have run: "dispatch_callback env c now st1 = (r, st')" using assms(1) by (simp add: on_callback_def once)
    have new: "ensure_once (callback_key c) (bv_dedup_ttl_seconds env) now (emit Acknowledge st) = (True, st1)" using e True by simp
    have ne: "callback_key c \<noteq> intent_key u t i" for u t i by (simp add: callback_key_def intent_key_def)
    have "seen (intent_key u t i) now st1 \<Longrightarrow> seen (intent_key u t i) now st" for u t i
      using ensure_once_True [OF new] ne [of u t i] by (auto simp: seen_def emit_def)
    then have "repeated_order c now st1 \<Longrightarrow> repeated_order c now st" by (auto simp: repeated_order_def)
    then show ?thesis using dispatch_replies [OF run assms(2,3)] out by auto
  qed
qed

definition sample_user :: tg_user where
  "sample_user = \<lparr>tu_id = 5, tu_username = Some ''ann'', tu_first_name = Some ''Ann'', tu_last_name = None\<rparr>"

definition sample_tap :: callback_query where
  "sample_tap = \<lparr>cq_id = ''q1'', cq_from = sample_user, cq_data = Some (order_data ''ui2:o:'' 1 sample_intent), cq_source = Shown (TariffsText [])\<rparr>"

definition sample_menu_tap :: callback_query where
  "sample_menu_tap = sample_tap\<lparr>cq_data := Some ''ui2:t''\<rparr>"

definition sample_bot_tariff :: Tariff where
  "sample_bot_tariff = \<lparr>ta_id = Some 1, ta_name = ''Month'', ta_price = \<lparr>minor = 10000, currency = ''RUB''\<rparr>, ta_period_days = 30,
     ta_description = None, ta_is_enabled = True\<rparr>"

definition sample_bot_order :: payment_response where
  "sample_bot_order = \<lparr>re_payment_order_id = Some 7, re_provider = ''fake'', re_status = ''pending'', re_amount_minor = 10000, re_currency = ''RUB'',
     re_payment_url = Some ''https://pay.example/7'', re_provider_payment_id = None, re_tariff_name = ''Month''\<rparr>"

text \<open>A shop with one tariff that counts the orders and answers every one with the same payment page.\<close>

definition counting_shop :: "nat backend" where
  "counting_shop =
     \<lparr>be_register_user = (\<lambda>_ _ _ n. (Inr (), n)),
      be_list_tariffs = (\<lambda>n. (Inr [sample_bot_tariff], n)),
      be_get_dashboard = (\<lambda>_ n. (Inl (StatusError 404), n)),
      be_create_order = (\<lambda>_ _ _ _ _ _ n. (Inr sample_bot_order, Suc n))\<rparr>"

definition sample_bot_env :: "nat bot_env" where
  "sample_bot_env =
     \<lparr>bv_backend = counting_shop, bv_provider = ''fake'', bv_dedup_ttl_seconds = 300, bv_production = True, bv_intent_ids = (\<lambda>_. sample_intent)\<rparr>"

definition sample_bot :: "nat bot" where
  "sample_bot = \<lparr>bo_seen = [], bo_backend = 0, bo_out = []\<rparr>"

lemma sample_intent_id: "is_intent_id sample_intent"
  by code_simp

lemma sample_env_sound: "sound_env sample_bot_env"
  by (simp add: sound_env_def sample_bot_env_def counting_shop_def sample_bot_tariff_def sample_intent_id opt_id_def)

theorem callback_is_answered_witness:
  "\<exists>xs. bo_out (snd (on_callback sample_bot_env sample_menu_tap 0 sample_bot)) = Acknowledge # xs \<and>
     order_reply sample_bot_env sample_menu_tap (fst (on_callback sample_bot_env sample_menu_tap 0 sample_bot)) xs"
proof -
  obtain r st' where run: "on_callback sample_bot_env sample_menu_tap 0 sample_bot = (r, st')"
    by (cases "on_callback sample_bot_env sample_menu_tap 0 sample_bot")
  have "length (or_else (cq_data sample_menu_tap) []) \<le> 64" by (simp add: sample_menu_tap_def sample_tap_def or_else_def)
  moreover have "\<not> seen (callback_key sample_menu_tap) 0 sample_bot" by (simp add: seen_def sample_bot_def)
  moreover have "\<not> repeated_order sample_menu_tap 0 sample_bot" by (simp add: repeated_order_def seen_def sample_bot_def)
  ultimately show ?thesis using callback_is_answered [OF run sample_env_sound] run by (simp add: sample_bot_def)
qed

section \<open>Repeated taps\<close>

lemma keeps_seen_show [simp]:
  "bo_seen (replace_message t k st) = bo_seen st" "bo_seen (send_message t k st) = bo_seen st"
  "bo_seen (snd (render_callback c t k st)) = bo_seen st"
  by (auto simp: replace_message_def send_message_def emit_def render_callback_def)

lemma keeps_seen_loads [simp]:
  "bo_seen (load_home env user st) = bo_seen st" "bo_seen (load_my_vpn env user st) = bo_seen st" "bo_seen (load_tariffs env user st) = bo_seen st"
  unfolding load_home_def load_my_vpn_def load_tariffs_def render_tariffs_def
  by (auto split: prod.splits sum.splits dest!: load_dashboard_out register_out call_backend_out)

lemma keeps_seen_from_callback:
  "(\<And>st. bo_seen (load st) = bo_seen st) \<Longrightarrow> bo_seen (from_callback c t k load st) = bo_seen st"
  by (auto simp: from_callback_def split: prod.splits dest!: render_callback_out)

lemma keeps_seen_screens [simp]:
  "bo_seen (home_from_callback env c st) = bo_seen st" "bo_seen (my_vpn_from_callback env c st) = bo_seen st"
  "bo_seen (tariffs_from_callback env c st) = bo_seen st"
  unfolding home_from_callback_def my_vpn_from_callback_def tariffs_from_callback_def by (rule keeps_seen_from_callback, simp)+

lemma keeps_seen_other [simp]:
  "bo_seen (stale_callback c st) = bo_seen st" "bo_seen (back_callback env c st) = bo_seen st" "bo_seen (retry_context_callback env c st) = bo_seen st"
  by (simp_all add: stale_callback_def back_callback_def retry_context_callback_def Let_def)

lemma keeps_seen_legacy_buy [simp]: "bo_seen (legacy_buy_callback env c st) = bo_seen st"
  unfolding legacy_buy_callback_def
  by (rule keeps_seen_from_callback) (auto split: prod.splits sum.splits dest!: call_backend_out)

lemma keeps_seen_create_order: "create_order env c t i st = (r, st') \<Longrightarrow> bo_seen st' = bo_seen st"
  unfolding create_order_def
  by (auto split: prod.splits sum.splits if_splits order_failure.splits dest!: render_callback_out register_out create_or_retry_out)

lemma seen_ensure_once:
  assumes "ensure_once key' ttl now st = (b, st')" and "seen key later st" and "now \<le> later"
  shows "seen key later st'"
proof (cases b)
  case True
  then have new: "ensure_once key' ttl now st = (True, st')" using assms(1) by simp
  have "key \<noteq> key'" using ensure_once_True [OF new] assms(2,3) by (auto simp: seen_def)
  then show ?thesis using ensure_once_True [OF new] assms(2) by (auto simp: seen_def)
next
  case False
  then show ?thesis using assms by (auto simp: ensure_once_False)
qed

lemma seen_dispatch:
  assumes "dispatch_callback env c now st = (r, st')" and "seen key later st" and "now \<le> later"
  shows "seen key later st'"
proof -
  have kept: "bo_seen st' = bo_seen st \<Longrightarrow> ?thesis" using assms(2) by (simp add: seen_def)
  show ?thesis
  proof (cases "callback_route (cq_data c)")
    case SelectTariff
    then have run: "select_tariff_callback env c now st = (r, st')" using assms(1) by (simp add: dispatch_callback_def)
    show ?thesis
    proof (cases "parse_order_callback (cq_data c) ''ui2:o:''")
      case None
      then show ?thesis using run by (intro kept) (auto simp: select_tariff_callback_def)
    next
      case (Some ti)
      obtain t i b st1 where ti: "ti = (t, i)"
        and once: "ensure_once (intent_key (tu_id (cq_from c)) t i) (bv_dedup_ttl_seconds env) now st = (b, st1)"
        by (cases ti) (metis surj_pair)
      note seen1 = seen_ensure_once [OF once assms(2,3)]
      have "bo_seen st' = bo_seen st1" using run Some ti once keeps_seen_create_order by (cases b) (auto simp: select_tariff_callback_def)
      then show ?thesis using seen1 by (simp add: seen_def)
    qed
  next
    case RetryOrder
    then have "retry_order_callback env c st = (r, st')" using assms(1) by (simp add: dispatch_callback_def)
    then show ?thesis
      by (intro kept) (auto simp: retry_order_callback_def split: option.splits dest: keeps_seen_create_order)
  qed (use assms(1,2) in \<open>auto simp: dispatch_callback_def seen_def\<close>)
qed

datatype update = Callback_query callback_query | Message message

definition on_update :: "'b bot_env \<Rightarrow> time \<times> update \<Rightarrow> 'b bot \<Rightarrow> 'b bot" where
  "on_update env u st =
     (case u of
        (now, Callback_query c) \<Rightarrow> snd (on_callback env c now st)
      | (now, Message m) \<Rightarrow> on_message env m now st)"

fun on_updates :: "'b bot_env \<Rightarrow> (time \<times> update) list \<Rightarrow> 'b bot \<Rightarrow> 'b bot" where
  "on_updates env [] st = st"
| "on_updates env (u # us) st = on_updates env us (on_update env u st)"

lemma seen_on_update:
  assumes "seen key later st" and "fst u \<le> later"
  shows "seen key later (on_update env u st)"
proof (cases u)
  case (Pair now x)
  show ?thesis
  proof (cases x)
    case (Callback_query c)
    obtain b st1 where once: "accept_callback env c now st = (b, st1)" by (cases "accept_callback env c now st")
    have "seen key later (emit Acknowledge st)" using assms(1) by (simp add: seen_def emit_def)
    then have seen1: "seen key later st1" using seen_ensure_once [OF once [unfolded accept_callback_def]] assms(2) Pair by simp
    obtain r st2 where run: "dispatch_callback env c now st1 = (r, st2)" by (cases "dispatch_callback env c now st1")
    show ?thesis
      using seen1 seen_dispatch [OF run seen1] assms(2) Pair Callback_query by (cases b) (simp_all add: on_update_def on_callback_def once run)
  next
    case (Message m)
    obtain b st1 where once: "accept_message env m now st = (b, st1)" by (cases "accept_message env m now st")
    have seen1: "seen key later st1" using seen_ensure_once [OF once [unfolded accept_message_def] assms(1)] assms(2) Pair by simp
    then show ?thesis
      using Pair Message by (cases b; cases "me_command m")
        (simp_all add: on_update_def on_message_def once seen_def home_from_message_def tariffs_from_message_def my_vpn_from_message_def)
  qed
qed

lemma seen_on_updates:
  "seen key later st \<Longrightarrow> \<forall>u\<in>set us. fst u \<le> later \<Longrightarrow> seen key later (on_updates env us st)"
  by (induction us arbitrary: st) (auto intro: seen_on_update)

lemma select_tap:
  assumes "callback_route (cq_data c) = SelectTariff" and "parse_order_callback (cq_data c) ''ui2:o:'' = Some (t, i)"
    and "\<not> seen (callback_key c) now st" and "\<not> seen (intent_key (tu_id (cq_from c)) t i) now st" and "later < now + seconds (bv_dedup_ttl_seconds env)"
  shows "seen (intent_key (tu_id (cq_from c)) t i) later (snd (on_callback env c now st))"
proof -
  have "\<not> seen (callback_key c) now (emit Acknowledge st)" using assms(3) by (simp add: seen_def emit_def)
  then obtain st1 where first: "accept_callback env c now st = (True, st1)"
    using ensure_once_False [of "callback_key c" _ now "emit Acknowledge st"]
    unfolding accept_callback_def callback_key_def [symmetric] by (metis (full_types) surj_pair)
  note e1 = first [unfolded accept_callback_def, folded callback_key_def]
  have "callback_key c \<noteq> intent_key (tu_id (cq_from c)) t i" by (simp add: callback_key_def intent_key_def)
  then have "\<not> seen (intent_key (tu_id (cq_from c)) t i) now st1"
    using assms(4) ensure_once_True [OF e1] by (auto simp: seen_def emit_def)
  then obtain st2 where second: "ensure_once (intent_key (tu_id (cq_from c)) t i) (bv_dedup_ttl_seconds env) now st1 = (True, st2)"
    using ensure_once_False by (metis (full_types) surj_pair)
  obtain r st3 where order: "create_order env c t i st2 = (r, st3)" by (cases "create_order env c t i st2")
  have "seen (intent_key (tu_id (cq_from c)) t i) later st2" using ensure_once_True [OF second] assms(5) by (auto simp: seen_def)
  then have "seen (intent_key (tu_id (cq_from c)) t i) later st3" using keeps_seen_create_order [OF order] by (simp add: seen_def)
  then show ?thesis
    using assms(1,2) by (simp add: on_callback_def first dispatch_callback_def select_tariff_callback_def second order)
qed

text \<open>C36. A tariff's button orders once: after a tap that the bot takes, and whatever it handles in between, a tap of the same customer
  on the same button within the time to live is acknowledged and nothing else; the shop is not asked at all.\<close>

theorem repeated_tap_orders_nothing:
  assumes "callback_route (cq_data c) = SelectTariff" and "parse_order_callback (cq_data c) ''ui2:o:'' = Some (t, i)"
    and "\<not> seen (callback_key c) now st" and "\<not> seen (intent_key (tu_id (cq_from c)) t i) now st"
    and "later < now + seconds (bv_dedup_ttl_seconds env)" and "\<forall>u\<in>set between. fst u \<le> later"
    and "cq_from c' = cq_from c" and "cq_data c' = cq_data c"
    and before: "before = on_updates env between (snd (on_callback env c now st))"
  shows "\<exists>after. on_callback env c' later before = (Inr (), after) \<and> bo_backend after = bo_backend before \<and>
     bo_out after = bo_out before @ [Acknowledge]"
proof -
  have seen: "seen (intent_key (tu_id (cq_from c)) t i) later before"
    unfolding before by (rule seen_on_updates [OF select_tap [OF assms(1-5)] assms(6)])
  obtain b st1 where once: "accept_callback env c' later before = (b, st1)" by (cases "accept_callback env c' later before")
  note e = once [unfolded accept_callback_def]
  have "seen (intent_key (tu_id (cq_from c)) t i) later (emit Acknowledge before)" using seen by (simp add: seen_def emit_def)
  from seen_ensure_once [OF e this] have seen1: "seen (intent_key (tu_id (cq_from c)) t i) later st1" by simp
  have "ensure_once (intent_key (tu_id (cq_from c)) t i) (bv_dedup_ttl_seconds env) later st1 = (False, st1)"
    using seen1 by (simp add: ensure_once_False)
  then have "on_callback env c' later before = (Inr (), st1)"
    using assms(1,2,7,8) by (cases b) (simp_all add: on_callback_def once dispatch_callback_def select_tariff_callback_def)
  then show ?thesis using ensure_once_out [OF e] by (simp add: emit_def)
qed

theorem repeated_tap_orders_nothing_witness:
  "\<exists>after. on_callback sample_bot_env (sample_tap\<lparr>cq_id := ''q2''\<rparr>) 200
       (on_updates sample_bot_env [(100 :: time, Callback_query sample_menu_tap)] (snd (on_callback sample_bot_env sample_tap 0 sample_bot))) = (Inr (), after) \<and>
     bo_backend after = bo_backend (on_updates sample_bot_env [(100 :: time, Callback_query sample_menu_tap)] (snd (on_callback sample_bot_env sample_tap 0 sample_bot)))"
proof -
  have route: "callback_route (cq_data sample_tap) = SelectTariff" by (simp add: sample_tap_def order_data_route)
  have parsed: "parse_order_callback (cq_data sample_tap) ''ui2:o:'' = Some (1, sample_intent)"
    using parse_order_data [of 1 sample_intent "''ui2:o:''"] sample_intent_id by (simp add: sample_tap_def)
  have fresh: "\<not> seen k 0 sample_bot" for k by (simp add: seen_def sample_bot_def)
  have later: "200 < 0 + seconds (bv_dedup_ttl_seconds sample_bot_env)" by (simp add: sample_bot_env_def seconds_def)
  have between: "\<forall>u\<in>set [(100 :: time, Callback_query sample_menu_tap)]. fst u \<le> 200" by simp
  show ?thesis
    using repeated_tap_orders_nothing [OF route parsed fresh fresh later between _ _ refl, of "sample_tap\<lparr>cq_id := ''q2''\<rparr>"] by auto
qed

end
