(* ===== verification/Worker.thy ===== *)
theory Worker
  imports Shop Config
begin

text \<open>
  The background worker (\<^verbatim>\<open>apps/worker/main.py\<close>) with its queue (\<^verbatim>\<open>infrastructure/messaging/arq_queue.py\<close>,
  \<^verbatim>\<open>application/job_names.py\<close>) and the command functions between the two and the use cases (\<^verbatim>\<open>application/commands\<close>).

  A message of the queue is a function name with JSON arguments. \<open>decode_message\<close> is the worker's table of registered functions; the
  \<open>call\<close> it finds is run by \<open>run_call\<close>, whose result is the jobs that were put on the queue. A call that raises has put nothing on it.
  \<open>worker_env\<close> collects what a run takes from outside: the settings, the answers of nodes and panels, random choices, fresh identifiers,
  clock readings, what other processes do to the database between two transactions of a handler, and which jobs Redis takes when a
  refusal is caught.
\<close>

section \<open>Messages\<close>

definition reason_text :: "VpnRevokeReason \<Rightarrow> string" where
  "reason_text r = (case r of EXPIRATION \<Rightarrow> ''expiration'' | FORCE \<Rightarrow> ''force'' | REPLACEMENT_CLEANUP \<Rightarrow> ''replacement_cleanup'')"

definition reason_of_text :: "string \<Rightarrow> VpnRevokeReason option" where
  "reason_of_text s = find (\<lambda>r. reason_text r = s) [EXPIRATION, FORCE, REPLACEMENT_CLEANUP]"

fun job_name :: "job \<Rightarrow> string" where
  "job_name (PROCESS_PAYMENT_EVENT _) = ''process_payment_event''"
| "job_name (PROVISION_SUBSCRIPTION _) = ''provision_subscription''"
| "job_name (REVOKE_VPN_CONFIGURATION _ _) = ''revoke_vpn_configuration''"
| "job_name (DISPATCH_NODE_TASK _) = ''dispatch_node_task''"
| "job_name (DISPATCH_PANEL_PROVISION_TASK _) = ''dispatch_panel_provision_task''"
| "job_name (DISPATCH_PANEL_REVOKE_TASK _) = ''dispatch_panel_revoke_task''"

fun job_arguments :: "job \<Rightarrow> json list" where
  "job_arguments (PROCESS_PAYMENT_EVENT i) = [JInt i]"
| "job_arguments (PROVISION_SUBSCRIPTION i) = [JInt i]"
| "job_arguments (REVOKE_VPN_CONFIGURATION i r) = [JInt i, JStr (reason_text r)]"
| "job_arguments (DISPATCH_NODE_TASK i) = [JInt i]"
| "job_arguments (DISPATCH_PANEL_PROVISION_TASK i) = [JInt i]"
| "job_arguments (DISPATCH_PANEL_REVOKE_TASK i) = [JInt i]"

type_synonym job_message = "string \<times> json list"

text \<open>Without a Redis connection nothing is enqueued.\<close>

definition ArqJobQueue_enqueue :: "bool \<Rightarrow> job \<Rightarrow> job_message list \<Rightarrow> job_message list" where
  "ArqJobQueue_enqueue has_redis j queue = (if has_redis then queue @ [(job_name j, job_arguments j)] else queue)"

datatype call =
    Job job
  | SyncNodeStatus "int option"
  | DispatchDueNodeTasks
  | DispatchDuePanelProvisionTasks
  | DispatchDuePanelRevokeTasks
  | RecoverStaleNodeTasks
  | RecoverStalePanelProvisionTasks
  | RecoverStalePanelRevokeTasks
  | ReconcileSubscriptions
  | PublishOutbox
  | RecoverPaymentEvents
  | RetireNodeJournalRecords

definition int_argument :: "(int \<Rightarrow> call) \<Rightarrow> json list \<Rightarrow> call option" where
  "int_argument c args = (case args of [JInt i] \<Rightarrow> Some (c i) | _ \<Rightarrow> None)"

definition no_argument :: "call \<Rightarrow> json list \<Rightarrow> call option" where
  "no_argument c args = (if args = [] then Some c else None)"

definition revoke_arguments :: "json list \<Rightarrow> call option" where
  "revoke_arguments args =
     (case args of
        [JInt i] \<Rightarrow> Some (Job (REVOKE_VPN_CONFIGURATION i EXPIRATION))
      | [JInt i, JStr s] \<Rightarrow> map_option (\<lambda>r. Job (REVOKE_VPN_CONFIGURATION i r)) (reason_of_text s)
      | _ \<Rightarrow> None)"

definition node_argument :: "json list \<Rightarrow> call option" where
  "node_argument args =
     (case args of
        [] \<Rightarrow> Some (SyncNodeStatus None)
      | [JNull] \<Rightarrow> Some (SyncNodeStatus None)
      | [JInt i] \<Rightarrow> Some (SyncNodeStatus (Some i))
      | _ \<Rightarrow> None)"

definition worker_functions :: "(string \<times> (json list \<Rightarrow> call option)) list" where
  "worker_functions =
     [(''process_payment_event'', int_argument (\<lambda>i. Job (PROCESS_PAYMENT_EVENT i))),
      (''provision_subscription'', int_argument (\<lambda>i. Job (PROVISION_SUBSCRIPTION i))),
      (''revoke_vpn_configuration'', revoke_arguments),
      (''dispatch_node_task'', int_argument (\<lambda>i. Job (DISPATCH_NODE_TASK i))),
      (''dispatch_panel_provision_task'', int_argument (\<lambda>i. Job (DISPATCH_PANEL_PROVISION_TASK i))),
      (''dispatch_panel_revoke_task'', int_argument (\<lambda>i. Job (DISPATCH_PANEL_REVOKE_TASK i))),
      (''dispatch_due_node_tasks_job'', no_argument DispatchDueNodeTasks),
      (''dispatch_due_panel_provision_tasks_job'', no_argument DispatchDuePanelProvisionTasks),
      (''dispatch_due_panel_revoke_tasks_job'', no_argument DispatchDuePanelRevokeTasks),
      (''recover_stale_panel_provision_tasks_job'', no_argument RecoverStalePanelProvisionTasks),
      (''recover_stale_panel_revoke_tasks_job'', no_argument RecoverStalePanelRevokeTasks),
      (''recover_stale_node_tasks_job'', no_argument RecoverStaleNodeTasks),
      (''sync_node_status_job'', node_argument),
      (''reconcile_subscriptions_job'', no_argument ReconcileSubscriptions),
      (''sync_expired_subscriptions_job'', no_argument ReconcileSubscriptions),
      (''publish_outbox'', no_argument PublishOutbox),
      (''recover_payment_events_job'', no_argument RecoverPaymentEvents),
      (''retire_node_journal_records_job'', no_argument RetireNodeJournalRecords)]"

definition decode_message :: "job_message \<Rightarrow> call option" where
  "decode_message m = (case map_of worker_functions (fst m) of None \<Rightarrow> None | Some f \<Rightarrow> f (snd m))"

section \<open>Running a call\<close>

record worker_env =
  wk_settings :: Settings
  wk_enqueue :: "job \<Rightarrow> bool"
  wk_panel_mapper :: panel_mapper
  wk_py_repr :: "json \<Rightarrow> string"
  wk_node_gateway :: node_gateway
  wk_panel_provision :: panel_request
  wk_panel_revoke :: panel_request
  wk_snapshot :: snapshot_gateway
  wk_retire :: retire_gateway
  wk_err_text :: "error \<Rightarrow> string"
  wk_randbelow :: "int \<Rightarrow> int"
  wk_fresh :: "nat \<Rightarrow> uuid"
  wk_clock :: "nat \<Rightarrow> time"
  wk_meanwhile :: "db \<Rightarrow> db"
  wk_meanwhile' :: "db \<Rightarrow> db"

definition enqueued :: "('a \<Rightarrow> job list) \<Rightarrow> 'a res \<times> db \<Rightarrow> job list res \<times> db" where
  "enqueued jobs r = (case r of (Inl e, s) \<Rightarrow> (Inl e, s) | (Inr x, s) \<Rightarrow> (Inr (jobs x), s))"

definition recover_payment_events :: "nat \<Rightarrow> db \<Rightarrow> job list res \<times> db" where
  "recover_payment_events limit = run_uow (bindT (payments_list_received_payment_event_ids limit) (\<lambda>ids. retT (map PROCESS_PAYMENT_EVENT ids)))"

fun run_job :: "worker_env \<Rightarrow> job \<Rightarrow> db \<Rightarrow> job list res \<times> db" where
  "run_job env (PROCESS_PAYMENT_EVENT i) s = enqueued snd (ProcessPayment_execute i (wk_clock env 0) s)"
| "run_job env (PROVISION_SUBSCRIPTION i) s =
     enqueued snd (ProvisionVpn_execute (wk_panel_mapper env) (provision_settings_of (wk_settings env)) (wk_randbelow env) (wk_fresh env 0)
       (wk_fresh env 1) i (wk_clock env 0) s)"
| "run_job env (REVOKE_VPN_CONFIGURATION i reason) s =
     enqueued snd (RevokeVpn_execute (revoke_settings_of (wk_settings env)) (wk_fresh env 0) i reason (wk_clock env 0) s)"
| "run_job env (DISPATCH_NODE_TASK i) s =
     enqueued snd (DispatchNodeTask_execute (wk_py_repr env) (dispatch_settings_of (wk_settings env)) (wk_node_gateway env) (wk_meanwhile env)
       (wk_fresh env 0) (wk_fresh env 1) i (wk_clock env 0) (wk_clock env 1) s)"
| "run_job env (DISPATCH_PANEL_PROVISION_TASK i) s =
     enqueued (\<lambda>_. []) (DispatchPanelProvisionTask_execute (wk_panel_mapper env) (wk_panel_provision env) (wk_panel_revoke env) (wk_meanwhile env)
       (wk_meanwhile' env) (se_panel_task_retry_base_seconds (wk_settings env)) (se_panel_task_lease_seconds (wk_settings env)) (wk_fresh env 0) i
       (wk_clock env 0) (wk_clock env 1) (wk_clock env 2) s)"
| "run_job env (DISPATCH_PANEL_REVOKE_TASK i) s =
     enqueued (\<lambda>_. []) (DispatchPanelRevokeTask_execute (wk_panel_revoke env) (wk_meanwhile env)
       (se_panel_task_retry_base_seconds (wk_settings env)) (se_panel_task_lease_seconds (wk_settings env)) (wk_fresh env 0) i
       (wk_clock env 0) (wk_clock env 1) s)"

fun run_call :: "worker_env \<Rightarrow> nat \<Rightarrow> call \<Rightarrow> db \<Rightarrow> job list res \<times> db" where
  "run_call env limit (Job j) s = run_job env j s"
| "run_call env limit (SyncNodeStatus node_id) s =
     enqueued (\<lambda>_. []) (SyncNodeStatus_execute (wk_snapshot env) (wk_err_text env) (sync_settings_of (wk_settings env)) (wk_fresh env) node_id
       (wk_clock env 0) (wk_clock env 1) s)"
| "run_call env limit DispatchDueNodeTasks s = enqueued snd (dispatch_due (wk_clock env 0) limit s)"
| "run_call env limit DispatchDuePanelProvisionTasks s = panel_dispatch_due (wk_enqueue env) (wk_clock env 0) limit s"
| "run_call env limit DispatchDuePanelRevokeTasks s = panel_revoke_dispatch_due (wk_enqueue env) (wk_clock env 0) limit s"
| "run_call env limit RecoverStaleNodeTasks s =
     enqueued (\<lambda>(_, _, jobs). jobs)
       (recover_stale (wk_enqueue env) (se_node_task_retry_base_seconds (wk_settings env)) (wk_clock env 0) limit s)"
| "run_call env limit RecoverStalePanelProvisionTasks s =
     enqueued snd (panel_recover_stale (wk_panel_mapper env) (wk_enqueue env) (wk_clock env 0) limit s)"
| "run_call env limit RecoverStalePanelRevokeTasks s = enqueued snd (panel_revoke_recover_stale (wk_enqueue env) (wk_clock env 0) limit s)"
| "run_call env limit ReconcileSubscriptions s =
     enqueued rc_jobs (ReconcileSubscriptions_execute (wk_enqueue env) (wk_clock env) (reconcile_settings_of (wk_settings env)) (wk_fresh env 0)
       (wk_clock env 0) s)"
| "run_call env limit PublishOutbox s = (Inr [], s)"
| "run_call env limit RecoverPaymentEvents s = recover_payment_events limit s"
| "run_call env limit RetireNodeJournalRecords s =
     enqueued (\<lambda>_. []) (RetireNodeJournalRecords_execute (wk_py_repr env) (wk_retire env) MAX_RETIREMENT_BATCH_SIZE (wk_clock env 0) s)"

section \<open>Starting the worker\<close>

definition STARTUP_RECOVERY_LIMIT :: nat where "STARTUP_RECOVERY_LIMIT = 100"

definition startup_calls :: "call list" where
  "startup_calls =
     [RecoverPaymentEvents, RecoverStaleNodeTasks, DispatchDueNodeTasks, RecoverStalePanelProvisionTasks, DispatchDuePanelProvisionTasks,
      RecoverStalePanelRevokeTasks, DispatchDuePanelRevokeTasks]"

text \<open>The calls run one after another; an exception ends the start, what was enqueued before it stays on the queue.\<close>

fun run_calls :: "worker_env \<Rightarrow> nat \<Rightarrow> call list \<Rightarrow> db \<Rightarrow> (unit res \<times> job list) \<times> db" where
  "run_calls env limit [] s = ((Inr (), []), s)"
| "run_calls env limit (c # cs) s =
     (case run_call env limit c s of
        (Inl e, s) \<Rightarrow> ((Inl e, []), s)
      | (Inr jobs, s) \<Rightarrow> (case run_calls env limit cs s of ((r, rest), s) \<Rightarrow> ((r, jobs @ rest), s)))"

definition run_startup_recovery :: "worker_env \<Rightarrow> nat \<Rightarrow> db \<Rightarrow> (unit res \<times> job list) \<times> db" where
  "run_startup_recovery env limit = run_calls env limit startup_calls"

definition cron_jobs :: "Settings \<Rightarrow> (call \<times> cron) list res" where
  "cron_jobs settings =
     bindE (reconciliation_cron_kwargs (se_background_sync_interval_seconds settings)) (\<lambda>reconciliation.
     Inr [(RecoverPaymentEvents, every_minute), (RetireNodeJournalRecords, every_minute), (ReconcileSubscriptions, reconciliation),
          (SyncNodeStatus None, sync_node_status_cron), (DispatchDueNodeTasks, every_minute), (RecoverStaleNodeTasks, every_minute),
          (DispatchDuePanelProvisionTasks, every_minute), (RecoverStalePanelProvisionTasks, every_minute),
          (DispatchDuePanelRevokeTasks, every_minute), (RecoverStalePanelRevokeTasks, every_minute)])"

section \<open>The system\<close>

text \<open>The database and the jobs on the queue. Any worker may take any job; Redis may lose jobs or deliver one again; other processes
  commit transactions of the shop and enqueue jobs.\<close>

record shop_system =
  sy_db :: db
  sy_queue :: "job list"

definition worker_ok :: "worker_env \<Rightarrow> bool" where
  "worker_ok env \<longleftrightarrow> others (wk_meanwhile env) \<and> others (wk_meanwhile' env) \<and> mapper_ok (wk_panel_mapper env)"

definition jobs_of :: "job list res \<Rightarrow> job list" where
  "jobs_of r = (case r of Inl _ \<Rightarrow> [] | Inr jobs \<Rightarrow> jobs)"

inductive system_step :: "shop_system \<Rightarrow> shop_system \<Rightarrow> bool" where
  delivered: "worker_ok env \<Longrightarrow> j \<in> set (sy_queue y) \<Longrightarrow> run_call env 100 (Job j) (sy_db y) = (r, s) \<Longrightarrow>
     system_step y (y\<lparr>sy_db := s, sy_queue := remove1 j (sy_queue y) @ jobs_of r\<rparr>)"
| periodic: "worker_ok env \<Longrightarrow> cron_jobs (wk_settings env) = Inr cs \<Longrightarrow> c \<in> set cs \<Longrightarrow> run_call env 100 (fst c) (sy_db y) = (r, s) \<Longrightarrow>
     system_step y (y\<lparr>sy_db := s, sy_queue := sy_queue y @ jobs_of r\<rparr>)"
| started: "worker_ok env \<Longrightarrow> run_startup_recovery env STARTUP_RECOVERY_LIMIT (sy_db y) = ((r, jobs), s) \<Longrightarrow>
     system_step y (y\<lparr>sy_db := s, sy_queue := sy_queue y @ jobs\<rparr>)"
| queue_changed: "set q \<subseteq> set (sy_queue y) \<Longrightarrow> system_step y (y\<lparr>sy_queue := q\<rparr>)"
| other_process: "shop_step (sy_db y) s \<Longrightarrow> system_step y (y\<lparr>sy_db := s, sy_queue := sy_queue y @ jobs\<rparr>)"

section \<open>Runs of the worker are runs of the shop\<close>

lemma enqueued_snd [simp]: "snd (enqueued f r) = snd r"
  by (auto simp: enqueued_def split: prod.splits sum.splits)

lemma run_read: "(\<And>s. \<exists>x. m s = Inr (x, s)) \<Longrightarrow> snd (run_uow m s) = s"
  by (simp add: run_uow_def) (metis (no_types, lifting) case_prod_conv old.sum.simps(6) snd_conv)

lemma run_job_steps:
  assumes "worker_ok env"
  shows "shop_step\<^sup>*\<^sup>* s (snd (run_job env j s))"
proof -
  have others: "others (wk_meanwhile env)" "others (wk_meanwhile' env)" and mapper: "mapper_ok (wk_panel_mapper env)"
    using assms by (simp_all add: worker_ok_def)
  show ?thesis
  proof (cases j)
    case (PROCESS_PAYMENT_EVENT i)
    then show ?thesis by (simp add: ProcessPayment_execute_def) (rule uow_step, rule shop_step.payment_event)
  next
    case (PROVISION_SUBSCRIPTION i)
    let ?m = "provision_prepare_plan (wk_panel_mapper env) (provision_settings_of (wk_settings env)) (wk_randbelow env) (wk_fresh env 0)
       (wk_fresh env 1) i (wk_clock env 0)"
    have "snd (ProvisionVpn_execute (wk_panel_mapper env) (provision_settings_of (wk_settings env)) (wk_randbelow env) (wk_fresh env 0)
       (wk_fresh env 1) i (wk_clock env 0) s) = snd (run_uow ?m s)"
      by (auto simp: ProvisionVpn_execute_def split: prod.splits sum.splits provision_plan.splits option.splits)
    moreover have "shop_step\<^sup>*\<^sup>* s (snd (run_uow ?m s))" by (rule access_uow) (rule access_step.provision)
    ultimately show ?thesis using PROVISION_SUBSCRIPTION by simp
  next
    case (REVOKE_VPN_CONFIGURATION i reason)
    let ?m = "revoke_prepare_plan (revoke_settings_of (wk_settings env)) (wk_fresh env 0) i reason (wk_clock env 0)"
    have "snd (RevokeVpn_execute (revoke_settings_of (wk_settings env)) (wk_fresh env 0) i reason (wk_clock env 0) s) = snd (run_uow ?m s)"
      by (auto simp: RevokeVpn_execute_def split: prod.splits sum.splits revoke_plan.splits option.splits)
    moreover have "shop_step\<^sup>*\<^sup>* s (snd (run_uow ?m s))" by (rule access_uow) (rule access_step.revoke)
    ultimately show ?thesis using REVOKE_VPN_CONFIGURATION by simp
  qed (simp_all add: run_node_dispatch run_panel_provision run_panel_revoke others mapper)
qed

lemma run_sync_targets: "shop_step\<^sup>*\<^sup>* s (snd (sync_targets gateway err_text until ts n s))"
proof (induction ts arbitrary: n s)
  case (Cons t ts)
  have offline: "shop_step\<^sup>*\<^sup>* u (snd (run_uow (record_offline t k until) u))" for u k by (rule uow_step) (rule shop_step.probe_offline)
  have online: "shop_step\<^sup>*\<^sup>* u (snd (run_uow (record_snapshot t h until) u))" for u h by (rule uow_step) (rule shop_step.probe_snapshot)
  have credential: "snd (run_uow (nodes_get_active_credential (target_id t)) u) = u" for u
    by (rule run_read) (simp add: nodes_get_active_credential_def)
  have one: "shop_step\<^sup>*\<^sup>* s (snd (sync_target gateway err_text until t n s))"
  proof -
    obtain c where c: "run_uow (nodes_get_active_credential (target_id t)) s = (c, s)"
      using credential [of s] by (metis prod.collapse)
    have offline1: "run_uow (record_offline t k until) s = (q, u) \<Longrightarrow> shop_step\<^sup>*\<^sup>* s u" for k q u using offline [of s k] by simp
    have online1: "run_uow (record_snapshot t h until) s = (q, u) \<Longrightarrow> shop_step\<^sup>*\<^sup>* s u" for h q u using online [of s h] by simp
    have undone: "run_uow (record_snapshot t h until) s = (Inl e, u) \<Longrightarrow> u = s" for h e u by (rule run_uow_rollback)
    show ?thesis
      by (auto simp: sync_target_def c Let_def split: sum.splits option.splits prod.splits dest: offline1 online1 undone)
  qed
  obtain r s1 where r: "sync_target gateway err_text until t n s = (r, s1)" by fastforce
  then show ?case using one rtranclp_trans [OF _ Cons.IH] by (cases r) (auto simp: r)
qed simp

lemma run_sync: "shop_step\<^sup>*\<^sup>* s (snd (SyncNodeStatus_execute gateway err_text cfg fresh node_id now until s))"
proof -
  have one: "shop_step\<^sup>*\<^sup>* s (snd (run_uow (sync_select cfg fresh node_id now) s))" by (rule uow_step) (rule shop_step.probe_claim)
  obtain r s1 where r: "run_uow (sync_select cfg fresh node_id now) s = (r, s1)" by fastforce
  show ?thesis using one rtranclp_trans [OF _ run_sync_targets] by (cases r) (auto simp: SyncNodeStatus_execute_def r)
qed

lemma run_retire_candidates: "shop_step\<^sup>*\<^sup>* s (snd (retire_candidates py gateway now cs r s))"
proof (induction cs arbitrary: r s)
  case (Cons c cs)
  have mark: "shop_step\<^sup>*\<^sup>* u (snd (run_uow (nodes_mark_task_journal_retired i k now) u))" for u i k
    by (rule access_uow) (rule access_step.journal_retired)
  obtain q s1 where q: "run_uow (nodes_mark_task_journal_retired (jc_node_task_id c) (jc_idempotency_key c) now) s = (q, s1)" by fastforce
  then have one: "shop_step\<^sup>*\<^sup>* s s1" using mark [of s] by (metis snd_conv)
  show ?case using Cons.IH one rtranclp_trans [OF one Cons.IH] by (auto simp: q Let_def split: option.splits sum.splits)
qed simp

lemma run_retire: "shop_step\<^sup>*\<^sup>* s (snd (RetireNodeJournalRecords_execute py gateway n now s))"
proof -
  have "preserves (\<lambda>u. u = s) (load_retirement_candidates n)"
    unfolding load_retirement_candidates_def nodes_list_terminal_unretired_tasks_def retirement_candidate_def nodes_get_node_def
      nodes_get_active_credential_def by (intro preserves_intros)
  then have "snd (run_uow (load_retirement_candidates n) s) = s" by (auto simp: run_uow_def preserves_def split: sum.splits)
  then obtain r where r: "run_uow (load_retirement_candidates n) s = (r, s)" by (metis prod.collapse)
  show ?thesis using run_retire_candidates by (auto simp: RetireNodeJournalRecords_execute_def r split: sum.splits)
qed

lemma run_read_only:
  "snd (dispatch_due now limit s) = s" "snd (panel_dispatch_due enq now limit s) = s" "snd (panel_revoke_dispatch_due enq now limit s) = s"
  "snd (recover_payment_events limit s) = s"
  by (simp_all add: dispatch_due_def panel_dispatch_due_def panel_revoke_dispatch_due_def recover_payment_events_def run_uow_def
      nodes_list_due_tasks_def vpn_list_due_panel_task_ids_def vpn_list_due_panel_revoke_task_ids_def
      payments_list_received_payment_event_ids_def)

lemma run_recoveries:
  "shop_step\<^sup>*\<^sup>* s (snd (recover_stale enq b now n s))" "shop_step\<^sup>*\<^sup>* s (snd (panel_recover_stale f enq now n s))"
  "shop_step\<^sup>*\<^sup>* s (snd (panel_revoke_recover_stale enq now n s))"
proof -
  have "snd (recover_stale enq b now n s) = snd (run_uow (recover_stale_tx b now n) s)"
    by (auto simp: recover_stale_def Let_def split: prod.splits sum.splits)
  moreover have "shop_step\<^sup>*\<^sup>* s (snd (run_uow (recover_stale_tx b now n) s))" by (rule access_uow) (rule access_step.node_recovery)
  ultimately show "shop_step\<^sup>*\<^sup>* s (snd (recover_stale enq b now n s))" by simp
  show "shop_step\<^sup>*\<^sup>* s (snd (panel_recover_stale f enq now n s))"
  proof (cases "panel_recover_stale f enq now n s")
    case (Pair r s')
    then show ?thesis
      using shop_step.access [OF access_step.panel_recovery [of f enq now n s]] run_uow_rollback
      by (cases r) (auto simp: panel_recover_stale_def)
  qed
  show "shop_step\<^sup>*\<^sup>* s (snd (panel_revoke_recover_stale enq now n s))"
  proof (cases "panel_revoke_recover_stale enq now n s")
    case (Pair r s')
    then show ?thesis
      using shop_step.access [OF access_step.panel_revoke_recovery [of enq now n s]] run_uow_rollback
      by (cases r) (auto simp: panel_revoke_recover_stale_def)
  qed
qed

lemma run_call_steps:
  assumes "worker_ok env"
  shows "shop_step\<^sup>*\<^sup>* s (snd (run_call env limit c s))"
  by (cases c) (simp_all add: run_job_steps [OF assms] run_sync run_read_only run_recoveries run_reconcile run_retire)

lemma run_calls_steps:
  assumes "worker_ok env"
  shows "shop_step\<^sup>*\<^sup>* s (snd (run_calls env limit cs s))"
proof (induction cs arbitrary: s)
  case (Cons c cs)
  obtain r s1 where r: "run_call env limit c s = (r, s1)" by fastforce
  have one: "shop_step\<^sup>*\<^sup>* s s1" using run_call_steps [OF assms, of s limit c] r by simp
  show ?case using one rtranclp_trans [OF one Cons.IH] by (cases r) (auto simp: r split: prod.splits)
qed simp

lemma system_step_db: "system_step y y' \<Longrightarrow> shop_step\<^sup>*\<^sup>* (sy_db y) (sy_db y')"
proof (induction rule: system_step.induct)
  case (delivered env j y r s)
  then show ?case using run_call_steps [of env "sy_db y" 100 "Job j"] by simp
next
  case (periodic env cs c y r s)
  then show ?case using run_call_steps [of env "sy_db y" 100 "fst c"] by simp
next
  case (started env y r jobs s)
  then show ?case using run_calls_steps [of env "sy_db y" STARTUP_RECOVERY_LIMIT startup_calls] by (simp add: run_startup_recovery_def)
qed auto

lemma message_roundtrip: "decode_message (job_name j, job_arguments j) = Some (Job j)"
proof (cases j)
  case (REVOKE_VPN_CONFIGURATION i r)
  then show ?thesis by (cases r) (simp_all add: decode_message_def worker_functions_def revoke_arguments_def reason_of_text_def reason_text_def)
qed (simp_all add: decode_message_def worker_functions_def int_argument_def)

text \<open>C3. The worker is the shop at work: whatever jobs are delivered, lost, duplicated or delivered out of order, whatever runs
  periodically or at a start and whatever other processes do, the database goes along committed transactions of the shop, so what holds in
  all reachable states of the shop holds at any time of the running system. Every job the shop enqueues is decoded by the worker
  to the very call it was enqueued for.\<close>

theorem system_refines_shop:
  assumes "system_step\<^sup>*\<^sup>* y y'"
  shows "shop_step\<^sup>*\<^sup>* (sy_db y) (sy_db y') \<and> (shop_inv (sy_db y) \<longrightarrow> shop_inv (sy_db y')) \<and>
     (\<forall>j. decode_message (job_name j, job_arguments j) = Some (Job j))"
proof -
  have "shop_step\<^sup>*\<^sup>* (sy_db y) (sy_db y')"
    using assms by (induction rule: rtranclp_induct) (auto dest: system_step_db intro: rtranclp_trans)
  then show ?thesis using shop_steps_inv message_roundtrip by blast
qed

section \<open>Lost deliveries\<close>

lemma short_filter: "length (filter P rs) \<le> n \<Longrightarrow> length (filter (\<lambda>r. P r \<and> Q r) rs) \<le> n"
  by (metis filter_filter length_filter_le order_trans)

lemma recovers_payment_event:
  assumes "length (select_rows (\<lambda>e. pe_status e = PES_RECEIVED) (d_events s)) \<le> n"
    and "e \<in> set (rows (d_events s))" and "pe_id e = Some i" and "pe_status e = PES_RECEIVED"
  shows "\<exists>jobs. recover_payment_events n s = (Inr jobs, s) \<and> PROCESS_PAYMENT_EVENT i \<in> set jobs"
proof -
  let ?id = "\<lambda>e. case pe_id e of None \<Rightarrow> 0 | Some i \<Rightarrow> i"
  have "e \<in> set (select_rows (\<lambda>e. pe_status e = PES_RECEIVED) (d_events s))" using assms(2,4) by (simp add: select_rows_def)
  then have "PROCESS_PAYMENT_EVENT i \<in> (\<lambda>e. PROCESS_PAYMENT_EVENT (?id e)) ` set (select_rows (\<lambda>e. pe_status e = PES_RECEIVED) (d_events s))"
    using assms(3) by force
  then show ?thesis
    using assms(1) by (simp add: recover_payment_events_def run_uow_def payments_list_received_payment_event_ids_def image_image)
qed

lemma dispatches_due_task:
  assumes "length (select_rows (\<lambda>t. nt_status t = NTS_PENDING) (d_ntasks s)) \<le> n"
    and "t \<in> set (rows (d_ntasks s))" and "nt_id t = Some i" and "nt_status t = NTS_PENDING" and "nt_next_retry_at t = Some r" and "r \<le> now"
  shows "\<exists>jobs. enqueued snd (dispatch_due now n s) = (Inr jobs, s) \<and> DISPATCH_NODE_TASK i \<in> set jobs"
proof -
  let ?P = "\<lambda>t. nt_status t = NTS_PENDING \<and> (case nt_next_retry_at t of None \<Rightarrow> False | Some r \<Rightarrow> r \<le> now)"
  have short: "length (select_rows ?P (d_ntasks s)) \<le> n"
    using assms(1) by (simp add: select_rows_def short_filter)
  have "t \<in> set (select_rows ?P (d_ntasks s))" using assms(2,4,5,6) by (simp add: select_rows_def)
  then have "DISPATCH_NODE_TASK i \<in> (\<lambda>t. DISPATCH_NODE_TASK (opt_id (nt_id t))) ` set (select_rows ?P (d_ntasks s))" using assms(3) by (force simp: opt_id_def)
  then show ?thesis using short by (simp add: dispatch_due_def run_uow_def nodes_list_due_tasks_def enqueued_def image_image)
qed

lemma dispatches_due_revoke:
  assumes "length (select_rows (\<lambda>t. pr_status t = PTS_PENDING) (d_prev s)) \<le> n" and "\<And>j. enq j"
    and "t \<in> set (rows (d_prev s))" and "pr_id t = Some i" and "pr_status t = PTS_PENDING" and "pr_next_retry_at t = Some r" and "r \<le> now"
  shows "\<exists>jobs. panel_revoke_dispatch_due enq now n s = (Inr jobs, s) \<and> DISPATCH_PANEL_REVOKE_TASK i \<in> set jobs"
proof -
  let ?P = "\<lambda>t. pr_status t = PTS_PENDING \<and> (case pr_next_retry_at t of None \<Rightarrow> False | Some r \<Rightarrow> r \<le> now)"
  have short: "length (select_rows ?P (d_prev s)) \<le> n"
    using assms(1) by (simp add: select_rows_def short_filter)
  have "t \<in> set (select_rows ?P (d_prev s))" using assms(3,5-7) by (simp add: select_rows_def)
  then have "DISPATCH_PANEL_REVOKE_TASK i \<in> (\<lambda>t. DISPATCH_PANEL_REVOKE_TASK (opt_id (pr_id t))) ` set (select_rows ?P (d_prev s))" using assms(4) by (force simp: opt_id_def)
  then show ?thesis
    using short assms(2) by (simp add: panel_revoke_dispatch_due_def run_uow_def vpn_list_due_panel_revoke_task_ids_def image_image)
qed

lemma dispatches_due_provision:
  assumes "length (select_rows (\<lambda>t. pp_status t = PTS_PENDING) (d_pprov s)) \<le> n" and "\<And>j. enq j"
    and "t \<in> set (rows (d_pprov s))" and "pp_id t = Some i" and "pp_status t = PTS_PENDING" and "pp_next_retry_at t = Some r" and "r \<le> now"
  shows "\<exists>jobs. panel_dispatch_due enq now n s = (Inr jobs, s) \<and> DISPATCH_PANEL_PROVISION_TASK i \<in> set jobs"
proof -
  let ?P = "\<lambda>t. pp_status t = PTS_PENDING \<and> (case pp_next_retry_at t of None \<Rightarrow> False | Some r \<Rightarrow> r \<le> now)"
  have short: "length (select_rows ?P (d_pprov s)) \<le> n"
    using assms(1) by (simp add: select_rows_def short_filter)
  have "t \<in> set (select_rows ?P (d_pprov s))" using assms(3,5-7) by (simp add: select_rows_def)
  then have "DISPATCH_PANEL_PROVISION_TASK i \<in> (\<lambda>t. DISPATCH_PANEL_PROVISION_TASK (opt_id (pp_id t))) ` set (select_rows ?P (d_pprov s))" using assms(4) by (force simp: opt_id_def)
  then show ?thesis
    using short assms(2) by (simp add: panel_dispatch_due_def run_uow_def vpn_list_due_panel_task_ids_def image_image)
qed

lemma valid_cron_jobs:
  assumes "Settings_init cfg = Inr cfg'"
  shows "\<exists>k. cron_jobs cfg = Inr [(RecoverPaymentEvents, every_minute), (RetireNodeJournalRecords, every_minute), (ReconcileSubscriptions, k),
          (SyncNodeStatus None, sync_node_status_cron), (DispatchDueNodeTasks, every_minute), (RecoverStaleNodeTasks, every_minute),
          (DispatchDuePanelProvisionTasks, every_minute), (RecoverStalePanelProvisionTasks, every_minute),
          (DispatchDuePanelRevokeTasks, every_minute), (RecoverStalePanelRevokeTasks, every_minute)]"
proof -
  note v = valid_interval [OF valid_settings(4) [OF assms]]
  have "\<exists>k. reconciliation_cron_kwargs (se_background_sync_interval_seconds cfg) = Inr k"
    using v by (auto simp: reconciliation_cron_kwargs_def not_less)
  then show ?thesis by (auto simp: cron_jobs_def)
qed

text \<open>C9. A lost delivery of a job that has a due record in the database is made good: for validated settings the recovery jobs run every
  minute, and while at most a hundred records of a kind are pending and Redis takes what it is given they enqueue again the processing
  of every payment event that was received and the dispatch of every node task, panel provisioning task and panel revocation task
  that is due, without touching the database. The start of a worker enqueues the payment events even if one of its later steps fails.
  Jobs that have no record of this kind are outside the statement: the provisioning of a paid subscription and the revocation after
  its end, which are left to reconciliation, and a revocation that an administrator asked for, which is lost with its job.\<close>

theorem lost_deliveries_are_recreated:
  assumes "Settings_init (wk_settings env) = Inr cfg" and "\<And>j. wk_enqueue env j"
    and "length (select_rows (\<lambda>e. pe_status e = PES_RECEIVED) (d_events s)) \<le> 100"
    and "length (select_rows (\<lambda>t. nt_status t = NTS_PENDING) (d_ntasks s)) \<le> 100"
    and "length (select_rows (\<lambda>t. pp_status t = PTS_PENDING) (d_pprov s)) \<le> 100"
    and "length (select_rows (\<lambda>t. pr_status t = PTS_PENDING) (d_prev s)) \<le> 100"
  shows "(\<exists>cs. cron_jobs (wk_settings env) = Inr cs \<and>
       {RecoverPaymentEvents, DispatchDueNodeTasks, DispatchDuePanelProvisionTasks, DispatchDuePanelRevokeTasks} \<times> {every_minute} \<subseteq> set cs) \<and>
     (\<forall>t. t mod 60 = 0 \<longrightarrow> cron_fires every_minute t) \<and>
     (\<forall>e i. e \<in> set (rows (d_events s)) \<and> pe_id e = Some i \<and> pe_status e = PES_RECEIVED \<longrightarrow>
        (\<exists>jobs. run_call env 100 RecoverPaymentEvents s = (Inr jobs, s) \<and> PROCESS_PAYMENT_EVENT i \<in> set jobs) \<and>
        PROCESS_PAYMENT_EVENT i \<in> set (snd (fst (run_startup_recovery env STARTUP_RECOVERY_LIMIT s)))) \<and>
     (\<forall>t i r. t \<in> set (rows (d_ntasks s)) \<and> nt_id t = Some i \<and> nt_status t = NTS_PENDING \<and> nt_next_retry_at t = Some r \<and> r \<le> wk_clock env 0 \<longrightarrow>
        (\<exists>jobs. run_call env 100 DispatchDueNodeTasks s = (Inr jobs, s) \<and> DISPATCH_NODE_TASK i \<in> set jobs)) \<and>
     (\<forall>t i r. t \<in> set (rows (d_pprov s)) \<and> pp_id t = Some i \<and> pp_status t = PTS_PENDING \<and> pp_next_retry_at t = Some r \<and> r \<le> wk_clock env 0 \<longrightarrow>
        (\<exists>jobs. run_call env 100 DispatchDuePanelProvisionTasks s = (Inr jobs, s) \<and> DISPATCH_PANEL_PROVISION_TASK i \<in> set jobs)) \<and>
     (\<forall>t i r. t \<in> set (rows (d_prev s)) \<and> pr_id t = Some i \<and> pr_status t = PTS_PENDING \<and> pr_next_retry_at t = Some r \<and> r \<le> wk_clock env 0 \<longrightarrow>
        (\<exists>jobs. run_call env 100 DispatchDuePanelRevokeTasks s = (Inr jobs, s) \<and> DISPATCH_PANEL_REVOKE_TASK i \<in> set jobs))"
proof (intro conjI allI impI)
  show "\<exists>cs. cron_jobs (wk_settings env) = Inr cs \<and>
      {RecoverPaymentEvents, DispatchDueNodeTasks, DispatchDuePanelProvisionTasks, DispatchDuePanelRevokeTasks} \<times> {every_minute} \<subseteq> set cs"
    using valid_cron_jobs [OF assms(1)] by auto
  show "cron_fires every_minute t" if "t mod 60 = 0" for t
    using that zdiv_mono1 [of "t mod 3600" 3599 60] pos_mod_bound [of 3600 t] by (simp add: cron_fires_def every_minute_def)
  fix e i
  assume e: "e \<in> set (rows (d_events s)) \<and> pe_id e = Some i \<and> pe_status e = PES_RECEIVED"
  show one: "\<exists>jobs. run_call env 100 RecoverPaymentEvents s = (Inr jobs, s) \<and> PROCESS_PAYMENT_EVENT i \<in> set jobs"
    using recovers_payment_event [OF assms(3), of e i] e by simp
  then show "PROCESS_PAYMENT_EVENT i \<in> set (snd (fst (run_startup_recovery env STARTUP_RECOVERY_LIMIT s)))"
    by (auto simp: run_startup_recovery_def startup_calls_def STARTUP_RECOVERY_LIMIT_def simp del: run_call.simps split: prod.split)
next
  fix t i r
  assume "t \<in> set (rows (d_ntasks s)) \<and> nt_id t = Some i \<and> nt_status t = NTS_PENDING \<and> nt_next_retry_at t = Some r \<and> r \<le> wk_clock env 0"
  then show "\<exists>jobs. run_call env 100 DispatchDueNodeTasks s = (Inr jobs, s) \<and> DISPATCH_NODE_TASK i \<in> set jobs"
    using dispatches_due_task [OF assms(4), of t i r] by simp
next
  fix t i r
  assume "t \<in> set (rows (d_pprov s)) \<and> pp_id t = Some i \<and> pp_status t = PTS_PENDING \<and> pp_next_retry_at t = Some r \<and> r \<le> wk_clock env 0"
  then show "\<exists>jobs. run_call env 100 DispatchDuePanelProvisionTasks s = (Inr jobs, s) \<and> DISPATCH_PANEL_PROVISION_TASK i \<in> set jobs"
    using dispatches_due_provision [OF assms(5,2), of t i r] by simp
next
  fix t i r
  assume "t \<in> set (rows (d_prev s)) \<and> pr_id t = Some i \<and> pr_status t = PTS_PENDING \<and> pr_next_retry_at t = Some r \<and> r \<le> wk_clock env 0"
  then show "\<exists>jobs. run_call env 100 DispatchDuePanelRevokeTasks s = (Inr jobs, s) \<and> DISPATCH_PANEL_REVOKE_TASK i \<in> set jobs"
    using dispatches_due_revoke [OF assms(6,2), of t i r] by simp
qed

section \<open>Panel provisioning\<close>

text \<open>With the mapper of panel provision tasks as it is written, no panel provision task can be stored or loaded.\<close>

definition plans_no_panel_task :: "provision_plan \<Rightarrow> bool" where
  "plans_no_panel_task plan \<longleftrightarrow> (\<forall>a b c t e. plan \<noteq> ProvisionPlan a b c (Some t) e)"

text \<open>\<open>results Q m\<close>: whatever database \<open>m\<close> is run on, its result satisfies \<open>Q\<close> unless it raises.\<close>

definition results :: "('a \<Rightarrow> bool) \<Rightarrow> 'a tx \<Rightarrow> bool" where
  "results Q m \<longleftrightarrow> (\<forall>s x s'. m s = Inr (x, s') \<longrightarrow> Q x)"

lemma results_bind: "(\<And>x. results Q (f x)) \<Longrightarrow> results Q (bindT m f)"
  by (auto simp: results_def bindT_Inr)

lemma results_pure: "results Q (retT x) = Q x" "results Q (raiseT e)" "results Q (liftT (Inl e))"
  by (auto simp: results_def)

lemma results_option: "(x = None \<Longrightarrow> results Q m) \<Longrightarrow> (\<And>v. x = Some v \<Longrightarrow> results Q (f v)) \<Longrightarrow> results Q (case x of None \<Rightarrow> m | Some v \<Rightarrow> f v)"
  by (cases x) auto

lemma results_if: "(b \<Longrightarrow> results Q m) \<Longrightarrow> (\<not> b \<Longrightarrow> results Q n) \<Longrightarrow> results Q (if b then m else n)"
  by simp

lemma results_prod: "(\<And>a b. results Q (f a b)) \<Longrightarrow> results Q (case x of (a, b) \<Rightarrow> f a b)"
  by (cases x) auto

lemma results_failed: "results (\<lambda>_. False) m \<Longrightarrow> results Q (bindT m f)"
  by (auto simp: results_def bindT_Inr)

lemmas results_intros = results_if results_option results_prod

lemma no_panel_task_loaded: "entityT panel_provision_task_from_row r s = Inr (x, s') \<Longrightarrow> x = None"
  by (cases r) (auto simp: entityT_def panel_provision_task_from_row_def)

lemma no_panel_task_added: "results (\<lambda>_. False) (provision_panel_task panel_provision_task_from_row cfg c row expires now)"
  unfolding provision_panel_task_def vpn_add_panel_task_entity_def vpn_get_panel_task_for_configuration_def panel_provision_task_from_row_def
  by (auto simp: results_def bindT_Inr entityT_def split: if_splits option.splits prod.splits)

lemma node_plan_result: "results plans_no_panel_task (node_plan a b k task)"
  by (auto simp: node_plan_def results_pure plans_no_panel_task_def intro!: results_intros)

lemma recovery_plan_result: "results plans_no_panel_task (recover_succeeded_provision c k)"
  unfolding recover_succeeded_provision_def
  by (intro results_intros results_bind) (simp_all add: results_pure plans_no_panel_task_def)

lemma reuse_result: "results plans_no_panel_task (reuse_existing_provisioning panel_provision_task_from_row cfg u latest expires now)"
proof -
  have panel: "results plans_no_panel_task (bindT (vpn_get_panel_task_for_configuration panel_provision_task_from_row i) (\<lambda>existing.
      case existing of None \<Rightarrow> bindT (provision_panel_task panel_provision_task_from_row cfg latest row expires now) (f row)
      | Some task \<Rightarrow> g task))" for i row f g
    using no_panel_task_added [of cfg latest row expires now]
    by (auto simp: results_def bindT_Inr vpn_get_panel_task_for_configuration_def dest!: no_panel_task_loaded)
  show ?thesis
    unfolding reuse_existing_provisioning_def
    by (intro results_intros results_bind panel node_plan_result recovery_plan_result) (simp_all add: results_pure plans_no_panel_task_def)
qed

lemma provision_result: "results plans_no_panel_task (provision_prepare_plan panel_provision_task_from_row cfg rb u v i now)"
  unfolding provision_prepare_plan_def provision_latest_def provision_new_def Let_def
  by (intro results_intros results_bind reuse_result node_plan_result results_failed no_panel_task_added)
    (simp_all add: results_pure plans_no_panel_task_def)

lemma provision_execute_plan:
  assumes "ProvisionVpn_execute f cfg rb u v i now s = (Inr (plan, jobs), s')"
  shows "provision_prepare_plan f cfg rb u v i now s = Inr (plan, s') \<and> jobs = provision_jobs plan"
  using assms unfolding ProvisionVpn_execute_def run_uow_def
  by (auto split: sum.splits provision_plan.splits option.splits)

text \<open>C40. As the mapper of panel provision tasks is written, nothing is ever provisioned through a panel: provisioning never enqueues a
  panel task, and dispatching one changes nothing, whatever is stored.\<close>

theorem panel_provisioning_never_happens:
  "set (jobs_of (fst (run_job (env\<lparr>wk_panel_mapper := panel_provision_task_from_row\<rparr>) (PROVISION_SUBSCRIPTION i) s))) \<inter>
       range DISPATCH_PANEL_PROVISION_TASK = {} \<and>
   snd (run_job (env\<lparr>wk_panel_mapper := panel_provision_task_from_row\<rparr>) (DISPATCH_PANEL_PROVISION_TASK t) s) = s"
proof
  have jobs: "set (provision_jobs plan) \<inter> range DISPATCH_PANEL_PROVISION_TASK = {}" if "plans_no_panel_task plan" for plan
    using that by (cases plan rule: provision_jobs.cases) (auto simp: plans_no_panel_task_def)
  let ?env = "env\<lparr>wk_panel_mapper := panel_provision_task_from_row\<rparr>"
  let ?m = "ProvisionVpn_execute panel_provision_task_from_row (provision_settings_of (wk_settings env)) (wk_randbelow env) (wk_fresh env 0)
    (wk_fresh env 1) i (wk_clock env 0) s"
  show "set (jobs_of (fst (run_job ?env (PROVISION_SUBSCRIPTION i) s))) \<inter> range DISPATCH_PANEL_PROVISION_TASK = {}"
  proof (cases "fst ?m")
    case (Inl e)
    then show ?thesis by (cases ?m) (simp add: enqueued_def jobs_of_def)
  next
    case (Inr pj)
    obtain plan js s' where m: "?m = (Inr (plan, js), s')" using Inr by (cases ?m; cases pj) auto
    note plan = provision_execute_plan [OF m]
    have "plans_no_panel_task plan" using provision_result plan unfolding results_def by blast
    then show ?thesis using jobs plan by (simp add: m enqueued_def jobs_of_def del: One_nat_def)
  qed
  have "\<exists>q. run_uow (panel_prepare panel_provision_task_from_row l tok t moment) s = (q, s) \<and> (\<forall>pd. q \<noteq> Inr (Inr pd))" for l tok moment
    by (cases "get_row pp_id t (d_pprov s)")
      (simp_all add: panel_prepare_def vpn_get_panel_task_entity_def run_uow_def bindT_def entityT_def panel_provision_task_from_row_def)
  then obtain q where q: "run_uow (panel_prepare panel_provision_task_from_row (se_panel_task_lease_seconds (wk_settings env)) (wk_fresh env 0) t
      (wk_clock env 0)) s = (q, s)" "\<And>pd. q \<noteq> Inr (Inr pd)" by blast
  show "snd (run_job ?env (DISPATCH_PANEL_PROVISION_TASK t) s) = s"
    using q by (auto simp: DispatchPanelProvisionTask_execute_def split: sum.splits)
qed

section \<open>Examples\<close>

definition sample_worker :: worker_env where
  "sample_worker =
     \<lparr>wk_settings = default_settings, wk_enqueue = (\<lambda>_. True), wk_panel_mapper = PanelProvisionTask_post_init, wk_py_repr = (\<lambda>_. []),
      wk_node_gateway = (\<lambda>_ _ _ _ _. Inl ''down''), wk_panel_provision = (\<lambda>_. Some ''down''), wk_panel_revoke = (\<lambda>_. Some ''down''),
      wk_snapshot = (\<lambda>_ _. Inl ''down''), wk_retire = (\<lambda>_ _ _. Inl ''down''), wk_err_text = (\<lambda>_. ''error''), wk_randbelow = (\<lambda>_. 0),
      wk_fresh = (\<lambda>n. replicate (Suc n) CHR ''u''), wk_clock = (\<lambda>n. 10), wk_meanwhile = id, wk_meanwhile' = id\<rparr>"

theorem system_refines_shop_witness:
  "shop_step\<^sup>*\<^sup>* (sample_shop [sample_event]) (snd (run_job sample_worker (PROCESS_PAYMENT_EVENT 1) (sample_shop [sample_event])))"
proof -
  let ?y = "\<lparr>sy_db = sample_shop [sample_event], sy_queue = [PROCESS_PAYMENT_EVENT 1]\<rparr>"
  obtain r s where run: "run_call sample_worker 100 (Job (PROCESS_PAYMENT_EVENT 1)) (sy_db ?y) = (r, s)" by fastforce
  have ok: "worker_ok sample_worker" by (simp add: worker_ok_def sample_worker_def others_def mappers_ok)
  have "system_step ?y (?y\<lparr>sy_db := s, sy_queue := remove1 (PROCESS_PAYMENT_EVENT 1) (sy_queue ?y) @ jobs_of r\<rparr>)"
    by (rule system_step.delivered [OF ok _ run]) simp
  then have "system_step\<^sup>*\<^sup>* ?y (?y\<lparr>sy_db := s, sy_queue := remove1 (PROCESS_PAYMENT_EVENT 1) (sy_queue ?y) @ jobs_of r\<rparr>)" by simp
  from system_refines_shop [OF this] show ?thesis using run by simp
qed

theorem lost_deliveries_are_recreated_witness:
  "\<exists>jobs. run_call sample_worker 100 RecoverPaymentEvents (sample_shop [sample_event]) = (Inr jobs, sample_shop [sample_event]) \<and>
     PROCESS_PAYMENT_EVENT 1 \<in> set jobs"
proof -
  have valid: "Settings_init (wk_settings sample_worker) = Inr default_settings" by (simp add: sample_worker_def default_settings_valid)
  have taken: "wk_enqueue sample_worker j" for j by (simp add: sample_worker_def)
  have few: "length (select_rows P (d_events (sample_shop [sample_event]))) \<le> 100" "length (select_rows Q (d_ntasks (sample_shop [sample_event]))) \<le> 100"
      "length (select_rows R (d_pprov (sample_shop [sample_event]))) \<le> 100" "length (select_rows T (d_prev (sample_shop [sample_event]))) \<le> 100"
      for P Q R T
    by (simp_all add: select_rows_def sample_shop_def empty_db_def empty_table_def)
  have stored: "sample_event \<in> set (rows (d_events (sample_shop [sample_event]))) \<and> pe_id sample_event = Some 1 \<and> pe_status sample_event = PES_RECEIVED"
    by (simp add: sample_shop_def sample_event_def)
  show ?thesis using lost_deliveries_are_recreated [OF valid taken few] stored by blast
qed

end
