(* ===== verification/AgentStatus.thy ===== *)
theory AgentStatus
  imports Xui Config
begin

text \<open>
  What a node agent tells about itself: the health, capabilities and status of its two runtimes (\<^verbatim>\<open>apps/node_agent/runtime.py\<close>), the GET
  routes that answer with them (\<^verbatim>\<open>apps/node_agent/routes.py\<close>), the response models they pass through (\<^verbatim>\<open>schemas/nodes.py\<close>), and the
  shop's client that reads them. Datetimes in payloads are their ISO texts. The model of JSON has no fractional numbers: the float
  0.0 and pydantic's validation of an optional float are parameters.
\<close>

section \<open>Response models\<close>

record status_lib =
  sl_repr :: "json \<Rightarrow> string"
  sl_iso :: "time \<Rightarrow> string"
  sl_zero :: json
  sl_float :: "json \<Rightarrow> json option"

text \<open>A model is the list of its fields, each with the validation of the value found for it. Keys that are not fields are ignored.\<close>

type_synonym model = "(string \<times> (json option \<Rightarrow> json res)) list"

definition invalid_field :: error where
  "invalid_field = ValueError ''validation error''"

definition model_validate :: "model \<Rightarrow> dict \<Rightarrow> dict res" where
  "model_validate m payload = mapE (\<lambda>(k, f). bindE (f (dict_get payload k)) (\<lambda>v. Inr (k, v))) m"

definition a_str :: "json option \<Rightarrow> json res" where
  "a_str v = (case v of Some (JStr s) \<Rightarrow> Inr (JStr s) | _ \<Rightarrow> Inl invalid_field)"

definition an_optional_str :: "json option \<Rightarrow> json res" where
  "an_optional_str v = (case v of None \<Rightarrow> Inr JNull | Some JNull \<Rightarrow> Inr JNull | Some (JStr s) \<Rightarrow> Inr (JStr s) | _ \<Rightarrow> Inl invalid_field)"

definition a_literal :: "string list \<Rightarrow> json option \<Rightarrow> json res" where
  "a_literal values v = (case v of Some (JStr s) \<Rightarrow> if s \<in> set values then Inr (JStr s) else Inl invalid_field | _ \<Rightarrow> Inl invalid_field)"

definition an_int :: "json option \<Rightarrow> json res" where
  "an_int v =
     (case v of
        Some (JInt i) \<Rightarrow> Inr (JInt i)
      | Some (JBool b) \<Rightarrow> Inr (JInt (if b then 1 else 0))
      | Some (JStr s) \<Rightarrow> bindE (require invalid_field (py_int s)) (\<lambda>i. Inr (JInt i))
      | _ \<Rightarrow> Inl invalid_field)"

definition an_int_or_zero :: "json option \<Rightarrow> json res" where
  "an_int_or_zero v = (case v of None \<Rightarrow> Inr (JInt 0) | Some _ \<Rightarrow> an_int v)"

definition an_optional_float :: "status_lib \<Rightarrow> json option \<Rightarrow> json res" where
  "an_optional_float lib v = (case v of None \<Rightarrow> Inr JNull | Some w \<Rightarrow> require invalid_field (sl_float lib w))"

definition a_list_of :: "(json option \<Rightarrow> json res) \<Rightarrow> json option \<Rightarrow> json res" where
  "a_list_of f v = (case v of Some (JList xs) \<Rightarrow> bindE (mapE (\<lambda>x. f (Some x)) xs) (\<lambda>ys. Inr (JList ys)) | _ \<Rightarrow> Inl invalid_field)"

definition a_bool_dict :: "json option \<Rightarrow> json res" where
  "a_bool_dict v =
     (case v of
        Some (JObj d) \<Rightarrow> if list_all (\<lambda>(k, w). case w of JBool _ \<Rightarrow> True | _ \<Rightarrow> False) d then Inr (JObj d) else Inl invalid_field
      | _ \<Rightarrow> Inl invalid_field)"

definition an_object :: "json option \<Rightarrow> json res" where
  "an_object v = (case v of Some (JObj d) \<Rightarrow> Inr (JObj d) | _ \<Rightarrow> Inl invalid_field)"

definition a_model :: "model \<Rightarrow> json option \<Rightarrow> json res" where
  "a_model m v = (case v of Some (JObj d) \<Rightarrow> bindE (model_validate m d) (\<lambda>d. Inr (JObj d)) | _ \<Rightarrow> Inl invalid_field)"

definition AgentHealthResponse :: model where
  "AgentHealthResponse = [(''status'', a_literal [''ok'']), (''node_id'', a_str), (''agent_version'', a_str), (''time'', a_str)]"

definition AgentCapabilitiesResponse :: model where
  "AgentCapabilitiesResponse =
     [(''node_id'', a_str), (''supports'', a_bool_dict), (''protocols'', a_list_of a_str), (''transports'', a_list_of a_str),
      (''security'', a_list_of a_str)]"

definition AgentLoadPayload :: "status_lib \<Rightarrow> model" where
  "AgentLoadPayload lib =
     [(''cpu_percent'', an_optional_float lib), (''memory_percent'', an_optional_float lib), (''disk_percent'', an_optional_float lib)]"

definition AgentTrafficPayload :: model where
  "AgentTrafficPayload = [(''rx_bytes'', an_int_or_zero), (''tx_bytes'', an_int_or_zero)]"

definition AgentInboundStatus :: model where
  "AgentInboundStatus =
     [(''local_inbound_id'', a_str), (''port'', an_int), (''protocol'', a_str), (''security'', an_optional_str),
      (''transport_type'', an_optional_str), (''public_host'', a_str), (''sni'', an_optional_str), (''fingerprint'', an_optional_str),
      (''public_key'', an_optional_str), (''short_id'', an_optional_str), (''flow'', an_optional_str), (''encryption'', an_optional_str)]"

definition AgentStatusResponse :: "status_lib \<Rightarrow> model" where
  "AgentStatusResponse lib =
     [(''node_id'', a_str), (''status'', a_str), (''active_clients'', an_int), (''max_clients'', an_int),
      (''load'', a_model (AgentLoadPayload lib)), (''traffic'', a_model AgentTrafficPayload), (''inbounds'', a_list_of (a_model AgentInboundStatus))]"

definition AgentSnapshotResponse :: "status_lib \<Rightarrow> model" where
  "AgentSnapshotResponse lib =
     [(''health'', a_model AgentHealthResponse), (''capabilities'', a_model AgentCapabilitiesResponse),
      (''status'', a_model (AgentStatusResponse lib)), (''agent_version'', a_str), (''metrics'', an_object),
      (''inbounds'', a_list_of (a_model AgentInboundStatus))]"

lemmas field_defs = a_str_def an_optional_str_def a_literal_def an_int_def an_int_or_zero_def an_optional_float_def a_list_of_def
  a_bool_dict_def an_object_def a_model_def

lemmas model_defs = AgentHealthResponse_def AgentCapabilitiesResponse_def AgentLoadPayload_def AgentTrafficPayload_def AgentInboundStatus_def
  AgentStatusResponse_def AgentSnapshotResponse_def

section \<open>The runtimes\<close>

definition inbound_from_settings :: "Settings \<Rightarrow> dict" where
  "inbound_from_settings s =
     [(''local_inbound_id'', JStr (se_node_agent_inbound_id s)), (''port'', JInt (se_node_agent_public_port s)),
      (''protocol'', JStr (se_node_agent_protocol s)), (''security'', opt_str (se_node_agent_security s)),
      (''transport_type'', opt_str (se_node_agent_transport_type s)), (''public_host'', JStr (se_node_agent_public_host s)),
      (''sni'', opt_str (se_node_agent_sni s)), (''fingerprint'', opt_str (se_node_agent_fingerprint s)),
      (''public_key'', opt_str (se_node_agent_public_key s)), (''short_id'', opt_str (se_node_agent_short_id s)),
      (''flow'', opt_str (se_node_agent_flow s)), (''encryption'', opt_str (se_node_agent_encryption s))]"

definition health_payload :: "status_lib \<Rightarrow> Settings \<Rightarrow> time \<Rightarrow> dict" where
  "health_payload lib s now =
     [(''status'', JStr ''ok''), (''node_id'', JStr (se_node_agent_node_key s)), (''agent_version'', JStr (se_node_agent_version s)),
      (''time'', JStr (sl_iso lib now))]"

definition str_or :: "string option \<Rightarrow> string \<Rightarrow> string" where
  "str_or v d = (case v of None \<Rightarrow> d | Some x \<Rightarrow> if x = [] then d else x)"

definition capabilities_payload :: "Settings \<Rightarrow> bool \<Rightarrow> dict" where
  "capabilities_payload s xui =
     [(''node_id'', JStr (se_node_agent_node_key s)),
      (''supports'', JObj [(''provision_client'', JBool True), (''revoke_client'', JBool True), (''metrics'', JBool True), (''xui'', JBool xui),
         (''direct_xray'', JBool False)]),
      (''protocols'', JList [JStr (se_node_agent_protocol s)]),
      (''transports'', JList [JStr (str_or (se_node_agent_transport_type s) ''tcp'')]),
      (''security'', JList [JStr (str_or (se_node_agent_security s) ''none'')])]"

definition StubNodeRuntime_health :: "status_lib \<Rightarrow> Settings \<Rightarrow> time \<Rightarrow> dict" where
  "StubNodeRuntime_health lib s now =
     [(''status'', JStr ''ok''), (''node_id'', JStr (se_node_agent_node_key s)), (''agent_version'', JStr (se_node_agent_version s)),
      (''time'', JStr (sl_iso lib now))]"

definition StubNodeRuntime_capabilities :: "Settings \<Rightarrow> dict" where
  "StubNodeRuntime_capabilities s =
     [(''node_id'', JStr (se_node_agent_node_key s)),
      (''supports'', JObj [(''provision_client'', JBool True), (''revoke_client'', JBool True), (''metrics'', JBool True),
         (''xui'', JBool (se_node_agent_runtime_mode s = ''xui'')), (''direct_xray'', JBool False)]),
      (''protocols'', JList [JStr (se_node_agent_protocol s)]),
      (''transports'', JList [JStr (str_or (se_node_agent_transport_type s) ''tcp'')]),
      (''security'', JList [JStr (str_or (se_node_agent_security s) ''none'')])]"

definition StubNodeRuntime_status :: "status_lib \<Rightarrow> Settings \<Rightarrow> stub_clients \<Rightarrow> dict" where
  "StubNodeRuntime_status lib s clients =
     [(''node_id'', JStr (se_node_agent_node_key s)), (''status'', JStr ''online''), (''active_clients'', JInt (int (length clients))),
      (''max_clients'', JInt (se_node_agent_status_max_clients s)),
      (''load'', JObj [(''cpu_percent'', sl_zero lib), (''memory_percent'', sl_zero lib), (''disk_percent'', sl_zero lib)]),
      (''traffic'', JObj [(''rx_bytes'', JInt 0), (''tx_bytes'', JInt 0)]), (''inbounds'', JList [JObj (inbound_from_settings s)])]"

definition XuiNodeRuntime_status :: "xui_lib \<Rightarrow> Settings \<Rightarrow> 'p panel \<Rightarrow> 'p \<Rightarrow> dict res \<times> 'p" where
  "XuiNodeRuntime_status xlib s panel p =
     (case bindE (XuiClient_init (xui_settings_of s)) (\<lambda>client. bindE (node_agent_xui_inbound_id s) (\<lambda>i. Inr (client, i))) of
        Inl e \<Rightarrow> (Inl e, p)
      | Inr (client, i) \<Rightarrow>
          (case XuiClient_get_inbound xlib panel client (case i of None \<Rightarrow> 1 | Some i \<Rightarrow> if i = 0 then 1 else i) p of
             (Inl e, p') \<Rightarrow> (Inl e, p')
           | (Inr inbound, p') \<Rightarrow>
               (bindE (inbound_metrics xlib inbound) (\<lambda>(active_clients, rx_bytes, tx_bytes).
                Inr [(''node_id'', JStr (se_node_agent_node_key s)), (''status'', JStr ''online''), (''active_clients'', JInt active_clients),
                  (''max_clients'', JInt (se_node_agent_status_max_clients s)),
                  (''load'', JObj [(''cpu_percent'', JNull), (''memory_percent'', JNull), (''disk_percent'', JNull)]),
                  (''traffic'', JObj [(''rx_bytes'', JInt rx_bytes), (''tx_bytes'', JInt tx_bytes)]),
                  (''inbounds'', JList [JObj (inbound_from_settings s)])]), p')))"

record 'r observed =
  ob_health :: "time \<Rightarrow> dict"
  ob_capabilities :: dict
  ob_status :: "'r \<Rightarrow> dict res \<times> 'r"

definition stub_observed :: "status_lib \<Rightarrow> Settings \<Rightarrow> stub_clients observed" where
  "stub_observed lib s =
     \<lparr>ob_health = StubNodeRuntime_health lib s, ob_capabilities = StubNodeRuntime_capabilities s,
      ob_status = (\<lambda>clients. (Inr (StubNodeRuntime_status lib s clients), clients))\<rparr>"

definition xui_observed :: "status_lib \<Rightarrow> xui_lib \<Rightarrow> Settings \<Rightarrow> 'p panel \<Rightarrow> 'p observed" where
  "xui_observed lib xlib s panel =
     \<lparr>ob_health = health_payload lib s, ob_capabilities = capabilities_payload s True, ob_status = XuiNodeRuntime_status xlib s panel\<rparr>"

definition runtime_snapshot :: "'r observed \<Rightarrow> time \<Rightarrow> 'r \<Rightarrow> (dict \<times> dict \<times> dict) res \<times> 'r" where
  "runtime_snapshot ob now r =
     (case ob_status ob r of
        (Inl e, r') \<Rightarrow> (Inl e, r')
      | (Inr status, r') \<Rightarrow> (Inr (ob_health ob now, ob_capabilities ob, status), r'))"

section \<open>The routes\<close>

definition agent_get_route ::
  "auth_lib \<Rightarrow> auth_settings \<Rightarrow> (time \<Rightarrow> 'r \<Rightarrow> dict res \<times> 'r) \<Rightarrow> signed_request \<Rightarrow> time \<Rightarrow> 'r agent_state \<Rightarrow> dict res \<times> 'r agent_state" where
  "agent_get_route alib cfg body rq now s =
     (case require_node_auth alib cfg rq now (ag_nonces s) of
        (Inl e, nonces) \<Rightarrow> (Inl e, s\<lparr>ag_nonces := nonces\<rparr>)
      | (Inr verified, nonces) \<Rightarrow>
          (case body now (snd (ag_agent s)) of
             (result, r) \<Rightarrow> (result, s\<lparr>ag_nonces := nonces, ag_agent := (fst (ag_agent s), r)\<rparr>)))"

definition health_route :: "'r observed \<Rightarrow> time \<Rightarrow> 'r \<Rightarrow> dict res \<times> 'r" where
  "health_route ob now r = (model_validate AgentHealthResponse (ob_health ob now), r)"

definition capabilities_route :: "'r observed \<Rightarrow> time \<Rightarrow> 'r \<Rightarrow> dict res \<times> 'r" where
  "capabilities_route ob now r = (model_validate AgentCapabilitiesResponse (ob_capabilities ob), r)"

definition status_route :: "status_lib \<Rightarrow> 'r observed \<Rightarrow> time \<Rightarrow> 'r \<Rightarrow> dict res \<times> 'r" where
  "status_route lib ob now r =
     (case ob_status ob r of
        (Inl e, r') \<Rightarrow> (Inl e, r')
      | (Inr status, r') \<Rightarrow> (model_validate (AgentStatusResponse lib) status, r'))"

definition snapshot_response :: "status_lib \<Rightarrow> dict \<Rightarrow> dict \<Rightarrow> dict \<Rightarrow> dict res" where
  "snapshot_response lib health capabilities status =
     bindE (model_validate AgentHealthResponse health) (\<lambda>h.
     bindE (model_validate AgentCapabilitiesResponse capabilities) (\<lambda>c.
     bindE (model_validate (AgentStatusResponse lib) status) (\<lambda>st.
     bindE (case value_or (dict_value status ''inbounds'') (JList []) of
              JList xs \<Rightarrow> Inr xs | _ \<Rightarrow> Inl (TypeError ''inbounds'')) (\<lambda>inbounds.
     model_validate (AgentSnapshotResponse lib)
       [(''health'', JObj h), (''capabilities'', JObj c), (''status'', JObj st),
        (''agent_version'', JStr (py_str (sl_repr lib) (value_or (dict_value health ''agent_version'') (JStr [])))),
        (''metrics'', JObj [(''active_clients'', dict_value_default status ''active_clients'' (JInt 0)),
           (''max_clients'', dict_value_default status ''max_clients'' (JInt 0)), (''load'', dict_value_default status ''load'' (JObj [])),
           (''traffic'', dict_value_default status ''traffic'' (JObj []))]),
        (''inbounds'', JList inbounds)]))))"

definition snapshot_route :: "status_lib \<Rightarrow> 'r observed \<Rightarrow> time \<Rightarrow> 'r \<Rightarrow> dict res \<times> 'r" where
  "snapshot_route lib ob now r =
     (case runtime_snapshot ob now r of
        (Inl e, r') \<Rightarrow> (Inl e, r')
      | (Inr (health, capabilities, status), r') \<Rightarrow> (snapshot_response lib health capabilities status, r'))"

definition get_routes :: "status_lib \<Rightarrow> 'r observed \<Rightarrow> (string \<times> (time \<Rightarrow> 'r \<Rightarrow> dict res \<times> 'r)) list" where
  "get_routes lib ob =
     [(''/agent/health'', health_route ob), (''/agent/capabilities'', capabilities_route ob), (''/agent/status'', status_route lib ob),
      (''/agent/snapshot'', snapshot_route lib ob)]"

definition serve_get ::
  "auth_lib \<Rightarrow> auth_settings \<Rightarrow> status_lib \<Rightarrow> 'r observed \<Rightarrow> time \<Rightarrow> signed_request \<Rightarrow> 'r agent_state \<Rightarrow> http_response option \<times> 'r agent_state" where
  "serve_get alib cfg lib ob now rq s =
     (case map_of (get_routes lib ob) (sr_path rq) of
        None \<Rightarrow> (Some \<lparr>hr_status = 404, hr_body = JsonBody (JObj [(''detail'', JStr ''Not Found'')])\<rparr>, s)
      | Some body \<Rightarrow>
          (case agent_get_route alib cfg body rq now s of
             (Inl e, s') \<Rightarrow> (Some (error_response e), s')
           | (Inr d, s') \<Rightarrow> (Some \<lparr>hr_status = 200, hr_body = JsonBody (JObj d)\<rparr>, s')))"

text \<open>The agent checks requests with its own settings.\<close>

definition agent_auth_of :: "Settings \<Rightarrow> auth_settings" where
  "agent_auth_of s = \<lparr>as_node_id = se_node_agent_node_key s, as_key_id = se_node_agent_key_id s, as_secret = se_node_agent_shared_secret s,
     as_tolerance_seconds = se_node_timestamp_tolerance_seconds s\<rparr>"

section \<open>Lemmas\<close>

definition floats_ok :: "status_lib \<Rightarrow> bool" where
  "floats_ok lib \<longleftrightarrow> sl_float lib JNull = Some JNull \<and> sl_float lib (sl_zero lib) = Some (sl_zero lib)"

text \<open>What both runtimes report: the status names a number of clients and three valid loads.\<close>

definition status_of :: "Settings \<Rightarrow> int \<Rightarrow> json \<Rightarrow> int \<Rightarrow> int \<Rightarrow> dict" where
  "status_of s active load rx tx =
     [(''node_id'', JStr (se_node_agent_node_key s)), (''status'', JStr ''online''), (''active_clients'', JInt active),
      (''max_clients'', JInt (se_node_agent_status_max_clients s)),
      (''load'', JObj [(''cpu_percent'', load), (''memory_percent'', load), (''disk_percent'', load)]),
      (''traffic'', JObj [(''rx_bytes'', JInt rx), (''tx_bytes'', JInt tx)]), (''inbounds'', JList [JObj (inbound_from_settings s)])]"

definition reports :: "status_lib \<Rightarrow> Settings \<Rightarrow> 'r observed \<Rightarrow> bool" where
  "reports lib s ob \<longleftrightarrow>
     (\<forall>now. ob_health ob now = health_payload lib s now) \<and> (\<exists>xui. ob_capabilities ob = capabilities_payload s xui) \<and>
     (\<forall>r st r'. ob_status ob r = (Inr st, r') \<longrightarrow> (\<exists>active load rx tx. st = status_of s active load rx tx \<and> load \<in> {JNull, sl_zero lib}))"

lemma stub_reports: "reports lib s (stub_observed lib s)"
proof -
  have "StubNodeRuntime_status lib s clients = status_of s (int (length clients)) (sl_zero lib) 0 0" for clients
    by (simp add: StubNodeRuntime_status_def status_of_def)
  moreover have "StubNodeRuntime_capabilities s = capabilities_payload s (se_node_agent_runtime_mode s = ''xui'')"
    by (simp add: StubNodeRuntime_capabilities_def capabilities_payload_def)
  ultimately show ?thesis
    unfolding reports_def stub_observed_def by (auto simp: StubNodeRuntime_health_def health_payload_def)
qed

lemma xui_reports: "reports lib s (xui_observed lib xlib s panel)"
proof -
  have "\<exists>active load rx tx. st = status_of s active load rx tx \<and> load \<in> {JNull, sl_zero lib}"
    if "XuiNodeRuntime_status xlib s panel r = (Inr st, r')" for r st r'
    using that unfolding XuiNodeRuntime_status_def status_of_def
    by (auto simp: bindE_eq_Inr split: sum.splits prod.splits)
  then show ?thesis unfolding reports_def xui_observed_def by auto
qed

lemma opt_str_valid [simp]: "an_optional_str (Some (opt_str v)) = Inr (opt_str v)"
  by (cases v) (simp_all add: an_optional_str_def opt_str_def)

lemma valid_inbound: "model_validate AgentInboundStatus (inbound_from_settings s) = Inr (inbound_from_settings s)"
  by (simp add: model_validate_def AgentInboundStatus_def inbound_from_settings_def dict_get_def a_str_def an_int_def bindE_def)

lemma valid_inbounds: "a_list_of (a_model AgentInboundStatus) (Some (JList [JObj (inbound_from_settings s)])) = Inr (JList [JObj (inbound_from_settings s)])"
  by (simp add: a_list_of_def a_model_def valid_inbound bindE_def)

lemma valid_health: "model_validate AgentHealthResponse (health_payload lib s now) = Inr (health_payload lib s now)"
  by (simp add: model_validate_def AgentHealthResponse_def health_payload_def dict_get_def a_str_def a_literal_def bindE_def)

lemma valid_capabilities: "model_validate AgentCapabilitiesResponse (capabilities_payload s xui) = Inr (capabilities_payload s xui)"
  by (simp add: model_validate_def AgentCapabilitiesResponse_def capabilities_payload_def dict_get_def a_str_def a_list_of_def a_bool_dict_def bindE_def)

lemma valid_status:
  assumes "floats_ok lib" and "load \<in> {JNull, sl_zero lib}"
  shows "model_validate (AgentStatusResponse lib) (status_of s active load rx tx) = Inr (status_of s active load rx tx)"
proof -
  have "sl_float lib load = Some load" using assms by (auto simp: floats_ok_def)
  then have load: "a_model (AgentLoadPayload lib) (Some (JObj [(''cpu_percent'', load), (''memory_percent'', load), (''disk_percent'', load)])) =
      Inr (JObj [(''cpu_percent'', load), (''memory_percent'', load), (''disk_percent'', load)])"
    by (simp add: a_model_def model_validate_def AgentLoadPayload_def dict_get_def an_optional_float_def require_def bindE_def)
  have "a_model AgentTrafficPayload (Some (JObj [(''rx_bytes'', JInt rx), (''tx_bytes'', JInt tx)])) =
      Inr (JObj [(''rx_bytes'', JInt rx), (''tx_bytes'', JInt tx)])"
    by (simp add: a_model_def model_validate_def AgentTrafficPayload_def dict_get_def an_int_or_zero_def an_int_def bindE_def)
  with load show ?thesis
    by (simp add: model_validate_def AgentStatusResponse_def status_of_def dict_get_def a_str_def an_int_def valid_inbounds bindE_def)
qed

definition snapshot_of :: "status_lib \<Rightarrow> Settings \<Rightarrow> bool \<Rightarrow> dict \<Rightarrow> dict \<Rightarrow> dict" where
  "snapshot_of lib s xui health st =
     [(''health'', JObj health), (''capabilities'', JObj (capabilities_payload s xui)), (''status'', JObj st),
      (''agent_version'', JStr (se_node_agent_version s)),
      (''metrics'', JObj [(''active_clients'', dict_value st ''active_clients''), (''max_clients'', dict_value st ''max_clients''),
         (''load'', dict_value st ''load''), (''traffic'', dict_value st ''traffic'')]),
      (''inbounds'', JList [JObj (inbound_from_settings s)])]"

lemma snapshot_response_of:
  assumes "floats_ok lib" and "load \<in> {JNull, sl_zero lib}" and "st = status_of s active load rx tx"
  shows "snapshot_response lib (health_payload lib s now) (capabilities_payload s xui) st =
     Inr (snapshot_of lib s xui (health_payload lib s now) st)"
proof -
  let ?h = "health_payload lib s now" and ?c = "capabilities_payload s xui"
  have models: "a_model AgentHealthResponse (Some (JObj ?h)) = Inr (JObj ?h)" "a_model AgentCapabilitiesResponse (Some (JObj ?c)) = Inr (JObj ?c)"
    "a_model (AgentStatusResponse lib) (Some (JObj st)) = Inr (JObj st)"
    using valid_status [OF assms(1,2)] by (simp_all add: a_model_def valid_health valid_capabilities assms(3) bindE_def)
  have version: "py_str (sl_repr lib) (value_or (dict_value ?h ''agent_version'') (JStr [])) = se_node_agent_version s"
    by (simp add: value_or_def dict_value_def dict_get_def health_payload_def)
  have found: "value_or (dict_value st ''inbounds'') (JList []) = JList [JObj (inbound_from_settings s)]"
    "dict_value_default st ''active_clients'' (JInt 0) = dict_value st ''active_clients''"
    "dict_value_default st ''max_clients'' (JInt 0) = dict_value st ''max_clients''"
    "dict_value_default st ''load'' (JObj []) = dict_value st ''load''"
    "dict_value_default st ''traffic'' (JObj []) = dict_value st ''traffic''"
    by (simp_all add: assms(3) status_of_def dict_value_def dict_value_default_def dict_get_def value_or_def)
  show ?thesis
    using valid_status [OF assms(1,2), of s active rx tx] unfolding assms(3) [symmetric]
    by (simp add: snapshot_response_def valid_health valid_capabilities version found bindE_def)
      (simp add: model_validate_def AgentSnapshotResponse_def dict_get_def models valid_inbounds a_str_def an_object_def snapshot_of_def bindE_def)
qed

lemma snapshot_understood:
  assumes "st = status_of s active load rx tx"
  shows "NodeHealthSnapshot_from_payload py_repr (snapshot_of lib s xui health st) =
     Inr \<lparr>nh_health_status = NS_ONLINE, nh_agent_version = (if se_node_agent_version s = [] \<and> \<not> truthy (dict_value health ''agent_version'')
            then None else Some (py_str py_repr (value_or (JStr (se_node_agent_version s)) (dict_value health ''agent_version'')))),
          nh_active_clients = Some active, nh_max_clients = Some (se_node_agent_status_max_clients s),
          nh_load = [(''cpu_percent'', load), (''memory_percent'', load), (''disk_percent'', load)],
          nh_traffic = [(''rx_bytes'', JInt rx), (''tx_bytes'', JInt tx)], nh_capabilities = capabilities_payload s xui,
          nh_status_payload = st, nh_inbounds = [inbound_from_settings s]\<rparr>"
proof -
  have online: "NodeStatus_of (lower ''online'') = Inr NS_ONLINE" by code_simp
  have found: "dict_value st ''status'' = JStr ''online''" "dict_value st ''active_clients'' = JInt active"
    "dict_value st ''max_clients'' = JInt (se_node_agent_status_max_clients s)"
    "dict_value st ''load'' = JObj [(''cpu_percent'', load), (''memory_percent'', load), (''disk_percent'', load)]"
    "dict_value st ''traffic'' = JObj [(''rx_bytes'', JInt rx), (''tx_bytes'', JInt tx)]"
    by (simp_all add: assms status_of_def dict_value_def dict_get_def)
  have parts: "dict_value (snapshot_of lib s xui health st) ''health'' = JObj health"
    "dict_value (snapshot_of lib s xui health st) ''capabilities'' = JObj (capabilities_payload s xui)"
    "dict_value (snapshot_of lib s xui health st) ''status'' = JObj st"
    "dict_value (snapshot_of lib s xui health st) ''agent_version'' = JStr (se_node_agent_version s)"
    "dict_value (snapshot_of lib s xui health st) ''inbounds'' = JList [JObj (inbound_from_settings s)]"
    "dict_value (snapshot_of lib s xui health st) ''metrics'' =
       JObj [(''active_clients'', dict_value st ''active_clients''), (''max_clients'', dict_value st ''max_clients''),
         (''load'', dict_value st ''load''), (''traffic'', dict_value st ''traffic'')]"
    by (simp_all add: snapshot_of_def dict_value_def dict_get_def)
  show ?thesis
    by (simp add: NodeHealthSnapshot_from_payload_def parts found object_mapping_def optional_int_def value_or_def dict_value_default_def
        dict_get_def online bindE_def Let_def)
qed

section \<open>Properties\<close>

text \<open>C27. What a node agent reports reaches the shop: both runtimes report in the same form, and whenever the agent's runtime reads its status,
  the shop's client, with the right credential, gets a snapshot that says the node is online, with the clients, limit, version, inbound and
  capabilities the agent has, and asking changes nothing else at the agent.\<close>

theorem snapshot_reaches_the_shop:
  fixes ob :: "'r observed" and panel :: "'p panel"
  assumes "can_talk (nw_lib http) (agent_auth_of cfg) node credential x (ag_nonces s)" and "ex_key x = ''snapshot:'' @ node_id_text node"
    and "nw_send http = (\<lambda>_. serve_get (nw_lib http) (agent_auth_of cfg) lib ob (ex_received x))" and "nonce 0 = ex_nonce x"
    and "floats_ok lib" and "reports lib cfg ob" and "ob_status ob (snd (ag_agent s)) = (Inr st, r')"
  shows "(\<exists>h s' xui. NodeApiClient_get_snapshot py_repr http node credential (ex_sent x) nonce s = (Inr h, s') \<and>
            ag_agent s' = (fst (ag_agent s), r') \<and> nh_health_status h = NS_ONLINE \<and> nh_status_payload h = st \<and>
            map_option JInt (nh_active_clients h) = Some (dict_value st ''active_clients'') \<and>
            nh_max_clients h = Some (se_node_agent_status_max_clients cfg) \<and> nh_inbounds h = [inbound_from_settings cfg] \<and>
            nh_agent_version h = (if se_node_agent_version cfg = [] then None else Some (se_node_agent_version cfg)) \<and>
            nh_capabilities h = capabilities_payload cfg xui) \<and>
         reports lib cfg (stub_observed lib cfg) \<and> reports lib cfg (xui_observed lib xlib cfg panel)"
proof -
  let ?rq = "client_request http node credential ''GET'' ''/agent/snapshot'' None (ex_key x) (ex_sent x) (ex_nonce x)"
  let ?health = "health_payload lib cfg (ex_received x)"
  obtain nonces' v where auth: "require_node_auth (nw_lib http) (agent_auth_of cfg) ?rq (ex_received x) (ag_nonces s) = (Inr v, nonces')"
    using talk_authenticated [OF assms(1)] by blast
  obtain xui where xui: "ob_capabilities ob = capabilities_payload cfg xui" using assms(6) by (auto simp: reports_def)
  obtain active load rx tx where st: "st = status_of cfg active load rx tx" and load: "load \<in> {JNull, sl_zero lib}"
    using assms(6,7) unfolding reports_def by blast
  have "snapshot_route lib ob (ex_received x) (snd (ag_agent s)) = (Inr (snapshot_of lib cfg xui ?health st), r')"
    using assms(6) snapshot_response_of [OF assms(5) load st]
    by (simp add: snapshot_route_def runtime_snapshot_def assms(7) xui reports_def)
  moreover have "map_of (get_routes lib ob) ''/agent/snapshot'' = Some (snapshot_route lib ob)" by (simp add: get_routes_def)
  moreover have "sr_path ?rq = ''/agent/snapshot''" by (simp add: client_request_def Let_def)
  ultimately have serve: "serve_get (nw_lib http) (agent_auth_of cfg) lib ob (ex_received x) ?rq s =
      (Some \<lparr>hr_status = 200, hr_body = JsonBody (JObj (snapshot_of lib cfg xui ?health st))\<rparr>,
       s\<lparr>ag_nonces := nonces', ag_agent := (fst (ag_agent s), r')\<rparr>)"
    using auth by (simp add: serve_get_def agent_get_route_def)
  have path: "''/agent/'' @ ''snapshot'' = ''/agent/snapshot''" and key: "''snapshot'' @ '':'' @ node_id_text node = ex_key x"
    by (simp_all add: assms(2))
  have "NodeApiClient_get ''snapshot'' http node credential (ex_sent x) (ex_nonce x) s =
      (Inr (snapshot_of lib cfg xui ?health st), s\<lparr>ag_nonces := nonces', ag_agent := (fst (ag_agent s), r')\<rparr>)"
    unfolding NodeApiClient_get_def NodeApiClient_request_def path key assms(3) serve
    by (simp add: read_response_def is_success_def dict_of_json_def)
  moreover have "dict_value ?health ''agent_version'' = JStr (se_node_agent_version cfg)"
    by (simp add: health_payload_def dict_value_def dict_get_def)
  moreover have "dict_value st ''active_clients'' = JInt active" by (simp add: st status_of_def dict_value_def dict_get_def)
  ultimately show ?thesis
    by (simp add: NodeApiClient_get_snapshot_def assms(4) snapshot_understood [OF st] value_or_def stub_reports xui_reports Let_def)
      blast
qed

definition status_settings :: Settings where
  "status_settings = default_settings\<lparr>se_node_agent_node_key := as_node_id sample_auth, se_node_agent_key_id := as_key_id sample_auth,
     se_node_agent_shared_secret := as_secret sample_auth, se_node_timestamp_tolerance_seconds := as_tolerance_seconds sample_auth\<rparr>"

definition sample_status_lib :: status_lib where
  "sample_status_lib = \<lparr>sl_repr = (\<lambda>_. []), sl_iso = (\<lambda>_. ''now''), sl_zero = JStr ''0.0'', sl_float = Some\<rparr>"

theorem snapshot_reaches_the_shop_witness:
  "\<exists>h s'. NodeApiClient_get_snapshot (\<lambda>_. [])
      \<lparr>nw_lib = sample_lib, nw_dumps = (\<lambda>_. ''{}''),
       nw_send = (\<lambda>_. serve_get sample_lib (agent_auth_of status_settings) sample_status_lib (stub_observed sample_status_lib status_settings) (seconds 61))\<rparr>
      sample_node sample_credential 0 (\<lambda>_. ''nonce'') \<lparr>ag_nonces = InMemoryNonceStore_init 30, ag_agent = ([], [])\<rparr> = (Inr h, s') \<and>
     nh_health_status h = NS_ONLINE \<and> map_option JInt (nh_active_clients h) = Some (JInt 0) \<and> nh_max_clients h = Some 500"
proof -
  let ?lib = sample_status_lib and ?cfg = status_settings and ?ob = "stub_observed sample_status_lib status_settings"
  let ?http = "\<lparr>nw_lib = sample_lib, nw_dumps = (\<lambda>_. ''{}''), nw_send = (\<lambda>_. serve_get sample_lib (agent_auth_of ?cfg) ?lib ?ob (seconds 61))\<rparr>"
  let ?x = "sample_exchange\<lparr>ex_key := ''snapshot:'' @ node_id_text sample_node\<rparr>"
  have auth: "agent_auth_of ?cfg = sample_auth" by (simp add: agent_auth_of_def status_settings_def)
  have talk: "can_talk sample_lib (agent_auth_of ?cfg) sample_node sample_credential ?x (InMemoryNonceStore_init 30)"
    using sample_can_talk unfolding auth can_talk_def by (simp split: option.splits)
  let ?s = "\<lparr>ag_nonces = InMemoryNonceStore_init 30, ag_agent = ([], [])\<rparr> :: stub_clients agent_state"
  have max: "se_node_agent_status_max_clients ?cfg = 500" by (simp add: status_settings_def default_settings_def)
  have active: "dict_value (StubNodeRuntime_status ?lib ?cfg []) ''active_clients'' = JInt 0"
    by (simp add: StubNodeRuntime_status_def dict_value_def dict_get_def)
  have facts: "can_talk (nw_lib ?http) (agent_auth_of ?cfg) sample_node sample_credential ?x (ag_nonces ?s)"
    "ex_key ?x = ''snapshot:'' @ node_id_text sample_node" "nw_send ?http = (\<lambda>_. serve_get (nw_lib ?http) (agent_auth_of ?cfg) ?lib ?ob (ex_received ?x))"
    "''nonce'' = ex_nonce ?x" "floats_ok ?lib" "ob_status ?ob (snd (ag_agent ?s)) = (Inr (StubNodeRuntime_status ?lib ?cfg []), [])"
    using talk by (simp_all add: sample_exchange_def floats_ok_def sample_status_lib_def stub_observed_def)
  have sent: "ex_sent ?x = 0" by (simp add: sample_exchange_def)
  show ?thesis
    using snapshot_reaches_the_shop [OF facts(1-3), of "\<lambda>_. ''nonce''", OF facts(4,5) stub_reports facts(6), of "\<lambda>_. []"]
    unfolding max active sent by blast
qed

end
