(* ===== verification/Sandbox.thy ===== *)
theory Sandbox
  imports WebhookApi WebhookProps SettleLive Config
begin

text \<open>
  The payment sandbox of development environments (\<^verbatim>\<open>apps/api/routes/sandbox.py\<close>): a page for an order of the dummy provider and the
  button that reports the order as paid. The page's HTML is left out; the model keeps the values it shows and sends back.
\<close>

section \<open>The routes\<close>

record sandbox_page =
  sb_payment_order_id :: int
  sb_amount :: string
  sb_status :: PaymentStatus
  sb_provider_payment_id :: "string option"

definition not_dummy :: error where
  "not_dummy = HTTPException 400 ''Sandbox is only available for dummy provider''"

definition attempt_payment_id :: "PaymentAttempt option \<Rightarrow> string option" where
  "attempt_payment_id attempt = (case attempt of None \<Rightarrow> Some [] | Some a \<Rightarrow> pa_provider_payment_id a)"

definition dummy_payment_page :: "int \<Rightarrow> db \<Rightarrow> sandbox_page res \<times> db" where
  "dummy_payment_page payment_order_id s =
     (case AdminOperations_get_payment_with_attempt payment_order_id s of
        (Inl e, s') \<Rightarrow> (Inl e, s')
      | (Inr (order, attempt), s') \<Rightarrow>
          if po_provider order \<noteq> ''dummy'' then (Inl not_dummy, s')
          else
            (Inr \<lparr>sb_payment_order_id = payment_order_id,
                  sb_amount = show_int (minor (po_amount order)) @ '' '' @ currency (po_amount order), sb_status = po_status order,
                  sb_provider_payment_id = attempt_payment_id attempt\<rparr>, s'))"

definition sandbox_payload :: "int \<Rightarrow> string option \<Rightarrow> PaymentOrder \<Rightarrow> dict" where
  "sandbox_payload payment_order_id provider_payment_id order =
     [(''payment_order_id'', JInt payment_order_id), (''provider_payment_id'', opt_str provider_payment_id), (''status'', JStr ''paid''),
      (''amount_minor'', JInt (minor (po_amount order))), (''currency'', JStr (currency (po_amount order)))]"

definition pay_dummy_order :: "pay_lib \<Rightarrow> pay_settings \<Rightarrow> time \<Rightarrow> int \<Rightarrow> string \<Rightarrow> db \<Rightarrow> (ingest_result \<times> job list) res \<times> db" where
  "pay_dummy_order lib pay now payment_order_id provider_payment_id s =
     (case AdminOperations_get_payment_with_attempt payment_order_id s of
        (Inl e, s') \<Rightarrow> (Inl e, s')
      | (Inr (order, attempt), s') \<Rightarrow>
          if po_provider order \<noteq> ''dummy'' then (Inl not_dummy, s')
          else
            (let provider_payment_id = (if provider_payment_id \<noteq> [] then Some provider_payment_id else attempt_payment_id attempt);
                 raw_body = pl_dumps lib (sandbox_payload payment_order_id provider_payment_id order) in
             shop_ingest lib pay now ''dummy'' raw_body [] s'))"

text \<open>The routers the API is composed of.\<close>

definition api_routers :: "Settings \<Rightarrow> string list" where
  "api_routers s = [''health'', ''bot_queries'', ''bot_commands'', ''admin'', ''nodes'', ''webhooks''] @ (if \<not> is_production s then [''sandbox''] else [])"

section \<open>Lemmas\<close>

definition paid_event_key :: "int \<Rightarrow> string" where
  "paid_event_key i = ''dummy:'' @ show_int i @ '':paid''"

lemma lower_paid: "lower ''paid'' = ''paid''"
  by (simp add: lower_def lower_char_def)

text \<open>What the dummy adapter makes of the sandbox's body.\<close>

definition sandbox_event :: "time \<Rightarrow> int \<Rightarrow> string \<Rightarrow> PaymentOrder \<Rightarrow> NormalizedWebhookEvent" where
  "sandbox_event now i pid order =
     \<lparr>ne_provider = ''dummy'', ne_event_key = paid_event_key i, ne_event_type = ''dummy.paid'', ne_status = Some PS_PAID, ne_occurred_at = now,
      ne_provider_payment_id = Some pid, ne_payment_order_id = Some i, ne_amount_minor = Some (minor (po_amount order)),
      ne_currency = Some (currency (po_amount order)), ne_payload = sandbox_payload i (Some pid) order\<rparr>"

lemma sandbox_verified:
  assumes "\<not> pg_production pay" and "pid \<noteq> []" and "money_wf (po_amount order)"
    and "pl_loads lib body = Some (JObj (sandbox_payload i (Some pid) order))"
  shows "registry_verify lib pay now ''dummy'' body hs = Inr (sandbox_event now i pid order)"
proof -
  let ?d = "sandbox_payload i (Some pid) order"
  have found: "dict_get ?d ''payment_order_id'' = Some (JInt i)" "dict_value ?d ''provider_payment_id'' = JStr pid"
    "dict_value_default ?d ''status'' (JStr ''paid'') = JStr ''paid''" "dict_value ?d ''amount_minor'' = JInt (minor (po_amount order))"
    "dict_value ?d ''currency'' = JStr (currency (po_amount order))" "dict_value ?d ''event_key'' = JNull"
    "dict_value_default ?d ''event_type'' v = v" for v
    by (simp_all add: sandbox_payload_def dict_value_def dict_value_default_def dict_get_def opt_str_def)
  have cur: "upper (strip (currency (po_amount order))) = currency (po_amount order)" "currency (po_amount order) \<noteq> []"
    using assms(3) by (simp_all add: money_wf_iff)
  have "DummyPaymentAdapter_verify lib pay now body headers = Inr (sandbox_event now i pid order)" for headers
    using assms(1,2)
    by (simp add: DummyPaymentAdapter_verify_def parse_object_def assms(4) found bindE_def ensure_def require_def json_int_def dummy_optional_int_def
        is_blank_value_def optional_currency_def cur lower_paid sandbox_event_def paid_event_key_def value_or_def Let_def)
  then show ?thesis
    using assms(1)
    by (simp add: registry_verify_def PaymentAdapterRegistry_get_def registered_adapters_def require_def bindE_def adapter_verify_def)
qed

lemma attempt_found:
  assumes "attempts_constraints (d_attempts s)" and "att \<in> set (rows (d_attempts s))" and "pa_provider att = provider"
    and "pa_provider_payment_id att = Some pid"
  shows "find_row (\<lambda>a. pa_provider a = provider \<and> pa_provider_payment_id a = Some pid) (d_attempts s) = Some att"
proof -
  let ?P = "\<lambda>a. pa_provider a = provider \<and> pa_provider_payment_id a = Some pid"
  obtain a where a: "find_row ?P (d_attempts s) = Some a"
    using assms(2-4) by (cases "find_row ?P (d_attempts s)") (auto dest: find_row_NoneD)
  have inj: "inj_on (\<lambda>a. (pa_provider a, pa_provider_payment_id a)) (set (filter (\<lambda>a. pa_provider_payment_id a \<noteq> None) (rows (d_attempts s))))"
    using assms(1) unfolding attempts_constraints_def distinct_map by blast
  have "a = att"
    using find_row_SomeD [OF a] assms(2-4) by (intro inj_onD [OF inj]) auto
  then show ?thesis using a by simp
qed

definition delivered_event :: "string \<Rightarrow> NormalizedWebhookEvent \<Rightarrow> PaymentAttempt option \<Rightarrow> db \<Rightarrow> PaymentEvent" where
  "delivered_event provider n a s = (received_event provider n a)\<lparr>pe_id := Some (next_id (d_events s)), pe_received_at := Some (d_clock s)\<rparr>"

lemma saved_inbox:
  assumes "inbox_constraints (d_inbox s)"
  shows "\<exists>r t. payments_save_webhook_inbox provider key h d s = Inr (r, s\<lparr>d_inbox := t\<rparr>) \<and> inbox_constraints t"
proof (cases "inbox_entry provider key s")
  case (Some w)
  then have "payments_save_webhook_inbox provider key h d s = Inr ((False, w), s\<lparr>d_inbox := d_inbox s\<rparr>)"
    by (simp add: payments_save_webhook_inbox_def inbox_entry_def)
  then show ?thesis using assms by blast
next
  case None
  let ?row = "\<lparr>wi_id = Some (next_id (d_inbox s)), wi_provider = provider, wi_event_key = key, wi_headers = h, wi_payload = d, wi_status = PES_RECEIVED,
    wi_received_at = d_clock s, wi_processed_at = None, wi_error_message = None\<rparr>"
  let ?t = "(d_inbox s)\<lparr>rows := rows (d_inbox s) @ [?row], next_id := next_id (d_inbox s) + 1\<rparr>"
  have "\<not> (wi_provider w = provider \<and> wi_event_key w = key)" if "w \<in> set (rows (d_inbox s))" for w
    using None that unfolding inbox_entry_def by (auto dest: find_row_NoneD)
  then have "inbox_constraints ?t" using assms by (auto simp: inbox_constraints_def)
  moreover from this have "payments_save_webhook_inbox provider key h d s = Inr ((True, ?row), s\<lparr>d_inbox := ?t\<rparr>)"
    using None by (simp add: payments_save_webhook_inbox_def inbox_entry_def insert_row_def put_inbox_def writeT_def bindT_def Let_def)
  ultimately show ?thesis by blast
qed

text \<open>A delivery with a new key stores its event under the next identifier and nothing else outside the inbox.\<close>

lemma new_delivery:
  assumes inv: "pay_inv s" "inbox_constraints (d_inbox s)" and new: "event_entry provider (ne_event_key n) s = None"
    and a: "\<And>t. attempt_of_webhook provider n (s\<lparr>d_inbox := t\<rparr>) = Inr (a, s\<lparr>d_inbox := t\<rparr>)"
  shows "\<exists>b t. ingest_tx provider h n d now s = Inr ((b, delivered_event provider n a s),
     s\<lparr>d_inbox := t, d_events := (d_events s)\<lparr>rows := rows (d_events s) @ [delivered_event provider n a s], next_id := next_id (d_events s) + 1\<rparr>\<rparr>)"
proof -
  let ?ev = "delivered_event provider n a s"
  let ?t = "(d_events s)\<lparr>rows := rows (d_events s) @ [?ev], next_id := next_id (d_events s) + 1\<rparr>"
  have key: "pe_provider ?ev = provider" "pe_event_key ?ev = ne_event_key n" by (simp_all add: delivered_event_def received_event_def)
  have "\<not> (pe_provider e = provider \<and> pe_event_key e = ne_event_key n)" if "e \<in> set (rows (d_events s))" for e
    using new that unfolding event_entry_def by (auto dest: find_row_NoneD)
  then have ok: "events_constraints ?t"
    using inv(1) key by (fastforce simp: pay_inv_def pay_inv_except_def events_constraints_def)
  obtain r t where inbox: "payments_save_webhook_inbox provider (ne_event_key n) h d s = Inr (r, s\<lparr>d_inbox := t\<rparr>)" "inbox_constraints t"
    using saved_inbox [OF inv(2)] by blast
  obtain b w where r: "r = (b, w)" by (cases r)
  have "payments_create_payment_event (received_event provider n a) (s\<lparr>d_inbox := t\<rparr>) = Inr (?ev, s\<lparr>d_inbox := t, d_events := ?t\<rparr>)"
  proof -
    have "find_row (\<lambda>e. pe_provider e = provider \<and> pe_event_key e = ne_event_key n) (d_events s) = None"
      using new by (simp add: event_entry_def)
    then show ?thesis
      using ok by (simp add: payments_create_payment_event_def received_event_def delivered_event_def insert_row_def put_events_def writeT_def bindT_def Let_def)
  qed
  then have "ingest_tx provider h n d now s =
      Inr ((b, ?ev), s\<lparr>d_inbox := marked_inbox (wi_id w) PES_PROCESSED (Some now) None (s\<lparr>d_inbox := t, d_events := ?t\<rparr>), d_events := ?t\<rparr>)"
    using inbox a [of t] r by (simp add: ingest_tx_def bindT_def mark_inbox_eval)
  then show ?thesis by blast
qed

text \<open>The event such a delivery stores, for an attempt with the order's payment id, passes the settlement rule.\<close>

lemma sandbox_event_fields:
  assumes "money_wf (po_amount ord)" and "pa_id att = Some j" and "pa_payment_order_id att = i"
  shows "pe_id (delivered_event ''dummy'' (sandbox_event now i pid ord) (Some att) s) = Some (next_id (d_events s))"
    and "delivered_event ''dummy'' (sandbox_event now i pid ord) (Some att) s =
      \<lparr>pe_id = Some (next_id (d_events s)), pe_payment_order_id = Some i, pe_payment_attempt_id = Some j, pe_provider = ''dummy'',
       pe_event_type = ''dummy.paid'', pe_event_key = paid_event_key i, pe_status = PES_RECEIVED, pe_payload = sandbox_payload i (Some pid) ord,
       pe_occurred_at = now, pe_provider_payment_id = Some pid, pe_reported_payment_order_id = Some i, pe_payment_status = Some PS_PAID,
       pe_amount_minor = Some (minor (po_amount ord)), pe_currency = Some (currency (po_amount ord)), pe_received_at = Some (d_clock s),
       pe_processed_at = None, pe_error_message = None\<rparr>"
    and "PaymentEvent_post_init (delivered_event ''dummy'' (sandbox_event now i pid ord) (Some att) s) =
      delivered_event ''dummy'' (sandbox_event now i pid ord) (Some att) s"
  using assms
  by (simp_all add: delivered_event_def received_event_def sandbox_event_def canonical_currency_def PaymentEvent_post_init_def money_wf_iff Let_def)

lemma sandbox_event_settles:
  assumes "money_wf (po_amount ord)" and "pa_id att = Some j" and "pa_payment_order_id att = i" and "po_id ord = Some i"
    and "po_provider ord = ''dummy''" and "pa_provider att = ''dummy''" and "pa_provider_payment_id att = Some pid" and "pid \<noteq> []"
  shows "validate_paid_settlement (PaymentEvent_post_init (delivered_event ''dummy'' (sandbox_event now i pid ord) (Some att) s)) (Some att) ord = Inr ()"
proof -
  have "upper (strip (currency (po_amount ord))) = currency (po_amount ord)" "strip (currency (po_amount ord)) \<noteq> []"
    using assms(1) by (auto simp: money_wf_iff upper_def)
  then show ?thesis
    using assms(3-8) unfolding sandbox_event_fields(3) [OF assms(1-3)] unfolding sandbox_event_fields(2) [OF assms(1-3)]
    by (simp add: validate_paid_settlement_def ensure_def or_else_def bindE_def)
qed

text \<open>Pressing the button delivers the page's body, unless the adapter is not registered.\<close>

lemma sandbox_call:
  assumes "get_row po_id i (d_orders s) = Some ord" and "po_provider ord = ''dummy''" and "payments_get_latest_attempt i s = Inr (Some att, s)"
    and "pa_provider_payment_id att = Some pid" and "form \<in> {[], pid}"
  shows "pay_dummy_order lib pay now i form s = shop_ingest lib pay now ''dummy'' (pl_dumps lib (sandbox_payload i (Some pid) ord)) [] s"
proof -
  have "AdminOperations_get_payment_with_attempt i s = (Inr (ord, Some att), s)"
    using assms(1,3) by (simp add: AdminOperations_get_payment_with_attempt_def payments_get_order_def run_uow_def bindT_def)
  then show ?thesis using assms(2,4,5) by (auto simp: pay_dummy_order_def attempt_payment_id_def Let_def)
qed

lemma sandbox_in_production:
  "pg_production pay \<Longrightarrow> shop_ingest lib pay now ''dummy'' body [] s = (Inl (ValueError (''Unsupported payment provider: '' @ ''dummy'')), s)"
  by (simp add: shop_ingest_def IngestWebhook_execute_def registry_verify_def PaymentAdapterRegistry_get_def registered_adapters_def
      require_def bindE_def)

lemma latest_attempt_row: "payments_get_latest_attempt i s = Inr (Some att, s') \<Longrightarrow> att \<in> set (rows (d_attempts s)) \<and> pa_payment_order_id att = i"
  by (auto simp: payments_get_latest_attempt_def readT_def select_rows_def dest!: top_by_in)

lemma webhook_finds_attempt:
  assumes "attempts_constraints (d_attempts s)" and "att \<in> set (rows (d_attempts s))" and "pa_provider att = ''dummy''"
    and "pa_provider_payment_id att = Some pid" and "pid \<noteq> []"
  shows "attempt_of_webhook ''dummy'' (sandbox_event now i pid ord) (s\<lparr>d_inbox := t\<rparr>) = Inr (Some att, s\<lparr>d_inbox := t\<rparr>)"
  using attempt_found [OF assms(1-4)] assms(5)
  by (simp add: attempt_of_webhook_def payments_get_attempt_entity_by_provider_payment_id_def sandbox_event_def bindT_def entityT_def
      payment_attempt_from_row_def or_else_def)

section \<open>Properties\<close>

text \<open>C29. A payment reported in the sandbox is a payment the shop accepts: for an order of the dummy provider whose latest attempt has a
  provider payment id, pressing the page's button stores a new event, queues its processing, keeps the database's invariant, and the event
  passes the settlement rule for that attempt and order. In production the button changes nothing.\<close>

theorem sandbox_payment_is_valid:
  assumes "pay_inv s" and "inbox_constraints (d_inbox s)" and "get_row po_id i (d_orders s) = Some ord" and "po_provider ord = ''dummy''"
    and "payments_get_latest_attempt i s = Inr (Some att, s)" and "pa_provider att = ''dummy''"
    and "pa_provider_payment_id att = Some pid" and "pid \<noteq> []" and "form \<in> {[], pid}"
    and "event_entry ''dummy'' (paid_event_key i) s = None"
    and "pl_loads lib (pl_dumps lib (sandbox_payload i (Some pid) ord)) = Some (JObj (sandbox_payload i (Some pid) ord))"
  shows "if pg_production pay then \<exists>e. pay_dummy_order lib pay now i form s = (Inl e, s)
     else \<exists>r k ev s'. pay_dummy_order lib pay now i form s = (Inr (r, [PROCESS_PAYMENT_EVENT k]), s') \<and> pay_inv s' \<and>
       open_paid_event s' k ev att ord \<and> validate_paid_settlement (PaymentEvent_post_init ev) (Some att) ord = Inr ()"
proof (cases "pg_production pay")
  case True
  then show ?thesis using sandbox_call [OF assms(3-5,7,9)] sandbox_in_production [OF True] by auto
next
  case False
  let ?n = "sandbox_event now i pid ord" and ?k = "next_id (d_events s)"
  note att = latest_attempt_row [OF assms(5)]
  have inv: "orders_inv (d_orders s)" "table_wf pa_id (d_attempts s)" "attempts_constraints (d_attempts s)" "table_wf pe_id (d_events s)"
    using assms(1) by (simp_all add: pay_inv_def pay_inv_except_def)
  have ord: "order_row_ok ord" "po_id ord = Some i" using get_row_key [OF assms(3)] inv(1) by (simp_all add: orders_inv_def list_all_iff)
  then have money: "money_wf (po_amount ord)" by (simp add: order_row_ok_iff)
  obtain j where j: "pa_id att = Some j" "get_row pa_id j (d_attempts s) = Some att"
    using attempts_tab.wf_row_range [OF inv(2)] attempts_tab.get_row_member [OF inv(2)] att by metis
  let ?ev = "delivered_event ''dummy'' ?n (Some att) s"
  have att_order: "pa_payment_order_id att = i" using att by simp
  note ev = sandbox_event_fields [OF money j(1) att_order, of now pid s]
  have new: "event_entry ''dummy'' (ne_event_key ?n) s = None" using assms(10) by (simp add: sandbox_event_def)
  obtain b t where run: "ingest_tx ''dummy'' [] ?n (sandbox_payload i (Some pid) ord) now s =
      Inr ((b, ?ev), s\<lparr>d_inbox := t, d_events := (d_events s)\<lparr>rows := rows (d_events s) @ [?ev], next_id := ?k + 1\<rparr>\<rparr>)"
    using new_delivery [OF assms(1,2) new webhook_finds_attempt [OF inv(3) _ assms(6-8)]] att by blast
  let ?s = "s\<lparr>d_inbox := t, d_events := (d_events s)\<lparr>rows := rows (d_events s) @ [?ev], next_id := ?k + 1\<rparr>\<rparr>"
  have "get_row pe_id ?k (d_events ?s) = Some ?ev"
    using events_tab.get_row_new [OF inv(4)] ev(1) by (simp add: get_row_def find_append)
  then have "open_paid_event ?s ?k ?ev att ord"
    using j(2) assms(3) att_order unfolding open_paid_event_def ev(3)
    by (simp add: ev(2) PaymentEvent_normalized_payment_status_def)
  moreover have "pay_inv ?s" using preservesD [OF pay_inv_ingest] run assms(1) by blast
  moreover have "shop_ingest lib pay now ''dummy'' (pl_dumps lib (sandbox_payload i (Some pid) ord)) [] s =
      (Inr (\<lparr>ir_duplicate = \<not> b, ir_event_key = ne_event_key ?n, ir_payment_event_id = ?k\<rparr>, [PROCESS_PAYMENT_EVENT ?k]), ?s)"
    using sandbox_verified [OF False assms(8) money assms(11)] run ev(1)
    by (simp add: shop_ingest_def IngestWebhook_execute_def parse_raw_payload_def assms(11) run_uow_def bindT_def liftT_def require_def bindE_def)
  ultimately show ?thesis
    using False sandbox_call [OF assms(3-5,7,9)] sandbox_event_settles [OF money j(1) att_order ord(2) assms(4,6-8)] by auto
qed

definition sandbox_lib :: pay_lib where
  "sandbox_lib = sample_pay\<lparr>pl_loads := (\<lambda>_. Some (JObj (sandbox_payload 1 (Some ''p1'') sample_order)))\<rparr>"

theorem sandbox_payment_is_valid_witness:
  "\<exists>r k ev s'. pay_dummy_order sandbox_lib (sample_pay_settings\<lparr>pg_production := False\<rparr>) 10 1 [] (sample_shop []) =
       (Inr (r, [PROCESS_PAYMENT_EVENT k]), s') \<and> open_paid_event s' k ev pending_attempt sample_order"
proof -
  have inv: "pay_inv (sample_shop [])" by (rule sample_shop_inv) (simp_all add: table_wf_def events_constraints_def)
  have facts: "inbox_constraints (d_inbox (sample_shop []))" "get_row po_id 1 (d_orders (sample_shop [])) = Some sample_order"
    "po_provider sample_order = ''dummy''" "payments_get_latest_attempt 1 (sample_shop []) = Inr (Some pending_attempt, sample_shop [])"
    "pa_provider pending_attempt = ''dummy''" "pa_provider_payment_id pending_attempt = Some ''p1''" "''p1'' \<noteq> []" "([] :: string) \<in> {[], ''p1''}"
    "event_entry ''dummy'' (paid_event_key 1) (sample_shop []) = None"
    "pl_loads sandbox_lib (pl_dumps sandbox_lib (sandbox_payload 1 (Some ''p1'') sample_order)) = Some (JObj (sandbox_payload 1 (Some ''p1'') sample_order))"
    by (simp_all add: sample_shop_def empty_db_def empty_table_def inbox_constraints_def get_row_def sample_order_def payments_get_latest_attempt_def
        readT_def select_rows_def pending_attempt_def sample_attempt_def event_entry_def find_row_def sandbox_lib_def)
  show ?thesis
    using sandbox_payment_is_valid [OF inv facts, of "sample_pay_settings\<lparr>pg_production := False\<rparr>" 10] by auto
qed

end
