(* ===== verification/RawRepo.thy ===== *)
theory RawRepo
  imports PayRepo VpnRepo NodeRepo
begin

text \<open>
  Operations of the repositories (\<^verbatim>\<open>infrastructure/persistence/repositories\<close>) that no use case calls: they write columns without the checks
  of the entities. The lemmas say what they skip: the rows they write follow no lifecycle, only the tables' constraints.
\<close>

section \<open>VPN configurations\<close>

definition vpn_create_configuration ::
  "int \<Rightarrow> int \<Rightarrow> uuid \<Rightarrow> string \<Rightarrow> VpnConfigurationStatus \<Rightarrow> VpnDesiredState \<Rightarrow> int \<Rightarrow> string option \<Rightarrow> int tx" where
  "vpn_create_configuration subscription_id server_endpoint_id client_uuid display_name status desired_state generation remote_client_ref =
     bindT (readT (\<lambda>s. s)) (\<lambda>s.
     let (row, t) = insert_row (\<lambda>i r. r\<lparr>vc_id := Some i\<rparr>)
           \<lparr>vc_id = None, vc_subscription_id = subscription_id, vc_server_endpoint_id = server_endpoint_id, vc_client_uuid = client_uuid,
            vc_display_name = display_name, vc_status = status, vc_remote_client_ref = remote_client_ref, vc_created_at = Some (d_clock s),
            vc_revoked_at = None, vc_desired_state = desired_state, vc_generation = generation\<rparr> (d_vpns s) in
     bindT (put_vpns t) (\<lambda>_. retT (next_id (d_vpns s))))"

definition update_vpns_row :: "int \<Rightarrow> (VpnConfiguration \<Rightarrow> VpnConfiguration) \<Rightarrow> unit tx" where
  "update_vpns_row i f = bindT (readT d_vpns) (\<lambda>t. put_vpns (update_row vc_id i f t))"

definition kept_or :: "'a option \<Rightarrow> 'a option \<Rightarrow> 'a option" where
  "kept_or given old = (case given of None \<Rightarrow> old | Some _ \<Rightarrow> given)"

definition vpn_activate_configuration :: "int \<Rightarrow> string option \<Rightarrow> unit tx" where
  "vpn_activate_configuration vpn_configuration_id remote_client_ref =
     update_vpns_row vpn_configuration_id
       (\<lambda>r. r\<lparr>vc_status := VS_ACTIVE, vc_revoked_at := None, vc_remote_client_ref := kept_or remote_client_ref (vc_remote_client_ref r)\<rparr>)"

definition vpn_mark_configuration_status :: "int \<Rightarrow> VpnConfigurationStatus \<Rightarrow> time option \<Rightarrow> string option \<Rightarrow> unit tx" where
  "vpn_mark_configuration_status vpn_configuration_id status revoked_at remote_client_ref =
     update_vpns_row vpn_configuration_id
       (\<lambda>r. r\<lparr>vc_status := status, vc_revoked_at := kept_or revoked_at (vc_revoked_at r),
              vc_remote_client_ref := kept_or remote_client_ref (vc_remote_client_ref r)\<rparr>)"

definition vpn_revoke_configuration :: "int \<Rightarrow> time \<Rightarrow> VpnConfigurationStatus \<Rightarrow> unit tx" where
  "vpn_revoke_configuration vpn_configuration_id revoked_at status =
     update_vpns_row vpn_configuration_id (\<lambda>r. r\<lparr>vc_status := status, vc_revoked_at := Some revoked_at\<rparr>)"

section \<open>Payments\<close>

record claim_columns =
  cc_claimed_at :: "time option"
  cc_lease_expires_at :: "time option"
  cc_lease_token :: "uuid option"

definition payments_update_attempt_status ::
  "int \<Rightarrow> PaymentStatus \<Rightarrow> string option \<Rightarrow> string option \<Rightarrow> dict option \<Rightarrow> claim_columns \<Rightarrow> bool \<Rightarrow> time option \<Rightarrow> unit tx" where
  "payments_update_attempt_status payment_attempt_id status provider_payment_id payment_url payload claim clear_creation_claim updated_at =
     bindT (readT (\<lambda>s. s)) (\<lambda>s.
     put_attempts (update_row pa_id payment_attempt_id
       (\<lambda>r. r\<lparr>pa_status := status, pa_updated_at := Some (case updated_at of None \<Rightarrow> d_clock s | Some u \<Rightarrow> u),
              pa_provider_payment_id := kept_or provider_payment_id (pa_provider_payment_id r),
              pa_payment_url := kept_or payment_url (pa_payment_url r),
              pa_payload := (case payload of None \<Rightarrow> pa_payload r | Some p \<Rightarrow> p),
              pa_creation_claimed_at := (if clear_creation_claim then None else cc_claimed_at claim),
              pa_creation_lease_expires_at := (if clear_creation_claim then None else cc_lease_expires_at claim),
              pa_creation_lease_token := (if clear_creation_claim then None else cc_lease_token claim)\<rparr>) (d_attempts s)))"

definition payments_mark_order_paid :: "int \<Rightarrow> time \<Rightarrow> unit tx" where
  "payments_mark_order_paid order_id paid_at =
     bindT (readT d_orders) (\<lambda>t.
     put_orders (update_row po_id order_id
       (\<lambda>r. r\<lparr>po_status := PS_PAID, po_paid_at := Some paid_at, po_updated_at := Some paid_at\<rparr>) t))"

definition payments_mark_order_status :: "int \<Rightarrow> PaymentStatus \<Rightarrow> time \<Rightarrow> unit tx" where
  "payments_mark_order_status order_id status updated_at =
     bindT (readT d_orders) (\<lambda>t.
     put_orders (update_row po_id order_id (\<lambda>r. r\<lparr>po_status := status, po_updated_at := Some updated_at\<rparr>) t))"

definition payments_mark_payment_event_status :: "int \<Rightarrow> PaymentEventStatus \<Rightarrow> time option \<Rightarrow> string option \<Rightarrow> unit tx" where
  "payments_mark_payment_event_status payment_event_id status processed_at error_message =
     bindT (readT d_events) (\<lambda>t.
     put_events (update_row pe_id payment_event_id
       (\<lambda>r. r\<lparr>pe_status := status, pe_error_message := error_message, pe_processed_at := kept_or processed_at (pe_processed_at r)\<rparr>) t))"

section \<open>Nodes and node tasks\<close>

definition nodes_get_node_by_key :: "string \<Rightarrow> Node option tx" where
  "nodes_get_node_by_key node_key = readT (\<lambda>s. find_row (\<lambda>n. no_node_key n = node_key) (d_nodes s))"

definition nodes_touch_node_success :: "int \<Rightarrow> time \<Rightarrow> unit tx" where
  "nodes_touch_node_success node_id seen_at =
     bindT (update_nodes_row node_id (\<lambda>n. n\<lparr>no_status := NS_ONLINE, no_last_seen_at := Some seen_at, no_last_error := None\<rparr>)) (\<lambda>_.
     bindT (readT d_nstatus) (\<lambda>rs.
     put_nstatus (map (\<lambda>r. if st_node_id r = node_id
       then r\<lparr>st_health_status := NS_ONLINE, st_last_seen_at := Some seen_at, st_updated_at := seen_at\<rparr> else r) rs)))"

definition nodes_get_active_node_for_endpoint :: "int option \<Rightarrow> (Node \<times> NodeStatus option) option tx" where
  "nodes_get_active_node_for_endpoint endpoint_node_id =
     (case endpoint_node_id of
        None \<Rightarrow> retT None
      | Some i \<Rightarrow>
          readT (\<lambda>s. map_option (\<lambda>n. (n, map_option st_health_status (status_of_node i s)))
            (find_row (\<lambda>n. no_id n = Some i \<and> no_is_enabled n) (d_nodes s))))"

definition nodes_get_node_entity :: "int \<Rightarrow> Node option tx" where
  "nodes_get_node_entity node_id = bindT (nodes_get_node node_id) (entityT node_from_row)"

definition nodes_save_node_entity :: "Node \<Rightarrow> unit tx" where
  "nodes_save_node_entity node =
     (case no_id node of
        None \<Rightarrow> raiseT (ValueError ''Cannot save node without id'')
      | Some i \<Rightarrow>
          update_nodes_row i (\<lambda>n. n\<lparr>no_display_name := no_display_name node, no_api_base_url := no_api_base_url node, no_status := no_status node,
            no_is_enabled := no_is_enabled node, no_selection_weight := no_selection_weight node, no_last_seen_at := no_last_seen_at node,
            no_last_error := no_last_error node\<rparr>))"

definition update_ntasks_row :: "int \<Rightarrow> (NodeTask \<Rightarrow> NodeTask) \<Rightarrow> unit tx" where
  "update_ntasks_row i f = bindT (readT d_ntasks) (\<lambda>t. put_ntasks (update_row nt_id i f t))"

definition nodes_mark_task_in_progress :: "int \<Rightarrow> time \<Rightarrow> NodeTask option tx" where
  "nodes_mark_task_in_progress node_task_id started_at =
     bindT (update_ntasks_row node_task_id
       (\<lambda>t. t\<lparr>nt_status := NTS_IN_PROGRESS, nt_attempts := nt_attempts t + 1, nt_updated_at := Some started_at, nt_last_error := None\<rparr>)) (\<lambda>_.
     readT (\<lambda>s. get_row nt_id node_task_id (d_ntasks s)))"

definition nodes_mark_task_succeeded :: "int \<Rightarrow> dict \<Rightarrow> string option \<Rightarrow> time \<Rightarrow> unit tx" where
  "nodes_mark_task_succeeded node_task_id response_payload remote_client_ref completed_at =
     update_ntasks_row node_task_id
       (\<lambda>t. t\<lparr>nt_status := NTS_SUCCEEDED, nt_response_payload := Some response_payload, nt_remote_client_ref := opt_str remote_client_ref,
              nt_completed_at := Some completed_at, nt_updated_at := Some completed_at, nt_last_error := None\<rparr>)"

definition nodes_mark_task_retry :: "int \<Rightarrow> time \<Rightarrow> string \<Rightarrow> dict option \<Rightarrow> unit tx" where
  "nodes_mark_task_retry node_task_id next_retry_at last_error response_payload =
     bindT (readT d_clock) (\<lambda>now.
     update_ntasks_row node_task_id
       (\<lambda>t. t\<lparr>nt_status := NTS_PENDING, nt_next_retry_at := Some next_retry_at, nt_last_error := Some last_error, nt_updated_at := Some now,
              nt_response_payload := kept_or response_payload (nt_response_payload t)\<rparr>))"

definition nodes_mark_task_failed :: "int \<Rightarrow> string \<Rightarrow> dict option \<Rightarrow> time \<Rightarrow> unit tx" where
  "nodes_mark_task_failed node_task_id last_error response_payload completed_at =
     update_ntasks_row node_task_id
       (\<lambda>t. t\<lparr>nt_status := NTS_FAILED, nt_last_error := Some last_error, nt_completed_at := Some completed_at, nt_updated_at := Some completed_at,
              nt_response_payload := kept_or response_payload (nt_response_payload t)\<rparr>)"

section \<open>What they guarantee and what they skip\<close>

interpretation nodes_rows: keyed_table no_id "\<lambda>i r. r\<lparr>no_id := Some i\<rparr>" by unfold_locales simp

text \<open>A saved node loads again as the entity that was saved, if the key was not changed and the entity is valid.\<close>

lemma saved_node_loads:
  assumes "nodes_save_node_entity node s = Inr ((), s')" and "no_id node = Some i" and "get_row no_id i (d_nodes s) = Some old"
    and "no_node_key node = no_node_key old" and "Node_post_init node = Inr node"
  shows "nodes_get_node_entity i s' = Inr (Some node, s')"
proof -
  let ?f = "\<lambda>n. n\<lparr>no_display_name := no_display_name node, no_api_base_url := no_api_base_url node, no_status := no_status node,
    no_is_enabled := no_is_enabled node, no_selection_weight := no_selection_weight node, no_last_seen_at := no_last_seen_at node,
    no_last_error := no_last_error node\<rparr>"
  have s': "d_nodes s' = update_row no_id i ?f (d_nodes s)"
    using assms(1,2) by (auto simp: nodes_save_node_entity_def update_nodes_row_def bindT_Inr put_nodes_def writeT_Inr_iff)
  have id: "no_id old = Some i" using get_row_key [OF assms(3)] by simp
  have "get_row no_id i (d_nodes s') = Some (?f old)"
    using assms(3) unfolding s' by (simp add: nodes_rows.update_row_lookup)
  moreover have "?f old = node" using assms(2,4) id by simp
  ultimately show ?thesis
    using assms(5) by (simp add: nodes_get_node_entity_def nodes_get_node_def bindT_def entityT_def node_from_row_def liftT_def)
qed

text \<open>The unchecked activation makes any configuration active, also one whose withdrawal was requested, as long as the table's constraints hold;
  the entity's operation refuses that.\<close>

lemma raw_activation_ignores_withdrawal:
  assumes "get_row vc_id i (d_vpns s) = Some c" and "vc_desired_state c = VD_REVOKED" and "vpn_activate_configuration i r s = Inr ((), s')"
  shows "\<exists>c'. get_row vc_id i (d_vpns s') = Some c' \<and> vc_status c' = VS_ACTIVE \<and> vc_desired_state c' = VD_REVOKED"
    and "\<exists>e. VpnConfiguration_activate c r = Inl e"
proof -
  have "d_vpns s' = update_row vc_id i (\<lambda>r'. r'\<lparr>vc_status := VS_ACTIVE, vc_revoked_at := None,
      vc_remote_client_ref := kept_or r (vc_remote_client_ref r')\<rparr>) (d_vpns s)"
    using assms(3) by (auto simp: vpn_activate_configuration_def update_vpns_row_def bindT_Inr put_vpns_def writeT_Inr_iff)
  then show "\<exists>c'. get_row vc_id i (d_vpns s') = Some c' \<and> vc_status c' = VS_ACTIVE \<and> vc_desired_state c' = VD_REVOKED"
    using assms(1,2) by (simp add: vpns_tab.update_row_lookup)
  show "\<exists>e. VpnConfiguration_activate c r = Inl e"
    using assms(2) by (auto simp: VpnConfiguration_activate_def bindE_def ensure_def)
qed

text \<open>The unchecked payment of an order adds no period, so the order no longer has the period it paid for.\<close>

lemma raw_payment_adds_no_period: "payments_mark_order_paid i t s = Inr ((), s') \<Longrightarrow> d_periods s' = d_periods s"
  by (auto simp: payments_mark_order_paid_def bindT_Inr put_orders_def writeT_Inr_iff)

end
