(* ===== verification/SeedDemo.thy ===== *)
theory SeedDemo
  imports Config RawRepo
begin

text \<open>
  Demo rows for development (\<^verbatim>\<open>bootstrap/seed_demo.py\<close>): one tariff, optionally the demo node with its credential, one server with one
  endpoint. The inserts are those of the tables, so their constraints apply; the log messages are left out.
\<close>

section \<open>Inserts\<close>

definition insert_tariff :: "Tariff \<Rightarrow> unit tx" where
  "insert_tariff r = bindT (readT d_tariffs) (\<lambda>t. put_tariffs (snd (insert_row (\<lambda>i r. r\<lparr>ta_id := Some i\<rparr>) r t)))"

definition insert_node :: "Node \<Rightarrow> int tx" where
  "insert_node r = bindT (readT d_nodes) (\<lambda>t. bindT (put_nodes (snd (insert_row (\<lambda>i r. r\<lparr>no_id := Some i\<rparr>) r t))) (\<lambda>_. retT (next_id t)))"

definition insert_credential :: "NodeCredential \<Rightarrow> unit tx" where
  "insert_credential r = bindT (readT (\<lambda>s. s)) (\<lambda>s.
     put_creds (snd (insert_row (\<lambda>i r. r\<lparr>nc_id := Some i\<rparr>) (r\<lparr>nc_created_at := d_clock s\<rparr>) (d_creds s))))"

definition insert_server :: "ServerRow \<Rightarrow> int tx" where
  "insert_server r =
     bindT (readT d_servers) (\<lambda>t. bindT (put_servers (snd (insert_row (\<lambda>i r. r\<lparr>sv_id := Some i\<rparr>) r t))) (\<lambda>_. retT (next_id t)))"

definition insert_endpoint :: "EndpointRow \<Rightarrow> unit tx" where
  "insert_endpoint r = bindT (readT d_endpoints) (\<lambda>t. put_endpoints (snd (insert_row (\<lambda>i r. r\<lparr>en_id := Some i\<rparr>) r t)))"

section \<open>Seeding\<close>

definition seed_tariff :: "Settings \<Rightarrow> unit tx" where
  "seed_tariff cfg =
     bindT (readT d_tariffs) (\<lambda>t.
     if rows t \<noteq> [] then retT ()
     else insert_tariff \<lparr>ta_id = None, ta_name = ''1 month'', ta_price = \<lparr>minor = 9900, currency = se_default_currency cfg\<rparr>, ta_period_days = 30,
            ta_description = Some ''Demo tariff seeded automatically'', ta_is_enabled = True\<rparr>)"

definition seed_node :: "Settings \<Rightarrow> int option tx" where
  "seed_node cfg =
     (if \<not> se_demo_node_auto_register cfg then retT None
      else
        bindT (nodes_get_node_by_key (se_demo_node_key cfg)) (\<lambda>existing.
        case existing of
          Some node \<Rightarrow> retT (no_id node)
        | None \<Rightarrow>
            bindT (insert_node \<lparr>no_id = None, no_node_key = se_demo_node_key cfg, no_display_name = se_demo_node_display_name cfg,
                     no_api_base_url = se_demo_node_api_base_url cfg, no_status = NS_UNKNOWN, no_is_enabled = True, no_selection_weight = 100,
                     no_last_seen_at = None, no_last_error = None\<rparr>) (\<lambda>i.
            bindT (insert_credential \<lparr>nc_id = None, nc_node_id = i, nc_key_id = se_demo_node_key_id cfg,
                     nc_shared_secret = se_demo_node_shared_secret cfg, nc_is_active = True, nc_created_at = 0, nc_expires_at = None\<rparr>) (\<lambda>_.
            retT (Some i)))))"

definition seed_server :: "Settings \<Rightarrow> int option \<Rightarrow> unit tx" where
  "seed_server cfg demo_node_id =
     bindT (readT d_servers) (\<lambda>t.
     if rows t \<noteq> [] then retT ()
     else
       bindT (insert_server \<lparr>sv_id = None, sv_server_name = ''demo-server'', sv_host = se_node_agent_public_host cfg, sv_is_enabled = True\<rparr>) (\<lambda>i.
       insert_endpoint \<lparr>en_id = None, en_server_id = i, en_protocol = se_node_agent_protocol cfg, en_port = se_node_agent_public_port cfg,
         en_security = se_node_agent_security cfg, en_node_id = demo_node_id,
         en_local_inbound_id = (case demo_node_id of None \<Rightarrow> None | Some _ \<Rightarrow> Some (se_node_agent_inbound_id cfg)), en_sni = se_node_agent_sni cfg,
         en_fingerprint = se_node_agent_fingerprint cfg, en_public_key = se_node_agent_public_key cfg, en_short_id = se_node_agent_short_id cfg,
         en_transport_type = se_node_agent_transport_type cfg, en_flow = se_node_agent_flow cfg, en_encryption = se_node_agent_encryption cfg,
         en_is_enabled = True\<rparr>))"

definition seed_demo_data :: "Settings \<Rightarrow> db \<Rightarrow> unit res \<times> db" where
  "seed_demo_data cfg s =
     (if is_production cfg then (Inl (RuntimeError ''Demo seeding is disabled in production''), s)
      else run_uow (bindT (seed_tariff cfg) (\<lambda>_. bindT (seed_node cfg) (seed_server cfg))) s)"

section \<open>Seeding twice is seeding once\<close>

lemma seed_production: "is_production cfg \<Longrightarrow> snd (seed_demo_data cfg s) = s"
  by (simp add: seed_demo_data_def)

definition seeded :: "Settings \<Rightarrow> db \<Rightarrow> bool" where
  "seeded cfg s \<longleftrightarrow> rows (d_tariffs s) \<noteq> [] \<and> rows (d_servers s) \<noteq> [] \<and>
     (se_demo_node_auto_register cfg \<longrightarrow> find_row (\<lambda>n. no_node_key n = se_demo_node_key cfg) (d_nodes s) \<noteq> None)"

lemma seeded_unchanged: "seeded cfg s \<Longrightarrow> \<not> is_production cfg \<Longrightarrow> seed_demo_data cfg s = (Inr (), s)"
  by (auto simp: seed_demo_data_def seeded_def seed_tariff_def seed_node_def seed_server_def nodes_get_node_by_key_def bindT_def run_uow_def)

lemma insert_rows_nonempty [simp]: "rows (snd (insert_row k r t)) \<noteq> []"
  by (simp add: insert_row_def Let_def)

lemma insert_node_found:
  assumes "insert_node r s = Inr (i, s')"
  shows "find_row (\<lambda>n. no_node_key n = no_node_key r) (d_nodes s') \<noteq> None"
  using assms
  by (auto simp: insert_node_def bindT_Inr put_nodes_def writeT_Inr_iff find_row_def insert_row_def find_append Let_def split: option.splits)

lemma seed_node_seeds:
  assumes "seed_node cfg s = Inr (x, s')"
  shows "d_tariffs s' = d_tariffs s" and "d_servers s' = d_servers s"
    and "se_demo_node_auto_register cfg \<Longrightarrow> find_row (\<lambda>n. no_node_key n = se_demo_node_key cfg) (d_nodes s') \<noteq> None"
proof -
  have frame: "d_tariffs t' = d_tariffs t \<and> d_servers t' = d_servers t" if "insert_node r t = Inr (i, t')" for r t t' i
    using that by (auto simp: insert_node_def bindT_Inr put_nodes_def writeT_Inr_iff)
  have cred: "d_tariffs t' = d_tariffs t \<and> d_servers t' = d_servers t \<and> d_nodes t' = d_nodes t" if "insert_credential r t = Inr (i, t')" for r t t' i
    using that by (auto simp: insert_credential_def bindT_Inr put_creds_def writeT_Inr_iff)
  show "d_tariffs s' = d_tariffs s" "d_servers s' = d_servers s"
    using assms frame cred by (auto simp: seed_node_def nodes_get_node_by_key_def bindT_Inr split: if_splits option.splits)
  assume auto: "se_demo_node_auto_register cfg"
  show "find_row (\<lambda>n. no_node_key n = se_demo_node_key cfg) (d_nodes s') \<noteq> None"
  proof (cases "find_row (\<lambda>n. no_node_key n = se_demo_node_key cfg) (d_nodes s)")
    case None
    then obtain i t where "insert_node \<lparr>no_id = None, no_node_key = se_demo_node_key cfg, no_display_name = se_demo_node_display_name cfg,
                     no_api_base_url = se_demo_node_api_base_url cfg, no_status = NS_UNKNOWN, no_is_enabled = True, no_selection_weight = 100,
                     no_last_seen_at = None, no_last_error = None\<rparr> s = Inr (i, t)" and "d_nodes s' = d_nodes t"
      using assms auto cred by (auto simp: seed_node_def nodes_get_node_by_key_def bindT_Inr)
    then show ?thesis using insert_node_found by fastforce
  next
    case (Some n)
    then show ?thesis using assms auto by (auto simp: seed_node_def nodes_get_node_by_key_def bindT_Inr)
  qed
qed

lemma seed_server_seeds:
  assumes "seed_server cfg x s = Inr (u, s')"
  shows "rows (d_servers s') \<noteq> []" and "d_tariffs s' = d_tariffs s" and "d_nodes s' = d_nodes s"
  using assms
  by (auto simp: seed_server_def insert_server_def insert_endpoint_def bindT_Inr put_servers_def put_endpoints_def writeT_Inr_iff split: if_splits)

text \<open>A second start of the API, also after rows were added meanwhile, changes nothing.\<close>

lemma seeding_is_idempotent:
  assumes "seed_demo_data cfg s = (Inr (), s1)"
  shows "seed_demo_data cfg s1 = (Inr (), s1)"
proof -
  have prod: "\<not> is_production cfg" using assms by (auto simp: seed_demo_data_def)
  obtain t x t' where run: "seed_tariff cfg s = Inr ((), t)" "seed_node cfg t = Inr (x, t')" "seed_server cfg x t' = Inr ((), s1)"
    using assms prod by (auto simp: seed_demo_data_def run_uow_Inr bindT_Inr)
  have "rows (d_tariffs t) \<noteq> []"
    using run(1) by (auto simp: seed_tariff_def insert_tariff_def bindT_Inr put_tariffs_def writeT_Inr_iff split: if_splits)
  then have "seeded cfg s1"
    using seed_node_seeds [OF run(2)] seed_server_seeds [OF run(3)] by (simp add: seeded_def)
  then show ?thesis using prod by (rule seeded_unchanged)
qed

end
