(* ===== verification/Spec2Isabelle.thy ===== *)
theory Spec2Isabelle
  imports Money NodeSelection SettleProps CreateProps WebhookProps ShopProps WorkerProps NodeClient Xui Adapters Legacy WebhookApi Config BotProps Worker AgentStatus Sandbox RawRepo SeedDemo
begin

text \<open>
  Verification of the VPN shop (\<^verbatim>\<open>src/src/shop_bot\<close>; paths below are relative to it).

  \<^bold>\<open>The program.\<close> Customers order a tariff through a Telegram bot. The API creates a payment order and an attempt at a payment provider;
  the provider's webhook is stored as an event; a worker settles the event, extends or opens a subscription and provisions a VPN client,
  either through a signed request to an agent on a node or directly on a 3x-ui panel. Reconciliation withdraws the access when no paid
  period is left. API, bot, worker and node agents are processes of their own; they meet in one PostgreSQL database, a job queue in Redis,
  and the HTTP interface of the agents. Every handler is a few short transactions with calls to other systems between them, so leases,
  generations and idempotency keys carry the correctness.

  \<^bold>\<open>How it is modelled.\<close>
  \<^item> Entities and rows are records with the source's fields, enumerations are datatypes, every raise is a value of \<open>error\<close> and a fallible
    function returns \<open>error + 'a\<close> (\<open>'a res\<close>).
  \<^item> The database is the record \<open>db\<close> of tables (lists of rows in insertion order with the next identifier). A transaction is a function
    \<open>'a tx = db \<Rightarrow> error + ('a \<times> db)\<close>; a write that violates a unique or CHECK constraint of \<^verbatim>\<open>tables.py\<close> is an \<open>IntegrityError\<close>, and
    \<open>run_uow\<close> restores the state before a failed transaction, as the unit of work does.
  \<^item> A handler of several transactions is a function of the database that takes what happens meanwhile (other transactions, the answer of a
    provider, a node or a panel, clock readings, fresh UUIDs, random choices) as arguments.
  \<^item> Instants are integers counting microseconds, JSON values are a datatype without fractional numbers, texts are \<open>string\<close>s of one-byte
    characters, floats in settings are rationals. The wording of the bot's messages is represented by constructors with their values.
  \<^item> Code that is not part of the repository is a parameter: digests, JSON and timestamp texts, HTTP, the panel, Telegram. What is assumed of
    it stands in the statements (\<open>honest_panel\<close>, \<open>can_talk\<close>, \<open>floats_ok\<close>, that a JSON parser reads the text that was printed).

  \<^bold>\<open>The theories, in the order of the imports.\<close>
  \<^item> \<open>Prelude\<close>, \<open>Lease\<close>: results, JSON, tables and the locale \<open>keyed_table\<close>; the contract of leased tasks as a locale, interpreted by the
    node and panel tasks, whose consequence is fencing.
  \<^item> \<open>Money\<close>, \<open>Payment\<close>, \<open>Subscription\<close>, \<open>NodeTask\<close>, \<open>PanelTask\<close>, \<open>VpnConfig\<close>, \<open>NodeSelection\<close>: the entities of \<^verbatim>\<open>domain/\<close> with every operation,
    their life cycles as step relations, the settlement rule, the policy that extends subscriptions, the VLESS URI, the weighted choice of a node.
  \<^item> \<open>Store\<close>, \<open>PayRepo\<close>, \<open>VpnRepo\<close>, \<open>NodeRepo\<close>, \<open>ServerRepo\<close>, \<open>RawRepo\<close>, \<open>Listings\<close>: \<^verbatim>\<open>infrastructure/persistence\<close>, the tables with their
    constraints, the row mappers and the repositories.
  \<^item> \<open>ProcessPay\<close>, \<open>CreatePay\<close>, \<open>Provision\<close>, \<open>Revoke\<close>, \<open>DispatchNode\<close>, \<open>DispatchPanel\<close>, \<open>Reconcile\<close>, \<open>NodeAdmin\<close>, \<open>Legacy\<close>: the use cases of
    \<^verbatim>\<open>application/use_cases\<close> and the older services of \<^verbatim>\<open>domain\<close>.
  \<^item> \<open>NodeAuth\<close>, \<open>Journal\<close>, \<open>NodeAgent\<close>, \<open>NodeClient\<close>, \<open>Xui\<close>, \<open>AgentStatus\<close>: the signed protocol between shop and nodes, from
    \<^verbatim>\<open>infrastructure/nodes\<close>, \<^verbatim>\<open>infrastructure/xui.py\<close> and \<^verbatim>\<open>apps/node_agent\<close>, with the client and the agent composed over one transport.
  \<^item> \<open>Adapters\<close>: the payment providers of \<^verbatim>\<open>infrastructure/payments\<close>.
  \<^item> \<open>AdminApi\<close>, \<open>WebhookApi\<close>, \<open>Sandbox\<close>, \<open>BotUi\<close>, \<open>Bot\<close>: the routes of \<^verbatim>\<open>apps/api\<close> and the handlers of \<^verbatim>\<open>apps/bot\<close>.
  \<^item> \<open>Config\<close>, \<open>SeedDemo\<close>: the settings with their validation, what \<^verbatim>\<open>bootstrap/container.py\<close> passes on, demo rows.
  \<^item> \<open>Worker\<close>: messages, registered functions, jobs, cron table and start-up recovery of \<^verbatim>\<open>apps/worker/main.py\<close>.

  \<^bold>\<open>What is shown.\<close>
  \<^item> \<open>PayInv\<close>, \<open>Settlement\<close>, \<open>SettleProps\<close>, \<open>SettleLive\<close>, \<open>CreateInv\<close>, \<open>CreateProps\<close>, \<open>WebhookProps\<close>: every payment transaction keeps \<open>pay_inv\<close>, by
    which an order is paid exactly when one period was sold for it; handlers settle valid events, reject others, are idempotent.
  \<^item> \<open>AccessLife\<close> states an abstract specification of one access (\<open>life_step\<close>: granted only to an entitled subscription, each withdrawal a new
    generation, no way back); \<open>AccessRefine\<close> and \<open>DispatchRefine\<close> show that each access transaction takes every stored configuration along its
    steps; \<open>AccessInv\<close> and \<open>PayFrame\<close> that the two sides do not disturb each other.
  \<^item> \<open>Shop\<close> is the transition system of all transactions with any arguments and interleaving; \<open>ShopProps\<close> has the properties of all its
    reachable states, \<open>Scenario\<close> a run of it from the empty database that reaches paid, granted and withdrawn states.
  \<^item> \<open>WorkerProps\<close>: leases exclude, a worker whose claim was superseded changes nothing, reconciliation is bounded.
  \<^item> \<open>Worker\<close>: whatever the queue loses or repeats, the worker's runs are runs of the shop, and lost deliveries are
    enqueued again where the database has a due record of them.
  \<^item> The remaining properties stand in the theory of their component, after the text that names them.

  \<^bold>\<open>Bounds.\<close> There is no fuel: loops over rows are recursions on lists, the loop of reconciliation runs at most
  \<^verbatim>\<open>reconciliation_max_batches_per_run\<close> batches as in the code and its recursion is on that number. The limits of the recovery jobs
  (100 rows) are the code's.

  \<^bold>\<open>Not modelled.\<close> Alembic migrations and the frozen first schema (they run before the program and their result is \<^verbatim>\<open>tables.py\<close>); protocol
  classes without code; log records, tracing and metrics; HTML, static files and liveness probes; opening connections, pools and files;
  foreign keys (the invariants show that the references of orders, periods and tasks hold), the unused outbox table, transaction isolation below one atomic transaction
  (rows are locked by the code before they are changed).
\<close>

end
